(* ===== verification/Prelude.thy ===== *)
theory Prelude
  imports Main "HOL-Library.Word" "HOL-Library.AList"
begin

text \<open>
  Shared ground of the development: the machine integers of the Go sources, slices, the
  little-endian accessors of \<^verbatim>\<open>encoding/binary\<close>, results of fallible functions, and the
  interface every fixed-size wire header satisfies.

  Go's \<^verbatim>\<open>uint8\<close>, \<^verbatim>\<open>uint16\<close>, \<^verbatim>\<open>uint32\<close> and \<^verbatim>\<open>uint64\<close> are words of that width, so that
  conversions truncate and additions wrap as they do in the sources; a Go \<^verbatim>\<open>int\<close> that only
  holds a length or an offset is a \<^typ>\<open>nat\<close>.  An indexed read stands behind the length test
  the source makes before it.
\<close>

unbundle bit_operations_syntax

section \<open>Machine integers, slices, results\<close>

type_synonym byte = "8 word"
type_synonym u8 = "8 word"
type_synonym u16 = "16 word"
type_synonym u32 = "32 word"
type_synonym u64 = "64 word"

text \<open>The Go slice expression \<^verbatim>\<open>xs[i:j]\<close>, for \<open>i \<le> j \<le> length xs\<close>.\<close>

definition go_slice :: "nat \<Rightarrow> nat \<Rightarrow> 'a list \<Rightarrow> 'a list" where
  "go_slice i j xs = drop i (take j xs)"

text \<open>Sequencing of fallible computations: the early \<^verbatim>\<open>return err\<close> of Go.\<close>

definition bind_res :: "'e + 'a \<Rightarrow> ('a \<Rightarrow> 'e + 'b) \<Rightarrow> 'e + 'b" where
  "bind_res r f = (case r of Inl e \<Rightarrow> Inl e | Inr a \<Rightarrow> f a)"

section \<open>Little-endian accessors\<close>

text \<open>\<^verbatim>\<open>binary.LittleEndian.Uint16\<close>, \<^verbatim>\<open>PutUint16\<close>, \<^verbatim>\<open>Uint32\<close>, \<^verbatim>\<open>PutUint32\<close>, \<^verbatim>\<open>Uint64\<close>.\<close>

definition Uint16 :: "byte list \<Rightarrow> u16" where
  "Uint16 b = ucast (b ! 0) OR push_bit 8 (ucast (b ! 1))"

definition PutUint16 :: "u16 \<Rightarrow> byte list" where
  "PutUint16 v = [ucast v, ucast (drop_bit 8 v)]"

definition Uint32 :: "byte list \<Rightarrow> u32" where
  "Uint32 b = ucast (b ! 0) OR push_bit 8 (ucast (b ! 1))
     OR push_bit 16 (ucast (b ! 2)) OR push_bit 24 (ucast (b ! 3))"

definition PutUint32 :: "u32 \<Rightarrow> byte list" where
  "PutUint32 v = [ucast v, ucast (drop_bit 8 v), ucast (drop_bit 16 v), ucast (drop_bit 24 v)]"

named_theorems codec_simps \<open>unfolding of the byte layouts of wire structures\<close>

lemma byte_bit_high [simp]: "8 \<le> n \<Longrightarrow> \<not> bit (a :: byte) n"
  using bit_imp_le_length [of a n] by auto

lemma length_PutUint16 [simp]: "length (PutUint16 v) = 2"
  by (simp add: PutUint16_def)

lemma length_PutUint32 [simp]: "length (PutUint32 v) = 4"
  by (simp add: PutUint32_def)

lemma Uint16_bytes [simp]: "Uint16 (ucast v # ucast (drop_bit 8 v) # r) = v"
  unfolding Uint16_def by (rule bit_word_eqI) (auto simp: bit_simps)

lemma Uint16_PutUint16 [simp]: "Uint16 (PutUint16 v @ r) = v"
  by (simp add: PutUint16_def)

lemma Uint16_PutUint16_exact [simp]: "Uint16 (PutUint16 v) = v"
  by (simp add: PutUint16_def)

lemma PutUint16_Uint16 [simp]: "PutUint16 (Uint16 (a # b # r)) = [a, b]"
  unfolding Uint16_def PutUint16_def
  by (auto intro!: bit_word_eqI simp: bit_simps)

lemma Uint32_bytes [simp]:
  "Uint32 (ucast v # ucast (drop_bit 8 v) # ucast (drop_bit 16 v) # ucast (drop_bit 24 v) # r) = v"
proof (rule bit_word_eqI)
  fix n :: nat
  assume "n < LENGTH(32)"
  then consider "n < 8" | "8 \<le> n" "n < 16" | "16 \<le> n" "n < 24" | "24 \<le> n" "n < 32"
    by fastforce
  then show "bit (Uint32 (ucast v # ucast (drop_bit 8 v) # ucast (drop_bit 16 v)
      # ucast (drop_bit 24 v) # r)) n \<longleftrightarrow> bit v n"
    by cases (auto simp: Uint32_def bit_simps)
qed

lemma Uint32_PutUint32 [simp]: "Uint32 (PutUint32 v @ r) = v"
  by (simp add: PutUint32_def)

lemma PutUint32_Uint32 [simp]: "PutUint32 (Uint32 (a # b # c # d # r)) = [a, b, c, d]"
  unfolding Uint32_def PutUint32_def
  by (auto intro!: bit_word_eqI simp: bit_simps)

lemma unat_byte_less [simp]: "unat (a :: byte) < 256"
  using unsigned_less [of a] by simp

lemma unat_u16_less [simp]: "unat (a :: u16) < 65536"
  using unsigned_less [of a] by simp

lemma unat_Uint16: "unat (Uint16 (a # b # r)) = unat a + 256 * unat b"
proof -
  have "ucast a OR push_bit 8 (ucast b :: u16) = ucast a + push_bit 8 (ucast b)"
    by (rule disjunctive_add_eq_or [symmetric]) (auto intro!: bit_word_eqI simp: bit_simps)
  then have "unat (Uint16 (a # b # r)) = (unat a + unat b * 256) mod 65536"
    by (simp add: Uint16_def push_bit_eq_mult unat_word_ariths unsigned_ucast_eq take_bit_eq_mod
        mod_simps)
  moreover have "unat a < 256" "unat b < 256" by simp_all
  ultimately show ?thesis by simp
qed

lemma unat_of_nat_u16 [simp]: "n < 65536 \<Longrightarrow> unat (of_nat n :: u16) = n"
  by (simp add: unat_of_nat take_bit_eq_mod)

lemma ucast_u16_byte_id: "v \<le> 0xFF \<Longrightarrow> (ucast (ucast v :: byte) :: u16) = v"
proof -
  assume "v \<le> 0xFF"
  then have "unat v < 256" by (simp add: word_le_nat_alt)
  then show ?thesis
    by (simp add: word_unat_eq_iff unsigned_ucast_eq take_bit_eq_mod unat_mod)
qed

lemma ucast_and_mask_byte: "(ucast (v AND 0xFF) :: byte) = ucast (v :: u16)"
proof -
  have m: "(0xFF :: u16) = mask 8" by (simp add: mask_eq_exp_minus_1)
  show ?thesis unfolding m by (rule bit_word_eqI) (auto simp: bit_simps)
qed

lemma ucast_u16_low_byte:
  "v \<le> 0xFF \<Longrightarrow> (ucast (ucast (v AND 0xFF) :: byte) :: u16) = v"
  using ucast_u16_byte_id [of v]
  by (simp add: ucast_and_mask_byte)

section \<open>Lists\<close>

lemma go_slice_append_left [simp]:
  "j \<le> length xs \<Longrightarrow> go_slice i j (xs @ ys) = go_slice i j xs"
  by (simp add: go_slice_def)

lemma length_go_slice [simp]: "j \<le> length xs \<Longrightarrow> length (go_slice i j xs) = j - i"
  by (simp add: go_slice_def)

lemma go_slice_Cons [simp]:
  "go_slice 0 0 xs = []"
  "go_slice 0 (Suc j) (x # xs) = x # go_slice 0 j xs"
  "go_slice (Suc i) (Suc j) (x # xs) = go_slice i j xs"
  "go_slice 0 (numeral k) (x # xs) = x # go_slice 0 (pred_numeral k) xs"
  "go_slice (Suc 0) (numeral k) (x # xs) = go_slice 0 (pred_numeral k) xs"
  "go_slice (numeral m) (numeral k) (x # xs) = go_slice (pred_numeral m) (pred_numeral k) xs"
  by (simp_all add: go_slice_def numeral_eq_Suc)

lemma go_slice_skip: "length pre = k \<Longrightarrow> go_slice (k + i) (k + j) (pre @ xs) = go_slice i j xs"
  by (simp add: go_slice_def)

lemma go_slice_3 [simp]: "go_slice 3 (3 + n) (a # b # c # r) = take n r"
  by (simp add: go_slice_def numeral_eq_Suc)

lemma drop_3_add: "drop (3 + n) (a # b # c # r) = drop n r"
  by (simp add: numeral_eq_Suc)

lemma length_ge_Cons: "Suc n \<le> length xs \<longleftrightarrow> (\<exists>y ys. xs = y # ys \<and> n \<le> length ys)"
  by (cases xs) auto

text \<open>A length test that passed exhibits the bytes it guards.\<close>

lemma length_ge_3D: "\<not> length xs < 3 \<Longrightarrow> \<exists>a b c r. xs = a # b # c # r"
  by (simp add: not_less length_ge_Cons numeral_eq_Suc) blast

lemma length_ge_4D: "\<not> length xs < 4 \<Longrightarrow> \<exists>a b c d r. xs = a # b # c # d # r"
  by (simp add: not_less length_ge_Cons numeral_eq_Suc) blast

lemma length_ge_6D: "\<not> length xs < 6 \<Longrightarrow> \<exists>a b c d e f r. xs = a # b # c # d # e # f # r"
  by (simp add: not_less length_ge_Cons numeral_eq_Suc) blast

lemma length_ge_7D:
  "\<not> length xs < 7 \<Longrightarrow> \<exists>a b c d e f g r. xs = a # b # c # d # e # f # g # r"
  by (simp add: not_less length_ge_Cons numeral_eq_Suc) blast

lemmas length_geD = length_ge_3D length_ge_4D length_ge_6D length_ge_7D

lemma take_eq_appendD: "take (length xs) zs = xs \<Longrightarrow> zs = xs @ drop (length xs) zs"
  by (metis append_take_drop_id)

section \<open>Decimal rendering\<close>

text \<open>\<^verbatim>\<open>fmt.Sprintf("%d", n)\<close> for an unsigned number, and its inverse.\<close>

definition digit_char :: "nat \<Rightarrow> char" where
  "digit_char d = char_of (48 + d)"

fun decimal :: "nat \<Rightarrow> string" where
  "decimal n = (if n < 10 then [digit_char n] else decimal (n div 10) @ [digit_char (n mod 10)])"

declare decimal.simps [simp del]

definition decimal_value :: "string \<Rightarrow> nat" where
  "decimal_value s = foldl (\<lambda>v c. 10 * v + (of_char c - 48)) 0 s"

lemma of_char_digit_char: "d < 10 \<Longrightarrow> of_char (digit_char d) = (48 + d :: nat)"
  by (simp add: digit_char_def)

lemma decimal_value_decimal [simp]: "decimal_value (decimal n) = n"
proof (induction n rule: decimal.induct)
  case (1 n)
  show ?case
  proof (cases "n < 10")
    case True
    then show ?thesis
      by (simp add: decimal.simps [of n] decimal_value_def of_char_digit_char)
  next
    case False
    then have "decimal_value (decimal n) = 10 * decimal_value (decimal (n div 10)) + n mod 10"
      by (simp add: decimal.simps [of n] decimal_value_def of_char_digit_char)
    with False 1 show ?thesis by simp
  qed
qed

lemma decimal_inject [simp]: "decimal m = decimal n \<longleftrightarrow> m = n"
  by (metis decimal_value_decimal)

lemma decimal_no_colon: "CHR '':'' \<notin> set (decimal n)"
proof (induction n rule: decimal.induct)
  case (1 n)
  have "digit_char d \<noteq> CHR '':''" if "d < 10" for d
  proof
    assume "digit_char d = CHR '':''"
    then have "of_char (digit_char d) = (58 :: nat)" by simp
    with that show False by (simp add: of_char_digit_char)
  qed
  with 1 show ?case by (cases "n < 10") (auto simp: decimal.simps [of n] eq_commute)
qed

text \<open>A separator that does not occur in the first field splits uniquely.\<close>

lemma append_sep_inject:
  "c \<notin> set xs \<Longrightarrow> c \<notin> set xs' \<Longrightarrow> xs @ c # ys = xs' @ c # ys' \<longleftrightarrow> xs = xs' \<and> ys = ys'"
  by (induction xs arbitrary: xs') (case_tac xs'; auto)+

section \<open>Association lists\<close>

lemma length_delete_less: "k \<in> fst ` set al \<Longrightarrow> length (AList.delete k al) < length al"
  by (induction al) (force simp: less_Suc_eq_le length_delete_le Suc_le_eq)+

lemma length_update_le: "length (AList.update k v al) \<le> Suc (length al)"
  by (induction al) auto

lemma set_update_subset: "x \<in> set (AList.update k v al) \<Longrightarrow> x = (k, v) \<or> x \<in> set al"
  by (induction al) (auto split: if_splits)

lemma distinct_map_update:
  "distinct (map f al) \<Longrightarrow> f (k, v) \<notin> f ` set al \<Longrightarrow> distinct (map f (AList.update k v al))"
  by (induction al) (auto dest: set_update_subset)

lemma set_delete_subset: "x \<in> set (AList.delete k al) \<Longrightarrow> x \<in> set al"
  by (induction al) (auto split: if_splits)

lemma distinct_map_delete: "distinct (map f al) \<Longrightarrow> distinct (map f (AList.delete k al))"
  by (induction al) (auto dest: set_delete_subset)

section \<open>The interface of a fixed-size wire structure\<close>

text \<open>
  What a reader of the wire relies on for every header: it has one size, marshalling is undone
  by unmarshalling whatever follows, and too few bytes are an error.  The \<open>strict\<close> extension
  adds that nothing outside the image of \<open>marshal\<close> is accepted, which fails for a structure
  with padding bytes.
\<close>

locale wire_codec =
  fixes marshal :: "'h \<Rightarrow> byte list"
    and unmarshal :: "byte list \<Rightarrow> 'e + 'h"
    and size :: nat
    and wf :: "'h \<Rightarrow> bool"
  assumes length_marshal: "length (marshal h) = size"
    and unmarshal_marshal: "wf h \<Longrightarrow> unmarshal (marshal h @ rest) = Inr h"
    and unmarshal_short: "length bs < size \<Longrightarrow> \<exists>e. unmarshal bs = Inl e"
begin

lemma drop_marshal: "drop size (marshal h @ rest) = rest"
  using length_marshal by simp

lemma unmarshal_size: "unmarshal bs = Inr h \<Longrightarrow> size \<le> length bs"
  using unmarshal_short by (metis not_le sum.distinct(1))

lemma marshal_prefix_free:
  assumes "wf h" and "wf h'" and "marshal h @ r = marshal h' @ r'"
  shows "h = h' \<and> r = r'"
proof -
  have "Inr h = unmarshal (marshal h @ r)" using assms(1) unmarshal_marshal by simp
  also have "\<dots> = Inr h'" using assms(2,3) unmarshal_marshal by simp
  finally show ?thesis using assms(3) by simp
qed

end

locale strict_wire_codec = wire_codec +
  assumes unmarshal_sound: "unmarshal bs = Inr h \<Longrightarrow> wf h \<and> take size bs = marshal h"
begin

lemma unmarshal_iff:
  "unmarshal bs = Inr h \<longleftrightarrow> wf h \<and> size \<le> length bs \<and> take size bs = marshal h"
proof
  assume "unmarshal bs = Inr h"
  then show "wf h \<and> size \<le> length bs \<and> take size bs = marshal h"
    using unmarshal_sound unmarshal_size by blast
next
  assume *: "wf h \<and> size \<le> length bs \<and> take size bs = marshal h"
  then have "bs = marshal h @ drop size bs"
    using take_eq_appendD length_marshal by metis
  with * show "unmarshal bs = Inr h" by (metis unmarshal_marshal)
qed

lemma unmarshal_take: "size \<le> n \<Longrightarrow> unmarshal bs = Inr h \<Longrightarrow> unmarshal (take n bs) = Inr h"
  using unmarshal_iff by (auto simp: min_def)

end

end
