(* ===== verification/CardGate.thy ===== *)
theory CardGate
  imports Prelude
begin

text \<open>
  The card access gate of the manager (\<^verbatim>\<open>pkg/manager/card_access_gate.go\<close>).  Card operations (\<^verbatim>\<open>acquire\<close>
  and \<^verbatim>\<open>release\<close>, used by \<^verbatim>\<open>withCardAccessValue\<close>) run side by side; a quiet window (\<^verbatim>\<open>begin\<close>, used by
  \<^verbatim>\<open>BeginCardIOQuietWindow\<close>) excludes them and each other, and windows are served by ticket.

  A definition is one critical section of \<^verbatim>\<open>g.mu\<close>.  The notification channel is the number of times it
  has been closed and replaced: a waiter keeps the number it saw under the lock and is awake once
  the gate's number is greater.  The 64-bit ticket counters are natural numbers: they start at one
  and count the quiet windows ever asked for.
\<close>

section \<open>The gate\<close>

record cardAccessGate =
  g_active :: nat
  g_barrier :: bool
  g_nextTicket :: nat
  g_servingTicket :: nat
  g_canceled :: "nat list"
  g_notify :: nat

definition zero_gate :: cardAccessGate where
  "zero_gate = \<lparr>g_active = 0, g_barrier = False, g_nextTicket = 0, g_servingTicket = 0, g_canceled = [],
     g_notify = 0\<rparr>"

definition signalLocked :: "cardAccessGate \<Rightarrow> cardAccessGate" where
  "signalLocked g = g\<lparr>g_notify := g_notify g + 1\<rparr>"

definition initLocked :: "cardAccessGate \<Rightarrow> cardAccessGate" where
  "initLocked g = (if g_nextTicket g = 0 then g\<lparr>g_nextTicket := 1, g_servingTicket := 1\<rparr> else g)"

function skip_tickets :: "nat \<Rightarrow> nat list \<Rightarrow> nat \<times> nat list" where
  "skip_tickets serving canceled =
     (if serving \<in> set canceled then skip_tickets (serving + 1) (removeAll serving canceled)
      else (serving, canceled))"
  by pat_completeness auto

termination
  by (relation "measure (\<lambda>(_, canceled). length canceled)") (auto intro: length_removeAll_less)

declare skip_tickets.simps [simp del]

definition skipCanceledLocked :: "cardAccessGate \<Rightarrow> cardAccessGate" where
  "skipCanceledLocked g0 =
     (let g = initLocked g0; (serving, canceled) = skip_tickets (g_servingTicket g) (g_canceled g)
      in g\<lparr>g_servingTicket := serving, g_canceled := canceled\<rparr>)"

text \<open>One turn of the loop of \<^verbatim>\<open>acquire\<close>: whether it returns, and the gate after the critical section.\<close>

definition acquire_turn :: "cardAccessGate \<Rightarrow> bool \<times> cardAccessGate" where
  "acquire_turn g0 =
     (let g = skipCanceledLocked (initLocked g0) in
      if \<not> g_barrier g \<and> g_nextTicket g = g_servingTicket g then (True, g\<lparr>g_active := g_active g + 1\<rparr>)
      else (False, g))"

definition release :: "cardAccessGate \<Rightarrow> cardAccessGate" where
  "release g0 =
     (let g = (if g_active g0 > 0 then g0\<lparr>g_active := g_active g0 - 1\<rparr> else g0) in
      if g_active g = 0 then signalLocked g else g)"

definition activeBarrier :: "cardAccessGate \<Rightarrow> bool" where
  "activeBarrier g = g_barrier g"

text \<open>One turn of \<^verbatim>\<open>waitBarrierIdle\<close>: whether it returns.\<close>

definition waitBarrierIdle_turn :: "cardAccessGate \<Rightarrow> bool" where
  "waitBarrierIdle_turn g \<longleftrightarrow> \<not> g_barrier g"

text \<open>\<^verbatim>\<open>begin\<close>: the ticket, the test under the lock, a wake-up, the cancellation, the returned release.\<close>

definition begin_ticket :: "cardAccessGate \<Rightarrow> nat \<times> cardAccessGate" where
  "begin_ticket g0 =
     (let g = initLocked g0; ticket = g_nextTicket g
      in (ticket, skipCanceledLocked (g\<lparr>g_nextTicket := ticket + 1\<rparr>)))"

definition begin_turn :: "nat \<Rightarrow> cardAccessGate \<Rightarrow> bool \<times> cardAccessGate" where
  "begin_turn ticket g =
     (if \<not> g_barrier g \<and> g_active g = 0 \<and> ticket = g_servingTicket g
      then (True, g\<lparr>g_servingTicket := g_servingTicket g + 1, g_barrier := True\<rparr>)
      else (False, g))"

definition begin_cancel :: "nat \<Rightarrow> cardAccessGate \<Rightarrow> cardAccessGate" where
  "begin_cancel ticket g = signalLocked (skipCanceledLocked (g\<lparr>g_canceled := ticket # removeAll ticket (g_canceled g)\<rparr>))"

definition end_barrier :: "cardAccessGate \<Rightarrow> cardAccessGate" where
  "end_barrier g = signalLocked (g\<lparr>g_barrier := False\<rparr>)"

section \<open>Threads\<close>

datatype gate_thread =
    Outside
  | AcqWait nat
  | AcqHold
  | BeginWait nat nat
  | BeginHold

record gate_sys =
  gs_gate :: cardAccessGate
  gs_threads :: "nat \<Rightarrow> gate_thread"

definition init_gate_sys :: gate_sys where
  "init_gate_sys = \<lparr>gs_gate = zero_gate, gs_threads = (\<lambda>_. Outside)\<rparr>"

text \<open>A waiter is awake when the notification channel it holds has been closed since.\<close>

abbreviation awake :: "nat \<Rightarrow> cardAccessGate \<Rightarrow> bool" where
  "awake w g \<equiv> w < g_notify g"

definition after_acquire :: "bool \<Rightarrow> cardAccessGate \<Rightarrow> gate_thread" where
  "after_acquire ok g = (if ok then AcqHold else AcqWait (g_notify g))"

definition after_begin :: "nat \<Rightarrow> bool \<Rightarrow> cardAccessGate \<Rightarrow> gate_thread" where
  "after_begin ticket ok g = (if ok then BeginHold else BeginWait ticket (g_notify g))"

inductive gate_step :: "gate_sys \<Rightarrow> gate_sys \<Rightarrow> bool" where
  acquire_enter:
    "\<lbrakk>gs_threads s i = Outside; acquire_turn (gs_gate s) = (ok, g)\<rbrakk> \<Longrightarrow>
     gate_step s (s\<lparr>gs_gate := g, gs_threads := (gs_threads s)(i := after_acquire ok g)\<rparr>)"
| acquire_wake:
    "\<lbrakk>gs_threads s i = AcqWait w; awake w (gs_gate s); acquire_turn (gs_gate s) = (ok, g)\<rbrakk> \<Longrightarrow>
     gate_step s (s\<lparr>gs_gate := g, gs_threads := (gs_threads s)(i := after_acquire ok g)\<rparr>)"
| acquire_cancel:
    "gs_threads s i = AcqWait w \<Longrightarrow> gate_step s (s\<lparr>gs_threads := (gs_threads s)(i := Outside)\<rparr>)"
| release_step:
    "gs_threads s i = AcqHold \<Longrightarrow>
     gate_step s (s\<lparr>gs_gate := release (gs_gate s), gs_threads := (gs_threads s)(i := Outside)\<rparr>)"
| begin_enter:
    "\<lbrakk>gs_threads s i = Outside; begin_ticket (gs_gate s) = (ticket, g1); begin_turn ticket g1 = (ok, g)\<rbrakk> \<Longrightarrow>
     gate_step s (s\<lparr>gs_gate := g, gs_threads := (gs_threads s)(i := after_begin ticket ok g)\<rparr>)"
| begin_wake:
    "\<lbrakk>gs_threads s i = BeginWait ticket w; awake w (gs_gate s);
      begin_turn ticket (skipCanceledLocked (gs_gate s)) = (ok, g)\<rbrakk> \<Longrightarrow>
     gate_step s (s\<lparr>gs_gate := g, gs_threads := (gs_threads s)(i := after_begin ticket ok g)\<rparr>)"
| begin_cancelled:
    "gs_threads s i = BeginWait ticket w \<Longrightarrow>
     gate_step s (s\<lparr>gs_gate := begin_cancel ticket (gs_gate s), gs_threads := (gs_threads s)(i := Outside)\<rparr>)"
| begin_done:
    "gs_threads s i = BeginHold \<Longrightarrow>
     gate_step s (s\<lparr>gs_gate := end_barrier (gs_gate s), gs_threads := (gs_threads s)(i := Outside)\<rparr>)"

section \<open>Tickets\<close>

text \<open>The ticket served next, once cancelled ones are skipped.\<close>

definition due :: "cardAccessGate \<Rightarrow> nat" where
  "due g = fst (skip_tickets (g_servingTicket g) (g_canceled g))"

lemma skip_tickets_spec:
  "case skip_tickets s c of (s', c') \<Rightarrow>
     s \<le> s' \<and> {s..<s'} \<subseteq> set c \<and> s' \<notin> set c \<and> set c' = set c - {s..<s'}"
proof (induction s c rule: skip_tickets.induct)
  case (1 s c)
  show ?case
  proof (cases "s \<in> set c")
    case True
    obtain s' c' where r: "skip_tickets (Suc s) (removeAll s c) = (s', c')" by fastforce
    have "Suc s \<le> s'" "{Suc s..<s'} \<subseteq> set c" "s' \<notin> set c" "set c' = set c - {s} - {Suc s..<s'}"
      using "1.IH" [OF True] r True by auto
    moreover have "{s..<s'} = insert s {Suc s..<s'}" using \<open>Suc s \<le> s'\<close> by auto
    ultimately show ?thesis using True r
      by (subst skip_tickets.simps) auto
  next
    case False
    then show ?thesis by (subst skip_tickets.simps) simp
  qed
qed

lemma skip_tickets_idem:
  assumes "skip_tickets s c = (s', c')" shows "skip_tickets s' c' = (s', c')"
proof -
  have "s' \<notin> set c'" using skip_tickets_spec [of s c] assms by auto
  then show ?thesis by (subst skip_tickets.simps) simp
qed

section \<open>Three invariants\<close>

definition holders :: "(nat \<Rightarrow> gate_thread) \<Rightarrow> nat set" where
  "holders T = {i. T i = AcqHold}"

definition waiting :: "(nat \<Rightarrow> gate_thread) \<Rightarrow> nat set" where
  "waiting T = {tk. \<exists>i w. T i = BeginWait tk w}"

text \<open>Holders are counted, a barrier has one owner, and the two exclude each other.\<close>

definition excl_ok :: "nat \<Rightarrow> bool \<Rightarrow> (nat \<Rightarrow> gate_thread) \<Rightarrow> bool" where
  "excl_ok active barrier T \<longleftrightarrow>
     finite (holders T) \<and> active = card (holders T) \<and>
     (barrier \<longleftrightarrow> (\<exists>i. T i = BeginHold)) \<and>
     (\<forall>i j. T i = BeginHold \<longrightarrow> T j = BeginHold \<longrightarrow> i = j) \<and>
     (barrier \<longrightarrow> active = 0)"

text \<open>The tickets not yet served are those waiting and those cancelled.\<close>

definition tickets_ok :: "nat \<Rightarrow> nat \<Rightarrow> nat set \<Rightarrow> (nat \<Rightarrow> gate_thread) \<Rightarrow> bool" where
  "tickets_ok serving nxt canceled T \<longleftrightarrow>
     serving \<le> nxt \<and> {serving..<nxt} = waiting T \<union> canceled \<and> waiting T \<inter> canceled = {} \<and>
     (\<forall>i j tk w w'. T i = BeginWait tk w \<longrightarrow> T j = BeginWait tk w' \<longrightarrow> i = j)"

text \<open>Whoever sleeps has nothing to do yet.\<close>

definition sleepers_ok :: "nat \<Rightarrow> bool \<Rightarrow> nat \<Rightarrow> nat \<Rightarrow> nat \<Rightarrow> (nat \<Rightarrow> gate_thread) \<Rightarrow> bool" where
  "sleepers_ok notify barrier active nxt d T \<longleftrightarrow>
     (\<forall>i w. T i = AcqWait w \<longrightarrow> w \<le> notify \<and> (w = notify \<longrightarrow> barrier \<or> nxt \<noteq> d)) \<and>
     (\<forall>i tk w. T i = BeginWait tk w \<longrightarrow> w \<le> notify \<and> (w = notify \<longrightarrow> barrier \<or> active \<noteq> 0 \<or> tk \<noteq> d))"

definition gate_ok :: "cardAccessGate \<Rightarrow> (nat \<Rightarrow> gate_thread) \<Rightarrow> bool" where
  "gate_ok g T \<longleftrightarrow>
     excl_ok (g_active g) (g_barrier g) T \<and>
     tickets_ok (g_servingTicket g) (g_nextTicket g) (set (g_canceled g)) T \<and>
     sleepers_ok (g_notify g) (g_barrier g) (g_active g) (g_nextTicket g) (due g) T \<and>
     (g_nextTicket g = 0 \<longrightarrow> g_servingTicket g = 0 \<and> g_canceled g = [])"

subsection \<open>How a thread's move changes them\<close>

fun is_begin_wait :: "gate_thread \<Rightarrow> bool" where
  "is_begin_wait (BeginWait _ _) = True"
| "is_begin_wait _ = False"

lemma is_begin_wait_iff: "is_begin_wait x \<longleftrightarrow> (\<exists>tk w. x = BeginWait tk w)"
  by (cases x) auto

lemma excl_move:
  assumes "excl_ok a b T" and "T i \<notin> {AcqHold, BeginHold}"
  shows "x \<notin> {AcqHold, BeginHold} \<Longrightarrow> excl_ok a b (T(i := x))"
    and "\<not> b \<Longrightarrow> excl_ok (Suc a) b (T(i := AcqHold))"
    and "\<not> b \<Longrightarrow> a = 0 \<Longrightarrow> excl_ok a True (T(i := BeginHold))"
proof -
  have h: "holders (T(i := AcqHold)) = insert i (holders T)" "i \<notin> holders T"
    "x \<noteq> AcqHold \<Longrightarrow> holders (T(i := x)) = holders T" for x
    using assms(2) by (auto simp: holders_def)
  have ex: "x \<noteq> BeginHold \<Longrightarrow> (T(i := x)) j = BeginHold \<longleftrightarrow> T j = BeginHold" for x j
    using assms(2) by auto
  show "excl_ok a b (T(i := x))" if "x \<notin> {AcqHold, BeginHold}"
    using assms(1) h(3) [of x] ex [of x] that by (auto simp: excl_ok_def simp del: fun_upd_apply)
  show "\<not> b \<Longrightarrow> excl_ok (Suc a) b (T(i := AcqHold))"
    using assms(1) h(1,2) ex [of AcqHold] by (auto simp: excl_ok_def simp del: fun_upd_apply)
  show "\<not> b \<Longrightarrow> a = 0 \<Longrightarrow> excl_ok a True (T(i := BeginHold))"
    using assms h(3) [of BeginHold] by (auto simp: excl_ok_def)
qed

lemma excl_leave:
  assumes "excl_ok a b T"
  shows "T i = AcqHold \<Longrightarrow> a > 0 \<and> excl_ok (a - 1) b (T(i := Outside))"
    and "T i = BeginHold \<Longrightarrow> excl_ok a False (T(i := Outside))"
proof -
  show "excl_ok a False (T(i := Outside))" if "T i = BeginHold"
  proof -
    have "holders (T(i := Outside)) = holders T" using that by (auto simp: holders_def)
    then show ?thesis using assms that by (auto simp: excl_ok_def)
  qed
  show "a > 0 \<and> excl_ok (a - 1) b (T(i := Outside))" if "T i = AcqHold"
  proof -
    have i: "i \<in> holders T" "holders (T(i := Outside)) = holders T - {i}"
      using that by (auto simp: holders_def)
    moreover have "a > 0" using assms i(1) by (auto simp: excl_ok_def card_gt_0_iff)
    ultimately show ?thesis using assms that by (auto simp: excl_ok_def)
  qed
qed

lemma tickets_move:
  assumes "tickets_ok s n c T"
  shows "\<not> is_begin_wait (T i) \<Longrightarrow> \<not> is_begin_wait x \<Longrightarrow> tickets_ok s n c (T(i := x))"
    and "\<not> is_begin_wait (T i) \<Longrightarrow> tickets_ok s (Suc n) c (T(i := BeginWait n w))"
    and "T i = BeginWait tk w0 \<Longrightarrow> tickets_ok s n c (T(i := BeginWait tk w))"
    and "T i = BeginWait s w0 \<Longrightarrow> \<not> is_begin_wait x \<Longrightarrow> tickets_ok (Suc s) n c (T(i := x))"
    and "T i = BeginWait tk w0 \<Longrightarrow> \<not> is_begin_wait x \<Longrightarrow> tickets_ok s n (insert tk c) (T(i := x))"
proof -
  have iv: "{s..<n} = waiting T \<union> c" and dis: "waiting T \<inter> c = {}" and le: "s \<le> n"
    and un: "\<And>i j tk w w'. T i = BeginWait tk w \<Longrightarrow> T j = BeginWait tk w' \<Longrightarrow> i = j"
    using assms by (auto simp: tickets_ok_def)
  have fresh: "T j \<noteq> BeginWait n w" for j w
  proof
    assume "T j = BeginWait n w"
    then have "n \<in> {s..<n}" unfolding iv by (auto simp: waiting_def)
    then show False by simp
  qed
  show "tickets_ok s n c (T(i := x))" if "\<not> is_begin_wait (T i)" "\<not> is_begin_wait x"
  proof -
    have "waiting (T(i := x)) = waiting T" using that by (auto simp: waiting_def is_begin_wait_iff) metis
    then show ?thesis using iv dis le un that by (auto simp: tickets_ok_def is_begin_wait_iff)
  qed
  show "tickets_ok s (Suc n) c (T(i := BeginWait n w))" if "\<not> is_begin_wait (T i)"
  proof -
    have "waiting (T(i := BeginWait n w)) = insert n (waiting T)"
      using that by (auto simp: waiting_def is_begin_wait_iff) metis
    moreover have "n \<notin> c" using iv by (metis UnCI atLeastLessThan_iff less_irrefl)
    moreover have "{s..<Suc n} = insert n {s..<n}" using le by auto
    ultimately show ?thesis using iv dis le un fresh by (auto simp: tickets_ok_def)
  qed
  have rem: "waiting (T(i := x)) = waiting T - {tk}" if "T i = BeginWait tk w0" "\<not> is_begin_wait x" for x tk w0
    using that un by (auto simp: waiting_def is_begin_wait_iff) (metis gate_thread.inject(2))+
  show "tickets_ok s n c (T(i := BeginWait tk w))" if "T i = BeginWait tk w0"
  proof -
    have "waiting (T(i := BeginWait tk w)) = waiting T" using that un by (auto simp: waiting_def) (metis gate_thread.inject(2))
    then show ?thesis using iv dis le un that by (auto simp: tickets_ok_def)
  qed
  show "tickets_ok s n (insert tk c) (T(i := x))" if "T i = BeginWait tk w0" "\<not> is_begin_wait x"
  proof -
    have "tk \<in> waiting T" using that by (auto simp: waiting_def)
    then show ?thesis using rem [OF that] iv dis le un that
      by (auto simp: tickets_ok_def is_begin_wait_iff)
  qed
  show "tickets_ok (Suc s) n c (T(i := x))" if "T i = BeginWait s w0" "\<not> is_begin_wait x"
  proof -
    have s: "s \<in> waiting T" using that by (auto simp: waiting_def)
    then have "s \<notin> c" "s < n" using iv dis by (blast, metis UnCI atLeastLessThan_iff)
    moreover have "{Suc s..<n} = {s..<n} - {s}" by auto
    ultimately show ?thesis using rem [OF that] iv dis un that s
      by (auto simp: tickets_ok_def is_begin_wait_iff)
  qed
qed

lemma sleepers_signal: "sleepers_ok n b a x d T \<Longrightarrow> sleepers_ok (Suc n) b' a' x' d' T"
  by (fastforce simp: sleepers_ok_def)

lemma sleepers_wake:
  assumes "sleepers_ok n b a x d T"
  shows "sleepers_ok n True a' x' d' T"
    and "a' \<noteq> 0 \<Longrightarrow> sleepers_ok n b a' x d T"
    and "d \<le> x \<Longrightarrow> sleepers_ok n b a (Suc x) d T"
  using assms by (simp_all add: sleepers_ok_def)

fun sleeps_well :: "nat \<Rightarrow> bool \<Rightarrow> nat \<Rightarrow> nat \<Rightarrow> nat \<Rightarrow> gate_thread \<Rightarrow> bool" where
  "sleeps_well n b a x d (AcqWait w) \<longleftrightarrow> w \<le> n \<and> (w = n \<longrightarrow> b \<or> x \<noteq> d)"
| "sleeps_well n b a x d (BeginWait tk w) \<longleftrightarrow> w \<le> n \<and> (w = n \<longrightarrow> b \<or> a \<noteq> 0 \<or> tk \<noteq> d)"
| "sleeps_well n b a x d _ \<longleftrightarrow> True"

lemma sleepers_move:
  "sleepers_ok n b a x d T \<Longrightarrow> sleeps_well n b a x d y \<Longrightarrow> sleepers_ok n b a x d (T(i := y))"
  by (cases y) (simp_all add: sleepers_ok_def)

subsection \<open>Skipping keeps them\<close>

lemma skip_tickets_Nil [simp]: "skip_tickets n [] = (n, [])"
  by (subst skip_tickets.simps) simp

lemma initLocked_ok:
  assumes "gate_ok g T" shows "gate_ok (initLocked g) T" and "g_nextTicket (initLocked g) > 0"
proof -
  show "gate_ok (initLocked g) T"
  proof (cases "g_nextTicket g = 0")
    case True
    then have z: "g_servingTicket g = 0" "g_canceled g = []" using assms by (auto simp: gate_ok_def)
    then have w: "waiting T = {}" using assms True by (simp add: gate_ok_def tickets_ok_def)
    then have "T i \<noteq> BeginWait tk n" for i tk n by (auto simp: waiting_def)
    with assms True z w show ?thesis
      by (simp add: gate_ok_def tickets_ok_def sleepers_ok_def initLocked_def due_def)
  qed (use assms in \<open>simp add: initLocked_def\<close>)
  show "g_nextTicket (initLocked g) > 0" by (simp add: initLocked_def)
qed

lemma due_bounds:
  assumes "tickets_ok (g_servingTicket g) n (set (g_canceled g)) T"
  shows "g_servingTicket g \<le> due g" "due g \<notin> set (g_canceled g)"
    "{g_servingTicket g..<due g} \<subseteq> set (g_canceled g)" "due g \<le> n"
proof -
  note sp = skip_tickets_spec [of "g_servingTicket g" "g_canceled g"]
  from sp show "g_servingTicket g \<le> due g" "due g \<notin> set (g_canceled g)"
    and 2: "{g_servingTicket g..<due g} \<subseteq> set (g_canceled g)"
    by (auto simp: due_def split: prod.splits)
  have le: "g_servingTicket g \<le> n" and iv: "{g_servingTicket g..<n} = waiting T \<union> set (g_canceled g)"
    using assms by (auto simp: tickets_ok_def)
  show "due g \<le> n"
  proof (rule ccontr)
    assume "\<not> ?thesis"
    then have "n \<in> {g_servingTicket g..<due g}" using le by simp
    then have "n \<in> {g_servingTicket g..<n}" using 2 unfolding iv by blast
    then show False by simp
  qed
qed

lemma skip_eq:
  "g_active (skipCanceledLocked g) = g_active g" "g_barrier (skipCanceledLocked g) = g_barrier g"
  "g_notify (skipCanceledLocked g) = g_notify g"
  "g_nextTicket (skipCanceledLocked g) = g_nextTicket (initLocked g)"
  "g_servingTicket (skipCanceledLocked g) = due (initLocked g)"
  "due (skipCanceledLocked g) = due (initLocked g)"
  using skip_tickets_idem [OF surjective_pairing]
  by (simp_all add: skipCanceledLocked_def initLocked_def due_def case_prod_unfold Let_def)

lemma skip_ok:
  assumes "gate_ok g T"
  shows "gate_ok (skipCanceledLocked g) T" and "g_nextTicket (skipCanceledLocked g) > 0"
    and "g_servingTicket (skipCanceledLocked g) = due (skipCanceledLocked g)"
proof -
  let ?g = "initLocked g"
  let ?n = "g_nextTicket ?g"
  note ok = initLocked_ok [OF assms]
  have t: "tickets_ok (g_servingTicket ?g) ?n (set (g_canceled ?g)) T" using ok(1) by (simp add: gate_ok_def)
  note b = due_bounds [OF t]
  have c: "set (g_canceled (skipCanceledLocked g)) = set (g_canceled ?g) - {g_servingTicket ?g..<due ?g}"
    using skip_tickets_spec [of "g_servingTicket ?g" "g_canceled ?g"]
    by (auto simp: skipCanceledLocked_def due_def Let_def split: prod.splits)
  have "{due ?g..<?n} = {g_servingTicket ?g..<?n} - {g_servingTicket ?g..<due ?g}" using b(1,4) by auto
  moreover have "waiting T \<inter> {g_servingTicket ?g..<due ?g} = {}"
    using b(3) t by (auto simp: tickets_ok_def)
  moreover have "{g_servingTicket ?g..<?n} = waiting T \<union> set (g_canceled ?g)" "waiting T \<inter> set (g_canceled ?g) = {}"
    using t by (auto simp: tickets_ok_def)
  ultimately have "{due ?g..<?n} = waiting T \<union> set (g_canceled (skipCanceledLocked g))"
    "waiting T \<inter> set (g_canceled (skipCanceledLocked g)) = {}"
    unfolding c by blast+
  then have "tickets_ok (due ?g) ?n (set (g_canceled (skipCanceledLocked g))) T"
    using t b(4) by (simp add: tickets_ok_def)
  moreover have "g_active ?g = g_active g" "g_barrier ?g = g_barrier g" "g_notify ?g = g_notify g"
    by (simp_all add: initLocked_def)
  ultimately show "gate_ok (skipCanceledLocked g) T"
    using ok by (simp add: gate_ok_def skip_eq)
  show "g_nextTicket (skipCanceledLocked g) > 0" using ok(2) by (simp add: skip_eq)
  show "g_servingTicket (skipCanceledLocked g) = due (skipCanceledLocked g)" by (simp add: skip_eq)
qed

subsection \<open>Every step keeps them\<close>

lemma acquire_ok:
  assumes "gate_ok g0 T" and "T i = Outside \<or> T i = AcqWait w" and "acquire_turn g0 = (ok, g)"
  shows "gate_ok g (T(i := after_acquire ok g))"
proof -
  let ?n = "skipCanceledLocked (initLocked g0)"
  note n = skip_ok [OF initLocked_ok(1) [OF assms(1)]]
  have e: "excl_ok (g_active ?n) (g_barrier ?n) T"
    and t: "tickets_ok (g_servingTicket ?n) (g_nextTicket ?n) (set (g_canceled ?n)) T"
    and s: "sleepers_ok (g_notify ?n) (g_barrier ?n) (g_active ?n) (g_nextTicket ?n) (due ?n) T"
    using n(1) by (auto simp: gate_ok_def)
  have Ti: "T i \<notin> {AcqHold, BeginHold}" "\<not> is_begin_wait (T i)" using assms(2) by auto
  show ?thesis
  proof (cases "\<not> g_barrier ?n \<and> g_nextTicket ?n = g_servingTicket ?n")
    case True
    then have g: "ok" "g = ?n\<lparr>g_active := Suc (g_active ?n)\<rparr>"
      using assms(3) by (auto simp: acquire_turn_def Let_def)
    moreover have "due g = due ?n" by (simp add: g due_def)
    ultimately show ?thesis
      using excl_move(2) [OF e Ti(1)] tickets_move(1) [OF t Ti(2), of AcqHold] n(2) True
        sleepers_move [OF sleepers_wake(2) [OF s, of "Suc (g_active ?n)"], of AcqHold i]
      by (simp add: gate_ok_def after_acquire_def)
  next
    case False
    then have g: "\<not> ok" "g = ?n" using assms(3) by (auto simp: acquire_turn_def Let_def)
    then show ?thesis
      using excl_move(1) [OF e Ti(1), of "AcqWait (g_notify ?n)"]
        tickets_move(1) [OF t Ti(2), of "AcqWait (g_notify ?n)"] n(2,3) False
        sleepers_move [OF s, of "AcqWait (g_notify ?n)" i]
      by (auto simp: gate_ok_def after_acquire_def)
  qed
qed

lemma begin_turn_ok:
  assumes e: "excl_ok (g_active g1) (g_barrier g1) T"
    and t: "tickets_ok (g_servingTicket g1) (g_nextTicket g1) (set (g_canceled g1)) T"
    and s: "sleepers_ok (g_notify g1) (g_barrier g1) (g_active g1) (g_nextTicket g1) (due g1) (T(i := Outside))"
    and "g_servingTicket g1 = due g1" and "T i = BeginWait tk w" and "begin_turn tk g1 = (ok, g)"
  shows "gate_ok g (T(i := after_begin tk ok g))"
proof -
  have Ti: "T i \<notin> {AcqHold, BeginHold}" using assms(5) by auto
  have pos: "g_nextTicket g1 \<noteq> 0"
  proof
    assume "g_nextTicket g1 = 0"
    then have "waiting T = {}" using t by (simp add: tickets_ok_def)
    then show False using assms(5) by (auto simp: waiting_def)
  qed
  show ?thesis
  proof (cases "\<not> g_barrier g1 \<and> g_active g1 = 0 \<and> tk = g_servingTicket g1")
    case True
    then have g: "ok" "g = g1\<lparr>g_servingTicket := Suc (g_servingTicket g1), g_barrier := True\<rparr>"
      using assms(6) by (auto simp: begin_turn_def)
    then show ?thesis
      using excl_move(3) [OF e Ti] tickets_move(4) [OF t, of i w BeginHold] assms(5) True pos
        sleepers_move [OF sleepers_wake(1) [OF s], where y = BeginHold and i = i]
      by (simp add: gate_ok_def after_begin_def)
  next
    case False
    then have g: "\<not> ok" "g = g1" using assms(6) by (auto simp: begin_turn_def)
    then show ?thesis
      using excl_move(1) [OF e Ti, of "BeginWait tk (g_notify g1)"]
        tickets_move(3) [OF t assms(5), of "g_notify g1"] pos False assms(4)
        sleepers_move [OF s, of "BeginWait tk (g_notify g1)" i]
      by (auto simp: gate_ok_def after_begin_def)
  qed
qed

lemma begin_enter_ok:
  assumes "gate_ok g0 T" and "T i = Outside" and "begin_ticket g0 = (tk, g1)" and "begin_turn tk g1 = (ok, g)"
  shows "gate_ok g (T(i := after_begin tk ok g))"
proof -
  let ?g = "initLocked g0"
  let ?g' = "?g\<lparr>g_nextTicket := Suc (g_nextTicket ?g)\<rparr>"
  let ?T = "T(i := BeginWait tk 0)"
  have tk: "tk = g_nextTicket ?g" and g1: "g1 = skipCanceledLocked ?g'"
    using assms(3) by (auto simp: begin_ticket_def Let_def)
  note ok = initLocked_ok [OF assms(1)]
  have d: "due ?g' = due ?g" by (simp add: due_def)
  have e: "excl_ok (g_active ?g) (g_barrier ?g) T"
    and t: "tickets_ok (g_servingTicket ?g) (g_nextTicket ?g) (set (g_canceled ?g)) T"
    and s: "sleepers_ok (g_notify ?g) (g_barrier ?g) (g_active ?g) (g_nextTicket ?g) (due ?g) T"
    using ok(1) by (auto simp: gate_ok_def)
  have t': "tickets_ok (g_servingTicket ?g') (g_nextTicket ?g') (set (g_canceled ?g')) ?T"
    using tickets_move(2) [OF t, of i 0] assms(2) tk by simp
  have s': "sleepers_ok (g_notify ?g') (g_barrier ?g') (g_active ?g') (g_nextTicket ?g') (due ?g') T"
    using sleepers_wake(3) [OF s due_bounds(4) [OF t]] by (simp add: d)
  let ?h = "?g'\<lparr>g_notify := Suc (g_notify ?g')\<rparr>"
  have dh: "due ?h = due ?g" by (simp add: due_def)
  have "gate_ok ?h ?T"
    using excl_move(1) [OF e, of i "BeginWait tk 0"] assms(2) t'
      sleepers_move [OF sleepers_signal [OF s'], where y = "BeginWait tk 0" and i = i]
    by (simp add: gate_ok_def dh)
  note h = skip_ok [OF this]
  have same: "skipCanceledLocked ?h = g1\<lparr>g_notify := Suc (g_notify ?g')\<rparr>"
    by (simp add: g1 skipCanceledLocked_def initLocked_def Let_def case_prod_unfold)
  have "excl_ok (g_active g1) (g_barrier g1) ?T"
    "tickets_ok (g_servingTicket g1) (g_nextTicket g1) (set (g_canceled g1)) ?T"
    using h(1) unfolding same by (auto simp: gate_ok_def)
  moreover have "initLocked ?g' = ?g'" by (simp add: initLocked_def)
  then have "sleepers_ok (g_notify g1) (g_barrier g1) (g_active g1) (g_nextTicket g1) (due g1) (?T(i := Outside))"
    using s' fun_upd_triv [of T i] assms(2) by (simp add: g1 skip_eq)
  moreover have "g_servingTicket g1 = due g1" by (simp add: g1 skip_eq)
  ultimately have "gate_ok g (?T(i := after_begin tk ok g))"
    by (rule begin_turn_ok) (use assms(4) in auto)
  then show ?thesis by simp
qed

lemma begin_wake_ok:
  assumes "gate_ok g0 T" and "T i = BeginWait tk w" and "begin_turn tk (skipCanceledLocked g0) = (ok, g)"
  shows "gate_ok g (T(i := after_begin tk ok g))"
proof -
  note n = skip_ok [OF assms(1)]
  show ?thesis
  proof (rule begin_turn_ok)
    let ?n = "skipCanceledLocked g0"
    show "sleepers_ok (g_notify ?n) (g_barrier ?n) (g_active ?n) (g_nextTicket ?n) (due ?n) (T(i := Outside))"
      using n(1) by (auto simp: gate_ok_def intro: sleepers_move)
  qed (use n assms in \<open>auto simp: gate_ok_def\<close>)
qed

lemma cancel_ok:
  assumes "gate_ok g T" and "T i = BeginWait tk w"
  shows "gate_ok (begin_cancel tk g) (T(i := Outside))"
proof -
  let ?c = "g\<lparr>g_canceled := tk # removeAll tk (g_canceled g), g_notify := Suc (g_notify g)\<rparr>"
  have e: "excl_ok (g_active g) (g_barrier g) T"
    and t: "tickets_ok (g_servingTicket g) (g_nextTicket g) (set (g_canceled g)) T"
    and s: "sleepers_ok (g_notify g) (g_barrier g) (g_active g) (g_nextTicket g) (due g) T"
    using assms(1) by (auto simp: gate_ok_def)
  have pos: "g_nextTicket g \<noteq> 0"
    using t assms(2) by (auto simp: tickets_ok_def waiting_def)
  have "set (g_canceled ?c) = insert tk (set (g_canceled g))" by auto
  then have "gate_ok ?c (T(i := Outside))"
    using excl_move(1) [OF e, of i Outside] assms(2) tickets_move(5) [OF t assms(2), of Outside] pos
      sleepers_move [OF sleepers_signal [OF s], where y = Outside and i = i]
    by (simp add: gate_ok_def)
  moreover have "begin_cancel tk g = skipCanceledLocked ?c"
    by (simp add: begin_cancel_def signalLocked_def skipCanceledLocked_def initLocked_def Let_def case_prod_unfold)
  ultimately show ?thesis using skip_ok(1) by simp
qed

lemma release_ok:
  assumes "gate_ok g T" and "T i = AcqHold"
  shows "gate_ok (release g) (T(i := Outside))"
proof -
  have e: "excl_ok (g_active g) (g_barrier g) T"
    and t: "tickets_ok (g_servingTicket g) (g_nextTicket g) (set (g_canceled g)) T"
    and s: "sleepers_ok (g_notify g) (g_barrier g) (g_active g) (g_nextTicket g) (due g) T"
    using assms(1) by (auto simp: gate_ok_def)
  note l = excl_leave(1) [OF e assms(2)]
  have d: "due (release g) = due g" by (simp add: release_def signalLocked_def due_def Let_def)
  show ?thesis
    using l tickets_move(1) [OF t, of i Outside] assms d
      sleepers_move [OF sleepers_signal [OF s], where y = Outside and i = i]
      sleepers_move [OF sleepers_wake(2) [OF s, of "g_active g - 1"], of Outside i]
    by (cases "g_active g = 1") (simp_all add: gate_ok_def release_def signalLocked_def Let_def)
qed

lemma end_ok:
  assumes "gate_ok g T" and "T i = BeginHold"
  shows "gate_ok (end_barrier g) (T(i := Outside))"
proof -
  have e: "excl_ok (g_active g) (g_barrier g) T"
    and t: "tickets_ok (g_servingTicket g) (g_nextTicket g) (set (g_canceled g)) T"
    and s: "sleepers_ok (g_notify g) (g_barrier g) (g_active g) (g_nextTicket g) (due g) T"
    using assms(1) by (auto simp: gate_ok_def)
  have d: "due (end_barrier g) = due g" by (simp add: end_barrier_def signalLocked_def due_def)
  show ?thesis
    using excl_leave(2) [OF e assms(2)] tickets_move(1) [OF t, of i Outside] assms d
      sleepers_move [OF sleepers_signal [OF s], where y = Outside and i = i]
    by (simp add: gate_ok_def end_barrier_def signalLocked_def)
qed

lemma acquire_leave_ok:
  assumes "gate_ok g T" and "T i = AcqWait w"
  shows "gate_ok g (T(i := Outside))"
  using assms excl_move(1) [of "g_active g" "g_barrier g" T i Outside]
    tickets_move(1) [of "g_servingTicket g" "g_nextTicket g" "set (g_canceled g)" T i Outside]
    sleepers_move [of "g_notify g" "g_barrier g" "g_active g" "g_nextTicket g" "due g" T Outside i]
  by (simp add: gate_ok_def)

abbreviation gate_inv :: "gate_sys \<Rightarrow> bool" where
  "gate_inv s \<equiv> gate_ok (gs_gate s) (gs_threads s)"

lemma gate_inv_step: "gate_step s s' \<Longrightarrow> gate_inv s \<Longrightarrow> gate_inv s'"
proof (induction rule: gate_step.induct)
  case (acquire_enter s i ok g)
  then show ?case using acquire_ok [of "gs_gate s" "gs_threads s" i 0 ok g] by (simp add: fun_upd_def)
next
  case (acquire_wake s i w ok g)
  then show ?case using acquire_ok [of "gs_gate s" "gs_threads s" i w ok g] by (simp add: fun_upd_def)
next
  case (acquire_cancel s i w)
  then show ?case using acquire_leave_ok by (simp add: fun_upd_def)
next
  case (release_step s i)
  then show ?case using release_ok by (simp add: fun_upd_def)
next
  case (begin_enter s i ticket g1 ok g)
  then show ?case using begin_enter_ok [of "gs_gate s" "gs_threads s" i ticket g1 ok g] by (simp add: fun_upd_def)
next
  case (begin_wake s i ticket w ok g)
  then show ?case using begin_wake_ok [of "gs_gate s" "gs_threads s" i ticket w ok g] by (simp add: fun_upd_def)
next
  case (begin_cancelled s i ticket w)
  then show ?case using cancel_ok [of "gs_gate s" "gs_threads s" i ticket w] by (simp add: fun_upd_def)
next
  case (begin_done s i)
  then show ?case using end_ok by (simp add: fun_upd_def)
qed

lemma gate_inv_reachable: "gate_step\<^sup>*\<^sup>* init_gate_sys s \<Longrightarrow> gate_inv s"
proof (induction rule: rtranclp_induct)
  case base
  then show ?case
    by (simp add: init_gate_sys_def zero_gate_def gate_ok_def excl_ok_def tickets_ok_def sleepers_ok_def
        holders_def waiting_def)
qed (rule gate_inv_step)

section \<open>Properties\<close>

text \<open>C5: 
  the quiet window is exclusive.  In every interleaving of card operations and quiet windows,
  with cancellations, while a thread owns the quiet window no other thread owns it and no card
  operation runs; and the gate's counter equals the number of card operations running.
\<close>

theorem gate_exclusion:
  assumes "gate_step\<^sup>*\<^sup>* init_gate_sys s"
  shows "(gs_threads s i = BeginHold \<longrightarrow> gs_threads s j \<noteq> AcqHold \<and> (gs_threads s j = BeginHold \<longrightarrow> j = i)) \<and>
    g_active (gs_gate s) = card {k. gs_threads s k = AcqHold} \<and>
    activeBarrier (gs_gate s) = (\<exists>k. gs_threads s k = BeginHold)"
proof -
  have e: "excl_ok (g_active (gs_gate s)) (g_barrier (gs_gate s)) (gs_threads s)"
    using gate_inv_reachable [OF assms] by (simp add: gate_ok_def)
  have "gs_threads s j \<noteq> AcqHold" if "gs_threads s i = BeginHold"
    using e that by (auto simp: excl_ok_def holders_def)
  with e show ?thesis by (auto simp: excl_ok_def holders_def activeBarrier_def)
qed

text \<open>One card operation running and two quiet windows waiting for it; then the operation is done.\<close>

definition sample_gate :: "nat \<Rightarrow> cardAccessGate" where
  "sample_gate n = zero_gate\<lparr>g_nextTicket := n, g_servingTicket := 1, g_active := 1\<rparr>"

definition sample_busy :: gate_sys where
  "sample_busy = \<lparr>gs_gate = sample_gate 3,
     gs_threads = (\<lambda>_. Outside)(0 := AcqHold, 1 := BeginWait 1 0, 2 := BeginWait 2 0)\<rparr>"

definition sample_idle :: gate_sys where
  "sample_idle = \<lparr>gs_gate = (sample_gate 3)\<lparr>g_active := 0, g_notify := 1\<rparr>,
     gs_threads = (\<lambda>_. Outside)(1 := BeginWait 1 0, 2 := BeginWait 2 0)\<rparr>"

lemma sample_begin:
  assumes "0 < n" and "T i = Outside"
  shows "gate_step \<lparr>gs_gate = sample_gate n, gs_threads = T\<rparr>
    \<lparr>gs_gate = sample_gate (Suc n), gs_threads = T(i := BeginWait n 0)\<rparr>"
proof -
  have "begin_ticket (sample_gate n) = (n, sample_gate (Suc n))"
    "begin_turn n (sample_gate (Suc n)) = (False, sample_gate (Suc n))"
    using assms(1)
    by (simp_all add: begin_ticket_def skipCanceledLocked_def initLocked_def sample_gate_def zero_gate_def
        begin_turn_def)
  with begin_enter [of "\<lparr>gs_gate = sample_gate n, gs_threads = T\<rparr>" i] assms(2) show ?thesis
    by (fastforce simp: after_begin_def sample_gate_def zero_gate_def)
qed

lemma sample_reachable: "gate_step\<^sup>*\<^sup>* init_gate_sys sample_busy" "gate_step\<^sup>*\<^sup>* init_gate_sys sample_idle"
proof -
  let ?T = "(\<lambda>_. Outside)(0 := AcqHold)"
  have "acquire_turn zero_gate = (True, sample_gate 1)"
    by (simp add: acquire_turn_def skipCanceledLocked_def initLocked_def zero_gate_def sample_gate_def)
  then have 1: "gate_step init_gate_sys \<lparr>gs_gate = sample_gate 1, gs_threads = ?T\<rparr>"
    using acquire_enter [of init_gate_sys 0] by (fastforce simp: init_gate_sys_def after_acquire_def)
  have 2: "gate_step \<lparr>gs_gate = sample_gate 1, gs_threads = ?T\<rparr>
      \<lparr>gs_gate = sample_gate 2, gs_threads = ?T(1 := BeginWait 1 0)\<rparr>"
    using sample_begin [of 1 ?T 1] by (simp add: numeral_2_eq_2)
  have 3: "gate_step \<lparr>gs_gate = sample_gate 2, gs_threads = ?T(1 := BeginWait 1 0)\<rparr> sample_busy"
    using sample_begin [of 2 "?T(1 := BeginWait 1 0)" 2] by (simp add: sample_busy_def)
  show r: "gate_step\<^sup>*\<^sup>* init_gate_sys sample_busy"
    using 1 2 3 by (meson converse_rtranclp_into_rtranclp r_into_rtranclp)
  have "gs_threads sample_busy 0 = AcqHold" by (simp add: sample_busy_def)
  note release_step [OF this]
  moreover have "sample_busy\<lparr>gs_gate := release (gs_gate sample_busy),
      gs_threads := (gs_threads sample_busy)(0 := Outside)\<rparr> = sample_idle"
    by (auto simp: sample_busy_def sample_idle_def release_def signalLocked_def sample_gate_def zero_gate_def)
  ultimately show "gate_step\<^sup>*\<^sup>* init_gate_sys sample_idle"
    using r by (metis rtranclp.rtrancl_into_rtrancl)
qed

theorem gate_exclusion_witness:
  "gs_threads sample_busy 0 = AcqHold \<and> \<not> activeBarrier (gs_gate sample_busy) \<and>
     card {k. gs_threads sample_busy k = AcqHold} = 1"
  using gate_exclusion [OF sample_reachable(1), of 0 0]
  by (simp add: sample_busy_def sample_gate_def zero_gate_def activeBarrier_def)

text \<open>
  quiet windows are granted in the order they were asked for.  When a step gives a waiting
  thread the quiet window, every other thread still waiting for one holds a later ticket.
\<close>

theorem gate_fifo:
  assumes "gate_step\<^sup>*\<^sup>* init_gate_sys s" and "gate_step s s'"
    and "gs_threads s i = BeginWait tk w" and "gs_threads s' i = BeginHold"
    and "gs_threads s j = BeginWait tk' w'" and "j \<noteq> i"
  shows "tk < tk'"
proof -
  have inv: "gate_inv s" using gate_inv_reachable [OF assms(1)] .
  obtain g where turn: "begin_turn tk (skipCanceledLocked (gs_gate s)) = (True, g)"
    using assms(2)
  proof cases
    case (begin_wake k ticket v ok g)
    then show ?thesis
      using assms(3,4) that by (cases "k = i") (auto simp: after_begin_def split: if_splits)
  qed (use assms(3,4) in \<open>auto simp: after_acquire_def after_begin_def split: if_splits\<close>)
  let ?n = "skipCanceledLocked (gs_gate s)"
  have t: "tickets_ok (g_servingTicket ?n) (g_nextTicket ?n) (set (g_canceled ?n)) (gs_threads s)"
    using skip_ok(1) [OF inv] by (simp add: gate_ok_def)
  have "tk = g_servingTicket ?n" using turn by (auto simp: begin_turn_def split: if_splits)
  moreover have "tk' \<in> {g_servingTicket ?n..<g_nextTicket ?n}"
    using t assms(5) by (auto simp: tickets_ok_def waiting_def)
  moreover have "tk' \<noteq> tk" using t assms(3,5,6) by (auto simp: tickets_ok_def)
  ultimately show ?thesis by simp
qed

theorem gate_fifo_witness:
  "\<exists>s'. gate_step sample_idle s' \<and> gs_threads s' 1 = BeginHold \<and> (1 :: nat) < 2"
proof -
  have w: "gs_threads sample_idle 1 = BeginWait 1 0" "gs_threads sample_idle 2 = BeginWait 2 0"
    by (simp_all add: sample_idle_def)
  obtain g' where "begin_turn 1 (skipCanceledLocked (gs_gate sample_idle)) = (True, g')"
    by (simp add: begin_turn_def skipCanceledLocked_def initLocked_def sample_idle_def sample_gate_def zero_gate_def)
  from begin_wake [OF w(1) _ this]
  have st: "gate_step sample_idle (sample_idle\<lparr>gs_gate := g',
      gs_threads := (gs_threads sample_idle)(1 := after_begin 1 True g')\<rparr>)"
    by (simp add: sample_idle_def)
  have "(1 :: nat) < 2"
    by (rule gate_fifo [OF sample_reachable(2) st w(1) _ w(2)]) (simp_all add: after_begin_def)
  with st show ?thesis by (intro exI conjI) (assumption, simp_all add: after_begin_def)
qed

text \<open>C10: 
  nobody waits for nothing.  Whenever no quiet window is held and no card operation runs, some
  thread that waits for a quiet window has been notified and gets it at its next step; and when
  none waits either, every waiting card operation has been notified and proceeds at its next step.
\<close>

theorem gate_progress:
  assumes "gate_step\<^sup>*\<^sup>* init_gate_sys s" and "\<not> activeBarrier (gs_gate s)"
  shows "(g_active (gs_gate s) = 0 \<and> gs_threads s i = BeginWait tk0 w0 \<longrightarrow>
      (\<exists>j tk w. gs_threads s j = BeginWait tk w \<and> awake w (gs_gate s) \<and>
         fst (begin_turn tk (skipCanceledLocked (gs_gate s))))) \<and>
    ((\<forall>j tk w. gs_threads s j \<noteq> BeginWait tk w) \<and> gs_threads s i = AcqWait w1 \<longrightarrow>
      awake w1 (gs_gate s) \<and> fst (acquire_turn (gs_gate s)))"
proof -
  let ?n = "skipCanceledLocked (gs_gate s)"
  let ?T = "gs_threads s"
  note n = skip_ok [OF gate_inv_reachable [OF assms(1)]]
  have t: "tickets_ok (due ?n) (g_nextTicket ?n) (set (g_canceled ?n)) ?T"
    and sl: "sleepers_ok (g_notify ?n) (g_barrier ?n) (g_active ?n) (g_nextTicket ?n) (due ?n) ?T"
    using n(1) by (simp_all add: gate_ok_def n(3))
  have iv: "{due ?n..<g_nextTicket ?n} = waiting ?T \<union> set (g_canceled ?n)" and le: "due ?n \<le> g_nextTicket ?n"
    using t by (auto simp: tickets_ok_def)
  have nc: "due ?n \<notin> set (g_canceled ?n)" using due_bounds(2) [of ?n] t n(3) by simp
  have b: "\<not> g_barrier ?n" using assms(2) by (simp add: activeBarrier_def skip_eq)
  have "\<exists>j tk w. ?T j = BeginWait tk w \<and> awake w (gs_gate s) \<and> fst (begin_turn tk ?n)"
    if "g_active (gs_gate s) = 0" "?T i = BeginWait tk0 w0"
  proof -
    have "tk0 \<in> {due ?n..<g_nextTicket ?n}" unfolding iv using that(2) by (auto simp: waiting_def)
    then have "due ?n \<in> {due ?n..<g_nextTicket ?n}" by simp
    then have "due ?n \<in> waiting ?T" using iv nc by blast
    then obtain j w where j: "?T j = BeginWait (due ?n) w" by (auto simp: waiting_def)
    moreover from j sl have "w \<le> g_notify ?n" "w = g_notify ?n \<longrightarrow> g_barrier ?n \<or> g_active ?n \<noteq> 0"
      unfolding sleepers_ok_def by blast+
    then have "w < g_notify (gs_gate s)" using b that(1) by (auto simp: skip_eq)
    ultimately show ?thesis using b that(1) n(3)
      by (intro exI [of _ j] exI [of _ "due ?n"] exI [of _ w]) (simp add: begin_turn_def skip_eq(1))
  qed
  moreover have "awake w1 (gs_gate s) \<and> fst (acquire_turn (gs_gate s))"
    if "\<forall>j tk w. ?T j \<noteq> BeginWait tk w" "?T i = AcqWait w1"
  proof -
    have "waiting ?T = {}" using that(1) by (auto simp: waiting_def)
    then have d: "due ?n = g_nextTicket ?n" using iv nc le
      by (cases "due ?n < g_nextTicket ?n") auto
    have "w1 \<le> g_notify ?n" "w1 = g_notify ?n \<longrightarrow> g_barrier ?n \<or> g_nextTicket ?n \<noteq> due ?n"
      using sl that(2) unfolding sleepers_ok_def by blast+
    then have "w1 < g_notify (gs_gate s)" using b d by (auto simp: skip_eq(3))
    moreover have "skipCanceledLocked (initLocked (gs_gate s)) = ?n"
      by (simp add: skipCanceledLocked_def initLocked_def)
    ultimately show ?thesis using d b n(3) by (simp add: acquire_turn_def Let_def)
  qed
  ultimately show ?thesis by blast
qed

theorem gate_progress_witness:
  "\<exists>j tk w. gs_threads sample_idle j = BeginWait tk w \<and> awake w (gs_gate sample_idle) \<and>
     fst (begin_turn tk (skipCanceledLocked (gs_gate sample_idle)))"
  using gate_progress [OF sample_reachable(2), of 1 1 0]
  by (simp add: sample_idle_def activeBarrier_def sample_gate_def zero_gate_def)

end
