(* ===== verification/Frame.thy ===== *)
theory Frame
  imports Prelude
begin

text \<open>
  The QMUX frame layer, \<^verbatim>\<open>pkg/qmi/frame.go\<close>: the outer headers (QMUX and the synthetic QRTR
  virtual header), the CTL and service headers, TLVs, whole packets, the result TLV and the
  service-identifier TLV of the control service.  The definitions follow the file from top to
  bottom; the lemmas show that every header is a wire codec, that \<open>ParseTLVs\<close> accepts exactly
  the concatenations of marshalled TLVs (up to zero padding), and the packet round trip.
\<close>

section \<open>Constants\<close>

definition ServiceControl :: u16 where "ServiceControl = 0x00"
definition ServiceWDS :: u16 where "ServiceWDS = 0x01"
definition ServiceDMS :: u16 where "ServiceDMS = 0x02"
definition ServiceNAS :: u16 where "ServiceNAS = 0x03"
definition ServiceWMS :: u16 where "ServiceWMS = 0x05"
definition ServiceVOICE :: u16 where "ServiceVOICE = 0x09"
definition ServiceUIM :: u16 where "ServiceUIM = 0x0B"
definition ServiceIMS :: u16 where "ServiceIMS = 0x12"
definition ServiceWDA :: u16 where "ServiceWDA = 0x1A"
definition ServiceIMSP :: u16 where "ServiceIMSP = 0x1F"
definition ServiceWDSIPv6 :: u16 where "ServiceWDSIPv6 = 0x1B"
definition ServiceIMSA :: u16 where "ServiceIMSA = 0x21"

definition CTLGetVersionInfo :: u16 where "CTLGetVersionInfo = 0x0021"
definition CTLGetClientID :: u16 where "CTLGetClientID = 0x0022"
definition CTLReleaseClientID :: u16 where "CTLReleaseClientID = 0x0023"
definition CTLRevokeClientIDInd :: u16 where "CTLRevokeClientIDInd = 0x0024"
definition CTLSync :: u16 where "CTLSync = 0x0027"
definition CTLInternalProxyOpen :: u16 where "CTLInternalProxyOpen = 0xFF00"
definition TLVProxyDevicePath :: u8 where "TLVProxyDevicePath = 0x01"

lemmas service_consts [simp] =
  ServiceControl_def ServiceWDS_def ServiceDMS_def ServiceNAS_def ServiceWMS_def ServiceVOICE_def
  ServiceUIM_def ServiceIMS_def ServiceWDA_def ServiceIMSP_def ServiceWDSIPv6_def ServiceIMSA_def

lemmas ctl_consts [simp] =
  CTLGetVersionInfo_def CTLGetClientID_def CTLReleaseClientID_def CTLRevokeClientIDInd_def
  CTLSync_def CTLInternalProxyOpen_def TLVProxyDevicePath_def

section \<open>Errors\<close>

text \<open>One constructor per \<^verbatim>\<open>fmt.Errorf\<close> of the file, with the values it prints.\<close>

datatype frame_error =
    QmuxHeaderTooShort nat
  | QrtrHeaderTooShort nat
  | InvalidIFType u8
  | FrameHeaderEmpty
  | InvalidFrameMarker u8
  | CTLHeaderTooShort nat
  | ServiceHeaderTooShort nat
  | TLVHeaderTooShort
  | TLVValueTruncated u16 nat
  | InvalidFrameLength u16
  | PacketTruncated nat nat
  | BodyTooShortForCTL
  | BodyTooShortForService
  | CTLTLVTruncated u16 nat
  | ServiceTLVTruncated u16 nat

section \<open>Outer headers\<close>

record QmuxHeader =
  qmux_IFType :: u8
  qmux_Length :: u16
  qmux_ControlFlags :: u8
  qmux_ServiceType :: u8
  qmux_ClientID :: u8

definition QmuxHeaderSize :: nat where "QmuxHeaderSize = 6"

definition QmuxHeader_Marshal :: "QmuxHeader \<Rightarrow> byte list" where
  "QmuxHeader_Marshal h =
     [0x01] @ PutUint16 (qmux_Length h)
       @ [qmux_ControlFlags h, qmux_ServiceType h, qmux_ClientID h]"

definition UnmarshalQmuxHeader :: "byte list \<Rightarrow> frame_error + QmuxHeader" where
  "UnmarshalQmuxHeader data =
     (if length data < QmuxHeaderSize then Inl (QmuxHeaderTooShort (length data))
      else if data ! 0 \<noteq> 0x01 then Inl (InvalidIFType (data ! 0))
      else Inr \<lparr>qmux_IFType = data ! 0, qmux_Length = Uint16 (go_slice 1 3 data),
                qmux_ControlFlags = data ! 3, qmux_ServiceType = data ! 4,
                qmux_ClientID = data ! 5\<rparr>)"

record QrtrVirtualHeader =
  qv_IFType :: u8
  qv_Length :: u16
  qv_ControlFlags :: u8
  qv_ServiceType :: u16
  qv_ClientID :: u8

definition QrtrHeaderSize :: nat where "QrtrHeaderSize = 7"

definition QrtrVirtualHeader_Marshal :: "QrtrVirtualHeader \<Rightarrow> byte list" where
  "QrtrVirtualHeader_Marshal h =
     [0x02] @ PutUint16 (qv_Length h) @ [qv_ControlFlags h]
       @ PutUint16 (qv_ServiceType h) @ [qv_ClientID h]"

definition UnmarshalQrtrVirtualHeader :: "byte list \<Rightarrow> frame_error + QrtrVirtualHeader" where
  "UnmarshalQrtrVirtualHeader data =
     (if length data < QrtrHeaderSize then Inl (QrtrHeaderTooShort (length data))
      else if data ! 0 \<noteq> 0x02 then Inl (InvalidIFType (data ! 0))
      else Inr \<lparr>qv_IFType = data ! 0, qv_Length = Uint16 (go_slice 1 3 data),
                qv_ControlFlags = data ! 3, qv_ServiceType = Uint16 (go_slice 4 6 data),
                qv_ClientID = data ! 6\<rparr>)"

text \<open>\<^verbatim>\<open>bodyLen\<close> is a Go \<^verbatim>\<open>int\<close>; the conversion to \<^verbatim>\<open>uint16\<close> truncates.\<close>

definition marshalFrameHeader :: "u16 \<Rightarrow> u8 \<Rightarrow> nat \<Rightarrow> byte list" where
  "marshalFrameHeader service clientID bodyLen =
     (if service \<le> 0xFF then
        QmuxHeader_Marshal
          \<lparr>qmux_IFType = 0x01, qmux_Length = of_nat (bodyLen + 5), qmux_ControlFlags = 0x00,
           qmux_ServiceType = ucast service, qmux_ClientID = clientID\<rparr>
      else
        QrtrVirtualHeader_Marshal
          \<lparr>qv_IFType = 0x02, qv_Length = of_nat (bodyLen + 6), qv_ControlFlags = 0x00,
           qv_ServiceType = service, qv_ClientID = clientID\<rparr>)"

record decodedFrameHeader =
  fh_headerSize :: nat
  fh_length :: u16
  fh_controlFlags :: u8
  fh_serviceType :: u16
  fh_clientID :: u8

definition unmarshalFrameHeader :: "byte list \<Rightarrow> frame_error + decodedFrameHeader" where
  "unmarshalFrameHeader data =
     (if length data < 1 then Inl FrameHeaderEmpty
      else if data ! 0 = 0x01 then
        bind_res (UnmarshalQmuxHeader data) (\<lambda>h.
          Inr \<lparr>fh_headerSize = QmuxHeaderSize, fh_length = qmux_Length h,
               fh_controlFlags = qmux_ControlFlags h,
               fh_serviceType = ucast (qmux_ServiceType h), fh_clientID = qmux_ClientID h\<rparr>)
      else if data ! 0 = 0x02 then
        bind_res (UnmarshalQrtrVirtualHeader data) (\<lambda>h.
          Inr \<lparr>fh_headerSize = QrtrHeaderSize, fh_length = qv_Length h,
               fh_controlFlags = qv_ControlFlags h,
               fh_serviceType = qv_ServiceType h, fh_clientID = qv_ClientID h\<rparr>)
      else Inl (InvalidFrameMarker (data ! 0)))"

section \<open>CTL and service headers\<close>

record CTLHeader =
  ctl_ControlFlags :: u8
  ctl_TransactionID :: u8
  ctl_MessageID :: u16
  ctl_Length :: u16

definition CTLHeaderSize :: nat where "CTLHeaderSize = 6"

definition CTLHeader_Marshal :: "CTLHeader \<Rightarrow> byte list" where
  "CTLHeader_Marshal h =
     [ctl_ControlFlags h, ctl_TransactionID h] @ PutUint16 (ctl_MessageID h)
       @ PutUint16 (ctl_Length h)"

definition UnmarshalCTLHeader :: "byte list \<Rightarrow> frame_error + CTLHeader" where
  "UnmarshalCTLHeader data =
     (if length data < CTLHeaderSize then Inl (CTLHeaderTooShort (length data))
      else Inr \<lparr>ctl_ControlFlags = data ! 0, ctl_TransactionID = data ! 1,
                ctl_MessageID = Uint16 (go_slice 2 4 data), ctl_Length = Uint16 (go_slice 4 6 data)\<rparr>)"

record ServiceHeader =
  svc_ControlFlags :: u8
  svc_TransactionID :: u16
  svc_MessageID :: u16
  svc_Length :: u16

definition ServiceHeaderSize :: nat where "ServiceHeaderSize = 7"

definition ServiceHeader_Marshal :: "ServiceHeader \<Rightarrow> byte list" where
  "ServiceHeader_Marshal h =
     [svc_ControlFlags h] @ PutUint16 (svc_TransactionID h) @ PutUint16 (svc_MessageID h)
       @ PutUint16 (svc_Length h)"

definition UnmarshalServiceHeader :: "byte list \<Rightarrow> frame_error + ServiceHeader" where
  "UnmarshalServiceHeader data =
     (if length data < ServiceHeaderSize then Inl (ServiceHeaderTooShort (length data))
      else Inr \<lparr>svc_ControlFlags = data ! 0, svc_TransactionID = Uint16 (go_slice 1 3 data),
                svc_MessageID = Uint16 (go_slice 3 5 data), svc_Length = Uint16 (go_slice 5 7 data)\<rparr>)"

section \<open>TLVs\<close>

record TLV =
  tlv_Type :: u8
  tlv_Value :: "byte list"

definition TLVHeaderSize :: nat where "TLVHeaderSize = 3"

definition TLV_Marshal :: "TLV \<Rightarrow> byte list" where
  "TLV_Marshal t = [tlv_Type t] @ PutUint16 (of_nat (length (tlv_Value t))) @ tlv_Value t"

definition UnmarshalTLV :: "byte list \<Rightarrow> frame_error + (TLV \<times> nat)" where
  "UnmarshalTLV data =
     (if length data < TLVHeaderSize then Inl TLVHeaderTooShort
      else let t = data ! 0; l = Uint16 (go_slice 1 3 data) in
        if length data < TLVHeaderSize + unat l then
          Inl (TLVValueTruncated l (length data - TLVHeaderSize))
        else Inr (\<lparr>tlv_Type = t, tlv_Value = go_slice TLVHeaderSize (TLVHeaderSize + unat l) data\<rparr>,
                  TLVHeaderSize + unat l))"

lemma UnmarshalTLV_consumed: "UnmarshalTLV data = Inr (t, n) \<Longrightarrow> 0 < n \<and> n \<le> length data"
  by (auto simp: UnmarshalTLV_def TLVHeaderSize_def Let_def split: if_splits)

text \<open>
  The loop of \<^verbatim>\<open>ParseTLVs\<close>: the TLVs read so far are returned also next to an error, and fewer
  than three trailing bytes are padding when they are all zero.
\<close>

function ParseTLVs_loop :: "byte list \<Rightarrow> nat \<Rightarrow> TLV list \<Rightarrow> TLV list \<times> frame_error option" where
  "ParseTLVs_loop data offset tlvs =
     (if offset < length data then
        if length data - offset < TLVHeaderSize \<and> list_all (\<lambda>b. b = 0x00) (drop offset data)
        then (tlvs, None)
        else (case UnmarshalTLV (drop offset data) of
                Inl err \<Rightarrow> (tlvs, Some err)
              | Inr (tlv, consumed) \<Rightarrow> ParseTLVs_loop data (offset + consumed) (tlvs @ [tlv]))
      else (tlvs, None))"
  by pat_completeness auto
termination
  by (relation "measure (\<lambda>(data, offset, tlvs). length data - offset)")
    (auto dest!: UnmarshalTLV_consumed)

declare ParseTLVs_loop.simps [simp del]

definition ParseTLVs :: "byte list \<Rightarrow> TLV list \<times> frame_error option" where
  "ParseTLVs data = ParseTLVs_loop data 0 []"

fun FindTLV :: "TLV list \<Rightarrow> u8 \<Rightarrow> TLV option" where
  "FindTLV [] ty = None"
| "FindTLV (t # ts) ty = (if tlv_Type t = ty then Some t else FindTLV ts ty)"

section \<open>Packets\<close>

record Packet =
  pkt_ServiceType :: u16
  pkt_ClientID :: u8
  pkt_TransactionID :: u16
  pkt_MessageID :: u16
  pkt_IsIndication :: bool
  pkt_TLVs :: "TLV list"

definition Packet_Marshal :: "Packet \<Rightarrow> byte list" where
  "Packet_Marshal p =
     (let tlvBytes = concat (map TLV_Marshal (pkt_TLVs p));
          body = (if pkt_ServiceType p = ServiceControl then
                    CTLHeader_Marshal
                      \<lparr>ctl_ControlFlags = 0x00,
                       ctl_TransactionID = ucast (pkt_TransactionID p AND 0xFF),
                       ctl_MessageID = pkt_MessageID p,
                       ctl_Length = of_nat (length tlvBytes)\<rparr> @ tlvBytes
                  else
                    ServiceHeader_Marshal
                      \<lparr>svc_ControlFlags = 0x00,
                       svc_TransactionID = pkt_TransactionID p,
                       svc_MessageID = pkt_MessageID p,
                       svc_Length = of_nat (length tlvBytes)\<rparr> @ tlvBytes)
      in marshalFrameHeader (pkt_ServiceType p) (pkt_ClientID p) (length body) @ body)"

text \<open>The tail of \<^verbatim>\<open>UnmarshalPacket\<close> for the control service and for every other service.\<close>

definition UnmarshalCTLBody :: "decodedFrameHeader \<Rightarrow> byte list \<Rightarrow> frame_error + Packet" where
  "UnmarshalCTLBody fh body =
     (if length body < CTLHeaderSize then Inl BodyTooShortForCTL
      else bind_res (UnmarshalCTLHeader body) (\<lambda>ctlH.
        let tlvData = drop CTLHeaderSize body in
        if unat (ctl_Length ctlH) > length tlvData then
          Inl (CTLTLVTruncated (ctl_Length ctlH) (length tlvData))
        else (case ParseTLVs (take (unat (ctl_Length ctlH)) tlvData) of
            (_, Some err) \<Rightarrow> Inl err
          | (tlvs, None) \<Rightarrow>
              Inr \<lparr>pkt_ServiceType = fh_serviceType fh, pkt_ClientID = fh_clientID fh,
                   pkt_TransactionID = ucast (ctl_TransactionID ctlH),
                   pkt_MessageID = ctl_MessageID ctlH,
                   pkt_IsIndication = (ctl_ControlFlags ctlH AND 0x02 \<noteq> 0),
                   pkt_TLVs = tlvs\<rparr>)))"

definition UnmarshalServiceBody :: "decodedFrameHeader \<Rightarrow> byte list \<Rightarrow> frame_error + Packet" where
  "UnmarshalServiceBody fh body =
     (if length body < ServiceHeaderSize then Inl BodyTooShortForService
      else bind_res (UnmarshalServiceHeader body) (\<lambda>svcH.
        let tlvData = drop ServiceHeaderSize body in
        if unat (svc_Length svcH) > length tlvData then
          Inl (ServiceTLVTruncated (svc_Length svcH) (length tlvData))
        else (case ParseTLVs (take (unat (svc_Length svcH)) tlvData) of
            (_, Some err) \<Rightarrow> Inl err
          | (tlvs, None) \<Rightarrow>
              Inr \<lparr>pkt_ServiceType = fh_serviceType fh, pkt_ClientID = fh_clientID fh,
                   pkt_TransactionID = svc_TransactionID svcH,
                   pkt_MessageID = svc_MessageID svcH,
                   pkt_IsIndication = (svc_ControlFlags svcH AND 0x04 \<noteq> 0),
                   pkt_TLVs = tlvs\<rparr>)))"

definition UnmarshalPacket :: "byte list \<Rightarrow> frame_error + Packet" where
  "UnmarshalPacket data =
     bind_res (unmarshalFrameHeader data) (\<lambda>fh.
       let expectedTotal = unat (fh_length fh) + 1 in
       if expectedTotal < fh_headerSize fh then Inl (InvalidFrameLength (fh_length fh))
       else if length data < expectedTotal then
         Inl (PacketTruncated expectedTotal (length data))
       else
         let data' = (if length data > expectedTotal then take expectedTotal data else data);
             body = drop (fh_headerSize fh) data'
         in if fh_serviceType fh = ServiceControl then UnmarshalCTLBody fh body
            else UnmarshalServiceBody fh body)"

section \<open>Results\<close>

text \<open>\<^verbatim>\<open>QMIError\<close> of \<^verbatim>\<open>errors.go\<close>; \<open>ResultMissing\<close> is the error for an absent result TLV.\<close>

record QMIError =
  qe_Service :: u16
  qe_MessageID :: u16
  qe_Result :: u16
  qe_ErrorCode :: u16

datatype result_error = ResultMissing | ResultQMI QMIError

definition GetResultCode :: "Packet \<Rightarrow> (u16 \<times> u16) option" where
  "GetResultCode p =
     (case FindTLV (pkt_TLVs p) 0x02 of
        None \<Rightarrow> None
      | Some tlv \<Rightarrow>
          if length (tlv_Value tlv) < 4 then None
          else Some (Uint16 (go_slice 0 2 (tlv_Value tlv)), Uint16 (go_slice 2 4 (tlv_Value tlv))))"

definition IsSuccess :: "Packet \<Rightarrow> bool" where
  "IsSuccess p = (case GetResultCode p of None \<Rightarrow> False | Some (result, _) \<Rightarrow> result = 0)"

text \<open>\<^verbatim>\<open>nil\<close> is \<^const>\<open>None\<close>.\<close>

definition CheckResult :: "Packet \<Rightarrow> result_error option" where
  "CheckResult p =
     (case GetResultCode p of
        None \<Rightarrow> Some ResultMissing
      | Some (result, errCode) \<Rightarrow>
          if result \<noteq> 0 then
            Some (ResultQMI \<lparr>qe_Service = pkt_ServiceType p, qe_MessageID = pkt_MessageID p,
                             qe_Result = result, qe_ErrorCode = errCode\<rparr>)
          else None)"

section \<open>TLV builders and the service-identifier TLV of the control service\<close>

definition NewTLVUint8 :: "u8 \<Rightarrow> u8 \<Rightarrow> TLV" where
  "NewTLVUint8 t v = \<lparr>tlv_Type = t, tlv_Value = [v]\<rparr>"

definition NewTLVUint16 :: "u8 \<Rightarrow> u16 \<Rightarrow> TLV" where
  "NewTLVUint16 t v = \<lparr>tlv_Type = t, tlv_Value = PutUint16 v\<rparr>"

definition NewTLVUint32 :: "u8 \<Rightarrow> u32 \<Rightarrow> TLV" where
  "NewTLVUint32 t v = \<lparr>tlv_Type = t, tlv_Value = PutUint32 v\<rparr>"

text \<open>A Go string is its bytes.\<close>

definition NewTLVString :: "u8 \<Rightarrow> byte list \<Rightarrow> TLV" where
  "NewTLVString t s = \<lparr>tlv_Type = t, tlv_Value = s\<rparr>"

definition encodeCTLServiceOnlyTLV :: "u16 \<Rightarrow> TLV" where
  "encodeCTLServiceOnlyTLV service =
     (if service \<le> 0xFF then \<lparr>tlv_Type = 0x01, tlv_Value = [ucast service]\<rparr>
      else \<lparr>tlv_Type = 0x01, tlv_Value = [ucast service, ucast (drop_bit 8 service)]\<rparr>)"

definition decodeCTLServiceOnlyTLV :: "byte list \<Rightarrow> u16 option" where
  "decodeCTLServiceOnlyTLV v =
     (if length v = 1 then Some (ucast (v ! 0))
      else if length v = 2 then Some (Uint16 v)
      else None)"

definition encodeCTLServiceClientIDTLV :: "u16 \<Rightarrow> u8 \<Rightarrow> TLV" where
  "encodeCTLServiceClientIDTLV service clientID =
     (if service \<le> 0xFF then \<lparr>tlv_Type = 0x01, tlv_Value = [ucast service, clientID]\<rparr>
      else \<lparr>tlv_Type = 0x01, tlv_Value = [ucast service, ucast (drop_bit 8 service), clientID]\<rparr>)"

definition decodeCTLServiceClientIDTLV :: "byte list \<Rightarrow> (u16 \<times> u8) option" where
  "decodeCTLServiceClientIDTLV v =
     (if length v = 2 then Some (ucast (v ! 0), v ! 1)
      else if length v = 3 then Some (Uint16 (go_slice 0 2 v), v ! 2)
      else None)"

section \<open>The headers are wire codecs\<close>

lemmas header_sizes [simp] =
  QmuxHeaderSize_def QrtrHeaderSize_def CTLHeaderSize_def ServiceHeaderSize_def TLVHeaderSize_def

interpretation qmux: strict_wire_codec QmuxHeader_Marshal UnmarshalQmuxHeader QmuxHeaderSize
  "\<lambda>h. qmux_IFType h = 0x01"
proof
  show "length (QmuxHeader_Marshal h) = QmuxHeaderSize" for h
    by (simp add: QmuxHeader_Marshal_def)
  show "UnmarshalQmuxHeader (QmuxHeader_Marshal h @ rest) = Inr h"
    if "qmux_IFType h = 0x01" for h rest
    using that by (simp add: QmuxHeader_Marshal_def UnmarshalQmuxHeader_def PutUint16_def)
  show "\<exists>e. UnmarshalQmuxHeader bs = Inl e" if "length bs < QmuxHeaderSize" for bs
    using that by (simp add: UnmarshalQmuxHeader_def)
  show "qmux_IFType h = 0x01 \<and> take QmuxHeaderSize bs = QmuxHeader_Marshal h"
    if "UnmarshalQmuxHeader bs = Inr h" for bs h
    using that by (auto simp: UnmarshalQmuxHeader_def QmuxHeader_Marshal_def
        split: if_splits dest!: length_ge_6D)
qed

interpretation qrtrv: strict_wire_codec QrtrVirtualHeader_Marshal UnmarshalQrtrVirtualHeader
  QrtrHeaderSize "\<lambda>h. qv_IFType h = 0x02"
proof
  show "length (QrtrVirtualHeader_Marshal h) = QrtrHeaderSize" for h
    by (simp add: QrtrVirtualHeader_Marshal_def)
  show "UnmarshalQrtrVirtualHeader (QrtrVirtualHeader_Marshal h @ rest) = Inr h"
    if "qv_IFType h = 0x02" for h rest
    using that
    by (simp add: QrtrVirtualHeader_Marshal_def UnmarshalQrtrVirtualHeader_def PutUint16_def)
  show "\<exists>e. UnmarshalQrtrVirtualHeader bs = Inl e" if "length bs < QrtrHeaderSize" for bs
    using that by (simp add: UnmarshalQrtrVirtualHeader_def)
  show "qv_IFType h = 0x02 \<and> take QrtrHeaderSize bs = QrtrVirtualHeader_Marshal h"
    if "UnmarshalQrtrVirtualHeader bs = Inr h" for bs h
    using that by (auto simp: UnmarshalQrtrVirtualHeader_def QrtrVirtualHeader_Marshal_def
        split: if_splits dest!: length_ge_7D)
qed

interpretation ctlh: strict_wire_codec CTLHeader_Marshal UnmarshalCTLHeader CTLHeaderSize
  "\<lambda>_. True"
proof
  show "length (CTLHeader_Marshal h) = CTLHeaderSize" for h
    by (simp add: CTLHeader_Marshal_def)
  show "UnmarshalCTLHeader (CTLHeader_Marshal h @ rest) = Inr h" for h rest
    by (simp add: CTLHeader_Marshal_def UnmarshalCTLHeader_def PutUint16_def)
  show "\<exists>e. UnmarshalCTLHeader bs = Inl e" if "length bs < CTLHeaderSize" for bs
    using that by (simp add: UnmarshalCTLHeader_def)
  show "True \<and> take CTLHeaderSize bs = CTLHeader_Marshal h"
    if "UnmarshalCTLHeader bs = Inr h" for bs h
    using that by (auto simp: UnmarshalCTLHeader_def CTLHeader_Marshal_def
        split: if_splits dest!: length_ge_6D)
qed

interpretation svch: strict_wire_codec ServiceHeader_Marshal UnmarshalServiceHeader
  ServiceHeaderSize "\<lambda>_. True"
proof
  show "length (ServiceHeader_Marshal h) = ServiceHeaderSize" for h
    by (simp add: ServiceHeader_Marshal_def)
  show "UnmarshalServiceHeader (ServiceHeader_Marshal h @ rest) = Inr h" for h rest
    by (simp add: ServiceHeader_Marshal_def UnmarshalServiceHeader_def PutUint16_def)
  show "\<exists>e. UnmarshalServiceHeader bs = Inl e" if "length bs < ServiceHeaderSize" for bs
    using that by (simp add: UnmarshalServiceHeader_def)
  show "True \<and> take ServiceHeaderSize bs = ServiceHeader_Marshal h"
    if "UnmarshalServiceHeader bs = Inr h" for bs h
    using that by (auto simp: UnmarshalServiceHeader_def ServiceHeader_Marshal_def
        split: if_splits dest!: length_ge_7D)
qed

lemmas header_lengths [simp] =
  qmux.length_marshal qrtrv.length_marshal ctlh.length_marshal svch.length_marshal

section \<open>TLV sequences\<close>

definition wf_tlv :: "TLV \<Rightarrow> bool" where
  "wf_tlv t \<longleftrightarrow> length (tlv_Value t) < 65536"

definition tlv_bytes :: "TLV list \<Rightarrow> byte list" where
  "tlv_bytes ts = concat (map TLV_Marshal ts)"

lemma tlv_bytes_simps [simp]:
  "tlv_bytes [] = []"
  "tlv_bytes (t # ts) = TLV_Marshal t @ tlv_bytes ts"
  by (simp_all add: tlv_bytes_def)

lemma length_TLV_Marshal [simp]: "length (TLV_Marshal t) = 3 + length (tlv_Value t)"
  by (simp add: TLV_Marshal_def)

lemma UnmarshalTLV_Marshal [simp]:
  "wf_tlv t \<Longrightarrow> UnmarshalTLV (TLV_Marshal t @ r) = Inr (t, length (TLV_Marshal t))"
  by (simp add: UnmarshalTLV_def TLV_Marshal_def wf_tlv_def PutUint16_def Let_def)

lemma UnmarshalTLV_sound:
  assumes "UnmarshalTLV data = Inr (t, n)"
  shows "wf_tlv t \<and> n = length (TLV_Marshal t) \<and> data = TLV_Marshal t @ drop n data"
proof -
  from assms obtain a b c r where d: "data = a # b # c # r"
    using length_ge_3D [of data] by (auto simp: UnmarshalTLV_def split: if_splits)
  define l where "l = Uint16 [b, c]"
  from assms d have len: "unat l \<le> length r" and n: "n = 3 + unat l"
    and t: "t = \<lparr>tlv_Type = a, tlv_Value = take (unat l) r\<rparr>"
    by (auto simp: UnmarshalTLV_def Let_def l_def split: if_splits)
  from len have "length (tlv_Value t) = unat l" by (simp add: t)
  moreover have "unat l < 65536" by simp
  moreover have "PutUint16 (of_nat (unat l)) = [b, c]" by (simp add: l_def)
  ultimately show ?thesis using d n t
    by (simp add: wf_tlv_def TLV_Marshal_def drop_3_add)
qed

lemma ParseTLVs_loop_acc:
  "ParseTLVs_loop data offset acc =
     (acc @ fst (ParseTLVs (drop offset data)), snd (ParseTLVs (drop offset data)))"
proof (induction "length data - offset" arbitrary: data offset acc rule: less_induct)
  case less
  show ?case
  proof (cases "UnmarshalTLV (drop offset data)")
    case (Inl e)
    then show ?thesis
      by (auto simp: ParseTLVs_def ParseTLVs_loop.simps [of data]
          ParseTLVs_loop.simps [of "drop offset data"])
  next
    case (Inr p)
    obtain t n where p: "p = (t, n)" by (cases p)
    have n: "0 < n" "n \<le> length data - offset"
      using UnmarshalTLV_consumed [of "drop offset data" t n] Inr p by auto
    have step: "ParseTLVs_loop data (offset + n) (acc @ [t]) =
        ((acc @ [t]) @ fst (ParseTLVs (drop (offset + n) data)),
         snd (ParseTLVs (drop (offset + n) data)))" if "offset < length data"
      using less.hyps [of data "offset + n"] n that by simp
    have step': "ParseTLVs_loop (drop offset data) n [t] =
        ([t] @ fst (ParseTLVs (drop n (drop offset data))),
         snd (ParseTLVs (drop n (drop offset data))))" if "offset < length data"
      using less.hyps [of "drop offset data" n] n that by simp
    show ?thesis using Inr p step step'
      by (auto simp: ParseTLVs_def ParseTLVs_loop.simps [of data offset]
          ParseTLVs_loop.simps [of "drop offset data" 0] add.commute)
  qed
qed

lemma ParseTLVs_rec:
  "ParseTLVs data =
     (if data = [] \<or> length data < 3 \<and> list_all (\<lambda>b. b = 0) data then ([], None)
      else case UnmarshalTLV data of
          Inl e \<Rightarrow> ([], Some e)
        | Inr (t, n) \<Rightarrow> (t # fst (ParseTLVs (drop n data)), snd (ParseTLVs (drop n data))))"
  unfolding ParseTLVs_def [of data]
  by (subst ParseTLVs_loop.simps) (auto simp: ParseTLVs_loop_acc split: sum.splits)

lemma ParseTLVs_complete:
  assumes "list_all wf_tlv ts" and "length pad < 3" and "list_all (\<lambda>b. b = 0) pad"
  shows "ParseTLVs (tlv_bytes ts @ pad) = (ts, None)"
  using assms(1)
proof (induction ts)
  case Nil
  then show ?case using assms(2,3) by (subst ParseTLVs_rec) simp
next
  case (Cons t ts)
  have "ParseTLVs (tlv_bytes ts @ pad) = (ts, None)" using Cons by simp
  moreover have "TLV_Marshal t \<noteq> []" by (simp add: TLV_Marshal_def)
  ultimately show ?case using Cons.prems
    by (subst ParseTLVs_rec) simp
qed

lemma ParseTLVs_sound:
  "ParseTLVs data = (ts, None) \<Longrightarrow>
     list_all wf_tlv ts \<and>
     (\<exists>pad. data = tlv_bytes ts @ pad \<and> length pad < 3 \<and> list_all (\<lambda>b. b = 0) pad)"
proof (induction "length data" arbitrary: data ts rule: less_induct)
  case less
  show ?case
  proof (cases "data = [] \<or> length data < 3 \<and> list_all (\<lambda>b. b = 0) data")
    case True
    with less.prems have "ts = []" by (simp add: ParseTLVs_rec [of data])
    with True show ?thesis by auto
  next
    case False
    with less.prems obtain t n where u: "UnmarshalTLV data = Inr (t, n)"
      by (auto simp: ParseTLVs_rec [of data] split: sum.splits)
    from False less.prems u obtain ts' where ts: "ts = t # ts'"
      and rest: "ParseTLVs (drop n data) = (ts', None)"
      by (auto simp: ParseTLVs_rec [of data] prod_eq_iff)
    have "length (drop n data) < length data"
      using UnmarshalTLV_consumed [OF u] by auto
    from less.hyps [OF this rest] UnmarshalTLV_sound [OF u] show ?thesis
      by (metis append.assoc list.pred_inject(2) tlv_bytes_simps(2) ts)
  qed
qed

text \<open>C27: 
  the TLV parser accepts exactly the concatenations of encoded TLVs followed by at most two
  zero bytes of padding, and returns those TLVs in order; everything else is reported as an error.
\<close>

theorem ParseTLVs_accepts_iff:
  "ParseTLVs data = (ts, None) \<longleftrightarrow>
     list_all wf_tlv ts \<and>
     (\<exists>pad. data = tlv_bytes ts @ pad \<and> length pad < 3 \<and> list_all (\<lambda>b. b = 0) pad)"
  using ParseTLVs_sound ParseTLVs_complete by metis

lemma ParseTLVs_tlv_bytes [simp]: "list_all wf_tlv ts \<Longrightarrow> ParseTLVs (tlv_bytes ts) = (ts, None)"
  using ParseTLVs_complete [of ts "[]"] by simp

section \<open>Packets\<close>

definition frame_overhead :: "u16 \<Rightarrow> nat" where
  "frame_overhead service = (if service \<le> 0xFF then 5 else 6)"

definition packet_body_length :: "Packet \<Rightarrow> nat" where
  "packet_body_length p =
     (if pkt_ServiceType p = ServiceControl then CTLHeaderSize else ServiceHeaderSize)
       + length (tlv_bytes (pkt_TLVs p))"

text \<open>
  A packet fits its frame: the 16-bit length field holds the size, and a control packet uses a
  one-byte transaction identifier.
\<close>

definition wf_packet :: "Packet \<Rightarrow> bool" where
  "wf_packet p \<longleftrightarrow>
     packet_body_length p + frame_overhead (pkt_ServiceType p) < 65536 \<and>
     (pkt_ServiceType p = ServiceControl \<longrightarrow> pkt_TransactionID p \<le> 0xFF)"

lemma length_tlv_bytes_ge: "t \<in> set ts \<Longrightarrow> length (tlv_Value t) \<le> length (tlv_bytes ts)"
  by (induction ts) auto

lemma wf_packet_tlvs: "wf_packet p \<Longrightarrow> list_all wf_tlv (pkt_TLVs p)"
  by (auto simp: wf_packet_def packet_body_length_def wf_tlv_def list_all_iff
      dest!: length_tlv_bytes_ge)

lemma length_marshalFrameHeader [simp]:
  "length (marshalFrameHeader s c n) = frame_overhead s + 1"
  by (simp add: marshalFrameHeader_def frame_overhead_def)

lemma unmarshal_marshalFrameHeader [simp]:
  "unmarshalFrameHeader (marshalFrameHeader s c n @ body) =
     Inr \<lparr>fh_headerSize = frame_overhead s + 1, fh_length = of_nat (n + frame_overhead s),
          fh_controlFlags = 0, fh_serviceType = s, fh_clientID = c\<rparr>"
proof (cases "s \<le> 0xFF")
  case True
  then have eq: "marshalFrameHeader s c n = QmuxHeader_Marshal
      \<lparr>qmux_IFType = 0x01, qmux_Length = of_nat (n + 5), qmux_ControlFlags = 0x00,
       qmux_ServiceType = ucast s, qmux_ClientID = c\<rparr>"
    by (simp add: marshalFrameHeader_def)
  have "QmuxHeader_Marshal h @ body \<noteq> [] \<and> (QmuxHeader_Marshal h @ body) ! 0 = 0x01" for h
    by (simp add: QmuxHeader_Marshal_def)
  with True show ?thesis
    by (simp add: eq unmarshalFrameHeader_def qmux.unmarshal_marshal bind_res_def
        frame_overhead_def ucast_u16_byte_id)
next
  case False
  then have eq: "marshalFrameHeader s c n = QrtrVirtualHeader_Marshal
      \<lparr>qv_IFType = 0x02, qv_Length = of_nat (n + 6), qv_ControlFlags = 0x00,
       qv_ServiceType = s, qv_ClientID = c\<rparr>"
    by (simp add: marshalFrameHeader_def)
  have "QrtrVirtualHeader_Marshal h @ body \<noteq> [] \<and> (QrtrVirtualHeader_Marshal h @ body) ! 0 = 0x02" for h
    by (simp add: QrtrVirtualHeader_Marshal_def)
  with False show ?thesis
    by (simp add: eq unmarshalFrameHeader_def qrtrv.unmarshal_marshal bind_res_def
        frame_overhead_def)
qed

text \<open>The body of a marshalled packet, and its parse.\<close>

definition packet_body :: "Packet \<Rightarrow> byte list" where
  "packet_body p =
     (if pkt_ServiceType p = ServiceControl then
        CTLHeader_Marshal
          \<lparr>ctl_ControlFlags = 0x00, ctl_TransactionID = ucast (pkt_TransactionID p AND 0xFF),
           ctl_MessageID = pkt_MessageID p, ctl_Length = of_nat (length (tlv_bytes (pkt_TLVs p)))\<rparr>
      else
        ServiceHeader_Marshal
          \<lparr>svc_ControlFlags = 0x00, svc_TransactionID = pkt_TransactionID p,
           svc_MessageID = pkt_MessageID p, svc_Length = of_nat (length (tlv_bytes (pkt_TLVs p)))\<rparr>)
      @ tlv_bytes (pkt_TLVs p)"

lemma length_packet_body [simp]: "length (packet_body p) = packet_body_length p"
  by (simp add: packet_body_def packet_body_length_def)

lemma Packet_Marshal_eq:
  "Packet_Marshal p =
     marshalFrameHeader (pkt_ServiceType p) (pkt_ClientID p) (packet_body_length p)
       @ packet_body p"
  unfolding length_packet_body [symmetric]
  by (simp add: Packet_Marshal_def packet_body_def tlv_bytes_def Let_def)

lemma length_Packet_Marshal:
  "length (Packet_Marshal p) =
     packet_body_length p + frame_overhead (pkt_ServiceType p) + 1"
  by (simp add: Packet_Marshal_eq)

text \<open>The same body with other control flags. \<^verbatim>\<open>Packet.Marshal\<close> always writes the flags of a request; a modem sets the bit
  that marks an indication.\<close>

definition flagged_body :: "u8 \<Rightarrow> Packet \<Rightarrow> byte list" where
  "flagged_body flags p = (packet_body p)[0 := flags]"

definition wire_flags :: "Packet \<Rightarrow> u8" where
  "wire_flags p =
     (if pkt_IsIndication p then (if pkt_ServiceType p = ServiceControl then 0x02 else 0x04) else 0x00)"

definition wire_frame :: "Packet \<Rightarrow> byte list" where
  "wire_frame p =
     marshalFrameHeader (pkt_ServiceType p) (pkt_ClientID p) (packet_body_length p) @ flagged_body (wire_flags p) p"

lemma length_flagged_body [simp]: "length (flagged_body flags p) = packet_body_length p"
  by (simp add: flagged_body_def)

lemma packet_body_flagged: "packet_body p = flagged_body 0 p"
  by (simp add: flagged_body_def packet_body_def CTLHeader_Marshal_def ServiceHeader_Marshal_def)

lemma length_wire_frame: "length (wire_frame p) = packet_body_length p + frame_overhead (pkt_ServiceType p) + 1"
  by (simp add: wire_frame_def)

lemma UnmarshalCTLBody_flagged_body:
  assumes "wf_packet p" and "pkt_ServiceType p = ServiceControl"
    and "fh_serviceType fh = pkt_ServiceType p" and "fh_clientID fh = pkt_ClientID p"
  shows "UnmarshalCTLBody fh (flagged_body flags p) = Inr (p\<lparr>pkt_IsIndication := flags AND 0x02 \<noteq> 0\<rparr>)"
proof -
  have len: "length (tlv_bytes (pkt_TLVs p)) < 65536"
    using assms(1) by (simp add: wf_packet_def packet_body_length_def)
  have tx: "ucast (ucast (pkt_TransactionID p AND 0xFF) :: u8) = pkt_TransactionID p"
    using assms(1,2) by (simp add: wf_packet_def ucast_u16_low_byte)
  have "(CTLHeader_Marshal h @ r)[0 := flags] = CTLHeader_Marshal (h\<lparr>ctl_ControlFlags := flags\<rparr>) @ r" for h r
    by (simp add: CTLHeader_Marshal_def)
  with assms wf_packet_tlvs [OF assms(1)] len tx show ?thesis
    by (simp add: UnmarshalCTLBody_def flagged_body_def packet_body_def ctlh.unmarshal_marshal bind_res_def)
qed

lemma UnmarshalServiceBody_flagged_body:
  assumes "wf_packet p" and "pkt_ServiceType p \<noteq> ServiceControl"
    and "fh_serviceType fh = pkt_ServiceType p" and "fh_clientID fh = pkt_ClientID p"
  shows "UnmarshalServiceBody fh (flagged_body flags p) = Inr (p\<lparr>pkt_IsIndication := flags AND 0x04 \<noteq> 0\<rparr>)"
proof -
  have len: "length (tlv_bytes (pkt_TLVs p)) < 65536"
    using assms(1,2) by (simp add: wf_packet_def packet_body_length_def)
  have "(ServiceHeader_Marshal h @ r)[0 := flags] = ServiceHeader_Marshal (h\<lparr>svc_ControlFlags := flags\<rparr>) @ r" for h r
    by (simp add: ServiceHeader_Marshal_def)
  with assms wf_packet_tlvs [OF assms(1)] len show ?thesis
    by (simp add: UnmarshalServiceBody_def flagged_body_def packet_body_def svch.unmarshal_marshal bind_res_def)
qed

text \<open>With a readable header, \<open>UnmarshalPacket\<close> reads exactly the bytes the header announces.\<close>

lemma UnmarshalPacket_body:
  assumes "unmarshalFrameHeader data = Inr fh"
    and "fh_headerSize fh \<le> unat (fh_length fh) + 1" and "unat (fh_length fh) + 1 \<le> length data"
  shows "UnmarshalPacket data =
    (let body = drop (fh_headerSize fh) (take (unat (fh_length fh) + 1) data)
     in if fh_serviceType fh = ServiceControl then UnmarshalCTLBody fh body
        else UnmarshalServiceBody fh body)"
  using assms by (auto simp: UnmarshalPacket_def bind_res_def Let_def not_less)

lemma UnmarshalPacket_flagged:
  assumes "wf_packet p"
  shows "UnmarshalPacket ((marshalFrameHeader (pkt_ServiceType p) (pkt_ClientID p) (packet_body_length p) @ flagged_body flags p) @ junk) =
    Inr (p\<lparr>pkt_IsIndication := flags AND (if pkt_ServiceType p = ServiceControl then 0x02 else 0x04) \<noteq> 0\<rparr>)"
    (is "UnmarshalPacket (?frame @ junk) = _")
proof -
  let ?s = "pkt_ServiceType p"
  let ?k = "packet_body_length p + frame_overhead ?s"
  define fh :: decodedFrameHeader where
    "fh = \<lparr>fh_headerSize = frame_overhead ?s + 1, fh_length = of_nat ?k, fh_controlFlags = 0,
           fh_serviceType = ?s, fh_clientID = pkt_ClientID p\<rparr>"
  have hdr: "unmarshalFrameHeader (?frame @ junk) = Inr fh"
    by (simp add: fh_def)
  have k: "unat (fh_length fh) = ?k"
    using assms unat_of_nat_u16 [of ?k] by (simp add: wf_packet_def fh_def del: of_nat_add)
  have body: "drop (fh_headerSize fh) (take (unat (fh_length fh) + 1) (?frame @ junk)) = flagged_body flags p"
    by (simp add: k) (simp add: fh_def)
  have sizes: "fh_headerSize fh \<le> ?k + 1" "?k + 1 \<le> length (?frame @ junk)"
    by (simp_all add: fh_def)
  have sv: "fh_serviceType fh = ?s" "fh_clientID fh = pkt_ClientID p" by (simp_all add: fh_def)
  show ?thesis
    unfolding UnmarshalPacket_body [OF hdr, unfolded k, OF sizes] body [unfolded k]
    using assms sv UnmarshalCTLBody_flagged_body UnmarshalServiceBody_flagged_body
    by (simp add: Let_def)
qed

lemma UnmarshalPacket_Marshal:
  assumes "wf_packet p"
  shows "UnmarshalPacket (Packet_Marshal p @ junk) = Inr (p\<lparr>pkt_IsIndication := False\<rparr>)"
  using UnmarshalPacket_flagged [OF assms, of 0 junk] by (simp add: Packet_Marshal_eq packet_body_flagged)

lemma UnmarshalPacket_wire_frame:
  assumes "wf_packet p"
  shows "UnmarshalPacket (wire_frame p @ junk) = Inr p"
proof -
  have "wire_flags p AND (if pkt_ServiceType p = ServiceControl then 0x02 else 0x04) \<noteq> 0 \<longleftrightarrow> pkt_IsIndication p"
    by (simp add: wire_flags_def)
  then show ?thesis using UnmarshalPacket_flagged [OF assms, of "wire_flags p" junk] by (simp add: wire_frame_def)
qed

lemma wire_frame_request: "\<not> pkt_IsIndication p \<Longrightarrow> wire_frame p = Packet_Marshal p"
  by (simp add: wire_frame_def Packet_Marshal_eq packet_body_flagged wire_flags_def)

section \<open>Properties of the frame codec\<close>

lemma unmarshalFrameHeader_append:
  assumes "unmarshalFrameHeader data = Inr fh"
  shows "unmarshalFrameHeader (data @ r) = Inr fh"
proof -
  have q: "UnmarshalQmuxHeader data = Inr h \<Longrightarrow> UnmarshalQmuxHeader (data @ r) = Inr h" for h
    by (auto simp: qmux.unmarshal_iff)
  have v: "UnmarshalQrtrVirtualHeader data = Inr h \<Longrightarrow>
      UnmarshalQrtrVirtualHeader (data @ r) = Inr h" for h
    by (auto simp: qrtrv.unmarshal_iff)
  show ?thesis using assms q v
    by (cases data) (auto simp: unmarshalFrameHeader_def bind_res_def split: sum.splits if_splits)
qed

lemma UnmarshalPacket_length:
  assumes "UnmarshalPacket data = Inr p"
  shows "\<exists>fh. unmarshalFrameHeader data = Inr fh \<and> unat (fh_length fh) + 1 \<le> length data"
  using assms
  by (auto simp: UnmarshalPacket_def bind_res_def Let_def split: sum.splits if_splits)

text \<open>C1: C1:
  a packet that fits its frame (the 16-bit length field can hold its size and, on the control service, its transaction
  identifier is one byte) is recovered by \<^verbatim>\<open>UnmarshalPacket\<close> from the frame that carries it, request, response or
  indication, on every service (the control service, the one-byte services behind a QMUX header and the two-byte services
  behind a QRTR virtual header), whatever bytes follow the frame. \<^verbatim>\<open>Packet.Marshal\<close> writes that frame, but always with
  the control flags of a request: what it writes is recovered in every field except that an indication comes back as a
  packet that is none.
\<close>

theorem Packet_roundtrip:
  assumes "wf_packet p"
  shows "UnmarshalPacket (wire_frame p @ junk) = Inr p \<and>
    UnmarshalPacket (Packet_Marshal p @ junk) = Inr (p\<lparr>pkt_IsIndication := False\<rparr>) \<and>
    (\<not> pkt_IsIndication p \<longrightarrow> wire_frame p = Packet_Marshal p)"
  using assms UnmarshalPacket_wire_frame UnmarshalPacket_Marshal wire_frame_request by blast

definition sample_packet :: "u16 \<Rightarrow> Packet" where
  "sample_packet service =
     \<lparr>pkt_ServiceType = service, pkt_ClientID = 7, pkt_TransactionID = 0x12, pkt_MessageID = 0x22,
      pkt_IsIndication = False, pkt_TLVs = [\<lparr>tlv_Type = 0x01, tlv_Value = [0xA, 0xB]\<rparr>]\<rparr>"

lemma sample_packet_wf:
  "wf_packet (sample_packet 0)" "wf_packet (sample_packet 0x102)" "\<not> pkt_IsIndication (sample_packet s)"
  by (simp_all add: sample_packet_def wf_packet_def packet_body_length_def frame_overhead_def)

lemma sample_indication_wf: "wf_packet ((sample_packet s)\<lparr>pkt_IsIndication := True\<rparr>) = wf_packet (sample_packet s)"
  by (simp add: wf_packet_def packet_body_length_def)

theorem Packet_roundtrip_witness:
  "UnmarshalPacket (Packet_Marshal (sample_packet 0x102) @ [0xFF]) = Inr (sample_packet 0x102) \<and>
   UnmarshalPacket (Packet_Marshal (sample_packet 0) @ [0, 1]) = Inr (sample_packet 0) \<and>
   UnmarshalPacket (wire_frame ((sample_packet 0)\<lparr>pkt_IsIndication := True\<rparr>)) = Inr ((sample_packet 0)\<lparr>pkt_IsIndication := True\<rparr>)"
proof -
  have plain: "(sample_packet s)\<lparr>pkt_IsIndication := False\<rparr> = sample_packet s" for s by (simp add: sample_packet_def)
  have "wf_packet ((sample_packet 0)\<lparr>pkt_IsIndication := True\<rparr>)" unfolding sample_indication_wf by (rule sample_packet_wf)
  from Packet_roundtrip [OF this, of "[]"] Packet_roundtrip [OF sample_packet_wf(2), of "[0xFF]"]
    Packet_roundtrip [OF sample_packet_wf(1), of "[0, 1]"]
  show ?thesis by (simp add: plain)
qed

text \<open>
  no proper prefix of a marshalled packet unmarshals to anything: a frame cut short is always
  reported as an error, never as a shorter packet.
\<close>

theorem UnmarshalPacket_truncated:
  assumes "wf_packet p" and "n < length (Packet_Marshal p)"
  shows "\<exists>err. UnmarshalPacket (take n (Packet_Marshal p)) = Inl err"
proof (rule ccontr)
  assume "\<not> ?thesis"
  then obtain q where "UnmarshalPacket (take n (Packet_Marshal p)) = Inr q"
    by (cases "UnmarshalPacket (take n (Packet_Marshal p))") auto
  then obtain fh where fh: "unmarshalFrameHeader (take n (Packet_Marshal p)) = Inr fh"
    and len: "unat (fh_length fh) + 1 \<le> n"
    using UnmarshalPacket_length assms(2) by fastforce
  let ?k = "packet_body_length p + frame_overhead (pkt_ServiceType p)"
  have "unmarshalFrameHeader (Packet_Marshal p) = Inr fh"
    using unmarshalFrameHeader_append [OF fh, of "drop n (Packet_Marshal p)"] by simp
  then have "fh_length fh = of_nat ?k" by (auto simp: Packet_Marshal_eq)
  then have "unat (fh_length fh) = ?k"
    using assms(1) unat_of_nat_u16 [of ?k] by (simp add: wf_packet_def del: of_nat_add)
  with len assms(2) show False by (simp add: length_Packet_Marshal)
qed

theorem UnmarshalPacket_truncated_witness:
  "\<exists>err. UnmarshalPacket (take 15 (Packet_Marshal (sample_packet 0))) = Inl err"
  by (rule UnmarshalPacket_truncated [OF sample_packet_wf(1)])
    (simp add: length_Packet_Marshal sample_packet_def packet_body_length_def frame_overhead_def)

text \<open>
  \<open>CheckResult\<close> and \<open>IsSuccess\<close> agree on every packet; a failure code in the result TLV
  comes back as a QMI error carrying the service, message, result and error code, and a packet
  without a readable result TLV is never a success.
\<close>

theorem CheckResult_IsSuccess:
  "CheckResult p = (if IsSuccess p then None
     else if GetResultCode p = None then Some ResultMissing
     else Some (ResultQMI \<lparr>qe_Service = pkt_ServiceType p, qe_MessageID = pkt_MessageID p,
                           qe_Result = fst (the (GetResultCode p)),
                           qe_ErrorCode = snd (the (GetResultCode p))\<rparr>))"
  by (auto simp: CheckResult_def IsSuccess_def split: option.splits)

text \<open>
  the service and client identifiers of the control service's TLVs survive encoding and
  decoding for every 16-bit service, although services above 255 take a longer layout than the
  others.
\<close>

theorem ctl_service_tlv_roundtrip:
  "decodeCTLServiceOnlyTLV (tlv_Value (encodeCTLServiceOnlyTLV service)) = Some service \<and>
   decodeCTLServiceClientIDTLV (tlv_Value (encodeCTLServiceClientIDTLV service clientID))
     = Some (service, clientID)"
proof -
  have "Uint16 [ucast service, ucast (drop_bit 8 service)] = service"
    using Uint16_PutUint16_exact [of service] by (simp add: PutUint16_def)
  then show ?thesis
    by (simp add: encodeCTLServiceOnlyTLV_def decodeCTLServiceOnlyTLV_def
        encodeCTLServiceClientIDTLV_def decodeCTLServiceClientIDTLV_def ucast_u16_byte_id)
qed

end
