(* ===== verification/GoStrings.thy ===== *)
theory GoStrings
  imports Prelude "HOL-Library.Sublist"
begin

text \<open>
  The part of Go's \<^verbatim>\<open>strings\<close> and \<^verbatim>\<open>fmt\<close> packages the modelled sources use.  A Go string is its
  bytes, a \<^typ>\<open>string\<close> of 8-bit characters.  \<open>TrimSpace\<close> knows the UTF-8 encodings of all Unicode
  white space; \<open>ToLower\<close> and \<open>ToUpper\<close> change ASCII letters only, which is what they do on the
  service names and messages of the sources (ASCII and CJK text).
\<close>

section \<open>Bytes and characters\<close>

definition bytes_of_string :: "string \<Rightarrow> byte list" where
  "bytes_of_string s = map (\<lambda>c. of_nat (of_char c)) s"

definition string_of_bytes :: "byte list \<Rightarrow> string" where
  "string_of_bytes bs = map (\<lambda>b. char_of (unat b)) bs"

lemma string_of_bytes_of_string [simp]: "string_of_bytes (bytes_of_string s) = s"
proof -
  have "char_of (unat (of_nat (of_char c) :: byte)) = c" for c
  proof -
    have "of_char c < (256 :: nat)" using nat_of_char_less_256 by simp
    then have "unat (of_nat (of_char c) :: byte) = of_char c"
      by (simp add: unat_of_nat take_bit_eq_mod)
    then show ?thesis by simp
  qed
  then show ?thesis by (simp add: string_of_bytes_def bytes_of_string_def map_idI)
qed

lemma bytes_of_string_of_bytes [simp]: "bytes_of_string (string_of_bytes bs) = bs"
proof -
  have "of_nat (of_char (char_of (unat b) :: char)) = b" for b :: byte
    by simp
  then show ?thesis by (simp add: string_of_bytes_def bytes_of_string_def map_idI)
qed

section \<open>Trimming\<close>

text \<open>The UTF-8 encodings of the code points with the property White\_Space.\<close>

definition space_encodings :: "string list" where
  "space_encodings =
     map (\<lambda>n. [char_of (n :: nat)]) [0x09, 0x0A, 0x0B, 0x0C, 0x0D, 0x20]
     @ map (map (char_of :: nat \<Rightarrow> char))
       ([[0xC2, 0x85], [0xC2, 0xA0], [0xE1, 0x9A, 0x80], [0xE2, 0x80, 0xA8], [0xE2, 0x80, 0xA9],
         [0xE2, 0x80, 0xAF], [0xE2, 0x81, 0x9F], [0xE3, 0x80, 0x80]]
        @ map (\<lambda>n. [0xE2, 0x80, n]) [0x80..<0x8B])"

definition strip_one :: "string list \<Rightarrow> string \<Rightarrow> string option" where
  "strip_one encs s = map_option (\<lambda>w. drop (length w) s) (find (\<lambda>w. w \<noteq> [] \<and> prefix w s) encs)"

lemma strip_one_shorter: "strip_one encs s = Some r \<Longrightarrow> length r < length s"
  by (auto simp: strip_one_def find_Some_iff prefix_def)

function strip_all :: "string list \<Rightarrow> string \<Rightarrow> string" where
  "strip_all encs s = (case strip_one encs s of None \<Rightarrow> s | Some r \<Rightarrow> strip_all encs r)"
  by pat_completeness auto
termination
  by (relation "measure (\<lambda>(encs, s). length s)") (auto dest: strip_one_shorter)

declare strip_all.simps [simp del]

definition TrimLeftSpace :: "string \<Rightarrow> string" where
  "TrimLeftSpace s = strip_all space_encodings s"

definition TrimRightSpace :: "string \<Rightarrow> string" where
  "TrimRightSpace s = rev (strip_all (map rev space_encodings) (rev s))"

definition TrimSpace :: "string \<Rightarrow> string" where
  "TrimSpace s = TrimRightSpace (TrimLeftSpace s)"

lemma strip_all_stuck: "strip_one encs (strip_all encs s) = None"
proof (induction encs s rule: strip_all.induct)
  case (1 encs s)
  then show ?case by (cases "strip_one encs s") (simp_all add: strip_all.simps [of encs s])
qed

lemma strip_all_suffix: "suffix (strip_all encs s) s"
proof (induction encs s rule: strip_all.induct)
  case (1 encs s)
  show ?case
  proof (cases "strip_one encs s")
    case None
    then show ?thesis by (simp add: strip_all.simps [of encs s])
  next
    case (Some r)
    then have "suffix r s" by (auto simp: strip_one_def suffix_drop)
    with "1.IH" [OF Some] Some show ?thesis
      by (simp add: strip_all.simps [of encs s])
  qed
qed

lemma strip_all_id: "strip_one encs s = None \<Longrightarrow> strip_all encs s = s"
  by (simp add: strip_all.simps)

lemma space_has_odd_char:
  "\<forall>w \<in> set space_encodings. \<exists>c \<in> set w. (of_char c :: nat) < 33 \<or> 127 < (of_char c :: nat)"
  by (auto simp: space_encodings_def upt_rec)

lemma strip_one_none:
  assumes "\<forall>w \<in> set encs. \<exists>c \<in> set w. (of_char c :: nat) < 33 \<or> 127 < (of_char c :: nat)"
    and "\<forall>c \<in> set s. 33 \<le> (of_char c :: nat) \<and> (of_char c :: nat) \<le> 127"
  shows "strip_one encs s = None"
proof -
  have "\<not> prefix w s" if "w \<in> set encs" for w
    using that assms by (metis leD set_mono_prefix subsetD)
  then show ?thesis by (auto simp: strip_one_def find_None_iff)
qed

lemma TrimSpace_id:
  assumes "\<forall>c \<in> set s. 33 \<le> (of_char c :: nat) \<and> (of_char c :: nat) \<le> 127"
  shows "TrimSpace s = s"
proof -
  have "strip_all space_encodings s = s"
    by (intro strip_all_id strip_one_none space_has_odd_char assms)
  moreover have "strip_all (map rev space_encodings) (rev s) = rev s"
    by (intro strip_all_id strip_one_none) (use space_has_odd_char assms in auto)
  ultimately show ?thesis by (simp add: TrimSpace_def TrimLeftSpace_def TrimRightSpace_def)
qed

section \<open>Case, containment, hexadecimal\<close>

definition ascii_lower :: "char \<Rightarrow> char" where
  "ascii_lower c =
     (let n = of_char c :: nat in if 65 \<le> n \<and> n \<le> 90 then char_of (n + 32) else c)"

definition ascii_upper :: "char \<Rightarrow> char" where
  "ascii_upper c =
     (let n = of_char c :: nat in if 97 \<le> n \<and> n \<le> 122 then char_of (n - 32) else c)"

definition ToLower :: "string \<Rightarrow> string" where "ToLower s = map ascii_lower s"
definition ToUpper :: "string \<Rightarrow> string" where "ToUpper s = map ascii_upper s"

definition EqualFold :: "string \<Rightarrow> string \<Rightarrow> bool" where
  "EqualFold s t \<longleftrightarrow> ToLower s = ToLower t"

text \<open>\<^verbatim>\<open>strings.Contains(s, substr)\<close>\<close>

fun Contains :: "string \<Rightarrow> string \<Rightarrow> bool" where
  "Contains [] w = (w = [])"
| "Contains (c # s) w = (prefix w (c # s) \<or> Contains s w)"

lemma Contains_iff_sublist: "Contains s w \<longleftrightarrow> (\<exists>pre post. s = pre @ w @ post)"
proof (induction s)
  case (Cons c s)
  show ?case
  proof
    assume "Contains (c # s) w"
    then consider "prefix w (c # s)" | "Contains s w" by auto
    then show "\<exists>pre post. c # s = pre @ w @ post"
    proof cases
      case 1
      then have "c # s = [] @ w @ drop (length w) (c # s)" by (auto simp: prefix_def)
      then show ?thesis by blast
    next
      case 2
      then obtain pre post where "s = pre @ w @ post" using Cons.IH by blast
      then have "c # s = (c # pre) @ w @ post" by simp
      then show ?thesis by blast
    qed
  next
    assume "\<exists>pre post. c # s = pre @ w @ post"
    then obtain pre post where eq: "c # s = pre @ w @ post" by blast
    show "Contains (c # s) w"
    proof (cases pre)
      case Nil
      with eq have "prefix w (c # s)" by simp
      then show ?thesis by simp
    next
      case (Cons d pre')
      with eq have "s = pre' @ w @ post" by simp
      with Cons.IH show ?thesis by auto
    qed
  qed
qed auto

definition hex_char :: "nat \<Rightarrow> char" where
  "hex_char d = (if d < 10 then char_of (48 + d) else char_of (87 + d))"

text \<open>\<^verbatim>\<open>%04x\<close> of a 16-bit value.\<close>

definition hex4 :: "u16 \<Rightarrow> string" where
  "hex4 v = (let n = unat v in
     [hex_char (n div 4096), hex_char (n div 256 mod 16), hex_char (n div 16 mod 16),
      hex_char (n mod 16)])"

end
