(* ===== verification/Errors.thy ===== *)
theory Errors
  imports Frame GoStrings
begin

text \<open>
  Go errors, \<^verbatim>\<open>pkg/qmi/errors.go\<close>.  An error value is a tree: the leaves are sentinels and typed
  errors, the inner nodes are \<^verbatim>\<open>fmt.Errorf\<close> with \<^verbatim>\<open>%w\<close>, \<^verbatim>\<open>errors.Join\<close> and the two wrapper types of
  the file.  \<open>err_chain\<close> is the traversal of \<^verbatim>\<open>errors.Is\<close> and \<^verbatim>\<open>errors.As\<close>, and \<open>err_text\<close> the
  \<^verbatim>\<open>Error()\<close> method.  \<^verbatim>\<open>ServiceNotReadyError\<close> of \<^verbatim>\<open>pkg/manager/device_query.go\<close> and
  \<^verbatim>\<open>OutOfCallError\<close> and \<^verbatim>\<open>StartNetworkError\<close> of \<^verbatim>\<open>pkg/qmi/wds.go\<close> and \<^verbatim>\<open>NotSupportedError\<close> of
  \<^verbatim>\<open>pkg/qmi/dms.go\<close> are among them.
\<close>

datatype ConnectionPhase =
    PhaseDeviceOpen | PhaseClientAlloc | PhaseSIMCheck | PhaseRegistration | PhaseDialing
  | PhaseIPConfig | PhaseConnected | PhaseOther int

fun ConnectionPhase_String :: "ConnectionPhase \<Rightarrow> string" where
  "ConnectionPhase_String PhaseDeviceOpen = ''DeviceOpen''"
| "ConnectionPhase_String PhaseClientAlloc = ''ClientAlloc''"
| "ConnectionPhase_String PhaseSIMCheck = ''SIMCheck''"
| "ConnectionPhase_String PhaseRegistration = ''Registration''"
| "ConnectionPhase_String PhaseDialing = ''Dialing''"
| "ConnectionPhase_String PhaseIPConfig = ''IPConfig''"
| "ConnectionPhase_String PhaseConnected = ''Connected''"
| "ConnectionPhase_String (PhaseOther _) = ''Unknown''"

datatype go_error =
    ErrText string
  | ErrCanceled
  | ErrDeadlineExceeded
  | ErrServiceNotSupported
  | ErrQRTRUnsupported
  | ErrQMI QMIError
  | ErrTimeout string
  | ErrServiceNotReady string
  | ErrConnection ConnectionPhase string "go_error option"
  | ErrDevice string string "go_error option"
  | ErrOutOfCall string
  | ErrNotSupported string
  | ErrStartNetwork "go_error option" "(u16 \<times> u16) option"
  | ErrWrap string go_error string
  | ErrJoin "go_error list"

text \<open>Constants of the file that the modelled code compares with.\<close>

definition QMIErrMalformedMsg :: u16 where "QMIErrMalformedMsg = 0x0001"
definition QMIErrDeviceNotReady :: u16 where "QMIErrDeviceNotReady = 0x0005"
definition QMIErrNoEffect :: u16 where "QMIErrNoEffect = 0x001A"
definition QMIErrClientIDsExhausted :: u16 where "QMIErrClientIDsExhausted = 0x001F"
definition QMIErrInvalidID :: u16 where "QMIErrInvalidID = 0x0029"
definition QMIErrInvalidQmiCmd :: u16 where "QMIErrInvalidQmiCmd = 0x0047"
definition QMIErrNotSupported :: u16 where "QMIErrNotSupported = 0x005E"

lemmas qmi_err_consts [simp] =
  QMIErrMalformedMsg_def QMIErrDeviceNotReady_def QMIErrNoEffect_def
  QMIErrClientIDsExhausted_def QMIErrInvalidID_def QMIErrInvalidQmiCmd_def QMIErrNotSupported_def

definition QMIError_Error :: "QMIError \<Rightarrow> string" where
  "QMIError_Error e =
     ''QMI error: service=0x'' @ hex4 (qe_Service e) @ '' msg=0x'' @ hex4 (qe_MessageID e)
       @ '' result=0x'' @ hex4 (qe_Result e) @ '' error=0x'' @ hex4 (qe_ErrorCode e)"

text \<open>The bytes of the message prefix of \<^verbatim>\<open>ServiceNotReadyError\<close>: \<^verbatim>\<open>QMI\<close>, a space, five CJK characters,
  a colon and a space.\<close>

definition not_ready_prefix :: string where
  "not_ready_prefix = ''QMI '' @ map (char_of :: nat \<Rightarrow> char)
     [0xE6, 0x9C, 0x8D, 0xE5, 0x8A, 0xA1, 0xE6, 0x9C, 0xAA, 0xE5, 0xB0, 0xB1, 0xE7, 0xBB, 0xAA]
     @ '': ''"

fun join_lines :: "string list \<Rightarrow> string" where
  "join_lines [] = []"
| "join_lines [s] = s"
| "join_lines (s # ss) = s @ [char_of (10 :: nat)] @ join_lines ss"

definition call_end_text :: "(u16 \<times> u16) option \<Rightarrow> string" where
  "call_end_text reason =
     (case reason of None \<Rightarrow> []
      | Some (t, c) \<Rightarrow> '', call end type='' @ decimal (unat t) @ '' code='' @ decimal (unat c))"

fun err_text :: "go_error \<Rightarrow> string" where
  "err_text (ErrText s) = s"
| "err_text ErrCanceled = ''context canceled''"
| "err_text ErrDeadlineExceeded = ''context deadline exceeded''"
| "err_text ErrServiceNotSupported = ''qmi service not supported by hardware''"
| "err_text ErrQRTRUnsupported =
     ''qmi: QRTR (AF_QIPCRTR) transport is unsupported on this platform''"
| "err_text (ErrQMI e) = QMIError_Error e"
| "err_text (ErrTimeout operation) = ''timeout: '' @ operation"
| "err_text (ErrServiceNotReady service) = not_ready_prefix @ service"
| "err_text (ErrConnection ph msg (Some cause)) =
     ''connection error at '' @ ConnectionPhase_String ph @ '': '' @ msg @ '': '' @ err_text cause"
| "err_text (ErrConnection ph msg None) =
     ''connection error at '' @ ConnectionPhase_String ph @ '': '' @ msg"
| "err_text (ErrDevice path operation (Some cause)) =
     ''device '' @ path @ '': '' @ operation @ '' failed: '' @ err_text cause"
| "err_text (ErrDevice path operation None) =
     ''device '' @ path @ '': '' @ operation @ '' failed: <nil>''"
| "err_text (ErrOutOfCall operation) =
     (if operation = [] then ''out of call'' else operation @ '': out of call'')"
| "err_text (ErrNotSupported operation) =
     (if operation = [] then ''not supported'' else operation @ '': not supported'')"
| "err_text (ErrStartNetwork (Some e) reason) =
     ''start network failed: '' @ err_text e @ call_end_text reason"
| "err_text (ErrStartNetwork None reason) = ''start network failed'' @ call_end_text reason"
| "err_text (ErrWrap pre e post) = pre @ err_text e @ post"
| "err_text (ErrJoin es) = join_lines (map err_text es)"

text \<open>The pre-order traversal of \<^verbatim>\<open>errors.Is\<close> and \<^verbatim>\<open>errors.As\<close>.\<close>

fun err_chain :: "go_error \<Rightarrow> go_error list" where
  "err_chain (ErrWrap pre e post) = ErrWrap pre e post # err_chain e"
| "err_chain (ErrConnection ph msg (Some e)) = ErrConnection ph msg (Some e) # err_chain e"
| "err_chain (ErrDevice path operation (Some e)) = ErrDevice path operation (Some e) # err_chain e"
| "err_chain (ErrStartNetwork (Some e) reason) = ErrStartNetwork (Some e) reason # err_chain e"
| "err_chain (ErrJoin es) = ErrJoin es # concat (map err_chain es)"
| "err_chain e = [e]"

definition errors_Is :: "go_error \<Rightarrow> go_error \<Rightarrow> bool" where
  "errors_Is err target \<longleftrightarrow> target \<in> set (err_chain err)"

fun first_some :: "('a \<Rightarrow> 'b option) \<Rightarrow> 'a list \<Rightarrow> 'b option" where
  "first_some f [] = None"
| "first_some f (x # xs) = (case f x of Some y \<Rightarrow> Some y | None \<Rightarrow> first_some f xs)"

definition GetQMIError :: "go_error \<Rightarrow> QMIError option" where
  "GetQMIError err = first_some (\<lambda>e. case e of ErrQMI q \<Rightarrow> Some q | _ \<Rightarrow> None) (err_chain err)"

definition IsQMIError :: "go_error \<Rightarrow> bool" where
  "IsQMIError err \<longleftrightarrow> GetQMIError err \<noteq> None"

text \<open>\<^verbatim>\<open>errors.As\<close> for \<^verbatim>\<open>*ServiceNotReadyError\<close> and \<^verbatim>\<open>*TimeoutError\<close>.\<close>

definition as_not_ready :: "go_error \<Rightarrow> string option" where
  "as_not_ready err =
     first_some (\<lambda>e. case e of ErrServiceNotReady s \<Rightarrow> Some s | _ \<Rightarrow> None) (err_chain err)"

definition as_timeout :: "go_error \<Rightarrow> string option" where
  "as_timeout err = first_some (\<lambda>e. case e of ErrTimeout s \<Rightarrow> Some s | _ \<Rightarrow> None) (err_chain err)"

text \<open>The next three are plain type assertions: they do not look through wrapping.\<close>

definition IsConnectionError :: "go_error \<Rightarrow> bool" where
  "IsConnectionError err \<longleftrightarrow> (case err of ErrConnection _ _ _ \<Rightarrow> True | _ \<Rightarrow> False)"

definition IsDeviceError :: "go_error \<Rightarrow> bool" where
  "IsDeviceError err \<longleftrightarrow> (case err of ErrDevice _ _ _ \<Rightarrow> True | _ \<Rightarrow> False)"

definition IsTimeoutError :: "go_error \<Rightarrow> bool" where
  "IsTimeoutError err \<longleftrightarrow> (case err of ErrTimeout _ \<Rightarrow> True | _ \<Rightarrow> False)"

definition NewConnectionError :: "ConnectionPhase \<Rightarrow> string \<Rightarrow> go_error option \<Rightarrow> go_error" where
  "NewConnectionError ph msg cause = ErrConnection ph msg cause"

text \<open>\<^verbatim>\<open>isContextDone\<close> of \<^verbatim>\<open>client.go\<close>.\<close>

definition isContextDone :: "go_error \<Rightarrow> bool" where
  "isContextDone err \<longleftrightarrow> errors_Is err ErrCanceled \<or> errors_Is err ErrDeadlineExceeded"

text \<open>The error \<^verbatim>\<open>CheckResult\<close> returns, as an error value.\<close>

fun result_go_error :: "result_error \<Rightarrow> go_error" where
  "result_go_error ResultMissing = ErrText ''response missing result TLV''"
| "result_go_error (ResultQMI e) = ErrQMI e"

section \<open>Wrapping\<close>

lemma first_some_append:
  "first_some f (xs @ ys) = (case first_some f xs of Some y \<Rightarrow> Some y | None \<Rightarrow> first_some f ys)"
  by (induction xs) (auto split: option.splits)

lemma first_some_None: "first_some f xs = None \<longleftrightarrow> (\<forall>x \<in> set xs. f x = None)"
  by (induction xs) (auto split: option.splits)

lemma wrap_transparent [simp]:
  "errors_Is (ErrWrap pre e post) ErrCanceled = errors_Is e ErrCanceled"
  "errors_Is (ErrWrap pre e post) ErrDeadlineExceeded = errors_Is e ErrDeadlineExceeded"
  "errors_Is (ErrWrap pre e post) ErrServiceNotSupported = errors_Is e ErrServiceNotSupported"
  "GetQMIError (ErrWrap pre e post) = GetQMIError e"
  "as_not_ready (ErrWrap pre e post) = as_not_ready e"
  "as_timeout (ErrWrap pre e post) = as_timeout e"
  "isContextDone (ErrWrap pre e post) = isContextDone e"
  by (simp_all add: errors_Is_def GetQMIError_def as_not_ready_def as_timeout_def isContextDone_def)

lemma leaf_classification [simp]:
  "GetQMIError (ErrQMI q) = Some q"
  "GetQMIError (ErrText s) = None"
  "isContextDone ErrCanceled" "isContextDone ErrDeadlineExceeded"
  "\<not> isContextDone (ErrText s)"
  "\<not> isContextDone (ErrQMI q)"
  by (simp_all add: GetQMIError_def isContextDone_def errors_Is_def)

end
