(* ===== verification/Ctl.thy ===== *)
theory Ctl
  imports Errors
begin

text \<open>
  The service version list of the control service, \<^verbatim>\<open>pkg/qmi/ctl.go\<close>: parsing of the reply to
  \<^verbatim>\<open>CTL_GET_VERSION_INFO\<close> and the map built from it.
\<close>

record ServiceVersion =
  sv_ServiceType :: u8
  sv_Major :: u16
  sv_Minor :: u16

datatype version_error =
    VersionRequestFailed go_error
  | VersionResponseError result_error
  | VersionTLVMissing
  | VersionTLVTooShort
  | VersionListTruncated nat nat

definition version_entry :: "byte list \<Rightarrow> nat \<Rightarrow> ServiceVersion" where
  "version_entry v i =
     (let offset = 1 + i * 5 in
      \<lparr>sv_ServiceType = v ! offset, sv_Major = Uint16 (go_slice (offset + 1) (offset + 3) v),
       sv_Minor = Uint16 (go_slice (offset + 3) (offset + 5) v)\<rparr>)"

definition parseServiceVersionList :: "TLV list \<Rightarrow> version_error + ServiceVersion list" where
  "parseServiceVersionList tlvs =
     (case FindTLV tlvs 0x01 of
        None \<Rightarrow> Inl VersionTLVMissing
      | Some tlv \<Rightarrow>
          if length (tlv_Value tlv) < 1 then Inl VersionTLVTooShort
          else let count = unat (tlv_Value tlv ! 0); expected = 1 + count * 5 in
            if length (tlv_Value tlv) < expected then
              Inl (VersionListTruncated expected (length (tlv_Value tlv)))
            else Inr (map (version_entry (tlv_Value tlv)) [0..<count]))"

fun ServiceVersionMap :: "ServiceVersion list \<Rightarrow> (u8 \<rightharpoonup> ServiceVersion)" where
  "ServiceVersionMap versions = foldl (\<lambda>m v. m(sv_ServiceType v \<mapsto> v)) Map.empty versions"

text \<open>\<^verbatim>\<open>GetServiceVersions\<close>, over the outcome of its request; the two wrapped errors keep their cause.\<close>

definition GetServiceVersions :: "go_error + Packet \<Rightarrow> version_error + ServiceVersion list" where
  "GetServiceVersions outcome =
     (case outcome of
        Inl err \<Rightarrow> Inl (VersionRequestFailed err)
      | Inr resp \<Rightarrow>
          (case CheckResult resp of
             Some err \<Rightarrow> Inl (VersionResponseError err)
           | None \<Rightarrow> parseServiceVersionList (pkt_TLVs resp)))"

section \<open>Round trip with the layout the reply uses\<close>

definition version_entry_bytes :: "ServiceVersion \<Rightarrow> byte list" where
  "version_entry_bytes v = sv_ServiceType v # PutUint16 (sv_Major v) @ PutUint16 (sv_Minor v)"

definition version_list_bytes :: "ServiceVersion list \<Rightarrow> byte list" where
  "version_list_bytes vs = of_nat (length vs) # concat (map version_entry_bytes vs)"

lemma length_version_entry_bytes [simp]: "length (version_entry_bytes v) = 5"
  by (simp add: version_entry_bytes_def)

lemma length_version_entries [simp]:
  "length (concat (map version_entry_bytes vs)) = 5 * length vs"
  by (induction vs) simp_all

lemma version_entry_decode:
  assumes "length pre = i * 5"
  shows "version_entry (n # pre @ version_entry_bytes v @ r) i = v"
proof -
  note sl = go_slice_skip [of "n # pre" "Suc (i * 5)" _ _ "version_entry_bytes v @ r"]
  have "(n # pre @ version_entry_bytes v @ r) ! (1 + i * 5) = sv_ServiceType v"
    using assms by (simp add: nth_append version_entry_bytes_def)
  moreover have "go_slice (1 + i * 5 + 1) (1 + i * 5 + 3) (n # pre @ version_entry_bytes v @ r)
      = PutUint16 (sv_Major v)"
    using assms sl [of 1 3] by (simp add: version_entry_bytes_def PutUint16_def)
  moreover have "go_slice (1 + i * 5 + 3) (1 + i * 5 + 5) (n # pre @ version_entry_bytes v @ r)
      = PutUint16 (sv_Minor v)"
    using assms sl [of 3 5] by (simp add: version_entry_bytes_def PutUint16_def)
  ultimately show ?thesis by (simp only: version_entry_def Let_def Uint16_PutUint16_exact) simp
qed

lemma version_list_decode:
  assumes "i < length vs"
  shows "version_entry (n # concat (map version_entry_bytes vs) @ r) i = vs ! i"
proof -
  have "concat (map version_entry_bytes vs) =
      concat (map version_entry_bytes (take i vs)) @ version_entry_bytes (vs ! i)
        @ concat (map version_entry_bytes (drop (Suc i) vs))"
    using assms by (subst id_take_nth_drop [OF assms]) simp
  moreover have "length (concat (map version_entry_bytes (take i vs))) = i * 5"
    using assms by simp
  ultimately show ?thesis using version_entry_decode by simp
qed

lemma ServiceVersionMap_last:
  "ServiceVersionMap vs = map_of (rev (map (\<lambda>v. (sv_ServiceType v, v)) vs))"
  by (induction vs rule: rev_induct) auto

lemma parse_version_list:
  assumes "length vs < 256" and "FindTLV tlvs 0x01 = Some t"
    and "tlv_Value t = version_list_bytes vs @ r"
  shows "parseServiceVersionList tlvs = Inr vs"
proof -
  have n: "unat (of_nat (length vs) :: u8) = length vs"
    using assms(1) by (simp add: unat_of_nat take_bit_eq_mod)
  have "map (version_entry (version_list_bytes vs @ r)) [0..<length vs] = vs"
    by (rule nth_equalityI) (simp_all add: version_list_bytes_def version_list_decode)
  then show ?thesis using assms(2,3) n
    by (simp add: parseServiceVersionList_def Let_def)
      (simp add: version_list_bytes_def)
qed

section \<open>Properties of the version list\<close>

text \<open>
  a version reply laid out as the modem sends it (a count and five bytes per service) is
  parsed to exactly those services, and the map built from it holds for each service the last
  entry that names it.
\<close>

theorem version_list_roundtrip:
  assumes "length vs < 256" and "FindTLV tlvs 0x01 = Some t"
    and "tlv_Value t = version_list_bytes vs @ r"
  shows "parseServiceVersionList tlvs = Inr vs \<and>
    ServiceVersionMap vs s = map_of (rev (map (\<lambda>v. (sv_ServiceType v, v)) vs)) s"
  using parse_version_list [OF assms] ServiceVersionMap_last [of vs] by metis

theorem version_list_roundtrip_witness:
  "parseServiceVersionList [\<lparr>tlv_Type = 0x01, tlv_Value = [1, 3, 1, 0, 9, 0]\<rparr>] =
     Inr [\<lparr>sv_ServiceType = 3, sv_Major = 1, sv_Minor = 9\<rparr>] \<and>
   ServiceVersionMap [\<lparr>sv_ServiceType = 3, sv_Major = 1, sv_Minor = 9\<rparr>] 3 =
     Some \<lparr>sv_ServiceType = 3, sv_Major = 1, sv_Minor = 9\<rparr>"
  using version_list_roundtrip [of "[\<lparr>sv_ServiceType = 3, sv_Major = 1, sv_Minor = 9\<rparr>]"
      "[\<lparr>tlv_Type = 0x01, tlv_Value = [1, 3, 1, 0, 9, 0]\<rparr>]"
      "\<lparr>tlv_Type = 0x01, tlv_Value = [1, 3, 1, 0, 9, 0]\<rparr>" "[]" 3]
  by (simp add: version_list_bytes_def version_entry_bytes_def PutUint16_def)

end
