(* ===== verification/Indication.thy ===== *)
theory Indication
  imports Frame "HOL-Library.AList"
begin

text \<open>
  The indication side of \<^verbatim>\<open>Client\<close> (\<^verbatim>\<open>pkg/qmi/client.go\<close>): classification of packets into events,
  the coalescing keys, the store of coalesced events, the enqueue of an indication and the loop
  that delivers them.

  \<open>ind_queue\<close> holds the fields of \<^verbatim>\<open>Client\<close> this part works on; a channel is the list of the values
  buffered in it.  Where Go's \<^verbatim>\<open>select\<close> may take one of several ready cases, the case taken is an
  argument and \<^const>\<open>None\<close> says that it is not ready.
\<close>

section \<open>Events\<close>

datatype EventType =
    EventUnknown
  | EventPacketServiceStatusChanged
  | EventServingSystemChanged
  | EventNASOperatorNameChanged
  | EventNASNetworkTimeChanged
  | EventNASSignalInfoChanged
  | EventNASNetworkReject
  | EventNASIncrementalNetworkScan
  | EventNASCellLocationInfoChanged
  | EventModemReset
  | EventNewMessage
  | EventWMSTransportNetworkRegistrationStatus
  | EventIMSRegistrationStatus
  | EventIMSServicesStatus
  | EventIMSSettingsChanged
  | EventVoiceCallStatus
  | EventVoiceSupplementaryService
  | EventUSSD
  | EventVoiceUSSDReleased
  | EventVoiceUSSDNoWaitResult
  | EventSimStatusChanged
  | EventUIMSessionClosed
  | EventUIMRefresh
  | EventUIMSlotStatus
  | EventNASEventReport
  | EventVoiceSupplementaryServiceRequest

record Event =
  ev_Type :: EventType
  ev_ServiceID :: u16
  ev_MessageID :: u16
  ev_Packet :: Packet

text \<open>The \<^verbatim>\<open>switch\<close> of \<^verbatim>\<open>dispatchIndication\<close>, in its order.\<close>

definition indication_type :: "u16 \<Rightarrow> u16 \<Rightarrow> EventType" where
  "indication_type s m =
     (if s = ServiceControl \<and> m = CTLRevokeClientIDInd then EventModemReset
      else if (s = ServiceWDS \<or> s = ServiceWDSIPv6) \<and> m = 0x0022
        then EventPacketServiceStatusChanged
      else if s = ServiceNAS \<and> (m = 0x0024 \<or> m = 0x004E) then EventServingSystemChanged
      else if s = ServiceNAS \<and> m = 0x0002 then EventNASEventReport
      else if s = ServiceNAS \<and> m = 0x003A then EventNASOperatorNameChanged
      else if s = ServiceNAS \<and> m = 0x004C then EventNASNetworkTimeChanged
      else if s = ServiceNAS \<and> m = 0x0051 then EventNASSignalInfoChanged
      else if s = ServiceNAS \<and> m = 0x0068 then EventNASNetworkReject
      else if s = ServiceNAS \<and> m = 0x0085 then EventNASIncrementalNetworkScan
      else if s = ServiceNAS \<and> m = 0x0043 then EventNASCellLocationInfoChanged
      else if s = ServiceWMS \<and> m = 0x0001 then EventNewMessage
      else if s = ServiceWMS \<and> m = 0x004B then EventWMSTransportNetworkRegistrationStatus
      else if s = ServiceIMSA \<and> m = 0x0023 then EventIMSRegistrationStatus
      else if s = ServiceIMSA \<and> m = 0x0024 then EventIMSServicesStatus
      else if s = ServiceIMS \<and> m = 0x0091 then EventIMSSettingsChanged
      else if s = ServiceVOICE \<and> m = 0x002E then EventVoiceCallStatus
      else if s = ServiceVOICE \<and> m = 0x0032 then EventVoiceSupplementaryService
      else if s = ServiceVOICE \<and> m = 0x0042 then EventVoiceSupplementaryServiceRequest
      else if s = ServiceVOICE \<and> m = 0x003E then EventUSSD
      else if s = ServiceVOICE \<and> m = 0x003D then EventVoiceUSSDReleased
      else if s = ServiceVOICE \<and> m = 0x0043 then EventVoiceUSSDNoWaitResult
      else if s = ServiceUIM \<and> m = 0x0032 then EventSimStatusChanged
      else if s = ServiceUIM \<and> m = 0x0043 then EventUIMSessionClosed
      else if s = ServiceUIM \<and> m = 0x0033 then EventUIMRefresh
      else if s = ServiceUIM \<and> m = 0x0048 then EventUIMSlotStatus
      else EventUnknown)"

definition indication_event :: "Packet \<Rightarrow> Event" where
  "indication_event p =
     \<lparr>ev_Type = indication_type (pkt_ServiceType p) (pkt_MessageID p),
      ev_ServiceID = pkt_ServiceType p, ev_MessageID = pkt_MessageID p, ev_Packet = p\<rparr>"

section \<open>Coalescing\<close>

text \<open>The prefix of \<^verbatim>\<open>coalescingKey\<close>; \<^const>\<open>None\<close> for an event type that is not coalesced.\<close>

fun coalescing_prefix :: "EventType \<Rightarrow> string option" where
  "coalescing_prefix EventPacketServiceStatusChanged = Some ''packet-status''"
| "coalescing_prefix EventServingSystemChanged = Some ''serving-system''"
| "coalescing_prefix EventNASOperatorNameChanged = Some ''nas-operator-name''"
| "coalescing_prefix EventNASNetworkTimeChanged = Some ''nas-network-time''"
| "coalescing_prefix EventNASSignalInfoChanged = Some ''nas-signal-info''"
| "coalescing_prefix EventNASNetworkReject = Some ''nas-network-reject''"
| "coalescing_prefix EventNASIncrementalNetworkScan = Some ''nas-incremental-scan''"
| "coalescing_prefix EventNASEventReport = Some ''nas-event-report''"
| "coalescing_prefix EventWMSTransportNetworkRegistrationStatus = Some ''wms-transport''"
| "coalescing_prefix EventModemReset = Some ''critical-modem-reset''"
| "coalescing_prefix EventUIMSessionClosed = Some ''critical-uim-session-closed''"
| "coalescing_prefix _ = None"

definition coalescingKey :: "Event \<Rightarrow> string option" where
  "coalescingKey e =
     map_option (\<lambda>prefix. prefix @ '':'' @ decimal (unat (ev_ServiceID e))
        @ '':'' @ decimal (unat (ev_MessageID e)))
       (coalescing_prefix (ev_Type e))"

record coalescedEventStore =
  ces_events :: "string \<rightharpoonup> Event"
  ces_order :: "string list"

definition empty_store :: coalescedEventStore where
  "empty_store = \<lparr>ces_events = Map.empty, ces_order = []\<rparr>"

definition storeCoalescedEvent ::
    "string \<Rightarrow> Event \<Rightarrow> coalescedEventStore \<Rightarrow> coalescedEventStore" where
  "storeCoalescedEvent key event st =
     (let st1 = (if ces_events st key = None then st\<lparr>ces_order := ces_order st @ [key]\<rparr> else st)
      in st1\<lparr>ces_events := (ces_events st1)(key \<mapsto> event)\<rparr>)"

text \<open>The loop of \<^verbatim>\<open>popCoalescedEvent\<close> skips keys without an event.\<close>

fun pop_order :: "string list \<Rightarrow> (string \<rightharpoonup> Event) \<Rightarrow> Event option \<times> coalescedEventStore" where
  "pop_order [] m = (None, \<lparr>ces_events = m, ces_order = []\<rparr>)"
| "pop_order (key # keys) m =
     (case m key of
        Some event \<Rightarrow> (Some event, \<lparr>ces_events = m(key := None), ces_order = keys\<rparr>)
      | None \<Rightarrow> pop_order keys (m(key := None)))"

definition popCoalescedEvent :: "coalescedEventStore \<Rightarrow> Event option \<times> coalescedEventStore" where
  "popCoalescedEvent st = pop_order (ces_order st) (ces_events st)"

section \<open>Enqueue and delivery\<close>

record ind_queue =
  iq_indicationIn :: "Event list option"
  iq_eventCh :: "Event list"
  iq_cap :: nat
  iq_signal :: bool
  iq_coalesced :: coalescedEventStore
  iq_closed :: bool
  iq_coalescedIndications :: u64
  iq_droppedEdgeIndications :: u64

definition new_ind_queue :: "nat \<Rightarrow> ind_queue" where
  "new_ind_queue cap =
     \<lparr>iq_indicationIn = Some [], iq_eventCh = [], iq_cap = cap, iq_signal = False,
      iq_coalesced = empty_store, iq_closed = False, iq_coalescedIndications = 0,
      iq_droppedEdgeIndications = 0\<rparr>"

datatype edge_case = SendCase | CloseCase | TimerCase

definition enqueueIndication :: "edge_case \<Rightarrow> Event \<Rightarrow> ind_queue \<Rightarrow> ind_queue option" where
  "enqueueIndication sel event q =
     (case iq_indicationIn q of
        None \<Rightarrow>
          Some (if length (iq_eventCh q) < iq_cap q
                then q\<lparr>iq_eventCh := iq_eventCh q @ [event]\<rparr> else q)
      | Some ch \<Rightarrow>
          (case coalescingKey event of
             Some key \<Rightarrow>
               Some (if length ch < iq_cap q then q\<lparr>iq_indicationIn := Some (ch @ [event])\<rparr>
                     else q\<lparr>iq_coalesced := storeCoalescedEvent key event (iq_coalesced q),
                            iq_coalescedIndications := iq_coalescedIndications q + 1,
                            iq_signal := True\<rparr>)
           | None \<Rightarrow>
               (case sel of
                  SendCase \<Rightarrow>
                    if length ch < iq_cap q then Some (q\<lparr>iq_indicationIn := Some (ch @ [event])\<rparr>)
                    else None
                | CloseCase \<Rightarrow> if iq_closed q then Some q else None
                | TimerCase \<Rightarrow>
                    Some (q\<lparr>iq_droppedEdgeIndications := iq_droppedEdgeIndications q + 1\<rparr>))))"

text \<open>\<^verbatim>\<open>deliverEvent\<close>: the flag says whether the case taken is the send; the result whether the loop
  goes on.\<close>

definition deliverEvent :: "bool \<Rightarrow> Event \<Rightarrow> ind_queue \<Rightarrow> (bool \<times> ind_queue) option" where
  "deliverEvent send evt q =
     (if send then
        if length (iq_eventCh q) < iq_cap q then Some (True, q\<lparr>iq_eventCh := iq_eventCh q @ [evt]\<rparr>)
        else None
      else if iq_closed q then Some (False, q) else None)"

datatype loop_case = LoopClose | LoopIn | LoopSignal

text \<open>One turn of \<^verbatim>\<open>indicationLoop\<close>.\<close>

definition indicationLoop_turn ::
    "loop_case \<Rightarrow> bool \<Rightarrow> ind_queue \<Rightarrow> (bool \<times> ind_queue) option" where
  "indicationLoop_turn sel send q =
     (case popCoalescedEvent (iq_coalesced q) of
        (Some evt, st) \<Rightarrow> deliverEvent send evt (q\<lparr>iq_coalesced := st\<rparr>)
      | (None, st) \<Rightarrow>
          (let q1 = q\<lparr>iq_coalesced := st\<rparr> in
           case sel of
             LoopClose \<Rightarrow> if iq_closed q then Some (False, q1) else None
           | LoopIn \<Rightarrow>
               (case iq_indicationIn q of
                  Some (evt # ch) \<Rightarrow> deliverEvent send evt (q1\<lparr>iq_indicationIn := Some ch\<rparr>)
                | _ \<Rightarrow> None)
           | LoopSignal \<Rightarrow> if iq_signal q then Some (True, q1\<lparr>iq_signal := False\<rparr>) else None))"

section \<open>Coalescing keys\<close>

lemma coalescing_prefix_no_colon: "coalescing_prefix t = Some pre \<Longrightarrow> CHR '':'' \<notin> set pre"
  by (cases t) auto

lemma coalescing_prefix_inject:
  "coalescing_prefix t = Some pre \<Longrightarrow> coalescing_prefix t' = Some pre \<Longrightarrow> t = t'"
  by (cases t; cases t') auto

lemma coalescingKey_Some:
  "coalescingKey e = Some k \<longleftrightarrow>
     (\<exists>pre. coalescing_prefix (ev_Type e) = Some pre \<and>
        k = pre @ CHR '':'' # decimal (unat (ev_ServiceID e)) @ CHR '':''
              # decimal (unat (ev_MessageID e)))"
  by (auto simp: coalescingKey_def)

lemma coalescingKey_inject:
  assumes "coalescingKey e = Some k" and "coalescingKey e' = Some k"
  shows "ev_Type e = ev_Type e' \<and> ev_ServiceID e = ev_ServiceID e' \<and> ev_MessageID e = ev_MessageID e'"
proof -
  from assms obtain pre pre' where p: "coalescing_prefix (ev_Type e) = Some pre"
      "coalescing_prefix (ev_Type e') = Some pre'"
    and eq: "pre @ CHR '':'' # decimal (unat (ev_ServiceID e)) @ CHR '':''
        # decimal (unat (ev_MessageID e)) = pre' @ CHR '':'' # decimal (unat (ev_ServiceID e'))
        @ CHR '':'' # decimal (unat (ev_MessageID e'))"
    by (auto simp: coalescingKey_Some)
  from eq have "pre = pre'" and "unat (ev_ServiceID e) = unat (ev_ServiceID e')"
    and "unat (ev_MessageID e) = unat (ev_MessageID e')"
    by (simp_all add: append_sep_inject coalescing_prefix_no_colon [OF p(1)]
        coalescing_prefix_no_colon [OF p(2)] decimal_no_colon)
  with p coalescing_prefix_inject show ?thesis by (auto simp: word_unat_eq_iff)
qed

section \<open>The store is a keyed queue\<close>

text \<open>
  What the indication loop relies on: the store behaves as a list of key/value pairs in which a
  put replaces the value of a key in place or appends the pair, and a pop takes the first pair.
\<close>

locale keyed_queue =
  fixes empty :: 's
    and put :: "'k \<Rightarrow> 'v \<Rightarrow> 's \<Rightarrow> 's"
    and pop :: "'s \<Rightarrow> 'v option \<times> 's"
    and abs :: "'s \<Rightarrow> ('k \<times> 'v) list"
    and invar :: "'s \<Rightarrow> bool"
  assumes empty_invar: "invar empty"
    and empty_abs: "abs empty = []"
    and put_invar: "invar s \<Longrightarrow> invar (put k v s)"
    and put_abs: "invar s \<Longrightarrow> abs (put k v s) = AList.update k v (abs s)"
    and pop_invar: "invar s \<Longrightarrow> invar (snd (pop s))"
    and pop_out: "invar s \<Longrightarrow> fst (pop s) = map_option snd (case abs s of [] \<Rightarrow> None | x # _ \<Rightarrow> Some x)"
    and pop_abs: "invar s \<Longrightarrow> abs (snd (pop s)) = tl (abs s)"
begin

definition puts :: "('k \<times> 'v) list \<Rightarrow> 's" where
  "puts kvs = fold (\<lambda>(k, v). put k v) kvs empty"

fun pops :: "nat \<Rightarrow> 's \<Rightarrow> 'v list" where
  "pops 0 s = []"
| "pops (Suc n) s = (case pop s of (None, _) \<Rightarrow> [] | (Some v, s') \<Rightarrow> v # pops n s')"

lemma fold_put:
  "invar s \<Longrightarrow> invar (fold (\<lambda>(k, v). put k v) kvs s) \<and>
     abs (fold (\<lambda>(k, v). put k v) kvs s) = fold (\<lambda>(k, v). AList.update k v) kvs (abs s)"
  by (induction kvs arbitrary: s) (auto simp: put_invar put_abs)

lemma puts_invar: "invar (puts kvs)"
  using fold_put [OF empty_invar] by (simp add: puts_def)

lemma abs_puts: "abs (puts kvs) = fold (\<lambda>(k, v). AList.update k v) kvs []"
  using fold_put [OF empty_invar] by (simp add: puts_def empty_abs)

lemma pops_abs: "invar s \<Longrightarrow> length (abs s) \<le> n \<Longrightarrow> pops n s = map snd (abs s)"
proof (induction n arbitrary: s)
  case (Suc n)
  show ?case
  proof (cases "abs s")
    case Nil
    then have "fst (pop s) = None" using pop_out [OF Suc.prems(1)] by simp
    with Nil show ?thesis by (simp add: case_prod_beta)
  next
    case (Cons x xs)
    then have "fst (pop s) = Some (snd x)" using pop_out [OF Suc.prems(1)] by simp
    moreover have "pops n (snd (pop s)) = map snd xs"
      using Suc Cons pop_invar [OF Suc.prems(1)] pop_abs [OF Suc.prems(1)] by simp
    ultimately show ?thesis using Cons by (simp add: case_prod_beta)
  qed
qed simp

lemma pops_puts:
  "length kvs \<le> n \<Longrightarrow> pops n (puts kvs) = map snd (fold (\<lambda>(k, v). AList.update k v) kvs [])"
proof -
  assume n: "length kvs \<le> n"
  have "length (fold (\<lambda>(k, v). AList.update k v) kvs al) \<le> length al + length kvs" for al
  proof (induction kvs arbitrary: al)
    case (Cons kv kvs)
    have "length (AList.update (fst kv) (snd kv) al) \<le> length al + 1"
      by (induction al) auto
    with Cons [of "AList.update (fst kv) (snd kv) al"] show ?case by (simp add: case_prod_beta)
  qed simp
  from this [of "[]"] n have "length (abs (puts kvs)) \<le> n" by (simp add: abs_puts)
  with pops_abs [OF puts_invar] show ?thesis by (simp add: abs_puts)
qed

end

text \<open>Folding updates: distinct keys, the last value of each, in the order of first occurrence.\<close>

definition latest :: "('k \<times> 'v) list \<Rightarrow> ('k \<times> 'v) list" where
  "latest kvs = fold (\<lambda>(k, v). AList.update k v) kvs []"

lemma latest_snoc: "latest (kvs @ [(k, v)]) = AList.update k v (latest kvs)"
  by (simp add: latest_def)

lemma latest_distinct: "distinct (map fst (latest kvs))"
proof (induction kvs rule: rev_induct)
  case (snoc kv kvs)
  then show ?case by (cases kv) (simp add: latest_snoc distinct_update)
qed (simp add: latest_def)

lemma latest_map_of: "map_of (latest kvs) = map_of (rev kvs)"
proof (induction kvs rule: rev_induct)
  case (snoc kv kvs)
  then show ?case by (cases kv) (simp add: latest_snoc update_conv' fun_upd_def)
qed (simp add: latest_def)

lemma latest_keys: "map fst (latest kvs) = rev (remdups (rev (map fst kvs)))"
proof (induction kvs rule: rev_induct)
  case (snoc kv kvs)
  have "set (map fst (latest kvs)) = set (map fst kvs)" using snoc by (metis set_remdups set_rev)
  with snoc show ?case by (cases kv) (auto simp: latest_snoc update_keys)
qed (simp add: latest_def)

subsection \<open>The store implements it\<close>

definition store_invar :: "coalescedEventStore \<Rightarrow> bool" where
  "store_invar st \<longleftrightarrow> distinct (ces_order st) \<and> set (ces_order st) = dom (ces_events st)"

definition store_abs :: "coalescedEventStore \<Rightarrow> (string \<times> Event) list" where
  "store_abs st = map (\<lambda>k. (k, the (ces_events st k))) (ces_order st)"

lemma map_key_update:
  "distinct ks \<Longrightarrow> k \<in> set ks \<Longrightarrow>
     map (\<lambda>x. (x, the ((m(k \<mapsto> v)) x))) ks = AList.update k v (map (\<lambda>x. (x, the (m x))) ks)"
  by (induction ks) (auto intro!: map_cong)

lemma map_key_append:
  "k \<notin> set ks \<Longrightarrow> map (\<lambda>x. (x, the ((m(k \<mapsto> v)) x))) ks @ [(k, v)] =
     AList.update k v (map (\<lambda>x. (x, the (m x))) ks)"
  by (induction ks) auto

lemma store_put_invar: "store_invar st \<Longrightarrow> store_invar (storeCoalescedEvent k e st)"
  by (auto simp: store_invar_def storeCoalescedEvent_def Let_def)

lemma store_put_abs:
  assumes "store_invar st"
  shows "store_abs (storeCoalescedEvent k e st) = AList.update k e (store_abs st)"
proof (cases "ces_events st k")
  case None
  with assms have "k \<notin> set (ces_order st)" by (auto simp: store_invar_def)
  from map_key_append [OF this] None show ?thesis
    by (simp add: store_abs_def storeCoalescedEvent_def)
next
  case (Some v)
  with assms have "k \<in> set (ces_order st)" "distinct (ces_order st)"
    by (auto simp: store_invar_def)
  from map_key_update [OF this(2,1), of "ces_events st" e] Some show ?thesis
    by (simp add: store_abs_def storeCoalescedEvent_def)
qed

lemma pop_store:
  assumes "store_invar st"
  shows "popCoalescedEvent st = (case store_abs st of
      [] \<Rightarrow> (None, st)
    | (k, v) # _ \<Rightarrow> (Some v, \<lparr>ces_events = (ces_events st)(k := None), ces_order = tl (ces_order st)\<rparr>))"
proof (cases "ces_order st")
  case Nil
  then show ?thesis by (simp add: popCoalescedEvent_def store_abs_def)
next
  case (Cons k ks)
  with assms obtain e where "ces_events st k = Some e" by (auto simp: store_invar_def)
  with Cons show ?thesis by (simp add: popCoalescedEvent_def store_abs_def)
qed

interpretation coalesced: keyed_queue empty_store storeCoalescedEvent popCoalescedEvent
  store_abs store_invar
proof
  show "store_invar empty_store" by (simp add: store_invar_def empty_store_def)
  show "store_abs empty_store = []" by (simp add: store_abs_def empty_store_def)
next
  fix st k e
  assume inv: "store_invar st"
  show "store_invar (storeCoalescedEvent k e st)" using inv by (rule store_put_invar)
  show "store_abs (storeCoalescedEvent k e st) = AList.update k e (store_abs st)"
    using inv by (rule store_put_abs)
next
  fix st
  assume inv: "store_invar st"
  show "store_invar (snd (popCoalescedEvent st))"
    using inv by (cases "ces_order st") (auto simp: pop_store store_abs_def store_invar_def)
  show "fst (popCoalescedEvent st) =
      map_option snd (case store_abs st of [] \<Rightarrow> None | x # _ \<Rightarrow> Some x)"
    using inv by (auto simp: pop_store split: list.splits)
  show "store_abs (snd (popCoalescedEvent st)) = tl (store_abs st)"
    using inv by (cases "ces_order st") (auto simp: pop_store store_abs_def store_invar_def)
qed

section \<open>Properties of the coalesced events\<close>

text \<open>
  two events share a coalescing key exactly when they are coalescable and agree in type,
  service and message, so a stored event is only ever replaced by a newer one of its own kind.
\<close>

theorem coalescingKey_identifies:
  "(\<exists>k. coalescingKey e = Some k \<and> coalescingKey e' = Some k) \<longleftrightarrow>
     coalescing_prefix (ev_Type e) \<noteq> None \<and> ev_Type e = ev_Type e' \<and>
     ev_ServiceID e = ev_ServiceID e' \<and> ev_MessageID e = ev_MessageID e'"
  using coalescingKey_inject [of e _ e'] by (auto simp: coalescingKey_Some)

fun drain_store :: "nat \<Rightarrow> coalescedEventStore \<Rightarrow> Event list" where
  "drain_store 0 st = []"
| "drain_store (Suc n) st =
     (case popCoalescedEvent st of (None, _) \<Rightarrow> [] | (Some e, st') \<Rightarrow> e # drain_store n st')"

lemma drain_store_pops: "drain_store n st = coalesced.pops n st"
  by (induction n arbitrary: st) (auto split: prod.splits option.splits)

lemma latest_values: "map snd (latest kvs) = map (\<lambda>k. the (map_of (rev kvs) k)) (map fst (latest kvs))"
  using latest_distinct [of kvs] by (auto simp: latest_map_of [symmetric])

text \<open>C22: 
  however many events are stored, popping the store returns one event per key: the keys in
  the order in which they were first stored, each with the event stored last.
\<close>

theorem coalesced_latest_per_key:
  assumes "length kvs \<le> n"
  shows "drain_store n (fold (\<lambda>(k, e). storeCoalescedEvent k e) kvs empty_store) =
    map (\<lambda>k. the (map_of (rev kvs) k)) (rev (remdups (rev (map fst kvs))))"
  using coalesced.pops_puts [OF assms]
  by (simp add: drain_store_pops coalesced.puts_def latest_def [symmetric] latest_values latest_keys)

definition sample_event :: "EventType \<Rightarrow> u16 \<Rightarrow> Event" where
  "sample_event t msg = \<lparr>ev_Type = t, ev_ServiceID = 3, ev_MessageID = msg, ev_Packet =
     \<lparr>pkt_ServiceType = 3, pkt_ClientID = 1, pkt_TransactionID = 0, pkt_MessageID = msg,
      pkt_IsIndication = True, pkt_TLVs = []\<rparr>\<rparr>"

theorem coalesced_latest_per_key_witness:
  "drain_store 3 (fold (\<lambda>(k, e). storeCoalescedEvent k e)
      [(''a'', sample_event EventServingSystemChanged 1), (''b'', sample_event EventModemReset 2),
       (''a'', sample_event EventServingSystemChanged 3)] empty_store) =
   [sample_event EventServingSystemChanged 3, sample_event EventModemReset 2]"
  using coalesced_latest_per_key [of
      "[(''a'', sample_event EventServingSystemChanged 1), (''b'', sample_event EventModemReset 2),
        (''a'', sample_event EventServingSystemChanged 3)]" 3]
  by simp

text \<open>
  while the client runs, a coalescable event is accepted at once, whatever the queues hold:
  it is appended to the channel, or it becomes the stored event of its key with the loop's signal
  raised.  It never counts as a dropped indication.
\<close>

theorem coalescable_never_dropped:
  assumes "coalescingKey event = Some key" and "iq_indicationIn q = Some ch"
    and "store_invar (iq_coalesced q)"
  shows "\<exists>q'. enqueueIndication sel event q = Some q' \<and>
    iq_droppedEdgeIndications q' = iq_droppedEdgeIndications q \<and>
    (if length ch < iq_cap q then iq_indicationIn q' = Some (ch @ [event])
     else iq_indicationIn q' = Some ch \<and> ces_events (iq_coalesced q') key = Some event \<and>
       key \<in> set (ces_order (iq_coalesced q')) \<and> iq_signal q')"
  using assms by (auto simp: enqueueIndication_def storeCoalescedEvent_def store_invar_def Let_def)

theorem coalescable_never_dropped_witness:
  "\<exists>q'. enqueueIndication TimerCase (sample_event EventModemReset 7)
        ((new_ind_queue 1)\<lparr>iq_indicationIn := Some [sample_event EventModemReset 6]\<rparr>) = Some q' \<and>
     ces_events (iq_coalesced q') (the (coalescingKey (sample_event EventModemReset 7))) =
       Some (sample_event EventModemReset 7)"
  using coalescable_never_dropped [of "sample_event EventModemReset 7" _
      "(new_ind_queue 1)\<lparr>iq_indicationIn := Some [sample_event EventModemReset 6]\<rparr>"
      "[sample_event EventModemReset 6]" TimerCase]
  by (auto simp: coalescingKey_def sample_event_def new_ind_queue_def coalesced.empty_invar)

text \<open>C26: 
  the loop overtakes its own channel.  With the channel full of an event \<open>e1\<close> of a key, a
  newer event \<open>e2\<close> of the same key goes to the store, and the next two turns of
  \<open>indicationLoop\<close> deliver \<open>e2\<close> before \<open>e1\<close>: the consumer sees the stale state last.
\<close>

theorem indicationLoop_delivers_stale_last:
  assumes "coalescingKey e1 = Some key" and "coalescingKey e2 = Some key"
    and "q0 = (new_ind_queue cap)\<lparr>iq_indicationIn := Some (replicate cap e1)\<rparr>" and "cap \<ge> 2"
  shows "\<exists>q1 q2 q3. enqueueIndication sel e2 q0 = Some q1 \<and>
    indicationLoop_turn LoopIn True q1 = Some (True, q2) \<and>
    indicationLoop_turn LoopIn True q2 = Some (True, q3) \<and> iq_eventCh q3 = [e2, e1]"
proof -
  obtain c where cap: "cap = Suc c" "c > 0" using assms(4) by (cases cap) auto
  show ?thesis using assms cap
    by (simp add: enqueueIndication_def storeCoalescedEvent_def new_ind_queue_def empty_store_def
        indicationLoop_turn_def deliverEvent_def popCoalescedEvent_def)
qed

theorem indicationLoop_delivers_stale_last_witness:
  "\<exists>q1 q2 q3. enqueueIndication SendCase (sample_event EventModemReset 7)
      ((new_ind_queue 2)\<lparr>iq_indicationIn := Some (replicate 2 ((sample_event EventModemReset 7)
         \<lparr>ev_Packet := (ev_Packet (sample_event EventModemReset 7))\<lparr>pkt_ClientID := 9\<rparr>\<rparr>))\<rparr>) = Some q1 \<and>
    indicationLoop_turn LoopIn True q1 = Some (True, q2) \<and>
    indicationLoop_turn LoopIn True q2 = Some (True, q3) \<and>
    iq_eventCh q3 = [sample_event EventModemReset 7, (sample_event EventModemReset 7)
         \<lparr>ev_Packet := (ev_Packet (sample_event EventModemReset 7))\<lparr>pkt_ClientID := 9\<rparr>\<rparr>]"
  by (rule indicationLoop_delivers_stale_last [OF _ _ refl])
    (simp_all add: coalescingKey_def sample_event_def)

end
