(* ===== verification/RxStream.thy ===== *)
theory RxStream
  imports Frame
begin

text \<open>
  The framing part of \<^verbatim>\<open>Client.readLoop\<close> (\<^verbatim>\<open>pkg/qmi/client.go\<close>): cutting frames out of the bytes
  read from the transport and resynchronising on the marker bytes.

  \<open>readLoop_frames\<close> is the inner loop over \<^verbatim>\<open>pending\<close>; it returns the frames it cut and what is
  left pending.  \<open>next_frame\<close> is the specification: a machine that looks at one frame or one
  byte of garbage at a time.  The locale \<open>stream_framer\<close> says when such a machine does not depend
  on how the stream was split into reads; the loop of the source refines the specification.
\<close>

section \<open>The loop of the source\<close>

definition is_marker :: "byte \<Rightarrow> bool" where
  "is_marker b \<longleftrightarrow> b = 0x01 \<or> b = 0x02"

abbreviation skip_garbage :: "byte list \<Rightarrow> byte list" where
  "skip_garbage \<equiv> dropWhile (\<lambda>b. \<not> is_marker b)"

lemma skip_garbage_shorter:
  "xs \<noteq> [] \<Longrightarrow> \<not> is_marker (xs ! 0) \<Longrightarrow> length (skip_garbage xs) < length xs"
  using length_dropWhile_le [of _ "tl xs"] by (cases xs) (auto simp: less_Suc_eq_le)

text \<open>\<^verbatim>\<open>frameLen := 1 + int(binary.LittleEndian.Uint16(pending[1:3]))\<close>\<close>

definition frameLen :: "byte list \<Rightarrow> nat" where
  "frameLen pending = 1 + unat (Uint16 (go_slice 1 3 pending))"

function readLoop_frames :: "byte list \<Rightarrow> byte list list \<times> byte list" where
  "readLoop_frames pending =
     (if length pending < 3 then ([], pending)
      else if \<not> is_marker (pending ! 0) then
        (if skip_garbage pending = [] then ([], [])
         else readLoop_frames (skip_garbage pending))
      else if length pending < QmuxHeaderSize then ([], pending)
      else if frameLen pending < QmuxHeaderSize then readLoop_frames (drop 1 pending)
      else if length pending < frameLen pending then ([], pending)
      else let (frames, rest) = readLoop_frames (drop (frameLen pending) pending)
           in (take (frameLen pending) pending # frames, rest))"
  by pat_completeness auto

termination
  by (relation "measure length") (auto simp: frameLen_def intro!: skip_garbage_shorter)

declare readLoop_frames.simps [simp del]

text \<open>Successive reads: each appends its bytes to what is pending and runs the loop; an empty read
  does nothing.\<close>

fun readLoop_chunks :: "byte list \<Rightarrow> byte list list \<Rightarrow> byte list list \<times> byte list" where
  "readLoop_chunks pending [] = ([], pending)"
| "readLoop_chunks pending (chunk # chunks) =
     (if chunk = [] then readLoop_chunks pending chunks
      else let (frames, pending') = readLoop_frames (pending @ chunk);
               (frames', pending'') = readLoop_chunks pending' chunks
           in (frames @ frames', pending''))"

section \<open>Framers that do not depend on read boundaries\<close>

text \<open>
  A framer takes one decision at a time: it emits a frame or drops bytes and continues, or it
  needs more input.  A decision once possible stays the same whatever follows.
\<close>

locale stream_framer =
  fixes next_step :: "'b list \<Rightarrow> ('f option \<times> 'b list) option"
  assumes next_shrinks: "next_step p = Some (out, r) \<Longrightarrow> length r < length p"
    and next_append: "next_step p = Some (out, r) \<Longrightarrow> next_step (p @ q) = Some (out, r @ q)"
begin

function drain :: "'b list \<Rightarrow> 'f list \<times> 'b list" where
  "drain p =
     (case next_step p of
        None \<Rightarrow> ([], p)
      | Some (out, r) \<Rightarrow> (case_option [] (\<lambda>f. [f]) out @ fst (drain r), snd (drain r)))"
  by pat_completeness auto
termination
  by (relation "measure length") (auto dest: next_shrinks)

declare drain.simps [simp del]

lemma drain_None: "next_step p = None \<Longrightarrow> drain p = ([], p)"
  by (simp add: drain.simps)

lemma drain_Some:
  "next_step p = Some (out, r) \<Longrightarrow>
     drain p = (case_option [] (\<lambda>f. [f]) out @ fst (drain r), snd (drain r))"
  by (simp add: drain.simps [of p])

lemma drain_append:
  "drain (p @ q) = (fst (drain p) @ fst (drain (snd (drain p) @ q)), snd (drain (snd (drain p) @ q)))"
proof (induction p rule: drain.induct)
  case (1 p)
  show ?case
  proof (cases "next_step p")
    case None
    then show ?thesis by (simp add: drain_None)
  next
    case (Some x)
    obtain out r where x: "x = (out, r)" by (cases x)
    with Some have "next_step (p @ q) = Some (out, r @ q)" by (simp add: next_append)
    with Some x "1.IH" [OF Some [unfolded x] refl] show ?thesis
      by (simp add: drain_Some)
  qed
qed

lemma drain_stuck: "next_step (snd (drain p)) = None"
proof (induction p rule: drain.induct)
  case (1 p)
  then show ?case by (cases "next_step p") (auto simp: drain_None drain_Some)
qed

text \<open>Feeding chunk by chunk, and the independence of the split.\<close>

fun feed :: "'b list \<Rightarrow> 'b list list \<Rightarrow> 'f list \<times> 'b list" where
  "feed p [] = ([], p)"
| "feed p (c # cs) =
     (let (fs, r) = drain (p @ c); (fs', r') = feed r cs in (fs @ fs', r'))"

lemma feed_drain: "next_step p = None \<Longrightarrow> feed p cs = drain (p @ concat cs)"
proof (induction cs arbitrary: p)
  case Nil
  then show ?case by (simp add: drain_None)
next
  case (Cons c cs)
  obtain fs r where d: "drain (p @ c) = (fs, r)" by (cases "drain (p @ c)")
  then have "next_step r = None" using drain_stuck [of "p @ c"] by simp
  then have "feed r cs = drain (r @ concat cs)" by (rule Cons.IH)
  then show ?case using d drain_append [of "p @ c" "concat cs"]
    by (simp add: case_prod_beta)
qed

end

section \<open>The specification of the framing\<close>

definition next_frame :: "byte list \<Rightarrow> (byte list option \<times> byte list) option" where
  "next_frame p =
     (if p = [] then None
      else if \<not> is_marker (p ! 0) then Some (None, drop 1 p)
      else if length p < 6 then None
      else if frameLen p < 6 then Some (None, drop 1 p)
      else if length p < frameLen p then None
      else Some (Some (take (frameLen p) p), drop (frameLen p) p))"

lemma frameLen_append [simp]: "3 \<le> length p \<Longrightarrow> frameLen (p @ q) = frameLen p"
  by (simp add: frameLen_def)

interpretation framer: stream_framer next_frame
proof
  fix p out r
  assume "next_frame p = Some (out, r)"
  then show "length r < length p"
    by (auto simp: next_frame_def frameLen_def split: if_splits)
next
  fix p out r q
  assume "next_frame p = Some (out, r)"
  moreover have "p \<noteq> [] \<Longrightarrow> Suc 0 - length p = 0" by (cases p) auto
  ultimately show "next_frame (p @ q) = Some (out, r @ q)"
    by (auto simp: next_frame_def nth_append split: if_splits)
qed

section \<open>The loop refines the specification\<close>

lemma next_frame_garbage: "\<not> is_marker b \<Longrightarrow> next_frame (b # p) = Some (None, p)"
  by (simp add: next_frame_def)

lemma drain_skip_garbage:
  "framer.drain p = framer.drain (skip_garbage p)"
proof (induction p)
  case (Cons b p)
  show ?case
  proof (cases "is_marker b")
    case False
    with Cons.IH show ?thesis by (simp add: framer.drain_Some next_frame_garbage)
  qed simp
qed simp

lemma skip_garbage_idle:
  "skip_garbage p = [] \<or> is_marker (skip_garbage p ! 0)"
  by (induction p) auto

lemma drain_short: "length p < 3 \<Longrightarrow> framer.drain p = ([], skip_garbage p)"
proof -
  assume "length p < 3"
  moreover have "length (skip_garbage p) \<le> length p" by (rule length_dropWhile_le)
  ultimately have "next_frame (skip_garbage p) = None"
    using skip_garbage_idle [of p] by (auto simp: next_frame_def)
  then show ?thesis by (simp add: drain_skip_garbage [of p] framer.drain_None)
qed

lemma readLoop_frames_refines:
  "framer.drain p = (fst (readLoop_frames p), skip_garbage (snd (readLoop_frames p)))"
proof (induction p rule: readLoop_frames.induct)
  case (1 p)
  consider (short) "length p < 3"
    | (garbage) "3 \<le> length p" "\<not> is_marker (p ! 0)"
    | (frame) "3 \<le> length p" "is_marker (p ! 0)" by fastforce
  then show ?case
  proof cases
    case short
    then show ?thesis by (simp add: drain_short readLoop_frames.simps [of p])
  next
    case garbage
    then have p: "readLoop_frames p =
        (if skip_garbage p = [] then ([], []) else readLoop_frames (skip_garbage p))"
      by (simp add: readLoop_frames.simps [of p])
    show ?thesis
    proof (cases "skip_garbage p = []")
      case True
      then have "framer.drain p = ([], [])"
        unfolding drain_skip_garbage [of p] True by (simp add: drain_short)
      with True show ?thesis by (simp add: p)
    next
      case False
      have "framer.drain (skip_garbage p) = (fst (readLoop_frames (skip_garbage p)),
          skip_garbage (snd (readLoop_frames (skip_garbage p))))"
        using "1.IH"(1) garbage False by simp
      then show ?thesis unfolding p if_not_P [OF False] drain_skip_garbage [of p] .
    qed
  next
    case frame
    then have m: "skip_garbage p = p" by (cases p) auto
    consider (wait) "length p < 6 \<or> 6 \<le> frameLen p \<and> length p < frameLen p"
      | (resync) "6 \<le> length p" "frameLen p < 6"
      | (cut) "6 \<le> length p" "6 \<le> frameLen p" "frameLen p \<le> length p"
      by linarith
    then show ?thesis
    proof cases
      case wait
      then have "readLoop_frames p = ([], p)" and "next_frame p = None" using frame
        by (auto simp: next_frame_def readLoop_frames.simps [of p])
      with m show ?thesis by (simp add: framer.drain_None)
    next
      case resync
      then have "next_frame p = Some (None, drop 1 p)" using frame by (auto simp: next_frame_def)
      moreover have "readLoop_frames p = readLoop_frames (drop 1 p)"
        using resync frame by (simp add: readLoop_frames.simps [of p])
      ultimately show ?thesis using "1.IH"(2) resync frame by (simp add: framer.drain_Some)
    next
      case cut
      then have "next_frame p = Some (Some (take (frameLen p) p), drop (frameLen p) p)"
        using frame by (auto simp: next_frame_def)
      moreover have "readLoop_frames p =
          (take (frameLen p) p # fst (readLoop_frames (drop (frameLen p) p)),
           snd (readLoop_frames (drop (frameLen p) p)))"
        using cut frame by (simp add: readLoop_frames.simps [of p] case_prod_beta)
      ultimately show ?thesis using "1.IH"(3) cut frame by (simp add: framer.drain_Some)
    qed
  qed
qed

lemma drain_garbage_append:
  "framer.drain (skip_garbage p @ q) = framer.drain (p @ q)"
  by (induction p) (auto simp: framer.drain_Some next_frame_garbage)

lemma readLoop_chunks_feed:
  assumes "next_frame (skip_garbage pending) = None"
  shows "fst (readLoop_chunks pending chunks) = fst (framer.feed (skip_garbage pending) chunks)"
  using assms
proof (induction chunks arbitrary: pending)
  case (Cons c cs)
  let ?rest = "snd (readLoop_frames (pending @ c))"
  have d: "framer.drain (skip_garbage pending @ c) =
      (fst (readLoop_frames (pending @ c)), skip_garbage ?rest)"
    unfolding drain_garbage_append by (rule readLoop_frames_refines)
  then have "next_frame (skip_garbage ?rest) = None"
    using framer.drain_stuck [of "skip_garbage pending @ c"] by simp
  with Cons d show ?case
    by (cases "c = []") (simp_all add: case_prod_beta framer.drain_None)
qed simp

lemma readLoop_chunks_concat:
  "fst (readLoop_chunks [] chunks) = fst (readLoop_frames (concat chunks))"
proof -
  have "framer.feed [] chunks = framer.drain (concat chunks)"
    using framer.feed_drain [of "[]" chunks] by (simp add: next_frame_def)
  then show ?thesis
    by (simp add: readLoop_chunks_feed readLoop_frames_refines next_frame_def)
qed

section \<open>Streams of packets\<close>







section \<open>Properties of the receive path\<close>



text \<open>
  the sequence of frames does not depend on where the reads fall, also for arbitrary bytes:
  two ways of cutting the same byte stream into reads give the same frames.
\<close>

theorem readLoop_chunk_independent:
  assumes "concat chunks = concat chunks'"
  shows "fst (readLoop_chunks [] chunks) = fst (readLoop_chunks [] chunks')"
  using assms by (simp add: readLoop_chunks_concat)

theorem readLoop_chunk_independent_witness:
  "fst (readLoop_chunks [] [[0x01, 0x05], [0x00, 0x80], [0x00, 0x00]]) =
   fst (readLoop_chunks [] [[0x01], [0x05, 0x00, 0x80, 0x00], [], [0x00]])"
  by (rule readLoop_chunk_independent) simp

end
