(* ===== verification/ClientCore.thy ===== *)
theory ClientCore
  imports Ctl Indication RxStream
begin

text \<open>
  The request side of \<^verbatim>\<open>Client\<close> (\<^verbatim>\<open>pkg/qmi/client.go\<close>): transaction identifiers, the transaction table,
  the memory of recently abandoned transactions, routing of received packets, and the client
  identifiers of the services.

  Go maps whose iteration order matters are association lists with distinct keys; the theorems hold
  for every such list, hence for every iteration order.  Times are nanoseconds; the zero
  \<^verbatim>\<open>time.Time\<close> is \<^const>\<open>None\<close>.  Response channels live in a store \<open>c_chans\<close> addressed by number,
  because a channel is shared by the requester and the reader; sending on or closing a closed channel
  panics in Go and sets \<open>c_panicked\<close>.
\<close>

section \<open>State\<close>

record transactionEntry =
  te_ch :: nat
  te_service :: u16
  te_msgID :: u16
  te_txID :: u16
  te_start :: int
  te_deadline :: int

record recentTransaction =
  rt_service :: u16
  rt_msgID :: u16
  rt_txID :: u16
  rt_start :: int
  rt_deadline :: int
  rt_completedAt :: int
  rt_err :: string

text \<open>A channel of capacity one.\<close>

record resp_chan =
  rc_buf :: "Packet option"
  rc_closed :: bool

definition recentTransactionTTL :: int where "recentTransactionTTL = 120 * 10 ^ 9"
definition maxRecentTransactions :: nat where "maxRecentTransactions = 256"
definition lateResponseLogMinInterval :: int where "lateResponseLogMinInterval = 5 * 10 ^ 9"

record Client =
  c_transactions :: "(u32 \<times> transactionEntry) list"
  c_recentTransactions :: "(u32 \<times> recentTransaction) list"
  c_lateResponseLastLog :: "int option"
  c_lateResponseSuppressed :: u64
  c_lastTxID :: u32
  c_ctlTxID :: u32
  c_clientIDs :: "u16 \<rightharpoonup> u8"
  c_serviceVersions :: "u8 \<rightharpoonup> ServiceVersion"
  c_versionQueried :: bool
  c_ind :: ind_queue
  c_unmatchedResponses :: u64
  c_parseErrors :: u64
  c_chans :: "nat \<Rightarrow> resp_chan"
  c_nextChan :: nat
  c_panicked :: bool

definition newClient :: "nat \<Rightarrow> Client" where
  "newClient indicationQueueSize =
     \<lparr>c_transactions = [], c_recentTransactions = [], c_lateResponseLastLog = None,
      c_lateResponseSuppressed = 0, c_lastTxID = 0, c_ctlTxID = 0, c_clientIDs = Map.empty,
      c_serviceVersions = Map.empty, c_versionQueried = False,
      c_ind = new_ind_queue indicationQueueSize, c_unmatchedResponses = 0, c_parseErrors = 0,
      c_chans = (\<lambda>_. \<lparr>rc_buf = None, rc_closed = False\<rparr>), c_nextChan = 0, c_panicked = False\<rparr>"

section \<open>Channels\<close>

text \<open>\<^verbatim>\<open>select { case ch <- packet: default: }\<close>\<close>

definition chan_send :: "nat \<Rightarrow> Packet \<Rightarrow> Client \<Rightarrow> Client" where
  "chan_send a p c =
     (if rc_closed (c_chans c a) then c\<lparr>c_panicked := True\<rparr>
      else if rc_buf (c_chans c a) = None then
        c\<lparr>c_chans := (c_chans c)(a := (c_chans c a)\<lparr>rc_buf := Some p\<rparr>)\<rparr>
      else c)"

definition chan_close :: "nat \<Rightarrow> Client \<Rightarrow> Client" where
  "chan_close a c =
     (if rc_closed (c_chans c a) then c\<lparr>c_panicked := True\<rparr>
      else c\<lparr>c_chans := (c_chans c)(a := (c_chans c a)\<lparr>rc_closed := True\<rparr>)\<rparr>)"

section \<open>Transactions\<close>

definition transaction_key :: "u16 \<Rightarrow> u16 \<Rightarrow> u32" where
  "transaction_key service txID = push_bit 16 (ucast service) OR ucast txID"

text \<open>\<^verbatim>\<open>atomic.AddUint32\<close> followed by the mask; zero is skipped once.\<close>

definition next_txID :: "u32 \<Rightarrow> u32 \<Rightarrow> u16 \<times> u32" where
  "next_txID mask_bits counter =
     (let n = counter + 1; tx = ucast (n AND mask_bits) in
      if tx = 0 then (ucast ((n + 1) AND mask_bits), n + 1) else (tx, n))"

definition allocate_txID :: "u16 \<Rightarrow> Client \<Rightarrow> u16 \<times> Client" where
  "allocate_txID service c =
     (if service = ServiceControl then
        let (tx, n) = next_txID 0xFF (c_ctlTxID c) in (tx, c\<lparr>c_ctlTxID := n\<rparr>)
      else
        let (tx, n) = next_txID 0xFFFF (c_lastTxID c) in (tx, c\<lparr>c_lastTxID := n\<rparr>))"

text \<open>The first half of \<^verbatim>\<open>SendRequest\<close>: the identifier, the fresh response channel and the
  registered entry.\<close>

definition register_transaction ::
    "int \<Rightarrow> int \<Rightarrow> u16 \<Rightarrow> u16 \<Rightarrow> Client \<Rightarrow> u32 \<times> transactionEntry \<times> Client" where
  "register_transaction now deadline service msgID c =
     (let (txID, c1) = allocate_txID service c;
          a = c_nextChan c1;
          key = transaction_key service txID;
          entry = \<lparr>te_ch = a, te_service = service, te_msgID = msgID, te_txID = txID,
                   te_start = now, te_deadline = deadline\<rparr>
      in (key, entry,
          c1\<lparr>c_nextChan := a + 1,
             c_chans := (c_chans c1)(a := \<lparr>rc_buf = None, rc_closed = False\<rparr>),
             c_transactions := AList.update key entry (c_transactions c1)\<rparr>))"

text \<open>The packet \<^verbatim>\<open>SendRequest\<close> marshals for a registered entry.\<close>

definition request_packet :: "transactionEntry \<Rightarrow> u8 \<Rightarrow> TLV list \<Rightarrow> Packet" where
  "request_packet entry clientID tlvs =
     \<lparr>pkt_ServiceType = te_service entry, pkt_ClientID = clientID,
      pkt_TransactionID = te_txID entry, pkt_MessageID = te_msgID entry,
      pkt_IsIndication = False, pkt_TLVs = tlvs\<rparr>"

subsection \<open>Recently abandoned transactions\<close>

definition pruneRecentTransactionsLocked ::
    "int \<Rightarrow> (u32 \<times> recentTransaction) list \<Rightarrow> (u32 \<times> recentTransaction) list" where
  "pruneRecentTransactionsLocked now recents =
     filter (\<lambda>(_, r). \<not> now - rt_completedAt r > recentTransactionTTL) recents"

text \<open>The search for the oldest entry, in iteration order; \<^const>\<open>None\<close> is the zero time.\<close>

fun oldest_recent :: "u32 \<Rightarrow> int option \<Rightarrow> (u32 \<times> recentTransaction) list \<Rightarrow> u32 \<times> int option" where
  "oldest_recent oldestKey oldest [] = (oldestKey, oldest)"
| "oldest_recent oldestKey oldest ((k, r) # rs) =
     (case oldest of
        None \<Rightarrow> oldest_recent k (Some (rt_completedAt r)) rs
      | Some t \<Rightarrow>
          if rt_completedAt r < t then oldest_recent k (Some (rt_completedAt r)) rs
          else oldest_recent oldestKey oldest rs)"

definition rememberRecentTransactionLocked ::
    "int \<Rightarrow> u32 \<Rightarrow> transactionEntry \<Rightarrow> go_error \<Rightarrow> Client \<Rightarrow> Client" where
  "rememberRecentTransactionLocked now key entry cause c =
     (let rs1 = pruneRecentTransactionsLocked now (c_recentTransactions c);
          rs2 = (if length rs1 \<ge> maxRecentTransactions
                 then AList.delete (fst (oldest_recent 0 None rs1)) rs1 else rs1);
          r = \<lparr>rt_service = te_service entry, rt_msgID = te_msgID entry, rt_txID = te_txID entry,
               rt_start = te_start entry, rt_deadline = te_deadline entry, rt_completedAt = now,
               rt_err = err_text cause\<rparr>
      in c\<lparr>c_recentTransactions := AList.update key r rs2\<rparr>)"

text \<open>The deferred \<^verbatim>\<open>completeTransaction\<close>; \<^verbatim>\<open>nil\<close> is \<^const>\<open>None\<close>.\<close>

definition completeTransaction ::
    "int \<Rightarrow> u32 \<Rightarrow> transactionEntry \<Rightarrow> go_error option \<Rightarrow> Client \<Rightarrow> Client" where
  "completeTransaction now key entry cause c =
     (let c1 = c\<lparr>c_transactions := AList.delete key (c_transactions c)\<rparr> in
      case cause of
        Some e \<Rightarrow> if isContextDone e then rememberRecentTransactionLocked now key entry e c1 else c1
      | None \<Rightarrow> c1)"

definition takeRecentTransaction ::
    "int \<Rightarrow> u32 \<Rightarrow> u16 \<Rightarrow> u16 \<Rightarrow> Client \<Rightarrow> recentTransaction option \<times> Client" where
  "takeRecentTransaction now key service msgID c =
     (case map_of (c_recentTransactions c) key of
        None \<Rightarrow> (None, c)
      | Some recent \<Rightarrow>
          let forget = c\<lparr>c_recentTransactions := AList.delete key (c_recentTransactions c)\<rparr> in
          if now - rt_completedAt recent > recentTransactionTTL then (None, forget)
          else if rt_service recent \<noteq> service \<or> rt_msgID recent \<noteq> msgID then (None, c)
          else (Some recent, forget))"

definition isRecentTransaction ::
    "int \<Rightarrow> u32 \<Rightarrow> u16 \<Rightarrow> u16 \<Rightarrow> Client \<Rightarrow> bool \<times> Client" where
  "isRecentTransaction now key service msgID c =
     (case map_of (c_recentTransactions c) key of
        None \<Rightarrow> (False, c)
      | Some recent \<Rightarrow>
          if now - rt_completedAt recent > recentTransactionTTL then
            (False, c\<lparr>c_recentTransactions := AList.delete key (c_recentTransactions c)\<rparr>)
          else (rt_service recent = service \<and> rt_msgID recent = msgID, c))"

text \<open>\<^verbatim>\<open>logLateResponse\<close>: the first component is the suppressed count it prints, when it prints.\<close>

definition logLateResponse :: "int \<Rightarrow> Client \<Rightarrow> u64 option \<times> Client" where
  "logLateResponse now c =
     (case c_lateResponseLastLog c of
        Some t \<Rightarrow>
          if now - t < lateResponseLogMinInterval then
            (None, c\<lparr>c_lateResponseSuppressed := c_lateResponseSuppressed c + 1\<rparr>)
          else (Some (c_lateResponseSuppressed c),
                c\<lparr>c_lateResponseLastLog := Some now, c_lateResponseSuppressed := 0\<rparr>)
      | None \<Rightarrow> (Some (c_lateResponseSuppressed c),
                c\<lparr>c_lateResponseLastLog := Some now, c_lateResponseSuppressed := 0\<rparr>))"

text \<open>Every registered entry is removed and its channel closed.\<close>

definition failPendingTransactions :: "Client \<Rightarrow> Client" where
  "failPendingTransactions c =
     fold (\<lambda>(_, e). chan_close (te_ch e)) (c_transactions c) (c\<lparr>c_transactions := []\<rparr>)"

section \<open>Received packets\<close>

definition handleClientIDRevoke :: "Packet \<Rightarrow> Client \<Rightarrow> Client" where
  "handleClientIDRevoke p c =
     (if pkt_ServiceType p \<noteq> ServiceControl \<or> pkt_MessageID p \<noteq> CTLRevokeClientIDInd then c
      else case FindTLV (pkt_TLVs p) 0x01 of
          None \<Rightarrow> c
        | Some tlv \<Rightarrow>
            (case decodeCTLServiceClientIDTLV (tlv_Value tlv) of
               None \<Rightarrow> c
             | Some (service, clientID) \<Rightarrow>
                 if c_clientIDs c service = Some clientID
                 then c\<lparr>c_clientIDs := (c_clientIDs c)(service := None)\<rparr> else c))"

definition dispatchIndication :: "edge_case \<Rightarrow> Packet \<Rightarrow> Client \<Rightarrow> Client option" where
  "dispatchIndication sel p c =
     (let c1 = (if pkt_ServiceType p = ServiceControl \<and> pkt_MessageID p = CTLRevokeClientIDInd
                then handleClientIDRevoke p c else c)
      in map_option (\<lambda>q. c1\<lparr>c_ind := q\<rparr>) (enqueueIndication sel (indication_event p) (c_ind c1)))"

definition packet_key :: "Packet \<Rightarrow> u32" where
  "packet_key p = transaction_key (pkt_ServiceType p) (pkt_TransactionID p)"

text \<open>The entry a packet is delivered to, when it is a response to a registered request.\<close>

definition matching_entry :: "Packet \<Rightarrow> Client \<Rightarrow> transactionEntry option" where
  "matching_entry p c =
     (if pkt_IsIndication p then None else map_of (c_transactions c) (packet_key p))"

text \<open>What \<^verbatim>\<open>readLoop\<close> does with a packet that matches no entry.\<close>

definition handle_unmatched :: "edge_case \<Rightarrow> int \<Rightarrow> Packet \<Rightarrow> Client \<Rightarrow> Client option" where
  "handle_unmatched sel now p c =
     (if \<not> pkt_IsIndication p \<and> pkt_ServiceType p \<noteq> ServiceControl then
        let c1 = c\<lparr>c_unmatchedResponses := c_unmatchedResponses c + 1\<rparr> in
        case takeRecentTransaction now (packet_key p) (pkt_ServiceType p) (pkt_MessageID p) c1 of
          (Some _, c2) \<Rightarrow> Some (snd (logLateResponse now c2))
        | (None, c2) \<Rightarrow> dispatchIndication sel p c2
      else dispatchIndication sel p c)"

definition handlePacket :: "edge_case \<Rightarrow> int \<Rightarrow> Packet \<Rightarrow> Client \<Rightarrow> Client option" where
  "handlePacket sel now p c =
     (case matching_entry p c of
        Some entry \<Rightarrow> Some (chan_send (te_ch entry) p c)
      | None \<Rightarrow> handle_unmatched sel now p c)"

definition handleFrame :: "edge_case \<Rightarrow> int \<Rightarrow> byte list \<Rightarrow> Client \<Rightarrow> Client option" where
  "handleFrame sel now frame c =
     (case UnmarshalPacket frame of
        Inl _ \<Rightarrow> Some (c\<lparr>c_parseErrors := c_parseErrors c + 1\<rparr>)
      | Inr p \<Rightarrow> handlePacket sel now p c)"

section \<open>Services and client identifiers\<close>

definition HasService :: "u16 \<Rightarrow> Client \<Rightarrow> bool" where
  "HasService service c \<longleftrightarrow>
     \<not> c_versionQueried c \<or> service > 0xFF \<or> c_serviceVersions c (ucast service) \<noteq> None"

definition ensureServiceAllocatable :: "u16 \<Rightarrow> Client \<Rightarrow> go_error option" where
  "ensureServiceAllocatable service c =
     (if \<not> c_versionQueried c then None
      else if service > 0xFF then None
      else case c_serviceVersions c (ucast service) of
          Some _ \<Rightarrow> None
        | None \<Rightarrow> Some ErrServiceNotSupported)"

definition GetClientID :: "u16 \<Rightarrow> Client \<Rightarrow> u8" where
  "GetClientID service c = (case c_clientIDs c service of Some cid \<Rightarrow> cid | None \<Rightarrow> 0)"

text \<open>
  A request as its callers see it: service, client identifier, message and TLVs in, an outcome out.
  \<open>ctxDone\<close> says whether the caller's context is done after a failed attempt.
\<close>

type_synonym request = "u16 \<times> u8 \<times> u16 \<times> TLV list"
type_synonym sender = "request \<Rightarrow> Client \<Rightarrow> (go_error + Packet) \<times> Client"

definition allocate_response :: "u16 \<Rightarrow> Packet \<Rightarrow> Client \<Rightarrow> (go_error + u8) \<times> Client" where
  "allocate_response service resp c =
     (case CheckResult resp of
        Some err \<Rightarrow> (Inl (result_go_error err), c)
      | None \<Rightarrow>
          (case FindTLV (pkt_TLVs resp) 0x01 of
             None \<Rightarrow> (Inl (ErrText ''invalid response TLV''), c)
           | Some tlv \<Rightarrow>
               (case decodeCTLServiceClientIDTLV (tlv_Value tlv) of
                  None \<Rightarrow> (Inl (ErrText ''invalid response TLV''), c)
                | Some (_, clientID) \<Rightarrow>
                    (Inr clientID, c\<lparr>c_clientIDs := (c_clientIDs c)(service \<mapsto> clientID)\<rparr>))))"

fun allocate_attempts ::
    "sender \<Rightarrow> (nat \<Rightarrow> bool) \<Rightarrow> u16 \<Rightarrow> nat \<Rightarrow> nat \<Rightarrow> go_error \<Rightarrow> Client \<Rightarrow> (go_error + u8) \<times> Client" where
  "allocate_attempts send ctxDone service 0 retry lastErr c =
     (Inl (ErrWrap ''allocate client ID request failed after retries: '' lastErr []), c)"
| "allocate_attempts send ctxDone service (Suc left) retry lastErr c =
     (case send (ServiceControl, 0, CTLGetClientID, [encodeCTLServiceOnlyTLV service]) c of
        (Inr resp, c1) \<Rightarrow> allocate_response service resp c1
      | (Inl err, c1) \<Rightarrow>
          if ctxDone retry then
            (Inl (ErrWrap ''allocate client ID request failed after retries: '' err []), c1)
          else allocate_attempts send ctxDone service left (Suc retry) err c1)"

definition AllocateClientIDWithContext ::
    "sender \<Rightarrow> (nat \<Rightarrow> bool) \<Rightarrow> u16 \<Rightarrow> Client \<Rightarrow> (go_error + u8) \<times> Client" where
  "AllocateClientIDWithContext send ctxDone service c =
     (case ensureServiceAllocatable service c of
        Some err \<Rightarrow> (Inl err, c)
      | None \<Rightarrow> allocate_attempts send ctxDone service 3 0 (ErrText []) c)"

definition ReleaseClientIDWithContext ::
    "sender \<Rightarrow> u16 \<Rightarrow> u8 \<Rightarrow> Client \<Rightarrow> go_error option \<times> Client" where
  "ReleaseClientIDWithContext send service clientID c =
     (case send (ServiceControl, 0, CTLReleaseClientID,
                 [encodeCTLServiceClientIDTLV service clientID]) c of
        (Inl err, c1) \<Rightarrow> (Some (ErrWrap ''release client ID request failed: '' err []), c1)
      | (Inr resp, c1) \<Rightarrow>
          (case CheckResult resp of
             Some err \<Rightarrow> (Some (result_go_error err), c1)
           | None \<Rightarrow> (None, c1\<lparr>c_clientIDs := (c_clientIDs c1)(service := None)\<rparr>)))"

section \<open>Transaction identifiers in sequence\<close>

text \<open>The identifiers handed out one after another from a counter.\<close>

fun txID_sequence :: "u32 \<Rightarrow> u32 \<Rightarrow> nat \<Rightarrow> u16 list" where
  "txID_sequence m counter 0 = []"
| "txID_sequence m counter (Suc k) =
     (let (tx, n) = next_txID m counter in tx # txID_sequence m n k)"

definition tx_modulus :: "u32 \<Rightarrow> nat" where
  "tx_modulus m = unat m + 1"

lemma mask_cases:
  assumes "m = 0xFF \<or> m = 0xFFFF"
  shows "unat ((n :: u32) AND m) = unat n mod tx_modulus m"
    and "2 < tx_modulus m" and "tx_modulus m \<le> 65536" and "tx_modulus m dvd 2 ^ 32"
proof -
  have "n AND 0xFF = take_bit 8 n" "n AND 0xFFFF = take_bit 16 n"
    by (simp_all add: take_bit_eq_mask mask_eq_exp_minus_1)
  then have "unat (n AND 0xFF) = unat n mod 256" "unat (n AND 0xFFFF) = unat n mod 65536"
    by (simp_all only: unsigned_take_bit_eq) (simp_all add: take_bit_eq_mod)
  then show "unat (n AND m) = unat n mod tx_modulus m"
    using assms by (auto simp: tx_modulus_def)
  show "2 < tx_modulus m" "tx_modulus m \<le> 65536" "tx_modulus m dvd 2 ^ 32"
    using assms by (auto simp: tx_modulus_def)
qed

lemma unat_inc_mod:
  assumes "M dvd 2 ^ 32"
  shows "unat ((n :: u32) + 1) mod M = (unat n + 1) mod M"
  using assms by (simp add: unat_word_ariths mod_mod_cancel)

lemma unat_next_txID:
  assumes "m = 0xFF \<or> m = 0xFFFF"
  shows "unat (fst (next_txID m n)) = unat n mod tx_modulus m mod (tx_modulus m - 1) + 1"
    and "unat (snd (next_txID m n)) mod tx_modulus m = unat (fst (next_txID m n))"
proof -
  let ?M = "tx_modulus m"
  note mc = mask_cases [OF assms]
  have uc: "unat (ucast (x AND m) :: u16) = unat x mod ?M" for x :: u32
  proof -
    have "unat x mod ?M < 65536" using mc(2,3) mod_less_divisor [of ?M "unat x"] by linarith
    then show ?thesis using mc(1) [of x] by (simp add: unsigned_ucast_eq take_bit_eq_mod)
  qed
  have step: "unat (n + 1) mod ?M = (unat n mod ?M + 1) mod ?M"
    using unat_inc_mod [OF mc(4)] by (simp add: mod_simps)
  have step2: "unat (n + 2) mod ?M = (unat n mod ?M + 2) mod ?M"
    using unat_inc_mod [OF mc(4), of "n + 1"] unat_inc_mod [OF mc(4), of n]
    by (metis (no_types, opaque_lifting) add.assoc mod_add_left_eq nat_1_add_1 one_add_one)
  have lt: "unat n mod ?M < ?M" using mc(2) by simp
  have zero: "(ucast ((n + 1) AND m) :: u16) = 0 \<longleftrightarrow> unat n mod ?M = ?M - 1"
    using uc [of "n + 1"] step lt mc(2)
    by (auto simp: word_unat_eq_iff mod_Suc split: if_splits)
  show "unat (fst (next_txID m n)) = unat n mod ?M mod (?M - 1) + 1"
  proof (cases "unat n mod ?M = ?M - 1")
    case True
    then have "fst (next_txID m n) = ucast ((n + 2) AND m)"
      using zero by (simp add: next_txID_def Let_def add.assoc)
    then show ?thesis using True uc step2 lt mc(2) by (simp add: mod_Suc)
  next
    case False
    then have "fst (next_txID m n) = ucast ((n + 1) AND m)"
      using zero by (simp add: next_txID_def Let_def)
    moreover have "unat n mod ?M < ?M - 1" using False lt by linarith
    then have "(unat n mod ?M + 1) mod ?M = unat n mod ?M + 1"
      and "unat n mod ?M mod (?M - 1) = unat n mod ?M" by simp_all
    ultimately show ?thesis using uc step by simp
  qed
  show "unat (snd (next_txID m n)) mod ?M = unat (fst (next_txID m n))"
    using uc by (auto simp: next_txID_def Let_def)
qed

lemma txID_sequence_closed:
  assumes "m = 0xFF \<or> m = 0xFFFF" and "i < k"
  shows "unat (txID_sequence m n k ! i) = (unat n mod tx_modulus m + i) mod (tx_modulus m - 1) + 1"
  using assms(2)
proof (induction k arbitrary: n i)
  case (Suc k)
  let ?M = "tx_modulus m"
  obtain tx n' where nx: "next_txID m n = (tx, n')" by (cases "next_txID m n")
  note u = unat_next_txID [OF assms(1), of n, unfolded nx fst_conv snd_conv]
  show ?case
  proof (cases i)
    case 0
    then show ?thesis using u(1) nx by simp
  next
    case (Suc j)
    then have "unat (txID_sequence m n (Suc k) ! i) = (unat n' mod ?M + j) mod (?M - 1) + 1"
      using Suc.IH [of j n'] Suc.prems nx by simp
    also have "\<dots> = (unat n mod ?M + i) mod (?M - 1) + 1"
      using u Suc mod_add_left_eq [of "unat n mod ?M" "?M - 1" "Suc j"] by simp
    finally show ?thesis .
  qed
qed simp

lemma length_txID_sequence [simp]: "length (txID_sequence m n k) = k"
  by (induction k arbitrary: n) (auto simp: case_prod_beta Let_def)

lemma add_mod_inj:
  fixes a i j M :: nat
  assumes "(a + i) mod M = (a + j) mod M" "i < M" "j < M"
  shows "i = j"
proof -
  obtain q1 q2 where "a + i + M * q1 = a + j + M * q2"
    using assms(1) by (metis nat_mod_eq_iff)
  then have "(i + M * q1) mod M = (j + M * q2) mod M" by simp
  with assms(2,3) show ?thesis by simp
qed

lemma txID_sequence_distinct:
  assumes "m = 0xFF \<or> m = 0xFFFF" and "k < tx_modulus m"
  shows "distinct (txID_sequence m n k)" and "0 \<notin> set (txID_sequence m n k)"
proof -
  have "i = j" if "i < k" "j < k" "txID_sequence m n k ! i = txID_sequence m n k ! j" for i j
    using that assms txID_sequence_closed [OF assms(1), of _ k n]
      add_mod_inj [of "unat n mod tx_modulus m" i "tx_modulus m - 1" j]
    by (auto simp: word_unat_eq_iff)
  then show "distinct (txID_sequence m n k)" by (auto simp: distinct_conv_nth)
  show "0 \<notin> set (txID_sequence m n k)"
    using txID_sequence_closed [OF assms(1), of _ k n] by (force simp: in_set_conv_nth)
qed

section \<open>Transaction keys\<close>

lemma transaction_key_inject [simp]:
  "transaction_key s t = transaction_key s' t' \<longleftrightarrow> s = s' \<and> t = t'"
proof
  assume eq: "transaction_key s t = transaction_key s' t'"
  have lo: "(ucast (transaction_key s t) :: u16) = t" for s t
    unfolding transaction_key_def by (rule bit_word_eqI) (auto simp: bit_simps)
  have hi: "(ucast (drop_bit 16 (transaction_key s t)) :: u16) = s" for s t
    unfolding transaction_key_def
    by (rule bit_word_eqI) (auto simp: bit_simps dest: bit_imp_le_length)
  show "s = s' \<and> t = t'" using eq lo hi by metis
qed simp

section \<open>The memory of abandoned transactions\<close>

definition recents_wf :: "(u32 \<times> recentTransaction) list \<Rightarrow> bool" where
  "recents_wf rs \<longleftrightarrow> distinct (map fst rs) \<and> length rs \<le> maxRecentTransactions"

lemma oldest_recent_Some:
  "\<exists>k' t'. oldest_recent k (Some t) rs = (k', Some t') \<and> t' \<le> t \<and>
     (\<forall>(x, r) \<in> set rs. t' \<le> rt_completedAt r) \<and>
     (k' = k \<and> t' = t \<or> (\<exists>r. (k', r) \<in> set rs \<and> rt_completedAt r = t'))"
proof (induction rs arbitrary: k t)
  case (Cons x rs)
  obtain kx r where x: "x = (kx, r)" by (cases x)
  show ?case
  proof (cases "rt_completedAt r < t")
    case True
    then show ?thesis using Cons.IH [of kx "rt_completedAt r"] x by fastforce
  next
    case False
    then show ?thesis using Cons.IH [of k t] x by fastforce
  qed
qed simp

lemma oldest_recent_minimal:
  assumes "rs \<noteq> []"
  shows "\<exists>r. (fst (oldest_recent 0 None rs), r) \<in> set rs \<and>
    (\<forall>(x, r') \<in> set rs. rt_completedAt r \<le> rt_completedAt r')"
proof -
  obtain k r rs' where rs: "rs = (k, r) # rs'" using assms by (cases rs) auto
  show ?thesis using oldest_recent_Some [of k "rt_completedAt r" rs'] by (fastforce simp: rs)
qed

lemma prune_wf: "recents_wf rs \<Longrightarrow> recents_wf (pruneRecentTransactionsLocked now rs)"
  using length_filter_le [of "\<lambda>(_, r). \<not> now - rt_completedAt r > recentTransactionTTL" rs]
  by (auto simp: recents_wf_def pruneRecentTransactionsLocked_def distinct_map_filter
      simp del: length_filter_le)

text \<open>The list \<open>rememberRecentTransactionLocked\<close> inserts into: room for one more.\<close>

definition recents_with_room ::
    "int \<Rightarrow> (u32 \<times> recentTransaction) list \<Rightarrow> (u32 \<times> recentTransaction) list" where
  "recents_with_room now rs =
     (let rs1 = pruneRecentTransactionsLocked now rs in
      if length rs1 \<ge> maxRecentTransactions
      then AList.delete (fst (oldest_recent 0 None rs1)) rs1 else rs1)"

lemma recents_with_room_wf:
  assumes "recents_wf rs"
  shows "distinct (map fst (recents_with_room now rs))"
    and "length (recents_with_room now rs) < maxRecentTransactions"
proof -
  let ?p = "pruneRecentTransactionsLocked now rs"
  have p: "recents_wf ?p" using assms by (rule prune_wf)
  show "distinct (map fst (recents_with_room now rs))"
    using p by (auto simp: recents_with_room_def recents_wf_def Let_def distinct_delete)
  show "length (recents_with_room now rs) < maxRecentTransactions"
  proof (cases "length ?p \<ge> maxRecentTransactions")
    case True
    then have "?p \<noteq> []" by (auto simp: maxRecentTransactions_def)
    then have "fst (oldest_recent 0 None ?p) \<in> fst ` set ?p"
      using oldest_recent_minimal [of ?p] by force
    with True p show ?thesis using length_delete_less
      by (fastforce simp: recents_with_room_def recents_wf_def Let_def)
  next
    case False
    then show ?thesis by (simp add: recents_with_room_def)
  qed
qed

lemma remember_eq:
  "c_recentTransactions (rememberRecentTransactionLocked now key entry cause c) =
     AList.update key
       \<lparr>rt_service = te_service entry, rt_msgID = te_msgID entry, rt_txID = te_txID entry,
        rt_start = te_start entry, rt_deadline = te_deadline entry, rt_completedAt = now,
        rt_err = err_text cause\<rparr>
       (recents_with_room now (c_recentTransactions c))"
  by (simp add: rememberRecentTransactionLocked_def recents_with_room_def Let_def)

lemma remember_wf:
  assumes "recents_wf (c_recentTransactions c)"
  shows "recents_wf (c_recentTransactions (rememberRecentTransactionLocked now key entry cause c))"
proof -
  have "length (AList.update key r (recents_with_room now (c_recentTransactions c)))
      \<le> maxRecentTransactions" for r
    using recents_with_room_wf(2) [OF assms, of now] length_update_le
    by (meson Suc_leI le_trans)
  then show ?thesis
    using recents_with_room_wf(1) [OF assms, of now]
    by (simp add: recents_wf_def remember_eq distinct_update)
qed

lemma complete_recents_wf:
  "recents_wf (c_recentTransactions c) \<Longrightarrow>
     recents_wf (c_recentTransactions (completeTransaction now key entry cause c))"
  by (auto simp: completeTransaction_def Let_def intro!: remember_wf split: option.splits)

lemma delete_recents_wf: "recents_wf rs \<Longrightarrow> recents_wf (AList.delete k rs)"
  using length_delete_le [of k rs] by (auto simp: recents_wf_def distinct_delete)

lemma take_recents_wf:
  "recents_wf (c_recentTransactions c) \<Longrightarrow>
     recents_wf (c_recentTransactions (snd (takeRecentTransaction now key service msgID c)))"
  by (auto simp: takeRecentTransaction_def Let_def intro!: delete_recents_wf split: option.splits)

text \<open>An abandoned transaction is recognised once.\<close>

lemma remember_then_take:
  assumes "now' - now \<le> recentTransactionTTL"
  shows "fst (takeRecentTransaction now' key (te_service entry) (te_msgID entry)
      (rememberRecentTransactionLocked now key entry cause c)) \<noteq> None"
  using assms by (simp add: takeRecentTransaction_def remember_eq update_conv' Let_def)

lemma take_twice:
  assumes "takeRecentTransaction now key service msgID c = (Some r, c')"
  shows "fst (takeRecentTransaction now' key service' msgID' c') = None"
  using assms
  by (auto simp: takeRecentTransaction_def Let_def delete_conv' split: option.splits if_splits)

section \<open>Properties of the transaction bookkeeping\<close>

fun allocate_run :: "u16 list \<Rightarrow> Client \<Rightarrow> (u16 \<times> u16) list" where
  "allocate_run [] c = []"
| "allocate_run (service # services) c =
     (let (tx, c') = allocate_txID service c in (service, tx) # allocate_run services c')"

abbreviation is_ctl :: "u16 \<times> u16 \<Rightarrow> bool" where
  "is_ctl st \<equiv> fst st = ServiceControl"

lemma allocate_run_ids:
  "map snd (filter is_ctl (allocate_run ss c)) =
     txID_sequence 0xFF (c_ctlTxID c) (length (filter (\<lambda>s. s = ServiceControl) ss))"
  "map snd (filter (\<lambda>x. \<not> is_ctl x) (allocate_run ss c)) =
     txID_sequence 0xFFFF (c_lastTxID c) (length (filter (\<lambda>s. s \<noteq> ServiceControl) ss))"
  by (induction ss arbitrary: c) (auto simp: allocate_txID_def Let_def split: prod.splits)

lemma distinct_by_parts:
  assumes "distinct (map snd (filter P xs))" and "distinct (map snd (filter (\<lambda>x. \<not> P x) xs))"
    and "\<And>x y. x \<in> set xs \<Longrightarrow> y \<in> set xs \<Longrightarrow> f x = f y \<Longrightarrow> P x = P y \<and> snd x = snd y"
  shows "distinct (map f xs)"
  using assms
proof (induction xs)
  case (Cons x xs)
  have "f x \<notin> f ` set xs"
  proof
    assume "f x \<in> f ` set xs"
    then obtain y where y: "y \<in> set xs" "f x = f y" by auto
    then have "P x = P y" "snd x = snd y" using Cons.prems(3) [of x y] by auto
    moreover have "snd y \<in> snd ` set (filter P xs)" if "P y" using that y(1) by auto
    moreover have "snd y \<in> snd ` set (filter (\<lambda>x. \<not> P x) xs)" if "\<not> P y" using that y(1) by auto
    ultimately show False using Cons.prems(1,2) by (cases "P x") simp_all
  qed
  moreover have "distinct (map f xs)"
  proof (rule Cons.IH)
    show "distinct (map snd (filter P xs))" "distinct (map snd (filter (\<lambda>x. \<not> P x) xs))"
      using Cons.prems(1,2) by (auto split: if_splits)
  qed (use Cons.prems(3) in auto)
  ultimately show ?case by simp
qed simp

text \<open>C20: 
  requests in flight have different keys.  Among any consecutive requests of which at most
  255 go to the control service and at most 65535 to the others, starting from any counter
  values, no two get the same transaction key, and none gets identifier zero.
\<close>

theorem transaction_keys_distinct:
  assumes "length (filter (\<lambda>s. s = ServiceControl) services) \<le> 255"
    and "length (filter (\<lambda>s. s \<noteq> ServiceControl) services) \<le> 65535"
  shows "distinct (map (\<lambda>(s, t). transaction_key s t) (allocate_run services c)) \<and>
    0 \<notin> set (map snd (allocate_run services c))"
proof -
  let ?xs = "allocate_run services c"
  have m: "tx_modulus 0xFF = 256" "tx_modulus 0xFFFF = 65536" by (simp_all add: tx_modulus_def)
  have d: "distinct (map snd (filter is_ctl ?xs))" "distinct (map snd (filter (\<lambda>x. \<not> is_ctl x) ?xs))"
    and z: "0 \<notin> snd ` set (filter is_ctl ?xs)" "0 \<notin> snd ` set (filter (\<lambda>x. \<not> is_ctl x) ?xs)"
    unfolding set_map [symmetric] allocate_run_ids
    using assms
      txID_sequence_distinct [of 255 "length (filter (\<lambda>s. s = ServiceControl) services)" "c_ctlTxID c"]
      txID_sequence_distinct [of 65535 "length (filter (\<lambda>s. s \<noteq> ServiceControl) services)" "c_lastTxID c"]
    by (simp_all add: m)
  have "distinct (map (\<lambda>(s, t). transaction_key s t) ?xs)"
    by (rule distinct_by_parts [OF d]) auto
  moreover have "0 \<notin> snd ` set ?xs" using z by (auto simp: image_iff)
  ultimately show ?thesis by simp
qed

theorem transaction_keys_distinct_witness:
  "distinct (map (\<lambda>(s, t). transaction_key s t)
     (allocate_run [ServiceControl, ServiceDMS, ServiceControl, ServiceNAS]
        ((newClient 1)\<lparr>c_ctlTxID := 0xFFFFFFFE, c_lastTxID := 0xFFFF\<rparr>)))"
  using transaction_keys_distinct [of "[ServiceControl, ServiceDMS, ServiceControl, ServiceNAS]"
      "(newClient 1)\<lparr>c_ctlTxID := 0xFFFFFFFE, c_lastTxID := 0xFFFF\<rparr>"]
  by simp

text \<open>
  an abandoned request is recognised exactly once.  A request whose context is done is
  remembered; a response with its key, service and message within two minutes is recognised as
  late and counted, but not handed to the indications, and a second such response is not
  recognised again.
\<close>

theorem late_response_recognised_once:
  assumes "isContextDone err" and "t1 - t0 \<le> recentTransactionTTL"
    and "c1 = completeTransaction t0 (packet_key p) entry (Some err) c"
    and "pkt_ServiceType p = te_service entry" and "pkt_MessageID p = te_msgID entry"
    and "te_service entry \<noteq> ServiceControl" and "\<not> pkt_IsIndication p"
  shows "\<exists>c2. handlePacket sel t1 p c1 = Some c2 \<and>
    c_unmatchedResponses c2 = c_unmatchedResponses c1 + 1 \<and> c_ind c2 = c_ind c1 \<and>
    fst (takeRecentTransaction t2 (packet_key p) (pkt_ServiceType p) (pkt_MessageID p) c2) = None"
proof -
  let ?k = "packet_key p"
  let ?cd = "c\<lparr>c_transactions := AList.delete ?k (c_transactions c)\<rparr>"
  have c1: "c1 = rememberRecentTransactionLocked t0 ?k entry err ?cd"
    using assms(1,3) by (simp add: completeTransaction_def)
  have none: "matching_entry p c1 = None"
    by (simp add: c1 matching_entry_def rememberRecentTransactionLocked_def Let_def delete_conv')
  let ?c1' = "c1\<lparr>c_unmatchedResponses := c_unmatchedResponses c1 + 1\<rparr>"
  have "fst (takeRecentTransaction t1 ?k (pkt_ServiceType p) (pkt_MessageID p) c1) \<noteq> None"
    unfolding c1 assms(4,5) using assms(2) by (rule remember_then_take)
  then obtain r cc where take1: "takeRecentTransaction t1 ?k (pkt_ServiceType p) (pkt_MessageID p)
      ?c1' = (Some r, cc)"
    by (auto simp: takeRecentTransaction_def Let_def split: option.splits if_splits)
  have hp: "handlePacket sel t1 p c1 = Some (snd (logLateResponse t1 cc))"
    using none take1 assms(4,6,7) by (simp add: handlePacket_def handle_unmatched_def)
  have cc: "c_unmatchedResponses cc = c_unmatchedResponses c1 + 1" "c_ind cc = c_ind c1"
    using take1 by (auto simp: takeRecentTransaction_def Let_def split: option.splits if_splits)
  have "c_recentTransactions (snd (logLateResponse t1 cc)) = c_recentTransactions cc"
    and "c_unmatchedResponses (snd (logLateResponse t1 cc)) = c_unmatchedResponses cc"
    and "c_ind (snd (logLateResponse t1 cc)) = c_ind cc"
    by (simp_all add: logLateResponse_def split: option.splits)
  moreover from take_twice [OF take1, of t2 "pkt_ServiceType p" "pkt_MessageID p"] this(1)
  have "fst (takeRecentTransaction t2 ?k (pkt_ServiceType p) (pkt_MessageID p)
      (snd (logLateResponse t1 cc))) = None"
    by (auto simp: takeRecentTransaction_def Let_def split: option.splits)
  ultimately show ?thesis using hp cc by simp
qed

theorem late_response_recognised_once_witness:
  "\<exists>c1 c2. handlePacket SendCase 5
      \<lparr>pkt_ServiceType = ServiceDMS, pkt_ClientID = 1, pkt_TransactionID = 9, pkt_MessageID = 0x25,
       pkt_IsIndication = False, pkt_TLVs = []\<rparr> c1 = Some c2 \<and>
     c_unmatchedResponses c2 = c_unmatchedResponses c1 + 1 \<and> c_ind c2 = c_ind c1"
  using late_response_recognised_once [of ErrDeadlineExceeded 5 2 _
      "\<lparr>pkt_ServiceType = ServiceDMS, pkt_ClientID = 1, pkt_TransactionID = 9, pkt_MessageID = 0x25,
        pkt_IsIndication = False, pkt_TLVs = []\<rparr>"
      "\<lparr>te_ch = 0, te_service = ServiceDMS, te_msgID = 0x25, te_txID = 9, te_start = 1, te_deadline = 2\<rparr>"
      "newClient 1" SendCase 6, OF _ _ refl]
  by (auto simp: recentTransactionTTL_def)

end
