(* ===== verification/ClientSteps.thy ===== *)
theory ClientSteps
  imports ClientCore
begin

text \<open>
  The goroutines that share a \<^verbatim>\<open>Client\<close> (\<^verbatim>\<open>pkg/qmi/client.go\<close>): any number of callers in \<^verbatim>\<open>SendRequest\<close>,
  the reader in \<^verbatim>\<open>readLoop\<close>, and \<^verbatim>\<open>Close\<close>.  A step is one critical section of \<^verbatim>\<open>c.mu\<close> or one channel
  operation; the reader looks an entry up in one step and sends to its channel in a later one, because
  the source releases the lock in between.  A caller's three waits in \<^verbatim>\<open>SendRequest\<close> may end in any
  error (\<open>abandon\<close>), in a packet, or in a closed channel; its deferred \<^verbatim>\<open>completeTransaction\<close> is a
  separate step.  \<^verbatim>\<open>Close\<close> waits for the reader (\<^verbatim>\<open>c.wg.Wait\<close>) before it fails what is pending.
\<close>

section \<open>The steps\<close>

datatype reader_pc = RIdle | RHolds transactionEntry Packet | RDone

datatype req_pc =
    ReqNone
  | ReqWaiting transactionEntry
  | ReqReturning transactionEntry "go_error + Packet"
  | ReqDone transactionEntry "go_error + Packet"

datatype close_pc = Running | Closing | Closed

record client_sys =
  cs_c :: Client
  cs_reader :: reader_pc
  cs_reqs :: "nat \<Rightarrow> req_pc"
  cs_close :: close_pc

definition init_client_sys :: "nat \<Rightarrow> client_sys" where
  "init_client_sys n =
     \<lparr>cs_c = newClient n, cs_reader = RIdle, cs_reqs = (\<lambda>_. ReqNone), cs_close = Running\<rparr>"

definition entry_key :: "transactionEntry \<Rightarrow> u32" where
  "entry_key e = transaction_key (te_service e) (te_txID e)"

fun outcome_error :: "go_error + Packet \<Rightarrow> go_error option" where
  "outcome_error (Inl e) = Some e"
| "outcome_error (Inr _) = None"

inductive client_step :: "client_sys \<Rightarrow> client_sys \<Rightarrow> bool" where
  begin_request:
    "register_transaction now deadline service msgID (cs_c s) = (key, e, c') \<Longrightarrow>
     client_step s (s\<lparr>cs_c := c', cs_reqs := (cs_reqs s)(te_ch e := ReqWaiting e)\<rparr>)"
| reader_match:
    "\<lbrakk>cs_reader s = RIdle; matching_entry p (cs_c s) = Some e\<rbrakk> \<Longrightarrow>
     client_step s (s\<lparr>cs_reader := RHolds e p\<rparr>)"
| reader_send:
    "cs_reader s = RHolds e p \<Longrightarrow>
     client_step s (s\<lparr>cs_c := chan_send (te_ch e) p (cs_c s), cs_reader := RIdle\<rparr>)"
| reader_unmatched:
    "\<lbrakk>cs_reader s = RIdle; matching_entry p (cs_c s) = None;
      handle_unmatched sel now p (cs_c s) = Some c'\<rbrakk> \<Longrightarrow>
     client_step s (s\<lparr>cs_c := c'\<rparr>)"
| reader_parse_error:
    "\<lbrakk>cs_reader s = RIdle; UnmarshalPacket frame = Inl err;
      handleFrame sel now frame (cs_c s) = Some c'\<rbrakk> \<Longrightarrow>
     client_step s (s\<lparr>cs_c := c'\<rparr>)"
| reader_fail:
    "cs_reader s = RIdle \<Longrightarrow>
     client_step s (s\<lparr>cs_c := failPendingTransactions (cs_c s), cs_reader := RDone\<rparr>)"
| receive:
    "\<lbrakk>cs_reqs s a = ReqWaiting e; rc_buf (c_chans (cs_c s) (te_ch e)) = Some p\<rbrakk> \<Longrightarrow>
     client_step s
       (s\<lparr>cs_c := (cs_c s)\<lparr>c_chans := (c_chans (cs_c s))
            (te_ch e := (c_chans (cs_c s) (te_ch e))\<lparr>rc_buf := None\<rparr>)\<rparr>,
          cs_reqs := (cs_reqs s)(a := ReqReturning e (Inr p))\<rparr>)"
| receive_closed:
    "\<lbrakk>cs_reqs s a = ReqWaiting e; rc_buf (c_chans (cs_c s) (te_ch e)) = None;
      rc_closed (c_chans (cs_c s) (te_ch e))\<rbrakk> \<Longrightarrow>
     client_step s
       (s\<lparr>cs_reqs := (cs_reqs s)(a := ReqReturning e (Inl (ErrText ''connection closed'')))\<rparr>)"
| abandon:
    "cs_reqs s a = ReqWaiting e \<Longrightarrow>
     client_step s (s\<lparr>cs_reqs := (cs_reqs s)(a := ReqReturning e (Inl err))\<rparr>)"
| complete_request:
    "cs_reqs s a = ReqReturning e r \<Longrightarrow>
     client_step s
       (s\<lparr>cs_c := completeTransaction now (entry_key e) e (outcome_error r) (cs_c s),
          cs_reqs := (cs_reqs s)(a := ReqDone e r)\<rparr>)"
| client_ids:
    "client_step s (s\<lparr>cs_c := (cs_c s)\<lparr>c_clientIDs := m\<rparr>\<rparr>)"
| indications:
    "client_step s (s\<lparr>cs_c := (cs_c s)\<lparr>c_ind := q\<rparr>\<rparr>)"
| close_begin:
    "cs_close s = Running \<Longrightarrow> client_step s (s\<lparr>cs_close := Closing\<rparr>)"
| reader_exit:
    "\<lbrakk>cs_reader s = RIdle; cs_close s \<noteq> Running\<rbrakk> \<Longrightarrow> client_step s (s\<lparr>cs_reader := RDone\<rparr>)"
| close_finish:
    "\<lbrakk>cs_close s = Closing; cs_reader s = RDone\<rbrakk> \<Longrightarrow>
     client_step s (s\<lparr>cs_c := failPendingTransactions (cs_c s), cs_close := Closed\<rparr>)"

section \<open>The invariant\<close>

text \<open>What makes a packet the response to a request.\<close>

definition answers :: "transactionEntry \<Rightarrow> Packet \<Rightarrow> bool" where
  "answers e p \<longleftrightarrow> \<not> pkt_IsIndication p \<and> pkt_ServiceType p = te_service e \<and>
     pkt_TransactionID p = te_txID e"

fun req_entry :: "req_pc \<Rightarrow> transactionEntry option" where
  "req_entry ReqNone = None"
| "req_entry (ReqWaiting e) = Some e"
| "req_entry (ReqReturning e _) = Some e"
| "req_entry (ReqDone e _) = Some e"

fun req_outcome_ok :: "req_pc \<Rightarrow> bool" where
  "req_outcome_ok (ReqReturning e (Inr p)) = answers e p"
| "req_outcome_ok (ReqDone e (Inr p)) = answers e p"
| "req_outcome_ok _ = True"

text \<open>The part on the transaction table and its channels.\<close>

definition table_ok :: "Client \<Rightarrow> bool" where
  "table_ok c \<longleftrightarrow>
     distinct (map fst (c_transactions c)) \<and>
     distinct (map (te_ch \<circ> snd) (c_transactions c)) \<and>
     (\<forall>(k, e) \<in> set (c_transactions c).
        k = entry_key e \<and> te_ch e < c_nextChan c \<and> \<not> rc_closed (c_chans c (te_ch e))) \<and>
     recents_wf (c_recentTransactions c) \<and> \<not> c_panicked c"

text \<open>The whole invariant, over the client, the reader and the requests.\<close>

definition core_inv :: "Client \<Rightarrow> reader_pc \<Rightarrow> (nat \<Rightarrow> req_pc) \<Rightarrow> bool" where
  "core_inv c r R \<longleftrightarrow>
     table_ok c \<and>
     (\<forall>k e. (k, e) \<in> set (c_transactions c) \<longrightarrow> req_entry (R (te_ch e)) = Some e) \<and>
     (\<forall>e p. r = RHolds e p \<longrightarrow>
        answers e p \<and> \<not> rc_closed (c_chans c (te_ch e)) \<and> req_entry (R (te_ch e)) = Some e) \<and>
     (\<forall>a e. req_entry (R a) = Some e \<longrightarrow> te_ch e = a \<and> a < c_nextChan c) \<and>
     (\<forall>a e p. req_entry (R a) = Some e \<longrightarrow> rc_buf (c_chans c a) = Some p \<longrightarrow> answers e p) \<and>
     (\<forall>a. req_outcome_ok (R a))"

abbreviation client_inv :: "client_sys \<Rightarrow> bool" where
  "client_inv s \<equiv> core_inv (cs_c s) (cs_reader s) (cs_reqs s)"

lemma core_invD:
  assumes "core_inv c r R"
  shows "table_ok c"
    and "\<And>k e. (k, e) \<in> set (c_transactions c) \<Longrightarrow> req_entry (R (te_ch e)) = Some e"
    and "\<And>e p. r = RHolds e p \<Longrightarrow> answers e p \<and>
      \<not> rc_closed (c_chans c (te_ch e)) \<and> req_entry (R (te_ch e)) = Some e"
    and "\<And>a e. req_entry (R a) = Some e \<Longrightarrow> te_ch e = a \<and> a < c_nextChan c"
    and "\<And>a e p. req_entry (R a) = Some e \<Longrightarrow> rc_buf (c_chans c a) = Some p \<Longrightarrow> answers e p"
    and "\<And>a. req_outcome_ok (R a)"
  using assms by (simp_all add: core_inv_def)

lemma core_invI:
  assumes "table_ok c"
    and "\<And>k e. (k, e) \<in> set (c_transactions c) \<Longrightarrow> req_entry (R (te_ch e)) = Some e"
    and "\<And>e p. r = RHolds e p \<Longrightarrow> answers e p \<and>
      \<not> rc_closed (c_chans c (te_ch e)) \<and> req_entry (R (te_ch e)) = Some e"
    and "\<And>a e. req_entry (R a) = Some e \<Longrightarrow> te_ch e = a \<and> a < c_nextChan c"
    and "\<And>a e p. req_entry (R a) = Some e \<Longrightarrow> rc_buf (c_chans c a) = Some p \<Longrightarrow> answers e p"
    and "\<And>a. req_outcome_ok (R a)"
  shows "core_inv c r R"
  using assms by (simp add: core_inv_def)

lemma table_ok_map_of:
  "table_ok c \<Longrightarrow> map_of (c_transactions c) k = Some e \<longleftrightarrow> (k, e) \<in> set (c_transactions c)"
  by (simp add: table_ok_def)

lemma matching_entry_answers:
  assumes "table_ok c" and "matching_entry p c = Some e"
  shows "answers e p" and "(entry_key e, e) \<in> set (c_transactions c)"
proof -
  have m: "(packet_key p, e) \<in> set (c_transactions c)" and "\<not> pkt_IsIndication p"
    using assms table_ok_map_of [OF assms(1)] by (auto simp: matching_entry_def split: if_splits)
  moreover from m assms(1) have k: "packet_key p = entry_key e" by (auto simp: table_ok_def)
  ultimately show "answers e p" "(entry_key e, e) \<in> set (c_transactions c)"
    by (auto simp: answers_def packet_key_def entry_key_def)
qed

subsection \<open>What the operations leave alone\<close>

definition same_core :: "Client \<Rightarrow> Client \<Rightarrow> bool" where
  "same_core c c' \<longleftrightarrow> c_transactions c' = c_transactions c \<and> c_chans c' = c_chans c \<and>
     c_nextChan c' = c_nextChan c \<and> c_panicked c' = c_panicked c \<and>
     (recents_wf (c_recentTransactions c) \<longrightarrow> recents_wf (c_recentTransactions c'))"

lemma same_core_refl [simp, intro]: "same_core c c"
  by (simp add: same_core_def)

lemma same_core_trans [trans]: "same_core a b \<Longrightarrow> same_core b c \<Longrightarrow> same_core a c"
  by (simp add: same_core_def)

lemma take_same_core:
  "takeRecentTransaction now key service msgID c = (r, c') \<Longrightarrow> same_core c c'"
  using take_recents_wf [of c now key service msgID]
  by (auto simp: same_core_def takeRecentTransaction_def Let_def split: option.splits if_splits)

lemma log_same_core: "same_core c (snd (logLateResponse now c))"
  by (auto simp: same_core_def logLateResponse_def split: option.splits)

lemma revoke_same_core: "same_core c (handleClientIDRevoke p c)"
  by (auto simp: same_core_def handleClientIDRevoke_def split: option.splits)

lemma dispatch_same_core: "dispatchIndication sel p c = Some c' \<Longrightarrow> same_core c c'"
  using revoke_same_core [of c p]
  by (auto simp: dispatchIndication_def Let_def same_core_def split: if_splits)

lemma unmatched_same_core:
  assumes "handle_unmatched sel now p c = Some c'" shows "same_core c c'"
proof (cases "\<not> pkt_IsIndication p \<and> pkt_ServiceType p \<noteq> ServiceControl")
  case True
  let ?c1 = "c\<lparr>c_unmatchedResponses := c_unmatchedResponses c + 1\<rparr>"
  obtain r c2 where t: "takeRecentTransaction now (packet_key p) (pkt_ServiceType p)
      (pkt_MessageID p) ?c1 = (r, c2)" by fastforce
  have "same_core c ?c1" by (simp add: same_core_def)
  also have "same_core ?c1 c2" using t by (rule take_same_core)
  also have "same_core c2 c'"
    using assms True t log_same_core dispatch_same_core
    by (auto simp: handle_unmatched_def split: option.splits)
  finally show ?thesis .
qed (use assms in \<open>auto simp: handle_unmatched_def intro: dispatch_same_core\<close>)

lemma same_core_inv: "core_inv c r R \<Longrightarrow> same_core c c' \<Longrightarrow> core_inv c' r R"
  by (simp add: core_inv_def table_ok_def same_core_def)

lemma remember_core:
  "c_transactions (rememberRecentTransactionLocked now k e cause c) = c_transactions c"
  "c_chans (rememberRecentTransactionLocked now k e cause c) = c_chans c"
  "c_nextChan (rememberRecentTransactionLocked now k e cause c) = c_nextChan c"
  "c_panicked (rememberRecentTransactionLocked now k e cause c) = c_panicked c"
  by (simp_all add: rememberRecentTransactionLocked_def Let_def)

lemma complete_core:
  "c_transactions (completeTransaction now k e cause c) = AList.delete k (c_transactions c)"
  "c_chans (completeTransaction now k e cause c) = c_chans c"
  "c_nextChan (completeTransaction now k e cause c) = c_nextChan c"
  "c_panicked (completeTransaction now k e cause c) = c_panicked c"
  by (simp_all add: completeTransaction_def Let_def remember_core split: option.splits)

lemma allocate_txID_core:
  assumes "allocate_txID service c = (tx, c')"
  shows "same_core c c'"
  using assms by (auto simp: same_core_def allocate_txID_def Let_def split: if_splits prod.splits)

subsection \<open>Failing every pending request\<close>

lemma fold_chan_close:
  assumes "distinct as" and "\<forall>a \<in> set as. \<not> rc_closed (c_chans c a)"
  shows "fold chan_close as c =
    c\<lparr>c_chans := (\<lambda>a. if a \<in> set as then (c_chans c a)\<lparr>rc_closed := True\<rparr> else c_chans c a)\<rparr>"
  using assms
proof (induction as arbitrary: c)
  case (Cons a as)
  let ?c1 = "c\<lparr>c_chans := (c_chans c)(a := (c_chans c a)\<lparr>rc_closed := True\<rparr>)\<rparr>"
  have "fold chan_close as ?c1 = ?c1\<lparr>c_chans :=
      (\<lambda>b. if b \<in> set as then (c_chans ?c1 b)\<lparr>rc_closed := True\<rparr> else c_chans ?c1 b)\<rparr>"
    using Cons.prems by (intro Cons.IH) auto
  moreover have "chan_close a c = ?c1" using Cons.prems by (simp add: chan_close_def)
  moreover have "(\<lambda>b. if b \<in> set as then (c_chans ?c1 b)\<lparr>rc_closed := True\<rparr> else c_chans ?c1 b) =
      (\<lambda>b. if b \<in> set (a # as) then (c_chans c b)\<lparr>rc_closed := True\<rparr> else c_chans c b)"
    using Cons.prems by auto
  ultimately show ?case by (simp only: fold_simps o_apply) simp
qed simp

lemma failPending_eq:
  assumes "table_ok c"
  shows "failPendingTransactions c = c\<lparr>c_transactions := [], c_chans :=
    (\<lambda>a. if \<exists>(k, e) \<in> set (c_transactions c). te_ch e = a
         then (c_chans c a)\<lparr>rc_closed := True\<rparr> else c_chans c a)\<rparr>"
proof -
  let ?as = "map (te_ch \<circ> snd) (c_transactions c)"
  have "failPendingTransactions c = fold chan_close ?as (c\<lparr>c_transactions := []\<rparr>)"
    by (simp add: failPendingTransactions_def fold_map comp_def case_prod_unfold)
  also have "\<dots> = c\<lparr>c_transactions := [], c_chans :=
      (\<lambda>a. if a \<in> set ?as then (c_chans c a)\<lparr>rc_closed := True\<rparr> else c_chans c a)\<rparr>"
    using assms by (subst fold_chan_close) (auto simp: table_ok_def cong: if_cong)
  finally show ?thesis by (simp add: case_prod_unfold image_iff eq_commute)
qed

section \<open>Every step keeps the invariant\<close>

lemma inv_begin:
  assumes "core_inv c r R" and "register_transaction now deadline service msgID c = (key, e, c')"
  shows "core_inv c' r (R(te_ch e := ReqWaiting e))"
proof -
  obtain tx c1 where alloc: "allocate_txID service c = (tx, c1)" by fastforce
  have core: "same_core c c1" using alloc by (rule allocate_txID_core)
  let ?n = "c_nextChan c"
  have te: "te_ch e = ?n" and key: "key = entry_key e"
    and c': "c' = c1\<lparr>c_nextChan := ?n + 1,
        c_chans := (c_chans c)(?n := \<lparr>rc_buf = None, rc_closed = False\<rparr>),
        c_transactions := AList.update key e (c_transactions c)\<rparr>"
    using assms(2) alloc core
    by (auto simp: register_transaction_def entry_key_def same_core_def Let_def)
  note inv = core_invD [OF assms(1)]
  have old: "te_ch e' < ?n" if "(k, e') \<in> set (c_transactions c)" for k e'
    using inv(1) that by (auto simp: table_ok_def)
  note upd = set_update_subset [of _ key e "c_transactions c"]
  have tbl: "table_ok c'"
    unfolding table_ok_def
  proof (intro conjI)
    show "distinct (map fst (c_transactions c'))"
      using inv(1) by (simp add: c' table_ok_def distinct_update)
    have "(te_ch \<circ> snd) (key, e) \<notin> (te_ch \<circ> snd) ` set (c_transactions c)"
      using old by (force simp: te)
    then show "distinct (map (te_ch \<circ> snd) (c_transactions c'))"
      using inv(1) by (simp add: c' table_ok_def distinct_map_update)
    show "\<forall>(k, e') \<in> set (c_transactions c'). k = entry_key e' \<and> te_ch e' < c_nextChan c' \<and>
        \<not> rc_closed (c_chans c' (te_ch e'))"
      using inv(1) upd old by (fastforce simp: c' te key table_ok_def)
    show "recents_wf (c_recentTransactions c')" "\<not> c_panicked c'"
      using inv(1) core by (auto simp: c' table_ok_def same_core_def)
  qed
  have chs: "te_ch e' \<noteq> ?n" if "req_entry (R a) = Some e'" for a e' using inv(4) that by fastforce
  let ?R = "R(te_ch e := ReqWaiting e)"
  have R: "req_entry (?R a) = (if a = ?n then Some e else req_entry (R a))" for a by (simp add: te)
  show ?thesis
  proof (rule core_invI, unfold R)
    show "table_ok c'" by (rule tbl)
    show "(if te_ch e' = ?n then Some e else req_entry (R (te_ch e'))) = Some e'"
      if "(k, e') \<in> set (c_transactions c')" for k e'
    proof -
      from that have "e' = e \<or> (k, e') \<in> set (c_transactions c)" by (auto simp: c' dest: upd)
      then show ?thesis using inv(2) old te by fastforce
    qed
    show "answers e' p \<and> \<not> rc_closed (c_chans c' (te_ch e')) \<and>
        (if te_ch e' = ?n then Some e else req_entry (R (te_ch e'))) = Some e'"
      if "r = RHolds e' p" for e' p
      using inv(3) [OF that] chs [of "te_ch e'" e'] by (simp add: c')
    show "te_ch e' = a \<and> a < c_nextChan c'"
      if "(if a = ?n then Some e else req_entry (R a)) = Some e'" for a e'
      using that inv(4) [of a e'] te by (auto simp: c' split: if_splits)
    show "answers e' p" if "(if a = ?n then Some e else req_entry (R a)) = Some e'"
      and "rc_buf (c_chans c' a) = Some p" for a e' p
      using that inv(5) [of a e' p] by (auto simp: c' split: if_splits)
    show "req_outcome_ok (?R a)" for a using inv(6) by simp
  qed
qed

lemma inv_match:
  assumes "core_inv c r R" and "matching_entry p c = Some e"
  shows "core_inv c (RHolds e p) R"
proof -
  note inv = core_invD [OF assms(1)]
  note m = matching_entry_answers [OF inv(1) assms(2)]
  have "\<not> rc_closed (c_chans c (te_ch e))" using inv(1) m(2) by (auto simp: table_ok_def)
  with m inv show ?thesis by (auto intro!: core_invI)
qed

lemma chan_send_core:
  assumes "\<not> rc_closed (c_chans c a)"
  shows "c_transactions (chan_send a p c) = c_transactions c"
    and "c_nextChan (chan_send a p c) = c_nextChan c" and "c_panicked (chan_send a p c) = c_panicked c"
    and "c_recentTransactions (chan_send a p c) = c_recentTransactions c"
    and "rc_closed (c_chans (chan_send a p c) b) = rc_closed (c_chans c b)"
    and "rc_buf (c_chans (chan_send a p c) b) = Some q \<Longrightarrow>
      rc_buf (c_chans c b) = Some q \<or> b = a \<and> q = p"
  using assms by (auto simp: chan_send_def split: if_splits)

lemma inv_send:
  assumes "core_inv c (RHolds e p) R"
  shows "core_inv (chan_send (te_ch e) p c) RIdle R"
proof -
  note inv = core_invD [OF assms]
  have h: "\<not> rc_closed (c_chans c (te_ch e))" "answers e p" "req_entry (R (te_ch e)) = Some e"
    using inv(3) [OF refl] by simp_all
  note core = chan_send_core [OF h(1), where p = p]
  show ?thesis
  proof (rule core_invI, unfold core(1,2,5))
    show "table_ok (chan_send (te_ch e) p c)" using inv(1) by (simp add: table_ok_def core(1-5))
    show "answers e' q" if "req_entry (R a) = Some e'"
      and "rc_buf (c_chans (chan_send (te_ch e) p c) a) = Some q" for a e' q
      using core(6) [OF that(2)] inv(5) [OF that(1)] that(1) h(2,3) by auto
  qed (use inv in auto)
qed

lemma inv_fail:
  assumes "core_inv c r R"
  shows "core_inv (failPendingTransactions c) RDone R"
proof -
  note inv = core_invD [OF assms]
  show ?thesis unfolding failPending_eq [OF inv(1)]
  proof (rule core_invI)
    show "answers e p" if "req_entry (R a) = Some e" and
      "rc_buf (c_chans (c\<lparr>c_transactions := [], c_chans :=
        (\<lambda>a. if \<exists>(k, e) \<in> set (c_transactions c). te_ch e = a
             then (c_chans c a)\<lparr>rc_closed := True\<rparr> else c_chans c a)\<rparr>) a) = Some p" for a e p
      using inv(5) [OF that(1)] that(2) by (simp split: if_splits)
  qed (use inv in \<open>auto simp: table_ok_def\<close>)
qed

lemma inv_complete:
  assumes "core_inv c r R" and "R a = ReqReturning e out"
  shows "core_inv (completeTransaction now (entry_key e) e (outcome_error out) c) r
    (R(a := ReqDone e out))"
proof -
  let ?c = "completeTransaction now (entry_key e) e (outcome_error out) c"
  note inv = core_invD [OF assms(1)]
  have ok: "req_outcome_ok (ReqDone e out)"
    using inv(6) [of a] assms(2) by (cases out) simp_all
  have tbl: "table_ok ?c"
    using inv(1) complete_recents_wf [of c]
    by (auto simp: table_ok_def complete_core distinct_map_delete distinct_delete
        dest!: set_delete_subset)
  have same: "req_entry ((R(a := ReqDone e out)) b) = req_entry (R b)" for b
    using assms(2) by simp
  show ?thesis
  proof (rule core_invI, unfold complete_core same)
    show "table_ok ?c" by (rule tbl)
    show "req_entry (R (te_ch e')) = Some e'"
      if "(k, e') \<in> set (AList.delete (entry_key e) (c_transactions c))" for k e'
      using inv(2) set_delete_subset [OF that] .
    show "req_outcome_ok ((R(a := ReqDone e out)) b)" for b using inv(6) ok by simp
  qed (use inv in auto)
qed

lemma inv_return:
  assumes "core_inv c r R" and "R a = ReqWaiting e" and "req_outcome_ok (ReqReturning e out)"
  shows "core_inv c r (R(a := ReqReturning e out))"
proof -
  note inv = core_invD [OF assms(1)]
  have same: "req_entry ((R(a := ReqReturning e out)) b) = req_entry (R b)" for b
    using assms(2) by simp
  show ?thesis
  proof (rule core_invI, unfold same)
    show "req_outcome_ok ((R(a := ReqReturning e out)) b)" for b using inv(6) assms(3) by simp
  qed (use inv in auto)
qed

lemma inv_take_buf:
  assumes "core_inv c r R"
  shows "core_inv (c\<lparr>c_chans := (c_chans c)(a := (c_chans c a)\<lparr>rc_buf := None\<rparr>)\<rparr>) r R"
proof -
  note inv = core_invD [OF assms]
  show ?thesis
  proof (rule core_invI)
    show "answers e p" if "req_entry (R b) = Some e" and "rc_buf (c_chans
        (c\<lparr>c_chans := (c_chans c)(a := (c_chans c a)\<lparr>rc_buf := None\<rparr>)\<rparr>) b) = Some p" for b e p
      using inv(5) [OF that(1)] that(2) by (simp split: if_splits)
  qed (use inv in \<open>auto simp: table_ok_def\<close>)
qed

lemma client_inv_step: "client_step s s' \<Longrightarrow> client_inv s \<Longrightarrow> client_inv s'"
proof (induction rule: client_step.induct)
  case (begin_request now deadline service msgID s key e c')
  then show ?case using inv_begin [OF begin_request(2,1)] by (simp add: fun_upd_def)
next
  case (reader_match s p e)
  then show ?case using inv_match by simp
next
  case (reader_send s e p)
  then show ?case using inv_send by simp
next
  case (reader_unmatched s p sel now c')
  then show ?case using same_core_inv unmatched_same_core by simp
next
  case (reader_parse_error s frame err sel now c')
  then have "same_core (cs_c s) c'" by (auto simp: handleFrame_def same_core_def)
  with reader_parse_error show ?case using same_core_inv by simp
next
  case (reader_fail s)
  then show ?case using inv_fail by simp
next
  case (receive s a e p)
  note inv = core_invD [OF receive(3)]
  have "answers e p" using inv(4,5) [of a e] receive(1,2) by simp
  then show ?case
    using inv_return [OF inv_take_buf [OF receive(3), of "te_ch e"] receive(1), of "Inr p"] by (simp add: fun_upd_def)
next
  case (receive_closed s a e)
  then show ?case using inv_return [OF receive_closed(4,1)] by (simp add: fun_upd_def)
next
  case (abandon s a e err)
  then show ?case using inv_return [OF abandon(2,1)] by (simp add: fun_upd_def)
next
  case (complete_request s a e r now)
  then show ?case using inv_complete [OF complete_request(2,1)] by (simp add: fun_upd_def)
next
  case (close_finish s)
  then show ?case using inv_fail by simp
next
  case (reader_exit s)
  then show ?case by (auto simp: core_inv_def)
qed (auto intro: same_core_inv simp: same_core_def)

lemma client_inv_init: "client_inv (init_client_sys n)"
  by (simp add: core_inv_def init_client_sys_def table_ok_def newClient_def recents_wf_def)

lemma client_inv_reachable: "client_step\<^sup>*\<^sup>* (init_client_sys n) s \<Longrightarrow> client_inv s"
  by (induction rule: rtranclp_induct) (auto intro: client_inv_init client_inv_step)

lemma client_step_trans [trans]:
  "client_step a b \<Longrightarrow> client_step b c \<Longrightarrow> client_step\<^sup>*\<^sup>* a c"
  "client_step\<^sup>*\<^sup>* a b \<Longrightarrow> client_step b c \<Longrightarrow> client_step\<^sup>*\<^sup>* a c"
  by (auto intro: rtranclp.rtrancl_into_rtrancl)

section \<open>Properties\<close>

text \<open>One request, its response, and a second request still waiting.\<close>

definition sample_response :: Packet where
  "sample_response = \<lparr>pkt_ServiceType = ServiceDMS, pkt_ClientID = 1, pkt_TransactionID = 1,
     pkt_MessageID = 0x25, pkt_IsIndication = False, pkt_TLVs = []\<rparr>"

definition sample_entry :: "nat \<Rightarrow> u16 \<Rightarrow> transactionEntry" where
  "sample_entry a tx = \<lparr>te_ch = a, te_service = ServiceDMS, te_msgID = 0x25, te_txID = tx,
     te_start = 0, te_deadline = 9\<rparr>"

lemma sample_client_run:
  "\<exists>s. client_step\<^sup>*\<^sup>* (init_client_sys 4) s \<and>
     cs_reqs s 0 = ReqDone (sample_entry 0 1) (Inr sample_response) \<and>
     c_transactions (cs_c s) = [(entry_key (sample_entry 1 2), sample_entry 1 2)]"
proof -
  let ?R1 = "(\<lambda>_. ReqNone)(0 := ReqWaiting (sample_entry 0 1))"
  let ?R2 = "?R1(1 := ReqWaiting (sample_entry 1 2))"
  define c1 where "c1 = (newClient 4)\<lparr>c_lastTxID := 1, c_nextChan := 1,
      c_chans := (\<lambda>_. \<lparr>rc_buf = None, rc_closed = False\<rparr>),
      c_transactions := [(entry_key (sample_entry 0 1), sample_entry 0 1)]\<rparr>"
  define c2 where "c2 = c1\<lparr>c_lastTxID := 2, c_nextChan := 2,
      c_transactions := [(entry_key (sample_entry 0 1), sample_entry 0 1),
        (entry_key (sample_entry 1 2), sample_entry 1 2)]\<rparr>"
  have reg: "register_transaction 0 9 ServiceDMS 0x25 (newClient 4) =
      (entry_key (sample_entry 0 1), sample_entry 0 1, c1)"
    "register_transaction 0 9 ServiceDMS 0x25 c1 =
      (entry_key (sample_entry 1 2), sample_entry 1 2, c2)"
    by (simp_all add: register_transaction_def allocate_txID_def next_txID_def newClient_def c1_def
        c2_def sample_entry_def entry_key_def fun_upd_def Let_def cong: if_cong)
  define s2 where "s2 = \<lparr>cs_c = c2, cs_reader = RIdle, cs_reqs = ?R2, cs_close = Running\<rparr>"
  have "client_step (init_client_sys 4)
      (init_client_sys 4\<lparr>cs_c := c1, cs_reqs := ?R1\<rparr>)"
    using begin_request [of 0 9 ServiceDMS 37 "init_client_sys 4"] reg(1)
    by (simp add: init_client_sys_def sample_entry_def)
  also have "client_step \<dots> s2"
    using begin_request [of 0 9 ServiceDMS 37 "init_client_sys 4\<lparr>cs_c := c1, cs_reqs := ?R1\<rparr>"] reg(2)
    by (simp add: init_client_sys_def sample_entry_def s2_def)
  also have "client_step \<dots> (s2\<lparr>cs_reader := RHolds (sample_entry 0 1) sample_response\<rparr>)"
    by (rule reader_match) (simp_all add: s2_def c2_def matching_entry_def sample_response_def
        packet_key_def entry_key_def sample_entry_def)
  also have "client_step \<dots> (s2\<lparr>cs_c := chan_send 0 sample_response c2\<rparr>)"
    using reader_send [of "s2\<lparr>cs_reader := RHolds (sample_entry 0 1) sample_response\<rparr>"]
    by (simp add: s2_def sample_entry_def)
  also have "client_step \<dots> (s2\<lparr>cs_reqs := ?R2(0 := ReqReturning (sample_entry 0 1) (Inr sample_response))\<rparr>)"
  proof -
    let ?idle = "\<lparr>rc_buf = None, rc_closed = False\<rparr>"
    let ?c3 = "c2\<lparr>c_chans := (\<lambda>_. ?idle)(0 := \<lparr>rc_buf = Some sample_response, rc_closed = False\<rparr>)\<rparr>"
    have send: "chan_send 0 sample_response c2 = ?c3" and id: "c2\<lparr>c_chans := \<lambda>_. ?idle\<rparr> = c2"
      by (simp_all add: chan_send_def c2_def c1_def)
    have upd: "(c_chans ?c3)(0 := (c_chans ?c3 0)\<lparr>rc_buf := None\<rparr>) = (\<lambda>_. ?idle)" by auto
    have c3: "?c3\<lparr>c_chans := (c_chans ?c3)(0 := (c_chans ?c3 0)\<lparr>rc_buf := None\<rparr>)\<rparr> = c2"
      unfolding upd using id by simp
    show ?thesis unfolding send
      using receive [of "s2\<lparr>cs_c := ?c3\<rparr>" 0 "sample_entry 0 1" sample_response] c3
      by (simp add: s2_def sample_entry_def)
  qed
  finally have run: "client_step\<^sup>*\<^sup>* (init_client_sys 4)
      (s2\<lparr>cs_reqs := ?R2(0 := ReqReturning (sample_entry 0 1) (Inr sample_response))\<rparr>)" .
  define s3 where "s3 = s2\<lparr>cs_reqs := ?R2(0 := ReqReturning (sample_entry 0 1) (Inr sample_response))\<rparr>"
  have "cs_reqs s3 0 = ReqReturning (sample_entry 0 1) (Inr sample_response)" by (simp add: s3_def)
  note step = complete_request [OF this, of 3]
  have "c_transactions (cs_c s3) = [(entry_key (sample_entry 0 1), sample_entry 0 1),
      (entry_key (sample_entry 1 2), sample_entry 1 2)]"
    by (simp add: s3_def s2_def c2_def)
  moreover have "entry_key (sample_entry 1 2) \<noteq> entry_key (sample_entry 0 1)"
    by (simp add: entry_key_def sample_entry_def)
  ultimately have del: "AList.delete (entry_key (sample_entry 0 1)) (c_transactions (cs_c s3)) =
      [(entry_key (sample_entry 1 2), sample_entry 1 2)]"
    by simp
  show ?thesis
    by (rule exI, rule conjI, rule rtranclp.rtrancl_into_rtrancl [OF run [folded s3_def] step])
      (simp add: complete_core del)
qed

text \<open>C19: 
  no panic.  In every interleaving of requests, the reader, read failures and \<^verbatim>\<open>Close\<close>, the
  client never sends on a closed response channel and never closes one twice; and it never
  remembers more than 256 abandoned transactions.
\<close>

theorem client_never_panics:
  assumes "client_step\<^sup>*\<^sup>* (init_client_sys n) s"
  shows "\<not> c_panicked (cs_c s) \<and> length (c_recentTransactions (cs_c s)) \<le> maxRecentTransactions"
  using core_invD(1) [OF client_inv_reachable [OF assms]]
  by (simp add: table_ok_def recents_wf_def)

theorem client_never_panics_witness:
  "\<exists>s. client_step\<^sup>*\<^sup>* (init_client_sys 4) s \<and> c_transactions (cs_c s) \<noteq> [] \<and> \<not> c_panicked (cs_c s)"
  using sample_client_run client_never_panics [of 4] by fastforce

text \<open>C3: 
  responses reach the request they answer.  In every interleaving, a request that returned a
  packet returned one that is not an indication and carries the service and the transaction
  identifier the request was sent with.
\<close>

theorem response_answers_request:
  assumes "client_step\<^sup>*\<^sup>* (init_client_sys n) s" and "cs_reqs s a = ReqDone e (Inr p)"
  shows "\<not> pkt_IsIndication p \<and> pkt_ServiceType p = te_service e \<and> pkt_TransactionID p = te_txID e"
  using core_invD(6) [OF client_inv_reachable [OF assms(1)], of a] assms(2)
  by (simp add: answers_def)

theorem response_answers_request_witness:
  "\<exists>s e p. client_step\<^sup>*\<^sup>* (init_client_sys 4) s \<and> cs_reqs s 0 = ReqDone e (Inr p) \<and>
     pkt_TransactionID p = te_txID e"
  using sample_client_run response_answers_request by blast

text \<open>C4: 
  a read failure or \<^verbatim>\<open>Close\<close> leaves nobody waiting.  In every reachable state, failing the pending
  transactions empties the table and closes the channel of every registered request, so its
  waiter can return at once, and does so without panicking.
\<close>

theorem failPending_wakes_all:
  assumes "client_step\<^sup>*\<^sup>* (init_client_sys n) s"
    and "(k, e) \<in> set (c_transactions (cs_c s))"
    and "c' = failPendingTransactions (cs_c s)"
  shows "c_transactions c' = [] \<and> rc_closed (c_chans c' (te_ch e)) \<and> \<not> c_panicked c' \<and>
    (cs_reqs s (te_ch e) = ReqWaiting e \<longrightarrow>
       (\<exists>r s'. client_step (s\<lparr>cs_c := c'\<rparr>) s' \<and> cs_reqs s' (te_ch e) = ReqReturning e r))"
proof -
  have t: "table_ok (cs_c s)" using core_invD(1) [OF client_inv_reachable [OF assms(1)]] .
  have cl: "c_transactions c' = []" "rc_closed (c_chans c' (te_ch e))" "\<not> c_panicked c'"
    using assms(2) t unfolding assms(3) failPending_eq [OF t] by (auto simp: table_ok_def)
  have "\<exists>r s'. client_step (s\<lparr>cs_c := c'\<rparr>) s' \<and> cs_reqs s' (te_ch e) = ReqReturning e r"
    if w: "cs_reqs s (te_ch e) = ReqWaiting e"
  proof (cases "rc_buf (c_chans c' (te_ch e))")
    case None
    from receive_closed [of "s\<lparr>cs_c := c'\<rparr>" "te_ch e" e] w cl(2) None show ?thesis by fastforce
  next
    case (Some p)
    from receive [of "s\<lparr>cs_c := c'\<rparr>" "te_ch e" e p] w Some show ?thesis by fastforce
  qed
  with cl show ?thesis by blast
qed

theorem failPending_wakes_all_witness:
  "\<exists>s. client_step\<^sup>*\<^sup>* (init_client_sys 4) s \<and>
     c_transactions (failPendingTransactions (cs_c s)) = [] \<and>
     rc_closed (c_chans (failPendingTransactions (cs_c s)) (te_ch (sample_entry 1 2)))"
proof -
  obtain s where s: "client_step\<^sup>*\<^sup>* (init_client_sys 4) s"
    "c_transactions (cs_c s) = [(entry_key (sample_entry 1 2), sample_entry 1 2)]"
    using sample_client_run by blast
  then have "(entry_key (sample_entry 1 2), sample_entry 1 2) \<in> set (c_transactions (cs_c s))" by simp
  from failPending_wakes_all [OF s(1) this refl] s(1) show ?thesis by blast
qed

end
