(* ===== verification/IndicationLoop.thy ===== *)
theory IndicationLoop
  imports Indication
begin

text \<open>
  The two goroutines that share the indication queues of \<^verbatim>\<open>pkg/qmi/client.go\<close>: the reader runs
  \<^verbatim>\<open>enqueueIndication\<close>, the loop runs \<^verbatim>\<open>indicationLoop\<close>.  Each step below is one atomic action of the
  source (a channel operation or a critical section of \<^verbatim>\<open>coalescedMu\<close>); storing an event and raising
  the signal are two steps, because the source does them one after the other without a common lock.
\<close>

section \<open>Interleavings of the reader and the indication loop\<close>

datatype loop_pc = LoopTop | LoopSelect | LoopDeliver Event | LoopDone
datatype enq_pc = EnqIdle | EnqStored

record ind_sys =
  is_q :: ind_queue
  is_loop :: loop_pc
  is_enq :: enq_pc

definition init_sys :: "nat \<Rightarrow> ind_sys" where
  "init_sys cap = \<lparr>is_q = new_ind_queue cap, is_loop = LoopTop, is_enq = EnqIdle\<rparr>"

inductive ind_step :: "ind_sys \<Rightarrow> ind_sys \<Rightarrow> bool" where
  enq_channel:
    "\<lbrakk>is_enq s = EnqIdle; iq_indicationIn (is_q s) = Some ch; length ch < iq_cap (is_q s)\<rbrakk> \<Longrightarrow>
     ind_step s (s\<lparr>is_q := (is_q s)\<lparr>iq_indicationIn := Some (ch @ [e])\<rparr>\<rparr>)"
| enq_store:
    "\<lbrakk>is_enq s = EnqIdle; iq_indicationIn (is_q s) = Some ch; \<not> length ch < iq_cap (is_q s);
      coalescingKey e = Some key\<rbrakk> \<Longrightarrow>
     ind_step s (s\<lparr>is_q := (is_q s)
         \<lparr>iq_coalesced := storeCoalescedEvent key e (iq_coalesced (is_q s)),
          iq_coalescedIndications := iq_coalescedIndications (is_q s) + 1\<rparr>,
       is_enq := EnqStored\<rparr>)"
| enq_signal:
    "is_enq s = EnqStored \<Longrightarrow>
     ind_step s (s\<lparr>is_q := (is_q s)\<lparr>iq_signal := True\<rparr>, is_enq := EnqIdle\<rparr>)"
| enq_timeout:
    "\<lbrakk>is_enq s = EnqIdle; coalescingKey e = None\<rbrakk> \<Longrightarrow>
     ind_step s (s\<lparr>is_q := (is_q s)
         \<lparr>iq_droppedEdgeIndications := iq_droppedEdgeIndications (is_q s) + 1\<rparr>\<rparr>)"
| loop_pop:
    "\<lbrakk>is_loop s = LoopTop; popCoalescedEvent (iq_coalesced (is_q s)) = (Some e, st)\<rbrakk> \<Longrightarrow>
     ind_step s (s\<lparr>is_q := (is_q s)\<lparr>iq_coalesced := st\<rparr>, is_loop := LoopDeliver e\<rparr>)"
| loop_empty:
    "\<lbrakk>is_loop s = LoopTop; popCoalescedEvent (iq_coalesced (is_q s)) = (None, st)\<rbrakk> \<Longrightarrow>
     ind_step s (s\<lparr>is_q := (is_q s)\<lparr>iq_coalesced := st\<rparr>, is_loop := LoopSelect\<rparr>)"
| loop_in:
    "\<lbrakk>is_loop s = LoopSelect; iq_indicationIn (is_q s) = Some (e # ch)\<rbrakk> \<Longrightarrow>
     ind_step s (s\<lparr>is_q := (is_q s)\<lparr>iq_indicationIn := Some ch\<rparr>, is_loop := LoopDeliver e\<rparr>)"
| loop_signal:
    "\<lbrakk>is_loop s = LoopSelect; iq_signal (is_q s)\<rbrakk> \<Longrightarrow>
     ind_step s (s\<lparr>is_q := (is_q s)\<lparr>iq_signal := False\<rparr>, is_loop := LoopTop\<rparr>)"
| loop_close:
    "\<lbrakk>is_loop s = LoopSelect \<or> is_loop s = LoopDeliver e; iq_closed (is_q s)\<rbrakk> \<Longrightarrow>
     ind_step s (s\<lparr>is_loop := LoopDone\<rparr>)"
| loop_deliver:
    "\<lbrakk>is_loop s = LoopDeliver e; length (iq_eventCh (is_q s)) < iq_cap (is_q s)\<rbrakk> \<Longrightarrow>
     ind_step s (s\<lparr>is_q := (is_q s)\<lparr>iq_eventCh := iq_eventCh (is_q s) @ [e]\<rparr>, is_loop := LoopTop\<rparr>)"
| consume:
    "iq_eventCh (is_q s) = e # es \<Longrightarrow> ind_step s (s\<lparr>is_q := (is_q s)\<lparr>iq_eventCh := es\<rparr>\<rparr>)"
| close_client:
    "ind_step s (s\<lparr>is_q := (is_q s)\<lparr>iq_closed := True\<rparr>\<rparr>)"

definition ind_inv :: "ind_sys \<Rightarrow> bool" where
  "ind_inv s \<longleftrightarrow>
     store_invar (iq_coalesced (is_q s)) \<and>
     length (iq_eventCh (is_q s)) \<le> iq_cap (is_q s) \<and>
     (\<exists>ch. iq_indicationIn (is_q s) = Some ch \<and> length ch \<le> iq_cap (is_q s)) \<and>
     (is_loop s = LoopSelect \<and> is_enq s = EnqIdle \<and> ces_order (iq_coalesced (is_q s)) \<noteq> []
        \<longrightarrow> iq_signal (is_q s))"

lemma pop_keeps_invar: "store_invar st \<Longrightarrow> popCoalescedEvent st = (r, st') \<Longrightarrow> store_invar st'"
  using coalesced.pop_invar [of st] by simp

lemma pop_None_empty: "store_invar st \<Longrightarrow> popCoalescedEvent st = (None, st') \<Longrightarrow> ces_order st' = []"
  using pop_store [of st] by (auto simp: store_abs_def split: list.splits)

lemma ind_inv_init: "ind_inv (init_sys cap)"
  by (simp add: ind_inv_def init_sys_def new_ind_queue_def coalesced.empty_invar)

lemma ind_inv_step: "ind_step s s' \<Longrightarrow> ind_inv s \<Longrightarrow> ind_inv s'"
  by (induction rule: ind_step.induct)
    (auto simp: ind_inv_def coalesced.put_invar dest: pop_keeps_invar pop_None_empty)

lemma ind_inv_reachable: "ind_step\<^sup>*\<^sup>* s s' \<Longrightarrow> ind_inv s \<Longrightarrow> ind_inv s'"
  by (induction rule: rtranclp_induct) (auto intro: ind_inv_step)

lemma ind_step_trans [trans]:
  "ind_step a b \<Longrightarrow> ind_step b c \<Longrightarrow> ind_step\<^sup>*\<^sup>* a c"
  "ind_step\<^sup>*\<^sup>* a b \<Longrightarrow> ind_step b c \<Longrightarrow> ind_step\<^sup>*\<^sup>* a c"
  by (auto intro: rtranclp.rtrancl_into_rtrancl)

text \<open>The one-call views of the two goroutines are runs of the steps.\<close>

lemma enqueueIndication_steps:
  assumes "enqueueIndication sel e (is_q s) = Some q'" and "iq_indicationIn (is_q s) \<noteq> None"
    and "is_enq s = EnqIdle"
  shows "ind_step\<^sup>*\<^sup>* s (s\<lparr>is_q := q'\<rparr>)"
proof -
  obtain ch where ch: "iq_indicationIn (is_q s) = Some ch" using assms(2) by auto
  have id: "ind_step\<^sup>*\<^sup>* s (s\<lparr>is_q := is_q s\<rparr>)" by simp
  note st = enq_channel [OF assms(3) ch] enq_timeout [OF assms(3)]
  show ?thesis
  proof (cases "\<exists>key. coalescingKey e = Some key \<and> \<not> length ch < iq_cap (is_q s)")
    case True
    then obtain key where key: "coalescingKey e = Some key" "\<not> length ch < iq_cap (is_q s)" by auto
    have idle: "s\<lparr>is_q := q, is_enq := EnqIdle\<rparr> = s\<lparr>is_q := q\<rparr>" for q
      using assms(3) by (cases s) simp
    note enq_store [OF assms(3) ch key(2,1)]
    also have "ind_step (s\<lparr>is_q := (is_q s)
         \<lparr>iq_coalesced := storeCoalescedEvent key e (iq_coalesced (is_q s)),
          iq_coalescedIndications := iq_coalescedIndications (is_q s) + 1\<rparr>,
       is_enq := EnqStored\<rparr>) (s\<lparr>is_q := q'\<rparr>)"
      using enq_signal [of "s\<lparr>is_q := (is_q s)
         \<lparr>iq_coalesced := storeCoalescedEvent key e (iq_coalesced (is_q s)),
          iq_coalescedIndications := iq_coalescedIndications (is_q s) + 1\<rparr>,
       is_enq := EnqStored\<rparr>"] assms key ch
      by (auto simp: enqueueIndication_def idle)
    finally show ?thesis .
  next
    case False
    with assms(1) ch st [of e] id show ?thesis
      by (auto simp: enqueueIndication_def split: option.splits edge_case.splits if_splits)
  qed
qed

lemma deliverEvent_steps:
  assumes "deliverEvent send e q = Some (go, q')" and "is_loop s = LoopDeliver e" and "is_q s = q"
  shows "ind_step s (s\<lparr>is_q := q', is_loop := if go then LoopTop else LoopDone\<rparr>)"
  using assms loop_deliver [of s e] loop_close [of s e]
  by (auto simp: deliverEvent_def split: if_splits)

lemma indicationLoop_turn_steps:
  assumes "indicationLoop_turn sel send (is_q s) = Some (go, q')" and "is_loop s = LoopTop"
  shows "ind_step\<^sup>*\<^sup>* s (s\<lparr>is_q := q', is_loop := if go then LoopTop else LoopDone\<rparr>)"
proof -
  obtain r st where pop: "popCoalescedEvent (iq_coalesced (is_q s)) = (r, st)" by fastforce
  let ?q1 = "(is_q s)\<lparr>iq_coalesced := st\<rparr>"
  show ?thesis
  proof (cases r)
    case (Some e)
    note loop_pop [OF assms(2) pop [unfolded Some]]
    also have "ind_step (s\<lparr>is_q := ?q1, is_loop := LoopDeliver e\<rparr>)
        (s\<lparr>is_q := q', is_loop := if go then LoopTop else LoopDone\<rparr>)"
      using deliverEvent_steps [of send e ?q1 go q' "s\<lparr>is_q := ?q1, is_loop := LoopDeliver e\<rparr>"]
        assms(1) pop Some by (simp add: indicationLoop_turn_def)
    finally show ?thesis .
  next
    case None
    let ?s1 = "s\<lparr>is_q := ?q1, is_loop := LoopSelect\<rparr>"
    have s1: "ind_step s ?s1" using loop_empty [OF assms(2) pop [unfolded None]] .
    have "ind_step\<^sup>*\<^sup>* ?s1 (s\<lparr>is_q := q', is_loop := if go then LoopTop else LoopDone\<rparr>)"
    proof (cases sel)
      case LoopIn
      with assms(1) pop None obtain e ch where ch: "iq_indicationIn (is_q s) = Some (e # ch)"
        and d: "deliverEvent send e (?q1\<lparr>iq_indicationIn := Some ch\<rparr>) = Some (go, q')"
        by (auto simp: indicationLoop_turn_def split: option.splits list.splits)
      let ?s2 = "s\<lparr>is_q := ?q1\<lparr>iq_indicationIn := Some ch\<rparr>, is_loop := LoopDeliver e\<rparr>"
      have "ind_step ?s1 ?s2" using loop_in [of ?s1 e ch] ch by simp
      also have "ind_step ?s2 (s\<lparr>is_q := q', is_loop := if go then LoopTop else LoopDone\<rparr>)"
        using deliverEvent_steps [OF d, of ?s2] by simp
      finally show ?thesis .
    qed (use assms(1) pop None loop_close [of ?s1] loop_signal [of ?s1] in
        \<open>auto simp: indicationLoop_turn_def split: if_splits\<close>)
    with s1 show ?thesis by (rule converse_rtranclp_into_rtranclp)
  qed
qed

text \<open>C6: 
  no lost wake-up.  In every interleaving of the reader and the indication loop, whenever the
  loop waits in its \<^verbatim>\<open>select\<close> while the store holds an event and the reader is not between storing and
  signalling, the loop can step, and its next pop takes an event; both queues stay within their
  capacity.
\<close>

theorem indicationLoop_no_lost_wakeup:
  assumes "ind_step\<^sup>*\<^sup>* (init_sys cap) s"
    and "is_loop s = LoopSelect" and "is_enq s = EnqIdle"
    and "ces_order (iq_coalesced (is_q s)) \<noteq> []"
  shows "(\<exists>s' s'' e. ind_step s s' \<and> is_loop s' = LoopTop \<and> ind_step s' s'' \<and> is_loop s'' = LoopDeliver e) \<and>
    length (iq_eventCh (is_q s)) \<le> iq_cap (is_q s) \<and>
    length (the (iq_indicationIn (is_q s))) \<le> iq_cap (is_q s)"
proof -
  have inv: "ind_inv s" using ind_inv_reachable [OF assms(1) ind_inv_init] .
  then have sig: "iq_signal (is_q s)" using assms(2-4) by (simp add: ind_inv_def)
  define s' where "s' = s\<lparr>is_q := (is_q s)\<lparr>iq_signal := False\<rparr>, is_loop := LoopTop\<rparr>"
  have s1: "ind_step s s'" unfolding s'_def using assms(2) sig by (rule loop_signal)
  obtain e st where "popCoalescedEvent (iq_coalesced (is_q s')) = (Some e, st)"
    using inv assms(4) pop_store [of "iq_coalesced (is_q s)"]
    by (cases "ces_order (iq_coalesced (is_q s))") (auto simp: ind_inv_def s'_def store_abs_def)
  then have "ind_step s' (s'\<lparr>is_q := (is_q s')\<lparr>iq_coalesced := st\<rparr>, is_loop := LoopDeliver e\<rparr>)"
    by (intro loop_pop) (simp_all add: s'_def)
  moreover have "is_loop s' = LoopTop" by (simp add: s'_def)
  ultimately show ?thesis using s1 inv ind_inv_def by fastforce
qed

definition sample_run :: "ind_sys" where
  "sample_run =
     \<lparr>is_q = (new_ind_queue 1)
        \<lparr>iq_indicationIn := Some [sample_event EventModemReset 1],
         iq_coalesced := storeCoalescedEvent (the (coalescingKey (sample_event EventModemReset 1)))
           (sample_event EventModemReset 1) empty_store,
         iq_coalescedIndications := 1, iq_signal := True\<rparr>,
      is_loop = LoopSelect, is_enq = EnqIdle\<rparr>"

lemma sample_run_reachable: "ind_step\<^sup>*\<^sup>* (init_sys 1) sample_run"
proof -
  let ?e = "sample_event EventModemReset 1"
  have key: "coalescingKey ?e = Some (the (coalescingKey ?e))"
    by (simp add: coalescingKey_def sample_event_def)
  have "ind_step (init_sys 1) (init_sys 1\<lparr>is_loop := LoopSelect\<rparr>)"
    using loop_empty [of "init_sys 1" empty_store]
    by (simp add: init_sys_def new_ind_queue_def popCoalescedEvent_def empty_store_def)
  also have "ind_step \<dots> (init_sys 1\<lparr>is_q := (new_ind_queue 1)\<lparr>iq_indicationIn := Some [?e]\<rparr>,
      is_loop := LoopSelect\<rparr>)"
    using enq_channel [of "init_sys 1\<lparr>is_loop := LoopSelect\<rparr>" "[]" ?e]
    by (simp add: init_sys_def new_ind_queue_def)
  also have "ind_step \<dots> (sample_run\<lparr>is_q := (is_q sample_run)\<lparr>iq_signal := False\<rparr>,
      is_enq := EnqStored\<rparr>)"
    using enq_store [OF _ _ _ key, of "init_sys 1\<lparr>is_q := (new_ind_queue 1)
        \<lparr>iq_indicationIn := Some [?e]\<rparr>, is_loop := LoopSelect\<rparr>" "[?e]"]
    by (simp add: init_sys_def new_ind_queue_def sample_run_def)
  also have "ind_step \<dots> sample_run"
    using enq_signal [of "sample_run\<lparr>is_q := (is_q sample_run)\<lparr>iq_signal := False\<rparr>,
      is_enq := EnqStored\<rparr>"]
    by (simp add: sample_run_def)
  finally show ?thesis .
qed

theorem indicationLoop_no_lost_wakeup_witness:
  "\<exists>s' s'' e. ind_step sample_run s' \<and> is_loop s' = LoopTop \<and> ind_step s' s'' \<and>
     is_loop s'' = LoopDeliver e"
  using indicationLoop_no_lost_wakeup [OF sample_run_reachable]
  by (simp add: sample_run_def storeCoalescedEvent_def empty_store_def)

end
