(* ===== verification/QrtrWire.thy ===== *)
theory QrtrWire
  imports Frame
begin

text \<open>
  The byte layouts of \<^verbatim>\<open>AF_QIPCRTR\<close>, \<^verbatim>\<open>pkg/qmi/qrtr_wire.go\<close>: the socket address and the control
  packet exchanged with the QRTR name server.  Both are wire codecs; the socket address is not a
  strict one, because its two padding bytes are not looked at.
\<close>

definition qrtrAddressFamily :: u16 where "qrtrAddressFamily = 0x2a"
definition qrtrPortCtrl :: u32 where "qrtrPortCtrl = 0xfffffffe"
definition qrtrTypeNewServer :: u32 where "qrtrTypeNewServer = 4"
definition qrtrTypeDelServer :: u32 where "qrtrTypeDelServer = 5"
definition qrtrTypeNewLookup :: u32 where "qrtrTypeNewLookup = 10"

definition sockaddrQRTRSize :: nat where "sockaddrQRTRSize = 12"
definition qrtrCtrlPktSize :: nat where "qrtrCtrlPktSize = 20"

datatype qrtr_wire_error =
    SockaddrTooShort nat
  | UnexpectedFamily u16
  | CtrlPktTooShort nat

record sockaddrQRTR =
  sq_node :: u32
  sq_port :: u32

definition marshalSockaddrQRTR :: "sockaddrQRTR \<Rightarrow> byte list" where
  "marshalSockaddrQRTR a =
     PutUint16 qrtrAddressFamily @ [0, 0] @ PutUint32 (sq_node a) @ PutUint32 (sq_port a)"

definition unmarshalSockaddrQRTR :: "byte list \<Rightarrow> qrtr_wire_error + sockaddrQRTR" where
  "unmarshalSockaddrQRTR data =
     (if length data < sockaddrQRTRSize then Inl (SockaddrTooShort (length data))
      else let family = Uint16 (go_slice 0 2 data) in
        if family \<noteq> qrtrAddressFamily then Inl (UnexpectedFamily family)
        else Inr \<lparr>sq_node = Uint32 (go_slice 4 8 data), sq_port = Uint32 (go_slice 8 12 data)\<rparr>)"

record qrtrCtrlPkt =
  cp_cmd :: u32
  cp_service :: u32
  cp_instance :: u32
  cp_node :: u32
  cp_port :: u32

definition marshalQRTRCtrlPkt :: "qrtrCtrlPkt \<Rightarrow> byte list" where
  "marshalQRTRCtrlPkt p =
     PutUint32 (cp_cmd p) @ PutUint32 (cp_service p) @ PutUint32 (cp_instance p)
       @ PutUint32 (cp_node p) @ PutUint32 (cp_port p)"

definition unmarshalQRTRCtrlPkt :: "byte list \<Rightarrow> qrtr_wire_error + qrtrCtrlPkt" where
  "unmarshalQRTRCtrlPkt data =
     (if length data < qrtrCtrlPktSize then Inl (CtrlPktTooShort (length data))
      else Inr \<lparr>cp_cmd = Uint32 (go_slice 0 4 data), cp_service = Uint32 (go_slice 4 8 data),
                cp_instance = Uint32 (go_slice 8 12 data), cp_node = Uint32 (go_slice 12 16 data),
                cp_port = Uint32 (go_slice 16 20 data)\<rparr>)"

definition isZeroServer :: "qrtrCtrlPkt \<Rightarrow> bool" where
  "isZeroServer p \<longleftrightarrow> cp_service p = 0 \<and> cp_instance p = 0 \<and> cp_node p = 0 \<and> cp_port p = 0"

definition newLookupRequest :: "u32 \<Rightarrow> qrtrCtrlPkt" where
  "newLookupRequest service =
     \<lparr>cp_cmd = qrtrTypeNewLookup, cp_service = service, cp_instance = 0, cp_node = 0, cp_port = 0\<rparr>"

section \<open>Both layouts are wire codecs\<close>

lemma split_4:
  assumes "4 \<le> length xs"
  shows "\<exists>a b c d r. xs = a # b # c # d # r \<and> length xs = length r + 4"
  using length_ge_4D [of xs] assms by auto

interpretation sockaddr: wire_codec marshalSockaddrQRTR unmarshalSockaddrQRTR sockaddrQRTRSize
  "\<lambda>_. True"
proof
  show "length (marshalSockaddrQRTR a) = sockaddrQRTRSize" for a
    by (simp add: marshalSockaddrQRTR_def sockaddrQRTRSize_def)
  show "unmarshalSockaddrQRTR (marshalSockaddrQRTR a @ rest) = Inr a" for a rest
    by (simp add: marshalSockaddrQRTR_def unmarshalSockaddrQRTR_def sockaddrQRTRSize_def
        PutUint16_def PutUint32_def Let_def)
  show "\<exists>e. unmarshalSockaddrQRTR bs = Inl e" if "length bs < sockaddrQRTRSize" for bs
    using that by (simp add: unmarshalSockaddrQRTR_def)
qed

interpretation ctrlpkt: strict_wire_codec marshalQRTRCtrlPkt unmarshalQRTRCtrlPkt qrtrCtrlPktSize
  "\<lambda>_. True"
proof
  show "length (marshalQRTRCtrlPkt p) = qrtrCtrlPktSize" for p
    by (simp add: marshalQRTRCtrlPkt_def qrtrCtrlPktSize_def)
  show "unmarshalQRTRCtrlPkt (marshalQRTRCtrlPkt p @ rest) = Inr p" for p rest
    by (simp add: marshalQRTRCtrlPkt_def unmarshalQRTRCtrlPkt_def qrtrCtrlPktSize_def
        PutUint32_def)
  show "\<exists>e. unmarshalQRTRCtrlPkt bs = Inl e" if "length bs < qrtrCtrlPktSize" for bs
    using that by (simp add: unmarshalQRTRCtrlPkt_def)
  show "True \<and> take qrtrCtrlPktSize bs = marshalQRTRCtrlPkt p"
    if h: "unmarshalQRTRCtrlPkt bs = Inr p" for bs p
  proof -
    from h have len: "20 \<le> length bs"
      by (simp add: unmarshalQRTRCtrlPkt_def qrtrCtrlPktSize_def split: if_splits)
    then obtain a b c d r1 where 1: "bs = a # b # c # d # r1" "length bs = length r1 + 4"
      using split_4 [of bs] by auto
    then obtain e f g h' r2 where 2: "r1 = e # f # g # h' # r2" "length r1 = length r2 + 4"
      using split_4 [of r1] len by auto
    then obtain i j k l r3 where 3: "r2 = i # j # k # l # r3" "length r2 = length r3 + 4"
      using split_4 [of r2] len 1 by auto
    then obtain m n o' q r4 where 4: "r3 = m # n # o' # q # r4" "length r3 = length r4 + 4"
      using split_4 [of r3] len 1 2 by auto
    then obtain s t u v r5 where 5: "r4 = s # t # u # v # r5"
      using split_4 [of r4] len 1 2 3 by auto
    show ?thesis using h 1(1) 2(1) 3(1) 4(1) 5
      by (auto simp: unmarshalQRTRCtrlPkt_def marshalQRTRCtrlPkt_def qrtrCtrlPktSize_def)
  qed
qed

text \<open>The zero-server sentinel is not a service that could be looked up.\<close>

lemma isZeroServer_service: "isZeroServer p \<Longrightarrow> cp_service p = 0"
  by (simp add: isZeroServer_def)

section \<open>Properties of the QRTR control packets\<close>

text \<open>
  the QRTR control-packet decoder accepts exactly the buffers that start with the twenty
  bytes of an encoded packet, and returns that packet.
\<close>

theorem ctrl_packet_codec:
  "unmarshalQRTRCtrlPkt data = Inr pkt \<longleftrightarrow>
     qrtrCtrlPktSize \<le> length data \<and> take qrtrCtrlPktSize data = marshalQRTRCtrlPkt pkt"
  by (simp add: ctrlpkt.unmarshal_iff)

end
