(* ===== verification/QrtrTransport.thy ===== *)
theory QrtrTransport
  imports ClientCore QrtrWire
begin

text \<open>
  The QRTR transport (\<^verbatim>\<open>pkg/qmi/qrtr_transport_linux.go\<close>).  The modem speaks plain QMI service data units
  on one socket per service and has no control service of its own: the transport strips the frame
  header from what the client writes, answers the control service locally, and puts a header in
  front of what a socket delivers.

  The sockets are the kernel's: what it decides during a call is the record \<open>qrtr_env\<close>.  Data sockets
  are numbered in the order they are opened; \<open>qt_openSocks\<close> are the ones not yet closed, and \<open>qt_sent\<close>
  collects the datagrams sent (on the control socket with \<^const>\<open>None\<close>).
\<close>

section \<open>State\<close>

record qrtrService =
  qs_node :: u32
  qs_port :: u32
  qs_versionMajor :: u16

record qrtrClient =
  qc_clientID :: u8
  qc_service :: u16
  qc_sock :: nat
  qc_peer :: sockaddrQRTR

definition qrtrRxQueueSize :: nat where "qrtrRxQueueSize = 64"

record qrtrTransport =
  qt_ctrlTarget :: sockaddrQRTR
  qt_closed :: bool
  qt_services :: "(u16 \<times> qrtrService) list"
  qt_clients :: "(u16 \<times> qrtrClient) list"
  qt_nextCID :: u8
  qt_enumGen :: u64
  qt_rxCh :: "byte list list"
  qt_openSocks :: "nat list"
  qt_nextSock :: nat
  qt_sent :: "(nat option \<times> byte list \<times> sockaddrQRTR) list"

definition newQRTRTransport :: "sockaddrQRTR \<Rightarrow> qrtrTransport" where
  "newQRTRTransport local =
     \<lparr>qt_ctrlTarget = \<lparr>sq_node = sq_node local, sq_port = qrtrPortCtrl\<rparr>, qt_closed = False,
      qt_services = [], qt_clients = [], qt_nextCID = 0, qt_enumGen = 0, qt_rxCh = [],
      qt_openSocks = [], qt_nextSock = 0, qt_sent = []\<rparr>"

text \<open>
  What the kernel and the scheduler decide during one \<^verbatim>\<open>Write\<close>: whether sends succeed, whether a data
  socket can be opened and configured, which control datagrams arrive while the call waits, and
  which ready case of \<^verbatim>\<open>pushRx\<close> is taken.
\<close>

record qrtr_env =
  env_sendErr :: "go_error option"
  env_socketErr :: "go_error option"
  env_timeoutErr :: "go_error option"
  env_arrivals :: "byte list list"
  env_closeCase :: bool

section \<open>Frames\<close>

definition qrtrSuccessResultTLV :: TLV where
  "qrtrSuccessResultTLV = \<lparr>tlv_Type = 0x02, tlv_Value = [0x00, 0x00, 0x00, 0x00]\<rparr>"

definition qrtrErrorResultTLV :: "u16 \<Rightarrow> TLV" where
  "qrtrErrorResultTLV code =
     \<lparr>tlv_Type = 0x02, tlv_Value = [0x01, 0x00, ucast code, ucast (drop_bit 8 code)]\<rparr>"

definition rebuildFrame :: "u16 \<Rightarrow> u8 \<Rightarrow> byte list \<Rightarrow> byte list" where
  "rebuildFrame service clientID sdu = marshalFrameHeader service clientID (length sdu) @ sdu"

definition marshalCTLResponseFrame :: "u8 \<Rightarrow> u16 \<Rightarrow> TLV list \<Rightarrow> byte list" where
  "marshalCTLResponseFrame txID msgID tlvs =
     (let tlvBytes = concat (map TLV_Marshal tlvs);
          body = CTLHeader_Marshal
            \<lparr>ctl_ControlFlags = 0x01, ctl_TransactionID = txID, ctl_MessageID = msgID,
             ctl_Length = of_nat (length tlvBytes)\<rparr> @ tlvBytes
      in marshalFrameHeader ServiceControl 0 (length body) @ body)"

section \<open>Control datagrams\<close>

text \<open>The body of the loop of \<^verbatim>\<open>runCtrlReader\<close> for one received datagram.\<close>

definition runCtrlReader_datagram :: "byte list \<Rightarrow> qrtrTransport \<Rightarrow> qrtrTransport" where
  "runCtrlReader_datagram buf t =
     (case unmarshalQRTRCtrlPkt buf of
        Inl _ \<Rightarrow> t
      | Inr pkt \<Rightarrow>
          if cp_cmd pkt = qrtrTypeNewServer then
            if isZeroServer pkt then t\<lparr>qt_enumGen := qt_enumGen t + 1\<rparr>
            else t\<lparr>qt_services := AList.update (ucast (cp_service pkt))
                 \<lparr>qs_node = cp_node pkt, qs_port = cp_port pkt,
                  qs_versionMajor = ucast (cp_instance pkt AND 0xFF)\<rparr> (qt_services t)\<rparr>
          else if cp_cmd pkt = qrtrTypeDelServer then
            t\<lparr>qt_services := AList.delete (ucast (cp_service pkt)) (qt_services t)\<rparr>
          else t)"

definition ctrl_send :: "u32 \<Rightarrow> qrtrTransport \<Rightarrow> qrtrTransport" where
  "ctrl_send service t =
     t\<lparr>qt_sent := qt_sent t @ [(None, marshalQRTRCtrlPkt (newLookupRequest service), qt_ctrlTarget t)]\<rparr>"

text \<open>
  The waiting loop of \<^verbatim>\<open>resolveService\<close>: it re-checks the services after every arrival until the
  deadline, which comes when no arrival is left.
\<close>

fun resolve_wait ::
    "u16 \<Rightarrow> byte list list \<Rightarrow> qrtrTransport \<Rightarrow> (go_error + qrtrService) \<times> qrtrTransport" where
  "resolve_wait service [] t =
     ((case map_of (qt_services t) service of
         Some srv \<Rightarrow> Inr srv
       | None \<Rightarrow> if qt_closed t then Inl (ErrText ''qrtr: transport closed'')
                else Inl (ErrText ''qrtr: service not found via NEW_LOOKUP'')), t)"
| "resolve_wait service (d # ds) t =
     (case map_of (qt_services t) service of
        Some srv \<Rightarrow> (Inr srv, t)
      | None \<Rightarrow> if qt_closed t then (Inl (ErrText ''qrtr: transport closed''), t)
               else resolve_wait service ds (runCtrlReader_datagram d t))"

definition resolveService ::
    "qrtr_env \<Rightarrow> u16 \<Rightarrow> qrtrTransport \<Rightarrow> (go_error + qrtrService) \<times> qrtrTransport" where
  "resolveService env service t =
     (case map_of (qt_services t) service of
        Some srv \<Rightarrow> (Inr srv, t)
      | None \<Rightarrow>
          if qt_closed t then (Inl (ErrText ''qrtr: transport closed''), t)
          else (case env_sendErr env of
              Some err \<Rightarrow> (Inl (ErrWrap ''qrtr: send NEW_LOOKUP: '' err []), t)
            | None \<Rightarrow> resolve_wait service (env_arrivals env) (ctrl_send (ucast service) t)))"

text \<open>The loop of \<^verbatim>\<open>enumerateServices\<close> ends when the generation changes or the deadline comes.\<close>

fun enumerate_wait :: "u64 \<Rightarrow> byte list list \<Rightarrow> qrtrTransport \<Rightarrow> qrtrTransport" where
  "enumerate_wait startGen [] t = t"
| "enumerate_wait startGen (d # ds) t =
     (if qt_enumGen t = startGen \<and> \<not> qt_closed t
      then enumerate_wait startGen ds (runCtrlReader_datagram d t) else t)"

definition enumerateServices :: "qrtr_env \<Rightarrow> qrtrTransport \<Rightarrow> qrtrTransport" where
  "enumerateServices env t =
     (if qt_closed t then t
      else case env_sendErr env of
          Some _ \<Rightarrow> t
        | None \<Rightarrow> enumerate_wait (qt_enumGen t) (env_arrivals env) (ctrl_send 0 t))"

section \<open>The simulated control service\<close>

text \<open>\<^const>\<open>None\<close>: the call blocks, because the queue is full and the transport is open.\<close>

type_synonym write_result = "(go_error option \<times> qrtrTransport) option"

definition pushRx :: "bool \<Rightarrow> byte list \<Rightarrow> qrtrTransport \<Rightarrow> qrtrTransport option" where
  "pushRx closeCase frame t =
     (if closeCase \<and> qt_closed t then Some t
      else if length (qt_rxCh t) < qrtrRxQueueSize then Some (t\<lparr>qt_rxCh := qt_rxCh t @ [frame]\<rparr>)
      else if qt_closed t then Some t else None)"

definition replyCTL :: "qrtr_env \<Rightarrow> u8 \<Rightarrow> u16 \<Rightarrow> TLV list \<Rightarrow> qrtrTransport \<Rightarrow> write_result" where
  "replyCTL env txID msgID tlvs t =
     map_option (\<lambda>t'. (None, t')) (pushRx (env_closeCase env) (marshalCTLResponseFrame txID msgID tlvs) t)"

definition replyCTLError :: "qrtr_env \<Rightarrow> u8 \<Rightarrow> u16 \<Rightarrow> u16 \<Rightarrow> qrtrTransport \<Rightarrow> write_result" where
  "replyCTLError env txID msgID errCode t = replyCTL env txID msgID [qrtrErrorResultTLV errCode] t"

definition allocateCID :: "qrtrTransport \<Rightarrow> u8 \<times> qrtrTransport" where
  "allocateCID t =
     (let n = qt_nextCID t + 1; n' = (if n = 0 then 1 else n) in (n', t\<lparr>qt_nextCID := n'\<rparr>))"

definition version_reply_value :: "(u16 \<times> qrtrService) list \<Rightarrow> byte list" where
  "version_reply_value services =
     (let list = filter (\<lambda>(id, _). \<not> id > 0xFF) services
      in of_nat (length list)
         # concat (map (\<lambda>(id, s). ucast id # PutUint16 (qs_versionMajor s) @ PutUint16 0) list))"

definition handleGetVersionInfo :: "qrtr_env \<Rightarrow> u8 \<Rightarrow> qrtrTransport \<Rightarrow> write_result" where
  "handleGetVersionInfo env txID t =
     (let t1 = enumerateServices env t in
      replyCTL env txID CTLGetVersionInfo
        [qrtrSuccessResultTLV,
         \<lparr>tlv_Type = 0x01, tlv_Value = version_reply_value (qt_services t1)\<rparr>] t1)"

definition close_sock :: "nat \<Rightarrow> qrtrTransport \<Rightarrow> qrtrTransport" where
  "close_sock s t = t\<lparr>qt_openSocks := removeAll s (qt_openSocks t)\<rparr>"

definition open_sock :: "qrtrTransport \<Rightarrow> nat \<times> qrtrTransport" where
  "open_sock t =
     (qt_nextSock t, t\<lparr>qt_openSocks := qt_nextSock t # qt_openSocks t, qt_nextSock := qt_nextSock t + 1\<rparr>)"

text \<open>The tail of \<^verbatim>\<open>handleAllocateClientID\<close> once the socket is open.\<close>

definition install_client ::
    "qrtr_env \<Rightarrow> u8 \<Rightarrow> u16 \<Rightarrow> qrtrService \<Rightarrow> nat \<Rightarrow> qrtrTransport \<Rightarrow> write_result" where
  "install_client env txID service srv sock t =
     (let (cid, t1) = allocateCID t;
          cl = \<lparr>qc_clientID = cid, qc_service = service, qc_sock = sock,
                qc_peer = \<lparr>sq_node = qs_node srv, sq_port = qs_port srv\<rparr>\<rparr>
      in if qt_closed t1 then
           replyCTLError env txID CTLGetClientID QMIErrDeviceNotReady (close_sock sock t1)
         else
           let t2 = (case map_of (qt_clients t1) service of
                       Some old \<Rightarrow> close_sock (qc_sock old) t1
                     | None \<Rightarrow> t1);
               t3 = t2\<lparr>qt_clients := AList.update service cl (qt_clients t2)\<rparr>
           in replyCTL env txID CTLGetClientID
                [qrtrSuccessResultTLV, encodeCTLServiceClientIDTLV service cid] t3)"

definition handleAllocateClientID ::
    "qrtr_env \<Rightarrow> u8 \<Rightarrow> TLV list \<Rightarrow> qrtrTransport \<Rightarrow> write_result" where
  "handleAllocateClientID env txID tlvs t =
     (case FindTLV tlvs 0x01 of
        None \<Rightarrow> replyCTLError env txID CTLGetClientID QMIErrMalformedMsg t
      | Some tlv \<Rightarrow>
          (case decodeCTLServiceOnlyTLV (tlv_Value tlv) of
             None \<Rightarrow> replyCTLError env txID CTLGetClientID QMIErrMalformedMsg t
           | Some service \<Rightarrow>
               (case resolveService env service t of
                  (Inl _, t1) \<Rightarrow> replyCTLError env txID CTLGetClientID QMIErrDeviceNotReady t1
                | (Inr srv, t1) \<Rightarrow>
                    (case env_socketErr env of
                       Some err \<Rightarrow> Some (Some (ErrWrap ''qrtr: open data socket: '' err []), t1)
                     | None \<Rightarrow>
                         let (sock, t2) = open_sock t1 in
                         (case env_timeoutErr env of
                            Some err \<Rightarrow>
                              Some (Some (ErrWrap ''qrtr: set data socket recv timeout: '' err []),
                                close_sock sock t2)
                          | None \<Rightarrow> install_client env txID service srv sock t2)))))"

definition handleReleaseClientID ::
    "qrtr_env \<Rightarrow> u8 \<Rightarrow> TLV list \<Rightarrow> qrtrTransport \<Rightarrow> write_result" where
  "handleReleaseClientID env txID tlvs t =
     (case FindTLV tlvs 0x01 of
        None \<Rightarrow> replyCTLError env txID CTLReleaseClientID QMIErrMalformedMsg t
      | Some tlv \<Rightarrow>
          (case decodeCTLServiceClientIDTLV (tlv_Value tlv) of
             None \<Rightarrow> replyCTLError env txID CTLReleaseClientID QMIErrMalformedMsg t
           | Some (service, _) \<Rightarrow>
               let t1 = (case map_of (qt_clients t) service of
                           Some cl \<Rightarrow> close_sock (qc_sock cl)
                             (t\<lparr>qt_clients := AList.delete service (qt_clients t)\<rparr>)
                         | None \<Rightarrow> t)
               in replyCTL env txID CTLReleaseClientID [qrtrSuccessResultTLV] t1))"

text \<open>The \<^verbatim>\<open>switch\<close> of \<^verbatim>\<open>handleCTLWrite\<close>.\<close>

definition ctl_dispatch :: "qrtr_env \<Rightarrow> u8 \<Rightarrow> u16 \<Rightarrow> TLV list \<Rightarrow> qrtrTransport \<Rightarrow> write_result" where
  "ctl_dispatch env tx msg tlvs t =
     (if msg = CTLSync then replyCTL env tx CTLSync [qrtrSuccessResultTLV] t
      else if msg = CTLGetVersionInfo then handleGetVersionInfo env tx t
      else if msg = CTLGetClientID then handleAllocateClientID env tx tlvs t
      else if msg = CTLReleaseClientID then handleReleaseClientID env tx tlvs t
      else Some (Some (ErrText ''qrtr: CTL message is not supported over QRTR transport''), t))"

definition handleCTLWrite :: "qrtr_env \<Rightarrow> byte list \<Rightarrow> qrtrTransport \<Rightarrow> write_result" where
  "handleCTLWrite env body t =
     (case UnmarshalCTLHeader body of
        Inl _ \<Rightarrow> Some (Some (ErrText ''qrtr: ctl header''), t)
      | Inr ctlH \<Rightarrow>
          (let tlvData = drop CTLHeaderSize body in
           if unat (ctl_Length ctlH) > length tlvData then
             Some (Some (ErrText ''qrtr: ctl tlv truncated''), t)
           else (case ParseTLVs (take (unat (ctl_Length ctlH)) tlvData) of
               (_, Some _) \<Rightarrow> Some (Some (ErrText ''qrtr: ctl tlv parse''), t)
             | (tlvs, None) \<Rightarrow> ctl_dispatch env (ctl_TransactionID ctlH) (ctl_MessageID ctlH) tlvs t)))"

section \<open>Data, reads and close\<close>

definition handleDataWrite ::
    "qrtr_env \<Rightarrow> u16 \<Rightarrow> u8 \<Rightarrow> byte list \<Rightarrow> qrtrTransport \<Rightarrow> write_result" where
  "handleDataWrite env service clientID body t =
     (case map_of (qt_clients t) service of
        None \<Rightarrow> Some (Some (ErrText ''qrtr: write to service with no open client socket''), t)
      | Some cl \<Rightarrow>
          (case env_sendErr env of
             Some err \<Rightarrow> Some (Some err, t)
           | None \<Rightarrow> Some (None, t\<lparr>qt_sent := qt_sent t @ [(Some (qc_sock cl), body, qc_peer cl)]\<rparr>)))"

definition Write :: "qrtr_env \<Rightarrow> byte list \<Rightarrow> qrtrTransport \<Rightarrow> write_result" where
  "Write env p t =
     (case unmarshalFrameHeader p of
        Inl _ \<Rightarrow> Some (Some (ErrText ''qrtr: write''), t)
      | Inr fh \<Rightarrow>
          if length p < fh_headerSize fh then
            Some (Some (ErrText ''qrtr: write: frame shorter than header size''), t)
          else let body = drop (fh_headerSize fh) p in
            if fh_serviceType fh = ServiceControl then handleCTLWrite env body t
            else handleDataWrite env (fh_serviceType fh) (fh_clientID fh) body t)"

datatype read_result = ReadBytes "byte list" | ReadTooLong | ReadEOF

text \<open>\<^verbatim>\<open>Read\<close> into a buffer of \<open>n\<close> bytes; \<^const>\<open>None\<close>: nothing to read yet.\<close>

definition Read :: "bool \<Rightarrow> nat \<Rightarrow> qrtrTransport \<Rightarrow> (read_result \<times> qrtrTransport) option" where
  "Read closeCase n t =
     (if closeCase \<and> qt_closed t then Some (ReadEOF, t)
      else case qt_rxCh t of
          frame # rx \<Rightarrow>
            Some (if length frame > n then ReadTooLong else ReadBytes frame, t\<lparr>qt_rxCh := rx\<rparr>)
        | [] \<Rightarrow> if qt_closed t then Some (ReadEOF, t) else None)"

text \<open>One datagram received by \<^verbatim>\<open>runClientReader\<close>.\<close>

definition runClientReader_datagram ::
    "bool \<Rightarrow> qrtrClient \<Rightarrow> byte list \<Rightarrow> qrtrTransport \<Rightarrow> qrtrTransport option" where
  "runClientReader_datagram closeCase cl buf t =
     (if buf = [] then Some t
      else pushRx closeCase (rebuildFrame (qc_service cl) (qc_clientID cl) buf) t)"

definition Close :: "qrtrTransport \<Rightarrow> qrtrTransport" where
  "Close t =
     (if qt_closed t then t
      else (fold (\<lambda>(_, cl). close_sock (qc_sock cl)) (qt_clients t) t)
        \<lparr>qt_closed := True, qt_clients := []\<rparr>)"

section \<open>Rebuilt frames\<close>

text \<open>A frame header in front of any body that fits is read back, and the body with it.\<close>

lemma UnmarshalPacket_rebuildFrame:
  assumes "length sdu + frame_overhead s < 65536"
  shows "UnmarshalPacket (rebuildFrame s c sdu @ junk) =
    (let fh = \<lparr>fh_headerSize = frame_overhead s + 1, fh_length = of_nat (length sdu + frame_overhead s),
               fh_controlFlags = 0, fh_serviceType = s, fh_clientID = c\<rparr>
     in if s = ServiceControl then UnmarshalCTLBody fh sdu else UnmarshalServiceBody fh sdu)"
proof -
  let ?k = "length sdu + frame_overhead s"
  define fh :: decodedFrameHeader where
    "fh = \<lparr>fh_headerSize = frame_overhead s + 1, fh_length = of_nat ?k, fh_controlFlags = 0,
           fh_serviceType = s, fh_clientID = c\<rparr>"
  have hdr: "unmarshalFrameHeader (rebuildFrame s c sdu @ junk) = Inr fh"
    by (simp add: rebuildFrame_def fh_def)
  have k: "unat (fh_length fh) = ?k"
    using assms unat_of_nat_u16 [of ?k] by (simp add: fh_def del: of_nat_add)
  have sizes: "fh_headerSize fh \<le> ?k + 1" "?k + 1 \<le> length (rebuildFrame s c sdu @ junk)"
    by (simp_all add: fh_def rebuildFrame_def)
  have body: "drop (fh_headerSize fh) (take (?k + 1) (rebuildFrame s c sdu @ junk)) = sdu"
    by (simp add: rebuildFrame_def fh_def)
  show ?thesis
    unfolding UnmarshalPacket_body [OF hdr, unfolded k, OF sizes] body
    by (simp add: fh_def Let_def)
qed

lemma UnmarshalPacket_service_sdu:
  assumes "s \<noteq> ServiceControl" and "list_all wf_tlv tlvs"
    and "length (tlv_bytes tlvs) + 7 + frame_overhead s < 65536"
    and "unat (svc_Length h) = length (tlv_bytes tlvs)"
  shows "UnmarshalPacket (rebuildFrame s c (ServiceHeader_Marshal h @ tlv_bytes tlvs)) =
    Inr \<lparr>pkt_ServiceType = s, pkt_ClientID = c, pkt_TransactionID = svc_TransactionID h,
         pkt_MessageID = svc_MessageID h, pkt_IsIndication = (svc_ControlFlags h AND 0x04 \<noteq> 0),
         pkt_TLVs = tlvs\<rparr>"
  using UnmarshalPacket_rebuildFrame [of "ServiceHeader_Marshal h @ tlv_bytes tlvs" s c "[]"] assms
  by (simp add: UnmarshalServiceBody_def svch.unmarshal_marshal bind_res_def)

lemma list_all_wf_tlv: "length (tlv_bytes tlvs) < 65536 \<Longrightarrow> list_all wf_tlv tlvs"
  by (auto simp: list_all_iff wf_tlv_def dest!: length_tlv_bytes_ge)

lemma UnmarshalPacket_CTLResponse:
  assumes "length (tlv_bytes tlvs) + 11 < 65536"
  shows "UnmarshalPacket (marshalCTLResponseFrame tx msg tlvs) =
    Inr \<lparr>pkt_ServiceType = ServiceControl, pkt_ClientID = 0, pkt_TransactionID = ucast tx,
         pkt_MessageID = msg, pkt_IsIndication = False, pkt_TLVs = tlvs\<rparr>"
proof -
  define h where "h = \<lparr>ctl_ControlFlags = 0x01, ctl_TransactionID = tx, ctl_MessageID = msg,
      ctl_Length = of_nat (length (tlv_bytes tlvs))\<rparr>"
  have "marshalCTLResponseFrame tx msg tlvs =
      rebuildFrame ServiceControl 0 (CTLHeader_Marshal h @ tlv_bytes tlvs)"
    by (simp add: marshalCTLResponseFrame_def rebuildFrame_def h_def tlv_bytes_def Let_def)
  moreover have "unat (ctl_Length h) = length (tlv_bytes tlvs)"
    using assms unat_of_nat_u16 [of "length (tlv_bytes tlvs)"] by (simp add: h_def)
  ultimately show ?thesis
    using UnmarshalPacket_rebuildFrame [of "CTLHeader_Marshal h @ tlv_bytes tlvs" ServiceControl 0 "[]"]
      assms list_all_wf_tlv [of tlvs]
    by (simp add: UnmarshalCTLBody_def ctlh.unmarshal_marshal bind_res_def frame_overhead_def)
      (simp add: h_def)
qed

section \<open>Requests of the client\<close>

lemma Write_Packet_Marshal:
  assumes "wf_packet p"
  shows "Write env (Packet_Marshal p) t =
    (if pkt_ServiceType p = ServiceControl
     then ctl_dispatch env (ucast (pkt_TransactionID p)) (pkt_MessageID p) (pkt_TLVs p) t
     else handleDataWrite env (pkt_ServiceType p) (pkt_ClientID p) (packet_body p) t)"
proof -
  have hdr: "unmarshalFrameHeader (Packet_Marshal p) =
      Inr \<lparr>fh_headerSize = frame_overhead (pkt_ServiceType p) + 1,
        fh_length = of_nat (packet_body_length p + frame_overhead (pkt_ServiceType p)),
        fh_controlFlags = 0, fh_serviceType = pkt_ServiceType p, fh_clientID = pkt_ClientID p\<rparr>"
    by (simp add: Packet_Marshal_eq)
  have body: "drop (frame_overhead (pkt_ServiceType p) + 1) (Packet_Marshal p) = packet_body p"
    by (simp add: Packet_Marshal_eq)
  have W: "Write env (Packet_Marshal p) t =
      (if pkt_ServiceType p = ServiceControl then handleCTLWrite env (packet_body p) t
       else handleDataWrite env (pkt_ServiceType p) (pkt_ClientID p) (packet_body p) t)"
    unfolding Write_def hdr sum.case decodedFrameHeader.simps Let_def body
    by (simp add: length_Packet_Marshal)
  show ?thesis
  proof (cases "pkt_ServiceType p = ServiceControl")
    case True
    have len: "length (tlv_bytes (pkt_TLVs p)) < 65536"
      using assms by (simp add: wf_packet_def packet_body_length_def)
    have tx: "(ucast (pkt_TransactionID p AND 0xFF) :: u8) = ucast (pkt_TransactionID p)"
      by (rule ucast_and_mask_byte)
    show ?thesis using True len wf_packet_tlvs [OF assms]
      by (simp add: W handleCTLWrite_def packet_body_def ctlh.unmarshal_marshal tx Let_def)
  qed (simp add: W)
qed

lemma resolve_wait_core:
  assumes "resolve_wait service ds t = (r, t')"
  shows "qt_closed t' = qt_closed t \<and> qt_rxCh t' = qt_rxCh t \<and> qt_clients t' = qt_clients t \<and>
    qt_openSocks t' = qt_openSocks t \<and> qt_nextSock t' = qt_nextSock t \<and> qt_nextCID t' = qt_nextCID t"
  using assms
  by (induction service ds t rule: resolve_wait.induct)
    (auto simp: runCtrlReader_datagram_def split: option.splits if_splits sum.splits)

lemma resolveService_core:
  assumes "resolveService env service t = (r, t')"
  shows "qt_closed t' = qt_closed t" "qt_rxCh t' = qt_rxCh t" "qt_clients t' = qt_clients t"
    "qt_openSocks t' = qt_openSocks t" "qt_nextSock t' = qt_nextSock t" "qt_nextCID t' = qt_nextCID t"
  using assms resolve_wait_core [of service "env_arrivals env" "ctrl_send (ucast service) t" r t']
  by (auto simp: resolveService_def ctrl_send_def split: option.splits if_splits)

lemma enumerate_wait_core:
  "qt_closed (enumerate_wait g ds t) = qt_closed t \<and> qt_rxCh (enumerate_wait g ds t) = qt_rxCh t \<and>
   qt_clients (enumerate_wait g ds t) = qt_clients t \<and>
   qt_openSocks (enumerate_wait g ds t) = qt_openSocks t \<and>
   qt_nextSock (enumerate_wait g ds t) = qt_nextSock t"
  by (induction g ds t rule: enumerate_wait.induct)
    (auto simp: runCtrlReader_datagram_def split: sum.splits)

lemma enumerateServices_core:
  "qt_closed (enumerateServices env t) = qt_closed t" "qt_rxCh (enumerateServices env t) = qt_rxCh t"
  "qt_clients (enumerateServices env t) = qt_clients t"
  "qt_openSocks (enumerateServices env t) = qt_openSocks t"
  "qt_nextSock (enumerateServices env t) = qt_nextSock t"
  using enumerate_wait_core [of "qt_enumGen t" "env_arrivals env" "ctrl_send 0 t"]
  by (auto simp: enumerateServices_def ctrl_send_def split: option.splits)

lemma allocateCID_nonzero: "allocateCID t = (cid, t') \<Longrightarrow> cid \<noteq> 0"
  by (auto simp: allocateCID_def Let_def split: if_splits)

lemma success_result:
  "CheckResult \<lparr>pkt_ServiceType = s, pkt_ClientID = c, pkt_TransactionID = x, pkt_MessageID = m,
     pkt_IsIndication = i, pkt_TLVs = qrtrSuccessResultTLV # tlvs\<rparr> = None"
  by (simp add: CheckResult_def GetResultCode_def qrtrSuccessResultTLV_def Uint16_def)

section \<open>Sockets and clients\<close>

text \<open>Every call that changes the transport.\<close>

inductive qrtr_step :: "qrtrTransport \<Rightarrow> qrtrTransport \<Rightarrow> bool" where
  do_write: "Write env p t = Some (r, t') \<Longrightarrow> qrtr_step t t'"
| do_read: "Read closeCase n t = Some (r, t') \<Longrightarrow> qrtr_step t t'"
| ctrl_datagram: "qrtr_step t (runCtrlReader_datagram buf t)"
| data_datagram: "runClientReader_datagram closeCase cl buf t = Some t' \<Longrightarrow> qrtr_step t t'"
| do_close: "qrtr_step t (Close t)"

text \<open>The open data sockets are exactly those of the registered clients, one each.\<close>

definition sock_ok :: "(u16 \<times> qrtrClient) list \<Rightarrow> nat list \<Rightarrow> nat \<Rightarrow> bool \<Rightarrow> bool" where
  "sock_ok clients opens next closed \<longleftrightarrow>
     distinct (map fst clients) \<and> inj_on (qc_sock \<circ> snd) (set clients) \<and>
     set opens = (qc_sock \<circ> snd) ` set clients \<and> (\<forall>s \<in> set opens. s < next) \<and>
     (closed \<longrightarrow> clients = []) \<and>
     (\<forall>(k, cl) \<in> set clients. qc_service cl = k \<and> qc_clientID cl \<noteq> 0)"

abbreviation sock_inv :: "qrtrTransport \<Rightarrow> bool" where
  "sock_inv t \<equiv> sock_ok (qt_clients t) (qt_openSocks t) (qt_nextSock t) (qt_closed t)"

lemma pushRx_core:
  assumes "pushRx closeCase frame t = Some t'"
  shows "qt_clients t' = qt_clients t" "qt_openSocks t' = qt_openSocks t"
    "qt_nextSock t' = qt_nextSock t" "qt_closed t' = qt_closed t"
  using assms by (auto simp: pushRx_def split: if_splits)

lemma replyCTL_inv: "sock_inv t \<Longrightarrow> replyCTL env tx msg tlvs t = Some (r, t') \<Longrightarrow> sock_inv t'"
  by (auto simp: replyCTL_def pushRx_core)

lemma sock_ok_fresh: "sock_ok cs opens n cl \<Longrightarrow> n \<notin> set opens"
  by (auto simp: sock_ok_def)

lemma sock_ok_Suc: "sock_ok cs opens n cl \<Longrightarrow> sock_ok cs opens (Suc n) cl"
  by (auto simp: sock_ok_def less_Suc_eq)

lemma set_AList_delete: "set (AList.delete k al) = {x \<in> set al. fst x \<noteq> k}"
  by (induction al) auto

lemma set_AList_update:
  "distinct (map fst al) \<Longrightarrow> set (AList.update k v al) = insert (k, v) {x \<in> set al. fst x \<noteq> k}"
  by (induction al) (auto simp: image_iff split: if_splits)

lemma sock_ok_others:
  assumes "sock_ok cs opens n cl" and "map_of cs k = Some old"
  shows "(qc_sock \<circ> snd) ` {x \<in> set cs. fst x \<noteq> k} = set opens - {qc_sock old}"
proof -
  have mem: "(k, old) \<in> set cs" using assms(2) by (rule map_of_SomeD)
  have inj: "inj_on (qc_sock \<circ> snd) (set cs)" and op: "set opens = (qc_sock \<circ> snd) ` set cs"
    and d: "distinct (map fst cs)" using assms(1) by (auto simp: sock_ok_def)
  have "{x \<in> set cs. fst x \<noteq> k} = set cs - {(k, old)}"
    using d mem eq_key_imp_eq_value [of cs k] by auto
  then show ?thesis using inj_on_image_set_diff [OF inj, of "set cs" "{(k, old)}"] mem by (simp add: op)
qed

lemma sock_ok_delete:
  assumes "sock_ok cs opens n cl" and "map_of cs k = Some old"
  shows "sock_ok (AList.delete k cs) (removeAll (qc_sock old) opens) n cl"
  using assms(1) sock_ok_others [OF assms]
  by (auto simp: sock_ok_def set_AList_delete distinct_delete elim!: inj_on_subset)

lemma sock_ok_none: "map_of cs k = None \<Longrightarrow> {x \<in> set cs. fst x \<noteq> k} = set cs"
  by (auto simp: map_of_eq_None_iff)

lemma sock_ok_update:
  assumes "sock_ok cs opens n False" and "qc_service c = k" and "qc_clientID c \<noteq> 0" and "qc_sock c = n"
  shows "sock_ok (AList.update k c cs)
    (case map_of cs k of Some old \<Rightarrow> removeAll (qc_sock old) (n # opens) | None \<Rightarrow> n # opens) (Suc n) False"
    (is "sock_ok ?cs ?opens _ _")
proof -
  have d: "distinct (map fst cs)" and inj: "inj_on (qc_sock \<circ> snd) (set cs)"
    and op: "set opens = (qc_sock \<circ> snd) ` set cs" and lt: "\<forall>s \<in> set opens. s < n"
    using assms(1) by (auto simp: sock_ok_def)
  note st = set_AList_update [OF d, of k c]
  have fresh: "n \<notin> (qc_sock \<circ> snd) ` set cs" using lt op by auto
  have "inj_on (qc_sock \<circ> snd) (set ?cs)"
    unfolding st inj_on_insert using fresh inj
    by (auto simp: assms(4) image_iff intro: inj_on_subset)
  moreover have "set ?opens = (qc_sock \<circ> snd) ` set ?cs"
  proof (cases "map_of cs k")
    case None
    then show ?thesis by (simp add: st sock_ok_none assms(4) op)
  next
    case (Some old)
    have "qc_sock old \<noteq> n" using fresh map_of_SomeD [OF Some] by force
    then show ?thesis using sock_ok_others [OF assms(1) Some] Some by (auto simp: st assms(4))
  qed
  moreover have "\<forall>s \<in> set ?opens. s < Suc n" using lt by (auto split: option.splits)
  moreover have "\<forall>(k', cl) \<in> set ?cs. qc_service cl = k' \<and> qc_clientID cl \<noteq> 0"
    using assms unfolding st by (auto simp: sock_ok_def)
  ultimately show ?thesis using d by (simp add: sock_ok_def distinct_update)
qed

lemma install_client_inv:
  assumes "sock_inv t" and "install_client env tx service srv (qt_nextSock t) (snd (open_sock t)) = Some (r, t')"
  shows "sock_inv t'"
proof -
  obtain cid t1 where al: "allocateCID (snd (open_sock t)) = (cid, t1)" by fastforce
  have t1: "qt_clients t1 = qt_clients t" "qt_openSocks t1 = qt_nextSock t # qt_openSocks t"
    "qt_nextSock t1 = Suc (qt_nextSock t)" "qt_closed t1 = qt_closed t"
    using al by (auto simp: allocateCID_def open_sock_def Let_def)
  define cl where "cl = \<lparr>qc_clientID = cid, qc_service = service, qc_sock = qt_nextSock t,
      qc_peer = \<lparr>sq_node = qs_node srv, sq_port = qs_port srv\<rparr>\<rparr>"
  show ?thesis
  proof (cases "qt_closed t")
    case True
    have "removeAll (qt_nextSock t) (qt_openSocks t) = qt_openSocks t"
      using sock_ok_fresh [OF assms(1)] by simp
    then have "sock_inv (close_sock (qt_nextSock t) t1)"
      using sock_ok_Suc [OF assms(1)] by (simp add: t1 close_sock_def)
    moreover have "replyCTL env tx CTLGetClientID [qrtrErrorResultTLV QMIErrDeviceNotReady]
        (close_sock (qt_nextSock t) t1) = Some (r, t')"
      using assms(2) al True t1 by (simp add: install_client_def replyCTLError_def)
    ultimately show ?thesis by (rule replyCTL_inv)
  next
    case False
    let ?t2 = "case map_of (qt_clients t1) service of
        Some old \<Rightarrow> close_sock (qc_sock old) t1 | None \<Rightarrow> t1"
    let ?t3 = "?t2\<lparr>qt_clients := AList.update service cl (qt_clients ?t2)\<rparr>"
    have "sock_ok (qt_clients t) (qt_openSocks t) (qt_nextSock t) False" using assms(1) False by simp
    from sock_ok_update [OF this, of cl service] allocateCID_nonzero [OF al]
    have "sock_inv ?t3"
      by (auto simp: cl_def t1 False close_sock_def split: option.splits)
    moreover have "replyCTL env tx CTLGetClientID
        [qrtrSuccessResultTLV, encodeCTLServiceClientIDTLV service cid] ?t3 = Some (r, t')"
      using assms(2) al False t1 by (simp add: install_client_def cl_def Let_def)
    ultimately show ?thesis by (rule replyCTL_inv)
  qed
qed

lemma handleAllocate_inv:
  assumes "sock_inv t" and "handleAllocateClientID env tx tlvs t = Some (r, t')"
  shows "sock_inv t'"
proof (cases "\<exists>tlv service srv t1. FindTLV tlvs 0x01 = Some tlv \<and>
    decodeCTLServiceOnlyTLV (tlv_Value tlv) = Some service \<and>
    resolveService env service t = (Inr srv, t1) \<and> env_socketErr env = None")
  case True
  then obtain tlv service srv t1 where h: "FindTLV tlvs 0x01 = Some tlv"
    "decodeCTLServiceOnlyTLV (tlv_Value tlv) = Some service"
    "resolveService env service t = (Inr srv, t1)" "env_socketErr env = None" by blast
  have inv1: "sock_inv t1" using assms(1) resolveService_core [OF h(3)] by simp
  have os: "open_sock t1 = (qt_nextSock t1, snd (open_sock t1))" by (simp add: open_sock_def)
  show ?thesis
  proof (cases "env_timeoutErr env")
    case None
    then have "install_client env tx service srv (qt_nextSock t1) (snd (open_sock t1)) = Some (r, t')"
      using assms(2) h os by (simp add: handleAllocateClientID_def Let_def split: prod.splits)
    with inv1 show ?thesis by (rule install_client_inv)
  next
    case (Some err)
    then have "t' = close_sock (qt_nextSock t1) (snd (open_sock t1))"
      using assms(2) h os by (simp add: handleAllocateClientID_def Let_def split: prod.splits)
    moreover have "removeAll (qt_nextSock t1) (qt_openSocks t1) = qt_openSocks t1"
      using sock_ok_fresh [OF inv1] by simp
    ultimately show ?thesis using sock_ok_Suc [OF inv1] by (simp add: close_sock_def open_sock_def)
  qed
next
  case False
  have res: "sock_inv t1" if "resolveService env service t = (x, t1)" for service x t1
    using assms(1) resolveService_core [OF that] by simp
  from False assms show ?thesis
    by (auto simp: handleAllocateClientID_def replyCTLError_def dest: res
        intro: replyCTL_inv [OF assms(1)] replyCTL_inv [OF res] split: option.splits sum.splits prod.splits)
qed

lemma handleRelease_inv:
  assumes "sock_inv t" and "handleReleaseClientID env tx tlvs t = Some (r, t')"
  shows "sock_inv t'"
proof -
  have "sock_inv (case map_of (qt_clients t) service of
      Some cl \<Rightarrow> close_sock (qc_sock cl) (t\<lparr>qt_clients := AList.delete service (qt_clients t)\<rparr>)
    | None \<Rightarrow> t)" for service
    using assms(1) sock_ok_delete [OF assms(1), of service]
    by (auto simp: close_sock_def split: option.splits)
  from replyCTL_inv [OF this] replyCTL_inv [OF assms(1)] assms(2) show ?thesis
    by (auto simp: handleReleaseClientID_def replyCTLError_def Let_def split: option.splits)
qed

lemma Write_inv:
  assumes "sock_inv t" and "Write env p t = Some (r, t')"
  shows "sock_inv t'"
proof -
  have "sock_inv t'" if "ctl_dispatch env tx msg tlvs t = Some (r, t')" for tx msg tlvs
  proof -
    have "sock_inv (enumerateServices env t)" using assms(1) by (simp add: enumerateServices_core)
    from replyCTL_inv [OF this] replyCTL_inv [OF assms(1)] that assms(1) show ?thesis
      by (auto simp: ctl_dispatch_def handleGetVersionInfo_def Let_def split: if_splits
          intro: handleAllocate_inv handleRelease_inv)
  qed
  moreover have "sock_inv t'" if "handleDataWrite env s c b t = Some (r, t')" for s c b
    using assms(1) that by (auto simp: handleDataWrite_def split: option.splits)
  ultimately show ?thesis using assms
    by (auto simp: Write_def handleCTLWrite_def Let_def split: sum.splits if_splits option.splits prod.splits)
qed

lemma fold_close_sock:
  "fold (\<lambda>(_, cl). close_sock (qc_sock cl)) cs t =
     t\<lparr>qt_openSocks := filter (\<lambda>s. s \<notin> (qc_sock \<circ> snd) ` set cs) (qt_openSocks t)\<rparr>"
  by (induction cs arbitrary: t)
    (auto simp: close_sock_def removeAll_filter_not_eq case_prod_unfold eq_commute)

lemma Close_inv: "sock_inv t \<Longrightarrow> sock_inv (Close t) \<and> qt_openSocks (Close t) = []"
  by (auto simp: Close_def fold_close_sock sock_ok_def filter_empty_conv)

lemma qrtr_step_inv: "qrtr_step t t' \<Longrightarrow> sock_inv t \<Longrightarrow> sock_inv t'"
proof (induction rule: qrtr_step.induct)
  case (do_write env p t r t')
  then show ?case using Write_inv by blast
next
  case (do_read closeCase n t r t')
  then show ?case by (auto simp: Read_def split: if_splits list.splits)
next
  case (ctrl_datagram t buf)
  then show ?case by (auto simp: runCtrlReader_datagram_def split: sum.splits)
next
  case (data_datagram closeCase cl buf t t')
  then show ?case by (auto simp: runClientReader_datagram_def pushRx_core split: if_splits)
next
  case (do_close t)
  then show ?case using Close_inv by blast
qed

lemma sock_inv_reachable: "qrtr_step\<^sup>*\<^sup>* (newQRTRTransport local) t \<Longrightarrow> sock_inv t"
proof (induction rule: rtranclp_induct)
  case base
  then show ?case by (simp add: newQRTRTransport_def sock_ok_def)
qed (rule qrtr_step_inv)

section \<open>The reply to an allocation\<close>

lemma ctl_tlv_decode [simp]:
  "decodeCTLServiceOnlyTLV (tlv_Value (encodeCTLServiceOnlyTLV service)) = Some service"
  "decodeCTLServiceClientIDTLV (tlv_Value (encodeCTLServiceClientIDTLV service cid)) = Some (service, cid)"
  "tlv_Type (encodeCTLServiceOnlyTLV service) = 0x01"
  "tlv_Type (encodeCTLServiceClientIDTLV service cid) = 0x01"
  using Uint16_PutUint16_exact [of service]
  by (simp_all add: encodeCTLServiceOnlyTLV_def decodeCTLServiceOnlyTLV_def ucast_u16_byte_id PutUint16_def
      encodeCTLServiceClientIDTLV_def decodeCTLServiceClientIDTLV_def)

lemma install_client_ok:
  assumes "\<not> qt_closed t" and "length (qt_rxCh t) < qrtrRxQueueSize" and "allocateCID t = (cid, t1)"
  shows "\<exists>t' cl. install_client env tx service srv sock t = Some (None, t') \<and>
    qt_rxCh t' = qt_rxCh t @ [marshalCTLResponseFrame tx CTLGetClientID
      [qrtrSuccessResultTLV, encodeCTLServiceClientIDTLV service cid]] \<and>
    map_of (qt_clients t') service = Some cl \<and> qc_clientID cl = cid \<and>
    qc_peer cl = \<lparr>sq_node = qs_node srv, sq_port = qs_port srv\<rparr>"
proof -
  define t2 where "t2 = (case map_of (qt_clients t1) service of
      Some old \<Rightarrow> close_sock (qc_sock old) t1 | None \<Rightarrow> t1)"
  have t1: "qt_rxCh t1 = qt_rxCh t" "\<not> qt_closed t1"
    using assms by (auto simp: allocateCID_def Let_def)
  then have t2: "qt_rxCh t2 = qt_rxCh t" "\<not> qt_closed t2"
    by (auto simp: t2_def close_sock_def split: option.splits)
  show ?thesis
    unfolding install_client_def assms(3) prod.case Let_def t2_def [symmetric]
    using t1 t2 assms(2) by (simp add: replyCTL_def pushRx_def update_conv')
qed

lemma allocate_reply_read:
  "\<exists>resp. UnmarshalPacket (marshalCTLResponseFrame tx CTLGetClientID
      [qrtrSuccessResultTLV, encodeCTLServiceClientIDTLV service cid]) = Inr resp \<and>
    pkt_ServiceType resp = ServiceControl \<and> pkt_TransactionID resp = ucast tx \<and>
    allocate_response service resp c = (Inr cid, c\<lparr>c_clientIDs := (c_clientIDs c)(service \<mapsto> cid)\<rparr>)"
proof -
  let ?tlvs = "[qrtrSuccessResultTLV, encodeCTLServiceClientIDTLV service cid]"
  have len: "length (tlv_bytes ?tlvs) < 100"
    by (simp add: encodeCTLServiceClientIDTLV_def qrtrSuccessResultTLV_def)
  have "tlv_Type qrtrSuccessResultTLV \<noteq> 0x01" by (simp add: qrtrSuccessResultTLV_def)
  with UnmarshalPacket_CTLResponse [of ?tlvs tx CTLGetClientID] len show ?thesis
    by (simp add: allocate_response_def success_result)
qed

section \<open>Properties\<close>

text \<open>C7: 
  no socket leaks.  Whatever the client writes and reads, whatever the kernel delivers and
  refuses, and whether or not the transport is closed meanwhile: the open data sockets are exactly
  those of the registered clients, every client is registered under its own service with a
  non-zero identifier, and after \<^verbatim>\<open>Close\<close> no data socket is open.
\<close>

theorem qrtr_no_socket_leak:
  assumes "qrtr_step\<^sup>*\<^sup>* (newQRTRTransport local) t"
  shows "set (qt_openSocks t) = (qc_sock \<circ> snd) ` set (qt_clients t) \<and>
    (map_of (qt_clients t) service = Some cl \<longrightarrow> qc_service cl = service \<and> qc_clientID cl \<noteq> 0) \<and>
    qt_openSocks (Close t) = []"
  using sock_inv_reachable [OF assms] Close_inv [of t]
  by (auto simp: sock_ok_def dest!: map_of_SomeD)

text \<open>C21: 
  allocating a client identifier over QRTR.  When the service resolves (from the services
  known, or from the control datagrams that arrive while waiting) and the queue has room, the
  client's own request frame is answered by one frame that unmarshals to a control response with
  the request's transaction identifier, from which the client records a non-zero client
  identifier; the transport holds the same identifier, with the peer's address.
\<close>

theorem qrtr_allocate_end_to_end:
  assumes "te_service entry = ServiceControl" and "te_txID entry \<le> 0xFF" and "te_msgID entry = CTLGetClientID"
    and "resolveService env service t = (Inr srv, t1)" and "\<not> qt_closed t"
    and "env_socketErr env = None" and "env_timeoutErr env = None"
    and "length (qt_rxCh t) < qrtrRxQueueSize"
  shows "\<exists>t' frame resp cid cl.
    Write env (Packet_Marshal (request_packet entry 0 [encodeCTLServiceOnlyTLV service])) t = Some (None, t') \<and>
    qt_rxCh t' = qt_rxCh t @ [frame] \<and> UnmarshalPacket frame = Inr resp \<and>
    pkt_TransactionID resp = te_txID entry \<and> packet_key resp = transaction_key ServiceControl (te_txID entry) \<and>
    allocate_response service resp c = (Inr cid, c\<lparr>c_clientIDs := (c_clientIDs c)(service \<mapsto> cid)\<rparr>) \<and>
    cid \<noteq> 0 \<and> map_of (qt_clients t') service = Some cl \<and> qc_clientID cl = cid \<and>
    qc_peer cl = \<lparr>sq_node = qs_node srv, sq_port = qs_port srv\<rparr>"
proof -
  let ?req = "request_packet entry 0 [encodeCTLServiceOnlyTLV service]"
  let ?tx = "ucast (te_txID entry) :: u8"
  have wf: "wf_packet ?req"
    using assms(1,2)
    by (simp add: wf_packet_def packet_body_length_def request_packet_def frame_overhead_def
        encodeCTLServiceOnlyTLV_def)
  note core = resolveService_core [OF assms(4)]
  obtain cid t2 where al: "allocateCID (snd (open_sock t1)) = (cid, t2)" by fastforce
  have "\<not> qt_closed (snd (open_sock t1))" "length (qt_rxCh (snd (open_sock t1))) < qrtrRxQueueSize"
    and rx: "qt_rxCh (snd (open_sock t1)) = qt_rxCh t"
    using core assms(5,8) by (simp_all add: open_sock_def)
  from install_client_ok [OF this(1,2) al, of env ?tx service srv "qt_nextSock t1"]
  obtain t' cl where t': "install_client env ?tx service srv (qt_nextSock t1) (snd (open_sock t1)) = Some (None, t')"
    "qt_rxCh t' = qt_rxCh t @ [marshalCTLResponseFrame ?tx CTLGetClientID
        [qrtrSuccessResultTLV, encodeCTLServiceClientIDTLV service cid]]"
    "map_of (qt_clients t') service = Some cl" "qc_clientID cl = cid"
    "qc_peer cl = \<lparr>sq_node = qs_node srv, sq_port = qs_port srv\<rparr>"
    unfolding rx by blast
  have "Write env (Packet_Marshal ?req) t = handleAllocateClientID env ?tx [encodeCTLServiceOnlyTLV service] t"
    unfolding Write_Packet_Marshal [OF wf] using assms(1,3) by (simp add: request_packet_def ctl_dispatch_def)
  also have "\<dots> = Some (None, t')"
    using assms(4,6,7) t'(1) by (simp add: handleAllocateClientID_def open_sock_def)
  finally have W: "Write env (Packet_Marshal ?req) t = Some (None, t')" .
  note R = allocate_reply_read [of ?tx service cid c]
  have tx: "(ucast ?tx :: u16) = te_txID entry" using assms(2) by (rule ucast_u16_byte_id)
  show ?thesis
    using W t' R allocateCID_nonzero [OF al] by (fastforce simp: tx packet_key_def)
qed

definition sample_env :: qrtr_env where
  "sample_env = \<lparr>env_sendErr = None, env_socketErr = None, env_timeoutErr = None,
     env_arrivals = [marshalQRTRCtrlPkt \<lparr>cp_cmd = qrtrTypeNewServer, cp_service = 3, cp_instance = 1,
       cp_node = 0, cp_port = 9\<rparr>], env_closeCase = False\<rparr>"

definition sample_transport :: qrtrTransport where
  "sample_transport = newQRTRTransport \<lparr>sq_node = 1, sq_port = 0\<rparr>"

definition sample_ctl_entry :: "u16 \<Rightarrow> transactionEntry" where
  "sample_ctl_entry msg = \<lparr>te_ch = 0, te_service = ServiceControl, te_msgID = msg, te_txID = 1,
     te_start = 0, te_deadline = 9\<rparr>"

lemma sample_resolve:
  "\<exists>srv t1. resolveService sample_env 3 sample_transport = (Inr srv, t1)"
proof -
  let ?pkt = "\<lparr>cp_cmd = qrtrTypeNewServer, cp_service = 3, cp_instance = 1, cp_node = 0, cp_port = 9\<rparr>"
  have "unmarshalQRTRCtrlPkt (marshalQRTRCtrlPkt ?pkt) = Inr ?pkt"
    using ctrlpkt.unmarshal_marshal [of ?pkt "[]"] by simp
  then show ?thesis
    by (simp add: resolveService_def sample_env_def sample_transport_def newQRTRTransport_def ctrl_send_def
        runCtrlReader_datagram_def isZeroServer_def)
qed

theorem qrtr_allocate_end_to_end_witness:
  "\<exists>t' frame resp cid. Write sample_env (Packet_Marshal (request_packet
       (sample_ctl_entry CTLGetClientID) 0 [encodeCTLServiceOnlyTLV 3])) sample_transport = Some (None, t') \<and>
     qt_rxCh t' = [frame] \<and> UnmarshalPacket frame = Inr resp \<and> pkt_TransactionID resp = 1 \<and>
     fst (allocate_response 3 resp (newClient 1)) = Inr cid \<and> cid \<noteq> 0"
proof -
  obtain srv t1 where r: "resolveService sample_env 3 sample_transport = (Inr srv, t1)"
    using sample_resolve by blast
  have rx: "qt_rxCh sample_transport = []" by (simp add: sample_transport_def newQRTRTransport_def)
  show ?thesis
    using qrtr_allocate_end_to_end [OF _ _ _ r, of "sample_ctl_entry CTLGetClientID" "newClient 1"]
    by (fastforce simp: sample_ctl_entry_def sample_env_def qrtrRxQueueSize_def rx
        sample_transport_def newQRTRTransport_def)
qed

theorem qrtr_no_socket_leak_witness:
  "\<exists>t. qrtr_step\<^sup>*\<^sup>* (newQRTRTransport \<lparr>sq_node = 1, sq_port = 0\<rparr>) t \<and>
     set (qt_openSocks t) = (qc_sock \<circ> snd) ` set (qt_clients t) \<and> qt_clients t \<noteq> []"
proof -
  obtain srv t1 where r: "resolveService sample_env 3 sample_transport = (Inr srv, t1)"
    using sample_resolve by blast
  obtain t2 r' where al: "allocateCID (snd (open_sock t1)) = (r', t2)" by fastforce
  have o: "\<not> qt_closed (snd (open_sock t1))" "length (qt_rxCh (snd (open_sock t1))) < qrtrRxQueueSize"
    using resolveService_core [OF r]
    by (simp_all add: open_sock_def sample_transport_def newQRTRTransport_def qrtrRxQueueSize_def)
  obtain t' cl where t': "install_client sample_env 1 3 srv (qt_nextSock t1) (snd (open_sock t1)) = Some (None, t')"
    "map_of (qt_clients t') 3 = Some cl"
    using install_client_ok [OF o al] by blast
  have wf: "wf_packet (request_packet (sample_ctl_entry CTLGetClientID) 0 [encodeCTLServiceOnlyTLV 3])"
    by (simp add: wf_packet_def packet_body_length_def request_packet_def frame_overhead_def
        encodeCTLServiceOnlyTLV_def sample_ctl_entry_def)
  have "Write sample_env (Packet_Marshal (request_packet (sample_ctl_entry CTLGetClientID) 0
      [encodeCTLServiceOnlyTLV 3])) sample_transport = Some (None, t')"
    unfolding Write_Packet_Marshal [OF wf] using r t'(1)
    by (simp add: request_packet_def ctl_dispatch_def sample_ctl_entry_def handleAllocateClientID_def
        sample_env_def open_sock_def)
  then have "qrtr_step\<^sup>*\<^sup>* sample_transport t'" by (blast intro: do_write)
  moreover have "qt_clients t' \<noteq> []" using t'(2) by auto
  ultimately show ?thesis
    using qrtr_no_socket_leak [of "\<lparr>sq_node = 1, sq_port = 0\<rparr>" t' 3 cl]
    by (intro exI [of _ t']) (simp add: sample_transport_def)
qed

lemma resolve_wait_finds:
  assumes "\<not> qt_closed t" and "unmarshalQRTRCtrlPkt d = Inr pkt" and "cp_cmd pkt = qrtrTypeNewServer"
    and "\<not> isZeroServer pkt" and "ucast (cp_service pkt) = service"
  shows "\<exists>srv t'. resolve_wait service (pre @ d # post) t = (Inr srv, t')"
  using assms(1)
proof (induction pre arbitrary: t)
  case Nil
  have "map_of (qt_services (runCtrlReader_datagram d t)) service \<noteq> None"
    using assms(2-5) by (simp add: runCtrlReader_datagram_def update_conv')
  then show ?case using Nil by (cases post) (auto split: option.splits)
next
  case (Cons b pre)
  have "\<not> qt_closed (runCtrlReader_datagram b t)"
    using Cons.prems by (auto simp: runCtrlReader_datagram_def split: sum.splits)
  with Cons show ?case by (auto split: option.splits)
qed

text \<open>
  service lookup.  An open transport that can send finds a service it does not know yet as
  soon as its announcement is among the control datagrams that arrive before the deadline,
  whatever else arrives, after asking the name server for exactly that service.
\<close>

theorem resolveService_finds_announced:
  assumes "\<not> qt_closed t" and "env_sendErr env = None" and "map_of (qt_services t) service = None"
    and "env_arrivals env = pre @ marshalQRTRCtrlPkt pkt # post"
    and "cp_cmd pkt = qrtrTypeNewServer" and "\<not> isZeroServer pkt" and "ucast (cp_service pkt) = service"
  shows "\<exists>srv t'. resolveService env service t = (Inr srv, t') \<and>
    qt_sent t' = qt_sent t @ [(None, marshalQRTRCtrlPkt (newLookupRequest (ucast service)), qt_ctrlTarget t)]"
proof -
  have u: "unmarshalQRTRCtrlPkt (marshalQRTRCtrlPkt pkt) = Inr pkt"
    using ctrlpkt.unmarshal_marshal [of pkt "[]"] by simp
  have sent: "resolve_wait service ds t0 = (r, t'') \<Longrightarrow> qt_sent t'' = qt_sent t0" for ds t0 r t''
    by (induction service ds t0 rule: resolve_wait.induct)
      (auto simp: runCtrlReader_datagram_def split: option.splits if_splits sum.splits)
  have "\<not> qt_closed (ctrl_send (ucast service) t)" using assms(1) by (simp add: ctrl_send_def)
  from resolve_wait_finds [OF this u assms(5-7), of pre post]
  obtain srv t' where "resolve_wait service (env_arrivals env) (ctrl_send (ucast service) t) = (Inr srv, t')"
    unfolding assms(4) by blast
  with sent [OF this] assms(1-3) show ?thesis by (simp add: resolveService_def ctrl_send_def)
qed

theorem resolveService_finds_announced_witness:
  "\<exists>srv t'. resolveService sample_env 3 sample_transport = (Inr srv, t')"
  using resolveService_finds_announced [of sample_transport sample_env 3 "[]"
      "\<lparr>cp_cmd = qrtrTypeNewServer, cp_service = 3, cp_instance = 1, cp_node = 0, cp_port = 9\<rparr>" "[]"]
  by (auto simp: sample_env_def sample_transport_def newQRTRTransport_def isZeroServer_def)

definition announced_versions :: "(u16 \<times> qrtrService) list \<Rightarrow> ServiceVersion list" where
  "announced_versions services =
     map (\<lambda>(id, s). \<lparr>sv_ServiceType = ucast id, sv_Major = qs_versionMajor s, sv_Minor = 0\<rparr>)
       (filter (\<lambda>(id, _). id \<le> 0xFF) services)"

lemma version_reply_value_eq: "version_reply_value services = version_list_bytes (announced_versions services)"
  by (simp add: version_reply_value_def version_list_bytes_def announced_versions_def version_entry_bytes_def
      Let_def case_prod_unfold comp_def not_less)

text \<open>
  the version query over QRTR.  The reply the transport makes up is read by the client's own
  parser as exactly the one-byte services the name server announced, with the major version of
  the announcement and minor version zero.
\<close>

theorem qrtr_versions_end_to_end:
  assumes "te_service entry = ServiceControl" and "te_txID entry \<le> 0xFF" and "te_msgID entry = CTLGetVersionInfo"
    and "\<not> qt_closed t" and "length (qt_rxCh t) < qrtrRxQueueSize"
    and "length (announced_versions (qt_services (enumerateServices env t))) < 256"
  shows "\<exists>t' frame resp. Write env (Packet_Marshal (request_packet entry 0 [])) t = Some (None, t') \<and>
    qt_rxCh t' = qt_rxCh t @ [frame] \<and> UnmarshalPacket frame = Inr resp \<and>
    GetServiceVersions (Inr resp) = Inr (announced_versions (qt_services (enumerateServices env t)))"
proof -
  let ?t1 = "enumerateServices env t"
  let ?vs = "announced_versions (qt_services ?t1)"
  let ?v = "\<lparr>tlv_Type = 0x01, tlv_Value = version_list_bytes ?vs\<rparr> :: TLV"
  let ?frame = "marshalCTLResponseFrame (ucast (te_txID entry)) CTLGetVersionInfo [qrtrSuccessResultTLV, ?v]"
  have wf: "wf_packet (request_packet entry 0 [])"
    using assms(1,2) by (simp add: wf_packet_def packet_body_length_def request_packet_def frame_overhead_def)
  have W: "Write env (Packet_Marshal (request_packet entry 0 [])) t =
      Some (None, ?t1\<lparr>qt_rxCh := qt_rxCh t @ [?frame]\<rparr>)"
    unfolding Write_Packet_Marshal [OF wf] using assms(1,3,4,5)
    by (simp add: request_packet_def ctl_dispatch_def handleGetVersionInfo_def version_reply_value_eq
        replyCTL_def pushRx_def enumerateServices_core Let_def)
  have "length (version_list_bytes ?vs) = 5 * length ?vs + 1" by (simp add: version_list_bytes_def)
  then have len: "length (tlv_bytes [qrtrSuccessResultTLV, ?v]) + 11 < 65536"
    using assms(6) by (simp add: qrtrSuccessResultTLV_def)
  have "FindTLV [qrtrSuccessResultTLV, ?v] 0x01 = Some ?v" by (simp add: qrtrSuccessResultTLV_def)
  from parse_version_list [OF assms(6) this, of "[]"]
  have "parseServiceVersionList [qrtrSuccessResultTLV, ?v] = Inr ?vs" by simp
  with UnmarshalPacket_CTLResponse [OF len] W show ?thesis
    by (intro exI [of _ "?t1\<lparr>qt_rxCh := qt_rxCh t @ [?frame]\<rparr>"] exI [of _ ?frame])
      (simp add: GetServiceVersions_def success_result)
qed

theorem qrtr_versions_end_to_end_witness:
  "\<exists>t' frame resp. Write (sample_env\<lparr>env_arrivals := []\<rparr>) (Packet_Marshal (request_packet
       (sample_ctl_entry CTLGetVersionInfo) 0 []))
       (sample_transport\<lparr>qt_services := [(3, \<lparr>qs_node = 0, qs_port = 9, qs_versionMajor = 1\<rparr>)]\<rparr>) = Some (None, t') \<and>
     qt_rxCh t' = [frame] \<and> UnmarshalPacket frame = Inr resp \<and>
     GetServiceVersions (Inr resp) = Inr [\<lparr>sv_ServiceType = 3, sv_Major = 1, sv_Minor = 0\<rparr>]"
  using qrtr_versions_end_to_end [of "sample_ctl_entry CTLGetVersionInfo"
      "sample_transport\<lparr>qt_services := [(3, \<lparr>qs_node = 0, qs_port = 9, qs_versionMajor = 1\<rparr>)]\<rparr>"
      "sample_env\<lparr>env_arrivals := []\<rparr>"]
  by (simp add: sample_ctl_entry_def sample_transport_def newQRTRTransport_def sample_env_def
      qrtrRxQueueSize_def enumerateServices_def ctrl_send_def announced_versions_def)

text \<open>
  the data path.  A packet the client writes for a service with a registered client leaves as
  exactly its service data unit, without the frame header, on that client's socket to that
  service's address; and a service data unit a socket delivers reaches the reader as one frame
  that unmarshals to the packet it holds, under that client's service and identifier.
\<close>

theorem qrtr_data_path:
  assumes "wf_packet p" and "pkt_ServiceType p \<noteq> ServiceControl"
    and "map_of (qt_clients t) (pkt_ServiceType p) = Some cl" and "env_sendErr env = None"
    and "length (qt_rxCh t) < qrtrRxQueueSize" and "\<not> qt_closed t" and "qc_service cl = pkt_ServiceType p"
    and "length (tlv_bytes tlvs) + 7 + frame_overhead (pkt_ServiceType p) < 65536"
    and "unat (svc_Length h) = length (tlv_bytes tlvs)"
  shows "Write env (Packet_Marshal p) t =
      Some (None, t\<lparr>qt_sent := qt_sent t @ [(Some (qc_sock cl), packet_body p, qc_peer cl)]\<rparr>) \<and>
    (\<exists>frame. runClientReader_datagram False cl (ServiceHeader_Marshal h @ tlv_bytes tlvs) t =
        Some (t\<lparr>qt_rxCh := qt_rxCh t @ [frame]\<rparr>) \<and>
      UnmarshalPacket frame = Inr \<lparr>pkt_ServiceType = qc_service cl, pkt_ClientID = qc_clientID cl,
        pkt_TransactionID = svc_TransactionID h, pkt_MessageID = svc_MessageID h,
        pkt_IsIndication = (svc_ControlFlags h AND 0x04 \<noteq> 0), pkt_TLVs = tlvs\<rparr>)"
proof -
  have "ServiceHeader_Marshal h \<noteq> []" by (simp add: ServiceHeader_Marshal_def)
  moreover have "list_all wf_tlv tlvs" using assms(8) by (intro list_all_wf_tlv) simp
  ultimately show ?thesis
    using assms UnmarshalPacket_service_sdu [of "pkt_ServiceType p" tlvs h "qc_clientID cl"]
    by (intro conjI exI [of _ "rebuildFrame (pkt_ServiceType p) (qc_clientID cl)
        (ServiceHeader_Marshal h @ tlv_bytes tlvs)"]) (simp_all add: Write_Packet_Marshal handleDataWrite_def runClientReader_datagram_def pushRx_def)
qed

theorem qrtr_data_path_witness:
  "\<exists>t'. Write sample_env (Packet_Marshal (sample_packet 0x102))
      (sample_transport\<lparr>qt_clients := [(0x102, \<lparr>qc_clientID = 4, qc_service = 0x102, qc_sock = 0,
         qc_peer = \<lparr>sq_node = 0, sq_port = 9\<rparr>\<rparr>)]\<rparr>) = Some (None, t') \<and>
     qt_sent t' = [(Some 0, packet_body (sample_packet 0x102), \<lparr>sq_node = 0, sq_port = 9\<rparr>)]"
  using qrtr_data_path [OF sample_packet_wf(2), of
      "sample_transport\<lparr>qt_clients := [(0x102, \<lparr>qc_clientID = 4, qc_service = 0x102, qc_sock = 0,
         qc_peer = \<lparr>sq_node = 0, sq_port = 9\<rparr>\<rparr>)]\<rparr>"
      "\<lparr>qc_clientID = 4, qc_service = 0x102, qc_sock = 0, qc_peer = \<lparr>sq_node = 0, sq_port = 9\<rparr>\<rparr>"
      sample_env "[]" "\<lparr>svc_ControlFlags = 2, svc_TransactionID = 1, svc_MessageID = 2, svc_Length = 0\<rparr>"]
  by (simp add: sample_packet_def sample_transport_def newQRTRTransport_def sample_env_def
      qrtrRxQueueSize_def frame_overhead_def)

end
