(* ===== verification/ModemReset.thy ===== *)
theory ModemReset
  imports Prelude
begin

text \<open>
  The modem-reset path of the manager: \<^verbatim>\<open>enqueueModemResetEvent\<close> with its two deferred functions
  (\<^verbatim>\<open>src/pkg/manager/uim_recovery.go\<close>), \<^verbatim>\<open>handleModemResetEvent\<close>, \<^verbatim>\<open>hasPendingModemReset\<close>, \<^verbatim>\<open>waitResetQuietWindow\<close>,
  \<^verbatim>\<open>stopScheduledTimers\<close> and the check of the context in \<^verbatim>\<open>scheduleAfter\<close> (\<^verbatim>\<open>src/pkg/manager/manager.go\<close>).

  Every stretch of code under \<^verbatim>\<open>modemResetMu\<close>, and every non-blocking send on \<^verbatim>\<open>eventCh\<close>, is one definition
  that returns where its goroutine goes on; \<^verbatim>\<open>reset_step\<close> interleaves any number of such goroutines with
  the timers, the event loop, the other senders on the channel, and the calls that stop the timers or end the context. Times are nanoseconds; a zero
  \<^verbatim>\<open>time.Time\<close> is \<^term>\<open>None\<close>. A \<^verbatim>\<open>scheduleAfter\<close> appears in the timer list in the step that decides on
  it: no other goroutine reads the list, and a timer may fire at any later step.
\<close>

section \<open>State\<close>

datatype internalEvent = eventModemReset | otherEvent nat

text \<open>The two functions handed to \<^verbatim>\<open>scheduleAfter\<close>, and the places where a goroutine inside
  \<^verbatim>\<open>enqueueModemResetEvent\<close> or inside such a function holds no lock.\<close>

datatype reset_timer = DeferredEnqueue string | DeferredRetry string
datatype reset_pc =
    AtEntry string
  | AtSend string
  | AtFull string
  | AtDeferredSend string
  | AtDeferredFull string

record reset_state =
  rs_recovering :: bool
  rs_pending :: bool
  rs_deferred :: bool
  rs_enqueuedAt :: "int option"
  rs_dedupWindow :: int
  rs_eventCh :: "internalEvent list"
  rs_timers :: "reset_timer list"
  rs_ctxDone :: bool
  rs_resetEvents :: u64
  rs_resetCoalesced :: u64

definition eventCh_cap :: nat where "eventCh_cap = 16"
definition defaultModemResetDedupWindow :: int where "defaultModemResetDedupWindow = 10 ^ 9"

definition init_reset :: reset_state where
  "init_reset = \<lparr>rs_recovering = False, rs_pending = False, rs_deferred = False, rs_enqueuedAt = None,
     rs_dedupWindow = defaultModemResetDedupWindow, rs_eventCh = [], rs_timers = [], rs_ctxDone = False,
     rs_resetEvents = 0, rs_resetCoalesced = 0\<rparr>"

section \<open>Critical sections\<close>

definition coalesce :: "reset_state \<Rightarrow> reset_state" where
  "coalesce s = s\<lparr>rs_resetCoalesced := rs_resetCoalesced s + 1\<rparr>"

definition push_event :: "internalEvent \<Rightarrow> reset_state \<Rightarrow> reset_state option" where
  "push_event e s =
     (if length (rs_eventCh s) < eventCh_cap then Some (s\<lparr>rs_eventCh := rs_eventCh s @ [e]\<rparr>) else None)"

definition in_dedup_window :: "int \<Rightarrow> reset_state \<Rightarrow> bool" where
  "in_dedup_window now s =
     (case rs_enqueuedAt s of None \<Rightarrow> False | Some t \<Rightarrow> now - t < rs_dedupWindow s)"

lemma in_dedup_window_counters [simp]:
  "in_dedup_window now (s\<lparr>rs_resetEvents := n\<rparr>) = in_dedup_window now s"
  by (simp add: in_dedup_window_def split: option.split)

text \<open>Each section returns where the goroutine goes on, \<^term>\<open>None\<close> when it returns.\<close>

definition enqueue_entry :: "int \<Rightarrow> string \<Rightarrow> reset_state \<Rightarrow> reset_pc option \<times> reset_state" where
  "enqueue_entry now source s0 =
     (let s = s0\<lparr>rs_resetEvents := rs_resetEvents s0 + 1\<rparr> in
      if rs_recovering s then (None, coalesce (s\<lparr>rs_pending := True\<rparr>))
      else if in_dedup_window now s then (None, coalesce s)
      else (Some (AtSend source), s\<lparr>rs_enqueuedAt := Some now\<rparr>))"

definition enqueue_send :: "string \<Rightarrow> reset_state \<Rightarrow> reset_pc option \<times> reset_state" where
  "enqueue_send source s =
     (case push_event eventModemReset s of Some s' \<Rightarrow> (None, s') | None \<Rightarrow> (Some (AtFull source), s))"

definition enqueue_full :: "string \<Rightarrow> reset_state \<Rightarrow> reset_pc option \<times> reset_state" where
  "enqueue_full source s =
     (None,
      if rs_deferred s then coalesce (s\<lparr>rs_pending := True\<rparr>)
      else s\<lparr>rs_deferred := True, rs_timers := rs_timers s @ [DeferredEnqueue source]\<rparr>)"

definition deferred_entry :: "int \<Rightarrow> string \<Rightarrow> reset_state \<Rightarrow> reset_pc option \<times> reset_state" where
  "deferred_entry now source s0 =
     (let s = s0\<lparr>rs_deferred := False\<rparr> in
      if rs_recovering s then (None, coalesce (s\<lparr>rs_pending := True\<rparr>))
      else (Some (AtDeferredSend source), s\<lparr>rs_enqueuedAt := Some now\<rparr>))"

definition deferred_send :: "string \<Rightarrow> reset_state \<Rightarrow> reset_pc option \<times> reset_state" where
  "deferred_send source s =
     (case push_event eventModemReset s of Some s' \<Rightarrow> (None, s') | None \<Rightarrow> (Some (AtDeferredFull source), s))"

definition deferred_full :: "string \<Rightarrow> reset_state \<Rightarrow> reset_pc option \<times> reset_state" where
  "deferred_full source s =
     (None,
      coalesce (s\<lparr>rs_deferred := True, rs_pending := True,
        rs_timers := rs_timers s @ [DeferredRetry source]\<rparr>))"

definition deferred_retry :: "string \<Rightarrow> reset_state \<Rightarrow> reset_pc option \<times> reset_state" where
  "deferred_retry source s =
     (Some (AtEntry (source @ ''_deferred_retry'')), s\<lparr>rs_deferred := False, rs_enqueuedAt := None\<rparr>)"

fun run_section :: "int \<Rightarrow> reset_pc \<Rightarrow> reset_state \<Rightarrow> reset_pc option \<times> reset_state" where
  "run_section now (AtEntry source) s = enqueue_entry now source s"
| "run_section now (AtSend source) s = enqueue_send source s"
| "run_section now (AtFull source) s = enqueue_full source s"
| "run_section now (AtDeferredSend source) s = deferred_send source s"
| "run_section now (AtDeferredFull source) s = deferred_full source s"

fun fire_timer :: "int \<Rightarrow> reset_timer \<Rightarrow> reset_state \<Rightarrow> reset_pc option \<times> reset_state" where
  "fire_timer now (DeferredEnqueue source) s = deferred_entry now source s"
| "fire_timer now (DeferredRetry source) s = deferred_retry source s"

text \<open>\<^verbatim>\<open>stopScheduledTimers\<close>, which \<^verbatim>\<open>Stop\<close>, \<^verbatim>\<open>StartCoreContext\<close> and every \<^verbatim>\<open>cleanup\<close> call, the one inside a
  recovery included: the timers are gone, and nothing tells the deferred flag. (It clears two flags of other timers as well.)\<close>

definition stopScheduledTimers :: "reset_state \<Rightarrow> reset_state" where
  "stopScheduledTimers s = s\<lparr>rs_timers := []\<rparr>"

text \<open>\<^verbatim>\<open>enqueueModemResetEvent\<close> as one call: its sections one after the other.\<close>

definition enqueueModemResetEvent :: "int \<Rightarrow> string \<Rightarrow> reset_state \<Rightarrow> reset_state" where
  "enqueueModemResetEvent now source s0 =
     (case enqueue_entry now source s0 of
        (None, s1) \<Rightarrow> s1
      | (Some _, s1) \<Rightarrow>
          (case enqueue_send source s1 of
             (None, s2) \<Rightarrow> s2
           | (Some _, s2) \<Rightarrow> snd (enqueue_full source s2)))"

text \<open>\<^verbatim>\<open>handleModemResetEvent\<close> before and after \<^verbatim>\<open>doRecoverFromModemReset\<close>: the start says whether the
  recovery runs, the end which goroutine position follows.\<close>

definition handleModemReset_start :: "reset_state \<Rightarrow> bool \<times> reset_state" where
  "handleModemReset_start s =
     (if rs_recovering s then (False, coalesce (s\<lparr>rs_pending := True\<rparr>))
      else (True, s\<lparr>rs_recovering := True, rs_pending := False\<rparr>))"

definition handleModemReset_finish :: "reset_state \<Rightarrow> reset_pc option \<times> reset_state" where
  "handleModemReset_finish s =
     (if rs_pending s then Some (AtEntry ''pending_after_recovery'') else None,
      s\<lparr>rs_recovering := False, rs_pending := False\<rparr>)"

definition hasPendingModemReset :: "reset_state \<Rightarrow> bool" where
  "hasPendingModemReset s = rs_pending s"

text \<open>\<^verbatim>\<open>waitResetQuietWindow\<close>: each turn reads the pending flag, the clock and whether the context
  is done; \<^term>\<open>None\<close> stands for a wait that the listed turns do not finish.\<close>

datatype quiet_result = QuietOk | QuietPendingReset | QuietCtxDone

fun quiet_turns :: "int \<Rightarrow> (bool \<times> int \<times> bool) list \<Rightarrow> quiet_result option" where
  "quiet_turns deadline [] = None"
| "quiet_turns deadline ((pending, now, done) # ts) =
     (if pending then Some QuietPendingReset
      else if deadline < now then Some QuietOk
      else if done then Some QuietCtxDone
      else quiet_turns deadline ts)"

definition defaultModemResetQuietWindow :: int where "defaultModemResetQuietWindow = 10 ^ 9"

definition waitResetQuietWindow :: "int \<Rightarrow> int \<Rightarrow> (bool \<times> int \<times> bool) list \<Rightarrow> quiet_result option" where
  "waitResetQuietWindow quietWindow start =
     quiet_turns (start + (if quietWindow \<le> 0 then defaultModemResetQuietWindow else quietWindow))"

section \<open>Runs\<close>

text \<open>A configuration: the state and the goroutines between two sections. The first argument of a step says whether the step drops
  a reset that was scheduled on a timer: the timers are stopped, or a timer fires after the context of the event loops
  was cancelled, when the wrapper of \<^verbatim>\<open>scheduleAfter\<close> ignores it.\<close>

type_synonym reset_config = "reset_state \<times> reset_pc list"

definition go_on :: "reset_pc option \<times> reset_state \<Rightarrow> reset_pc list \<Rightarrow> reset_config" where
  "go_on r pcs = (snd r, (case fst r of None \<Rightarrow> pcs | Some pc \<Rightarrow> pc # pcs))"

inductive reset_step :: "bool \<Rightarrow> reset_config \<Rightarrow> reset_config \<Rightarrow> bool" where
  request: "reset_step False (s, pcs) (s, AtEntry source # pcs)"
| section_step: "reset_step False (s, pcs1 @ pc # pcs2) (go_on (run_section now pc s) (pcs1 @ pcs2))"
| timer: "rs_timers s = tms1 @ tm # tms2 \<Longrightarrow> \<not> rs_ctxDone s \<Longrightarrow>
    reset_step False (s, pcs) (go_on (fire_timer now tm (s\<lparr>rs_timers := tms1 @ tms2\<rparr>)) pcs)"
| timer_ignored: "rs_timers s = tms1 @ tm # tms2 \<Longrightarrow> rs_ctxDone s \<Longrightarrow>
    reset_step True (s, pcs) (s\<lparr>rs_timers := tms1 @ tms2\<rparr>, pcs)"
| timers_stopped: "reset_step (rs_timers s \<noteq> []) (s, pcs) (stopScheduledTimers s, pcs)"
| context_cancelled: "reset_step False (s, pcs) (s\<lparr>rs_ctxDone := True\<rparr>, pcs)"
| context_renewed: "reset_step False (s, pcs) (s\<lparr>rs_ctxDone := False\<rparr>, pcs)"
| other_event: "push_event (otherEvent n) s = Some s' \<Longrightarrow> reset_step False (s, pcs) (s', pcs)"
| loop_other: "rs_eventCh s = otherEvent n # es \<Longrightarrow> \<not> rs_recovering s \<Longrightarrow>
    reset_step False (s, pcs) (s\<lparr>rs_eventCh := es\<rparr>, pcs)"
| loop_reset: "rs_eventCh s = eventModemReset # es \<Longrightarrow> \<not> rs_recovering s \<Longrightarrow>
    handleModemReset_start (s\<lparr>rs_eventCh := es\<rparr>) = (True, s') \<Longrightarrow> reset_step False (s, pcs) (s', pcs)"
| recovered: "rs_recovering s \<Longrightarrow> reset_step False (s, pcs) (go_on (handleModemReset_finish s) pcs)"

text \<open>The runs from the start, with whether a scheduled reset was dropped on the way.\<close>

inductive reset_run :: "bool \<Rightarrow> reset_config \<Rightarrow> bool" where
  start: "reset_run False (init_reset, [])"
| more: "reset_run d c \<Longrightarrow> reset_step d' c c' \<Longrightarrow> reset_run (d \<or> d') c'"

lemma reset_run_quiet: "(reset_step False)\<^sup>*\<^sup>* c c' \<Longrightarrow> reset_run d c \<Longrightarrow> reset_run d c'"
  by (induction rule: rtranclp_induct) (auto dest: reset_run.more[where d' = False])

text \<open>What still leads to a recovery: an event in the channel, the deferred flag (whose timer is scheduled unless it was
  dropped), or a goroutine past the checks of the entry section; or a goroutine at the entry that cannot be deduplicated.\<close>

fun past_entry :: "reset_pc \<Rightarrow> bool" where
  "past_entry (AtEntry _) = False"
| "past_entry _ = True"

definition reset_owed :: "reset_config \<Rightarrow> bool" where
  "reset_owed c \<longleftrightarrow>
     eventModemReset \<in> set (rs_eventCh (fst c)) \<or> rs_deferred (fst c) \<or> (\<exists>pc \<in> set (snd c). past_entry pc) \<or>
     rs_enqueuedAt (fst c) = None \<and> snd c \<noteq> []"

definition reset_inv :: "bool \<Rightarrow> reset_config \<Rightarrow> bool" where
  "reset_inv dropped c \<longleftrightarrow>
     length (rs_eventCh (fst c)) \<le> eventCh_cap \<and>
     (rs_deferred (fst c) \<longrightarrow> rs_timers (fst c) \<noteq> [] \<or> dropped) \<and>
     (rs_pending (fst c) \<longrightarrow> rs_recovering (fst c) \<or> reset_owed c)"

lemmas section_defs = enqueue_entry_def enqueue_send_def enqueue_full_def deferred_entry_def
  deferred_send_def deferred_full_def deferred_retry_def coalesce_def push_event_def Let_def go_on_def
lemmas reset_inv_defs = reset_inv_def reset_owed_def

lemma section_inv:
  "reset_inv d (s, pcs1 @ pc # pcs2) \<Longrightarrow> reset_inv d (go_on (run_section now pc s) (pcs1 @ pcs2))"
  by (cases pc) (auto simp: reset_inv_defs section_defs in_dedup_window_def split: if_splits option.splits)

lemma timer_inv:
  assumes "reset_inv d (s, pcs)" and "rs_timers s = tms1 @ tm # tms2"
  shows "reset_inv d (go_on (fire_timer now tm (s\<lparr>rs_timers := tms1 @ tms2\<rparr>)) pcs)"
  using assms
  by (cases tm) (auto simp: reset_inv_defs section_defs split: if_splits option.splits)

lemma reset_step_inv: "reset_step d' c c' \<Longrightarrow> reset_inv d c \<Longrightarrow> reset_inv (d \<or> d') c'"
proof (induction rule: reset_step.induct)
  case (loop_reset s es s' pcs)
  then show ?case by (auto simp: handleModemReset_start_def reset_inv_defs)
next
  case (recovered s pcs)
  then show ?case by (auto simp: handleModemReset_finish_def go_on_def reset_inv_defs)
next
  case (other_event n s s' pcs)
  then show ?case by (auto simp: reset_inv_defs push_event_def split: if_splits)
next
  case (section_step s pcs1 pc pcs2 now)
  then show ?case by (simp add: section_inv)
next
  case (timer s tms1 tm tms2 pcs now)
  then show ?case by (simp add: timer_inv)
qed (auto simp: reset_inv_defs stopScheduledTimers_def)

lemma reset_run_inv: "reset_run d c \<Longrightarrow> reset_inv d c"
proof (induction rule: reset_run.induct)
  case start
  show ?case by (simp add: init_reset_def reset_inv_def)
next
  case (more d c d' c')
  then show ?case by (blast intro: reset_step_inv)
qed

lemma fill_events:
  "n \<le> eventCh_cap \<Longrightarrow>
     (reset_step False)\<^sup>*\<^sup>* (init_reset, []) (init_reset\<lparr>rs_eventCh := map otherEvent [0..<n]\<rparr>, [])"
proof (induction n)
  case 0
  then show ?case by (simp add: init_reset_def)
next
  case (Suc n)
  have "reset_step False (init_reset\<lparr>rs_eventCh := map otherEvent [0..<n]\<rparr>, [])
          (init_reset\<lparr>rs_eventCh := map otherEvent [0..<Suc n]\<rparr>, [])"
    using Suc.prems by (intro reset_step.other_event[where n = n]) (simp add: push_event_def)
  with Suc show ?case by (simp add: rtranclp.rtrancl_into_rtrancl)
qed

text \<open>A run of one goroutine, and of one timer, as single steps.\<close>

lemma reset_step_only:
  "run_section now pc s = (r, s') \<Longrightarrow> reset_step False (s, [pc]) (s', (case r of None \<Rightarrow> [] | Some pc' \<Rightarrow> [pc']))"
  using reset_step.section_step[of s "[]" pc "[]" now] by (auto simp: go_on_def split: option.split)

lemma reset_step_timer_only:
  "rs_timers s = [tm] \<Longrightarrow> \<not> rs_ctxDone s \<Longrightarrow> fire_timer now tm (s\<lparr>rs_timers := []\<rparr>) = (r, s') \<Longrightarrow>
     reset_step False (s, []) (s', (case r of None \<Rightarrow> [] | Some pc \<Rightarrow> [pc]))"
  using reset_step.timer[of s "[]" tm "[]" "[]" now] by (auto simp: go_on_def split: option.split)

definition blocked_reset :: reset_state where
  "blocked_reset = init_reset\<lparr>rs_eventCh := map otherEvent [0..<16], rs_pending := True, rs_deferred := True,
     rs_enqueuedAt := Some 5, rs_timers := [DeferredRetry ''t''], rs_resetEvents := 1, rs_resetCoalesced := 1\<rparr>"

lemma blocked_reset_reachable: "reset_run False (blocked_reset, [])"
proof -
  let ?s0 = "init_reset\<lparr>rs_eventCh := map otherEvent [0..<16]\<rparr>"
  let ?s1 = "?s0\<lparr>rs_enqueuedAt := Some 1, rs_resetEvents := 1\<rparr>"
  let ?s2 = "?s1\<lparr>rs_deferred := True, rs_timers := [DeferredEnqueue ''t'']\<rparr>"
  let ?s3 = "?s1\<lparr>rs_enqueuedAt := Some 5\<rparr>"
  have "(reset_step False)\<^sup>*\<^sup>* (init_reset, []) (?s0, [])"
    using fill_events[of 16] by (simp add: eventCh_cap_def)
  also have "reset_step False (?s0, []) (?s0, [AtEntry ''t''])" by (rule reset_step.request)
  also have "reset_step False (?s0, [AtEntry ''t'']) (?s1, [AtSend ''t''])"
    using reset_step_only[of 1 "AtEntry ''t''" ?s0]
    by (simp add: section_defs in_dedup_window_def init_reset_def)
  also have "reset_step False (?s1, [AtSend ''t'']) (?s1, [AtFull ''t''])"
    using reset_step_only[of 1 "AtSend ''t''" ?s1] by (simp add: section_defs eventCh_cap_def)
  also have "reset_step False (?s1, [AtFull ''t'']) (?s2, [])"
    using reset_step_only[of 1 "AtFull ''t''" ?s1] by (simp add: section_defs init_reset_def)
  also have "reset_step False (?s2, []) (?s3, [AtDeferredSend ''t''])"
    using reset_step_timer_only[of ?s2 "DeferredEnqueue ''t''" 5] by (simp add: section_defs init_reset_def)
  also have "reset_step False (?s3, [AtDeferredSend ''t'']) (?s3, [AtDeferredFull ''t''])"
    using reset_step_only[of 1 "AtDeferredSend ''t''" ?s3] by (simp add: section_defs eventCh_cap_def)
  also have "reset_step False (?s3, [AtDeferredFull ''t'']) (blocked_reset, [])"
    using reset_step_only[of 1 "AtDeferredFull ''t''" ?s3]
    by (simp add: section_defs init_reset_def blocked_reset_def)
  finally show ?thesis by (rule reset_run_quiet) (rule reset_run.start)
qed

text \<open>The quiet window ends well exactly when the first turn that ends it comes after the window
  and neither it nor a turn before it saw a pending reset.\<close>

lemma quiet_window_ok_iff:
  "quiet_turns deadline turns = Some QuietOk \<longleftrightarrow>
     (\<exists>now d rest. dropWhile (\<lambda>(p, t, d). \<not> p \<and> t \<le> deadline \<and> \<not> d) turns = (False, now, d) # rest \<and>
        deadline < now)"
  by (induction turns) (auto split: if_splits)

lemma quiet_window_pending:
  "(True, now, d) \<in> set turns \<Longrightarrow> \<forall>(p, t, d') \<in> set turns. t \<le> deadline \<Longrightarrow>
     quiet_turns deadline turns \<in> {Some QuietPendingReset, Some QuietCtxDone}"
  by (induction turns) (auto split: if_splits)

section \<open>Properties\<close>

text \<open>C9: A pending reset is never orphaned, as long as no reset that was scheduled on a timer is dropped. In every run, the
  stops of the manager and its recoveries included: the internal event channel holds at most sixteen events; the deferred flag
  stands only while a timer will enqueue a reset, or after one was dropped; and while no recovery
  runs, a pending reset is carried by a reset event in the channel, by the deferred flag, or by a goroutine inside the enqueue
  that the debounce window cannot stop. A scheduled reset is dropped (\<open>dropped\<close>) when the timers are stopped, which every \<^verbatim>\<open>cleanup\<close>
  does, or when its timer fires after the context was cancelled; the next lemma shows that the reset is then lost.\<close>

theorem pending_reset_never_orphaned:
  assumes "reset_run dropped (s, pcs)"
  shows "length (rs_eventCh s) \<le> eventCh_cap \<and>
    (rs_deferred s \<longrightarrow> rs_timers s \<noteq> [] \<or> dropped) \<and>
    (hasPendingModemReset s \<and> \<not> rs_recovering s \<longrightarrow>
       eventModemReset \<in> set (rs_eventCh s) \<or>
       rs_deferred s \<and> (rs_timers s \<noteq> [] \<or> dropped) \<or>
       (\<exists>pc \<in> set pcs. past_entry pc \<or> \<not> in_dedup_window now s))"
  using reset_run_inv[OF assms]
  by (cases pcs) (auto simp: reset_inv_defs hasPendingModemReset_def in_dedup_window_def)

theorem pending_reset_never_orphaned_witness:
  "reset_run False (blocked_reset, []) \<and> rs_timers blocked_reset \<noteq> []"
  using pending_reset_never_orphaned[OF blocked_reset_reachable] blocked_reset_reachable
  by (simp add: hasPendingModemReset_def blocked_reset_def)

text \<open>The exception is real: when the timers are stopped while a blocked reset waits on one of them, the pending flag and the
  deferred flag stay behind with nothing to act on them. From then on a request that finds the channel full is only noted in
  the pending flag, because the deferred flag claims that a timer is scheduled.\<close>

lemma stopped_timer_orphans_reset:
  "reset_run True (stopScheduledTimers blocked_reset, [])"
  "hasPendingModemReset (stopScheduledTimers blocked_reset)" "\<not> rs_recovering (stopScheduledTimers blocked_reset)"
  "eventModemReset \<notin> set (rs_eventCh (stopScheduledTimers blocked_reset))" "rs_timers (stopScheduledTimers blocked_reset) = []"
  using reset_run.more[OF blocked_reset_reachable reset_step.timers_stopped]
  by (auto simp: blocked_reset_def stopScheduledTimers_def hasPendingModemReset_def init_reset_def)

lemma stale_deferral_swallows_resets:
  assumes "rs_deferred s" "rs_timers s = []" "\<not> rs_recovering s" "eventCh_cap \<le> length (rs_eventCh s)"
  shows "rs_timers (enqueueModemResetEvent now source s) = []"
    "rs_eventCh (enqueueModemResetEvent now source s) = rs_eventCh s" "rs_deferred (enqueueModemResetEvent now source s)"
  using assms by (simp_all add: enqueueModemResetEvent_def section_defs)

text \<open>A request for a modem reset is accepted in one of three ways and lost in none: while a
  recovery runs it sets the pending flag, in the debounce window of an earlier request it changes
  only the counters, and otherwise an event is in the channel or a timer is scheduled, and the
  debounce window starts anew.\<close>

theorem enqueueModemResetEvent_cases:
  "let s' = enqueueModemResetEvent now source s in
   if rs_recovering s then
     s' = s\<lparr>rs_resetEvents := rs_resetEvents s + 1, rs_pending := True, rs_resetCoalesced := rs_resetCoalesced s + 1\<rparr>
   else if in_dedup_window now s then
     s' = s\<lparr>rs_resetEvents := rs_resetEvents s + 1, rs_resetCoalesced := rs_resetCoalesced s + 1\<rparr>
   else
     rs_enqueuedAt s' = Some now \<and> rs_resetEvents s' = rs_resetEvents s + 1 \<and> \<not> rs_recovering s' \<and>
     (if length (rs_eventCh s) < eventCh_cap
      then rs_eventCh s' = rs_eventCh s @ [eventModemReset] \<and> rs_timers s' = rs_timers s
      else rs_deferred s' \<and>
        (if rs_deferred s then rs_pending s' else rs_timers s' = rs_timers s @ [DeferredEnqueue source]))"
  by (simp add: enqueueModemResetEvent_def section_defs)

text \<open>A reset that arrives while a recovery runs is lost when the recovery ends inside the
  debounce window: the recovery clears the pending flag and its own enqueue is deduplicated, so that
  nothing but the counters is left of it. This needs a recovery shorter than the window.\<close>

theorem pending_reset_deduplicated:
  assumes "rs_recovering s" and "rs_pending s" and "rs_enqueuedAt s = Some t" and "now - t < rs_dedupWindow s"
    and "handleModemReset_finish s = (Some (AtEntry source), s1)"
  shows "enqueueModemResetEvent now source s1 =
    s\<lparr>rs_recovering := False, rs_pending := False, rs_resetEvents := rs_resetEvents s + 1,
      rs_resetCoalesced := rs_resetCoalesced s + 1\<rparr>"
  using assms by (auto simp: handleModemReset_finish_def enqueueModemResetEvent_def section_defs in_dedup_window_def)

theorem pending_reset_deduplicated_witness:
  "enqueueModemResetEvent 900000000 ''pending_after_recovery''
     (snd (handleModemReset_finish (init_reset\<lparr>rs_recovering := True, rs_pending := True, rs_enqueuedAt := Some 1\<rparr>))) =
   init_reset\<lparr>rs_enqueuedAt := Some 1, rs_resetEvents := 1, rs_resetCoalesced := 1\<rparr>"
  using pending_reset_deduplicated[of "init_reset\<lparr>rs_recovering := True, rs_pending := True, rs_enqueuedAt := Some 1\<rparr>" 1 900000000
    "''pending_after_recovery''" "init_reset\<lparr>rs_enqueuedAt := Some 1\<rparr>"]
  by (simp add: handleModemReset_finish_def init_reset_def defaultModemResetDedupWindow_def)

end
