(* ===== verification/ServiceRecovery.thy ===== *)
theory ServiceRecovery
  imports Errors ModemReset
begin

text \<open>
  Recovery of QMI services, \<^verbatim>\<open>src/pkg/manager/service_recovery.go\<close> and the first part of
  \<^verbatim>\<open>src/pkg/manager/uim_recovery.go\<close>, with \<^verbatim>\<open>recoverWMSState\<close> of \<^verbatim>\<open>manager.go\<close>: which errors are worth a
  recovery, the timeout window and the storm detector, the signals for a core recovery, the lazy
  allocation and the rebind of a service client, and the wrapper that runs an operation, rebinds and
  retries it.

  The source repeats one text for seven services. The text is here once, with the points where the
  copies differ as functions of the service (\<^verbatim>\<open>checks_support\<close>, \<^verbatim>\<open>ensure_escalates\<close>, \<^verbatim>\<open>retry_escalates\<close>, what follows
  a rebind), and every function of the source is its instance below.

  The state is the part of \<^verbatim>\<open>Manager\<close> this code reads or writes. A handle stands for an allocated client
  identifier, \<open>rv_open\<close> for those whose release the modem has not confirmed; a release can fail, which the source only
  logs, and \<open>rv_unreleased\<close> records the identifiers for which it did. Nothing below writes \<open>rv_calls\<close>: it is where the function
  that runs under a recovery may note its calls, which RecoveryProofs counts. The clock advances in allocations, releases and in
  the operations. \<open>rv_locked\<close> holds the recovery mutexes of the calling goroutine; \<^term>\<open>None\<close> as a result
  means that it waits for a mutex of its own. Test hooks are nil, and logging is left out.
\<close>

section \<open>State\<close>

datatype svc = DMS | NAS | WMS | VOICE | IMS | IMSA | UIM

fun svc_name :: "svc \<Rightarrow> string" where
  "svc_name DMS = ''DMS''"
| "svc_name NAS = ''NAS''"
| "svc_name WMS = ''WMS''"
| "svc_name VOICE = ''VOICE''"
| "svc_name IMS = ''IMS''"
| "svc_name IMSA = ''IMSA''"
| "svc_name UIM = ''UIM''"

fun svc_unavailable :: "svc \<Rightarrow> string" where
  "svc_unavailable DMS = ''dms service not available''"
| "svc_unavailable NAS = ''nas service not available''"
| "svc_unavailable WMS = ''wms service not available''"
| "svc_unavailable VOICE = ''voice service not available''"
| "svc_unavailable IMS = ''ims service not available''"
| "svc_unavailable IMSA = ''imsa service not available''"
| "svc_unavailable UIM = ''uim service not available''"

type_synonym serviceTimeoutKey = "string \<times> string"
type_synonym serviceTimeoutWindow = "int \<times> int"

record recov =
  rv_now :: int
  rv_client :: "nat option"
  rv_handle :: "svc \<Rightarrow> nat option"
  rv_open :: "nat list"
  rv_unreleased :: "nat list"
  rv_next :: nat
  rv_hasService :: "svc \<Rightarrow> bool"
  rv_locked :: "svc list"
  rv_disableTimeoutRecovery :: bool
  rv_threshold :: int
  rv_window :: int
  rv_timeouts :: "serviceTimeoutKey \<Rightarrow> serviceTimeoutWindow option"
  rv_serviceTimeouts :: u64
  rv_timeoutRecoveries :: u64
  rv_globalTimeouts :: "(string \<times> int) list"
  rv_stormAt :: "int option"
  rv_coreReady :: bool
  rv_stopping :: bool
  rv_cooldown :: int
  rv_lastSignal :: "int option"
  rv_wmsReplay :: bool
  rv_reset :: reset_state
  rv_calls :: "(nat \<times> go_error option) list"

definition defaultServiceTimeoutThreshold :: int where "defaultServiceTimeoutThreshold = 5"
definition defaultServiceTimeoutWindow :: int where "defaultServiceTimeoutWindow = 600 * 10 ^ 9"
definition defaultUIMRecoverCooldown :: int where "defaultUIMRecoverCooldown = 30 * 10 ^ 9"
definition stormWindow :: int where "stormWindow = 5 * 10 ^ 9"
definition stormMinSvcs :: nat where "stormMinSvcs = 2"
definition stormCooldown :: int where "stormCooldown = 30 * 10 ^ 9"

section \<open>Which errors are worth a recovery\<close>

definition recoverable_code :: "QMIError \<Rightarrow> bool" where
  "recoverable_code qe \<longleftrightarrow>
     qe_ErrorCode qe \<in> {QMIErrInvalidID, QMIErrDeviceNotReady, QMIErrClientIDsExhausted} \<or>
     qe_Service qe = ServiceControl \<and> qe_MessageID qe = CTLGetClientID"

definition recoverable_text :: "string \<Rightarrow> string \<Rightarrow> go_error \<Rightarrow> bool" where
  "recoverable_text service unavailableText err =
     (let lowerErr = ToLower (err_text err); lowerSvc = ToLower (TrimSpace service);
          needle0 = TrimSpace unavailableText;
          needle = (if needle0 = [] then lowerSvc @ '' service not available'' else needle0) in
      Contains lowerErr (ToLower needle) \<or> Contains lowerErr (ToLower not_ready_prefix @ lowerSvc) \<or>
      Contains lowerErr ''allocate client id request failed'')"

fun shouldRecoverServiceError :: "string \<Rightarrow> go_error option \<Rightarrow> string \<Rightarrow> bool" where
  "shouldRecoverServiceError service None unavailableText = False"
| "shouldRecoverServiceError service (Some err) unavailableText =
     (if errors_Is err ErrServiceNotSupported then False
      else if (case as_not_ready err of
                 Some s \<Rightarrow> EqualFold (TrimSpace s) (TrimSpace service) | None \<Rightarrow> False) then True
      else if (case GetQMIError err of Some qe \<Rightarrow> recoverable_code qe | None \<Rightarrow> False) then True
      else recoverable_text service unavailableText err)"

fun isServiceTimeoutError :: "go_error option \<Rightarrow> bool" where
  "isServiceTimeoutError None = False"
| "isServiceTimeoutError (Some err) =
     (if errors_Is err ErrCanceled then False
      else errors_Is err ErrDeadlineExceeded \<or> as_timeout err \<noteq> None)"

section \<open>Counting timeouts\<close>

definition timeout_key :: "string \<Rightarrow> string \<Rightarrow> serviceTimeoutKey" where
  "timeout_key service op =
     (ToUpper (TrimSpace service), if TrimSpace op = [] then ''*'' else TrimSpace op)"

definition detectTimeoutStorm :: "string \<Rightarrow> recov \<Rightarrow> recov" where
  "detectTimeoutStorm service s =
     (let now = rv_now s;
          live = filter (\<lambda>(svc, t). \<not> (now - t > stormWindow)) (rv_globalTimeouts s);
          seen = AList.update service now live in
      if length seen \<ge> stormMinSvcs \<and>
         (case rv_stormAt s of None \<Rightarrow> True | Some t \<Rightarrow> now - t > stormCooldown)
      then s\<lparr>rv_globalTimeouts := [], rv_stormAt := Some now,
             rv_reset := enqueueModemResetEvent now ''timeout_storm'' (rv_reset s)\<rparr>
      else s\<lparr>rv_globalTimeouts := seen\<rparr>)"

definition timeout_threshold :: "recov \<Rightarrow> int" where
  "timeout_threshold s =
     (let t = (if rv_threshold s \<le> 0 then defaultServiceTimeoutThreshold else rv_threshold s) in
      if t \<le> 1 then 1 else t)"

definition timeout_window :: "recov \<Rightarrow> int" where
  "timeout_window s = (if rv_window s \<le> 0 then defaultServiceTimeoutWindow else rv_window s)"

definition bump_window :: "int \<Rightarrow> int \<Rightarrow> serviceTimeoutWindow option \<Rightarrow> serviceTimeoutWindow" where
  "bump_window now window st =
     (case st of None \<Rightarrow> (now, 1)
      | Some (first, count) \<Rightarrow> if now - first > window then (now, 1) else (first, count + 1))"

definition recordServiceTimeoutFailure :: "string \<Rightarrow> string \<Rightarrow> recov \<Rightarrow> bool \<times> recov" where
  "recordServiceTimeoutFailure service op s0 =
     (let s = s0\<lparr>rv_serviceTimeouts := rv_serviceTimeouts s0 + 1\<rparr> in
      if rv_disableTimeoutRecovery s then (False, s)
      else
        let key = timeout_key service op;
            st = bump_window (rv_now s) (timeout_window s) (rv_timeouts s key);
            s1 = s\<lparr>rv_timeouts := (rv_timeouts s)(key \<mapsto> st)\<rparr>;
            s2 = detectTimeoutStorm (fst key) s1 in
        (snd st \<ge> timeout_threshold s,
         if snd st = timeout_threshold s
         then s2\<lparr>rv_timeoutRecoveries := rv_timeoutRecoveries s2 + 1\<rparr> else s2))"

definition shouldRecoverServiceOperationError ::
  "string \<Rightarrow> string \<Rightarrow> go_error option \<Rightarrow> string \<Rightarrow> recov \<Rightarrow> bool \<times> recov" where
  "shouldRecoverServiceOperationError service op err unavailableText s =
     (if shouldRecoverServiceError service err unavailableText then (True, s)
      else if \<not> isServiceTimeoutError err then (False, s)
      else recordServiceTimeoutFailure service op s)"

definition noteServiceOperationSuccess :: "string \<Rightarrow> string \<Rightarrow> recov \<Rightarrow> recov" where
  "noteServiceOperationSuccess service op s =
     s\<lparr>rv_timeouts := (rv_timeouts s)(timeout_key service op := None)\<rparr>"

section \<open>Asking for a core recovery\<close>

text \<open>The recovery mutex of a service is not reentrant: a goroutine that locks it again never
  returns, which is the result \<^term>\<open>None\<close>.\<close>

definition lock :: "svc \<Rightarrow> recov \<Rightarrow> recov option" where
  "lock k s = (if k \<in> set (rv_locked s) then None else Some (s\<lparr>rv_locked := k # rv_locked s\<rparr>))"

definition unlock :: "svc \<Rightarrow> recov \<Rightarrow> recov" where
  "unlock k s = s\<lparr>rv_locked := remove1 k (rv_locked s)\<rparr>"

definition triggerCoreRecoveryFromService :: "string \<Rightarrow> recov \<Rightarrow> (bool \<times> recov) option" where
  "triggerCoreRecoveryFromService service s =
     (if \<not> rv_coreReady s \<or> rv_stopping s then Some (False, s)
      else
        let cooldown = (if rv_cooldown s \<le> 0 then defaultUIMRecoverCooldown else rv_cooldown s);
            now = rv_now s in
        case lock UIM s of
          None \<Rightarrow> None
        | Some s1 \<Rightarrow>
            if (case rv_lastSignal s1 of None \<Rightarrow> False | Some t \<Rightarrow> now - t < cooldown)
            then Some (False, unlock UIM s1)
            else
              let s2 = unlock UIM (s1\<lparr>rv_lastSignal := Some now\<rparr>) in
              Some (True, s2\<lparr>rv_reset := enqueueModemResetEvent now (ToLower service @ ''_recovery'') (rv_reset s2)\<rparr>))"

definition RequestCoreRecovery :: "string \<Rightarrow> recov \<Rightarrow> bool \<times> recov" where
  "RequestCoreRecovery reason s =
     (if \<not> rv_coreReady s \<or> rv_stopping s then (False, s)
      else (True, s\<lparr>rv_reset := enqueueModemResetEvent (rv_now s) ''post_switch_recovery'' (rv_reset s)\<rparr>))"
section \<open>Allocating and rebinding a service client\<close>

text \<open>The world outside the calling goroutine: how the modem answers the \<open>n\<close>-th allocation of a
  client identifier, which client the manager has and how late it is when the answer arrives; whether the modem confirms
  the release of an identifier and how long that takes; what other goroutines did while this one waited for a recovery mutex.\<close>

record alloc_answer =
  aa_err :: "go_error option"
  aa_client :: "nat option"
  aa_elapsed :: int

record world =
  w_alloc :: "svc \<Rightarrow> nat \<Rightarrow> nat \<Rightarrow> alloc_answer"
  w_release :: "nat \<Rightarrow> recov \<Rightarrow> go_error option \<times> int"
  w_wait :: "svc \<Rightarrow> recov \<Rightarrow> recov"

definition NewService :: "world \<Rightarrow> svc \<Rightarrow> nat \<Rightarrow> recov \<Rightarrow> (go_error + nat) \<times> recov" where
  "NewService W k client s =
     (let a = w_alloc W k client (rv_next s);
          s1 = s\<lparr>rv_next := rv_next s + 1, rv_client := aa_client a, rv_now := rv_now s + aa_elapsed a\<rparr> in
      case aa_err a of
        Some e \<Rightarrow> (Inl e, s1)
      | None \<Rightarrow> (Inr (rv_next s), s1\<lparr>rv_open := rv_next s # rv_open s1\<rparr>))"

text \<open>\<^verbatim>\<open>Close\<close> of a service sends the release of its identifier; the manager goes on whatever comes back.\<close>

definition close_handle :: "world \<Rightarrow> nat \<Rightarrow> recov \<Rightarrow> recov" where
  "close_handle W h s =
     (case w_release W h s of
        (None, d) \<Rightarrow> s\<lparr>rv_open := remove1 h (rv_open s), rv_now := rv_now s + d\<rparr>
      | (Some _, d) \<Rightarrow> s\<lparr>rv_unreleased := h # rv_unreleased s, rv_now := rv_now s + d\<rparr>)"

definition set_handle :: "svc \<Rightarrow> nat option \<Rightarrow> recov \<Rightarrow> recov" where
  "set_handle k h s = s\<lparr>rv_handle := (rv_handle s)(k := h)\<rparr>"

fun checks_support :: "svc \<Rightarrow> bool" where
  "checks_support IMS = True"
| "checks_support IMSA = True"
| "checks_support _ = False"

definition hasQMIService :: "svc \<Rightarrow> recov \<Rightarrow> bool" where
  "hasQMIService k s = (case rv_client s of None \<Rightarrow> False | Some _ \<Rightarrow> rv_hasService s k)"

definition unsupported :: "svc \<Rightarrow> recov \<Rightarrow> bool" where
  "unsupported k s \<longleftrightarrow> checks_support k \<and> \<not> hasQMIService k s"

text \<open>The allocation shared by the two operations: a handle obtained for a client that the manager has
  replaced in the meantime is closed again.\<close>

definition allocate_service :: "world \<Rightarrow> svc \<Rightarrow> nat \<Rightarrow> recov \<Rightarrow> (go_error + nat) \<times> recov" where
  "allocate_service W k client s =
     (case NewService W k client s of
        (Inl e, s1) \<Rightarrow> (Inl (ErrWrap (''allocate '' @ svc_name k @ '' client failed: '') e []), s1)
      | (Inr h, s1) \<Rightarrow>
          if rv_client s1 \<noteq> Some client then (Inl (ErrServiceNotReady (svc_name k)), close_handle W h s1)
          else (Inr h, set_handle k (Some h) s1))"

definition ensure_service :: "world \<Rightarrow> svc \<Rightarrow> recov \<Rightarrow> ((go_error + nat) \<times> recov) option" where
  "ensure_service W k s =
     (case rv_handle s k of
        Some h \<Rightarrow> Some (Inr h, s)
      | None \<Rightarrow>
          if rv_client s = None then Some (Inl (ErrServiceNotReady (svc_name k)), s)
          else if unsupported k s then Some (Inl ErrServiceNotSupported, s)
          else
            (case lock k s of
               None \<Rightarrow> None
             | Some s0 \<Rightarrow> let s1 = (w_wait W k s)\<lparr>rv_locked := rv_locked s0\<rparr> in
                 (case rv_handle s1 k of
                    Some h \<Rightarrow> Some (Inr h, unlock k s1)
                  | None \<Rightarrow>
                      (case rv_client s1 of
                         None \<Rightarrow> Some (Inl (ErrServiceNotReady (svc_name k)), unlock k s1)
                       | Some client \<Rightarrow>
                           if unsupported k s1 then Some (Inl ErrServiceNotSupported, unlock k s1)
                           else let (r, s2) = allocate_service W k client s1 in Some (r, unlock k s2)))))"

definition drop_previous :: "world \<Rightarrow> svc \<Rightarrow> recov \<Rightarrow> recov" where
  "drop_previous W k s =
     (case rv_handle s k of None \<Rightarrow> s | Some h \<Rightarrow> close_handle W h (set_handle k None s))"

text \<open>A rebind; \<open>after\<close> is what the WMS and UIM variants do once the new handle is installed.\<close>

definition rebind_service ::
  "world \<Rightarrow> (recov \<Rightarrow> recov option) \<Rightarrow> svc \<Rightarrow> recov \<Rightarrow> ((go_error + nat) \<times> recov) option" where
  "rebind_service W after k s =
     (let s1 = drop_previous W k s in
      case rv_client s of
        None \<Rightarrow> Some (Inl (ErrServiceNotReady (svc_name k)), s1)
      | Some client \<Rightarrow>
          if unsupported k s1 then Some (Inl ErrServiceNotSupported, s1)
          else
            (case allocate_service W k client s1 of
               (Inl e, s2) \<Rightarrow> Some (Inl e, s2)
             | (Inr h, s2) \<Rightarrow> (case after s2 of None \<Rightarrow> None | Some s3 \<Rightarrow> Some (Inr h, s3))))"

section \<open>Operations with recovery\<close>

text \<open>Which failures of which service ask for a core recovery.\<close>

fun ensure_escalates :: "svc \<Rightarrow> bool" where
  "ensure_escalates NAS = True"
| "ensure_escalates UIM = True"
| "ensure_escalates _ = False"

abbreviation rebind_escalates :: "svc \<Rightarrow> bool" where "rebind_escalates \<equiv> ensure_escalates"

fun retry_escalates :: "svc \<Rightarrow> bool" where
  "retry_escalates DMS = True"
| "retry_escalates NAS = True"
| "retry_escalates UIM = True"
| "retry_escalates _ = False"

definition shouldRecover :: "svc \<Rightarrow> string \<Rightarrow> go_error \<Rightarrow> recov \<Rightarrow> bool \<times> recov" where
  "shouldRecover k op err =
     shouldRecoverServiceOperationError (svc_name k) op (Some err) (svc_unavailable k)"

definition escalate :: "bool \<Rightarrow> svc \<Rightarrow> recov \<Rightarrow> recov option" where
  "escalate b k s = (if b then map_option snd (triggerCoreRecoveryFromService (svc_name k) s) else Some s)"

definition rebind_error :: "svc \<Rightarrow> string \<Rightarrow> go_error \<Rightarrow> go_error \<Rightarrow> go_error" where
  "rebind_error k op rebindErr err =
     ErrWrap (op @ '': '' @ svc_name k @ '' rebind failed: '') rebindErr ('' (initial='' @ err_text err @ '')'')"

type_synonym 'v service_fn = "nat \<Rightarrow> recov \<Rightarrow> ('v \<times> go_error option) \<times> recov"

definition retry_op ::
  "svc \<Rightarrow> string \<Rightarrow> 'v service_fn \<Rightarrow> nat \<Rightarrow> recov \<Rightarrow> (('v \<times> go_error option) \<times> recov) option" where
  "retry_op k op fn h s =
     (case fn h s of
        ((v, None), s1) \<Rightarrow> Some ((v, None), noteServiceOperationSuccess (svc_name k) op s1)
      | ((v, Some retryErr), s1) \<Rightarrow>
          (let (again, s2) = shouldRecover k op retryErr s1 in
           map_option (Pair (v, Some retryErr)) (escalate (again \<and> retry_escalates k) k s2)))"

definition rebind_and_retry ::
  "world \<Rightarrow> (recov \<Rightarrow> recov option) \<Rightarrow> svc \<Rightarrow> string \<Rightarrow> 'v \<Rightarrow> 'v service_fn \<Rightarrow> go_error \<Rightarrow> recov
     \<Rightarrow> (('v \<times> go_error option) \<times> recov) option" where
  "rebind_and_retry W after k op zero fn err s =
     (case lock k s of
        None \<Rightarrow> None
      | Some s1 \<Rightarrow>
          (case rebind_service W after k s1 of
             None \<Rightarrow> None
           | Some (Inl rebindErr, s2) \<Rightarrow>
               map_option (Pair (zero, Some (rebind_error k op rebindErr err)))
                 (escalate (rebind_escalates k) k (unlock k s2))
           | Some (Inr h, s2) \<Rightarrow> retry_op k op fn h (unlock k s2)))"

definition with_recovery ::
  "world \<Rightarrow> (recov \<Rightarrow> recov option) \<Rightarrow> svc \<Rightarrow> string \<Rightarrow> 'v \<Rightarrow> 'v service_fn \<Rightarrow> recov
     \<Rightarrow> (('v \<times> go_error option) \<times> recov) option" where
  "with_recovery W after k op zero fn s =
     (case ensure_service W k s of
        None \<Rightarrow> None
      | Some (Inl err, s1) \<Rightarrow>
          (let (rec, s2) = shouldRecover k op err s1 in
           map_option (Pair (zero, Some err)) (escalate (rec \<and> ensure_escalates k) k s2))
      | Some (Inr h, s1) \<Rightarrow>
          (case fn h s1 of
             ((v, None), s2) \<Rightarrow> Some ((v, None), noteServiceOperationSuccess (svc_name k) op s2)
           | ((v, Some err), s2) \<Rightarrow>
               (let (rec, s3) = shouldRecover k op err s2 in
                if \<not> rec then Some ((v, Some err), s3)
                else rebind_and_retry W after k op zero fn err s3)))"
section \<open>The seven services\<close>

text \<open>A function that returns only an error, as one that returns a value as well.\<close>

definition error_fn :: "(nat \<Rightarrow> recov \<Rightarrow> go_error option \<times> recov) \<Rightarrow> unit service_fn" where
  "error_fn fn h s = (case fn h s of (e, s') \<Rightarrow> (((), e), s'))"

definition only_error :: "((unit \<times> go_error option) \<times> recov) option \<Rightarrow> (go_error option \<times> recov) option" where
  "only_error r = map_option (\<lambda>((_, e), s). (e, s)) r"

definition ensureDMSService :: "world \<Rightarrow> recov \<Rightarrow> ((go_error + nat) \<times> recov) option" where
  "ensureDMSService W = ensure_service W DMS"

definition rebindDMSService :: "world \<Rightarrow> recov \<Rightarrow> ((go_error + nat) \<times> recov) option" where
  "rebindDMSService W = rebind_service W Some DMS"

definition shouldRecoverDMSError :: "string \<Rightarrow> go_error \<Rightarrow> recov \<Rightarrow> bool \<times> recov" where
  "shouldRecoverDMSError op err = shouldRecover DMS op err"

definition withDMSRecoveryValue ::
  "world \<Rightarrow> string \<Rightarrow> 'v \<Rightarrow> 'v service_fn \<Rightarrow> recov \<Rightarrow> (('v \<times> go_error option) \<times> recov) option" where
  "withDMSRecoveryValue W op zero fn = with_recovery W Some DMS op zero fn"

definition withDMSRecovery ::
  "world \<Rightarrow> string \<Rightarrow> (nat \<Rightarrow> recov \<Rightarrow> go_error option \<times> recov) \<Rightarrow> recov \<Rightarrow> (go_error option \<times> recov) option" where
  "withDMSRecovery W op fn s = only_error (withDMSRecoveryValue W op () (error_fn fn) s)"

definition ensureNASService :: "world \<Rightarrow> recov \<Rightarrow> ((go_error + nat) \<times> recov) option" where
  "ensureNASService W = ensure_service W NAS"

definition rebindNASService :: "world \<Rightarrow> recov \<Rightarrow> ((go_error + nat) \<times> recov) option" where
  "rebindNASService W = rebind_service W Some NAS"

definition shouldRecoverNASError :: "string \<Rightarrow> go_error \<Rightarrow> recov \<Rightarrow> bool \<times> recov" where
  "shouldRecoverNASError op err = shouldRecover NAS op err"

definition withNASRecoveryValue ::
  "world \<Rightarrow> string \<Rightarrow> 'v \<Rightarrow> 'v service_fn \<Rightarrow> recov \<Rightarrow> (('v \<times> go_error option) \<times> recov) option" where
  "withNASRecoveryValue W op zero fn = with_recovery W Some NAS op zero fn"

definition withNASRecovery ::
  "world \<Rightarrow> string \<Rightarrow> (nat \<Rightarrow> recov \<Rightarrow> go_error option \<times> recov) \<Rightarrow> recov \<Rightarrow> (go_error option \<times> recov) option" where
  "withNASRecovery W op fn s = only_error (withNASRecoveryValue W op () (error_fn fn) s)"

definition ensureVOICEService :: "world \<Rightarrow> recov \<Rightarrow> ((go_error + nat) \<times> recov) option" where
  "ensureVOICEService W = ensure_service W VOICE"

definition rebindVOICEService :: "world \<Rightarrow> recov \<Rightarrow> ((go_error + nat) \<times> recov) option" where
  "rebindVOICEService W = rebind_service W Some VOICE"

definition shouldRecoverVOICEError :: "string \<Rightarrow> go_error \<Rightarrow> recov \<Rightarrow> bool \<times> recov" where
  "shouldRecoverVOICEError op err = shouldRecover VOICE op err"

definition withVOICERecoveryValue ::
  "world \<Rightarrow> string \<Rightarrow> 'v \<Rightarrow> 'v service_fn \<Rightarrow> recov \<Rightarrow> (('v \<times> go_error option) \<times> recov) option" where
  "withVOICERecoveryValue W op zero fn = with_recovery W Some VOICE op zero fn"

definition withVOICERecovery ::
  "world \<Rightarrow> string \<Rightarrow> (nat \<Rightarrow> recov \<Rightarrow> go_error option \<times> recov) \<Rightarrow> recov \<Rightarrow> (go_error option \<times> recov) option" where
  "withVOICERecovery W op fn s = only_error (withVOICERecoveryValue W op () (error_fn fn) s)"

definition ensureIMSService :: "world \<Rightarrow> recov \<Rightarrow> ((go_error + nat) \<times> recov) option" where
  "ensureIMSService W = ensure_service W IMS"

definition rebindIMSService :: "world \<Rightarrow> recov \<Rightarrow> ((go_error + nat) \<times> recov) option" where
  "rebindIMSService W = rebind_service W Some IMS"

definition shouldRecoverIMSError :: "string \<Rightarrow> go_error \<Rightarrow> recov \<Rightarrow> bool \<times> recov" where
  "shouldRecoverIMSError op err = shouldRecover IMS op err"

definition withIMSRecoveryValue ::
  "world \<Rightarrow> string \<Rightarrow> 'v \<Rightarrow> 'v service_fn \<Rightarrow> recov \<Rightarrow> (('v \<times> go_error option) \<times> recov) option" where
  "withIMSRecoveryValue W op zero fn = with_recovery W Some IMS op zero fn"

definition withIMSRecovery ::
  "world \<Rightarrow> string \<Rightarrow> (nat \<Rightarrow> recov \<Rightarrow> go_error option \<times> recov) \<Rightarrow> recov \<Rightarrow> (go_error option \<times> recov) option" where
  "withIMSRecovery W op fn s = only_error (withIMSRecoveryValue W op () (error_fn fn) s)"

definition ensureIMSAService :: "world \<Rightarrow> recov \<Rightarrow> ((go_error + nat) \<times> recov) option" where
  "ensureIMSAService W = ensure_service W IMSA"

definition rebindIMSAService :: "world \<Rightarrow> recov \<Rightarrow> ((go_error + nat) \<times> recov) option" where
  "rebindIMSAService W = rebind_service W Some IMSA"

definition shouldRecoverIMSAError :: "string \<Rightarrow> go_error \<Rightarrow> recov \<Rightarrow> bool \<times> recov" where
  "shouldRecoverIMSAError op err = shouldRecover IMSA op err"

definition withIMSARecoveryValue ::
  "world \<Rightarrow> string \<Rightarrow> 'v \<Rightarrow> 'v service_fn \<Rightarrow> recov \<Rightarrow> (('v \<times> go_error option) \<times> recov) option" where
  "withIMSARecoveryValue W op zero fn = with_recovery W Some IMSA op zero fn"

definition withIMSARecovery ::
  "world \<Rightarrow> string \<Rightarrow> (nat \<Rightarrow> recov \<Rightarrow> go_error option \<times> recov) \<Rightarrow> recov \<Rightarrow> (go_error option \<times> recov) option" where
  "withIMSARecovery W op fn s = only_error (withIMSARecoveryValue W op () (error_fn fn) s)"

text \<open>The UIM service replays its indication registration on the new handle; the outcome is only
  logged, so \<open>register\<close> stands for what the request does to the rest of the state.\<close>

definition ensureUIMService :: "world \<Rightarrow> recov \<Rightarrow> ((go_error + nat) \<times> recov) option" where
  "ensureUIMService W = ensure_service W UIM"

definition rebindUIMService :: "world \<Rightarrow> (recov \<Rightarrow> recov) \<Rightarrow> recov \<Rightarrow> ((go_error + nat) \<times> recov) option" where
  "rebindUIMService W register = rebind_service W (Some \<circ> register) UIM"

definition shouldRecoverUIMError :: "string \<Rightarrow> go_error \<Rightarrow> recov \<Rightarrow> bool \<times> recov" where
  "shouldRecoverUIMError op err = shouldRecover UIM op err"

definition withUIMRecoveryValue ::
  "world \<Rightarrow> (recov \<Rightarrow> recov) \<Rightarrow> string \<Rightarrow> 'v \<Rightarrow> 'v service_fn \<Rightarrow> recov \<Rightarrow> (('v \<times> go_error option) \<times> recov) option" where
  "withUIMRecoveryValue W register op zero fn = with_recovery W (Some \<circ> register) UIM op zero fn"

definition withUIMRecovery ::
  "world \<Rightarrow> (recov \<Rightarrow> recov) \<Rightarrow> string \<Rightarrow> (nat \<Rightarrow> recov \<Rightarrow> go_error option \<times> recov) \<Rightarrow> recov
     \<Rightarrow> (go_error option \<times> recov) option" where
  "withUIMRecovery W register op fn s = only_error (withUIMRecoveryValue W register op () (error_fn fn) s)"

text \<open>The WMS service replays its readiness state: the requests of \<^verbatim>\<open>recoverWMSState\<close>, each run under
  the WMS recovery in turn. The replay flag is set meanwhile, so that a rebind inside the replay
  does not replay again: \<open>Some\<close> stands for that early return.\<close>

record wms_requests =
  wr_disableInd :: bool
  wr_eventReport :: "nat \<Rightarrow> recov \<Rightarrow> go_error option \<times> recov"
  wr_indicationRegister :: "nat \<Rightarrow> recov \<Rightarrow> go_error option \<times> recov"
  wr_getRoutes :: "bool service_fn"
  wr_cachedRoutes :: bool
  wr_setRoutes :: "nat \<Rightarrow> recov \<Rightarrow> go_error option \<times> recov"
  wr_transport :: "unit service_fn"

definition nested_WMS :: "world \<Rightarrow> string \<Rightarrow> (nat \<Rightarrow> recov \<Rightarrow> go_error option \<times> recov) \<Rightarrow> recov \<Rightarrow> recov option" where
  "nested_WMS W op fn s = map_option snd (with_recovery W Some WMS op () (error_fn fn) s)"

definition refreshWMSRouteState :: "world \<Rightarrow> wms_requests \<Rightarrow> recov \<Rightarrow> recov option" where
  "refreshWMSRouteState W R s =
     (case with_recovery W Some WMS ''WMSGetRoutes'' False (wr_getRoutes R) s of
        None \<Rightarrow> None
      | Some ((usable, e), s1) \<Rightarrow>
          if e = None \<and> usable \<or> \<not> wr_cachedRoutes R then Some s1
          else nested_WMS W ''WMSSetRoutes'' (wr_setRoutes R) s1)"

definition refreshWMSTransportState :: "world \<Rightarrow> wms_requests \<Rightarrow> recov \<Rightarrow> recov option" where
  "refreshWMSTransportState W R s =
     map_option snd (with_recovery W Some WMS ''WMSGetTransportNetworkRegistrationStatus'' () (wr_transport R) s)"

definition registerWMS :: "world \<Rightarrow> wms_requests \<Rightarrow> recov \<Rightarrow> recov option" where
  "registerWMS W R s =
     (if wr_disableInd R then Some s
      else Option.bind (nested_WMS W ''registerWMSEventReportWithContext'' (wr_eventReport R) s)
             (nested_WMS W ''registerWMSIndicationsWithContext'' (wr_indicationRegister R)))"

definition recoverWMSState :: "world \<Rightarrow> wms_requests \<Rightarrow> recov \<Rightarrow> recov option" where
  "recoverWMSState W R s =
     (if rv_handle s WMS = None then Some s
      else Option.bind (registerWMS W R s)
             (\<lambda>s1. Option.bind (refreshWMSRouteState W R s1) (refreshWMSTransportState W R)))"

definition maybeReplayWMSStateAfterRebind :: "world \<Rightarrow> wms_requests \<Rightarrow> recov \<Rightarrow> recov option" where
  "maybeReplayWMSStateAfterRebind W R s =
     (if rv_wmsReplay s then Some s
      else map_option (\<lambda>s1. s1\<lparr>rv_wmsReplay := False\<rparr>) (recoverWMSState W R (s\<lparr>rv_wmsReplay := True\<rparr>)))"

definition ensureWMSService :: "world \<Rightarrow> recov \<Rightarrow> ((go_error + nat) \<times> recov) option" where
  "ensureWMSService W = ensure_service W WMS"

definition rebindWMSService :: "world \<Rightarrow> wms_requests \<Rightarrow> recov \<Rightarrow> ((go_error + nat) \<times> recov) option" where
  "rebindWMSService W R = rebind_service W (maybeReplayWMSStateAfterRebind W R) WMS"

definition shouldRecoverWMSError :: "string \<Rightarrow> go_error \<Rightarrow> recov \<Rightarrow> bool \<times> recov" where
  "shouldRecoverWMSError op err = shouldRecover WMS op err"

definition withWMSRecoveryValue ::
  "world \<Rightarrow> wms_requests \<Rightarrow> string \<Rightarrow> 'v \<Rightarrow> 'v service_fn \<Rightarrow> recov \<Rightarrow> (('v \<times> go_error option) \<times> recov) option" where
  "withWMSRecoveryValue W R op zero fn = with_recovery W (maybeReplayWMSStateAfterRebind W R) WMS op zero fn"

definition withWMSRecovery ::
  "world \<Rightarrow> wms_requests \<Rightarrow> string \<Rightarrow> (nat \<Rightarrow> recov \<Rightarrow> go_error option \<times> recov) \<Rightarrow> recov
     \<Rightarrow> (go_error option \<times> recov) option" where
  "withWMSRecovery W R op fn s = only_error (withWMSRecoveryValue W R op () (error_fn fn) s)"

end
