(* ===== verification/RecoveryProofs.thy ===== *)
theory RecoveryProofs
  imports ServiceRecovery
begin

text \<open>
  Correctness of service recovery: what every piece of the recovery wrapper keeps, the whole wrapper keeps
  (the locale \<^verbatim>\<open>recovery_keeps\<close>, interpreted for the client-identifier invariant); the wrapper returns; what it
  returns; exactness of the timeout threshold and of the storm detector; spacing of core-recovery signals.
\<close>

section \<open>What the bookkeeping leaves alone\<close>

lemma detectTimeoutStorm_frame [simp]:
  "rv_now (detectTimeoutStorm svc s) = rv_now s"
  "rv_client (detectTimeoutStorm svc s) = rv_client s"
  "rv_handle (detectTimeoutStorm svc s) = rv_handle s"
  "rv_open (detectTimeoutStorm svc s) = rv_open s"
  "rv_unreleased (detectTimeoutStorm svc s) = rv_unreleased s"
  "rv_calls (detectTimeoutStorm svc s) = rv_calls s"
  "rv_next (detectTimeoutStorm svc s) = rv_next s"
  "rv_hasService (detectTimeoutStorm svc s) = rv_hasService s"
  "rv_locked (detectTimeoutStorm svc s) = rv_locked s"
  "rv_disableTimeoutRecovery (detectTimeoutStorm svc s) = rv_disableTimeoutRecovery s"
  "rv_threshold (detectTimeoutStorm svc s) = rv_threshold s"
  "rv_window (detectTimeoutStorm svc s) = rv_window s"
  "rv_timeouts (detectTimeoutStorm svc s) = rv_timeouts s"
  "rv_coreReady (detectTimeoutStorm svc s) = rv_coreReady s"
  "rv_stopping (detectTimeoutStorm svc s) = rv_stopping s"
  "rv_cooldown (detectTimeoutStorm svc s) = rv_cooldown s"
  "rv_lastSignal (detectTimeoutStorm svc s) = rv_lastSignal s"
  "rv_wmsReplay (detectTimeoutStorm svc s) = rv_wmsReplay s"
  by (simp_all add: detectTimeoutStorm_def Let_def)

lemma shouldRecover_frame [simp]:
  "rv_now (snd (shouldRecover k op err s)) = rv_now s"
  "rv_client (snd (shouldRecover k op err s)) = rv_client s"
  "rv_handle (snd (shouldRecover k op err s)) = rv_handle s"
  "rv_open (snd (shouldRecover k op err s)) = rv_open s"
  "rv_unreleased (snd (shouldRecover k op err s)) = rv_unreleased s"
  "rv_calls (snd (shouldRecover k op err s)) = rv_calls s"
  "rv_next (snd (shouldRecover k op err s)) = rv_next s"
  "rv_hasService (snd (shouldRecover k op err s)) = rv_hasService s"
  "rv_locked (snd (shouldRecover k op err s)) = rv_locked s"
  "rv_lastSignal (snd (shouldRecover k op err s)) = rv_lastSignal s"
  "rv_wmsReplay (snd (shouldRecover k op err s)) = rv_wmsReplay s"
  by (simp_all add: shouldRecover_def shouldRecoverServiceOperationError_def recordServiceTimeoutFailure_def Let_def)

lemma note_frame [simp]:
  "rv_client (noteServiceOperationSuccess n op s) = rv_client s"
  "rv_handle (noteServiceOperationSuccess n op s) = rv_handle s"
  "rv_open (noteServiceOperationSuccess n op s) = rv_open s"
  "rv_unreleased (noteServiceOperationSuccess n op s) = rv_unreleased s"
  "rv_calls (noteServiceOperationSuccess n op s) = rv_calls s"
  "rv_next (noteServiceOperationSuccess n op s) = rv_next s"
  "rv_locked (noteServiceOperationSuccess n op s) = rv_locked s"
  "rv_lastSignal (noteServiceOperationSuccess n op s) = rv_lastSignal s"
  by (simp_all add: noteServiceOperationSuccess_def)

lemma trigger_frame:
  assumes "triggerCoreRecoveryFromService n s = Some (b, s')"
  shows "rv_handle s' = rv_handle s" "rv_open s' = rv_open s" "rv_next s' = rv_next s"
    "rv_locked s' = rv_locked s" "rv_client s' = rv_client s" "rv_unreleased s' = rv_unreleased s" "rv_calls s' = rv_calls s"
  using assms
  by (auto simp: triggerCoreRecoveryFromService_def lock_def unlock_def Let_def split: if_splits)

lemma escalate_frame:
  assumes "escalate b k s = Some s'"
  shows "rv_handle s' = rv_handle s" "rv_open s' = rv_open s" "rv_next s' = rv_next s"
    "rv_locked s' = rv_locked s" "rv_client s' = rv_client s" "rv_unreleased s' = rv_unreleased s" "rv_calls s' = rv_calls s"
  using assms by (auto simp: escalate_def split: if_splits dest: trigger_frame)

section \<open>Client identifiers\<close>

text \<open>The identifiers that are open are exactly those that some service has, each of one service, and those whose release
  failed; none is both.\<close>

definition handles_ok :: "nat list \<Rightarrow> nat list \<Rightarrow> (svc \<Rightarrow> nat option) \<Rightarrow> nat \<Rightarrow> bool" where
  "handles_ok opened lost hs n \<longleftrightarrow>
     distinct opened \<and> distinct lost \<and> set opened = ran hs \<union> set lost \<and> ran hs \<inter> set lost = {} \<and> (\<forall>h \<in> set opened. h < n) \<and>
     (\<forall>k k' h. hs k = Some h \<and> hs k' = Some h \<longrightarrow> k = k')"

definition handles_inv :: "recov \<Rightarrow> bool" where
  "handles_inv s \<longleftrightarrow> handles_ok (rv_open s) (rv_unreleased s) (rv_handle s) (rv_next s)"

lemma ran_drop:
  assumes "handles_ok opened lost hs n" and "hs k = Some h"
  shows "ran (hs(k := None)) = ran hs - {h}" and "h \<in> ran hs"
proof -
  have inj: "hs k' = Some h \<longleftrightarrow> k' = k" for k'
    using assms unfolding handles_ok_def by blast
  have "x \<in> ran (hs(k := None)) \<longleftrightarrow> x \<in> ran hs - {h}" for x
    unfolding ran_def using inj by (auto, metis option.inject)
  then show "ran (hs(k := None)) = ran hs - {h}" by blast
  show "h \<in> ran hs" using assms(2) by (rule ranI)
qed

lemma handles_ok_drop:
  assumes "handles_ok opened lost hs n" and "hs k = Some h"
  shows "handles_ok (remove1 h opened) lost (hs(k := None)) n" and "handles_ok opened (h # lost) (hs(k := None)) n"
proof -
  have one: "\<forall>k1 k2 x. (hs(k := None)) k1 = Some x \<and> (hs(k := None)) k2 = Some x \<longrightarrow> k1 = k2"
    using assms(1) by (simp add: handles_ok_def)
  show "handles_ok (remove1 h opened) lost (hs(k := None)) n" "handles_ok opened (h # lost) (hs(k := None)) n"
    using ran_drop[OF assms] assms(1) one unfolding handles_ok_def by (simp_all, blast+)
qed

lemma handles_ok_add:
  assumes "handles_ok opened lost hs n" and "hs k = None"
  shows "handles_ok (n # opened) lost (hs(k \<mapsto> n)) (Suc n)"
proof -
  have "n \<notin> set opened" using assms(1) by (auto simp: handles_ok_def)
  then have "n \<notin> ran hs" "n \<notin> set lost" using assms(1) by (auto simp: handles_ok_def)
  then have fresh: "hs k' \<noteq> Some n" for k' by (metis ranI)
  have inj: "k1 = k2" if "(hs(k \<mapsto> n)) k1 = Some x" "(hs(k \<mapsto> n)) k2 = Some x" for k1 k2 x
    using that fresh[of k1] fresh[of k2] assms(1) unfolding handles_ok_def
    by (cases "k1 = k"; cases "k2 = k") auto
  show ?thesis
    unfolding handles_ok_def
  proof (intro conjI allI impI)
    show "distinct (n # opened)" "distinct lost" "set (n # opened) = ran (hs(k \<mapsto> n)) \<union> set lost" "ran (hs(k \<mapsto> n)) \<inter> set lost = {}"
      using \<open>n \<notin> set opened\<close> \<open>n \<notin> set lost\<close> assms by (auto simp: handles_ok_def ran_map_upd)
    show "\<forall>h \<in> set (n # opened). h < Suc n"
      using assms by (auto simp: handles_ok_def less_Suc_eq)
  qed (use inj in blast)
qed

text \<open>An identifier that was allocated and given back at once, with success or without.\<close>

lemma handles_ok_bounce:
  assumes "handles_ok opened lost hs n"
  shows "handles_ok (remove1 n (n # opened)) lost hs (Suc n)" and "handles_ok (n # opened) (n # lost) hs (Suc n)"
  using assms by (auto simp: handles_ok_def less_Suc_eq)

lemma handles_ok_next: "handles_ok opened lost hs n \<Longrightarrow> handles_ok opened lost hs (Suc n)"
  by (auto simp: handles_ok_def less_Suc_eq)

lemma handles_inv_cong:
  "rv_open s' = rv_open s \<Longrightarrow> rv_unreleased s' = rv_unreleased s \<Longrightarrow> rv_handle s' = rv_handle s \<Longrightarrow> rv_next s' = rv_next s \<Longrightarrow>
     handles_inv s' = handles_inv s"
  by (simp add: handles_inv_def)

lemma lock_frame:
  assumes "lock k s = Some s'"
  shows "rv_open s' = rv_open s" "rv_handle s' = rv_handle s" "rv_next s' = rv_next s"
    "rv_client s' = rv_client s" "rv_locked s' = k # rv_locked s" "k \<notin> set (rv_locked s)"
    "rv_lastSignal s' = rv_lastSignal s" "rv_wmsReplay s' = rv_wmsReplay s"
    "rv_unreleased s' = rv_unreleased s" "rv_calls s' = rv_calls s"
  using assms by (auto simp: lock_def split: if_splits)

lemma unlock_frame [simp]:
  "rv_open (unlock k s) = rv_open s" "rv_handle (unlock k s) = rv_handle s"
  "rv_next (unlock k s) = rv_next s" "rv_client (unlock k s) = rv_client s"
  "rv_lastSignal (unlock k s) = rv_lastSignal s" "rv_wmsReplay (unlock k s) = rv_wmsReplay s"
  "rv_locked (unlock k s) = remove1 k (rv_locked s)"
  "rv_unreleased (unlock k s) = rv_unreleased s" "rv_calls (unlock k s) = rv_calls s"
  by (simp_all add: unlock_def)

lemma handles_inv_unlock [simp]: "handles_inv (unlock k s) = handles_inv s"
  by (rule handles_inv_cong) simp_all

lemma close_handle_frame [simp]:
  "rv_handle (close_handle W h s) = rv_handle s" "rv_client (close_handle W h s) = rv_client s"
  "rv_locked (close_handle W h s) = rv_locked s" "rv_lastSignal (close_handle W h s) = rv_lastSignal s"
  "rv_wmsReplay (close_handle W h s) = rv_wmsReplay s" "rv_next (close_handle W h s) = rv_next s"
  "rv_calls (close_handle W h s) = rv_calls s" "rv_hasService (close_handle W h s) = rv_hasService s"
  by (simp_all add: close_handle_def split: prod.split option.split)

lemma set_handle_frame [simp]:
  "rv_handle (set_handle k h s) = (rv_handle s)(k := h)" "rv_client (set_handle k h s) = rv_client s"
  "rv_locked (set_handle k h s) = rv_locked s" "rv_lastSignal (set_handle k h s) = rv_lastSignal s"
  "rv_wmsReplay (set_handle k h s) = rv_wmsReplay s" "rv_next (set_handle k h s) = rv_next s"
  "rv_calls (set_handle k h s) = rv_calls s" "rv_open (set_handle k h s) = rv_open s"
  "rv_unreleased (set_handle k h s) = rv_unreleased s"
  by (simp_all add: set_handle_def)

lemma drop_previous_frame [simp]:
  "rv_handle (drop_previous W k s) = (rv_handle s)(k := None)"
  "rv_client (drop_previous W k s) = rv_client s" "rv_locked (drop_previous W k s) = rv_locked s"
  "rv_lastSignal (drop_previous W k s) = rv_lastSignal s" "rv_wmsReplay (drop_previous W k s) = rv_wmsReplay s"
  "rv_next (drop_previous W k s) = rv_next s" "rv_calls (drop_previous W k s) = rv_calls s"
  by (auto simp: drop_previous_def fun_upd_idem_iff split: option.split)

lemma drop_previous_inv: "handles_inv s \<Longrightarrow> handles_inv (drop_previous W k s)"
  by (auto simp: handles_inv_def drop_previous_def close_handle_def set_handle_def handles_ok_drop
      split: option.split prod.split)

lemma allocate_service_inv:
  assumes "handles_inv s" and "rv_handle s k = None" and "allocate_service W k client s = (r, s')"
  shows "handles_inv s'"
proof (cases "aa_err (w_alloc W k client (rv_next s))")
  case None
  with assms show ?thesis
    using handles_ok_bounce[of "rv_open s" "rv_unreleased s" "rv_handle s" "rv_next s"]
    by (auto simp: handles_inv_def allocate_service_def NewService_def Let_def close_handle_def set_handle_def
        handles_ok_add handles_ok_next split: if_splits prod.splits option.splits)
next
  case Some
  with assms show ?thesis
    by (auto simp: handles_inv_def allocate_service_def NewService_def Let_def handles_ok_next)
qed

lemma allocate_service_frame:
  assumes "allocate_service W k client s = (r, s')"
  shows "rv_locked s' = rv_locked s" "rv_wmsReplay s' = rv_wmsReplay s" "rv_lastSignal s' = rv_lastSignal s"
    "r = Inr h \<Longrightarrow> rv_handle s' k = Some h" "r = Inr h \<Longrightarrow> rv_client s' = Some client"
    "rv_calls s' = rv_calls s" "rv_next s' = Suc (rv_next s)" "r = Inr h \<Longrightarrow> h = rv_next s"
  using assms
  by (auto simp: allocate_service_def NewService_def Let_def split: option.splits if_splits)

section \<open>What a recovery keeps\<close>

text \<open>The interface between the recovery wrapper and the pieces it is made of: what every piece
  keeps, the whole wrapper keeps.\<close>

locale recovery_keeps =
  fixes P :: "recov \<Rightarrow> bool" and k :: svc
  assumes recover_keeps: "P s \<Longrightarrow> P (snd (shouldRecover k op err s))"
    and note_keeps: "P s \<Longrightarrow> P (noteServiceOperationSuccess n op s)"
    and escalate_keeps: "P s \<Longrightarrow> (b \<Longrightarrow> retry_escalates k) \<Longrightarrow> escalate b k s = Some s' \<Longrightarrow> P s'"
    and locked_keeps: "P s \<Longrightarrow> P (s\<lparr>rv_locked := l\<rparr>)"
    and drop_keeps: "P s \<Longrightarrow> P (drop_previous W k s)"
    and allocate_keeps:
      "P s \<Longrightarrow> rv_handle s k = None \<Longrightarrow> allocate_service W k client s = (r, s') \<Longrightarrow> P s'"
begin

lemma unlock_keeps: "P s \<Longrightarrow> P (unlock k s)"
  by (simp add: unlock_def locked_keeps)

lemma ensure_keeps:
  assumes "P s" and "\<And>s. P s \<Longrightarrow> P (w_wait W k s)" and "ensure_service W k s = Some (r, s')"
  shows "P s'"
proof -
  have waited: "P ((w_wait W k s)\<lparr>rv_locked := l\<rparr>)" for l using assms(1,2) locked_keeps by blast
  then show ?thesis
    using assms(1,3)
    by (auto simp: ensure_service_def Let_def intro!: unlock_keeps intro: allocate_keeps[OF waited]
        split: option.splits if_splits prod.splits)
qed

lemma rebind_keeps:
  assumes "P s" and "\<And>s s'. P s \<Longrightarrow> after s = Some s' \<Longrightarrow> P s'" and "rebind_service W after k s = Some (r, s')"
  shows "P s'"
proof -
  have "P (drop_previous W k s)" using assms(1) by (rule drop_keeps)
  moreover have "rv_handle (drop_previous W k s) k = None" by simp
  ultimately show ?thesis
    using assms(2,3)
    by (auto simp: rebind_service_def Let_def dest: allocate_keeps
        split: option.splits if_splits prod.splits sum.splits)
qed

lemma retry_keeps:
  assumes "P s" and "\<And>h s. P s \<Longrightarrow> P (snd (fn h s))" and "retry_op k op fn h s = Some (r, s')"
  shows "P s'"
proof -
  have called: "P (snd (fn h s))" using assms(1,2) by blast
  then have "P (snd (shouldRecover k op err (snd (fn h s))))" for err by (rule recover_keeps)
  with called show ?thesis
    using assms(3)
    by (auto simp: retry_op_def case_prod_unfold Let_def note_keeps dest: escalate_keeps[rotated 2]
        split: option.splits)
qed

lemma rebind_and_retry_keeps:
  assumes "P s" and "\<And>s s'. P s \<Longrightarrow> after s = Some s' \<Longrightarrow> P s'" and "\<And>h s. P s \<Longrightarrow> P (snd (fn h s))"
    and "rebind_and_retry W after k op zero fn err s = Some (r, s')"
  shows "P s'"
proof -
  obtain s1 rb s2 where s1: "lock k s = Some s1" and s2: "rebind_service W after k s1 = Some (rb, s2)"
    using assms(4) by (auto simp: rebind_and_retry_def split: option.splits prod.splits)
  have "P s1" using s1 assms(1) by (auto simp: lock_def locked_keeps split: if_splits)
  then have "P s2" using rebind_keeps assms(2) s2 by blast
  then have u: "P (unlock k s2)" by (rule unlock_keeps)
  show ?thesis
  proof (cases rb)
    case (Inl rebindErr)
    with assms(4) s1 s2 have "escalate (rebind_escalates k) k (unlock k s2) = Some s'"
      by (auto simp: rebind_and_retry_def)
    moreover have "ensure_escalates k \<Longrightarrow> retry_escalates k" by (cases k) simp_all
    ultimately show ?thesis using escalate_keeps[OF u] by blast
  next
    case (Inr h)
    with assms(4) s1 s2 have "retry_op k op fn h (unlock k s2) = Some (r, s')"
      by (simp add: rebind_and_retry_def)
    then show ?thesis by (rule retry_keeps[OF u, rotated]) (rule assms(3))
  qed
qed

lemma with_recovery_keeps:
  assumes "P s" and "\<And>s. P s \<Longrightarrow> P (w_wait W k s)" and "\<And>s s'. P s \<Longrightarrow> after s = Some s' \<Longrightarrow> P s'"
    and "\<And>h s. P s \<Longrightarrow> P (snd (fn h s))" and "with_recovery W after k op zero fn s = Some (r, s')"
  shows "P s'"
proof -
  obtain en s1 where s1: "ensure_service W k s = Some (en, s1)"
    using assms(5) by (auto simp: with_recovery_def split: option.splits)
  then have "P s1" using ensure_keeps assms(1,2) by blast
  show ?thesis
  proof (cases en)
    case (Inl err)
    have "ensure_escalates k \<Longrightarrow> retry_escalates k" by (cases k) simp_all
    with Inl s1 assms(5) recover_keeps[OF \<open>P s1\<close>, of op err] show ?thesis
      by (auto simp: with_recovery_def case_prod_unfold Let_def dest: escalate_keeps[rotated 2])
  next
    case (Inr h)
    have called: "P (snd (fn h s1))" using \<open>P s1\<close> assms(4) by blast
    then have rec: "P (snd (shouldRecover k op err (snd (fn h s1))))" for err by (rule recover_keeps)
    have again: "P s'" if "rebind_and_retry W after k op zero fn err (snd (shouldRecover k op err (snd (fn h s1))))
        = Some (r, s')" for err
      by (rule rebind_and_retry_keeps[OF rec _ _ that]) (use assms(3,4) in blast)+
    with rec called Inr s1 assms(5) show ?thesis
      by (auto simp: with_recovery_def case_prod_unfold Let_def note_keeps split: option.splits if_splits)
  qed
qed

end

lemma handles_locked: "handles_inv (s\<lparr>rv_locked := l\<rparr>) = handles_inv s"
  by (rule handles_inv_cong) simp_all

interpretation handles: recovery_keeps handles_inv k for k
proof unfold_locales
  show "handles_inv s \<Longrightarrow> handles_inv (snd (shouldRecover k op err s))" for s op err
    by (simp add: handles_inv_def)
  show "handles_inv s \<Longrightarrow> handles_inv (noteServiceOperationSuccess n op s)" for s n op
    by (simp add: handles_inv_def)
  show "handles_inv s \<Longrightarrow> (b \<Longrightarrow> retry_escalates k) \<Longrightarrow> escalate b k s = Some s' \<Longrightarrow> handles_inv s'" for s b s'
    by (simp add: handles_inv_def escalate_frame)
qed (auto simp: handles_locked drop_previous_inv dest: allocate_service_inv)

text \<open>A service whose failures never escalate leaves the time of the last core-recovery signal as it is.\<close>

lemma signal_interface:
  assumes "\<not> retry_escalates k"
  shows "recovery_keeps (\<lambda>s. rv_lastSignal s = x) k"
proof unfold_locales
  show "rv_lastSignal s = x \<Longrightarrow> (b \<Longrightarrow> retry_escalates k) \<Longrightarrow> escalate b k s = Some s' \<Longrightarrow> rv_lastSignal s' = x" for s b s'
    using assms by (cases b) (auto simp: escalate_def)
qed (auto dest: allocate_service_frame(3))

section \<open>Blocking\<close>

lemma escalate_returns:
  "UIM \<notin> set (rv_locked s) \<Longrightarrow> \<exists>s'. escalate b k s = Some s' \<and> rv_locked s' = rv_locked s"
  by (auto simp: escalate_def triggerCoreRecoveryFromService_def lock_def unlock_def Let_def)

lemma ensure_returns:
  assumes "k \<notin> set (rv_locked s)"
  shows "\<exists>r s'. ensure_service W k s = Some (r, s') \<and> rv_locked s' = rv_locked s"
  using assms
  by (auto simp: ensure_service_def lock_def Let_def split: option.splits prod.splits dest: allocate_service_frame(1))

lemma rebind_returns:
  assumes "\<And>s. \<exists>s'. after s = Some s' \<and> rv_locked s' = rv_locked s"
  shows "\<exists>r s'. rebind_service W after k s = Some (r, s') \<and> rv_locked s' = rv_locked s"
proof (cases "rv_client s")
  case None
  then show ?thesis by (simp add: rebind_service_def Let_def)
next
  case (Some client)
  obtain r s2 where a: "allocate_service W k client (drop_previous W k s) = (r, s2)" by fastforce
  obtain s3 where "after s2 = Some s3" "rv_locked s3 = rv_locked s2" using assms by blast
  with Some a allocate_service_frame(1)[OF a] show ?thesis
    by (cases r) (auto simp: rebind_service_def Let_def)
qed

lemma retry_returns:
  assumes "UIM \<notin> set (rv_locked s)" and "\<And>h s. rv_locked (snd (fn h s)) = rv_locked s"
  shows "\<exists>r s'. retry_op k op fn h s = Some (r, s') \<and> rv_locked s' = rv_locked s"
proof -
  have "UIM \<notin> set (rv_locked (snd (shouldRecover k op err (snd (fn h s)))))" for err
    using assms by simp
  from escalate_returns[OF this] show ?thesis
    using assms by (auto simp: retry_op_def case_prod_unfold Let_def split: option.split)
qed

lemma with_recovery_returns:
  assumes locked: "k \<notin> set (rv_locked s)" "UIM \<notin> set (rv_locked s)"
    and fn: "\<And>h s. rv_locked (snd (fn h s)) = rv_locked s"
    and after: "\<And>s. \<exists>s'. after s = Some s' \<and> rv_locked s' = rv_locked s"
  shows "\<exists>r s'. with_recovery W after k op zero fn s = Some (r, s') \<and> rv_locked s' = rv_locked s"
proof -
  obtain en s1 where en: "ensure_service W k s = Some (en, s1)" and l1: "rv_locked s1 = rv_locked s"
    using ensure_returns[OF locked(1)] by blast
  have esc: "\<exists>s'. escalate b k (snd (shouldRecover k op err s1)) = Some s' \<and> rv_locked s' = rv_locked s" for b err
    using escalate_returns[of "snd (shouldRecover k op err s1)"] locked l1 by simp
  have again: "\<exists>r s'. rebind_and_retry W after k op zero fn err t = Some (r, s') \<and> rv_locked s' = rv_locked s"
    if t: "rv_locked t = rv_locked s" for err t
  proof -
    obtain t1 where t1: "lock k t = Some t1" and l: "rv_locked t1 = k # rv_locked s"
      using t locked by (auto simp: lock_def)
    obtain rb t2 where t2: "rebind_service W after k t1 = Some (rb, t2)" and l2: "rv_locked t2 = k # rv_locked s"
      using rebind_returns[OF after] l by metis
    have u: "rv_locked (unlock k t2) = rv_locked s" using l2 by simp
    then have "UIM \<notin> set (rv_locked (unlock k t2))" using locked(2) by simp
    from escalate_returns[OF this] retry_returns[OF this fn] t1 t2 u show ?thesis
      by (cases rb) (fastforce simp: rebind_and_retry_def)+
  qed
  show ?thesis
  proof (cases en)
    case (Inl err)
    with en esc show ?thesis by (fastforce simp: with_recovery_def case_prod_unfold Let_def)
  next
    case (Inr h)
    have "rv_locked (snd (shouldRecover k op err (snd (fn h s1)))) = rv_locked s" for err using fn l1 by simp
    with Inr en fn l1 again show ?thesis
      by (auto simp: with_recovery_def case_prod_unfold Let_def split: option.split)
  qed
qed

section \<open>The timeout window and the storm detector\<close>

text \<open>A sequence of timeouts of one operation at given times.\<close>

fun record_times :: "string \<Rightarrow> string \<Rightarrow> int list \<Rightarrow> recov \<Rightarrow> bool list \<times> recov" where
  "record_times service op [] s = ([], s)"
| "record_times service op (t # ts) s =
     (let (b, s1) = recordServiceTimeoutFailure service op (s\<lparr>rv_now := t\<rparr>);
          (bs, s2) = record_times service op ts s1 in (b # bs, s2))"

lemma record_timeout:
  assumes "\<not> rv_disableTimeoutRecovery s"
  shows "fst (recordServiceTimeoutFailure service op s) \<longleftrightarrow>
      timeout_threshold s \<le> snd (bump_window (rv_now s) (timeout_window s) (rv_timeouts s (timeout_key service op)))"
    and "rv_timeouts (snd (recordServiceTimeoutFailure service op s)) =
      (rv_timeouts s)(timeout_key service op \<mapsto>
         bump_window (rv_now s) (timeout_window s) (rv_timeouts s (timeout_key service op)))"
    and "\<not> rv_disableTimeoutRecovery (snd (recordServiceTimeoutFailure service op s))"
    and "timeout_threshold (snd (recordServiceTimeoutFailure service op s)) = timeout_threshold s"
    and "timeout_window (snd (recordServiceTimeoutFailure service op s)) = timeout_window s"
  using assms by (simp_all add: recordServiceTimeoutFailure_def Let_def timeout_threshold_def timeout_window_def)

lemma record_times_within:
  assumes "\<not> rv_disableTimeoutRecovery s" and "rv_timeouts s (timeout_key service op) = Some (first, count)"
    and "\<forall>t \<in> set ts. t - first \<le> timeout_window s"
  shows "fst (record_times service op ts s) =
    map (\<lambda>i. timeout_threshold s \<le> count + int i + 1) [0..<length ts]"
  using assms
proof (induction ts arbitrary: s count)
  case Nil
  then show ?case by simp
next
  case (Cons t ts)
  let ?s = "s\<lparr>rv_now := t\<rparr>" and ?r = "recordServiceTimeoutFailure service op (s\<lparr>rv_now := t\<rparr>)"
  have nd: "\<not> rv_disableTimeoutRecovery ?s" using Cons.prems(1) by simp
  have th: "timeout_threshold ?s = timeout_threshold s" "timeout_window ?s = timeout_window s"
    by (simp_all add: timeout_threshold_def timeout_window_def)
  have b: "bump_window t (timeout_window s) (rv_timeouts ?s (timeout_key service op)) = (first, count + 1)"
    using Cons.prems(2,3) by (simp add: bump_window_def)
  have "fst (record_times service op ts (snd ?r)) =
      map (\<lambda>i. timeout_threshold s \<le> count + 1 + int i + 1) [0..<length ts]"
    using Cons.IH[of "snd ?r" "count + 1"] Cons.prems(3) record_timeout[OF nd, of service op] th b by simp
  moreover have "fst ?r \<longleftrightarrow> timeout_threshold s \<le> count + 1"
    using record_timeout(1)[OF nd, of service op] th b by simp
  ultimately show ?case
    by (simp add: case_prod_unfold Let_def upt_conv_Cons map_Suc_upt[symmetric] ac_simps del: upt_Suc)
qed

lemma update_two:
  assumes "distinct (map fst xs)"
  shows "2 \<le> length (AList.update k v xs) \<longleftrightarrow> (\<exists>(k', t) \<in> set xs. k' \<noteq> k)"
proof (cases xs)
  case Nil
  then show ?thesis by simp
next
  case (Cons x ys)
  have "AList.update k v ys \<noteq> []" by (cases ys) auto
  then have ne: "Suc 0 \<le> length (AList.update k v ys)" by (cases "AList.update k v ys") auto
  show ?thesis
  proof (cases "fst x = k")
    case True
    with Cons assms show ?thesis by (cases x; cases ys) (auto simp: image_iff)
  next
    case False
    with Cons ne show ?thesis by (cases x) auto
  qed
qed

lemma distinct_map_filter_fst: "distinct (map fst xs) \<Longrightarrow> distinct (map fst (filter P xs))"
  by (induction xs) (auto simp: image_iff)

lemma storm_keys_distinct:
  "distinct (map fst (rv_globalTimeouts s)) \<Longrightarrow> distinct (map fst (rv_globalTimeouts (detectTimeoutStorm service s)))"
  by (simp add: detectTimeoutStorm_def Let_def distinct_update distinct_map_filter_fst)

section \<open>Core-recovery signals\<close>

text \<open>The times at which a sequence of requests for a core recovery, each from some service at some
  time, is granted.\<close>

fun signal_times :: "(svc \<times> int) list \<Rightarrow> recov \<Rightarrow> int list" where
  "signal_times [] s = []"
| "signal_times ((k, t) # rs) s =
     (case triggerCoreRecoveryFromService (svc_name k) (s\<lparr>rv_now := t\<rparr>) of
        Some (True, s1) \<Rightarrow> t # signal_times rs s1
      | Some (False, s1) \<Rightarrow> signal_times rs s1
      | None \<Rightarrow> [])"

definition recover_cooldown :: "recov \<Rightarrow> int" where
  "recover_cooldown s = (if rv_cooldown s \<le> 0 then defaultUIMRecoverCooldown else rv_cooldown s)"

lemma recover_cooldown_pos: "0 < recover_cooldown s"
  by (simp add: recover_cooldown_def defaultUIMRecoverCooldown_def)

lemma trigger_spec:
  assumes "triggerCoreRecoveryFromService n s = Some (b, s')"
  shows "recover_cooldown s' = recover_cooldown s"
    and "b \<Longrightarrow> rv_lastSignal s' = Some (rv_now s)"
    and "\<not> b \<Longrightarrow> rv_lastSignal s' = rv_lastSignal s"
    and "b \<Longrightarrow> rv_lastSignal s = Some l \<Longrightarrow> l + recover_cooldown s \<le> rv_now s"
  using assms
  by (auto simp: triggerCoreRecoveryFromService_def recover_cooldown_def lock_def unlock_def Let_def split: if_splits)

lemma signal_times_spaced:
  "sorted_wrt (\<lambda>a b. a + recover_cooldown s \<le> b) (signal_times rs s) \<and>
   (\<forall>l. rv_lastSignal s = Some l \<longrightarrow> (\<forall>x \<in> set (signal_times rs s). l + recover_cooldown s \<le> x))"
proof (induction rs arbitrary: s)
  case Nil
  show ?case by simp
next
  case (Cons r rs)
  obtain k t where r: "r = (k, t)" by fastforce
  let ?s = "s\<lparr>rv_now := t\<rparr>"
  have c: "recover_cooldown ?s = recover_cooldown s" by (simp add: recover_cooldown_def)
  show ?case
  proof (cases "triggerCoreRecoveryFromService (svc_name k) ?s")
    case None
    with r show ?thesis by simp
  next
    case (Some br)
    obtain b s1 where br: "br = (b, s1)" by fastforce
    note spec = trigger_spec[OF Some[unfolded br]]
    have IH: "sorted_wrt (\<lambda>a b. a + recover_cooldown s \<le> b) (signal_times rs s1)"
      "\<And>l x. rv_lastSignal s1 = Some l \<Longrightarrow> x \<in> set (signal_times rs s1) \<Longrightarrow> l + recover_cooldown s \<le> x"
      using Cons.IH[of s1] spec(1) c by auto
    show ?thesis
    proof (cases b)
      case True
      have later: "t + recover_cooldown s \<le> x" if "x \<in> set (signal_times rs s1)" for x
        using IH(2)[OF _ that] spec(2) True by simp
      have "l + recover_cooldown s \<le> t" if "rv_lastSignal s = Some l" for l
        using spec(4)[OF True, of l] that c by simp
      with later have "l + recover_cooldown s \<le> x" if "rv_lastSignal s = Some l" "x \<in> set (signal_times rs s1)" for l x
        using that recover_cooldown_pos[of s] by (meson add_increasing2 less_imp_le order_trans)
      with later IH(1) True show ?thesis using r Some br spec(4) c by simp
    next
      case False
      with IH spec(3) show ?thesis using r Some br by simp
    qed
  qed
qed

section \<open>Properties\<close>

text \<open>The calls of the function and the identifiers handed out: what the pieces add to the record of calls, and that identifiers
  only grow.\<close>

definition grows :: "recov \<Rightarrow> recov \<Rightarrow> bool" where
  "grows s s' \<longleftrightarrow> rv_calls s' = rv_calls s \<and> rv_next s \<le> rv_next s'"

definition fn_answers :: "'v service_fn \<Rightarrow> nat \<Rightarrow> recov \<Rightarrow> 'v \<Rightarrow> go_error option \<Rightarrow> bool" where
  "fn_answers fn h t v e \<longleftrightarrow> fst (fn h t) = (v, e)"

definition logged :: "'v service_fn \<Rightarrow> 'v service_fn" where
  "logged fn h s = (case fn h s of ((v, e), s1) \<Rightarrow> ((v, e), s1\<lparr>rv_calls := rv_calls s1 @ [(h, e)]\<rparr>))"

lemma logged_calls:
  assumes "logged fn h s = ((v, e), s')" "\<forall>h s. grows s (snd (fn h s))"
  shows "rv_calls s' = rv_calls s @ [(h, e)]" "rv_next s \<le> rv_next s'" "fn_answers fn h s v e"
  using assms(1) assms(2)[rule_format, of s h] by (auto simp: logged_def fn_answers_def grows_def split: prod.splits)

lemma allocate_calls:
  "allocate_service W k client s = (r, s') \<Longrightarrow>
     rv_calls s' = rv_calls s \<and> rv_next s' = Suc (rv_next s) \<and> (\<forall>h. r = Inr h \<longrightarrow> h = rv_next s)"
  using allocate_service_frame(6,7,8) by blast

lemma ensure_calls:
  assumes "ensure_service W k s = Some (r, s')" "handles_inv s"
    and "\<forall>s. handles_inv s \<longrightarrow> handles_inv (w_wait W k s) \<and> grows s (w_wait W k s)"
  shows "rv_calls s' = rv_calls s" "rv_next s \<le> rv_next s'" "r = Inr h \<Longrightarrow> h < rv_next s'"
proof -
  have held: "h < rv_next t" if "handles_inv t" "rv_handle t k = Some h" for t h
    using that by (auto simp: handles_inv_def handles_ok_def intro: ranI)
  have waited: "rv_calls ((w_wait W k s)\<lparr>rv_locked := l\<rparr>) = rv_calls s"
      "rv_next s \<le> rv_next ((w_wait W k s)\<lparr>rv_locked := l\<rparr>)" "handles_inv ((w_wait W k s)\<lparr>rv_locked := l\<rparr>)" for l
    using assms(2,3) by (simp_all add: handles_locked grows_def)
  show "rv_calls s' = rv_calls s" "rv_next s \<le> rv_next s'" "r = Inr h \<Longrightarrow> h < rv_next s'"
    using assms(1,2) waited held[OF assms(2)] held[OF waited(3)]
    by (auto simp: ensure_service_def Let_def split: option.splits if_splits prod.splits dest!: allocate_calls)
qed

lemma rebind_calls:
  assumes "rebind_service W after k s = Some (r, s')"
    and "\<forall>s s'. after s = Some s' \<longrightarrow> grows s s'"
  shows "rv_calls s' = rv_calls s" "r = Inr h \<Longrightarrow> h = rv_next s"
  using assms
  by (auto simp: rebind_service_def Let_def grows_def dest!: allocate_calls
      split: option.splits if_splits prod.splits sum.splits)

text \<open>An error that may lead to a recovery: one that the modem or the manager reports about the service itself, or a timeout.\<close>

definition worth_recovery :: "svc \<Rightarrow> go_error option \<Rightarrow> bool" where
  "worth_recovery k e \<longleftrightarrow> shouldRecoverServiceError (svc_name k) e (svc_unavailable k) \<or> isServiceTimeoutError e"

lemma recover_worth:
  "shouldRecoverServiceError (svc_name k) (Some err) (svc_unavailable k) \<Longrightarrow> fst (shouldRecover k op err t)"
  "fst (shouldRecover k op err t) \<Longrightarrow> worth_recovery k (Some err)"
  by (auto simp: worth_recovery_def shouldRecover_def shouldRecoverServiceOperationError_def split: if_splits
      simp del: shouldRecoverServiceError.simps isServiceTimeoutError.simps)

lemma rebind_and_retry_calls:
  assumes "rebind_and_retry W after k op zero (logged fn) err s = Some ((v, e), s')"
    and "\<forall>h s. grows s (snd (fn h s))"
    and "\<forall>s s'. after s = Some s' \<longrightarrow> grows s s'"
  shows "v = zero \<and> (\<exists>re. e = Some (rebind_error k op re err)) \<and> rv_calls s' = rv_calls s \<or>
    (\<exists>h2 t. h2 = rv_next s \<and> fn_answers fn h2 t v e \<and> rv_calls s' = rv_calls s @ [(h2, e)])"
proof -
  obtain s3 rb s4 where s3: "lock k s = Some s3" and s4: "rebind_service W after k s3 = Some (rb, s4)"
    using assms(1) by (auto simp: rebind_and_retry_def split: option.splits prod.splits)
  note re = rebind_calls[OF s4 assms(3)] and l = lock_frame[OF s3]
  show ?thesis
  proof (cases rb)
    case (Inl rerr)
    then show ?thesis using assms(1) s3 s4 re(1) l by (auto simp: rebind_and_retry_def escalate_frame)
  next
    case (Inr h2)
    obtain v2 e2 s5 where g: "logged fn h2 (unlock k s4) = ((v2, e2), s5)" by (metis surj_pair)
    have "retry_op k op (logged fn) h2 (unlock k s4) = Some ((v, e), s')"
      using assms(1) s3 s4 Inr by (simp add: rebind_and_retry_def)
    then have "rv_calls s' = rv_calls s5 \<and> e = e2 \<and> v = v2" using g
      by (auto simp: retry_op_def case_prod_unfold Let_def escalate_frame noteServiceOperationSuccess_def split: option.splits)
    then show ?thesis using logged_calls(1,3)[OF g assms(2)] re(1) re(2)[OF Inr] l
      by (auto simp: fn_answers_def)
  qed
qed

text \<open>C18: How often an operation under recovery calls its function, on which identifiers, and what it hands out, for
  a service whose work after a rebind makes no call of its own (every service but WMS); \<open>logged\<close> notes every call
  that is really made. There is no call when the service cannot be had, and the result is then the zero value and an error. There is one
  call when that succeeded or failed with an error not worth a recovery, and then its answer is handed out, or when its error was
  worth a recovery and the rebind failed, and then the result is the zero value and an error that wraps both. Otherwise
  there is a second call, on an identifier allocated after the first, and its answer is handed out, whatever it is. There
  is never a third.\<close>

theorem with_recovery_outcome:
  assumes "with_recovery W after k op zero (logged fn) s = Some ((v, e), s')" "handles_inv s"
    and "\<forall>s. handles_inv s \<longrightarrow> handles_inv (w_wait W k s) \<and> grows s (w_wait W k s)"
    and "\<forall>h s. grows s (snd (fn h s))"
    and "\<forall>s s'. after s = Some s' \<longrightarrow> grows s s'"
  shows "\<exists>calls. rv_calls s' = rv_calls s @ calls \<and>
    (case calls of
       [] \<Rightarrow> v = zero \<and> e \<noteq> None
     | [(h1, e1)] \<Rightarrow>
         (\<exists>t. fn_answers fn h1 t v e1) \<and> e = e1 \<and>
           (e \<noteq> None \<longrightarrow> \<not> shouldRecoverServiceError (svc_name k) e (svc_unavailable k)) \<or>
         worth_recovery k e1 \<and> v = zero \<and> (\<exists>err re. e1 = Some err \<and> e = Some (rebind_error k op re err))
     | [(h1, e1), (h2, e2)] \<Rightarrow>
         worth_recovery k e1 \<and> h1 < h2 \<and> (\<exists>t. fn_answers fn h2 t v e2) \<and> e = e2
     | _ \<Rightarrow> False)"
proof -
  obtain en s1 where en: "ensure_service W k s = Some (en, s1)"
    using assms(1) by (auto simp: with_recovery_def split: option.splits)
  note en1 = ensure_calls[OF en assms(2,3)]
  show ?thesis
  proof (cases en)
    case (Inl err)
    then obtain b where "escalate b k (snd (shouldRecover k op err s1)) = Some s'" "v = zero" "e = Some err"
      using assms(1) en by (auto simp: with_recovery_def case_prod_unfold Let_def)
    then show ?thesis using en1(1) by (intro exI[of _ "[]"]) (simp add: escalate_frame)
  next
    case (Inr h)
    obtain v1 e1 s2 where f: "logged fn h s1 = ((v1, e1), s2)" by (metis surj_pair)
    note called = logged_calls[OF f assms(4)]
    show ?thesis
    proof (cases "e1 = None \<or> \<not> fst (shouldRecover k op (the e1) s2)")
      case True
      then have "rv_calls s' = rv_calls s2 \<and> e = e1 \<and> v = v1" using assms(1) en Inr f
        by (auto simp: with_recovery_def case_prod_unfold Let_def split: option.splits)
      moreover have "e1 \<noteq> None \<longrightarrow> \<not> shouldRecoverServiceError (svc_name k) e1 (svc_unavailable k)"
        using True recover_worth(1) by fastforce
      ultimately show ?thesis using called en1(1) by (intro exI[of _ "[(h, e1)]"]) auto
    next
      case False
      then obtain err where err: "e1 = Some err" "fst (shouldRecover k op err s2)" by auto
      then have worth: "worth_recovery k e1" using recover_worth(2) by blast
      have "rebind_and_retry W after k op zero (logged fn) err (snd (shouldRecover k op err s2)) = Some ((v, e), s')"
        using assms(1) en Inr f err by (simp add: with_recovery_def case_prod_unfold Let_def)
      from rebind_and_retry_calls[OF this assms(4,5)] show ?thesis
      proof
        assume "v = zero \<and> (\<exists>re. e = Some (rebind_error k op re err)) \<and> rv_calls s' = rv_calls (snd (shouldRecover k op err s2))"
        then show ?thesis using called en1(1) worth err(1) by (intro exI[of _ "[(h, e1)]"]) auto
      next
        assume "\<exists>h2 t. h2 = rv_next (snd (shouldRecover k op err s2)) \<and> fn_answers fn h2 t v e \<and>
          rv_calls s' = rv_calls (snd (shouldRecover k op err s2)) @ [(h2, e)]"
        then obtain h2 t where "h2 = rv_next s2" "fn_answers fn h2 t v e" "rv_calls s' = rv_calls s2 @ [(h2, e)]" by auto
        moreover have "h < rv_next s2" using called(2) en1(3)[OF Inr] by simp
        ultimately show ?thesis using called en1(1) worth by (intro exI[of _ "[(h, e1), (h2, e)]"]) auto
      qed
    qed
  qed
qed

text \<open>C24: The services other than WMS never leave a caller blocked: with no recovery mutex held on
  entry and a function that gives back what it locks, the call returns, and no mutex is held
  then either. For WMS the replay after the rebind has to return as well.\<close>

theorem with_recovery_never_blocks:
  assumes "rv_locked s = []" and "\<And>h s. rv_locked (snd (fn h s)) = rv_locked s"
    and "\<And>s. rv_locked (register s) = rv_locked s"
  shows "(\<exists>r s'. withDMSRecoveryValue W op zero fn s = Some (r, s') \<and> rv_locked s' = []) \<and>
    (\<exists>r s'. withNASRecoveryValue W op zero fn s = Some (r, s') \<and> rv_locked s' = []) \<and>
    (\<exists>r s'. withVOICERecoveryValue W op zero fn s = Some (r, s') \<and> rv_locked s' = []) \<and>
    (\<exists>r s'. withIMSRecoveryValue W op zero fn s = Some (r, s') \<and> rv_locked s' = []) \<and>
    (\<exists>r s'. withIMSARecoveryValue W op zero fn s = Some (r, s') \<and> rv_locked s' = []) \<and>
    (\<exists>r s'. withUIMRecoveryValue W register op zero fn s = Some (r, s') \<and> rv_locked s' = [])"
  using assms(1,3) with_recovery_returns[OF _ _ assms(2), where s = s]
  by (simp add: withDMSRecoveryValue_def withNASRecoveryValue_def withVOICERecoveryValue_def
      withIMSRecoveryValue_def withIMSARecoveryValue_def withUIMRecoveryValue_def)

text \<open>C23: A WMS operation whose error is recoverable blocks its goroutine forever when the rebind
  succeeds and the event-report registration of the replay fails with a recoverable error too: the
  replay runs inside the rebind, under the WMS recovery mutex, and its own recovery locks that
  mutex again.\<close>

theorem wms_replay_deadlock:
  assumes "rv_locked s = []" and "rv_handle s WMS = Some h" and "rv_client s = Some c" and "\<not> rv_wmsReplay s"
    and "fn h s = ((v, Some err), s)"
    and "shouldRecoverServiceError ''WMS'' (Some err) ''wms service not available''"
    and "aa_err (w_alloc W WMS c (rv_next s)) = None" and "aa_client (w_alloc W WMS c (rv_next s)) = Some c"
    and "\<not> wr_disableInd R" and "\<And>h s. wr_eventReport R h s = (Some err', s)"
    and "shouldRecoverServiceError ''WMS'' (Some err') ''wms service not available''"
  shows "withWMSRecoveryValue W R op zero fn s = None"
proof -
  have rec: "shouldRecover WMS op' e t = (True, t)"
    if "shouldRecoverServiceError ''WMS'' (Some e) ''wms service not available''" for op' e t
    using that by (simp add: shouldRecover_def shouldRecoverServiceOperationError_def del: shouldRecoverServiceError.simps)
  have replay: "maybeReplayWMSStateAfterRebind W R t = None"
    if "rv_handle t WMS = Some h'" "WMS \<in> set (rv_locked t)" "\<not> rv_wmsReplay t" for t h'
    using that assms(9,10) rec[OF assms(11)]
    by (simp add: maybeReplayWMSStateAfterRebind_def recoverWMSState_def registerWMS_def nested_WMS_def
        with_recovery_def ensure_service_def error_fn_def rebind_and_retry_def lock_def)
  let ?s1 = "s\<lparr>rv_locked := [WMS]\<rparr>"
  have next1: "rv_next (drop_previous W WMS ?s1) = rv_next s" by simp
  obtain h2 s2 where al: "allocate_service W WMS c (drop_previous W WMS ?s1) = (Inr h2, s2)"
    using assms(7,8) next1 by (simp add: allocate_service_def NewService_def Let_def)
  note frame = allocate_service_frame[OF al]
  have "maybeReplayWMSStateAfterRebind W R s2 = None"
    by (rule replay[of _ h2]) (use frame assms(4) in simp_all)
  then have "rebind_service W (maybeReplayWMSStateAfterRebind W R) WMS ?s1 = None"
    using al assms(3) by (simp add: rebind_service_def unsupported_def)
  then show ?thesis
    using assms(1,2,5) rec[OF assms(6)]
    by (simp add: withWMSRecoveryValue_def with_recovery_def ensure_service_def rebind_and_retry_def lock_def)
qed

text \<open>The replay of the WMS state keeps what its requests keep.\<close>

definition requests_keep :: "(recov \<Rightarrow> bool) \<Rightarrow> wms_requests \<Rightarrow> bool" where
  "requests_keep P R \<longleftrightarrow> (\<forall>h s. P s \<longrightarrow>
     P (snd (wr_eventReport R h s)) \<and> P (snd (wr_indicationRegister R h s)) \<and> P (snd (wr_getRoutes R h s)) \<and>
     P (snd (wr_setRoutes R h s)) \<and> P (snd (wr_transport R h s)))"

lemma nested_handles:
  assumes "handles_inv s" "\<And>s. handles_inv s \<Longrightarrow> handles_inv (w_wait W WMS s)"
    and "\<And>h s. handles_inv s \<Longrightarrow> handles_inv (snd (fn h s))" "nested_WMS W op fn s = Some s'"
  shows "handles_inv s'"
proof -
  obtain r where "with_recovery W Some WMS op () (error_fn fn) s = Some (r, s')"
    using assms(4) by (auto simp: nested_WMS_def)
  from handles.with_recovery_keeps[OF assms(1,2) _ _ this] show ?thesis
    using assms(3) by (auto simp: error_fn_def case_prod_unfold)
qed

lemma replay_handles:
  assumes "handles_inv s" "\<And>s. handles_inv s \<Longrightarrow> handles_inv (w_wait W WMS s)" "requests_keep handles_inv R"
    and "maybeReplayWMSStateAfterRebind W R s = Some s'"
  shows "handles_inv s'"
proof -
  have flag: "handles_inv (t\<lparr>rv_wmsReplay := b\<rparr>) = handles_inv t" for t b by (rule handles_inv_cong) simp_all
  have nested: "handles_inv t'" if "handles_inv t" "nested_WMS W op fn t = Some t'"
      "fn \<in> {wr_eventReport R, wr_indicationRegister R, wr_setRoutes R}" for t t' fn op
    using nested_handles[OF that(1) assms(2) _ that(2)] that(3) assms(3) by (auto simp: requests_keep_def)
  have routes: "handles_inv t'" if p: "handles_inv t" "refreshWMSRouteState W R t = Some t'" for t t'
  proof -
    obtain u e t1 where run: "with_recovery W Some WMS ''WMSGetRoutes'' False (wr_getRoutes R) t = Some ((u, e), t1)"
      using p(2) by (auto simp: refreshWMSRouteState_def split: option.splits)
    have "handles_inv t1"
      by (rule handles.with_recovery_keeps[OF p(1) assms(2) _ _ run]) (use assms(3) in \<open>auto simp: requests_keep_def\<close>)
    then show ?thesis using p(2) run nested[of t1 _ "wr_setRoutes R"] by (auto simp: refreshWMSRouteState_def split: if_splits)
  qed
  have transport: "handles_inv t'" if p: "handles_inv t" "refreshWMSTransportState W R t = Some t'" for t t'
  proof -
    obtain r where run: "with_recovery W Some WMS ''WMSGetTransportNetworkRegistrationStatus'' () (wr_transport R) t = Some (r, t')"
      using p(2) by (auto simp: refreshWMSTransportState_def)
    show ?thesis
      by (rule handles.with_recovery_keeps[OF p(1) assms(2) _ _ run]) (use assms(3) in \<open>auto simp: requests_keep_def\<close>)
  qed
  have register: "handles_inv t'" if p: "handles_inv t" "registerWMS W R t = Some t'" for t t'
  proof (cases "wr_disableInd R")
    case True
    then show ?thesis using p by (simp add: registerWMS_def)
  next
    case False
    then obtain op1 op2 t1 where "nested_WMS W op1 (wr_eventReport R) t = Some t1"
      "nested_WMS W op2 (wr_indicationRegister R) t1 = Some t'"
      using p(2) by (auto simp: registerWMS_def bind_eq_Some_conv)
    then show ?thesis using nested[OF nested[OF p(1)]] by blast
  qed
  have "handles_inv t'" if p: "handles_inv t" "recoverWMSState W R t = Some t'" for t t'
  proof (cases "rv_handle t WMS")
    case None
    then show ?thesis using p by (simp add: recoverWMSState_def)
  next
    case Some
    then obtain t1 t2 where "registerWMS W R t = Some t1" "refreshWMSRouteState W R t1 = Some t2"
      "refreshWMSTransportState W R t2 = Some t'"
      using p(2) by (auto simp: recoverWMSState_def bind_eq_Some_conv)
    then show ?thesis using transport[OF routes[OF register[OF p(1)]]] by blast
  qed
  then show ?thesis using assms(1,4) flag
    by (cases "rv_wmsReplay s") (auto simp: maybeReplayWMSStateAfterRebind_def)
qed

text \<open>C8: No operation under recovery loses track of a client identifier, for each of the seven services and with the replays that
  follow a rebind of WMS and UIM. As long as the requests themselves and the other goroutines keep it: the identifiers that the modem
  has handed out and whose release it has not confirmed are exactly those that some service holds, each held by one service,
  and those whose release was tried and failed; so on every path, also when the client is replaced under an allocation or the
  allocation after a rebind fails, whatever is neither held nor given back has been asked to be released.\<close>

theorem recovery_no_handle_leak:
  assumes "handles_inv s" and "\<And>k s. handles_inv s \<Longrightarrow> handles_inv (w_wait W k s)"
    and "\<And>h s. handles_inv s \<Longrightarrow> handles_inv (snd (fn h s))"
    and "\<And>s. handles_inv s \<Longrightarrow> handles_inv (register s)" and "requests_keep handles_inv R"
    and "Some (r, s') \<in> {withDMSRecoveryValue W op zero fn s, withNASRecoveryValue W op zero fn s,
      withVOICERecoveryValue W op zero fn s, withIMSRecoveryValue W op zero fn s, withIMSARecoveryValue W op zero fn s,
      withUIMRecoveryValue W register op zero fn s, withWMSRecoveryValue W R op zero fn s}"
  shows "distinct (rv_open s') \<and> set (rv_open s') = ran (rv_handle s') \<union> set (rv_unreleased s') \<and>
    ran (rv_handle s') \<inter> set (rv_unreleased s') = {} \<and>
    (\<forall>k k' h. rv_handle s' k = Some h \<and> rv_handle s' k' = Some h \<longrightarrow> k = k')"
proof -
  have keeps: "handles_inv t" if run: "with_recovery W after k op zero fn s = Some (r, t)"
      and after: "\<And>s s'. handles_inv s \<Longrightarrow> after s = Some s' \<Longrightarrow> handles_inv s'" for after k t
    using handles.with_recovery_keeps[OF assms(1) _ _ _ run] assms(2,3) after by blast
  have plain: "handles_inv s'" if "with_recovery W Some k op zero fn s = Some (r, s')" for k
    by (rule keeps[OF that]) simp
  have uim: "handles_inv s'" if "with_recovery W (Some \<circ> register) UIM op zero fn s = Some (r, s')"
    by (rule keeps[OF that]) (use assms(4) in auto)
  have wms: "handles_inv s'" if "with_recovery W (maybeReplayWMSStateAfterRebind W R) WMS op zero fn s = Some (r, s')"
    by (rule keeps[OF that]) (rule replay_handles[OF _ assms(2,5)])
  have "handles_inv s'"
    using assms(6) plain uim wms
    by (auto simp: withDMSRecoveryValue_def withNASRecoveryValue_def withVOICERecoveryValue_def withIMSRecoveryValue_def
        withIMSARecoveryValue_def withUIMRecoveryValue_def withWMSRecoveryValue_def)
  then show ?thesis by (simp add: handles_inv_def handles_ok_def)
qed

text \<open>WMS, VOICE, IMS and IMSA operations never send a core-recovery signal of their own, on no
  path: the time of the last signal is the one that the function and the replay leave.\<close>

theorem side_services_never_signal:
  assumes "k \<in> {WMS, VOICE, IMS, IMSA}" and "\<And>s. rv_lastSignal (w_wait W k s) = rv_lastSignal s"
    and "\<And>s s'. after s = Some s' \<Longrightarrow> rv_lastSignal s' = rv_lastSignal s"
    and "\<And>h s. rv_lastSignal (snd (fn h s)) = rv_lastSignal s"
    and "with_recovery W after k op zero fn s = Some (r, s')"
  shows "rv_lastSignal s' = rv_lastSignal s"
proof -
  have "\<not> retry_escalates k" using assms(1) by auto
  then show ?thesis
    by (rule recovery_keeps.with_recovery_keeps[OF signal_interface _ _ _ _ assms(5)]) (use assms(2-4) in auto)
qed

text \<open>Timeouts enable a recovery exactly from the threshold on: of a row of timeouts of one
  operation inside one window, starting with no timeout on record, the \<open>i\<close>-th asks for a
  recovery if and only if \<open>i\<close> is at least the threshold; and a success of the operation
  clears the record of that operation and of no other.\<close>

theorem timeout_threshold_exact:
  assumes "\<not> rv_disableTimeoutRecovery s" and "rv_timeouts s (timeout_key service op) = None"
    and "\<forall>u \<in> set ts. u - t \<le> timeout_window s"
  shows "fst (record_times service op (t # ts) s) =
      map (\<lambda>i. timeout_threshold s \<le> int i) [1..<length ts + 2] \<and>
    rv_timeouts (noteServiceOperationSuccess service op s') key =
      (if key = timeout_key service op then None else rv_timeouts s' key)"
proof -
  let ?s = "s\<lparr>rv_now := t\<rparr>" and ?r = "recordServiceTimeoutFailure service op (s\<lparr>rv_now := t\<rparr>)"
  have nd: "\<not> rv_disableTimeoutRecovery ?s" using assms(1) by simp
  have th: "timeout_threshold ?s = timeout_threshold s" "timeout_window ?s = timeout_window s"
    by (simp_all add: timeout_threshold_def timeout_window_def)
  have b: "bump_window t (timeout_window s) (rv_timeouts ?s (timeout_key service op)) = (t, 1)"
    using assms(2) by (simp add: bump_window_def)
  note r = record_timeout[OF nd, of service op]
  have "fst (record_times service op ts (snd ?r)) =
      map (\<lambda>i. timeout_threshold s \<le> 1 + int i + 1) [0..<length ts]"
    using record_times_within[of "snd ?r" service op t 1 ts] assms(3) r th b by simp
  moreover have "fst ?r \<longleftrightarrow> timeout_threshold s \<le> 1" using r(1) th b by simp
  moreover have "[1..<length ts + 2] = 1 # map (\<lambda>i. i + 2) [0..<length ts]"
    using map_add_upt[of 2 "length ts"] by (simp add: upt_conv_Cons numeral_2_eq_2 del: upt_Suc)
  ultimately show ?thesis
    by (simp add: case_prod_unfold Let_def noteServiceOperationSuccess_def ac_simps)
qed

text \<open>The storm detector asks for a modem reset exactly when another service timed out in the last
  five seconds and the last storm, if there was one, is more than thirty seconds ago; then
  it forgets the timeouts it has seen, and otherwise it asks for nothing.\<close>

theorem storm_needs_two_services:
  assumes "distinct (map fst (rv_globalTimeouts s))"
  shows "detectTimeoutStorm service s =
    (if (\<exists>(svc, t) \<in> set (rv_globalTimeouts s). svc \<noteq> service \<and> rv_now s - t \<le> stormWindow) \<and>
        (\<forall>t. rv_stormAt s = Some t \<longrightarrow> rv_now s - t > stormCooldown)
     then s\<lparr>rv_globalTimeouts := [], rv_stormAt := Some (rv_now s),
            rv_reset := enqueueModemResetEvent (rv_now s) ''timeout_storm'' (rv_reset s)\<rparr>
     else s\<lparr>rv_globalTimeouts := AList.update service (rv_now s)
              (filter (\<lambda>(svc, t). rv_now s - t \<le> stormWindow) (rv_globalTimeouts s))\<rparr>)"
proof -
  let ?live = "filter (\<lambda>(svc, t). rv_now s - t \<le> stormWindow) (rv_globalTimeouts s)"
  have "2 \<le> length (AList.update service (rv_now s) ?live) \<longleftrightarrow>
      (\<exists>(svc, t) \<in> set (rv_globalTimeouts s). svc \<noteq> service \<and> rv_now s - t \<le> stormWindow)"
    using update_two[OF distinct_map_filter_fst[OF assms], of service "rv_now s"] by auto
  then show ?thesis
    by (auto simp: detectTimeoutStorm_def Let_def stormMinSvcs_def not_less split: option.splits)
qed

text \<open>Whatever the services ask and whenever, two core-recovery signals that are granted are at
  least the cooldown apart.\<close>

theorem core_recovery_signals_spaced:
  "sorted_wrt (\<lambda>a b. a + recover_cooldown s \<le> b) (signal_times rs s) \<and> 0 < recover_cooldown s"
  using signal_times_spaced recover_cooldown_pos by blast

text \<open>A modem without the service is left alone: an error that wraps the unsupported-service
  sentinel is never recoverable, whatever its text says, and an IMS or IMSA operation on such a
  modem, with no handle yet, returns that error at once and changes nothing.\<close>

theorem unsupported_never_recovered:
  "(errors_Is e ErrServiceNotSupported \<longrightarrow> \<not> shouldRecoverServiceError service (Some e) txt) \<and>
   (k \<in> {IMS, IMSA} \<and> rv_handle s k = None \<and> rv_client s = Some c \<and> \<not> rv_hasService s k \<longrightarrow>
     with_recovery W after k op zero fn s = Some ((zero, Some ErrServiceNotSupported), s))"
proof -
  have "\<not> isServiceTimeoutError (Some ErrServiceNotSupported)"
    by (simp add: errors_Is_def as_timeout_def)
  then have never: "shouldRecover k op ErrServiceNotSupported s = (False, s)"
    by (simp add: shouldRecover_def shouldRecoverServiceOperationError_def errors_Is_def del: isServiceTimeoutError.simps)
  have "with_recovery W after k op zero fn s = Some ((zero, Some ErrServiceNotSupported), s)"
    if "k \<in> {IMS, IMSA}" "rv_handle s k = None" "rv_client s = Some c" "\<not> rv_hasService s k"
  proof -
    have "unsupported k s" using that by (auto simp: unsupported_def hasQMIService_def)
    with never that show ?thesis by (simp add: with_recovery_def ensure_service_def escalate_def)
  qed
  then show ?thesis by simp
qed

section \<open>Examples\<close>

definition sample_recov :: recov where
  "sample_recov = \<lparr>rv_now = 0, rv_client = Some 7, rv_handle = Map.empty(WMS \<mapsto> 3), rv_open = [3], rv_unreleased = [], rv_next = 4,
     rv_hasService = (\<lambda>k. k \<noteq> IMS), rv_locked = [], rv_disableTimeoutRecovery = False, rv_threshold = 0,
     rv_window = 0, rv_timeouts = Map.empty, rv_serviceTimeouts = 0, rv_timeoutRecoveries = 0,
     rv_globalTimeouts = [(''NAS'', 0)], rv_stormAt = None, rv_coreReady = True, rv_stopping = False,
     rv_cooldown = 0, rv_lastSignal = None, rv_wmsReplay = False, rv_reset = init_reset, rv_calls = []\<rparr>"

definition sample_world :: world where
  "sample_world = \<lparr>w_alloc = (\<lambda>_ c _. \<lparr>aa_err = None, aa_client = Some c, aa_elapsed = 1\<rparr>), w_release = (\<lambda>_ _. (Some (ErrTimeout ''release''), 5)), w_wait = (\<lambda>_ s. s)\<rparr>"

definition stale_fn :: "nat service_fn" where
  "stale_fn h s = ((h, if h = 3 then Some (ErrServiceNotReady ''WMS'') else None), s)"

lemma stale_recoverable:
  "shouldRecoverServiceError ''WMS'' (Some (ErrServiceNotReady ''WMS'')) ''wms service not available''"
  by (simp add: errors_Is_def as_not_ready_def EqualFold_def)

lemma stale_shouldRecover: "shouldRecover WMS op (ErrServiceNotReady ''WMS'') s = (True, s)"
  using stale_recoverable
  by (simp add: shouldRecover_def shouldRecoverServiceOperationError_def del: shouldRecoverServiceError.simps)

lemma sample_recovers:
  "\<exists>s'. with_recovery sample_world Some WMS ''op'' 0 stale_fn sample_recov = Some ((4, None), s')"
  by (simp add: with_recovery_def ensure_service_def sample_recov_def stale_fn_def stale_shouldRecover
      rebind_and_retry_def lock_def rebind_service_def drop_previous_def close_handle_def set_handle_def
      unsupported_def allocate_service_def NewService_def sample_world_def Let_def retry_op_def)

lemma sample_handles: "handles_inv sample_recov"
  by (simp add: handles_inv_def handles_ok_def sample_recov_def)

lemma stale_logged_recovers:
  "\<exists>s'. with_recovery sample_world Some WMS ''op'' 0 (logged stale_fn) sample_recov = Some ((4, None), s')"
  by (simp add: with_recovery_def ensure_service_def sample_recov_def stale_fn_def stale_shouldRecover logged_def
      rebind_and_retry_def lock_def rebind_service_def drop_previous_def close_handle_def set_handle_def
      unsupported_def allocate_service_def NewService_def sample_world_def Let_def retry_op_def)

theorem with_recovery_outcome_witness:
  "\<exists>s' h1 h2 e1. with_recovery sample_world Some WMS ''op'' 0 (logged stale_fn) sample_recov = Some ((4, None), s') \<and>
     (rv_calls s' = [(h1, None)] \<or> rv_calls s' = [(h1, e1), (h2, None)] \<and> h1 < h2)"
proof -
  from stale_logged_recovers obtain s' where
    s': "with_recovery sample_world Some WMS ''op'' 0 (logged stale_fn) sample_recov = Some ((4, None), s')" ..
  have "\<forall>s. handles_inv s \<longrightarrow> handles_inv (w_wait sample_world WMS s) \<and> grows s (w_wait sample_world WMS s)"
    "\<forall>h s. grows s (snd (stale_fn h s))" "\<forall>s s'. Some s = Some s' \<longrightarrow> grows s s'"
    by (simp_all add: sample_world_def grows_def stale_fn_def)
  note out = with_recovery_outcome[OF s' sample_handles this]
  have "\<exists>h1 h2 e1. rv_calls s' = [(h1, None)] \<or> rv_calls s' = [(h1, e1), (h2, None)] \<and> h1 < h2"
    using out by (elim exE, case_tac calls; case_tac "tl calls"; case_tac "tl (tl calls)") (auto simp: sample_recov_def)
  with s' show ?thesis by blast
qed

theorem with_recovery_never_blocks_witness:
  "\<exists>r s'. withNASRecoveryValue sample_world ''op'' 0 stale_fn sample_recov = Some (r, s') \<and> rv_locked s' = []"
  using with_recovery_never_blocks[of sample_recov stale_fn "\<lambda>s. s" sample_world "''op''" 0]
  by (simp add: sample_recov_def stale_fn_def)

definition failing_requests :: wms_requests where
  "failing_requests = \<lparr>wr_disableInd = False,
     wr_eventReport = (\<lambda>_ s. (Some (ErrServiceNotReady ''WMS''), s)), wr_indicationRegister = (\<lambda>_ s. (None, s)),
     wr_getRoutes = (\<lambda>_ s. ((True, None), s)), wr_cachedRoutes = False, wr_setRoutes = (\<lambda>_ s. (None, s)),
     wr_transport = (\<lambda>_ s. (((), None), s))\<rparr>"

theorem wms_replay_deadlock_witness:
  "withWMSRecoveryValue sample_world failing_requests ''ListSMS'' 0 stale_fn sample_recov = None"
  by (rule wms_replay_deadlock[OF _ _ _ _ _ stale_recoverable _ _ _ _ stale_recoverable, where h = 3 and c = 7])
    (simp_all add: sample_recov_def stale_fn_def sample_world_def failing_requests_def)

theorem recovery_no_handle_leak_witness:
  "\<exists>r s'. withDMSRecoveryValue sample_world ''op'' 0 stale_fn sample_recov = Some (r, s') \<and>
     set (rv_open s') = ran (rv_handle s') \<union> set (rv_unreleased s')"
proof -
  obtain r s' where s': "withDMSRecoveryValue sample_world ''op'' 0 stale_fn sample_recov = Some (r, s')"
    using with_recovery_returns[of DMS sample_recov stale_fn Some sample_world "''op''" 0]
    by (auto simp: withDMSRecoveryValue_def sample_recov_def stale_fn_def)
  have keep: "handles_inv s \<Longrightarrow> handles_inv (w_wait sample_world k s)" "handles_inv s \<Longrightarrow> handles_inv (snd (stale_fn h s))" for k h s
    by (simp_all add: sample_world_def stale_fn_def)
  have "requests_keep handles_inv failing_requests" by (simp add: requests_keep_def failing_requests_def)
  note req = this
  have mem: "Some (r, s') \<in> {withDMSRecoveryValue sample_world ''op'' 0 stale_fn sample_recov,
      withNASRecoveryValue sample_world ''op'' 0 stale_fn sample_recov, withVOICERecoveryValue sample_world ''op'' 0 stale_fn sample_recov,
      withIMSRecoveryValue sample_world ''op'' 0 stale_fn sample_recov, withIMSARecoveryValue sample_world ''op'' 0 stale_fn sample_recov,
      withUIMRecoveryValue sample_world (\<lambda>s. s) ''op'' 0 stale_fn sample_recov,
      withWMSRecoveryValue sample_world failing_requests ''op'' 0 stale_fn sample_recov}"
    unfolding s' by (rule insertI1)
  have "handles_inv s \<Longrightarrow> handles_inv s" for s .
  from recovery_no_handle_leak[OF sample_handles keep(1) keep(2) this req mem]
  have "set (rv_open s') = ran (rv_handle s') \<union> set (rv_unreleased s')" by blast
  with s' show ?thesis by blast
qed

theorem side_services_never_signal_witness:
  "\<exists>s'. with_recovery sample_world Some WMS ''op'' 0 stale_fn sample_recov = Some ((4, None), s') \<and>
     rv_lastSignal s' = None"
proof -
  from sample_recovers obtain s' where
    s': "with_recovery sample_world Some WMS ''op'' 0 stale_fn sample_recov = Some ((4, None), s')" ..
  moreover have "rv_lastSignal s' = rv_lastSignal sample_recov"
    by (rule side_services_never_signal[OF _ _ _ _ s']) (simp_all add: sample_world_def stale_fn_def)
  ultimately show ?thesis by (simp add: sample_recov_def)
qed

theorem timeout_threshold_exact_witness:
  "fst (record_times ''NAS'' ''scan'' [1, 2, 3, 4, 5, 6] sample_recov) = [False, False, False, False, True, True]"
  using timeout_threshold_exact[of sample_recov "''NAS''" "''scan''" "[2, 3, 4, 5, 6]" 1 sample_recov "([], [])"]
  by (simp add: sample_recov_def timeout_window_def timeout_threshold_def defaultServiceTimeoutWindow_def
      defaultServiceTimeoutThreshold_def upt_conv_Cons)

theorem storm_needs_two_services_witness:
  "rv_reset (detectTimeoutStorm ''DMS'' sample_recov) = enqueueModemResetEvent 0 ''timeout_storm'' init_reset \<and>
   rv_reset (detectTimeoutStorm ''NAS'' sample_recov) = init_reset"
proof -
  have fields: "rv_globalTimeouts sample_recov = [(''NAS'', 0)]" "rv_stormAt sample_recov = None" "rv_now sample_recov = 0"
    "rv_reset sample_recov = init_reset" by (simp_all add: sample_recov_def)
  show ?thesis
    using storm_needs_two_services[of sample_recov "''DMS''"] storm_needs_two_services[of sample_recov "''NAS''"]
    by (simp add: fields stormWindow_def)
qed

theorem unsupported_never_recovered_witness:
  "with_recovery sample_world Some IMS ''op'' 0 stale_fn sample_recov =
     Some ((0, Some ErrServiceNotSupported), sample_recov)"
  using unsupported_never_recovered[of ErrServiceNotSupported "[]" "[]" IMS sample_recov 7 sample_world Some "''op''" 0 stale_fn]
  by (simp add: sample_recov_def del: shouldRecoverServiceError.simps)

end
