(* ===== verification/GoParse.thy ===== *)
theory GoParse
  imports Errors "HOL-Library.Monad_Syntax"
begin

text \<open>
  The ground of the service codecs: slice accesses that panic out of range, the little-endian readers on
  top of them, responses, and service methods as functions that send a request and parse the response.

  \<^term>\<open>None\<close> stands for a run-time panic, so that a parser is shown to be panic-free by showing that its
  result is not \<^term>\<open>None\<close>; the rules collected in \<open>safe\<close> do this along the text of the parser. Go checks
  \<^verbatim>\<open>s[i:j]\<close> against the capacity of \<open>s\<close> and the model against its length: the model panics whenever Go
  does, and also where Go would read bytes beyond the length.
\<close>

section \<open>Checked accesses\<close>

text \<open>A slice access of Go outside the length of the slice stops the program; here it is \<^term>\<open>None\<close>.\<close>

definition at :: "'a list \<Rightarrow> nat \<Rightarrow> 'a option" where
  "at xs i = (if i < length xs then Some (xs ! i) else None)"

definition sub :: "'a list \<Rightarrow> nat \<Rightarrow> nat \<Rightarrow> 'a list option" where
  "sub xs i j = (if i \<le> j \<and> j \<le> length xs then Some (go_slice i j xs) else None)"

definition tail_from :: "'a list \<Rightarrow> nat \<Rightarrow> 'a list option" where
  "tail_from xs i = (if i \<le> length xs then Some (drop i xs) else None)"

definition le16 :: "byte list \<Rightarrow> u16 option" where
  "le16 b = (if 2 \<le> length b then Some (Uint16 b) else None)"

definition le32 :: "byte list \<Rightarrow> u32 option" where
  "le32 b = (if 4 \<le> length b then Some (Uint32 b) else None)"

definition Uint64 :: "byte list \<Rightarrow> u64" where
  "Uint64 b = ucast (Uint32 (take 4 b)) OR push_bit 32 (ucast (Uint32 (drop 4 b)))"

definition PutUint64 :: "u64 \<Rightarrow> byte list" where
  "PutUint64 v = PutUint32 (ucast v) @ PutUint32 (ucast (drop_bit 32 v))"

definition le64 :: "byte list \<Rightarrow> u64 option" where
  "le64 b = (if 8 \<le> length b then Some (Uint64 b) else None)"

lemma at_eq [simp]: "i < length xs \<Longrightarrow> at xs i = Some (xs ! i)"
  by (simp add: at_def)

lemma sub_eq [simp]: "i \<le> j \<Longrightarrow> j \<le> length xs \<Longrightarrow> sub xs i j = Some (go_slice i j xs)"
  by (simp add: sub_def)

lemma tail_from_eq [simp]: "i \<le> length xs \<Longrightarrow> tail_from xs i = Some (drop i xs)"
  by (simp add: tail_from_def)

lemma le_eq [simp]:
  "2 \<le> length b \<Longrightarrow> le16 b = Some (Uint16 b)"
  "4 \<le> length b \<Longrightarrow> le32 b = Some (Uint32 b)"
  "8 \<le> length b \<Longrightarrow> le64 b = Some (Uint64 b)"
  by (simp_all add: le16_def le32_def le64_def)

lemma length_PutUint64 [simp]: "length (PutUint64 v) = 8"
  by (simp add: PutUint64_def)

lemma Uint64_PutUint64 [simp]: "Uint64 (PutUint64 v @ r) = v"
proof -
  have "Uint32 (PutUint32 x) = x" for x using Uint32_PutUint32[of x "[]"] by simp
  then have "Uint64 (PutUint64 v @ r) = ucast (ucast v :: u32) OR push_bit 32 (ucast (ucast (drop_bit 32 v) :: u32))"
    by (simp add: Uint64_def PutUint64_def)
  also have "\<dots> = v" by (rule bit_word_eqI) (auto simp: bit_simps)
  finally show ?thesis .
qed

section \<open>Absence of panics\<close>

named_theorems safe \<open>computations that do not panic\<close>

lemma bind_safe [safe]: "m \<noteq> None \<Longrightarrow> (\<And>x. m = Some x \<Longrightarrow> f x \<noteq> None) \<Longrightarrow> m \<bind> f \<noteq> None"
  by (cases m) auto

lemma access_safe [safe]:
  "i < length xs \<Longrightarrow> at xs i \<noteq> None"
  "i \<le> j \<Longrightarrow> j \<le> length xs \<Longrightarrow> sub xs i j \<noteq> None"
  "i \<le> length xs \<Longrightarrow> tail_from xs i \<noteq> None"
  "2 \<le> length b \<Longrightarrow> le16 b \<noteq> None"
  "4 \<le> length b \<Longrightarrow> le32 b \<noteq> None"
  "8 \<le> length b \<Longrightarrow> le64 b \<noteq> None"
  by simp_all

lemma sub_length: "sub xs i j = Some ys \<Longrightarrow> length ys = j - i"
  by (auto simp: sub_def split: if_splits)

lemma tail_length: "tail_from xs i = Some ys \<Longrightarrow> length ys = length xs - i"
  by (auto simp: tail_from_def split: if_splits)

lemma those_length: "those ms = Some ys \<Longrightarrow> length ys = length ms"
  by (induction ms arbitrary: ys) (auto split: option.splits)

lemma those_map_safe [safe]: "(\<And>x. x \<in> set xs \<Longrightarrow> f x \<noteq> None) \<Longrightarrow> those (map f xs) \<noteq> None"
  by (induction xs) (auto split: option.splits)

lemma option_case_safe [safe]:
  "(m = None \<Longrightarrow> a \<noteq> None) \<Longrightarrow> (\<And>x. m = Some x \<Longrightarrow> f x \<noteq> None) \<Longrightarrow> (case m of None \<Rightarrow> a | Some x \<Rightarrow> f x) \<noteq> None"
  by (simp split: option.split)

lemma sum_case_safe [safe]:
  "(\<And>x. m = Inl x \<Longrightarrow> f x \<noteq> None) \<Longrightarrow> (\<And>x. m = Inr x \<Longrightarrow> g x \<noteq> None) \<Longrightarrow> (case m of Inl x \<Rightarrow> f x | Inr x \<Rightarrow> g x) \<noteq> None"
  by (simp split: sum.split)

lemma prod_case_safe [safe]: "(\<And>a b. m = (a, b) \<Longrightarrow> f a b \<noteq> None) \<Longrightarrow> (case m of (a, b) \<Rightarrow> f a b) \<noteq> None"
  by (simp split: prod.split)

lemma Let_safe [safe]: "(\<And>x. x = a \<Longrightarrow> f x \<noteq> None) \<Longrightarrow> (let x = a in f x) \<noteq> None"
  by (simp add: Let_def)

lemma map_option_safe [safe]: "m \<noteq> None \<Longrightarrow> map_option f m \<noteq> None"
  by simp

lemma if_safe [safe]: "(b \<Longrightarrow> x \<noteq> None) \<Longrightarrow> (\<not> b \<Longrightarrow> y \<noteq> None) \<Longrightarrow> (if b then x else y) \<noteq> None"
  by simp

section \<open>Readers\<close>

text \<open>\<^verbatim>\<open>binary.LittleEndian.Uint16(v[i:i+2])\<close> and its siblings.\<close>

definition rd16 :: "byte list \<Rightarrow> nat \<Rightarrow> u16 option" where
  "rd16 v i = do { b \<leftarrow> sub v i (i + 2); le16 b }"

definition rd32 :: "byte list \<Rightarrow> nat \<Rightarrow> u32 option" where
  "rd32 v i = do { b \<leftarrow> sub v i (i + 4); le32 b }"

definition rd64 :: "byte list \<Rightarrow> nat \<Rightarrow> u64 option" where
  "rd64 v i = do { b \<leftarrow> sub v i (i + 8); le64 b }"

definition rdstr :: "byte list \<Rightarrow> nat \<Rightarrow> nat \<Rightarrow> string option" where
  "rdstr v i j = map_option string_of_bytes (sub v i j)"

lemma rd_safe [safe]:
  "i + 2 \<le> length v \<Longrightarrow> rd16 v i \<noteq> None"
  "i + 4 \<le> length v \<Longrightarrow> rd32 v i \<noteq> None"
  "i + 8 \<le> length v \<Longrightarrow> rd64 v i \<noteq> None"
  "i \<le> j \<Longrightarrow> j \<le> length v \<Longrightarrow> rdstr v i j \<noteq> None"
  by (simp_all add: rd16_def rd32_def rd64_def rdstr_def)

text \<open>A loop over \<open>count\<close> elements of width \<open>w\<close> that stops where the bytes end.\<close>

fun strided :: "nat \<Rightarrow> nat \<Rightarrow> nat \<Rightarrow> byte list \<Rightarrow> (nat \<Rightarrow> 'a option) \<Rightarrow> 'a list option" where
  "strided w 0 off v f = Some []"
| "strided w (Suc count) off v f =
     (if off + w > length v then Some []
      else do { x \<leftarrow> f off; xs \<leftarrow> strided w count (off + w) v f; Some (x # xs) })"

lemma strided_safe [safe]:
  assumes "\<And>off. off + w \<le> length v \<Longrightarrow> f off \<noteq> None"
  shows "strided w count off v f \<noteq> None"
proof (induction count arbitrary: off)
  case (Suc count)
  then show ?case
    unfolding strided.simps by (intro safe) (use assms[of off] in auto)
qed simp

lemmas lengths = sub_length tail_length those_length

lemma length_bytes_of_string [simp]: "length (bytes_of_string s) = length s"
  by (simp add: bytes_of_string_def)

lemma unat_of_nat_byte [simp]: "n < 256 \<Longrightarrow> unat (of_nat n :: byte) = n"
  by (simp add: unat_of_nat take_bit_eq_mod)

text \<open>\<^verbatim>\<open>for i := 0; i < count && (i+1)*w <= len(body); i++\<close>\<close>

definition elements :: "nat \<Rightarrow> nat \<Rightarrow> (byte list \<Rightarrow> 'a option) \<Rightarrow> byte list \<Rightarrow> 'a list option" where
  "elements w count f body =
     those (map (\<lambda>i. do { v \<leftarrow> sub body (i * w) (i * w + w); f v })
       (takeWhile (\<lambda>i. (i + 1) * w \<le> length body) [0..<count]))"

definition counted :: "byte list \<Rightarrow> (nat \<Rightarrow> byte list \<Rightarrow> 'a option) \<Rightarrow> 'a option" where
  "counted v f = do { n \<leftarrow> at v 0; body \<leftarrow> tail_from v 1; f (unat n) body }"

lemma elements_safe [safe]: "(\<And>v. length v = w \<Longrightarrow> f v \<noteq> None) \<Longrightarrow> elements w count f body \<noteq> None"
  unfolding elements_def
  by (intro safe) (auto dest!: set_takeWhileD lengths simp: add.commute)

lemma counted_safe [safe]: "1 \<le> length v \<Longrightarrow> (\<And>n body. f n body \<noteq> None) \<Longrightarrow> counted v f \<noteq> None"
  unfolding counted_def by (intro safe) auto

section \<open>Requests and responses\<close>

text \<open>A parser returns a value or an error, or it panics. A service method sends requests to the modem;
  \<open>'m\<close> is the state of the modem and of everything that outlives the call.\<close>

type_synonym 'a parsed = "(go_error + 'a) option"
type_synonym 'm sender = "u16 \<Rightarrow> TLV list \<Rightarrow> 'm \<Rightarrow> (go_error + Packet) \<times> 'm"

definition check :: "Packet \<Rightarrow> go_error option" where
  "check p = map_option result_go_error (CheckResult p)"

definition errorf :: "string \<Rightarrow> go_error \<Rightarrow> go_error" where
  "errorf pre e = ErrWrap (pre @ '': '') e []"

definition checked :: "string \<Rightarrow> (Packet \<Rightarrow> 'a parsed) \<Rightarrow> Packet \<Rightarrow> 'a parsed" where
  "checked pre parse p = (case check p of Some e \<Rightarrow> Some (Inl (errorf pre e)) | None \<Rightarrow> parse p)"

definition checked_plain :: "(Packet \<Rightarrow> 'a parsed) \<Rightarrow> Packet \<Rightarrow> 'a parsed" where
  "checked_plain parse p = (case check p of Some e \<Rightarrow> Some (Inl e) | None \<Rightarrow> parse p)"

definition acked :: "Packet \<Rightarrow> unit parsed" where
  "acked p = Some (Inr ())"

definition call :: "'m sender \<Rightarrow> u16 \<Rightarrow> TLV list \<Rightarrow> (Packet \<Rightarrow> 'a parsed) \<Rightarrow> 'm \<Rightarrow> 'a parsed \<times> 'm" where
  "call send msg tlvs parse m =
     (case send msg tlvs m of
        (Inl e, m') \<Rightarrow> (Some (Inl e), m')
      | (Inr resp, m') \<Rightarrow> (parse resp, m'))"

text \<open>\<^verbatim>\<open>if tlv := FindTLV(tlvs, t); tlv != nil && len(tlv.Value) >= n\<close>\<close>

definition with_tlv :: "TLV list \<Rightarrow> u8 \<Rightarrow> nat \<Rightarrow> (byte list \<Rightarrow> 'a \<Rightarrow> 'a option) \<Rightarrow> 'a \<Rightarrow> 'a option" where
  "with_tlv tlvs t n f s =
     (case FindTLV tlvs t of
        Some tlv \<Rightarrow> if n \<le> length (tlv_Value tlv) then f (tlv_Value tlv) s else Some s
      | None \<Rightarrow> Some s)"

text \<open>The same with \<^verbatim>\<open>len(tlv.Value) == n\<close>.\<close>

definition with_tlv_len :: "TLV list \<Rightarrow> u8 \<Rightarrow> nat \<Rightarrow> (byte list \<Rightarrow> 'a \<Rightarrow> 'a option) \<Rightarrow> 'a \<Rightarrow> 'a option" where
  "with_tlv_len tlvs t n f s =
     (case FindTLV tlvs t of
        Some tlv \<Rightarrow> if length (tlv_Value tlv) = n then f (tlv_Value tlv) s else Some s
      | None \<Rightarrow> Some s)"

text \<open>A field that is set from the TLV of type \<open>t\<close> when it has \<open>n\<close> bytes, and left out otherwise.\<close>

definition opt_tlv :: "TLV list \<Rightarrow> u8 \<Rightarrow> nat \<Rightarrow> (byte list \<Rightarrow> 'a option) \<Rightarrow> 'a option option" where
  "opt_tlv tlvs t n f = with_tlv tlvs t n (\<lambda>v _. map_option Some (f v)) None"

text \<open>The same with the value \<open>d\<close>, the zero value of the field, when the TLV is missing or short.\<close>

definition tlv_or :: "'a \<Rightarrow> TLV list \<Rightarrow> u8 \<Rightarrow> nat \<Rightarrow> (byte list \<Rightarrow> 'a option) \<Rightarrow> 'a option" where
  "tlv_or d tlvs t n f = with_tlv tlvs t n (\<lambda>v _. f v) d"

text \<open>\<^verbatim>\<open>if tlv == nil || len(tlv.Value) < n { return err }\<close>\<close>

definition need_tlv :: "TLV list \<Rightarrow> u8 \<Rightarrow> nat \<Rightarrow> string \<Rightarrow> (byte list \<Rightarrow> 'a parsed) \<Rightarrow> 'a parsed" where
  "need_tlv tlvs t n msg f =
     (case FindTLV tlvs t of
        Some tlv \<Rightarrow> if n \<le> length (tlv_Value tlv) then f (tlv_Value tlv) else Some (Inl (ErrText msg))
      | None \<Rightarrow> Some (Inl (ErrText msg)))"

definition ok :: "'a \<Rightarrow> 'a parsed" where
  "ok x = Some (Inr x)"

lemma ok_safe [safe]: "ok x \<noteq> None"
  by (simp add: ok_def)

lemma Some_safe [safe]: "Some x \<noteq> None"
  by simp

lemma with_tlv_safe [safe]: "(\<And>v. n \<le> length v \<Longrightarrow> f v s \<noteq> None) \<Longrightarrow> with_tlv tlvs t n f s \<noteq> None"
  by (auto simp: with_tlv_def split: option.split)

lemma opt_tlv_safe [safe]: "(\<And>v. n \<le> length v \<Longrightarrow> f v \<noteq> None) \<Longrightarrow> opt_tlv tlvs t n f \<noteq> None"
  unfolding opt_tlv_def by (intro safe)

lemma tlv_or_safe [safe]: "(\<And>v. n \<le> length v \<Longrightarrow> f v \<noteq> None) \<Longrightarrow> tlv_or d tlvs t n f \<noteq> None"
  unfolding tlv_or_def by (intro safe)

lemma with_tlv_len_safe [safe]: "(\<And>v. length v = n \<Longrightarrow> f v s \<noteq> None) \<Longrightarrow> with_tlv_len tlvs t n f s \<noteq> None"
  by (auto simp: with_tlv_len_def split: option.split)

lemma need_tlv_safe [safe]: "(\<And>v. n \<le> length v \<Longrightarrow> f v \<noteq> None) \<Longrightarrow> need_tlv tlvs t n msg f \<noteq> None"
  by (auto simp: need_tlv_def split: option.split)

lemma checked_safe [safe]: "parse p \<noteq> None \<Longrightarrow> checked pre parse p \<noteq> None"
  by (simp add: checked_def split: option.split)

lemma checked_plain_safe [safe]: "parse p \<noteq> None \<Longrightarrow> checked_plain parse p \<noteq> None"
  by (simp add: checked_plain_def split: option.split)

lemma acked_safe [safe]: "acked p \<noteq> None"
  by (simp add: acked_def)

lemma call_safe: "(\<And>p. parse p \<noteq> None) \<Longrightarrow> fst (call send msg tlvs parse m) \<noteq> None"
  by (auto simp: call_def split: sum.split prod.split)

text \<open>\<^verbatim>\<open>x, err := f(); if err != nil { return nil, err }\<close> within a parser.\<close>

definition try_parse :: "'a parsed \<Rightarrow> ('a \<Rightarrow> 'b parsed) \<Rightarrow> 'b parsed" where
  "try_parse m f = do { r \<leftarrow> m; (case r of Inl e \<Rightarrow> Some (Inl e) | Inr x \<Rightarrow> f x) }"

lemma try_parse_safe [safe]: "m \<noteq> None \<Longrightarrow> (\<And>x. m = Some (Inr x) \<Longrightarrow> f x \<noteq> None) \<Longrightarrow> try_parse m f \<noteq> None"
  unfolding try_parse_def by (cases m) (auto split: sum.split)

text \<open>The list of elements of \<open>w\<close> bytes behind a count byte.\<close>

definition counted_list :: "nat \<Rightarrow> (byte list \<Rightarrow> nat \<Rightarrow> 'a option) \<Rightarrow> byte list \<Rightarrow> 'a list option" where
  "counted_list w f v = do { count \<leftarrow> at v 0; strided w (unat count) 1 v (f v) }"

lemma counted_list_safe [safe]:
  "1 \<le> length v \<Longrightarrow> (\<And>off. off + w \<le> length v \<Longrightarrow> f v off \<noteq> None) \<Longrightarrow> counted_list w f v \<noteq> None"
  unfolding counted_list_def by (intro safe) auto

lemma opt_tlv_found:
  "FindTLV ts t = Some tlv \<Longrightarrow> n \<le> length (tlv_Value tlv) \<Longrightarrow> opt_tlv ts t n f = map_option Some (f (tlv_Value tlv))"
  by (simp add: opt_tlv_def with_tlv_def)

lemma with_tlv_keeps:
  assumes "with_tlv ts t n f s = Some s'" "P s" "\<And>v s s'. f v s = Some s' \<Longrightarrow> P s \<Longrightarrow> P s'"
  shows "P s'"
  using assms(1,2) by (auto simp: with_tlv_def split: option.splits if_splits intro: assms(3))

lemma rd16_append: "length pre = k \<Longrightarrow> rd16 (pre @ xs) k = rd16 xs 0"
  using go_slice_skip[of pre k 0 2 xs] by (simp add: rd16_def sub_def numeral_2_eq_2)

lemma rd16_Put [simp]: "rd16 (PutUint16 x @ r) 0 = Some x"
  by (simp add: rd16_def go_slice_def)

lemma go_slice_mid: "length pre = k \<Longrightarrow> length xs = n \<Longrightarrow> go_slice k (k + n) (pre @ xs @ post) = xs"
  by (simp add: go_slice_def)

lemma rd64_append: "length pre = k \<Longrightarrow> rd64 (pre @ xs) (k + i) = rd64 xs i"
  using go_slice_skip[of pre k i "i + 8" xs] by (simp add: rd64_def sub_def add.assoc)

lemma those_map_Some: "those (map (\<lambda>x. Some (f x)) xs) = Some (map f xs)"
  by (induction xs) simp_all

lemma FindTLV_Cons: "FindTLV (\<lparr>tlv_Type = a, tlv_Value = v\<rparr> # r) t = (if a = t then Some \<lparr>tlv_Type = a, tlv_Value = v\<rparr> else FindTLV r t)"
  by simp

section \<open>Sequences of requests\<close>

text \<open>A method that goes on with the result of another one, a value or an error; a panic ends both.\<close>

definition try_m :: "('m \<Rightarrow> 'a parsed \<times> 'm) \<Rightarrow> (go_error + 'a \<Rightarrow> 'm \<Rightarrow> 'b option \<times> 'm) \<Rightarrow> 'm \<Rightarrow> 'b option \<times> 'm" where
  "try_m f g m = (case f m of (None, m1) \<Rightarrow> (None, m1) | (Some r, m1) \<Rightarrow> g r m1)"

definition then_m :: "('m \<Rightarrow> 'a parsed \<times> 'm) \<Rightarrow> ('a \<Rightarrow> 'm \<Rightarrow> 'b parsed \<times> 'm) \<Rightarrow> 'm \<Rightarrow> 'b parsed \<times> 'm" where
  "then_m f g = try_m f (\<lambda>r m. case r of Inl e \<Rightarrow> (Some (Inl e), m) | Inr x \<Rightarrow> g x m)"

definition ret_m :: "'a option \<Rightarrow> 'm \<Rightarrow> 'a option \<times> 'm" where
  "ret_m r m = (r, m)"

text \<open>One attempt after another until one succeeds; the error of the last one is returned.\<close>

fun attempt_m :: "('x \<Rightarrow> 'm \<Rightarrow> 'a parsed \<times> 'm) \<Rightarrow> 'x \<Rightarrow> 'x list \<Rightarrow> 'm \<Rightarrow> 'a parsed \<times> 'm" where
  "attempt_m f x [] = f x"
| "attempt_m f x (y # ys) = try_m (f x) (\<lambda>r. case r of Inl _ \<Rightarrow> attempt_m f y ys | Inr v \<Rightarrow> ret_m (ok v))"

lemma try_m_safe [safe]:
  "fst (f m) \<noteq> None \<Longrightarrow> (\<And>r m1. f m = (Some r, m1) \<Longrightarrow> fst (g r m1) \<noteq> None) \<Longrightarrow> fst (try_m f g m) \<noteq> None"
  by (auto simp: try_m_def split: prod.split option.split)

lemma ret_m_safe [safe]: "r \<noteq> None \<Longrightarrow> fst (ret_m r m) \<noteq> None"
  by (simp add: ret_m_def)

lemma attempt_m_safe [safe]: "(\<And>x m. fst (f x m) \<noteq> None) \<Longrightarrow> fst (attempt_m f x xs m) \<noteq> None"
proof (induction xs arbitrary: x m)
  case (Cons y ys)
  show ?case
    unfolding attempt_m.simps
    by (rule try_m_safe[OF Cons.prems]) (simp add: Cons.IH[OF Cons.prems, simplified] ret_m_def ok_def split: sum.split)
qed simp

section \<open>Optional request TLVs\<close>

definition str_tlv :: "u8 \<Rightarrow> string \<Rightarrow> TLV list" where
  "str_tlv t s = (if s \<noteq> [] then [NewTLVString t (bytes_of_string s)] else [])"

definition flag_tlv :: "u8 \<Rightarrow> bool \<Rightarrow> TLV list" where
  "flag_tlv t b = (if b then [NewTLVUint8 t 0x01] else [])"

definition boolToUint8 :: "bool \<Rightarrow> u8" where
  "boolToUint8 v = (if v then 1 else 0)"

definition u8_tlv :: "u8 \<Rightarrow> u8 option \<Rightarrow> TLV list" where
  "u8_tlv t v = (case v of Some x \<Rightarrow> [NewTLVUint8 t x] | None \<Rightarrow> [])"

section \<open>Digits and hexadecimal\<close>

text \<open>\<^verbatim>\<open>%q\<close> of a string without quotes, backslashes and unprintable characters.\<close>

definition quoted :: "string \<Rightarrow> string" where
  "quoted s = [CHR 0x22] @ s @ [CHR 0x22]"

definition hex2 :: "u8 \<Rightarrow> string" where
  "hex2 b = [hex_char (unat (drop_bit 4 b)), hex_char (unat (b AND 0x0F))]"

definition lo_nibble :: "byte \<Rightarrow> byte" where "lo_nibble b = b AND 0x0F"
definition hi_nibble :: "byte \<Rightarrow> byte" where "hi_nibble b = drop_bit 4 b AND 0x0F"

definition decimalDigits :: "string \<Rightarrow> bool" where
  "decimalDigits value = (if value = [] then False else list_all (\<lambda>r. (48 :: nat) \<le> of_char r \<and> of_char r \<le> (57 :: nat)) value)"

lemma unat_nibbles:
  "unat (lo_nibble w) = unat w mod 16"
  "unat (hi_nibble w) = unat w div 16"
proof -
  have m: "x AND 0x0F = take_bit 4 x" for x :: byte
    by (simp add: take_bit_eq_mask mask_eq_exp_minus_1)
  show "unat (lo_nibble w) = unat w mod 16"
    by (simp only: lo_nibble_def m unsigned_take_bit_eq) (simp add: take_bit_eq_mod)
  have "unat w div 16 < 16" by (simp add: less_mult_imp_div_less)
  then show "unat (hi_nibble w) = unat w div 16"
    by (simp only: hi_nibble_def m unsigned_take_bit_eq unsigned_drop_bit_eq) (simp add: take_bit_eq_mod drop_bit_eq_div)
qed

lemma nibbles [simp]:
  assumes "a < 16" "b < 16"
  shows "lo_nibble (of_nat (a + 16 * b)) = of_nat a" "hi_nibble (of_nat (a + 16 * b)) = of_nat b"
proof -
  have "unat (of_nat (a + 16 * b) :: byte) = a + 16 * b" using assms by (intro unat_of_nat_byte) simp
  then show "lo_nibble (of_nat (a + 16 * b)) = of_nat a" "hi_nibble (of_nat (a + 16 * b)) = of_nat b"
    using assms by (simp_all only: unat_nibbles word_unat_eq_iff) simp_all
qed

lemma unat_digit [simp]: "d < 16 \<Longrightarrow> unat (of_nat d :: byte) = d"
  by simp

lemma decimal_digit [simp]: "d < 10 \<Longrightarrow> decimal d = [digit_char d]"
  by (simp add: decimal.simps)

definition digits :: "nat list \<Rightarrow> string" where
  "digits = map digit_char"

lemma digits_clean:
  assumes "\<forall>d \<in> set ds. d < 10" "ds \<noteq> []"
  shows "TrimSpace (digits ds) = digits ds" "decimalDigits (digits ds)"
proof -
  have c: "48 \<le> (of_char c :: nat) \<and> (of_char c :: nat) \<le> 57" if "c \<in> set (digits ds)" for c
    using that assms(1) by (fastforce simp: digits_def of_char_digit_char)
  show "TrimSpace (digits ds) = digits ds" by (rule TrimSpace_id) (use c in fastforce)
  show "decimalDigits (digits ds)"
    using c assms(2) by (auto simp: decimalDigits_def list_all_iff digits_def)
qed

section \<open>UTF-8\<close>

text \<open>\<^verbatim>\<open>utf8.Valid\<close>.\<close>

definition continuation :: "byte \<Rightarrow> bool" where
  "continuation b \<longleftrightarrow> 0x80 \<le> b \<and> b \<le> 0xBF"

fun utf8_valid :: "byte list \<Rightarrow> bool" where
  "utf8_valid [] = True"
| "utf8_valid (a # r) =
     (if a < 0x80 then utf8_valid r
      else (case r of
        [] \<Rightarrow> False
      | b # r1 \<Rightarrow>
          if 0xC2 \<le> a \<and> a \<le> 0xDF then continuation b \<and> utf8_valid r1
          else (case r1 of
            [] \<Rightarrow> False
          | c # r2 \<Rightarrow>
              if 0xE0 \<le> a \<and> a \<le> 0xEF then
                continuation b \<and> continuation c \<and> (a = 0xE0 \<longrightarrow> 0xA0 \<le> b) \<and> (a = 0xED \<longrightarrow> b \<le> 0x9F) \<and> utf8_valid r2
              else (case r2 of
                [] \<Rightarrow> False
              | d # r3 \<Rightarrow>
                  0xF0 \<le> a \<and> a \<le> 0xF4 \<and> continuation b \<and> continuation c \<and> continuation d \<and>
                  (a = 0xF0 \<longrightarrow> 0x90 \<le> b) \<and> (a = 0xF4 \<longrightarrow> b \<le> 0x8F) \<and> utf8_valid r3))))"

section \<open>Modems for the round trips\<close>

text \<open>A response that reports success, with some TLVs.\<close>

definition answer :: "u16 \<Rightarrow> u16 \<Rightarrow> TLV list \<Rightarrow> Packet" where
  "answer service msg tlvs =
     \<lparr>pkt_ServiceType = service, pkt_ClientID = 1, pkt_TransactionID = 1, pkt_MessageID = msg, pkt_IsIndication = False,
      pkt_TLVs = \<lparr>tlv_Type = 0x02, tlv_Value = [0, 0, 0, 0]\<rparr> # tlvs\<rparr>"

lemma check_answer [simp]: "check (answer service msg tlvs) = None"
  by (simp add: check_def CheckResult_def GetResultCode_def answer_def Uint16_def)

lemma snd_call: "snd (call send msg tlvs parse m) = snd (send msg tlvs m)"
  by (simp add: call_def split: prod.split sum.split)

lemma snd_try_ret: "snd (try_m f (\<lambda>r. ret_m (g r)) m) = snd (f m)"
  by (auto simp: try_m_def ret_m_def split: prod.split option.split)

end
