(* ===== verification/Wds.thy ===== *)
theory Wds
  imports GoParse
begin

text \<open>
  The WDS service, \<^verbatim>\<open>src/pkg/qmi/wds.go\<close> and \<^verbatim>\<open>wds_active_apn.go\<close>: call end reasons, the requests its methods
  build, the parsers of its responses and the methods themselves. A value with a \<^verbatim>\<open>Has\<close> flag is an option,
  a nil \<^verbatim>\<open>net.IP\<close> the empty list. No parser panics on any packet; profile lists are read back, and the
  choice of the IMS profile meets its description.
\<close>

section \<open>Constants\<close>

abbreviation (input) WDSSetEventReport :: u16 where "WDSSetEventReport \<equiv> 0x0001"
abbreviation (input) WDSStartNetworkInterface :: u16 where "WDSStartNetworkInterface \<equiv> 0x0020"
abbreviation (input) WDSStopNetworkInterface :: u16 where "WDSStopNetworkInterface \<equiv> 0x0021"
abbreviation (input) WDSGetPktSrvcStatus :: u16 where "WDSGetPktSrvcStatus \<equiv> 0x0022"
abbreviation (input) WDSGetCurrentChannelRate :: u16 where "WDSGetCurrentChannelRate \<equiv> 0x0023"
abbreviation (input) WDSGetPktStatistics :: u16 where "WDSGetPktStatistics \<equiv> 0x0024"
abbreviation (input) WDSCreateProfile :: u16 where "WDSCreateProfile \<equiv> 0x0027"
abbreviation (input) WDSModifyProfileSettings :: u16 where "WDSModifyProfileSettings \<equiv> 0x0028"
abbreviation (input) WDSDeleteProfile :: u16 where "WDSDeleteProfile \<equiv> 0x0029"
abbreviation (input) WDSGetProfileList :: u16 where "WDSGetProfileList \<equiv> 0x002A"
abbreviation (input) WDSGetProfileSettings :: u16 where "WDSGetProfileSettings \<equiv> 0x002B"
abbreviation (input) WDSGetRuntimeSettings :: u16 where "WDSGetRuntimeSettings \<equiv> 0x002D"
abbreviation (input) WDSGetAutoconnectSettings :: u16 where "WDSGetAutoconnectSettings \<equiv> 0x0034"
abbreviation (input) WDSGetDataBearerTechnology :: u16 where "WDSGetDataBearerTechnology \<equiv> 0x0037"
abbreviation (input) WDSGetCurrentDataBearerTechnology :: u16 where "WDSGetCurrentDataBearerTechnology \<equiv> 0x0044"
abbreviation (input) WDSSetClientIPFamilyPref :: u16 where "WDSSetClientIPFamilyPref \<equiv> 0x004D"
abbreviation (input) WDSSetAutoconnectSettings :: u16 where "WDSSetAutoconnectSettings \<equiv> 0x0051"
abbreviation (input) WDSBindMuxDataPort :: u16 where "WDSBindMuxDataPort \<equiv> 0x00A2"

abbreviation (input) TLVWDSPrimaryDNSv4 :: u8 where "TLVWDSPrimaryDNSv4 \<equiv> 0x15"
abbreviation (input) TLVWDSSecondaryDNSv4 :: u8 where "TLVWDSSecondaryDNSv4 \<equiv> 0x16"
abbreviation (input) TLVWDSIPv4Address :: u8 where "TLVWDSIPv4Address \<equiv> 0x1E"
abbreviation (input) TLVWDSIPv4Gateway :: u8 where "TLVWDSIPv4Gateway \<equiv> 0x20"
abbreviation (input) TLVWDSIPv4Subnet :: u8 where "TLVWDSIPv4Subnet \<equiv> 0x21"
abbreviation (input) TLVWDSPCSCFUsingPCO :: u8 where "TLVWDSPCSCFUsingPCO \<equiv> 0x22"
abbreviation (input) TLVWDSPCSCFServerAddrList :: u8 where "TLVWDSPCSCFServerAddrList \<equiv> 0x23"
abbreviation (input) TLVWDSPCSCFDomainList :: u8 where "TLVWDSPCSCFDomainList \<equiv> 0x24"
abbreviation (input) TLVWDSIPv6Address :: u8 where "TLVWDSIPv6Address \<equiv> 0x25"
abbreviation (input) TLVWDSIPv6Gateway :: u8 where "TLVWDSIPv6Gateway \<equiv> 0x26"
abbreviation (input) TLVWDSPrimaryDNSv6 :: u8 where "TLVWDSPrimaryDNSv6 \<equiv> 0x27"
abbreviation (input) TLVWDSSecondaryDNSv6 :: u8 where "TLVWDSSecondaryDNSv6 \<equiv> 0x28"
abbreviation (input) TLVWDSMtu :: u8 where "TLVWDSMtu \<equiv> 0x29"
abbreviation (input) TLVWDSIMCNFlag :: u8 where "TLVWDSIMCNFlag \<equiv> 0x2C"
abbreviation (input) TLVWDSPCSCFServerAddrListV6 :: u8 where "TLVWDSPCSCFServerAddrListV6 \<equiv> 0x2E"
abbreviation (input) TLVWDSIPv6DelegatedPrefix :: u8 where "TLVWDSIPv6DelegatedPrefix \<equiv> 0x57"

abbreviation (input) QMIErrOutOfCall :: u16 where "QMIErrOutOfCall \<equiv> 0x000F"
abbreviation (input) AnyPacketDataHandle :: u32 where "AnyPacketDataHandle \<equiv> 0xFFFFFFFF"

section \<open>Data\<close>

type_synonym CallEndReason = "u16 \<times> u16"
type_synonym net_IP = "byte list"

record WDSService =
  wds_ProfileIndex :: u8
  wds_CallType :: u8
  wds_HasCallType :: bool
  wds_TechnologyPreference :: u16

record StopNetworkInterfaceOptions =
  sno_Handle :: u32
  sno_DisableAutoconnect :: bool

record MuxBinding =
  mb_EpType :: u32
  mb_EpIfID :: u32
  mb_MuxID :: u8
  mb_ClientType :: u32

record ProfileInfo =
  pi_Type :: u8
  pi_Index :: u8
  pi_Name :: string

record WDSProfileSettings =
  wps_Name :: string
  wps_APN :: string
  wps_Username :: string
  wps_Password :: string
  wps_PDPType :: "u8 option"
  wps_Authentication :: "u8 option"

record ChannelRates =
  cr_TxRateBPS :: u32
  cr_RxRateBPS :: u32
  cr_MaxTxRateBPS :: u32
  cr_MaxRxRateBPS :: u32

record PacketStatistics =
  ps_PresentMask :: u32
  ps_TxPacketsOK :: u32
  ps_RxPacketsOK :: u32
  ps_TxPacketsError :: u32
  ps_RxPacketsError :: u32
  ps_TxOverflows :: u32
  ps_RxOverflows :: u32
  ps_TxBytesOK :: u64
  ps_RxBytesOK :: u64
  ps_LastCallTxBytesOK :: "u64 option"
  ps_LastCallRxBytesOK :: "u64 option"
  ps_TxPacketsDropped :: u32
  ps_RxPacketsDropped :: u32

text \<open>A field with a \<^verbatim>\<open>Has\<close> flag is an option.\<close>

record AutoconnectSettings =
  ac_Status :: "u8 option"
  ac_Roaming :: "u8 option"

record DataBearerTechnologyInfo =
  db_Current :: "int option"
  db_Last :: "int option"

record BearerTechnology =
  bt_NetworkType :: u8
  bt_RATMask :: u32
  bt_SOMask :: u32

record CurrentBearerTechnologyInfo =
  cb_Current :: "BearerTechnology option"
  cb_Last :: "BearerTechnology option"

datatype ConnectionStatus = ConnectionStatus u8

record RuntimeSettings =
  rt_IPv4Address :: net_IP
  rt_IPv4Subnet :: "byte list"
  rt_IPv4Gateway :: net_IP
  rt_IPv4DNS1 :: net_IP
  rt_IPv4DNS2 :: net_IP
  rt_IPv6Address :: net_IP
  rt_IPv6Prefix :: nat
  rt_IPv6Gateway :: net_IP
  rt_IPv6DNS1 :: net_IP
  rt_IPv6DNS2 :: net_IP
  rt_IPv6DelegatedPrefix :: net_IP
  rt_IPv6DelegatedPrefixLen :: nat
  rt_MTU :: nat
  rt_PCSCFUsingPCO :: "bool option"
  rt_PCSCFv4 :: "net_IP list"
  rt_PCSCFv6 :: "net_IP list"
  rt_PCSCFDomains :: "string list"
  rt_IMCN :: bool
  rt_ResponseTLVs :: "TLV list"

record ProfileSettings =
  pset_Name :: string
  pset_APN :: string
  pset_PDPType :: "u8 option"
  pset_IMCNFlag :: "bool option"

section \<open>Call end reasons\<close>

definition IsInterfaceInUseConfigMatch :: "CallEndReason option \<Rightarrow> bool" where
  "IsInterfaceInUseConfigMatch r = (case r of None \<Rightarrow> False | Some (t, c) \<Rightarrow> t = 2 \<and> c = 241)"

definition IsIPFamilyDisallowed :: "CallEndReason option \<Rightarrow> bool" where
  "IsIPFamilyDisallowed r =
     (case r of None \<Rightarrow> False | Some (t, c) \<Rightarrow> if t \<noteq> 2 then False else c = 208 \<or> c = 210 \<or> c = 231)"

definition IsAbortedByCardEvent :: "CallEndReason option \<Rightarrow> bool" where
  "IsAbortedByCardEvent r = (case r of None \<Rightarrow> False | Some (t, c) \<Rightarrow> t = 2 \<and> c = 218)"

section \<open>Requests\<close>

definition buildStartNetworkTLVs ::
  "string \<Rightarrow> string \<Rightarrow> string \<Rightarrow> u8 \<Rightarrow> u8 \<Rightarrow> u8 \<Rightarrow> u16 \<Rightarrow> u8 \<Rightarrow> bool \<Rightarrow> TLV list" where
  "buildStartNetworkTLVs apn username password authType ipFamily profileIndex technologyPreference callType hasCallType =
     str_tlv 0x14 apn @ str_tlv 0x17 username @ str_tlv 0x18 password @
     (if authType \<noteq> 0 then [NewTLVUint8 0x16 authType] else []) @
     [NewTLVUint8 0x19 ipFamily] @
     (if profileIndex > 0 then [NewTLVUint8 0x31 profileIndex] else []) @
     (if technologyPreference > 0 then [\<lparr>tlv_Type = 0x34, tlv_Value = PutUint16 technologyPreference\<rparr>] else []) @
     (if hasCallType then [NewTLVUint8 0x35 callType] else [])"

definition buildStopNetworkInterfaceTLVs :: "StopNetworkInterfaceOptions \<Rightarrow> TLV list" where
  "buildStopNetworkInterfaceTLVs opts =
     NewTLVUint32 0x01 (sno_Handle opts) # (if sno_DisableAutoconnect opts then [NewTLVUint8 0x10 1] else [])"

definition buildProfileIdentifierTLV :: "u8 \<Rightarrow> u8 \<Rightarrow> TLV" where
  "buildProfileIdentifierTLV profileType profileIndex = \<lparr>tlv_Type = 0x01, tlv_Value = [profileType, profileIndex]\<rparr>"

definition buildProfileSettingsTLVs :: "WDSProfileSettings \<Rightarrow> TLV list" where
  "buildProfileSettingsTLVs s =
     str_tlv 0x10 (wps_Name s) @ u8_tlv 0x11 (wps_PDPType s) @ str_tlv 0x14 (wps_APN s) @
     str_tlv 0x1B (wps_Username s) @ str_tlv 0x1C (wps_Password s) @ u8_tlv 0x1D (wps_Authentication s)"

definition buildAutoconnectSettingsTLVs :: "AutoconnectSettings \<Rightarrow> TLV list" where
  "buildAutoconnectSettingsTLVs s = u8_tlv 0x01 (ac_Status s) @ u8_tlv 0x10 (ac_Roaming s)"

section \<open>Responses\<close>

definition parsePacketServiceStatusPacket :: "Packet \<Rightarrow> bool \<Rightarrow> ConnectionStatus parsed" where
  "parsePacketServiceStatusPacket p checkResult =
     (case (if checkResult then check p else None) of
        Some e \<Rightarrow> Some (Inl (errorf ''get status failed'' e))
      | None \<Rightarrow>
          need_tlv (pkt_TLVs p) 0x01 1
            (if checkResult then ''no status TLV in response''
             else ''packet service status indication missing status TLV'')
            (\<lambda>v. do { b \<leftarrow> at v 0; ok (ConnectionStatus b) }))"

definition looksLikeDelegatedPrefix :: "net_IP \<Rightarrow> bool option" where
  "looksLikeDelegatedPrefix ip = do { b \<leftarrow> at ip 0; Some (b AND 0xE0 = 0x20 \<or> b AND 0xFE = 0xFC) }"

definition parseIPv6DelegatedPrefixAddress :: "byte list \<Rightarrow> net_IP option" where
  "parseIPv6DelegatedPrefixAddress raw =
     (let networkOrder = take 16 raw @ replicate (16 - length raw) 0 in do {
        swapped \<leftarrow> those (map (\<lambda>i. at raw (if even i then i + 1 else i - 1)) [0..<16]);
        asis \<leftarrow> looksLikeDelegatedPrefix networkOrder;
        if asis then Some networkOrder
        else do {
          swap \<leftarrow> looksLikeDelegatedPrefix swapped;
          Some (if swap then swapped else networkOrder)
        }
      })"

text \<open>\<^verbatim>\<open>net.IPv4\<close> makes the sixteen-byte form.\<close>

definition net_IPv4 :: "byte \<Rightarrow> byte \<Rightarrow> byte \<Rightarrow> byte \<Rightarrow> net_IP" where
  "net_IPv4 a b c d = replicate 10 0 @ [0xFF, 0xFF, a, b, c, d]"

definition ipv4_word :: "byte list \<Rightarrow> net_IP option" where
  "ipv4_word v = do { a \<leftarrow> at v 3; b \<leftarrow> at v 2; c \<leftarrow> at v 1; d \<leftarrow> at v 0; Some (net_IPv4 a b c d) }"

definition ipv4_mask :: "byte list \<Rightarrow> byte list option" where
  "ipv4_mask v = do { a \<leftarrow> at v 3; b \<leftarrow> at v 2; c \<leftarrow> at v 1; d \<leftarrow> at v 0; Some [a, b, c, d] }"

fun pcscf_domains :: "nat \<Rightarrow> byte list \<Rightarrow> string list option" where
  "pcscf_domains 0 body = Some []"
| "pcscf_domains (Suc count) body =
     (if length body < 2 then Some []
      else do {
        hd2 \<leftarrow> sub body 0 2;
        n \<leftarrow> le16 hd2;
        if length body < 2 + unat n then Some []
        else do {
          d \<leftarrow> sub body 2 (2 + unat n);
          rest \<leftarrow> tail_from body (2 + unat n);
          ds \<leftarrow> pcscf_domains count rest;
          Some (string_of_bytes d # ds)
        }
      })"

definition empty_RuntimeSettings :: "TLV list \<Rightarrow> RuntimeSettings" where
  "empty_RuntimeSettings tlvs =
     \<lparr>rt_IPv4Address = [], rt_IPv4Subnet = [], rt_IPv4Gateway = [], rt_IPv4DNS1 = [], rt_IPv4DNS2 = [],
      rt_IPv6Address = [], rt_IPv6Prefix = 0, rt_IPv6Gateway = [], rt_IPv6DNS1 = [], rt_IPv6DNS2 = [],
      rt_IPv6DelegatedPrefix = [], rt_IPv6DelegatedPrefixLen = 0, rt_MTU = 0, rt_PCSCFUsingPCO = None,
      rt_PCSCFv4 = [], rt_PCSCFv6 = [], rt_PCSCFDomains = [], rt_IMCN = False, rt_ResponseTLVs = tlvs\<rparr>"

definition parse_ipv4_settings :: "TLV list \<Rightarrow> RuntimeSettings \<Rightarrow> RuntimeSettings option" where
  "parse_ipv4_settings ts s0 = do {
     s1 \<leftarrow> with_tlv ts TLVWDSIPv4Address 4 (\<lambda>v s. do { ip \<leftarrow> ipv4_word v; Some (s\<lparr>rt_IPv4Address := ip\<rparr>) }) s0;
     s2 \<leftarrow> with_tlv ts TLVWDSIPv4Subnet 4 (\<lambda>v s. do { ip \<leftarrow> ipv4_mask v; Some (s\<lparr>rt_IPv4Subnet := ip\<rparr>) }) s1;
     s3 \<leftarrow> with_tlv ts TLVWDSIPv4Gateway 4 (\<lambda>v s. do { ip \<leftarrow> ipv4_word v; Some (s\<lparr>rt_IPv4Gateway := ip\<rparr>) }) s2;
     s4 \<leftarrow> with_tlv ts TLVWDSPrimaryDNSv4 4 (\<lambda>v s. do { ip \<leftarrow> ipv4_word v; Some (s\<lparr>rt_IPv4DNS1 := ip\<rparr>) }) s3;
     with_tlv ts TLVWDSSecondaryDNSv4 4 (\<lambda>v s. do { ip \<leftarrow> ipv4_word v; Some (s\<lparr>rt_IPv4DNS2 := ip\<rparr>) }) s4
   }"

definition parse_ipv6_settings :: "TLV list \<Rightarrow> RuntimeSettings \<Rightarrow> RuntimeSettings option" where
  "parse_ipv6_settings ts s0 = do {
     s1 \<leftarrow> with_tlv ts TLVWDSIPv6Address 17 (\<lambda>v s. do {
        ip \<leftarrow> sub v 0 16; n \<leftarrow> at v 16; Some (s\<lparr>rt_IPv6Address := ip, rt_IPv6Prefix := unat n\<rparr>) }) s0;
     s2 \<leftarrow> with_tlv ts TLVWDSIPv6Gateway 16 (\<lambda>v s. do { ip \<leftarrow> sub v 0 16; Some (s\<lparr>rt_IPv6Gateway := ip\<rparr>) }) s1;
     s3 \<leftarrow> with_tlv ts TLVWDSPrimaryDNSv6 16 (\<lambda>v s. do { ip \<leftarrow> sub v 0 16; Some (s\<lparr>rt_IPv6DNS1 := ip\<rparr>) }) s2;
     s4 \<leftarrow> with_tlv ts TLVWDSSecondaryDNSv6 16 (\<lambda>v s. do { ip \<leftarrow> sub v 0 16; Some (s\<lparr>rt_IPv6DNS2 := ip\<rparr>) }) s3;
     with_tlv ts TLVWDSIPv6DelegatedPrefix 17 (\<lambda>v s. do {
        raw \<leftarrow> sub v 0 16; ip \<leftarrow> parseIPv6DelegatedPrefixAddress raw; n \<leftarrow> at v 16;
        Some (s\<lparr>rt_IPv6DelegatedPrefix := ip, rt_IPv6DelegatedPrefixLen := unat n\<rparr>) }) s4
   }"

definition parse_pcscf_settings :: "TLV list \<Rightarrow> RuntimeSettings \<Rightarrow> RuntimeSettings option" where
  "parse_pcscf_settings ts s0 = do {
     s1 \<leftarrow> with_tlv ts TLVWDSMtu 4 (\<lambda>v s. do { n \<leftarrow> le32 v; Some (s\<lparr>rt_MTU := unat n\<rparr>) }) s0;
     s2 \<leftarrow> with_tlv ts TLVWDSPCSCFUsingPCO 1 (\<lambda>v s. do { b \<leftarrow> at v 0; Some (s\<lparr>rt_PCSCFUsingPCO := Some (b \<noteq> 0)\<rparr>) }) s1;
     s3 \<leftarrow> with_tlv ts TLVWDSPCSCFServerAddrList 1 (\<lambda>v s. do {
        ips \<leftarrow> counted v (\<lambda>n. elements 4 n ipv4_word); Some (s\<lparr>rt_PCSCFv4 := ips\<rparr>) }) s2;
     s4 \<leftarrow> with_tlv ts TLVWDSPCSCFServerAddrListV6 1 (\<lambda>v s. do {
        ips \<leftarrow> counted v (\<lambda>n. elements 16 n Some); Some (s\<lparr>rt_PCSCFv6 := ips\<rparr>) }) s3;
     s5 \<leftarrow> with_tlv ts TLVWDSPCSCFDomainList 1 (\<lambda>v s. do {
        ds \<leftarrow> counted v pcscf_domains; Some (s\<lparr>rt_PCSCFDomains := ds\<rparr>) }) s4;
     with_tlv ts TLVWDSIMCNFlag 1 (\<lambda>v s. do { b \<leftarrow> at v 0; Some (s\<lparr>rt_IMCN := (b \<noteq> 0)\<rparr>) }) s5
   }"

definition parseRuntimeSettings :: "Packet \<Rightarrow> RuntimeSettings option" where
  "parseRuntimeSettings resp = do {
     s1 \<leftarrow> parse_ipv4_settings (pkt_TLVs resp) (empty_RuntimeSettings (pkt_TLVs resp));
     s2 \<leftarrow> parse_ipv6_settings (pkt_TLVs resp) s1;
     parse_pcscf_settings (pkt_TLVs resp) s2
   }"

fun profile_entries :: "nat \<Rightarrow> nat \<Rightarrow> byte list \<Rightarrow> ProfileInfo list option" where
  "profile_entries 0 off v = Some []"
| "profile_entries (Suc count) off v =
     (if off + 3 > length v then Some []
      else do {
        pType \<leftarrow> at v off;
        pIndex \<leftarrow> at v (off + 1);
        pNameLen \<leftarrow> at v (off + 2);
        if off + 3 + unat pNameLen > length v then Some []
        else do {
          pName \<leftarrow> sub v (off + 3) (off + 3 + unat pNameLen);
          ps \<leftarrow> profile_entries count (off + 3 + unat pNameLen) v;
          Some (\<lparr>pi_Type = pType, pi_Index = pIndex, pi_Name = string_of_bytes pName\<rparr> # ps)
        }
      })"

definition parseProfileList :: "TLV list \<Rightarrow> ProfileInfo list option" where
  "parseProfileList tlvs =
     (case FindTLV tlvs 0x01 of
        None \<Rightarrow> Some []
      | Some tlv \<Rightarrow>
          if length (tlv_Value tlv) < 1 then Some []
          else do { count \<leftarrow> at (tlv_Value tlv) 0; profile_entries (unat count) 1 (tlv_Value tlv) })"

definition parseProfileSettings :: "TLV list \<Rightarrow> ProfileSettings option" where
  "parseProfileSettings ts = do {
     s1 \<leftarrow> with_tlv ts 0x10 0 (\<lambda>v s. Some (s\<lparr>pset_Name := string_of_bytes v\<rparr>))
       \<lparr>pset_Name = [], pset_APN = [], pset_PDPType = None, pset_IMCNFlag = None\<rparr>;
     s2 \<leftarrow> with_tlv ts 0x11 1 (\<lambda>v s. do { b \<leftarrow> at v 0; Some (s\<lparr>pset_PDPType := Some b\<rparr>) }) s1;
     s3 \<leftarrow> with_tlv ts 0x14 0 (\<lambda>v s. Some (s\<lparr>pset_APN := string_of_bytes v\<rparr>)) s2;
     with_tlv ts 0x22 1 (\<lambda>v s. do { b \<leftarrow> at v 0; Some (s\<lparr>pset_IMCNFlag := Some (b \<noteq> 0)\<rparr>) }) s3
   }"

fun pick_profile :: "ProfileInfo list \<Rightarrow> (ProfileInfo \<Rightarrow> go_error + ProfileSettings) \<Rightarrow> string \<Rightarrow> u8 option \<Rightarrow> u8 option" where
  "pick_profile [] settingsFor apnHint apnMatch = apnMatch"
| "pick_profile (p # ps) settingsFor apnHint apnMatch =
     (case settingsFor p of
        Inl _ \<Rightarrow> pick_profile ps settingsFor apnHint apnMatch
      | Inr s \<Rightarrow>
          if pset_IMCNFlag s = Some True then Some (pi_Index p)
          else pick_profile ps settingsFor apnHint
            (if apnMatch = None \<and> apnHint \<noteq> [] \<and> EqualFold (TrimSpace (pset_APN s)) apnHint
             then Some (pi_Index p) else apnMatch))"

definition pickIMSProfileIndex ::
  "ProfileInfo list \<Rightarrow> (ProfileInfo \<Rightarrow> go_error + ProfileSettings) \<Rightarrow> string \<Rightarrow> u8 option" where
  "pickIMSProfileIndex profiles settingsFor apnHint = pick_profile profiles settingsFor (TrimSpace apnHint) None"

definition parseChannelRatesResponse :: "Packet \<Rightarrow> ChannelRates parsed" where
  "parseChannelRatesResponse = checked ''get channel rates failed'' (\<lambda>resp.
     (case FindTLV (pkt_TLVs resp) 0x01 of
        None \<Rightarrow> Some (Inl (ErrText ''no channel rates TLV in response''))
      | Some tlv \<Rightarrow>
          let v = tlv_Value tlv in
          if length v < 16 then Some (Inl (ErrText (''channel rates TLV too short: '' @ decimal (length v))))
          else do {
            b0 \<leftarrow> sub v 0 4; tx \<leftarrow> le32 b0;
            b1 \<leftarrow> sub v 4 8; rx \<leftarrow> le32 b1;
            b2 \<leftarrow> sub v 8 12; mtx \<leftarrow> le32 b2;
            b3 \<leftarrow> sub v 12 16; mrx \<leftarrow> le32 b3;
            ok \<lparr>cr_TxRateBPS = tx, cr_RxRateBPS = rx, cr_MaxTxRateBPS = mtx, cr_MaxRxRateBPS = mrx\<rparr>
          }))"

definition empty_PacketStatistics :: PacketStatistics where
  "empty_PacketStatistics =
     \<lparr>ps_PresentMask = 0, ps_TxPacketsOK = 0, ps_RxPacketsOK = 0, ps_TxPacketsError = 0, ps_RxPacketsError = 0,
      ps_TxOverflows = 0, ps_RxOverflows = 0, ps_TxBytesOK = 0, ps_RxBytesOK = 0, ps_LastCallTxBytesOK = None,
      ps_LastCallRxBytesOK = None, ps_TxPacketsDropped = 0, ps_RxPacketsDropped = 0\<rparr>"

definition mark :: "nat \<Rightarrow> PacketStatistics \<Rightarrow> PacketStatistics" where
  "mark n s = s\<lparr>ps_PresentMask := ps_PresentMask s OR push_bit n 1\<rparr>"

definition stat32 :: "TLV list \<Rightarrow> u8 \<Rightarrow> nat \<Rightarrow> (u32 \<Rightarrow> PacketStatistics \<Rightarrow> PacketStatistics)
    \<Rightarrow> PacketStatistics \<Rightarrow> PacketStatistics option" where
  "stat32 ts t n f = with_tlv ts t 4 (\<lambda>v s. do { x \<leftarrow> le32 v; Some (mark n (f x s)) })"

definition stat64 :: "TLV list \<Rightarrow> u8 \<Rightarrow> (u64 \<Rightarrow> PacketStatistics \<Rightarrow> PacketStatistics)
    \<Rightarrow> PacketStatistics \<Rightarrow> PacketStatistics option" where
  "stat64 ts t f = with_tlv ts t 8 (\<lambda>v s. do { x \<leftarrow> le64 v; Some (f x s) })"

definition parse_packet_counters :: "TLV list \<Rightarrow> PacketStatistics option" where
  "parse_packet_counters ts = do {
     s1 \<leftarrow> stat32 ts 0x10 0 (\<lambda>x s. s\<lparr>ps_TxPacketsOK := x\<rparr>) empty_PacketStatistics;
     s2 \<leftarrow> stat32 ts 0x11 1 (\<lambda>x s. s\<lparr>ps_RxPacketsOK := x\<rparr>) s1;
     s3 \<leftarrow> stat32 ts 0x12 2 (\<lambda>x s. s\<lparr>ps_TxPacketsError := x\<rparr>) s2;
     s4 \<leftarrow> stat32 ts 0x13 3 (\<lambda>x s. s\<lparr>ps_RxPacketsError := x\<rparr>) s3;
     s5 \<leftarrow> stat32 ts 0x14 4 (\<lambda>x s. s\<lparr>ps_TxOverflows := x\<rparr>) s4;
     s6 \<leftarrow> stat32 ts 0x15 5 (\<lambda>x s. s\<lparr>ps_RxOverflows := x\<rparr>) s5;
     s7 \<leftarrow> stat64 ts 0x19 (\<lambda>x s. mark 6 (s\<lparr>ps_TxBytesOK := x\<rparr>)) s6;
     s8 \<leftarrow> stat64 ts 0x1A (\<lambda>x s. mark 7 (s\<lparr>ps_RxBytesOK := x\<rparr>)) s7;
     s9 \<leftarrow> stat64 ts 0x1B (\<lambda>x s. s\<lparr>ps_LastCallTxBytesOK := Some x\<rparr>) s8;
     s10 \<leftarrow> stat64 ts 0x1C (\<lambda>x s. s\<lparr>ps_LastCallRxBytesOK := Some x\<rparr>) s9;
     s11 \<leftarrow> stat32 ts 0x1D 8 (\<lambda>x s. s\<lparr>ps_TxPacketsDropped := x\<rparr>) s10;
     stat32 ts 0x1E 9 (\<lambda>x s. s\<lparr>ps_RxPacketsDropped := x\<rparr>) s11
   }"

text \<open>A response whose result says that there is no call carries what is left of the last call: the
  value and the error are both returned, when \<open>keep\<close> holds of the value.\<close>

definition out_of_call :: "go_error \<Rightarrow> bool" where
  "out_of_call e = (case GetQMIError e of Some qe \<Rightarrow> qe_ErrorCode qe = QMIErrOutOfCall | None \<Rightarrow> False)"

definition last_call_result ::
  "string \<Rightarrow> bool \<Rightarrow> 'a \<Rightarrow> Packet \<Rightarrow> ('a option \<times> go_error option) option" where
  "last_call_result operation keep x resp =
     (case check resp of
        None \<Rightarrow> None
      | Some e \<Rightarrow>
          Some (if out_of_call e then (if keep then Some x else None, Some (ErrOutOfCall operation))
                else (None, Some (errorf (operation @ '' failed'') e))))"

definition parsePacketStatisticsResponse :: "Packet \<Rightarrow> (PacketStatistics option \<times> go_error option) option" where
  "parsePacketStatisticsResponse resp = do {
     s \<leftarrow> parse_packet_counters (pkt_TLVs resp);
     Some (case last_call_result ''get packet statistics''
             (ps_LastCallTxBytesOK s \<noteq> None \<or> ps_LastCallRxBytesOK s \<noteq> None) s resp of
             Some r \<Rightarrow> r | None \<Rightarrow> (Some s, None))
   }"

definition parseAutoconnectSettingsResponse :: "Packet \<Rightarrow> AutoconnectSettings parsed" where
  "parseAutoconnectSettingsResponse = checked ''get autoconnect settings failed'' (\<lambda>resp. do {
     s1 \<leftarrow> with_tlv (pkt_TLVs resp) 0x01 1 (\<lambda>v s. do { b \<leftarrow> at v 0; Some (s\<lparr>ac_Status := Some b\<rparr>) })
       \<lparr>ac_Status = None, ac_Roaming = None\<rparr>;
     s2 \<leftarrow> with_tlv (pkt_TLVs resp) 0x10 1 (\<lambda>v s. do { b \<leftarrow> at v 0; Some (s\<lparr>ac_Roaming := Some b\<rparr>) }) s1;
     if ac_Status s2 = None then Some (Inl (ErrText ''no autoconnect status TLV in response'')) else ok s2
   })"

definition parseDataBearerTechnologyResponse ::
  "Packet \<Rightarrow> (DataBearerTechnologyInfo option \<times> go_error option) option" where
  "parseDataBearerTechnologyResponse resp = do {
     i1 \<leftarrow> with_tlv (pkt_TLVs resp) 0x01 1 (\<lambda>v s. do { b \<leftarrow> at v 0; Some (s\<lparr>db_Current := Some (sint b)\<rparr>) })
       \<lparr>db_Current = None, db_Last = None\<rparr>;
     i2 \<leftarrow> with_tlv (pkt_TLVs resp) 0x10 1 (\<lambda>v s. do { b \<leftarrow> at v 0; Some (s\<lparr>db_Last := Some (sint b)\<rparr>) }) i1;
     Some (case last_call_result ''get data bearer technology'' (db_Last i2 \<noteq> None) i2 resp of
             Some r \<Rightarrow> r
           | None \<Rightarrow>
               if db_Current i2 = None
               then (None, Some (ErrText ''no current data bearer technology TLV in response''))
               else (Some i2, None))
   }"

definition parseBearerTechnologyTLV :: "byte list \<Rightarrow> BearerTechnology parsed" where
  "parseBearerTechnologyTLV v =
     (if length v < 9 then Some (Inl (ErrText (''bearer technology TLV too short: '' @ decimal (length v))))
      else do {
        t \<leftarrow> at v 0;
        b1 \<leftarrow> sub v 1 5; rat \<leftarrow> le32 b1;
        b2 \<leftarrow> sub v 5 9; so \<leftarrow> le32 b2;
        ok \<lparr>bt_NetworkType = t, bt_RATMask = rat, bt_SOMask = so\<rparr>
      })"

definition optional_bearer :: "TLV list \<Rightarrow> u8 \<Rightarrow> BearerTechnology option parsed" where
  "optional_bearer ts t =
     (case FindTLV ts t of
        None \<Rightarrow> ok None
      | Some tlv \<Rightarrow> map_option (map_sum id Some) (parseBearerTechnologyTLV (tlv_Value tlv)))"

definition parseCurrentBearerTechnologyResponse ::
  "Packet \<Rightarrow> (CurrentBearerTechnologyInfo option \<times> go_error option) option" where
  "parseCurrentBearerTechnologyResponse resp = do {
     c \<leftarrow> optional_bearer (pkt_TLVs resp) 0x01;
     (case c of
        Inl e \<Rightarrow> Some (None, Some e)
      | Inr current \<Rightarrow> do {
          l \<leftarrow> optional_bearer (pkt_TLVs resp) 0x10;
          (case l of
             Inl e \<Rightarrow> Some (None, Some e)
           | Inr lst \<Rightarrow>
               let info = \<lparr>cb_Current = current, cb_Last = lst\<rparr> in
               Some (case last_call_result ''get current data bearer technology'' (lst \<noteq> None) info resp of
                       Some r \<Rightarrow> r
                     | None \<Rightarrow>
                         if current = None
                         then (None, Some (ErrText ''no current bearer technology TLV in response''))
                         else (Some info, None)))
        })
   }"

definition parseCreateProfileResponse :: "string \<Rightarrow> Packet \<Rightarrow> ProfileInfo parsed" where
  "parseCreateProfileResponse profileName = checked ''create profile failed'' (\<lambda>resp.
     (case FindTLV (pkt_TLVs resp) 0x01 of
        None \<Rightarrow> Some (Inl (ErrText ''no profile identifier TLV in response''))
      | Some tlv \<Rightarrow>
          let v = tlv_Value tlv in
          if length v < 2 then Some (Inl (ErrText (''profile identifier TLV too short: '' @ decimal (length v))))
          else do {
            t \<leftarrow> at v 0;
            i \<leftarrow> at v 1;
            ok \<lparr>pi_Type = t, pi_Index = i, pi_Name = profileName\<rparr>
          }))"

section \<open>Methods\<close>

definition SetIPFamilyPreference :: "'m sender \<Rightarrow> u8 \<Rightarrow> 'm \<Rightarrow> unit parsed \<times> 'm" where
  "SetIPFamilyPreference send ipFamily =
     call send WDSSetClientIPFamilyPref [NewTLVUint8 0x01 ipFamily] (checked ''set IP family pref failed'' acked)"

definition parse_start_response :: "Packet \<Rightarrow> u32 parsed" where
  "parse_start_response resp =
     (case check resp of
        Some e \<Rightarrow> do {
          reason \<leftarrow> with_tlv (pkt_TLVs resp) 0x11 4 (\<lambda>v _. do {
             b0 \<leftarrow> sub v 0 2; t \<leftarrow> le16 b0; b1 \<leftarrow> sub v 2 4; c \<leftarrow> le16 b1; Some (Some (t, c)) }) None;
          Some (Inl (ErrStartNetwork (Some e) reason))
        }
      | None \<Rightarrow> need_tlv (pkt_TLVs resp) 0x01 4 ''no handle in response'' (\<lambda>v. do { h \<leftarrow> le32 v; ok h }))"

definition startNetworkInterface ::
  "'m sender \<Rightarrow> WDSService \<Rightarrow> string \<Rightarrow> string \<Rightarrow> string \<Rightarrow> u8 \<Rightarrow> u8 \<Rightarrow> bool \<Rightarrow> 'm \<Rightarrow> u32 parsed \<times> 'm" where
  "startNetworkInterface send w apn username password authType ipFamily explicitAuth m =
     (case SetIPFamilyPreference send ipFamily m of
        (None, m1) \<Rightarrow> (None, m1)
      | (Some _, m1) \<Rightarrow>
          call send WDSStartNetworkInterface
            (buildStartNetworkTLVs apn username password authType ipFamily (wds_ProfileIndex w)
               (wds_TechnologyPreference w) (wds_CallType w) (wds_HasCallType w) @
             (if explicitAuth \<and> authType = 0 then [NewTLVUint8 0x16 0] else []))
            parse_start_response m1)"

definition StartNetworkInterface ::
  "'m sender \<Rightarrow> WDSService \<Rightarrow> string \<Rightarrow> string \<Rightarrow> string \<Rightarrow> u8 \<Rightarrow> u8 \<Rightarrow> 'm \<Rightarrow> u32 parsed \<times> 'm" where
  "StartNetworkInterface send w apn username password authType ipFamily =
     startNetworkInterface send w apn username password authType ipFamily False"

definition StartNetworkInterfaceWithAuthentication ::
  "'m sender \<Rightarrow> WDSService \<Rightarrow> string \<Rightarrow> string \<Rightarrow> string \<Rightarrow> u8 \<Rightarrow> u8 \<Rightarrow> 'm \<Rightarrow> u32 parsed \<times> 'm" where
  "StartNetworkInterfaceWithAuthentication send w apn username password authType ipFamily =
     startNetworkInterface send w apn username password authType ipFamily True"

definition StopNetworkInterfaceWithOptions ::
  "'m sender \<Rightarrow> StopNetworkInterfaceOptions \<Rightarrow> 'm \<Rightarrow> unit parsed \<times> 'm" where
  "StopNetworkInterfaceWithOptions send opts =
     call send WDSStopNetworkInterface (buildStopNetworkInterfaceTLVs opts) (checked ''stop network failed'' acked)"

definition StopNetworkInterface :: "'m sender \<Rightarrow> u32 \<Rightarrow> 'm \<Rightarrow> unit parsed \<times> 'm" where
  "StopNetworkInterface send h = StopNetworkInterfaceWithOptions send \<lparr>sno_Handle = h, sno_DisableAutoconnect = False\<rparr>"

definition StopAnyNetworkInterface :: "'m sender \<Rightarrow> bool \<Rightarrow> 'm \<Rightarrow> unit parsed \<times> 'm" where
  "StopAnyNetworkInterface send disableAutoconnect =
     StopNetworkInterfaceWithOptions send
       \<lparr>sno_Handle = AnyPacketDataHandle, sno_DisableAutoconnect = disableAutoconnect\<rparr>"

definition GetPacketServiceStatus :: "'m sender \<Rightarrow> 'm \<Rightarrow> ConnectionStatus parsed \<times> 'm" where
  "GetPacketServiceStatus send =
     call send WDSGetPktSrvcStatus [] (\<lambda>resp. parsePacketServiceStatusPacket resp True)"

definition ParsePacketServiceStatusIndication :: "Packet \<Rightarrow> ConnectionStatus parsed" where
  "ParsePacketServiceStatusIndication packet = parsePacketServiceStatusPacket packet False"

definition runtime_mask :: u32 where
  "runtime_mask = push_bit 8 1 OR push_bit 9 1 OR push_bit 4 1 OR push_bit 13 1 OR push_bit 10 1 OR
     push_bit 11 1 OR push_bit 12 1 OR push_bit 16 1"

definition parse_runtime_response :: "Packet \<Rightarrow> RuntimeSettings parsed" where
  "parse_runtime_response resp =
     (case check resp of
        Some e \<Rightarrow>
          Some (Inl (if out_of_call e then ErrOutOfCall ''get runtime settings''
                     else errorf ''get runtime settings failed'' e))
      | None \<Rightarrow> map_option Inr (parseRuntimeSettings resp))"

definition GetRuntimeSettings :: "'m sender \<Rightarrow> u8 \<Rightarrow> 'm \<Rightarrow> RuntimeSettings parsed \<times> 'm" where
  "GetRuntimeSettings send ipFamily m =
     (case SetIPFamilyPreference send ipFamily m of
        (Some (Inr _), m1) \<Rightarrow>
          call send WDSGetRuntimeSettings [NewTLVUint32 0x10 runtime_mask] parse_runtime_response m1
      | (Some (Inl e), m1) \<Rightarrow> (Some (Inl e), m1)
      | (None, m1) \<Rightarrow> (None, m1))"

definition RegisterEventReport :: "'m sender \<Rightarrow> 'm \<Rightarrow> unit parsed \<times> 'm" where
  "RegisterEventReport send =
     call send WDSSetEventReport [NewTLVUint8 0x10 0x01, NewTLVUint8 0x12 0x01, NewTLVUint8 0x13 0x01]
       (checked ''register event report failed'' acked)"

definition BindMuxDataPort :: "'m sender \<Rightarrow> MuxBinding \<Rightarrow> 'm \<Rightarrow> unit parsed \<times> 'm" where
  "BindMuxDataPort send b =
     call send WDSBindMuxDataPort
       ([\<lparr>tlv_Type = 0x10, tlv_Value = PutUint32 (mb_EpType b) @ PutUint32 (mb_EpIfID b)\<rparr>,
         \<lparr>tlv_Type = 0x11, tlv_Value = [mb_MuxID b]\<rparr>] @
        (if mb_ClientType b > 0 then [\<lparr>tlv_Type = 0x13, tlv_Value = PutUint32 (mb_ClientType b)\<rparr>] else []))
       (checked_plain acked)"

definition GetProfileList :: "'m sender \<Rightarrow> u8 \<Rightarrow> 'm \<Rightarrow> ProfileInfo list parsed \<times> 'm" where
  "GetProfileList send profileType =
     call send WDSGetProfileList [NewTLVUint8 0x10 profileType]
       (checked_plain (\<lambda>resp. map_option Inr (parseProfileList (pkt_TLVs resp))))"

definition profile_settings_attempt :: "'m sender \<Rightarrow> u8 \<Rightarrow> byte list \<Rightarrow> 'm \<Rightarrow> ProfileSettings parsed \<times> 'm" where
  "profile_settings_attempt send t bufId =
     call send WDSGetProfileSettings [\<lparr>tlv_Type = t, tlv_Value = bufId\<rparr>]
       (checked_plain (\<lambda>resp. map_option Inr (parseProfileSettings (pkt_TLVs resp))))"

definition GetProfileSettings :: "'m sender \<Rightarrow> u8 \<Rightarrow> u8 \<Rightarrow> 'm \<Rightarrow> ProfileSettings parsed \<times> 'm" where
  "GetProfileSettings send profileType profileIndex m =
     (case profile_settings_attempt send 0x01 [profileType, profileIndex] m of
        (Some (Inl _), m1) \<Rightarrow> profile_settings_attempt send 0x10 [profileType, profileIndex] m1
      | r \<Rightarrow> r)"

definition GetChannelRates :: "'m sender \<Rightarrow> 'm \<Rightarrow> ChannelRates parsed \<times> 'm" where
  "GetChannelRates send = call send WDSGetCurrentChannelRate [] parseChannelRatesResponse"

definition call_both :: "'m sender \<Rightarrow> u16 \<Rightarrow> TLV list \<Rightarrow> (Packet \<Rightarrow> ('a option \<times> go_error option) option) \<Rightarrow> 'm
    \<Rightarrow> ('a option \<times> go_error option) option \<times> 'm" where
  "call_both send msg tlvs parse m =
     (case send msg tlvs m of
        (Inl e, m') \<Rightarrow> (Some (None, Some e), m')
      | (Inr resp, m') \<Rightarrow> (parse resp, m'))"

definition GetPacketStatistics :: "'m sender \<Rightarrow> u32 \<Rightarrow> 'm \<Rightarrow> (PacketStatistics option \<times> go_error option) option \<times> 'm" where
  "GetPacketStatistics send msk =
     call_both send WDSGetPktStatistics [NewTLVUint32 0x01 msk] parsePacketStatisticsResponse"

definition GetAutoconnectSettings :: "'m sender \<Rightarrow> 'm \<Rightarrow> AutoconnectSettings parsed \<times> 'm" where
  "GetAutoconnectSettings send = call send WDSGetAutoconnectSettings [] parseAutoconnectSettingsResponse"

definition SetAutoconnectSettings :: "'m sender \<Rightarrow> AutoconnectSettings \<Rightarrow> 'm \<Rightarrow> unit parsed \<times> 'm" where
  "SetAutoconnectSettings send s m =
     (let tlvs = buildAutoconnectSettingsTLVs s in
      if tlvs = [] then (Some (Inl (ErrText ''set autoconnect settings requires at least one field'')), m)
      else call send WDSSetAutoconnectSettings tlvs (checked ''set autoconnect settings failed'' acked) m)"

definition GetDataBearerTechnology ::
  "'m sender \<Rightarrow> 'm \<Rightarrow> (DataBearerTechnologyInfo option \<times> go_error option) option \<times> 'm" where
  "GetDataBearerTechnology send = call_both send WDSGetDataBearerTechnology [] parseDataBearerTechnologyResponse"

definition GetCurrentDataBearerTechnology ::
  "'m sender \<Rightarrow> 'm \<Rightarrow> (CurrentBearerTechnologyInfo option \<times> go_error option) option \<times> 'm" where
  "GetCurrentDataBearerTechnology send =
     call_both send WDSGetCurrentDataBearerTechnology [] parseCurrentBearerTechnologyResponse"

definition CreateProfile :: "'m sender \<Rightarrow> u8 \<Rightarrow> WDSProfileSettings \<Rightarrow> 'm \<Rightarrow> ProfileInfo parsed \<times> 'm" where
  "CreateProfile send profileType s =
     call send WDSCreateProfile (NewTLVUint8 0x01 profileType # buildProfileSettingsTLVs s)
       (parseCreateProfileResponse (wps_Name s))"

definition ModifyProfileSettings :: "'m sender \<Rightarrow> u8 \<Rightarrow> u8 \<Rightarrow> WDSProfileSettings \<Rightarrow> 'm \<Rightarrow> unit parsed \<times> 'm" where
  "ModifyProfileSettings send profileType profileIndex s m =
     (let tlvs = buildProfileIdentifierTLV profileType profileIndex # buildProfileSettingsTLVs s in
      if length tlvs = 1 then (Some (Inl (ErrText ''modify profile settings requires at least one field'')), m)
      else call send WDSModifyProfileSettings tlvs (checked ''modify profile settings failed'' acked) m)"

definition DeleteProfile :: "'m sender \<Rightarrow> u8 \<Rightarrow> u8 \<Rightarrow> 'm \<Rightarrow> unit parsed \<times> 'm" where
  "DeleteProfile send profileType profileIndex =
     call send WDSDeleteProfile [buildProfileIdentifierTLV profileType profileIndex] (checked ''delete profile failed'' acked)"

definition active_apn_name :: "TLV list \<Rightarrow> go_error + string" where
  "active_apn_name ts =
     (case filter (\<lambda>t. tlv_Type t = 0x14) ts of
        _ # _ # _ \<Rightarrow> Inl (ErrText ''active APN: duplicate name TLV'')
      | [] \<Rightarrow> Inl (ErrText ''active APN: name absent or invalid'')
      | [t] \<Rightarrow>
          if length (tlv_Value t) > 1024 \<or> \<not> utf8_valid (tlv_Value t)
          then Inl (ErrText ''active APN: name absent or invalid'')
          else if \<exists>b \<in> set (tlv_Value t). b < 0x20 \<or> b = 0x7F
          then Inl (ErrText ''active APN: invalid name bytes'')
          else Inr (string_of_bytes (tlv_Value t)))"

definition ReadActiveAPN :: "'m sender \<Rightarrow> 'm \<Rightarrow> string parsed \<times> 'm" where
  "ReadActiveAPN send =
     call send WDSGetRuntimeSettings [NewTLVUint32 0x10 (push_bit 3 1)]
       (checked ''active APN query failed'' (\<lambda>resp. Some (active_apn_name (pkt_TLVs resp))))"

section \<open>Parsers do not panic\<close>

text \<open>The rules of \<open>safe\<close> follow the text of a parser down to its accesses; what is left are the
  length tests.\<close>

lemma ipv4_word_safe [safe]: "4 \<le> length v \<Longrightarrow> ipv4_word v \<noteq> None"
  unfolding ipv4_word_def by (intro safe) auto

lemma ipv4_mask_safe [safe]: "4 \<le> length v \<Longrightarrow> ipv4_mask v \<noteq> None"
  unfolding ipv4_mask_def by (intro safe) auto

lemma delegated_prefix_safe [safe]: "length raw = 16 \<Longrightarrow> parseIPv6DelegatedPrefixAddress raw \<noteq> None"
  unfolding parseIPv6DelegatedPrefixAddress_def looksLikeDelegatedPrefix_def
  by (intro safe) (auto dest: lengths elim!: evenE)

lemma pcscf_domains_safe [safe]: "pcscf_domains count body \<noteq> None"
  by (induction count body rule: pcscf_domains.induct) (simp_all only: pcscf_domains.simps, (intro safe; auto dest: lengths)+)

lemma parseRuntimeSettings_safe [safe]: "parseRuntimeSettings resp \<noteq> None"
  unfolding parseRuntimeSettings_def parse_ipv4_settings_def parse_ipv6_settings_def parse_pcscf_settings_def
  by (intro safe) (auto dest: lengths)

lemma profile_entries_safe [safe]: "profile_entries count off v \<noteq> None"
  by (induction count off v rule: profile_entries.induct) (simp_all only: profile_entries.simps, (intro safe; auto)+)

lemmas wds_parsers = parsePacketServiceStatusPacket_def parse_start_response_def parse_runtime_response_def
  parseProfileList_def parseProfileSettings_def parseChannelRatesResponse_def parsePacketStatisticsResponse_def
  parse_packet_counters_def stat32_def stat64_def parseAutoconnectSettingsResponse_def
  parseDataBearerTechnologyResponse_def parseBearerTechnologyTLV_def optional_bearer_def
  parseCurrentBearerTechnologyResponse_def parseCreateProfileResponse_def

lemma wds_responses_safe:
  "parsePacketServiceStatusPacket p c \<noteq> None"
  "parse_start_response p \<noteq> None"
  "parse_runtime_response p \<noteq> None"
  "parseProfileList ts \<noteq> None"
  "parseProfileSettings ts \<noteq> None"
  "parseChannelRatesResponse p \<noteq> None"
  "parsePacketStatisticsResponse p \<noteq> None"
  "parseAutoconnectSettingsResponse p \<noteq> None"
  "parseDataBearerTechnologyResponse p \<noteq> None"
  "parseCurrentBearerTechnologyResponse p \<noteq> None"
  "parseCreateProfileResponse name p \<noteq> None"
  unfolding wds_parsers by (intro safe; auto dest: lengths)+

section \<open>Profile lists\<close>

definition profile_bytes :: "ProfileInfo \<Rightarrow> byte list" where
  "profile_bytes p = [pi_Type p, pi_Index p, of_nat (length (pi_Name p))] @ bytes_of_string (pi_Name p)"

lemma profile_entries_step:
  assumes "length (pi_Name p) < 256"
  shows "profile_entries (Suc n) (length pre) (pre @ profile_bytes p @ rest) =
    map_option (Cons p) (profile_entries n (length (pre @ profile_bytes p)) ((pre @ profile_bytes p) @ rest))"
proof -
  have "go_slice (length pre + 3) (length pre + 3 + length (pi_Name p)) (pre @ profile_bytes p @ rest) =
      bytes_of_string (pi_Name p)"
    by (simp add: go_slice_def profile_bytes_def numeral_3_eq_3)
  then show ?thesis
    using assms
    by (simp add: profile_bytes_def nth_append numeral_2_eq_2 numeral_3_eq_3 ac_simps map_option_case
        split: option.split)
qed

lemma profile_entries_prefix:
  assumes "\<forall>p \<in> set ps. length (pi_Name p) < 256"
  shows "\<exists>j. profile_entries (length ps) (length pre) (pre @ take k (concat (map profile_bytes ps))) = Some (take j ps)
    \<and> (length (concat (map profile_bytes ps)) \<le> k \<longrightarrow> j = length ps)"
  using assms
proof (induction ps arbitrary: pre k)
  case Nil
  show ?case by simp
next
  case (Cons p ps)
  let ?b = "profile_bytes p" and ?r = "concat (map profile_bytes ps)"
  have l: "length ?b = 3 + length (pi_Name p)" by (simp add: profile_bytes_def)
  show ?case
  proof (cases "k < length ?b")
    case True
    then have t: "take k (concat (map profile_bytes (p # ps))) = take k ?b" by simp
    have "profile_entries (Suc (length ps)) (length pre) (pre @ take k ?b) = Some []"
    proof (cases "k < 3")
      case False
      then have "(pre @ take k ?b) ! (length pre + 2) = of_nat (length (pi_Name p))"
        by (simp add: nth_append profile_bytes_def numeral_2_eq_2)
      with False True l Cons.prems show ?thesis by (simp add: min_absorb2)
    qed (use True in \<open>simp add: min_absorb2\<close>)
    with t True show ?thesis by (intro exI[of _ 0]) simp
  next
    case False
    let ?k = "k - length ?b"
    have t: "pre @ take k (concat (map profile_bytes (p # ps))) = pre @ ?b @ take ?k ?r"
      using False by simp
    obtain j where j: "profile_entries (length ps) (length (pre @ ?b)) ((pre @ ?b) @ take ?k ?r) = Some (take j ps)"
      "length ?r \<le> ?k \<longrightarrow> j = length ps"
      using Cons.IH[of "pre @ ?b" ?k] Cons.prems by auto
    have "profile_entries (length (p # ps)) (length pre) (pre @ take k (concat (map profile_bytes (p # ps)))) =
        Some (take (Suc j) (p # ps))"
      unfolding t using profile_entries_step[of p "length ps" pre "take ?k ?r"] Cons.prems j(1) by simp
    with j(2) False show ?thesis by (intro exI[of _ "Suc j"]) auto
  qed
qed

section \<open>The IMS profile\<close>

definition readable_profiles ::
  "(ProfileInfo \<Rightarrow> go_error + ProfileSettings) \<Rightarrow> ProfileInfo list \<Rightarrow> (ProfileInfo \<times> ProfileSettings) list" where
  "readable_profiles settingsFor ps =
     concat (map (\<lambda>p. case settingsFor p of Inl _ \<Rightarrow> [] | Inr s \<Rightarrow> [(p, s)]) ps)"

definition ims_profile_spec ::
  "(ProfileInfo \<times> ProfileSettings) list \<Rightarrow> string \<Rightarrow> u8 option" where
  "ims_profile_spec rs apnHint =
     (case find (\<lambda>(p, s). pset_IMCNFlag s = Some True) rs of
        Some (p, _) \<Rightarrow> Some (pi_Index p)
      | None \<Rightarrow>
          if apnHint = [] then None
          else map_option (\<lambda>(p, _). pi_Index p) (find (\<lambda>(p, s). EqualFold (TrimSpace (pset_APN s)) apnHint) rs))"

lemma pick_profile_spec:
  "pick_profile ps settingsFor apnHint found =
     (case find (\<lambda>(p, s). pset_IMCNFlag s = Some True) (readable_profiles settingsFor ps) of
        Some (p, _) \<Rightarrow> Some (pi_Index p)
      | None \<Rightarrow> if found = None then ims_profile_spec (readable_profiles settingsFor ps) apnHint else found)"
  by (induction ps arbitrary: found)
    (auto simp: readable_profiles_def ims_profile_spec_def split: sum.splits option.splits)

section \<open>Properties\<close>

text \<open>No response of the modem makes the WDS service panic: whatever TLVs a packet carries, every
  parser of the service returns a value or an error, and so do the methods that send more than one
  request, whatever the modem answers.\<close>

theorem wds_never_panics:
  "parsePacketServiceStatusPacket p c \<noteq> None \<and> parse_start_response p \<noteq> None \<and>
   parseRuntimeSettings p \<noteq> None \<and> parse_runtime_response p \<noteq> None \<and> parseProfileList ts \<noteq> None \<and>
   parseProfileSettings ts \<noteq> None \<and> parseChannelRatesResponse p \<noteq> None \<and>
   parsePacketStatisticsResponse p \<noteq> None \<and> parseAutoconnectSettingsResponse p \<noteq> None \<and>
   parseDataBearerTechnologyResponse p \<noteq> None \<and> parseCurrentBearerTechnologyResponse p \<noteq> None \<and>
   parseCreateProfileResponse name p \<noteq> None \<and>
   fst (startNetworkInterface send w apn user pass auth fam explicitAuth m) \<noteq> None \<and>
   fst (GetRuntimeSettings send fam m) \<noteq> None \<and> fst (GetProfileSettings send t i m) \<noteq> None"
proof -
  have ip: "fst (SetIPFamilyPreference send fam m) \<noteq> None" for m
    unfolding SetIPFamilyPreference_def by (intro call_safe safe)
  have "fst (startNetworkInterface send w apn user pass auth fam explicitAuth m) \<noteq> None"
    using ip[of m] call_safe[OF wds_responses_safe(2)]
    by (auto simp: startNetworkInterface_def split: prod.split option.split)
  moreover have "fst (GetRuntimeSettings send fam m) \<noteq> None"
    using ip[of m] call_safe[OF wds_responses_safe(3)]
    by (auto simp: GetRuntimeSettings_def split: prod.split option.split sum.split)
  moreover have pa: "fst (profile_settings_attempt send x b m) \<noteq> None" for x b m
    unfolding profile_settings_attempt_def
    by (intro call_safe checked_plain_safe map_option_safe wds_responses_safe)
  have "fst (GetProfileSettings send t i m) \<noteq> None"
    using pa[of 1 "[t, i]" m] pa[of 16 "[t, i]"]
    by (auto simp: GetProfileSettings_def split: prod.split option.split sum.split)
  ultimately show ?thesis
    using wds_responses_safe parseRuntimeSettings_safe by blast
qed

text \<open>A profile list is read back: the encoding of up to 255 profiles with names of up to 255
  bytes is parsed to these profiles, and an encoding that is cut off anywhere is parsed to the
  profiles that arrived whole, never to a wrong one.\<close>

theorem profile_list_roundtrip:
  assumes "length ps < 256" and "\<forall>p \<in> set ps. length (pi_Name p) < 256" and "0 < k"
  shows "\<exists>j. parseProfileList [\<lparr>tlv_Type = 0x01,
        tlv_Value = take k (of_nat (length ps) # concat (map profile_bytes ps))\<rparr>] = Some (take j ps) \<and>
     (length (concat (map profile_bytes ps)) < k \<longrightarrow> j = length ps)"
proof -
  obtain i where k: "k = Suc i" using assms(3) by (cases k) auto
  obtain j where "profile_entries (length ps) (length [of_nat (length ps) :: byte])
      ([of_nat (length ps)] @ take i (concat (map profile_bytes ps))) = Some (take j ps)"
    "length (concat (map profile_bytes ps)) \<le> i \<longrightarrow> j = length ps"
    using profile_entries_prefix[OF assms(2), of "[of_nat (length ps)]" i] by auto
  with assms(1) k show ?thesis by (intro exI[of _ j]) (simp add: parseProfileList_def)
qed

theorem profile_list_roundtrip_witness:
  "\<exists>j. parseProfileList [\<lparr>tlv_Type = 0x01, tlv_Value = [2, 0, 1, 3, 105, 109, 115, 0, 2, 0]\<rparr>] =
     Some (take j [\<lparr>pi_Type = 0, pi_Index = 1, pi_Name = ''ims''\<rparr>, \<lparr>pi_Type = 0, pi_Index = 2, pi_Name = ''''\<rparr>]) \<and> j = 2"
  using profile_list_roundtrip[of "[\<lparr>pi_Type = 0, pi_Index = 1, pi_Name = ''ims''\<rparr>, \<lparr>pi_Type = 0, pi_Index = 2, pi_Name = ''''\<rparr>]" 10]
  by (auto simp: profile_bytes_def bytes_of_string_def)

text \<open>The IMS profile is the first readable profile the modem marks as dedicated to IMS, wherever
  it stands; only if there is none is it the first readable profile whose APN is the hint, and with no
  hint there is none. Profiles that cannot be read do not matter.\<close>

theorem pickIMSProfileIndex_spec:
  "pickIMSProfileIndex ps settingsFor apnHint =
     ims_profile_spec (readable_profiles settingsFor ps) (TrimSpace apnHint)"
  unfolding pickIMSProfileIndex_def pick_profile_spec
  by (auto simp: ims_profile_spec_def split: option.split)

end
