(* ===== verification/NasBands.thy ===== *)
theory NasBands
  imports GoParse
begin

text \<open>
  Band numbers and duplex modes of the NAS service, \<^verbatim>\<open>src/pkg/qmi/nas.go\<close>: the tables from the modem's
  active-band values to band numbers, and the duplex mode of a band and of a channel number. An empty
  string is the answer when there is none.
\<close>

section \<open>Active bands\<close>

definition activeBandToLTEBand :: "(u16 \<times> u16) list" where
  "activeBandToLTEBand =
     [(120, 1), (121, 2), (122, 3), (123, 4), (124, 5), (125, 6), (126, 7), (127, 8), (128, 9),
      (129, 10), (130, 11), (131, 12), (132, 13), (133, 14), (134, 17), (143, 18), (144, 19), (145, 20),
      (146, 21), (152, 23), (147, 24), (148, 25), (153, 26), (164, 27), (158, 28), (159, 29), (160, 30),
      (165, 31), (154, 32), (135, 33), (136, 34), (137, 35), (138, 36), (139, 37), (140, 38), (141, 39),
      (142, 40), (149, 41), (150, 42), (151, 43), (163, 46), (166, 47), (167, 48), (161, 66), (168, 71),
      (155, 125), (156, 126), (157, 127), (162, 250)]"

definition LTEBandNumberFromActiveBand :: "u16 \<Rightarrow> u16 option" where
  "LTEBandNumberFromActiveBand active = map_of activeBandToLTEBand active"

definition activeBandToNR5GBand :: "(u16 \<times> u16) list" where
  "activeBandToNR5GBand =
     [(250, 1), (251, 2), (252, 3), (253, 5), (254, 7), (255, 8), (256, 20), (257, 28),
      (258, 38), (259, 41), (260, 50), (261, 51), (262, 66), (263, 70), (264, 71), (265, 74),
      (266, 75), (267, 76), (268, 77), (269, 78), (270, 79), (271, 80), (272, 81), (273, 82),
      (274, 83), (275, 84), (276, 85), (277, 257), (278, 258), (279, 259), (280, 260), (281, 261),
      (282, 12), (283, 25), (284, 34), (285, 39), (286, 40), (287, 65), (288, 86), (289, 48),
      (290, 14), (291, 13), (292, 18), (293, 26), (294, 30), (295, 29), (296, 53), (297, 46),
      (298, 91), (299, 92), (300, 93), (301, 94)]"

definition NR5GBandNumberFromActiveBand :: "u16 \<Rightarrow> u16 option" where
  "NR5GBandNumberFromActiveBand active = map_of activeBandToNR5GBand active"

definition IsNR5GRadioInterface :: "u8 \<Rightarrow> bool" where
  "IsNR5GRadioInterface radioInterface \<longleftrightarrow> radioInterface = 0x0C \<or> radioInterface = 0x0A"

record RFBandInfoEntry =
  rb_RadioInterface :: u8
  rb_ActiveBandClass :: u16
  rb_ActiveChannel :: u32

record RFBandwidthInfo =
  rw_RadioInterface :: u8
  rw_Bandwidth :: u32

record RFBandInfo =
  rf_Bands :: "RFBandInfoEntry list"
  rf_Bandwidths :: "RFBandwidthInfo list"

section \<open>Duplex modes\<close>

definition lteEARFCNDuplexRanges :: "(u32 \<times> u32 \<times> string) list" where
  "lteEARFCNDuplexRanges =
     [(0, 599, ''FDD''), (600, 1199, ''FDD''), (1200, 1949, ''FDD''), (1950, 2399, ''FDD''),
      (2400, 2649, ''FDD''), (2650, 2749, ''FDD''), (2750, 3449, ''FDD''), (3450, 3799, ''FDD''),
      (3800, 4149, ''FDD''), (4150, 4749, ''FDD''), (4750, 4949, ''FDD''), (5010, 5179, ''FDD''),
      (5180, 5279, ''FDD''), (5280, 5379, ''FDD''), (5730, 5849, ''FDD''), (5850, 5999, ''FDD''),
      (6000, 6149, ''FDD''), (6150, 6449, ''FDD''), (6450, 6599, ''FDD''), (6600, 7399, ''FDD''),
      (7500, 7699, ''FDD''), (7700, 8039, ''FDD''), (8040, 8689, ''FDD''), (8690, 9039, ''FDD''),
      (9040, 9209, ''FDD''), (9210, 9659, ''FDD''), (9660, 9769, ''FDD''), (9770, 9869, ''FDD''),
      (9870, 9919, ''FDD''), (9920, 10359, ''FDD''), (36000, 36199, ''TDD''), (36200, 36349, ''TDD''),
      (36350, 36949, ''TDD''), (36950, 37549, ''TDD''), (37550, 37749, ''TDD''), (37750, 38249, ''TDD''),
      (38250, 38649, ''TDD''), (38650, 39649, ''TDD''), (39650, 41589, ''TDD''), (41590, 43589, ''TDD''),
      (43590, 45589, ''TDD''), (45590, 46589, ''TDD''), (46590, 46789, ''TDD''), (46790, 54539, ''TDD''),
      (54540, 55239, ''TDD''), (55240, 56739, ''TDD''), (56740, 58239, ''TDD''), (58240, 59089, ''TDD''),
      (59090, 59139, ''TDD''), (59140, 60139, ''TDD''), (65536, 66435, ''FDD''), (66436, 67335, ''FDD''),
      (67336, 67535, ''FDD''), (67536, 67835, ''FDD''), (67836, 68335, ''FDD''), (68336, 68585, ''FDD''),
      (68586, 68935, ''FDD'')]"

definition GetLTEDuplexModeFromEARFCN :: "u32 \<Rightarrow> string" where
  "GetLTEDuplexModeFromEARFCN earfcn =
     (case find (\<lambda>(first, final, _). first \<le> earfcn \<and> earfcn \<le> final) lteEARFCNDuplexRanges of
        Some (_, _, duplex) \<Rightarrow> duplex
      | None \<Rightarrow> [])"

definition getLTEDuplexModeFromBand :: "u16 \<Rightarrow> string" where
  "getLTEDuplexModeFromBand band =
     (if band \<in> set [33, 34, 35, 36, 37, 38, 39, 40, 41, 42, 43, 44, 45, 46, 47, 48, 49, 50, 51, 52, 53] then ''TDD''
      else if band \<in> set [1, 2, 3, 4, 5, 6, 7, 8, 9, 10, 11, 12, 13, 14, 17, 18, 19, 20, 21, 22, 23, 24, 25, 26, 27, 28,
        29, 30, 31, 32, 65, 66, 67, 68, 69, 70, 71] then ''FDD''
      else [])"

definition getLTEDuplexModeFromEARFCN :: "u16 \<Rightarrow> string" where
  "getLTEDuplexModeFromEARFCN earfcn = GetLTEDuplexModeFromEARFCN (ucast earfcn)"

fun duplex_of_bands :: "RFBandInfoEntry list \<Rightarrow> string" where
  "duplex_of_bands [] = []"
| "duplex_of_bands (band # bands) =
     (if rb_RadioInterface band \<noteq> 0x08 then duplex_of_bands bands
      else (case LTEBandNumberFromActiveBand (rb_ActiveBandClass band) of
        None \<Rightarrow> duplex_of_bands bands
      | Some lteBand \<Rightarrow>
          (let duplex = getLTEDuplexModeFromBand lteBand in
           if duplex \<noteq> [] then duplex else duplex_of_bands bands)))"

definition GetLTEDuplexModeFromBandInfo :: "RFBandInfo option \<Rightarrow> string" where
  "GetLTEDuplexModeFromBandInfo info = (case info of None \<Rightarrow> [] | Some i \<Rightarrow> duplex_of_bands (rf_Bands i))"

section \<open>The tables\<close>

lemma active_band_keys:
  "distinct (map fst activeBandToLTEBand @ map fst activeBandToNR5GBand)"
  by (simp add: activeBandToLTEBand_def activeBandToNR5GBand_def)

lemma lte_bands_distinct: "distinct (map snd activeBandToLTEBand)"
  by (simp add: activeBandToLTEBand_def)

lemma nr_bands_distinct: "distinct (map snd activeBandToNR5GBand)"
  by (simp add: activeBandToNR5GBand_def)

fun ranges_ordered :: "(u32 \<times> u32 \<times> string) list \<Rightarrow> bool" where
  "ranges_ordered ((a, b, _) # (c, d, x) # rs) \<longleftrightarrow> a \<le> b \<and> b < c \<and> ranges_ordered ((c, d, x) # rs)"
| "ranges_ordered [(a, b, _)] \<longleftrightarrow> a \<le> b"
| "ranges_ordered [] \<longleftrightarrow> True"

lemma duplex_ranges_ordered: "ranges_ordered lteEARFCNDuplexRanges"
  by (simp add: lteEARFCNDuplexRanges_def)

lemma ranges_after:
  "ranges_ordered ((a, b, x) # rs) \<Longrightarrow> a \<le> b \<and> (\<forall>(c, d, y) \<in> set rs. b < c) \<and> ranges_ordered rs"
proof (induction rs arbitrary: a b x)
  case (Cons r rs)
  obtain c d y where r: "r = (c, d, y)" by (cases r) auto
  with Cons.prems have h: "a \<le> b" "b < c" "ranges_ordered ((c, d, y) # rs)" by auto
  from Cons.IH[OF h(3)] h r show ?case by fastforce
qed simp

lemma range_find:
  assumes "ranges_ordered rs" "(first, final, d) \<in> set rs" "first \<le> e" "e \<le> final"
  shows "find (\<lambda>(first, final, _). first \<le> e \<and> e \<le> final) rs = Some (first, final, d)"
  using assms
proof (induction rs)
  case (Cons r rs)
  obtain a b x where r: "r = (a, b, x)" by (cases r) auto
  with Cons.prems(1) ranges_after[of a b x rs]
  have h: "\<forall>(c, d, y) \<in> set rs. b < c" "ranges_ordered rs" by auto
  show ?case
  proof (cases "(first, final, d) \<in> set rs")
    case True
    with h(1) have "b < first" by auto
    with Cons.prems(3) have "\<not> e \<le> b" by auto
    with r Cons.IH[OF h(2) True] Cons.prems(3,4) show ?thesis by simp
  next
    case False
    with Cons.prems r show ?thesis by auto
  qed
qed simp

lemma ranges_distinct: "ranges_ordered rs \<Longrightarrow> distinct rs"
proof (induction rs)
  case (Cons r rs)
  obtain a b x where "r = (a, b, x)" by (cases r) auto
  with Cons ranges_after[of a b x rs] show ?case by fastforce
qed simp

section \<open>Properties\<close>

text \<open>The duplex mode of an EARFCN is the one of the only range of the table that holds it, and
  empty when no range does: the ranges are in order and do not overlap, so that no channel is given
  two modes, and every range says FDD or TDD.\<close>

theorem duplex_of_EARFCN:
  "(case filter (\<lambda>(first, final, _). first \<le> earfcn \<and> earfcn \<le> final) lteEARFCNDuplexRanges of
      [] \<Rightarrow> GetLTEDuplexModeFromEARFCN earfcn = []
    | [(_, _, duplex)] \<Rightarrow> GetLTEDuplexModeFromEARFCN earfcn = duplex \<and> duplex \<in> {''FDD'', ''TDD''}
    | _ \<Rightarrow> False)"
proof -
  let ?P = "\<lambda>(first, final, _). first \<le> earfcn \<and> earfcn \<le> final"
  let ?l = "filter ?P lteEARFCNDuplexRanges"
  have modes: "snd (snd r) \<in> {''FDD'', ''TDD''}" if "r \<in> set lteEARFCNDuplexRanges" for r
    using that by (auto simp: lteEARFCNDuplexRanges_def)
  have d: "distinct lteEARFCNDuplexRanges"
    by (rule ranges_distinct[OF duplex_ranges_ordered])
  have one: "find ?P lteEARFCNDuplexRanges = Some r" if "r \<in> set ?l" for r
    using that range_find[OF duplex_ranges_ordered, of "fst r" "fst (snd r)" "snd (snd r)" earfcn] by auto
  show ?thesis
  proof (cases ?l)
    case Nil
    then have "find ?P lteEARFCNDuplexRanges = None" by (auto simp: find_None_iff filter_empty_conv)
    with Nil show ?thesis by (simp add: GetLTEDuplexModeFromEARFCN_def)
  next
    case (Cons r rs)
    have "rs = []"
    proof (rule ccontr)
      assume "rs \<noteq> []"
      then obtain q where "q \<in> set rs" by (cases rs) auto
      moreover from this Cons one[of q] one[of r] have "q = r" by simp
      moreover from d have "distinct ?l" by simp
      ultimately show False using Cons by simp
    qed
    moreover have "r \<in> set lteEARFCNDuplexRanges" using arg_cong[OF Cons, of set] by auto
    ultimately show ?thesis
      using Cons one[of r] modes[of r] by (cases r) (simp add: GetLTEDuplexModeFromEARFCN_def)
  qed
qed

text \<open>An active-band value names one band of one technology: no value is an LTE band and an NR
  band, and no band is named by two values.\<close>

theorem active_bands_unambiguous:
  "(LTEBandNumberFromActiveBand a = None \<or> NR5GBandNumberFromActiveBand a = None) \<and>
   inj_on LTEBandNumberFromActiveBand {a. LTEBandNumberFromActiveBand a \<noteq> None} \<and>
   inj_on NR5GBandNumberFromActiveBand {a. NR5GBandNumberFromActiveBand a \<noteq> None}"
proof -
  have inj: "inj_on (map_of t) {a. map_of t a \<noteq> None}" if "distinct (map snd t)" for t :: "(u16 \<times> u16) list"
  proof (rule inj_onI)
    fix x y assume "x \<in> {a. map_of t a \<noteq> None}" "map_of t x = map_of t y"
    then obtain b where "map_of t x = Some b" "map_of t y = Some b" by auto
    then have "(x, b) \<in> set t" "(y, b) \<in> set t" by (auto dest!: map_of_SomeD)
    with that show "x = y" using inj_onD[of snd "set t" "(x, b)" "(y, b)"] by (simp add: distinct_map)
  qed
  have "map_of activeBandToLTEBand a = None \<or> map_of activeBandToNR5GBand a = None"
    using active_band_keys by (auto simp: map_of_eq_None_iff)
  with inj[OF lte_bands_distinct] inj[OF nr_bands_distinct] show ?thesis
    by (simp add: LTEBandNumberFromActiveBand_def[abs_def] NR5GBandNumberFromActiveBand_def[abs_def])
qed

end
