(* ===== verification/NasData.thy ===== *)
theory NasData
  imports NasBands
begin

text \<open>
  Message identifiers and data of the NAS service, \<^verbatim>\<open>src/pkg/qmi/nas.go\<close>. A value with a \<^verbatim>\<open>Has\<close> or
  \<^verbatim>\<open>Valid\<close> flag, or behind a pointer, is an option.
\<close>

section \<open>Constants\<close>

abbreviation (input) NASSetEventReport :: u16 where "NASSetEventReport \<equiv> 0x0002"
abbreviation (input) NASRegisterIndications :: u16 where "NASRegisterIndications \<equiv> 0x0003"
abbreviation (input) NASGetSignalStrength :: u16 where "NASGetSignalStrength \<equiv> 0x0020"
abbreviation (input) NASPerformNetworkScan :: u16 where "NASPerformNetworkScan \<equiv> 0x0021"
abbreviation (input) NASInitiateNetworkRegister :: u16 where "NASInitiateNetworkRegister \<equiv> 0x0022"
abbreviation (input) NASAttachDetach :: u16 where "NASAttachDetach \<equiv> 0x0023"
abbreviation (input) NASGetServingSystem :: u16 where "NASGetServingSystem \<equiv> 0x0024"
abbreviation (input) NASSetTechnologyPreference :: u16 where "NASSetTechnologyPreference \<equiv> 0x002A"
abbreviation (input) NASGetTechnologyPreference :: u16 where "NASGetTechnologyPreference \<equiv> 0x002B"
abbreviation (input) NASGetRFBandInfo :: u16 where "NASGetRFBandInfo \<equiv> 0x0031"
abbreviation (input) NASSetSystemSelectionPreference :: u16 where "NASSetSystemSelectionPreference \<equiv> 0x0033"
abbreviation (input) NASGetSystemSelectionPreference :: u16 where "NASGetSystemSelectionPreference \<equiv> 0x0034"
abbreviation (input) NASGetOperatorName :: u16 where "NASGetOperatorName \<equiv> 0x0039"
abbreviation (input) NASGetCellLocationInfo :: u16 where "NASGetCellLocationInfo \<equiv> 0x0043"
abbreviation (input) NASGetPLMNName :: u16 where "NASGetPLMNName \<equiv> 0x0044"
abbreviation (input) NASGetSysInfo :: u16 where "NASGetSysInfo \<equiv> 0x004D"
abbreviation (input) NASGetSignalInfo :: u16 where "NASGetSignalInfo \<equiv> 0x004F"
abbreviation (input) NASGetTxRxInfo :: u16 where "NASGetTxRxInfo \<equiv> 0x005A"
abbreviation (input) NASForceNetworkSearch :: u16 where "NASForceNetworkSearch \<equiv> 0x0067"
abbreviation (input) NASConfigSignalInfoV2 :: u16 where "NASConfigSignalInfoV2 \<equiv> 0x006C"
abbreviation (input) NASGetNetworkTime :: u16 where "NASGetNetworkTime \<equiv> 0x007D"
abbreviation (input) NASGetLTECphyCAInfo :: u16 where "NASGetLTECphyCAInfo \<equiv> 0x00AC"

abbreviation (input) RegStateRegistered :: u8 where "RegStateRegistered \<equiv> 1"
abbreviation (input) RegStateRoaming :: u8 where "RegStateRoaming \<equiv> 5"
abbreviation (input) NASNetworkRegisterManual :: u8 where "NASNetworkRegisterManual \<equiv> 0x02"
abbreviation (input) NASNetworkSelectionManual :: u8 where "NASNetworkSelectionManual \<equiv> 0x01"

section \<open>Data\<close>

text \<open>Signed integers are \<^typ>\<open>int\<close> values read with \<^const>\<open>sint\<close>; fixed arrays are lists of their length.\<close>

record NetworkScanResult =
  ns_MCC :: string
  ns_MNC :: string
  ns_Status :: u8
  ns_Description :: string
  ns_RATs :: "u8 list"

record LTESignalInfo =
  ls_RSRP :: int
  ls_RSRQ :: int
  ls_SNR :: int

record NR5GSignalInfo =
  nr_RSRP :: "int option"
  nr_RSRQ :: "int option"
  nr_SNR :: "int option"

record SignalInfo =
  si_LTE :: "LTESignalInfo option"
  si_NR5G :: "NR5GSignalInfo option"

record SysInfo =
  sy_CellID :: u64
  sy_TAC :: u16
  sy_LAC :: u16
  sy_NR5GServiceStatus :: "u8 option"
  sy_NR5GValid :: bool
  sy_NR5GServiceDomain :: u8
  sy_NR5GMCC :: string
  sy_NR5GMNC :: string
  sy_NR5GCellID :: u32
  sy_NR5GTAC :: u16
  sy_ENDCAvailable :: "bool option"
  sy_DCNRRestriction :: "bool option"

record TechnologyPreference =
  tp_ActivePreference :: u16
  tp_ActiveDuration :: u8
  tp_PersistentPreference :: "u16 option"

record ManualNetworkSelection =
  mn_MCC :: u16
  mn_MNC :: u16
  mn_IncludesPCSDigit :: bool

record SystemSelectionPreference =
  ss_EmergencyMode :: "bool option"
  ss_ModePreference :: "u16 option"
  ss_BandPreference :: "u64 option"
  ss_CDMAPRLPreference :: "u16 option"
  ss_RoamingPreference :: "u16 option"
  ss_LTEBandPreference :: "u64 option"
  ss_TDSCDMABandPreference :: "u64 option"
  ss_NetworkSelectionPreference :: "u8 option"
  ss_ManualNetworkSelection :: "ManualNetworkSelection option"
  ss_ChangeDuration :: "u8 option"
  ss_ServiceDomainPreference :: "u32 option"
  ss_GSMWCDMAAcquisitionOrderPreference :: "u32 option"
  ss_AcquisitionOrderPreference :: "u8 list"
  ss_DisabledModes :: "u16 option"
  ss_NetworkSelectionRegistrationRestriction :: "u32 option"
  ss_UsagePreference :: "u32 option"
  ss_VoiceDomainPreference :: "u32 option"
  ss_ExtendedLTEBandPreference :: "u64 list option"
  ss_NR5GSABandPreference :: "u64 list option"
  ss_NR5GNSABandPreference :: "u64 list option"

record GERANCellLocationInfo =
  ge_CellID :: u32
  ge_MCC :: string
  ge_MNC :: string
  ge_LAC :: u16
  ge_ARFCN :: u16
  ge_BaseStationID :: u8
  ge_TimingAdvance :: "u32 option"
  ge_RXLevel :: u16

record UMTSCellLocationInfo =
  um_CellID :: u32
  um_MCC :: string
  um_MNC :: string
  um_LAC :: u16
  um_UARFCN :: u16
  um_PrimaryScramblingCode :: u16
  um_RSCP :: int
  um_ECIO :: int

record LTECellNeighbor =
  ne_PhysicalCellID :: u16
  ne_RSRQ :: int
  ne_RSRP :: int
  ne_RSSI :: int
  ne_CellSelectionRXLevel :: int

record LTECellInterFrequency =
  if_EARFCN :: u16
  if_CellSelectionRXLevelLow :: u8
  if_CellSelectionRXLevelHigh :: u8
  if_CellReselectionPriority :: "u8 option"
  if_Neighbors :: "LTECellNeighbor list"

record LTECellLocationInfo =
  lt_UEInIdle :: bool
  lt_MCC :: string
  lt_MNC :: string
  lt_TAC :: u16
  lt_GlobalCellID :: u32
  lt_EARFCN :: u16
  lt_HasEARFCN :: bool
  lt_ServingCellID :: u16
  lt_CellReselectionPriority :: u8
  lt_SNonIntraSearchThreshold :: u8
  lt_ServingCellLowThreshold :: u8
  lt_SIntraSearchThreshold :: u8
  lt_HasIdleThresholds :: bool
  lt_TimingAdvance :: "u32 option"
  lt_IntraFrequencyNeighbors :: "LTECellNeighbor list"
  lt_InterFrequencyNeighbors :: "LTECellInterFrequency list"

record NR5GCellLocationInfo =
  n5_MCC :: string
  n5_MNC :: string
  n5_TAC :: u32
  n5_GlobalCellID :: u64
  n5_PhysicalCellID :: u16
  n5_RSRQ :: "int option"
  n5_RSRP :: "int option"
  n5_SNR :: "int option"
  n5_ARFCN :: "u32 option"

record CellLocationInfo =
  cl_GERAN :: "GERANCellLocationInfo option"
  cl_UMTS :: "UMTSCellLocationInfo option"
  cl_LTE :: "LTECellLocationInfo option"
  cl_NR5G :: "NR5GCellLocationInfo option"
  cl_ObservedNR5GARFCN :: "u32 option"

record NetworkTime =
  nt_Year :: u16
  nt_Month :: u8
  nt_Day :: u8
  nt_Hour :: u8
  nt_Minute :: u8
  nt_Second :: u8
  nt_DayOfWeek :: u8
  nt_TimezoneOffsetQuarters :: int
  nt_DaylightSavingsAdjustment :: u8
  nt_RadioInterface :: u8

record NetworkTimeInfo =
  ti_ThreeGPP :: "NetworkTime option"
  ti_ThreeGPP2 :: "NetworkTime option"

record NASIndicationRegistration =
  ir_ServingSystemChanged :: bool
  ir_SystemInfo :: bool
  ir_NetworkTime :: bool
  ir_SignalInfo :: bool
  ir_OperatorName :: bool
  ir_NetworkReject :: bool
  ir_IncrementalNetworkScan :: bool
  ir_EventReportSignalThresholds :: "int list"

record NASInitiateNetworkRegisterRequest =
  rr_Mode :: u8
  rr_MCC :: u16
  rr_MNC :: u16
  rr_RadioAccessTech :: u8
  rr_IncludesPCSDigit :: bool
  rr_ChangeDuration :: "u8 option"

record NASOperatorNameInfo =
  on_ServiceProviderName :: string
  on_OperatorStringName :: string

record NASPLMNNameRequest =
  pn_MCC :: u16
  pn_MNC :: u16
  pn_IncludesPCSDigit :: bool

record NASPLMNNameInfo =
  pn_LongName :: string
  pn_ShortName :: string

record NASSignalInfoConfigV2 =
  sc_LTEEnabled :: bool
  sc_LTERSRPDelta :: u8
  sc_LTERSRQDelta :: u8
  sc_LTESNRDelta :: u8
  sc_NR5GEnabled :: bool
  sc_NR5GRSRPDelta :: u8
  sc_NR5GRSRQDelta :: u8
  sc_NR5GSINRDelta :: u8

record NASNetworkRejectInfo =
  rj_RadioInterface :: u8
  rj_RejectCause :: u32
  rj_PLMN :: string

record NASIncrementalNetworkScanInfo =
  is_ScanComplete :: bool
  is_Results :: "NetworkScanResult list"

record ServingSystem =
  sv_RegistrationState :: u8
  sv_PSAttached :: bool
  sv_RadioInterface :: u8
  sv_MCC :: u16
  sv_MNC :: u16

record SignalStrength =
  sg_RSSI :: int
  sg_ECIO :: int
  sg_RSRP :: int
  sg_RSRQ :: int
  sg_SNR :: int

record nr5gSysInfoTLVIDs =
  id_serviceStatus :: u8
  id_systemInfo :: u8
  id_endcAvailable :: u8
  id_dcnrRestriction :: u8

record NASPhyCAPCellInfo =
  pc_PhysicalCellID :: u16
  pc_RxChannel :: u16
  pc_DLBandwidth :: u32
  pc_LTEBand :: u16

record NASPhyCASCellInfo =
  sl_PhysicalCellID :: u16
  sl_RxChannel :: u16
  sl_DLBandwidth :: u32
  sl_LTEBand :: u16
  sl_State :: u32
  sl_CellIndex :: u8

record NASLTECphyCAInfo =
  ca_DLBandwidth :: u32
  ca_PCell :: "NASPhyCAPCellInfo option"
  ca_SCellIndex :: u8
  ca_SCells :: "NASPhyCASCellInfo list"

record NASTxRxChainInfo =
  ch_IsRadioTuned :: bool
  ch_RxPower :: int
  ch_ECIO :: int
  ch_RSCP :: int
  ch_RSRP :: int
  ch_Phase :: u32

record NASTxInfo =
  tx_IsInTraffic :: bool
  tx_TxPower :: int

record NASTxRxInfo =
  tr_RxChain0 :: "NASTxRxChainInfo option"
  tr_RxChain1 :: "NASTxRxChainInfo option"
  tr_RxChain2 :: "NASTxRxChainInfo option"
  tr_RxChain3 :: "NASTxRxChainInfo option"
  tr_Tx :: "NASTxInfo option"

end
