(* ===== verification/Nas.thy ===== *)
theory Nas
  imports NasData
begin

text \<open>
  The NAS service, \<^verbatim>\<open>src/pkg/qmi/nas.go\<close> and \<^verbatim>\<open>plmn.go\<close>: the requests its methods build, the parsers of
  its responses and indications, the serving network, and the methods themselves; then, for each part of
  a parser, that it does not panic once its length has been tested.
\<close>

section \<open>Requests\<close>

definition buildNASRegisterIndicationsTLVs :: "NASIndicationRegistration \<Rightarrow> TLV list" where
  "buildNASRegisterIndicationsTLVs cfg =
     flag_tlv 0x10 (ir_ServingSystemChanged cfg) @ flag_tlv 0x13 (ir_SystemInfo cfg) @
     flag_tlv 0x17 (ir_NetworkTime cfg) @ flag_tlv 0x18 (ir_SignalInfo cfg) @
     flag_tlv 0x19 (ir_OperatorName cfg) @ flag_tlv 0x1A (ir_NetworkReject cfg) @
     flag_tlv 0x1B (ir_IncrementalNetworkScan cfg)"

definition buildNASInitiateNetworkRegisterTLVs :: "NASInitiateNetworkRegisterRequest \<Rightarrow> TLV list" where
  "buildNASInitiateNetworkRegisterTLVs req =
     [\<lparr>tlv_Type = 0x01, tlv_Value = [rr_Mode req]\<rparr>] @
     (if rr_Mode req = NASNetworkRegisterManual
      then [\<lparr>tlv_Type = 0x10, tlv_Value = PutUint16 (rr_MCC req) @ PutUint16 (rr_MNC req) @ [rr_RadioAccessTech req]\<rparr>]
      else []) @
     (if rr_Mode req \<noteq> NASNetworkRegisterManual \<and> rr_RadioAccessTech req \<noteq> 0
      then [NewTLVUint8 0x10 (rr_RadioAccessTech req)] else []) @
     u8_tlv 0x11 (rr_ChangeDuration req) @
     flag_tlv 0x12 (rr_IncludesPCSDigit req)"

definition buildTechnologyPreferenceTLVs :: "TechnologyPreference \<Rightarrow> TLV list" where
  "buildTechnologyPreferenceTLVs pref =
     [\<lparr>tlv_Type = 0x01, tlv_Value = PutUint16 (tp_ActivePreference pref) @ [tp_ActiveDuration pref]\<rparr>]"

definition newTLVUint64 :: "u8 \<Rightarrow> u64 \<Rightarrow> TLV" where
  "newTLVUint64 t v = \<lparr>tlv_Type = t, tlv_Value = PutUint64 v\<rparr>"

definition newTLVUint64Sequence :: "u8 \<Rightarrow> u64 list \<Rightarrow> go_error + TLV" where
  "newTLVUint64Sequence t values =
     (if values = [] then Inl (ErrText ''uint64 sequence cannot be empty'')
      else Inr \<lparr>tlv_Type = t, tlv_Value = concat (map PutUint64 values)\<rparr>)"

definition has_tlv :: "('a \<Rightarrow> TLV) \<Rightarrow> 'a option \<Rightarrow> TLV list" where
  "has_tlv f v = (case v of Some x \<Rightarrow> [f x] | None \<Rightarrow> [])"

definition network_selection_tlv :: "SystemSelectionPreference \<Rightarrow> TLV list" where
  "network_selection_tlv pref =
     (case (ss_NetworkSelectionPreference pref, ss_ManualNetworkSelection pref) of
        (None, None) \<Rightarrow> []
      | (_, Some m) \<Rightarrow>
          [\<lparr>tlv_Type = 0x16, tlv_Value = [NASNetworkSelectionManual] @ PutUint16 (mn_MCC m) @ PutUint16 (mn_MNC m)\<rparr>]
      | (Some mode, None) \<Rightarrow> [\<lparr>tlv_Type = 0x16, tlv_Value = [mode] @ PutUint16 0 @ PutUint16 0\<rparr>])"

definition acquisition_order_tlv :: "u8 list \<Rightarrow> TLV list" where
  "acquisition_order_tlv l =
     (if length l > 0 then [\<lparr>tlv_Type = 0x1E, tlv_Value = of_nat (length l) # l\<rparr>] else [])"

definition sequence_tlv :: "u8 \<Rightarrow> u64 list option \<Rightarrow> go_error + TLV list" where
  "sequence_tlv t v =
     (case v of None \<Rightarrow> Inr [] | Some vs \<Rightarrow> map_sum id (\<lambda>tlv. [tlv]) (newTLVUint64Sequence t vs))"

definition buildSystemSelectionPreferenceTLVs :: "SystemSelectionPreference \<Rightarrow> go_error + TLV list" where
  "buildSystemSelectionPreferenceTLVs pref =
     (let fields =
        has_tlv (\<lambda>b. NewTLVUint8 0x10 (boolToUint8 b)) (ss_EmergencyMode pref) @
        has_tlv (NewTLVUint16 0x11) (ss_ModePreference pref) @
        has_tlv (newTLVUint64 0x12) (ss_BandPreference pref) @
        has_tlv (NewTLVUint16 0x13) (ss_CDMAPRLPreference pref) @
        has_tlv (NewTLVUint16 0x14) (ss_RoamingPreference pref) @
        has_tlv (newTLVUint64 0x15) (ss_LTEBandPreference pref) @
        has_tlv (newTLVUint64 0x1D) (ss_TDSCDMABandPreference pref) @
        network_selection_tlv pref @
        has_tlv (NewTLVUint8 0x17) (ss_ChangeDuration pref) @
        has_tlv (NewTLVUint32 0x18) (ss_ServiceDomainPreference pref) @
        has_tlv (NewTLVUint32 0x19) (ss_GSMWCDMAAcquisitionOrderPreference pref) @
        has_tlv (\<lambda>m. NewTLVUint8 0x1A (boolToUint8 (mn_IncludesPCSDigit m))) (ss_ManualNetworkSelection pref) @
        acquisition_order_tlv (ss_AcquisitionOrderPreference pref) @
        has_tlv (NewTLVUint32 0x1F) (ss_NetworkSelectionRegistrationRestriction pref) @
        has_tlv (NewTLVUint32 0x21) (ss_UsagePreference pref) @
        has_tlv (NewTLVUint32 0x23) (ss_VoiceDomainPreference pref)
      in bind_res (sequence_tlv 0x24 (ss_ExtendedLTEBandPreference pref)) (\<lambda>lte.
         bind_res (sequence_tlv 0x2F (ss_NR5GSABandPreference pref)) (\<lambda>sa.
         bind_res (sequence_tlv 0x30 (ss_NR5GNSABandPreference pref)) (\<lambda>nsa.
         Inr (fields @ lte @ sa @ nsa)))))"

section \<open>Responses\<close>

definition parse_serving_system_tlv :: "byte list \<Rightarrow> ServingSystem \<Rightarrow> ServingSystem option" where
  "parse_serving_system_tlv v ss = do {
     st \<leftarrow> at v 0;
     ps \<leftarrow> at v 2;
     rat \<leftarrow> (if length v \<ge> 6 then do {
              numIfaces \<leftarrow> at v 4;
              if unat numIfaces > 0 \<and> length v \<ge> 5 + unat numIfaces then at v 5 else Some (sv_RadioInterface ss)
            } else Some (sv_RadioInterface ss));
     Some (ss\<lparr>sv_RegistrationState := st, sv_PSAttached := (ps = 1), sv_RadioInterface := rat\<rparr>)
   }"

definition parseServingSystemPacket :: "Packet \<Rightarrow> bool \<Rightarrow> ServingSystem parsed" where
  "parseServingSystemPacket packet checkResult =
     (case (if checkResult then check packet else None) of
        Some e \<Rightarrow> Some (Inl (errorf ''get serving system failed'' e))
      | None \<Rightarrow> do {
          s1 \<leftarrow> with_tlv (pkt_TLVs packet) 0x01 3 parse_serving_system_tlv
            \<lparr>sv_RegistrationState = 0, sv_PSAttached = False, sv_RadioInterface = 0, sv_MCC = 0, sv_MNC = 0\<rparr>;
          s2 \<leftarrow> with_tlv (pkt_TLVs packet) 0x10 1 (\<lambda>v s. do {
             b \<leftarrow> at v 0;
             Some (if b = 0x00 \<and> sv_RegistrationState s = RegStateRegistered
                   then s\<lparr>sv_RegistrationState := RegStateRoaming\<rparr> else s) }) s1;
          s3 \<leftarrow> with_tlv (pkt_TLVs packet) 0x12 4 (\<lambda>v s. do {
             mcc \<leftarrow> rd16 v 0; mnc \<leftarrow> rd16 v 2; Some (s\<lparr>sv_MCC := mcc, sv_MNC := mnc\<rparr>) }) s2;
          ok s3
        })"

definition parse_signal_strength :: "Packet \<Rightarrow> SignalStrength parsed" where
  "parse_signal_strength = checked ''get signal strength failed'' (\<lambda>resp. do {
     rssi \<leftarrow> tlv_or 0 (pkt_TLVs resp) 0x01 1 (\<lambda>v. map_option sint (at v 0));
     rsrq \<leftarrow> tlv_or 0 (pkt_TLVs resp) 0x16 1 (\<lambda>v. map_option sint (at v 0));
     snr \<leftarrow> tlv_or 0 (pkt_TLVs resp) 0x17 2 (\<lambda>v. map_option sint (le16 v));
     rsrp \<leftarrow> tlv_or 0 (pkt_TLVs resp) 0x18 2 (\<lambda>v. map_option sint (le16 v));
     ok \<lparr>sg_RSSI = rssi, sg_ECIO = 0, sg_RSRP = rsrp, sg_RSRQ = rsrq, sg_SNR = snr\<rparr>
   })"

definition NoMeasurementRSSIdBm :: int where "NoMeasurementRSSIdBm = -125"

definition HasMeasurement :: "SignalStrength option \<Rightarrow> bool" where
  "HasMeasurement s =
     (case s of
        None \<Rightarrow> False
      | Some s \<Rightarrow>
          if sg_RSSI s \<noteq> NoMeasurementRSSIdBm then True
          else sg_RSRP s \<noteq> 0 \<or> sg_RSRQ s \<noteq> 0 \<or> sg_SNR s \<noteq> 0)"

definition parse_nr5g_sysinfo :: "byte list \<Rightarrow> SysInfo \<Rightarrow> SysInfo option" where
  "parse_nr5g_sysinfo v s = do {
     f0 \<leftarrow> at v 0;
     dom \<leftarrow> (if f0 \<noteq> 0 then at v 1 else Some (sy_NR5GServiceDomain s));
     f11 \<leftarrow> at v 11;
     cell \<leftarrow> (if f11 \<noteq> 0 then rd32 v 12 else Some (sy_NR5GCellID s));
     f19 \<leftarrow> at v 19;
     mcc \<leftarrow> (if f19 \<noteq> 0 then rdstr v 20 23 else Some (sy_NR5GMCC s));
     mnc \<leftarrow> (if f19 \<noteq> 0 then rdstr v 23 26 else Some (sy_NR5GMNC s));
     f26 \<leftarrow> at v 26;
     tac \<leftarrow> (if f26 \<noteq> 0 then rd16 v 27 else Some (sy_NR5GTAC s));
     Some (s\<lparr>sy_NR5GValid := True, sy_NR5GServiceDomain := dom, sy_NR5GCellID := cell, sy_NR5GMCC := mcc,
       sy_NR5GMNC := mnc, sy_NR5GTAC := tac\<rparr>)
   }"

definition parseSysInfoPacket :: "Packet \<Rightarrow> nr5gSysInfoTLVIDs \<Rightarrow> SysInfo parsed" where
  "parseSysInfoPacket packet ids = do {
     cell \<leftarrow> tlv_or 0 (pkt_TLVs packet) 0x19 16 (\<lambda>v. map_option ucast (rd32 v 12));
     tac \<leftarrow> tlv_or 0 (pkt_TLVs packet) 0x19 16 (\<lambda>v. if length v \<ge> 29 then rd16 v 27 else Some 0);
     st \<leftarrow> opt_tlv (pkt_TLVs packet) (id_serviceStatus ids) 1 (\<lambda>v. at v 0);
     endc \<leftarrow> opt_tlv (pkt_TLVs packet) (id_endcAvailable ids) 1 (\<lambda>v. map_option (\<lambda>b. b \<noteq> 0) (at v 0));
     dcnr \<leftarrow> opt_tlv (pkt_TLVs packet) (id_dcnrRestriction ids) 1 (\<lambda>v. map_option (\<lambda>b. b \<noteq> 0) (at v 0));
     s \<leftarrow> with_tlv (pkt_TLVs packet) (id_systemInfo ids) 29 parse_nr5g_sysinfo
       \<lparr>sy_CellID = cell, sy_TAC = tac, sy_LAC = 0, sy_NR5GServiceStatus = st, sy_NR5GValid = False,
        sy_NR5GServiceDomain = 0, sy_NR5GMCC = [], sy_NR5GMNC = [], sy_NR5GCellID = 0, sy_NR5GTAC = 0,
        sy_ENDCAvailable = endc, sy_DCNRRestriction = dcnr\<rparr>;
     ok s
   }"

definition ParseSysInfoIndication :: "Packet \<Rightarrow> SysInfo parsed" where
  "ParseSysInfoIndication packet = parseSysInfoPacket packet
     \<lparr>id_serviceStatus = 0x4C, id_systemInfo = 0x4D, id_endcAvailable = 0x50, id_dcnrRestriction = 0x51\<rparr>"

definition parseSysInfoResponse :: "Packet \<Rightarrow> SysInfo parsed" where
  "parseSysInfoResponse packet = parseSysInfoPacket packet
     \<lparr>id_serviceStatus = 0x4A, id_systemInfo = 0x4B, id_endcAvailable = 0x4E, id_dcnrRestriction = 0x4F\<rparr>"

text \<open>A string behind its length byte; a length that runs past the value leaves the field empty.\<close>

definition counted_string :: "byte list \<Rightarrow> string option" where
  "counted_string v = do {
     n \<leftarrow> at v 0;
     if length v \<ge> 1 + unat n then rdstr v 1 (1 + unat n) else Some []
   }"

definition parse_plmn_name :: "Packet \<Rightarrow> NASPLMNNameInfo parsed" where
  "parse_plmn_name = checked ''get plmn name failed'' (\<lambda>resp. do {
     long \<leftarrow> tlv_or [] (pkt_TLVs resp) 0x10 1 counted_string;
     short \<leftarrow> tlv_or [] (pkt_TLVs resp) 0x11 1 counted_string;
     ok \<lparr>pn_LongName = long, pn_ShortName = short\<rparr>
   })"

definition avail16 :: "u16 \<Rightarrow> int option" where
  "avail16 w = (if sint w \<noteq> -32768 then Some (sint w) else None)"

definition parseSignalInfoPacket :: "Packet \<Rightarrow> SignalInfo parsed" where
  "parseSignalInfoPacket packet = do {
     lte \<leftarrow> opt_tlv (pkt_TLVs packet) 0x14 6 (\<lambda>v. do {
        rsrq \<leftarrow> at v 1; rsrp \<leftarrow> rd16 v 2; snr \<leftarrow> rd16 v 4;
        Some \<lparr>ls_RSRP = sint rsrp, ls_RSRQ = sint rsrq, ls_SNR = sint snr\<rparr> });
     nr \<leftarrow> opt_tlv (pkt_TLVs packet) 0x17 4 (\<lambda>v. do {
        rsrp \<leftarrow> rd16 v 0; sinr \<leftarrow> rd16 v 2;
        Some \<lparr>nr_RSRP = avail16 rsrp, nr_RSRQ = None, nr_SNR = avail16 sinr\<rparr> });
     nr' \<leftarrow> with_tlv (pkt_TLVs packet) 0x18 2 (\<lambda>v n. do {
        rsrq \<leftarrow> rd16 v 0;
        Some (Some ((case n of Some x \<Rightarrow> x | None \<Rightarrow> \<lparr>nr_RSRP = None, nr_RSRQ = None, nr_SNR = None\<rparr>)
          \<lparr>nr_RSRQ := avail16 rsrq\<rparr>)) }) nr;
     ok \<lparr>si_LTE = lte, si_NR5G = nr'\<rparr>
   }"

definition ParseSignalInfoIndication :: "Packet \<Rightarrow> SignalInfo parsed" where
  "ParseSignalInfoIndication packet = parseSignalInfoPacket packet"

definition parseOperatorNamePacket :: "Packet \<Rightarrow> bool \<Rightarrow> NASOperatorNameInfo parsed" where
  "parseOperatorNamePacket packet checkResult =
     (case (if checkResult then check packet else None) of
        Some e \<Rightarrow> Some (Inl (errorf ''get operator name failed'' e))
      | None \<Rightarrow> do {
          spn \<leftarrow> tlv_or [] (pkt_TLVs packet) 0x10 1 (\<lambda>v. map_option string_of_bytes (tail_from v 1));
          name \<leftarrow> tlv_or [] (pkt_TLVs packet) 0x13 0 (\<lambda>v. Some (string_of_bytes v));
          ok \<lparr>on_ServiceProviderName = spn, on_OperatorStringName = name\<rparr>
        })"

section \<open>Network scans\<close>

text \<open>\<^verbatim>\<open>%03d\<close>\<close>

definition pad3 :: "u16 \<Rightarrow> string" where
  "pad3 n = (let d = decimal (unat n) in replicate (3 - length d) (CHR ''0'') @ d)"

fun scan_entries :: "nat \<Rightarrow> nat \<Rightarrow> byte list \<Rightarrow> NetworkScanResult list option" where
  "scan_entries 0 off v = Some []"
| "scan_entries (Suc n) off v =
     (if length v - off < 6 then Some []
      else do {
        mcc \<leftarrow> rd16 v off;
        mnc \<leftarrow> rd16 v (off + 2);
        status \<leftarrow> at v (off + 4);
        descLen \<leftarrow> at v (off + 5);
        if length v - (off + 6) < unat descLen then Some []
        else do {
          desc \<leftarrow> (if unat descLen > 0 then rdstr v (off + 6) (off + 6 + unat descLen) else Some []);
          rest \<leftarrow> scan_entries n (off + 6 + unat descLen) v;
          Some (\<lparr>ns_MCC = pad3 mcc, ns_MNC = pad3 mnc, ns_Status = status, ns_Description = desc, ns_RATs = []\<rparr> # rest)
        }
      })"

fun add_rat :: "string \<Rightarrow> string \<Rightarrow> u8 \<Rightarrow> NetworkScanResult list \<Rightarrow> NetworkScanResult list" where
  "add_rat mcc mnc rat [] = []"
| "add_rat mcc mnc rat (r # rs) =
     (if ns_MCC r = mcc \<and> ns_MNC r = mnc then r\<lparr>ns_RATs := ns_RATs r @ [rat]\<rparr> # rs
      else r # add_rat mcc mnc rat rs)"

fun scan_rats :: "nat \<Rightarrow> nat \<Rightarrow> byte list \<Rightarrow> NetworkScanResult list \<Rightarrow> NetworkScanResult list option" where
  "scan_rats 0 off v results = Some results"
| "scan_rats (Suc n) off v results =
     (if length v - off < 5 then Some results
      else do {
        mcc \<leftarrow> rd16 v off;
        mnc \<leftarrow> rd16 v (off + 2);
        rat \<leftarrow> at v (off + 4);
        scan_rats n (off + 5) v (add_rat (pad3 mcc) (pad3 mnc) rat results)
      })"

definition parseNetworkScanResults :: "Packet \<Rightarrow> NetworkScanResult list option" where
  "parseNetworkScanResults packet = do {
     results \<leftarrow> tlv_or [] (pkt_TLVs packet) 0x10 2 (\<lambda>v. do { n \<leftarrow> rd16 v 0; scan_entries (unat n) 2 v });
     with_tlv (pkt_TLVs packet) 0x11 2 (\<lambda>v r. do { n \<leftarrow> rd16 v 0; scan_rats (unat n) 2 v r }) results
   }"

section \<open>Bands and preferences\<close>

definition rf_band :: "byte list \<Rightarrow> nat \<Rightarrow> RFBandInfoEntry option" where
  "rf_band v off = do {
     r \<leftarrow> at v off; b \<leftarrow> rd16 v (off + 1); c \<leftarrow> rd32 v (off + 3);
     Some \<lparr>rb_RadioInterface = r, rb_ActiveBandClass = b, rb_ActiveChannel = c\<rparr>
   }"

definition rf_band_short :: "byte list \<Rightarrow> nat \<Rightarrow> RFBandInfoEntry option" where
  "rf_band_short v off = do {
     r \<leftarrow> at v off; b \<leftarrow> rd16 v (off + 1); c \<leftarrow> rd16 v (off + 3);
     Some \<lparr>rb_RadioInterface = r, rb_ActiveBandClass = b, rb_ActiveChannel = ucast c\<rparr>
   }"

definition rf_bandwidth :: "byte list \<Rightarrow> nat \<Rightarrow> RFBandwidthInfo option" where
  "rf_bandwidth v off = do {
     r \<leftarrow> at v off; b \<leftarrow> rd32 v (off + 1); Some \<lparr>rw_RadioInterface = r, rw_Bandwidth = b\<rparr>
   }"

definition parseRFBandInfoResponse :: "Packet \<Rightarrow> RFBandInfo parsed" where
  "parseRFBandInfoResponse = checked ''get RF band information failed'' (\<lambda>resp. do {
     extended \<leftarrow> opt_tlv (pkt_TLVs resp) 0x11 1 (counted_list 7 rf_band);
     bands \<leftarrow> (case extended of
                 Some l \<Rightarrow> Some l
               | None \<Rightarrow> tlv_or [] (pkt_TLVs resp) 0x01 1 (counted_list 5 rf_band_short));
     widths \<leftarrow> tlv_or [] (pkt_TLVs resp) 0x12 1 (counted_list 5 rf_bandwidth);
     if bands = [] \<and> widths = [] then Some (Inl (ErrText ''no RF band information TLVs in response''))
     else ok \<lparr>rf_Bands = bands, rf_Bandwidths = widths\<rparr>
   })"

definition parseTechnologyPreferenceResponse :: "Packet \<Rightarrow> TechnologyPreference parsed" where
  "parseTechnologyPreferenceResponse = checked ''get technology preference failed'' (\<lambda>resp. do {
     active \<leftarrow> tlv_or 0 (pkt_TLVs resp) 0x01 3 (\<lambda>v. rd16 v 0);
     duration \<leftarrow> tlv_or 0 (pkt_TLVs resp) 0x01 3 (\<lambda>v. at v 2);
     persistent \<leftarrow> opt_tlv (pkt_TLVs resp) 0x10 2 (\<lambda>v. rd16 v 0);
     ok \<lparr>tp_ActivePreference = active, tp_ActiveDuration = duration, tp_PersistentPreference = persistent\<rparr>
   })"

definition parseUint64Sequence :: "byte list \<Rightarrow> nat \<Rightarrow> u64 list parsed" where
  "parseUint64Sequence value count =
     (if length value < count * 8
      then Some (Inl (ErrText (''uint64 sequence too short: need '' @ decimal (count * 8) @ '', have '' @ decimal (length value))))
      else map_option Inr (those (map (\<lambda>i. rd64 value (i * 8)) [0..<count])))"

definition optional_sequence :: "TLV list \<Rightarrow> u8 \<Rightarrow> nat \<Rightarrow> u64 list option parsed" where
  "optional_sequence ts t count =
     (case FindTLV ts t of
        None \<Rightarrow> ok None
      | Some tlv \<Rightarrow> map_option (map_sum id Some) (parseUint64Sequence (tlv_Value tlv) count))"

definition parse_manual_selection :: "byte list \<Rightarrow> ManualNetworkSelection option" where
  "parse_manual_selection v = do {
     mcc \<leftarrow> rd16 v 0; mnc \<leftarrow> rd16 v 2; pcs \<leftarrow> at v 4;
     Some \<lparr>mn_MCC = mcc, mn_MNC = mnc, mn_IncludesPCSDigit = (pcs \<noteq> 0)\<rparr>
   }"

definition parse_acquisition_order :: "byte list \<Rightarrow> u8 list option" where
  "parse_acquisition_order v = do {
     count \<leftarrow> at v 0;
     if length v \<ge> 1 + unat count then sub v 1 (1 + unat count) else Some []
   }"

definition parse_selection_fields :: "TLV list \<Rightarrow> SystemSelectionPreference option" where
  "parse_selection_fields ts = do {
     emergency \<leftarrow> opt_tlv ts 0x10 1 (\<lambda>v. map_option (\<lambda>b. b \<noteq> 0) (at v 0));
     mode \<leftarrow> opt_tlv ts 0x11 2 (\<lambda>v. rd16 v 0);
     band \<leftarrow> opt_tlv ts 0x12 8 (\<lambda>v. rd64 v 0);
     prl \<leftarrow> opt_tlv ts 0x13 2 (\<lambda>v. rd16 v 0);
     roaming \<leftarrow> opt_tlv ts 0x14 2 (\<lambda>v. rd16 v 0);
     lte \<leftarrow> opt_tlv ts 0x15 8 (\<lambda>v. rd64 v 0);
     tds \<leftarrow> opt_tlv ts 0x1A 8 (\<lambda>v. rd64 v 0);
     sel \<leftarrow> opt_tlv ts 0x16 1 (\<lambda>v. at v 0);
     dom \<leftarrow> opt_tlv ts 0x18 4 (\<lambda>v. rd32 v 0);
     gw \<leftarrow> opt_tlv ts 0x19 4 (\<lambda>v. rd32 v 0);
     manual \<leftarrow> opt_tlv ts 0x1B 5 parse_manual_selection;
     order \<leftarrow> tlv_or [] ts 0x1C 1 parse_acquisition_order;
     restriction \<leftarrow> opt_tlv ts 0x1D 4 (\<lambda>v. rd32 v 0);
     usage \<leftarrow> opt_tlv ts 0x1F 4 (\<lambda>v. rd32 v 0);
     voice \<leftarrow> opt_tlv ts 0x20 4 (\<lambda>v. rd32 v 0);
     disabled \<leftarrow> opt_tlv ts 0x22 2 (\<lambda>v. rd16 v 0);
     Some \<lparr>ss_EmergencyMode = emergency, ss_ModePreference = mode, ss_BandPreference = band,
       ss_CDMAPRLPreference = prl, ss_RoamingPreference = roaming, ss_LTEBandPreference = lte,
       ss_TDSCDMABandPreference = tds, ss_NetworkSelectionPreference = sel, ss_ManualNetworkSelection = manual,
       ss_ChangeDuration = None, ss_ServiceDomainPreference = dom, ss_GSMWCDMAAcquisitionOrderPreference = gw,
       ss_AcquisitionOrderPreference = order, ss_DisabledModes = disabled,
       ss_NetworkSelectionRegistrationRestriction = restriction, ss_UsagePreference = usage,
       ss_VoiceDomainPreference = voice, ss_ExtendedLTEBandPreference = None, ss_NR5GSABandPreference = None,
       ss_NR5GNSABandPreference = None\<rparr>
   }"

definition parseSystemSelectionPreferenceResponse :: "Packet \<Rightarrow> SystemSelectionPreference parsed" where
  "parseSystemSelectionPreferenceResponse = checked ''get system selection preference failed'' (\<lambda>resp. do {
     s \<leftarrow> parse_selection_fields (pkt_TLVs resp);
     try_parse (optional_sequence (pkt_TLVs resp) 0x23 4) (\<lambda>lte.
     try_parse (optional_sequence (pkt_TLVs resp) 0x2C 8) (\<lambda>sa.
     try_parse (optional_sequence (pkt_TLVs resp) 0x2D 8) (\<lambda>nsa.
     ok (s\<lparr>ss_ExtendedLTEBandPreference := lte, ss_NR5GSABandPreference := sa, ss_NR5GNSABandPreference := nsa\<rparr>))))
   })"

section \<open>Cell locations\<close>

definition decodeUint24 :: "byte list \<Rightarrow> u32 option" where
  "decodeUint24 b =
     (if length b < 3 then Some 0
      else do {
        b0 \<leftarrow> at b 0; b1 \<leftarrow> at b 1; b2 \<leftarrow> at b 2;
        Some (push_bit 16 (ucast b0) OR push_bit 8 (ucast b1) OR ucast b2)
      })"

definition decodeBCDPLMN :: "byte list \<Rightarrow> (string \<times> string) option" where
  "decodeBCDPLMN plmn =
     (if length plmn < 3 then Some ([], [])
      else do {
        a \<leftarrow> at plmn 0; b \<leftarrow> at plmn 1; c \<leftarrow> at plmn 2;
        let d = (\<lambda>n. decimal (unat n));
            mcc = d (lo_nibble a) @ d (hi_nibble a) @ d (lo_nibble b);
            mnc3 = hi_nibble b
        in Some (mcc,
             if mnc3 = 0x0F then d (lo_nibble c) @ d (hi_nibble c)
             else d (lo_nibble c) @ d (hi_nibble c) @ d mnc3)
      })"

definition parseLTECellNeighbor :: "byte list \<Rightarrow> LTECellNeighbor option" where
  "parseLTECellNeighbor value = do {
     pci \<leftarrow> rd16 value 0; rsrq \<leftarrow> rd16 value 2; rsrp \<leftarrow> rd16 value 4; rssi \<leftarrow> rd16 value 6; lev \<leftarrow> rd16 value 8;
     Some \<lparr>ne_PhysicalCellID = pci, ne_RSRQ = sint rsrq, ne_RSRP = sint rsrp, ne_RSSI = sint rssi,
       ne_CellSelectionRXLevel = sint lev\<rparr>
   }"

definition neighbors_at :: "byte list \<Rightarrow> nat \<Rightarrow> nat \<Rightarrow> LTECellNeighbor list option" where
  "neighbors_at v off cellsLen =
     those (map (\<lambda>i. do { b \<leftarrow> sub v (off + i * 10) (off + i * 10 + 10); parseLTECellNeighbor b }) [0..<cellsLen])"

definition parse_geran :: "byte list \<Rightarrow> GERANCellLocationInfo option" where
  "parse_geran v = do {
     b \<leftarrow> sub v 4 7; (mcc, mnc) \<leftarrow> decodeBCDPLMN b;
     cell \<leftarrow> rd32 v 0; lac \<leftarrow> rd16 v 7; arfcn \<leftarrow> rd16 v 9; bs \<leftarrow> at v 11; rx \<leftarrow> rd16 v 16; ta \<leftarrow> rd32 v 12;
     Some \<lparr>ge_CellID = cell, ge_MCC = mcc, ge_MNC = mnc, ge_LAC = lac, ge_ARFCN = arfcn, ge_BaseStationID = bs,
       ge_TimingAdvance = (if ta \<noteq> 0xFFFFFFFF then Some ta else None), ge_RXLevel = rx\<rparr>
   }"

definition parse_umts :: "byte list \<Rightarrow> UMTSCellLocationInfo option" where
  "parse_umts v = do {
     b \<leftarrow> sub v 2 5; (mcc, mnc) \<leftarrow> decodeBCDPLMN b;
     cell \<leftarrow> rd16 v 0; lac \<leftarrow> rd16 v 5; uarfcn \<leftarrow> rd16 v 7; psc \<leftarrow> rd16 v 9; rscp \<leftarrow> rd16 v 11; ecio \<leftarrow> rd16 v 13;
     Some \<lparr>um_CellID = ucast cell, um_MCC = mcc, um_MNC = mnc, um_LAC = lac, um_UARFCN = uarfcn,
       um_PrimaryScramblingCode = psc, um_RSCP = sint rscp, um_ECIO = sint ecio\<rparr>
   }"

definition empty_LTE :: LTECellLocationInfo where
  "empty_LTE = \<lparr>lt_UEInIdle = False, lt_MCC = [], lt_MNC = [], lt_TAC = 0, lt_GlobalCellID = 0, lt_EARFCN = 0,
     lt_HasEARFCN = False, lt_ServingCellID = 0, lt_CellReselectionPriority = 0, lt_SNonIntraSearchThreshold = 0,
     lt_ServingCellLowThreshold = 0, lt_SIntraSearchThreshold = 0, lt_HasIdleThresholds = False,
     lt_TimingAdvance = None, lt_IntraFrequencyNeighbors = [], lt_InterFrequencyNeighbors = []\<rparr>"

definition parse_lte_serving :: "byte list \<Rightarrow> LTECellLocationInfo option" where
  "parse_lte_serving v = do {
     b \<leftarrow> sub v 1 4; (mcc, mnc) \<leftarrow> decodeBCDPLMN b;
     idle \<leftarrow> at v 0; tac \<leftarrow> rd16 v 4; gci \<leftarrow> rd32 v 6; earfcn \<leftarrow> rd16 v 10; sci \<leftarrow> rd16 v 12;
     pri \<leftarrow> at v 14; sni \<leftarrow> at v 15; low \<leftarrow> at v 16; sin \<leftarrow> at v 17;
     ns \<leftarrow> (if length v \<ge> 19 then do {
             cellsLen \<leftarrow> at v 18;
             if length v \<ge> 19 + unat cellsLen * 10 then neighbors_at v 19 (unat cellsLen) else Some []
           } else Some []);
     Some \<lparr>lt_UEInIdle = (idle \<noteq> 0), lt_MCC = mcc, lt_MNC = mnc, lt_TAC = tac, lt_GlobalCellID = gci,
       lt_EARFCN = earfcn, lt_HasEARFCN = True, lt_ServingCellID = sci, lt_CellReselectionPriority = pri,
       lt_SNonIntraSearchThreshold = sni, lt_ServingCellLowThreshold = low, lt_SIntraSearchThreshold = sin,
       lt_HasIdleThresholds = (idle \<noteq> 0), lt_TimingAdvance = None, lt_IntraFrequencyNeighbors = ns,
       lt_InterFrequencyNeighbors = []\<rparr>
   }"

fun inter_frequencies :: "bool \<Rightarrow> nat \<Rightarrow> nat \<Rightarrow> byte list \<Rightarrow> LTECellInterFrequency list option" where
  "inter_frequencies idle 0 off v = Some []"
| "inter_frequencies idle (Suc n) off v =
     (if off + 6 > length v then Some []
      else do {
        earfcn \<leftarrow> rd16 v off;
        low \<leftarrow> at v (off + 2);
        high \<leftarrow> at v (off + 3);
        pri \<leftarrow> (if idle then map_option Some (at v (off + 4)) else Some None);
        cellsLen \<leftarrow> at v (off + 5);
        if off + 6 + unat cellsLen * 10 > length v then Some []
        else do {
          ns \<leftarrow> neighbors_at v (off + 6) (unat cellsLen);
          rest \<leftarrow> inter_frequencies idle n (off + 6 + unat cellsLen * 10) v;
          Some (\<lparr>if_EARFCN = earfcn, if_CellSelectionRXLevelLow = low, if_CellSelectionRXLevelHigh = high,
            if_CellReselectionPriority = pri, if_Neighbors = ns\<rparr> # rest)
        }
      })"

definition parse_lte_inter :: "byte list \<Rightarrow> LTECellLocationInfo option \<Rightarrow> LTECellLocationInfo option option" where
  "parse_lte_inter v lte = do {
     b \<leftarrow> at v 0;
     frequencies \<leftarrow> at v 1;
     fs \<leftarrow> inter_frequencies (b \<noteq> 0) (unat frequencies) 2 v;
     let l = (case lte of Some l \<Rightarrow> l | None \<Rightarrow> empty_LTE\<lparr>lt_UEInIdle := (b \<noteq> 0)\<rparr>)
     in Some (Some (l\<lparr>lt_InterFrequencyNeighbors := lt_InterFrequencyNeighbors l @ fs\<rparr>))
   }"

definition empty_UMTS :: UMTSCellLocationInfo where
  "empty_UMTS = \<lparr>um_CellID = 0, um_MCC = [], um_MNC = [], um_LAC = 0, um_UARFCN = 0, um_PrimaryScramblingCode = 0,
     um_RSCP = 0, um_ECIO = 0\<rparr>"

definition parse_umts_cell :: "byte list \<Rightarrow> UMTSCellLocationInfo option \<Rightarrow> UMTSCellLocationInfo option option" where
  "parse_umts_cell v umts = do {
     cell \<leftarrow> rd32 v 0;
     Some (Some ((case umts of Some u \<Rightarrow> u | None \<Rightarrow> empty_UMTS)\<lparr>um_CellID := cell\<rparr>))
   }"

definition parse_lte_advance :: "byte list \<Rightarrow> LTECellLocationInfo option \<Rightarrow> LTECellLocationInfo option option" where
  "parse_lte_advance v lte = do {
     ta \<leftarrow> rd32 v 0;
     let l = (case lte of Some l \<Rightarrow> l | None \<Rightarrow> empty_LTE)
     in Some (Some (if ta \<noteq> 0xFFFFFFFF then l\<lparr>lt_TimingAdvance := Some ta\<rparr> else l))
   }"

definition parse_nr5g :: "byte list \<Rightarrow> NR5GCellLocationInfo option" where
  "parse_nr5g v = do {
     b \<leftarrow> sub v 0 3; (mcc, mnc) \<leftarrow> decodeBCDPLMN b;
     t \<leftarrow> sub v 3 6; tac \<leftarrow> decodeUint24 t;
     gci \<leftarrow> rd64 v 6; pci \<leftarrow> rd16 v 14; rsrq \<leftarrow> rd16 v 16; rsrp \<leftarrow> rd16 v 18;
     snr \<leftarrow> (if length v \<ge> 22 then map_option avail16 (rd16 v 20) else Some None);
     Some \<lparr>n5_MCC = mcc, n5_MNC = mnc, n5_TAC = tac, n5_GlobalCellID = gci, n5_PhysicalCellID = pci,
       n5_RSRQ = avail16 rsrq, n5_RSRP = avail16 rsrp, n5_SNR = snr, n5_ARFCN = None\<rparr>
   }"

definition parse_lte_location :: "TLV list \<Rightarrow> LTECellLocationInfo option option" where
  "parse_lte_location ts = do {
     lte0 \<leftarrow> opt_tlv ts 0x13 18 parse_lte_serving;
     lte1 \<leftarrow> with_tlv ts 0x14 2 parse_lte_inter lte0;
     with_tlv ts 0x1E 4 parse_lte_advance lte1
   }"

definition parseCellLocationInfoPacket :: "Packet \<Rightarrow> bool \<Rightarrow> CellLocationInfo parsed" where
  "parseCellLocationInfoPacket resp checkResult =
     (case (if checkResult then check resp else None) of
        Some e \<Rightarrow> Some (Inl (errorf ''get cell location info failed'' e))
      | None \<Rightarrow> do {
          geran \<leftarrow> opt_tlv (pkt_TLVs resp) 0x10 18 parse_geran;
          umts0 \<leftarrow> opt_tlv (pkt_TLVs resp) 0x11 15 parse_umts;
          lte \<leftarrow> parse_lte_location (pkt_TLVs resp);
          umts \<leftarrow> with_tlv (pkt_TLVs resp) 0x17 4 parse_umts_cell umts0;
          arfcn \<leftarrow> opt_tlv (pkt_TLVs resp) 0x2E 4 (\<lambda>v. rd32 v 0);
          nr0 \<leftarrow> opt_tlv (pkt_TLVs resp) 0x2F 20 parse_nr5g;
          let nr = (case nr0 of
                      None \<Rightarrow> None
                    | Some n \<Rightarrow> if n5_GlobalCellID n \<noteq> 0 then Some (n\<lparr>n5_ARFCN := arfcn\<rparr>) else None)
          in if geran = None \<and> umts = None \<and> lte = None \<and> nr = None \<and> arfcn = None \<and> nr0 = None
             then Some (Inl (ErrText ''no cell location TLVs in response''))
             else ok \<lparr>cl_GERAN = geran, cl_UMTS = umts, cl_LTE = lte, cl_NR5G = nr, cl_ObservedNR5GARFCN = arfcn\<rparr>
        })"

definition ParseCellLocationInfoIndication :: "Packet option \<Rightarrow> CellLocationInfo parsed" where
  "ParseCellLocationInfoIndication packet =
     (case packet of
        None \<Rightarrow> Some (Inl (ErrText ''cell location info packet is nil''))
      | Some p \<Rightarrow> parseCellLocationInfoPacket p False)"

definition parseCellLocationInfoResponse :: "Packet \<Rightarrow> CellLocationInfo parsed" where
  "parseCellLocationInfoResponse resp = parseCellLocationInfoPacket resp True"

definition GetLTEDuplexModeFromCellLocation :: "CellLocationInfo option \<Rightarrow> string" where
  "GetLTEDuplexModeFromCellLocation info =
     (case info of
        None \<Rightarrow> []
      | Some i \<Rightarrow>
          (case cl_LTE i of
             None \<Rightarrow> []
           | Some lte \<Rightarrow>
               if \<not> lt_HasEARFCN lte \<and> lt_EARFCN lte = 0 then []
               else GetLTEDuplexModeFromEARFCN (ucast (lt_EARFCN lte))))"

section \<open>Network time and indications\<close>

definition time_fields :: "byte list \<Rightarrow> NetworkTime option" where
  "time_fields v = do {
     y \<leftarrow> rd16 v 0; mo \<leftarrow> at v 2; d \<leftarrow> at v 3; h \<leftarrow> at v 4; mi \<leftarrow> at v 5; s \<leftarrow> at v 6; w \<leftarrow> at v 7;
     Some \<lparr>nt_Year = y, nt_Month = mo, nt_Day = d, nt_Hour = h, nt_Minute = mi, nt_Second = s, nt_DayOfWeek = w,
       nt_TimezoneOffsetQuarters = 0, nt_DaylightSavingsAdjustment = 0, nt_RadioInterface = 0\<rparr>
   }"

definition zone_fields :: "byte list \<Rightarrow> NetworkTime \<Rightarrow> NetworkTime option" where
  "zone_fields v t = do {
     tz \<leftarrow> at v 8; dst \<leftarrow> at v 9; rat \<leftarrow> at v 10;
     Some (t\<lparr>nt_TimezoneOffsetQuarters := sint tz, nt_DaylightSavingsAdjustment := dst, nt_RadioInterface := rat\<rparr>)
   }"

definition parseNetworkTimeTLV :: "TLV \<Rightarrow> NetworkTime parsed" where
  "parseNetworkTimeTLV tlv =
     (let v = tlv_Value tlv in
      if length v < 11 then Some (Inl (ErrText (''network time TLV too short: '' @ decimal (length v))))
      else do { t \<leftarrow> time_fields v; t' \<leftarrow> zone_fields v t; ok t' })"

definition parseNetworkTimeIndicationTLV :: "TLV \<Rightarrow> NetworkTime parsed" where
  "parseNetworkTimeIndicationTLV tlv =
     (let v = tlv_Value tlv in
      if length v < 8 then Some (Inl (ErrText (''network time universal time TLV too short: '' @ decimal (length v))))
      else do {
        t \<leftarrow> time_fields v;
        t' \<leftarrow> (if length v \<ge> 11 then zone_fields v t else Some t);
        ok t'
      })"

definition optional_time :: "TLV list \<Rightarrow> u8 \<Rightarrow> NetworkTime option parsed" where
  "optional_time ts t =
     (case FindTLV ts t of
        None \<Rightarrow> ok None
      | Some tlv \<Rightarrow> map_option (map_sum id Some) (parseNetworkTimeTLV tlv))"

definition parseNetworkTimePacket :: "Packet \<Rightarrow> bool \<Rightarrow> NetworkTimeInfo parsed" where
  "parseNetworkTimePacket packet checkResult =
     (case (if checkResult then check packet else None) of
        Some e \<Rightarrow> Some (Inl (errorf ''get network time failed'' e))
      | None \<Rightarrow>
          try_parse (optional_time (pkt_TLVs packet) 0x10) (\<lambda>gpp2.
          try_parse (optional_time (pkt_TLVs packet) 0x11) (\<lambda>gpp.
            if gpp = None \<and> gpp2 = None then Some (Inl (ErrText ''no network time TLV in response''))
            else ok \<lparr>ti_ThreeGPP = gpp, ti_ThreeGPP2 = gpp2\<rparr>)))"

definition parseNetworkTimeResponse :: "Packet \<Rightarrow> NetworkTimeInfo parsed" where
  "parseNetworkTimeResponse resp = parseNetworkTimePacket resp True"

definition networkTimeResponseTLVPresent :: "Packet \<Rightarrow> bool" where
  "networkTimeResponseTLVPresent packet \<longleftrightarrow>
     list_ex (\<lambda>t. case FindTLV (pkt_TLVs packet) t of Some tlv \<Rightarrow> length (tlv_Value tlv) \<ge> 11 | None \<Rightarrow> False) [0x10, 0x11]"

text \<open>One of the TLVs beside the universal time: absent, too short, or the first byte.\<close>

definition split_tlv :: "TLV list \<Rightarrow> u8 \<Rightarrow> string \<Rightarrow> (byte \<Rightarrow> NetworkTime \<Rightarrow> NetworkTime) \<Rightarrow> NetworkTime \<Rightarrow> NetworkTime parsed" where
  "split_tlv ts t name f value =
     (case FindTLV ts t of
        None \<Rightarrow> ok value
      | Some tlv \<Rightarrow>
          if length (tlv_Value tlv) < 1
          then Some (Inl (ErrText (''network time '' @ name @ '' TLV too short: '' @ decimal (length (tlv_Value tlv)))))
          else do { b \<leftarrow> at (tlv_Value tlv) 0; ok (f b value) })"

definition ParseNetworkTimeIndication :: "Packet option \<Rightarrow> NetworkTimeInfo parsed" where
  "ParseNetworkTimeIndication packet =
     (case packet of
        None \<Rightarrow> Some (Inl (ErrText ''network time indication packet is nil''))
      | Some p \<Rightarrow>
          (case FindTLV (pkt_TLVs p) 0x01 of
             Some tlv \<Rightarrow>
               try_parse (parseNetworkTimeIndicationTLV tlv) (\<lambda>v0.
               try_parse (split_tlv (pkt_TLVs p) 0x10 ''timezone'' (\<lambda>b t. t\<lparr>nt_TimezoneOffsetQuarters := sint b\<rparr>) v0) (\<lambda>v1.
               try_parse (split_tlv (pkt_TLVs p) 0x11 ''daylight savings'' (\<lambda>b t. t\<lparr>nt_DaylightSavingsAdjustment := b\<rparr>) v1) (\<lambda>v2.
               try_parse (split_tlv (pkt_TLVs p) 0x12 ''radio interface'' (\<lambda>b t. t\<lparr>nt_RadioInterface := b\<rparr>) v2) (\<lambda>v3.
               ok \<lparr>ti_ThreeGPP = Some v3, ti_ThreeGPP2 = None\<rparr>))))
           | None \<Rightarrow>
               if networkTimeResponseTLVPresent p then parseNetworkTimePacket p False
               else Some (Inl (ErrText ''network time indication TLV not found''))))"

definition ParseNetworkRejectIndication :: "Packet option \<Rightarrow> NASNetworkRejectInfo parsed" where
  "ParseNetworkRejectIndication packet =
     (case packet of
        None \<Rightarrow> Some (Inl (ErrText ''network reject indication packet is nil''))
      | Some p \<Rightarrow> do {
          rat \<leftarrow> tlv_or 0 (pkt_TLVs p) 0x10 5 (\<lambda>v. at v 0);
          cause \<leftarrow> tlv_or 0 (pkt_TLVs p) 0x10 5 (\<lambda>v. rd32 v 1);
          plmn \<leftarrow> tlv_or [] (pkt_TLVs p) 0x11 0 (\<lambda>v. Some (string_of_bytes v));
          ok \<lparr>rj_RadioInterface = rat, rj_RejectCause = cause, rj_PLMN = plmn\<rparr>
        })"

definition ParseIncrementalNetworkScanIndication :: "Packet option \<Rightarrow> NASIncrementalNetworkScanInfo parsed" where
  "ParseIncrementalNetworkScanIndication packet =
     (case packet of
        None \<Rightarrow> Some (Inl (ErrText ''incremental network scan indication packet is nil''))
      | Some p \<Rightarrow> do {
          results \<leftarrow> parseNetworkScanResults p;
          complete \<leftarrow> tlv_or False (pkt_TLVs p) 0x12 1 (\<lambda>v. map_option (\<lambda>b. b \<noteq> 0) (at v 0));
          ok \<lparr>is_ScanComplete = complete, is_Results = results\<rparr>
        })"

section \<open>Carrier aggregation and power\<close>

definition parse_pcell :: "byte list \<Rightarrow> NASPhyCAPCellInfo option" where
  "parse_pcell v = do {
     pci \<leftarrow> rd16 v 0; rx \<leftarrow> rd16 v 2; bw \<leftarrow> rd32 v 4; band \<leftarrow> rd16 v 8;
     Some \<lparr>pc_PhysicalCellID = pci, pc_RxChannel = rx, pc_DLBandwidth = bw, pc_LTEBand = band\<rparr>
   }"

definition parse_scell :: "byte list \<Rightarrow> nat \<Rightarrow> u8 option \<Rightarrow> NASPhyCASCellInfo option" where
  "parse_scell v off index = do {
     pci \<leftarrow> rd16 v off; rx \<leftarrow> rd16 v (off + 2); bw \<leftarrow> rd32 v (off + 4); band \<leftarrow> rd16 v (off + 8);
     st \<leftarrow> rd32 v (off + 10); i \<leftarrow> (case index of Some x \<Rightarrow> Some x | None \<Rightarrow> at v (off + 14));
     Some \<lparr>sl_PhysicalCellID = pci, sl_RxChannel = rx, sl_DLBandwidth = bw, sl_LTEBand = band, sl_State = st, sl_CellIndex = i\<rparr>
   }"

definition parse_cphy_ca :: "Packet \<Rightarrow> NASLTECphyCAInfo parsed" where
  "parse_cphy_ca = checked ''get LTE cphy CA info failed'' (\<lambda>resp. do {
     bw \<leftarrow> with_tlv_len (pkt_TLVs resp) 0x11 4 (\<lambda>v _. le32 v) 0;
     pcell \<leftarrow> with_tlv_len (pkt_TLVs resp) 0x13 10 (\<lambda>v _. map_option Some (parse_pcell v)) None;
     index \<leftarrow> with_tlv_len (pkt_TLVs resp) 0x14 1 (\<lambda>v _. at v 0) 0;
     scells \<leftarrow> opt_tlv (pkt_TLVs resp) 0x15 1 (counted_list 15 (\<lambda>v off. parse_scell v off None));
     cells \<leftarrow> (case scells of
                 Some l \<Rightarrow> Some l
               | None \<Rightarrow> with_tlv_len (pkt_TLVs resp) 0x12 14
                   (\<lambda>v _. do { c \<leftarrow> parse_scell v 0 (Some index); Some [c] }) []);
     ok \<lparr>ca_DLBandwidth = bw, ca_PCell = pcell, ca_SCellIndex = index, ca_SCells = cells\<rparr>
   })"

definition parse_chain :: "byte list \<Rightarrow> NASTxRxChainInfo option" where
  "parse_chain v = do {
     tuned \<leftarrow> at v 0; rx \<leftarrow> rd32 v 1; ecio \<leftarrow> rd32 v 5; rscp \<leftarrow> rd32 v 9; rsrp \<leftarrow> rd32 v 13; phase \<leftarrow> rd32 v 17;
     Some \<lparr>ch_IsRadioTuned = (tuned \<noteq> 0), ch_RxPower = sint rx, ch_ECIO = sint ecio, ch_RSCP = sint rscp,
       ch_RSRP = sint rsrp, ch_Phase = phase\<rparr>
   }"

definition parse_txrx :: "Packet \<Rightarrow> NASTxRxInfo parsed" where
  "parse_txrx = checked ''get tx rx info failed'' (\<lambda>resp. do {
     c0 \<leftarrow> opt_tlv (pkt_TLVs resp) 0x10 21 parse_chain;
     c1 \<leftarrow> opt_tlv (pkt_TLVs resp) 0x11 21 parse_chain;
     c2 \<leftarrow> opt_tlv (pkt_TLVs resp) 0x15 21 parse_chain;
     c3 \<leftarrow> opt_tlv (pkt_TLVs resp) 0x16 21 parse_chain;
     tx \<leftarrow> opt_tlv (pkt_TLVs resp) 0x12 5 (\<lambda>v. do {
        b \<leftarrow> at v 0; p \<leftarrow> rd32 v 1; Some \<lparr>tx_IsInTraffic = (b \<noteq> 0), tx_TxPower = sint p\<rparr> });
     ok \<lparr>tr_RxChain0 = c0, tr_RxChain1 = c1, tr_RxChain2 = c2, tr_RxChain3 = c3, tr_Tx = tx\<rparr>
   })"

section \<open>Home and serving networks\<close>

definition homePLMNFromIMSIAndLength :: "string \<Rightarrow> int \<Rightarrow> go_error + (string \<times> string)" where
  "homePLMNFromIMSIAndLength raw mncLen =
     (let imsi = TrimSpace raw in
      if (mncLen \<noteq> 2 \<and> mncLen \<noteq> 3) \<or> int (length imsi) < 3 + mncLen \<or> \<not> decimalDigits imsi
      then Inl (ErrText ''mnc_length_unknown: invalid IMSI or MNC length'')
      else Inr (take 3 imsi, go_slice 3 (3 + nat mncLen) imsi))"

definition ServingPLMNFromCellLocation :: "CellLocationInfo option \<Rightarrow> u8 \<Rightarrow> go_error + (string \<times> string)" where
  "ServingPLMNFromCellLocation info radioInterface =
     (case info of
        None \<Rightarrow> Inl (ErrText ''serving_plmn_unavailable: cell location is nil'')
      | Some i \<Rightarrow>
          let none = ([], []);
              plmn = (if radioInterface = 0x0A \<or> radioInterface = 0x0C
                        then Some (case cl_NR5G i of Some n \<Rightarrow> (n5_MCC n, n5_MNC n) | None \<Rightarrow> none)
                      else if radioInterface = 0x08
                        then Some (case cl_LTE i of Some n \<Rightarrow> (lt_MCC n, lt_MNC n) | None \<Rightarrow> none)
                      else if radioInterface = 0x05 \<or> radioInterface = 0x09
                        then Some (case cl_UMTS i of Some n \<Rightarrow> (um_MCC n, um_MNC n) | None \<Rightarrow> none)
                      else if radioInterface = 0x04
                        then Some (case cl_GERAN i of Some n \<Rightarrow> (ge_MCC n, ge_MNC n) | None \<Rightarrow> none)
                      else None)
          in (case plmn of
                None \<Rightarrow> Inl (ErrText (''serving_plmn_unavailable: unsupported radio interface 0x'' @ hex2 radioInterface))
              | Some (a, b) \<Rightarrow>
                  let mcc = TrimSpace a; mnc = TrimSpace b in
                  if length mcc \<noteq> 3 \<or> (length mnc \<noteq> 2 \<and> length mnc \<noteq> 3) \<or> \<not> decimalDigits mcc \<or> \<not> decimalDigits mnc
                  then Inl (ErrText (''serving_plmn_unavailable: invalid PLMN '' @ quoted mcc @ ''/'' @ quoted mnc))
                  else Inr (mcc, mnc)))"

section \<open>Methods\<close>

definition GetServingSystem :: "'m sender \<Rightarrow> 'm \<Rightarrow> ServingSystem parsed \<times> 'm" where
  "GetServingSystem send = call send NASGetServingSystem [] (\<lambda>resp. parseServingSystemPacket resp True)"

definition ParseServingSystemIndication :: "Packet \<Rightarrow> ServingSystem parsed" where
  "ParseServingSystemIndication packet = parseServingSystemPacket packet False"

definition IsRegistered :: "'m sender \<Rightarrow> 'm \<Rightarrow> bool parsed \<times> 'm" where
  "IsRegistered send m =
     (case GetServingSystem send m of
        (r, m') \<Rightarrow> (map_option (map_sum id (\<lambda>ss.
           (sv_RegistrationState ss = RegStateRegistered \<or> sv_RegistrationState ss = RegStateRoaming) \<and> sv_PSAttached ss)) r, m'))"

definition GetSignalStrength :: "'m sender \<Rightarrow> 'm \<Rightarrow> SignalStrength parsed \<times> 'm" where
  "GetSignalStrength send = call send NASGetSignalStrength [] parse_signal_strength"

definition RegisterIndicationsWithConfig :: "'m sender \<Rightarrow> NASIndicationRegistration \<Rightarrow> 'm \<Rightarrow> unit parsed \<times> 'm" where
  "RegisterIndicationsWithConfig send cfg m =
     (case call send NASRegisterIndications (buildNASRegisterIndicationsTLVs cfg)
             (checked ''register nas indications failed'' acked) m of
        (Some (Inr _), m1) \<Rightarrow>
          (let th = ir_EventReportSignalThresholds cfg in
           if th = [] then (Some (Inr ()), m1)
           else call send NASSetEventReport
             [\<lparr>tlv_Type = 0x10, tlv_Value = [0x01, of_nat (length th)] @ map of_int th\<rparr>] (checked_plain acked) m1)
      | r \<Rightarrow> r)"

definition RegisterIndications :: "'m sender \<Rightarrow> 'm \<Rightarrow> unit parsed \<times> 'm" where
  "RegisterIndications send = RegisterIndicationsWithConfig send
     \<lparr>ir_ServingSystemChanged = True, ir_SystemInfo = True, ir_NetworkTime = True, ir_SignalInfo = True,
      ir_OperatorName = True, ir_NetworkReject = True, ir_IncrementalNetworkScan = True,
      ir_EventReportSignalThresholds = [-60, -85]\<rparr>"

definition InitiateNetworkRegister :: "'m sender \<Rightarrow> NASInitiateNetworkRegisterRequest \<Rightarrow> 'm \<Rightarrow> unit parsed \<times> 'm" where
  "InitiateNetworkRegister send req =
     call send NASInitiateNetworkRegister (buildNASInitiateNetworkRegisterTLVs req)
       (checked ''initiate network register failed'' acked)"

definition ForceNetworkSearch :: "'m sender \<Rightarrow> 'm \<Rightarrow> unit parsed \<times> 'm" where
  "ForceNetworkSearch send = call send NASForceNetworkSearch [] (checked ''force network search failed'' acked)"

definition AttachDetach :: "'m sender \<Rightarrow> bool \<Rightarrow> 'm \<Rightarrow> unit parsed \<times> 'm" where
  "AttachDetach send attached =
     call send NASAttachDetach [\<lparr>tlv_Type = 0x10, tlv_Value = [if attached then 0x01 else 0x00]\<rparr>]
       (checked ''attach detach failed'' acked)"

definition GetSignalInfo :: "'m sender \<Rightarrow> 'm \<Rightarrow> SignalInfo parsed \<times> 'm" where
  "GetSignalInfo send = call send NASGetSignalInfo [] (checked_plain parseSignalInfoPacket)"

definition GetSysInfo :: "'m sender \<Rightarrow> 'm \<Rightarrow> SysInfo parsed \<times> 'm" where
  "GetSysInfo send = call send NASGetSysInfo [] (checked_plain parseSysInfoResponse)"

definition GetOperatorName :: "'m sender \<Rightarrow> 'm \<Rightarrow> NASOperatorNameInfo parsed \<times> 'm" where
  "GetOperatorName send = call send NASGetOperatorName [] (\<lambda>resp. parseOperatorNamePacket resp True)"

definition ParseOperatorNameIndication :: "Packet \<Rightarrow> NASOperatorNameInfo parsed" where
  "ParseOperatorNameIndication packet = parseOperatorNamePacket packet False"

definition GetPLMNName :: "'m sender \<Rightarrow> NASPLMNNameRequest \<Rightarrow> 'm \<Rightarrow> NASPLMNNameInfo parsed \<times> 'm" where
  "GetPLMNName send req =
     call send NASGetPLMNName
       [\<lparr>tlv_Type = 0x01, tlv_Value = PutUint16 (pn_MCC req) @ PutUint16 (pn_MNC req) @ [if pn_IncludesPCSDigit req then 1 else 0]\<rparr>]
       parse_plmn_name"

definition ConfigSignalInfoV2 :: "'m sender \<Rightarrow> NASSignalInfoConfigV2 \<Rightarrow> 'm \<Rightarrow> unit parsed \<times> 'm" where
  "ConfigSignalInfoV2 send cfg m =
     (let tlvs =
        (if sc_LTEEnabled cfg
         then [\<lparr>tlv_Type = 0x10, tlv_Value = [0x01, sc_LTERSRPDelta cfg, sc_LTERSRQDelta cfg, sc_LTESNRDelta cfg]\<rparr>] else []) @
        (if sc_NR5GEnabled cfg
         then [\<lparr>tlv_Type = 0x11, tlv_Value = [0x01, sc_NR5GRSRPDelta cfg, sc_NR5GRSRQDelta cfg, sc_NR5GSINRDelta cfg]\<rparr>] else [])
      in if length tlvs = 0
         then (Some (Inl (ErrText ''config signal info v2 requires at least one RAT config'')), m)
         else call send NASConfigSignalInfoV2 tlvs (checked ''config signal info v2 failed'' acked) m)"

definition PerformNetworkScan :: "'m sender \<Rightarrow> 'm \<Rightarrow> NetworkScanResult list parsed \<times> 'm" where
  "PerformNetworkScan send =
     call send NASPerformNetworkScan [] (checked_plain (\<lambda>resp. map_option Inr (parseNetworkScanResults resp)))"

definition GetRFBandInfo :: "'m sender \<Rightarrow> 'm \<Rightarrow> RFBandInfo parsed \<times> 'm" where
  "GetRFBandInfo send = call send NASGetRFBandInfo [] parseRFBandInfoResponse"

definition GetTechnologyPreference :: "'m sender \<Rightarrow> 'm \<Rightarrow> TechnologyPreference parsed \<times> 'm" where
  "GetTechnologyPreference send = call send NASGetTechnologyPreference [] parseTechnologyPreferenceResponse"

definition SetTechnologyPreference :: "'m sender \<Rightarrow> TechnologyPreference \<Rightarrow> 'm \<Rightarrow> unit parsed \<times> 'm" where
  "SetTechnologyPreference send pref =
     call send NASSetTechnologyPreference (buildTechnologyPreferenceTLVs pref)
       (checked ''set technology preference failed'' acked)"

definition GetSystemSelectionPreference :: "'m sender \<Rightarrow> 'm \<Rightarrow> SystemSelectionPreference parsed \<times> 'm" where
  "GetSystemSelectionPreference send =
     call send NASGetSystemSelectionPreference [] parseSystemSelectionPreferenceResponse"

definition SetSystemSelectionPreference :: "'m sender \<Rightarrow> SystemSelectionPreference \<Rightarrow> 'm \<Rightarrow> unit parsed \<times> 'm" where
  "SetSystemSelectionPreference send pref m =
     (case buildSystemSelectionPreferenceTLVs pref of
        Inl e \<Rightarrow> (Some (Inl e), m)
      | Inr tlvs \<Rightarrow>
          if length tlvs = 0
          then (Some (Inl (ErrText ''set system selection preference requires at least one field'')), m)
          else call send NASSetSystemSelectionPreference tlvs (checked ''set system selection preference failed'' acked) m)"

definition GetCellLocationInfo :: "'m sender \<Rightarrow> 'm \<Rightarrow> CellLocationInfo parsed \<times> 'm" where
  "GetCellLocationInfo send = call send NASGetCellLocationInfo [] parseCellLocationInfoResponse"

definition GetNetworkTime :: "'m sender \<Rightarrow> 'm \<Rightarrow> NetworkTimeInfo parsed \<times> 'm" where
  "GetNetworkTime send = call send NASGetNetworkTime [] parseNetworkTimeResponse"

definition GetLTECphyCAInfo :: "'m sender \<Rightarrow> 'm \<Rightarrow> NASLTECphyCAInfo parsed \<times> 'm" where
  "GetLTECphyCAInfo send = call send NASGetLTECphyCAInfo [] parse_cphy_ca"

definition GetTxRxInfo :: "'m sender \<Rightarrow> u8 \<Rightarrow> 'm \<Rightarrow> NASTxRxInfo parsed \<times> 'm" where
  "GetTxRxInfo send radioInterface = call send NASGetTxRxInfo [NewTLVUint8 0x01 radioInterface] parse_txrx"

section \<open>Parsers do not panic\<close>

lemma scan_entries_safe [safe]: "scan_entries n off v \<noteq> None"
  by (induction n off v rule: scan_entries.induct) (simp_all only: scan_entries.simps, (intro safe; auto)+)

lemma scan_rats_safe [safe]: "scan_rats n off v r \<noteq> None"
  by (induction n off v r rule: scan_rats.induct) (simp_all only: scan_rats.simps, (intro safe; auto)+)

lemma rf_safe [safe]:
  "off + 7 \<le> length v \<Longrightarrow> rf_band v off \<noteq> None"
  "off + 5 \<le> length v \<Longrightarrow> rf_band_short v off \<noteq> None"
  "off + 5 \<le> length v \<Longrightarrow> rf_bandwidth v off \<noteq> None"
  unfolding rf_band_def rf_band_short_def rf_bandwidth_def by (intro safe; simp)+

lemma counted_string_safe [safe]: "1 \<le> length v \<Longrightarrow> counted_string v \<noteq> None"
  unfolding counted_string_def by (intro safe) auto

lemma parseUint64Sequence_safe [safe]: "parseUint64Sequence v count \<noteq> None"
  unfolding parseUint64Sequence_def by (intro safe) auto

lemma selection_field_safe [safe]:
  "5 \<le> length v \<Longrightarrow> parse_manual_selection v \<noteq> None"
  "1 \<le> length v \<Longrightarrow> parse_acquisition_order v \<noteq> None"
  unfolding parse_manual_selection_def parse_acquisition_order_def by (intro safe; auto)+

lemma parse_selection_fields_safe [safe]: "parse_selection_fields ts \<noteq> None"
  unfolding parse_selection_fields_def by (intro safe) auto

lemma decodeBCDPLMN_safe [safe]: "decodeBCDPLMN b \<noteq> None"
  unfolding decodeBCDPLMN_def by (intro safe) auto

lemma decodeUint24_safe [safe]: "decodeUint24 b \<noteq> None"
  unfolding decodeUint24_def by (intro safe) auto

lemma parseLTECellNeighbor_safe [safe]: "length v = 10 \<Longrightarrow> parseLTECellNeighbor v \<noteq> None"
  unfolding parseLTECellNeighbor_def by (intro safe) auto

lemma neighbors_at_safe [safe]: "off + n * 10 \<le> length v \<Longrightarrow> neighbors_at v off n \<noteq> None"
  unfolding neighbors_at_def by (intro safe) (auto dest: lengths)

lemma inter_frequencies_safe [safe]: "inter_frequencies idle n off v \<noteq> None"
  by (induction idle n off v rule: inter_frequencies.induct)
    (simp_all only: inter_frequencies.simps, (intro safe; auto)+)

lemma cell_safe [safe]:
  "18 \<le> length v \<Longrightarrow> parse_geran v \<noteq> None"
  "15 \<le> length v \<Longrightarrow> parse_umts v \<noteq> None"
  "18 \<le> length v \<Longrightarrow> parse_lte_serving v \<noteq> None"
  "2 \<le> length v \<Longrightarrow> parse_lte_inter v l \<noteq> None"
  "20 \<le> length v \<Longrightarrow> parse_nr5g v \<noteq> None"
  "4 \<le> length v \<Longrightarrow> parse_umts_cell v u \<noteq> None"
  "4 \<le> length v \<Longrightarrow> parse_lte_advance v l \<noteq> None"
  unfolding parse_umts_cell_def parse_lte_advance_def parse_geran_def parse_umts_def parse_lte_serving_def parse_lte_inter_def parse_nr5g_def
  by (intro safe; auto)+

lemma parse_lte_location_safe [safe]: "parse_lte_location ts \<noteq> None"
  unfolding parse_lte_location_def by (intro safe) auto

lemma time_safe [safe]:
  "8 \<le> length v \<Longrightarrow> time_fields v \<noteq> None"
  "11 \<le> length v \<Longrightarrow> zone_fields v t \<noteq> None"
  unfolding time_fields_def zone_fields_def by (intro safe; auto)+

lemma time_tlv_safe [safe]:
  "parseNetworkTimeTLV tlv \<noteq> None"
  "parseNetworkTimeIndicationTLV tlv \<noteq> None"
  "split_tlv ts t name f value \<noteq> None"
  unfolding parseNetworkTimeTLV_def parseNetworkTimeIndicationTLV_def split_tlv_def by (intro safe; auto)+

lemma parseNetworkTimePacket_safe [safe]: "parseNetworkTimePacket p c \<noteq> None"
  unfolding parseNetworkTimePacket_def optional_time_def by (intro safe)

lemma radio_safe [safe]:
  "length v = 10 \<Longrightarrow> parse_pcell v \<noteq> None"
  "off + 15 \<le> length v \<Longrightarrow> parse_scell v off None \<noteq> None"
  "off + 14 \<le> length v \<Longrightarrow> parse_scell v off (Some i) \<noteq> None"
  "21 \<le> length v \<Longrightarrow> parse_chain v \<noteq> None"
  unfolding parse_pcell_def parse_scell_def parse_chain_def by (intro safe; auto)+

lemma system_safe [safe]:
  "3 \<le> length v \<Longrightarrow> parse_serving_system_tlv v s \<noteq> None"
  "29 \<le> length v \<Longrightarrow> parse_nr5g_sysinfo v i \<noteq> None"
  unfolding parse_serving_system_tlv_def parse_nr5g_sysinfo_def by (intro safe; auto)+

lemma parseNetworkScanResults_safe [safe]: "parseNetworkScanResults p \<noteq> None"
  unfolding parseNetworkScanResults_def by (intro safe) auto

end
