(* ===== verification/NasProofs.thy ===== *)
theory NasProofs
  imports Nas
begin

text \<open>
  Properties of the NAS service: its parsers do not panic, network codes keep their digits from the
  octets of a cell location to the serving network, and sequences of band masks are read back.
\<close>

section \<open>Network codes\<close>

text \<open>The three octets of a PLMN: a two-digit MNC is filled with \<^verbatim>\<open>0xF\<close>.\<close>

fun bcd_plmn :: "nat list \<Rightarrow> nat list \<Rightarrow> byte list" where
  "bcd_plmn [a, b, c] [d, e] = [of_nat (a + 16 * b), of_nat (c + 16 * 15), of_nat (d + 16 * e)]"
| "bcd_plmn [a, b, c] [d, e, f] = [of_nat (a + 16 * b), of_nat (c + 16 * f), of_nat (d + 16 * e)]"
| "bcd_plmn _ _ = []"

definition network_code :: "nat list \<Rightarrow> nat list \<Rightarrow> bool" where
  "network_code mcc mnc \<longleftrightarrow>
     length mcc = 3 \<and> (length mnc = 2 \<or> length mnc = 3) \<and> (\<forall>d \<in> set mcc \<union> set mnc. d < 10)"

lemma bcd_plmn_cases:
  assumes "network_code mcc mnc"
  obtains (two) a b c d e where "mcc = [a, b, c]" "mnc = [d, e]" "a < 10" "b < 10" "c < 10" "d < 10" "e < 10"
  | (three) a b c d e f where "mcc = [a, b, c]" "mnc = [d, e, f]" "a < 10" "b < 10" "c < 10" "d < 10" "e < 10" "f < 10"
  using assms that by (auto simp: network_code_def length_Suc_conv numeral_2_eq_2 numeral_3_eq_3)

lemma decode_bcd_plmn:
  assumes "network_code mcc mnc"
  shows "length (bcd_plmn mcc mnc) = 3 \<and> decodeBCDPLMN (bcd_plmn mcc mnc) = Some (digits mcc, digits mnc)"
  using assms
proof (cases rule: bcd_plmn_cases)
  case (two a b c d e)
  then show ?thesis
    using nibbles(1)[of c 15] nibbles(2)[of c 15] nibbles[of a b] nibbles[of d e]
    by (simp add: decodeBCDPLMN_def digits_def)
next
  case (three a b c d e f)
  moreover have "(of_nat f :: byte) \<noteq> 15"
    using three(8) by (auto dest: arg_cong[where f = unat])
  ultimately show ?thesis
    using nibbles[of c f] nibbles[of a b] nibbles[of d e]
    by (simp add: decodeBCDPLMN_def digits_def)
qed

section \<open>Serving networks\<close>

text \<open>Where a radio interface has its network code: the TLV, the offset of the three octets in it, and
  the least length of the TLV.\<close>

definition plmn_place :: "u8 \<Rightarrow> (u8 \<times> nat \<times> nat) option" where
  "plmn_place rat = map_of [(0x0A, 0x2F, 0, 20), (0x0C, 0x2F, 0, 20), (0x08, 0x13, 1, 18), (0x05, 0x11, 2, 15),
     (0x09, 0x11, 2, 15), (0x04, 0x10, 4, 18)] rat"

lemma cell_plmn:
  "parse_geran v = Some g \<Longrightarrow> decodeBCDPLMN (go_slice 4 7 v) = Some (ge_MCC g, ge_MNC g)"
  "parse_umts v = Some u \<Longrightarrow> decodeBCDPLMN (go_slice 2 5 v) = Some (um_MCC u, um_MNC u)"
  "parse_lte_serving v = Some l \<Longrightarrow> decodeBCDPLMN (go_slice 1 4 v) = Some (lt_MCC l, lt_MNC l)"
  "parse_nr5g v = Some n \<Longrightarrow> decodeBCDPLMN (go_slice 0 3 v) = Some (n5_MCC n, n5_MNC n) \<and>
     n5_GlobalCellID n = Uint64 (go_slice 6 14 v)"
  unfolding parse_geran_def parse_umts_def parse_lte_serving_def parse_nr5g_def
  by (auto simp: bind_eq_Some_conv sub_def rd64_def le64_def split: if_splits)

lemma lte_location_plmn:
  assumes "opt_tlv ts 0x13 18 parse_lte_serving = Some (Some l)" "parse_lte_location ts = Some lte"
  shows "\<exists>l'. lte = Some l' \<and> lt_MCC l' = lt_MCC l \<and> lt_MNC l' = lt_MNC l"
proof -
  let ?P = "\<lambda>lte. \<exists>l'. lte = Some l' \<and> lt_MCC l' = lt_MCC l \<and> lt_MNC l' = lt_MNC l"
  obtain lte1 where 1: "with_tlv ts 0x14 2 parse_lte_inter (Some l) = Some lte1"
    and 2: "with_tlv ts 0x1E 4 parse_lte_advance lte1 = Some lte"
    using assms unfolding parse_lte_location_def by (auto simp: bind_eq_Some_conv)
  have "?P lte1"
    by (rule with_tlv_keeps[OF 1]) (auto simp: parse_lte_inter_def bind_eq_Some_conv)
  then show ?thesis
    by (rule with_tlv_keeps[OF 2]) (auto simp: parse_lte_advance_def bind_eq_Some_conv)
qed

lemma umts_location_plmn:
  assumes "with_tlv ts 0x17 4 parse_umts_cell (Some u) = Some u'"
  shows "\<exists>x. u' = Some x \<and> um_MCC x = um_MCC u \<and> um_MNC x = um_MNC u"
  by (rule with_tlv_keeps[OF assms]) (auto simp: parse_umts_cell_def bind_eq_Some_conv)

text \<open>What a parsed cell location says of each technology.\<close>

definition nr5g_location :: "NR5GCellLocationInfo option \<Rightarrow> u32 option \<Rightarrow> NR5GCellLocationInfo option" where
  "nr5g_location nr0 arfcn =
     (case nr0 of None \<Rightarrow> None | Some n \<Rightarrow> if n5_GlobalCellID n \<noteq> 0 then Some (n\<lparr>n5_ARFCN := arfcn\<rparr>) else None)"

lemma cell_tlv_safe:
  "opt_tlv ts 0x10 18 parse_geran \<noteq> None"
  "opt_tlv ts 0x11 15 parse_umts \<noteq> None"
  "with_tlv ts 0x17 4 parse_umts_cell u \<noteq> None"
  "opt_tlv ts 0x2E 4 (\<lambda>v. rd32 v 0) \<noteq> None"
  "opt_tlv ts 0x2F 20 parse_nr5g \<noteq> None"
  by (intro safe; simp)+

lemma cell_location_parts:
  obtains geran umts0 umts lte arfcn nr0 where
    "opt_tlv (pkt_TLVs p) 0x10 18 parse_geran = Some geran"
    "opt_tlv (pkt_TLVs p) 0x11 15 parse_umts = Some umts0"
    "parse_lte_location (pkt_TLVs p) = Some lte"
    "with_tlv (pkt_TLVs p) 0x17 4 parse_umts_cell umts0 = Some umts"
    "opt_tlv (pkt_TLVs p) 0x2F 20 parse_nr5g = Some nr0"
    "geran = None \<and> umts = None \<and> lte = None \<and> nr0 = None \<or>
     parseCellLocationInfoPacket p False = Some (Inr \<lparr>cl_GERAN = geran, cl_UMTS = umts, cl_LTE = lte,
       cl_NR5G = nr5g_location nr0 arfcn, cl_ObservedNR5GARFCN = arfcn\<rparr>)"
proof -
  obtain geran where g: "opt_tlv (pkt_TLVs p) 0x10 18 parse_geran = Some geran"
    using cell_tlv_safe(1) by blast
  obtain umts0 where u0: "opt_tlv (pkt_TLVs p) 0x11 15 parse_umts = Some umts0"
    using cell_tlv_safe(2) by blast
  obtain lte where l: "parse_lte_location (pkt_TLVs p) = Some lte"
    using parse_lte_location_safe by blast
  obtain umts where u: "with_tlv (pkt_TLVs p) 0x17 4 parse_umts_cell umts0 = Some umts"
    using cell_tlv_safe(3) by blast
  obtain arfcn where a: "opt_tlv (pkt_TLVs p) 0x2E 4 (\<lambda>v. rd32 v 0) = Some arfcn"
    using cell_tlv_safe(4) by blast
  obtain nr0 where n: "opt_tlv (pkt_TLVs p) 0x2F 20 parse_nr5g = Some nr0"
    using cell_tlv_safe(5) by blast
  have "geran = None \<and> umts = None \<and> lte = None \<and> nr0 = None \<or>
     parseCellLocationInfoPacket p False = Some (Inr \<lparr>cl_GERAN = geran, cl_UMTS = umts, cl_LTE = lte,
       cl_NR5G = nr5g_location nr0 arfcn, cl_ObservedNR5GARFCN = arfcn\<rparr>)"
    by (auto simp: parseCellLocationInfoPacket_def g u0 l u a n ok_def Let_def nr5g_location_def)
  with g u0 l u n show ?thesis by (rule that)
qed

lemma valid_plmn:
  assumes "network_code mcc mnc"
  shows "length (TrimSpace (digits mcc)) = 3" "length (TrimSpace (digits mnc)) \<in> {2, 3}"
    "decimalDigits (digits mcc)" "decimalDigits (digits mnc)" "TrimSpace (digits mcc) = digits mcc" "TrimSpace (digits mnc) = digits mnc"
proof -
  have "\<forall>d \<in> set mcc. d < 10" "mcc \<noteq> []" "\<forall>d \<in> set mnc. d < 10" "mnc \<noteq> []"
    using assms by (auto simp: network_code_def)
  then show "length (TrimSpace (digits mcc)) = 3" "length (TrimSpace (digits mnc)) \<in> {2, 3}"
    "decimalDigits (digits mcc)" "decimalDigits (digits mnc)" "TrimSpace (digits mcc) = digits mcc" "TrimSpace (digits mnc) = digits mnc"
    using digits_clean[of mcc] digits_clean[of mnc] assms
    by (auto simp: network_code_def digits_def)
qed

lemma serving_plmn_valid:
  assumes "network_code mcc mnc"
  shows
    "cl_NR5G i = Some n \<Longrightarrow> n5_MCC n = digits mcc \<Longrightarrow> n5_MNC n = digits mnc \<Longrightarrow> rat \<in> {0x0A, 0x0C} \<Longrightarrow>
       ServingPLMNFromCellLocation (Some i) rat = Inr (digits mcc, digits mnc)"
    "cl_LTE i = Some l \<Longrightarrow> lt_MCC l = digits mcc \<Longrightarrow> lt_MNC l = digits mnc \<Longrightarrow>
       ServingPLMNFromCellLocation (Some i) 0x08 = Inr (digits mcc, digits mnc)"
    "cl_UMTS i = Some u \<Longrightarrow> um_MCC u = digits mcc \<Longrightarrow> um_MNC u = digits mnc \<Longrightarrow> rat \<in> {0x05, 0x09} \<Longrightarrow>
       ServingPLMNFromCellLocation (Some i) rat = Inr (digits mcc, digits mnc)"
    "cl_GERAN i = Some g \<Longrightarrow> ge_MCC g = digits mcc \<Longrightarrow> ge_MNC g = digits mnc \<Longrightarrow>
       ServingPLMNFromCellLocation (Some i) 0x04 = Inr (digits mcc, digits mnc)"
  using valid_plmn[OF assms] by (auto simp: ServingPLMNFromCellLocation_def Let_def)

section \<open>Properties\<close>

text \<open>No packet makes the NAS service panic: every parser of a response or an indication returns a
  value or an error, whatever the packet carries.\<close>

theorem nas_never_panics:
  "parseServingSystemPacket p c \<noteq> None \<and> parse_signal_strength p \<noteq> None \<and> parseSysInfoResponse p \<noteq> None \<and>
   ParseSysInfoIndication p \<noteq> None \<and> parse_plmn_name p \<noteq> None \<and> parseSignalInfoPacket p \<noteq> None \<and>
   parseOperatorNamePacket p c \<noteq> None \<and> parseNetworkScanResults p \<noteq> None \<and> parseRFBandInfoResponse p \<noteq> None \<and>
   parseTechnologyPreferenceResponse p \<noteq> None \<and> parseSystemSelectionPreferenceResponse p \<noteq> None \<and>
   parseCellLocationInfoPacket p c \<noteq> None \<and> parseNetworkTimePacket p c \<noteq> None \<and>
   ParseNetworkTimeIndication q \<noteq> None \<and> ParseNetworkRejectIndication q \<noteq> None \<and>
   ParseIncrementalNetworkScanIndication q \<noteq> None \<and> parse_cphy_ca p \<noteq> None \<and> parse_txrx p \<noteq> None"
  unfolding parseServingSystemPacket_def parse_signal_strength_def parseSysInfoResponse_def ParseSysInfoIndication_def
    parseSysInfoPacket_def parse_plmn_name_def parseSignalInfoPacket_def parseOperatorNamePacket_def
    parseRFBandInfoResponse_def parseTechnologyPreferenceResponse_def parseSystemSelectionPreferenceResponse_def
    optional_sequence_def parseCellLocationInfoPacket_def ParseNetworkTimeIndication_def
    ParseNetworkRejectIndication_def ParseIncrementalNetworkScanIndication_def parse_cphy_ca_def parse_txrx_def
  by (intro conjI; intro safe; auto)

lemma cell_location_paths:
  assumes "parseCellLocationInfoPacket p False = Some (Inr info)"
  shows "ParseCellLocationInfoIndication (Some p) = Some (Inr info)"
    and "send NASGetCellLocationInfo [] m = (Inr p, m') \<Longrightarrow> GetCellLocationInfo send m =
      (case CheckResult p of None \<Rightarrow> Some (Inr info)
       | Some err \<Rightarrow> Some (Inl (errorf ''get cell location info failed'' (result_go_error err))), m')"
  using assms
  by (auto simp: ParseCellLocationInfoIndication_def GetCellLocationInfo_def parseCellLocationInfoResponse_def call_def check_def
      parseCellLocationInfoPacket_def split: option.splits)

text \<open>C31: The serving network is the one the cell location names, in an indication and in the answer to a request alike: whatever
  else the packet carries, a network code of two or three MNC digits in the TLV of the registered radio interface comes out with
  the same digits, leading zeros and the length of the MNC included. An answer must carry a successful
  result code; any other is refused with the error it carries. An NR cell counts only when it has an identity.\<close>

theorem serving_plmn_roundtrip:
  assumes "plmn_place rat = Some (t, off, n)" and "network_code mcc mnc"
    and "FindTLV (pkt_TLVs p) t = Some \<lparr>tlv_Type = t, tlv_Value = pre @ bcd_plmn mcc mnc @ post\<rparr>"
    and "length pre = off" and "n \<le> off + 3 + length post"
    and "t = 0x2F \<longrightarrow> Uint64 (go_slice 3 11 post) \<noteq> 0"
  shows "\<exists>info. ParseCellLocationInfoIndication (Some p) = Some (Inr info) \<and>
     (\<forall>send m m'. send NASGetCellLocationInfo [] m = (Inr p, m') \<longrightarrow> GetCellLocationInfo send m =
       (case CheckResult p of None \<Rightarrow> Some (Inr info)
        | Some err \<Rightarrow> Some (Inl (errorf ''get cell location info failed'' (result_go_error err))), m')) \<and>
     ServingPLMNFromCellLocation (Some info) rat = Inr (digits mcc, digits mnc)"
proof -
  let ?v = "pre @ bcd_plmn mcc mnc @ post"
  have l: "length (bcd_plmn mcc mnc) = 3" and dec: "decodeBCDPLMN (bcd_plmn mcc mnc) = Some (digits mcc, digits mnc)"
    using decode_bcd_plmn[OF assms(2)] by auto
  have slice: "decodeBCDPLMN (go_slice off (off + 3) ?v) = Some (digits mcc, digits mnc)"
    using l dec assms(4) by (simp add: go_slice_def)
  have v: "n \<le> length ?v" using assms(4,5) l by simp
  note found = opt_tlv_found[OF assms(3), unfolded TLV.simps, OF v] 
  consider "rat \<in> {0x0A, 0x0C}" "t = 0x2F" "off = 0" "n = 20" | "rat = 0x08" "t = 0x13" "off = 1" "n = 18"
    | "rat \<in> {0x05, 0x09}" "t = 0x11" "off = 2" "n = 15" | "rat = 0x04" "t = 0x10" "off = 4" "n = 18"
    using assms(1) by (auto simp: plmn_place_def split: if_splits)
  then have "\<exists>info. parseCellLocationInfoPacket p False = Some (Inr info) \<and>
     ServingPLMNFromCellLocation (Some info) rat = Inr (digits mcc, digits mnc)"
  proof cases
    case 1
    obtain x where x: "parse_nr5g ?v = Some x" using cell_safe(5)[of ?v] v 1 by auto
    have "go_slice 6 14 ?v = go_slice 3 11 post"
      using l 1 assms(4) go_slice_skip[of "bcd_plmn mcc mnc" 3 3 11 post] by simp
    with cell_plmn(4)[OF x] slice 1 assms(6) have "n5_MCC x = digits mcc" "n5_MNC x = digits mnc" "n5_GlobalCellID x \<noteq> 0"
      by auto
    with 1 x found[of parse_nr5g] serving_plmn_valid(1)[OF assms(2), of _ _ rat] show ?thesis
      by (cases rule: cell_location_parts[of p]) (auto simp: nr5g_location_def)
  next
    case 2
    obtain x where x: "parse_lte_serving ?v = Some x" using cell_safe(3)[of ?v] v 2 by auto
    with cell_plmn(3)[OF x] slice 2 have "lt_MCC x = digits mcc" "lt_MNC x = digits mnc" by auto
    with 2 x found[of parse_lte_serving] lte_location_plmn[of "pkt_TLVs p" x] serving_plmn_valid(2)[OF assms(2)]
    show ?thesis by (cases rule: cell_location_parts[of p]) fastforce
  next
    case 3
    obtain x where x: "parse_umts ?v = Some x" using cell_safe(2)[of ?v] v 3 by auto
    with cell_plmn(2)[OF x] slice 3 have "um_MCC x = digits mcc" "um_MNC x = digits mnc" by auto
    with 3 x found[of parse_umts] umts_location_plmn[of "pkt_TLVs p" x] serving_plmn_valid(3)[OF assms(2), of _ _ rat]
    show ?thesis by (cases rule: cell_location_parts[of p]) fastforce
  next
    case 4
    obtain x where x: "parse_geran ?v = Some x" using cell_safe(1)[of ?v] v 4 by auto
    with cell_plmn(1)[OF x] slice 4 have "ge_MCC x = digits mcc" "ge_MNC x = digits mnc" by auto
    with 4 x found[of parse_geran] serving_plmn_valid(4)[OF assms(2)]
    show ?thesis by (cases rule: cell_location_parts[of p]) fastforce
  qed
  then obtain info where info: "parseCellLocationInfoPacket p False = Some (Inr info)"
    "ServingPLMNFromCellLocation (Some info) rat = Inr (digits mcc, digits mnc)" by blast
  show ?thesis
  proof (intro exI conjI allI impI)
    show "ParseCellLocationInfoIndication (Some p) = Some (Inr info)" by (rule cell_location_paths(1)[OF info(1)])
  qed (rule cell_location_paths(2)[OF info(1)], assumption, rule info(2))
qed

definition cell_answer :: Packet where
  "cell_answer = \<lparr>pkt_ServiceType = 3, pkt_ClientID = 1, pkt_TransactionID = 7, pkt_MessageID = 0x43, pkt_IsIndication = False,
     pkt_TLVs = [\<lparr>tlv_Type = 0x02, tlv_Value = [0, 0, 0, 0]\<rparr>,
       \<lparr>tlv_Type = 0x13, tlv_Value = [1, 0x64, 0xF0, 0x10, 1, 2, 3, 4, 5, 6, 7, 8, 9, 10, 11, 12, 13, 14]\<rparr>]\<rparr>"

theorem serving_plmn_roundtrip_witness:
  "\<exists>info. GetCellLocationInfo (\<lambda>_ _ m. (Inr cell_answer, m)) (0 :: nat) = (Some (Inr info), 0) \<and>
     ServingPLMNFromCellLocation (Some info) 0x08 = Inr (''460'', ''01'')"
proof -
  have b: "bcd_plmn [4, 6, 0] [0, 1] = [0x64, 0xF0, 0x10]" and d: "digits [4, 6, 0] = ''460''" "digits [0, 1] = ''01''"
    by code_simp+
  have ok: "CheckResult cell_answer = None" by code_simp
  have "\<exists>info. ParseCellLocationInfoIndication (Some cell_answer) = Some (Inr info) \<and>
     (\<forall>send (m :: nat) m'. send NASGetCellLocationInfo [] m = (Inr cell_answer, m') \<longrightarrow> GetCellLocationInfo send m =
       (case CheckResult cell_answer of None \<Rightarrow> Some (Inr info)
        | Some err \<Rightarrow> Some (Inl (errorf ''get cell location info failed'' (result_go_error err))), m')) \<and>
     ServingPLMNFromCellLocation (Some info) 0x08 = Inr (digits [4, 6, 0], digits [0, 1])"
    by (rule serving_plmn_roundtrip[where t = "0x13" and off = 1 and n = 18 and pre = "[1]" and post = "[1, 2, 3, 4, 5, 6, 7, 8, 9, 10, 11, 12, 13, 14]"])
      (simp_all add: plmn_place_def network_code_def b cell_answer_def)
  then show ?thesis unfolding ok d by auto
qed

text \<open>Octets that are not binary-coded decimal are printed all the same: these are not the octets of a
  network code, but read as the three-digit MNC of another network.\<close>

theorem nonbcd_plmn_collides:
  "decodeBCDPLMN [0x04, 0xF4, 0xA1] = Some (''404'', ''110'') \<and>
   decodeBCDPLMN (bcd_plmn [4, 0, 4] [1, 1, 0]) = Some (''404'', ''110'')"
  by code_simp

text \<open>A sequence of band masks is read back as it was written, with whatever follows it.\<close>

theorem band_sequence_roundtrip:
  assumes "newTLVUint64Sequence t vs = Inr tlv"
  shows "parseUint64Sequence (tlv_Value tlv @ rest) (length vs) = Some (Inr vs)"
proof -
  have v: "tlv_Value tlv = concat (map PutUint64 vs)"
    using assms by (auto simp: newTLVUint64Sequence_def split: if_splits)
  have len: "length (concat (map PutUint64 vs)) = length vs * 8"
    by (induction vs) simp_all
  have rd: "rd64 (concat (map PutUint64 vs) @ rest) (i * 8) = Some (vs ! i)" if "i < length vs" for i
    using that
  proof (induction vs arbitrary: i)
    case (Cons x xs)
    show ?case
    proof (cases i)
      case 0
      show ?thesis unfolding 0 using Uint64_PutUint64[of x "[]"] by (simp add: rd64_def go_slice_def)
    next
      case (Suc j)
      then have "rd64 (concat (map PutUint64 xs) @ rest) (j * 8) = Some (xs ! j)" using Cons by simp
      then show ?thesis
        using rd64_append[of "PutUint64 x" 8 "concat (map PutUint64 xs) @ rest" "j * 8"] Suc by simp
    qed
  qed simp
  have "those (map (\<lambda>i. rd64 (concat (map PutUint64 vs) @ rest) (i * 8)) [0..<length vs]) = those (map (\<lambda>i. Some (vs ! i)) [0..<length vs])"
    by (intro arg_cong[where f = those] map_cong) (auto simp: rd)
  also have "\<dots> = Some vs"
    using those_map_Some[of "\<lambda>i. vs ! i" "[0..<length vs]"] by (simp add: map_nth)
  finally show ?thesis using len by (simp add: parseUint64Sequence_def v)
qed

end
