(* ===== verification/SimText.thy ===== *)
theory SimText
  imports GoParse
begin

text \<open>
  The text and record formats of card files, the decoders of \<^verbatim>\<open>src/pkg/qmi/uim.go\<close>: digits with swapped
  nibbles, provider names in the GSM alphabet and in UCS2, network name and operator list records, and
  the table of services. The GSM alphabet itself is that of a package outside the repository and a
  parameter. The decoders do not panic; septets and service bits are read as the reference says.
\<close>

section \<open>UTF-8 and UTF-16\<close>

definition utf8_encode :: "nat \<Rightarrow> byte list" where
  "utf8_encode r =
     (let r = (if 0xD800 \<le> r \<and> r \<le> 0xDFFF \<or> 0x10FFFF < r then 0xFFFD else r) in
      if r < 0x80 then [of_nat r]
      else if r < 0x800 then [of_nat (0xC0 + r div 64), of_nat (0x80 + r mod 64)]
      else if r < 0x10000 then [of_nat (0xE0 + r div 4096), of_nat (0x80 + r div 64 mod 64), of_nat (0x80 + r mod 64)]
      else [of_nat (0xF0 + r div 262144), of_nat (0x80 + r div 4096 mod 64), of_nat (0x80 + r div 64 mod 64),
            of_nat (0x80 + r mod 64)])"

text \<open>\<^verbatim>\<open>utf16.Decode\<close>: a pair of surrogates is one code point, a surrogate alone the replacement character.\<close>

fun utf16_Decode :: "nat list \<Rightarrow> nat list" where
  "utf16_Decode [] = []"
| "utf16_Decode [r] = [if 0xD800 \<le> r \<and> r < 0xE000 then 0xFFFD else r]"
| "utf16_Decode (r # s # rs) =
     (if r < 0xD800 \<or> 0xE000 \<le> r then r # utf16_Decode (s # rs)
      else if r < 0xDC00 \<and> 0xDC00 \<le> s \<and> s < 0xE000
        then (0x10000 + (r - 0xD800) * 1024 + (s - 0xDC00)) # utf16_Decode rs
      else 0xFFFD # utf16_Decode (s # rs))"

definition utf8_string :: "nat list \<Rightarrow> string" where
  "utf8_string rs = string_of_bytes (concat (map utf8_encode rs))"

section \<open>Digits\<close>

definition decodeSwappedBCD :: "byte list \<Rightarrow> string" where
  "decodeSwappedBCD data =
     concat (map (\<lambda>b.
       (if lo_nibble b \<le> 9 then [digit_char (unat (lo_nibble b))] else []) @
       (if hi_nibble b \<le> 9 then [digit_char (unat (hi_nibble b))] else [])) data)"

definition decodeUIMDigits :: "byte list \<Rightarrow> string" where
  "decodeUIMDigits data =
     (if length data = 0 then []
      else if list_all (\<lambda>b. 0x30 \<le> b \<and> b \<le> 0x39) data then string_of_bytes data
      else decodeSwappedBCD data)"

definition isPrintableASCII :: "byte list \<Rightarrow> bool" where
  "isPrintableASCII data = (if length data = 0 then False else list_all (\<lambda>b. \<not> (b < 0x20 \<or> b > 0x7E)) data)"

section \<open>Padding and hexadecimal\<close>

definition trimSPNPadding :: "byte list \<Rightarrow> byte list" where
  "trimSPNPadding data = rev (dropWhile (\<lambda>b. b = 0xFF \<or> b = 0x00) (rev data))"

definition hex_EncodeToString :: "byte list \<Rightarrow> string" where
  "hex_EncodeToString data = concat (map hex2 data)"

definition simRawHex :: "byte list \<Rightarrow> string" where
  "simRawHex raw =
     (let data = trimSPNPadding raw in if length data = 0 then [] else ToUpper (hex_EncodeToString data))"

definition simGIDHex :: "byte list \<Rightarrow> string" where
  "simGIDHex data = (if length data = 0 then [] else ToUpper (hex_EncodeToString data))"

section \<open>Names\<close>

text \<open>\<open>gsm7\<close> stands for \<^verbatim>\<open>gsm7.Decode\<close> of the package \<^verbatim>\<open>warthog618/sms\<close>: septets to bytes, or an error.\<close>

type_synonym gsm7 = "byte list \<Rightarrow> go_error + byte list"

definition decodeSPNGSM :: "gsm7 \<Rightarrow> byte list \<Rightarrow> go_error + string" where
  "decodeSPNGSM gsm7 data =
     bind_res (gsm7 data) (\<lambda>decoded.
       if \<not> utf8_valid decoded then Inl (ErrText ''GSM SPN decoded invalid UTF-8'')
       else Inr (string_of_bytes decoded))"

function strip_ffff :: "byte list \<Rightarrow> byte list" where
  "strip_ffff data =
     (if length data \<ge> 2 \<and> data ! (length data - 2) = 0xFF \<and> data ! (length data - 1) = 0xFF
      then strip_ffff (take (length data - 2) data) else data)"
  by pat_completeness auto
termination
  by (relation "measure length") auto

declare strip_ffff.simps [simp del]

text \<open>\<^verbatim>\<open>for i := 0; i < len(data); i += 2 { ... data[i:i+2] }\<close>\<close>

fun be16_units :: "byte list \<Rightarrow> nat list option" where
  "be16_units [] = Some []"
| "be16_units [a] = None"
| "be16_units (a # b # r) = map_option (Cons (256 * unat a + unat b)) (be16_units r)"

definition decodeSPNUCS2 :: "byte list \<Rightarrow> string parsed" where
  "decodeSPNUCS2 raw = do {
     even_data \<leftarrow> (if length raw mod 2 \<noteq> 0 then do {
                    b \<leftarrow> at raw (length raw - 1);
                    if b \<noteq> 0xFF then Some (Inl (ErrText (''UCS2 SPN odd length: '' @ decimal (length raw))))
                    else map_option Inr (sub raw 0 (length raw - 1))
                  } else Some (Inr raw));
     (case even_data of
        Inl e \<Rightarrow> Some (Inl e)
      | Inr d \<Rightarrow>
          let data = strip_ffff d in
          if length data = 0 then Some (Inl (ErrText ''UCS2 SPN empty''))
          else do { us \<leftarrow> be16_units data; ok (utf8_string (utf16_Decode us)) })
   }"

function compressed_runs :: "gsm7 \<Rightarrow> u16 \<Rightarrow> byte list \<Rightarrow> go_error + string" where
  "compressed_runs gsm7 base payload =
     (case payload of
        [] \<Rightarrow> Inr []
      | c # rest \<Rightarrow>
          if c < 0x80 then
            bind_res (decodeSPNGSM gsm7 (takeWhile (\<lambda>b. b < 0x80) payload)) (\<lambda>s.
            bind_res (compressed_runs gsm7 base (dropWhile (\<lambda>b. b < 0x80) payload)) (\<lambda>t. Inr (s @ t)))
          else
            bind_res (compressed_runs gsm7 base rest) (\<lambda>t.
              Inr (utf8_string [unat (base + ucast (c AND 0x7F))] @ t)))"
  by pat_completeness auto
termination
  by (relation "measure (\<lambda>(_, _, p). length p)") (auto simp: length_dropWhile_le le_imp_less_Suc)

declare compressed_runs.simps [simp del]

definition decodeSPNCompressedUCS2 :: "gsm7 \<Rightarrow> byte list \<Rightarrow> nat \<Rightarrow> string parsed" where
  "decodeSPNCompressedUCS2 gsm7 data baseBytes =
     (if length data < 2 + baseBytes then Some (Inl (ErrText ''compressed UCS2 SPN too short''))
      else do {
        count \<leftarrow> at data 1;
        all_payload \<leftarrow> tail_from data (2 + baseBytes);
        payload \<leftarrow> (if unat count < length all_payload then sub all_payload 0 (unat count) else Some all_payload);
        b0 \<leftarrow> at data 2;
        base \<leftarrow> (if baseBytes = 1 then Some (push_bit 7 (ucast b0))
                 else do { b1 \<leftarrow> at data 3; Some (push_bit 8 (ucast b0) OR ucast b1) });
        Some (compressed_runs gsm7 base payload)
      })"

definition decodeEFSPN :: "gsm7 \<Rightarrow> byte list \<Rightarrow> string parsed" where
  "decodeEFSPN gsm7 data =
     (if length data < 2 then Some (Inl (ErrText ''EF_SPN name empty''))
      else do {
        name \<leftarrow> tail_from data 1;
        b \<leftarrow> at name 0;
        try_parse
          (if b = 0x80 then do { r \<leftarrow> tail_from name 1; decodeSPNUCS2 r }
           else if b = 0x81 then decodeSPNCompressedUCS2 gsm7 name 1
           else if b = 0x82 then decodeSPNCompressedUCS2 gsm7 name 2
           else Some (decodeSPNGSM gsm7 (takeWhile (\<lambda>b. b \<noteq> 0xFF) name)))
          (\<lambda>decoded. if decoded = [] then Some (Inl (ErrText ''EF_SPN name empty'')) else ok decoded)
      })"

definition decodeSIMAlphaIdentifier :: "gsm7 \<Rightarrow> byte list \<Rightarrow> string parsed" where
  "decodeSIMAlphaIdentifier gsm7 raw =
     (let data = trimSPNPadding raw in
      if length data = 0 then Some (Inl (ErrText ''SIM alpha identifier empty''))
      else do {
        b \<leftarrow> at data 0;
        if b = 0x80 then do { r \<leftarrow> tail_from data 1; decodeSPNUCS2 r }
        else if b = 0x81 then decodeSPNCompressedUCS2 gsm7 data 1
        else if b = 0x82 then decodeSPNCompressedUCS2 gsm7 data 2
        else if isPrintableASCII data then ok (TrimSpace (string_of_bytes data))
        else Some (decodeSPNGSM gsm7 data)
      })"

text \<open>The inner loop of the unpacking: septets are taken off the low end of \<open>buf\<close>.\<close>

function drain :: "nat \<Rightarrow> nat \<Rightarrow> nat \<Rightarrow> byte list \<Rightarrow> nat \<times> nat \<times> byte list" where
  "drain septets buf bits unpacked =
     (if bits \<ge> 7 \<and> length unpacked < septets
      then drain septets (buf div 128) (bits - 7) (unpacked @ [of_nat (buf mod 128)])
      else (buf, bits, unpacked))"
  by pat_completeness auto
termination
  by (relation "measure (\<lambda>(_, _, bits, _). bits)") auto

declare drain.simps [simp del]

fun unpack_loop :: "nat \<Rightarrow> byte list \<Rightarrow> nat \<Rightarrow> nat \<Rightarrow> byte list \<Rightarrow> byte list" where
  "unpack_loop septets [] buf bits unpacked = unpacked"
| "unpack_loop septets (b # bs) buf bits unpacked =
     (case drain septets (buf OR push_bit bits (unat b)) (bits + 8) unpacked of
        (buf', bits', unpacked') \<Rightarrow> unpack_loop septets bs buf' bits' unpacked')"

definition decodePackedGSM7 :: "gsm7 \<Rightarrow> byte list \<Rightarrow> int \<Rightarrow> go_error + string" where
  "decodePackedGSM7 gsm7 data spare =
     (let spareBits = (if spare < 0 \<or> spare > 7 then 0 else spare);
          septets = (int (length data) * 8 - spareBits) div 7
      in if septets \<le> 0 then Inl (ErrText ''GSM7 payload empty'')
         else bind_res (decodeSPNGSM gsm7 (unpack_loop (nat septets) data 0 0 [])) (\<lambda>decoded.
           let name = TrimSpace (filter (\<lambda>c. c \<noteq> CHR 0x00) decoded) in
           if name = [] then Inl (ErrText ''GSM7 network name empty'') else Inr name))"

definition decodePNNNetworkName :: "gsm7 \<Rightarrow> byte list \<Rightarrow> string parsed" where
  "decodePNNNetworkName gsm7 raw =
     (let data = trimSPNPadding raw in
      if length data = 0 then Some (Inl (ErrText ''PNN network name empty''))
      else if length data \<ge> 2 then do {
        info \<leftarrow> at data 0;
        payload \<leftarrow> tail_from data 1;
        let coding = drop_bit 4 info AND 0x07
        in if coding = 0 then Some (decodePackedGSM7 gsm7 payload (uint (info AND 0x07)))
           else if coding = 1 then decodeSPNUCS2 payload
           else decodeSIMAlphaIdentifier gsm7 data
      }
      else decodeSIMAlphaIdentifier gsm7 data)"

section \<open>Records\<close>

record PNNRecord =
  pnn_Record :: nat
  pnn_FullName :: string
  pnn_ShortName :: string
  pnn_RawHex :: string

record OPLRecord =
  opl_Record :: nat
  opl_PLMN :: string
  opl_LACStart :: u16
  opl_LACEnd :: u16
  opl_PNNRecord :: nat
  opl_RawHex :: string

record SIMServiceTable =
  st_Kind :: string
  st_RawHex :: string
  st_EnabledServices :: "nat list"

definition name_or :: "string \<Rightarrow> string parsed \<Rightarrow> string option" where
  "name_or old r = do { x \<leftarrow> r; Some (case x of Inl _ \<Rightarrow> old | Inr name \<Rightarrow> name) }"

function pnn_fields :: "gsm7 \<Rightarrow> byte list \<Rightarrow> nat \<Rightarrow> PNNRecord \<Rightarrow> PNNRecord option" where
  "pnn_fields gsm7 data i out =
     (if i + 2 \<le> length data then do {
        tag \<leftarrow> at data i;
        len \<leftarrow> at data (i + 1);
        let n = (if i + 2 + unat len > length data then length data - (i + 2) else unat len)
        in do {
          value \<leftarrow> sub data (i + 2) (i + 2 + n);
          out' \<leftarrow> (if tag = 0x43 then do { f \<leftarrow> name_or (pnn_FullName out) (decodePNNNetworkName gsm7 value); Some (out\<lparr>pnn_FullName := f\<rparr>) }
                   else if tag = 0x45 then do { s \<leftarrow> name_or (pnn_ShortName out) (decodePNNNetworkName gsm7 value); Some (out\<lparr>pnn_ShortName := s\<rparr>) }
                   else Some out);
          pnn_fields gsm7 data (i + 2 + n) out'
        }
      } else Some out)"
  by pat_completeness auto
termination
  by (relation "measure (\<lambda>(_, data, i, _). length data - i)") auto

declare pnn_fields.simps [simp del]

text \<open>The second value of the pair of Go is whether there is a record.\<close>

definition decodePNNRecord :: "gsm7 \<Rightarrow> nat \<Rightarrow> byte list \<Rightarrow> PNNRecord option option" where
  "decodePNNRecord gsm7 record raw =
     (let data = trimSPNPadding raw in
      if length data = 0 then Some None
      else do {
        out \<leftarrow> pnn_fields gsm7 data 0 \<lparr>pnn_Record = record, pnn_FullName = [], pnn_ShortName = [], pnn_RawHex = simRawHex raw\<rparr>;
        Some (if pnn_FullName out \<noteq> [] \<or> pnn_ShortName out \<noteq> [] \<or> pnn_RawHex out \<noteq> [] then Some out else None)
      })"

fun opl_digits :: "byte list \<Rightarrow> string option" where
  "opl_digits [] = Some []"
| "opl_digits (n # ns) =
     (if n = 0x0F then map_option (Cons (CHR ''x'')) (opl_digits ns)
      else if n > 9 then None
      else map_option (Cons (digit_char (unat n))) (opl_digits ns))"

definition decodeOPLPLMN :: "byte list \<Rightarrow> string option" where
  "decodeOPLPLMN data =
     (if length data < 3 then Some []
      else do {
        a \<leftarrow> at data 0; b \<leftarrow> at data 1; c \<leftarrow> at data 2;
        Some (case opl_digits [lo_nibble a, drop_bit 4 a, lo_nibble b, lo_nibble c, drop_bit 4 c, drop_bit 4 b] of
                None \<Rightarrow> []
              | Some s \<Rightarrow> rev (dropWhile (\<lambda>x. x = CHR ''x'') (rev s)))
      })"

definition be16_at :: "byte list \<Rightarrow> nat \<Rightarrow> u16 option" where
  "be16_at v i = do { a \<leftarrow> at v i; b \<leftarrow> at v (i + 1); Some (push_bit 8 (ucast a) OR ucast b) }"

definition decodeOPLRecord :: "nat \<Rightarrow> byte list \<Rightarrow> OPLRecord option option" where
  "decodeOPLRecord record raw =
     (let data = trimSPNPadding raw in
      if length data < 8 then Some None
      else do {
        p \<leftarrow> sub data 0 3; plmn \<leftarrow> decodeOPLPLMN p;
        start \<leftarrow> be16_at data 3; end' \<leftarrow> be16_at data 5; pnn \<leftarrow> at data 7;
        Some (if plmn \<noteq> [] \<or> simRawHex raw \<noteq> []
          then Some \<lparr>opl_Record = record, opl_PLMN = plmn, opl_LACStart = start, opl_LACEnd = end',
            opl_PNNRecord = unat pnn, opl_RawHex = simRawHex raw\<rparr>
          else None)
      })"

definition decodeSIMServiceTable :: "string \<Rightarrow> byte list \<Rightarrow> SIMServiceTable option" where
  "decodeSIMServiceTable kind raw =
     (let data = trimSPNPadding raw in
      if length data = 0 then None
      else Some \<lparr>st_Kind = kind, st_RawHex = simRawHex raw,
        st_EnabledServices = concat (map (\<lambda>i. concat (map (\<lambda>k.
          if data ! i AND push_bit k 1 \<noteq> 0 then [i * 8 + k + 1] else []) [0..<8])) [0..<length data])\<rparr>)"

section \<open>Decoders do not panic\<close>

lemma strip_ffff_even: "even (length d) \<Longrightarrow> even (length (strip_ffff d))"
proof (induction d rule: strip_ffff.induct)
  case (1 d)
  show ?case
  proof (cases "length d \<ge> 2 \<and> d ! (length d - 2) = 0xFF \<and> d ! (length d - 1) = 0xFF")
    case True
    with 1 show ?thesis by (simp add: strip_ffff.simps[of d])
  qed (use 1 in \<open>auto simp: strip_ffff.simps[of d]\<close>)
qed

lemma be16_units_safe: "even (length d) \<Longrightarrow> be16_units d \<noteq> None"
  by (induction d rule: be16_units.induct) auto

lemma decodeSPNUCS2_safe [safe]: "decodeSPNUCS2 raw \<noteq> None"
  unfolding decodeSPNUCS2_def
  by (intro safe be16_units_safe)
    (auto simp: sub_def map_option_case even_iff_mod_2_eq_zero[symmetric] bind_eq_Some_conv
      intro!: strip_ffff_even dest: odd_pos split: if_splits)

lemma compressed_safe [safe]: "baseBytes \<in> {1, 2} \<Longrightarrow> decodeSPNCompressedUCS2 gsm7 data baseBytes \<noteq> None"
  unfolding decodeSPNCompressedUCS2_def by (intro safe) auto

lemma decodeEFSPN_safe [safe]: "decodeEFSPN gsm7 data \<noteq> None"
  unfolding decodeEFSPN_def by (intro safe) (auto dest: lengths)

lemma alpha_safe [safe]: "decodeSIMAlphaIdentifier gsm7 data \<noteq> None"
  unfolding decodeSIMAlphaIdentifier_def by (intro safe) (auto simp: Suc_le_eq)

lemma decodePNNNetworkName_safe [safe]: "decodePNNNetworkName gsm7 data \<noteq> None"
  unfolding decodePNNNetworkName_def by (intro safe) auto

lemma name_or_safe [safe]: "r \<noteq> None \<Longrightarrow> name_or old r \<noteq> None"
  unfolding name_or_def by (intro safe)

lemma pnn_fields_safe [safe]: "pnn_fields gsm7 data i out \<noteq> None"
proof (induction "length data - i" arbitrary: i out rule: less_induct)
  case less
  show ?case
    by (subst pnn_fields.simps, intro safe less) auto
qed

lemma decodePNNRecord_safe [safe]: "decodePNNRecord gsm7 n data \<noteq> None"
  unfolding decodePNNRecord_def by (intro safe)

lemma be16_at_safe [safe]: "i + 2 \<le> length v \<Longrightarrow> be16_at v i \<noteq> None"
  unfolding be16_at_def by (intro safe) auto

lemma decodeOPL_safe [safe]: "decodeOPLPLMN p \<noteq> None" "decodeOPLRecord n data \<noteq> None"
proof -
  show p: "decodeOPLPLMN p \<noteq> None" for p
    unfolding decodeOPLPLMN_def by (intro safe) auto
  show "decodeOPLRecord n data \<noteq> None"
    unfolding decodeOPLRecord_def by (intro safe p) auto
qed

section \<open>Septets\<close>

text \<open>The bytes as one number, the first one lowest, and the septets of a number.\<close>

fun le_value :: "byte list \<Rightarrow> nat" where
  "le_value [] = 0"
| "le_value (b # bs) = unat b + 256 * le_value bs"

definition septet :: "nat \<Rightarrow> nat \<Rightarrow> byte" where
  "septet w k = of_nat (w div 128 ^ k mod 128)"

lemma numeral_pow_128: "(2 :: nat) ^ 7 = 128"
  by simp

lemma septet_div: "septet (w div 128 ^ m) k = septet w (m + k)"
  by (simp add: septet_def div_mult2_eq power_add)

lemma septets_split:
  "m \<le> n \<Longrightarrow> map (septet w) [0..<n] = map (septet w) [0..<m] @ map (septet (w div 128 ^ m)) [0..<n - m]"
  by (rule nth_equalityI) (auto simp: nth_append septet_div)

lemma or_push_bit: "buf < 2 ^ bits \<Longrightarrow> buf OR push_bit bits b = buf + push_bit bits (b :: nat)"
proof (rule disjunctive_add_eq_or[symmetric])
  assume "buf < 2 ^ bits"
  then have "take_bit bits buf = buf" by (simp add: take_bit_nat_eq_self)
  then have "\<not> bit buf n" if "bits \<le> n" for n using that by (metis bit_take_bit_iff not_le)
  then show "buf AND push_bit bits b = 0" by (intro bit_eqI) (auto simp: bit_and_iff bit_push_bit_iff)
qed

lemma div_high: "7 * m \<le> c \<Longrightarrow> (x + 2 ^ c * y) div 128 ^ m = x div 128 ^ m + 2 ^ (c - 7 * m) * (y :: nat)"
proof -
  assume "7 * m \<le> c"
  then have "(2 :: nat) ^ c = 128 ^ m * 2 ^ (c - 7 * m)"
    by (metis le_add_diff_inverse power_add power_mult numeral_pow_128)
  then show ?thesis by (simp add: mult.assoc)
qed

lemma power_split: "7 * m \<le> c \<Longrightarrow> (2 :: nat) ^ c = 2 ^ (c - 7 * m) * 128 ^ m"
  by (metis le_add_diff_inverse mult.commute power_add power_mult numeral_pow_128)

lemma septet_low: "7 * Suc k \<le> c \<Longrightarrow> septet (x + 2 ^ c * y) k = septet x k"
proof -
  assume c: "7 * Suc k \<le> c"
  then have "(2 :: nat) ^ (c - 7 * k) = 128 * 2 ^ (c - 7 * Suc k)"
    by (subst numeral_pow_128[symmetric], subst power_add[symmetric]) simp
  then show ?thesis using c by (simp add: septet_def div_high mult.assoc)
qed

lemma drain_eq:
  "drain n buf bits unpacked =
     (let m = min (bits div 7) (n - length unpacked) in
      (buf div 128 ^ m, bits - 7 * m, unpacked @ map (septet buf) [0..<m]))"
proof (induction n buf bits unpacked rule: drain.induct)
  case (1 n buf bits unpacked)
  show ?case
  proof (cases "bits \<ge> 7 \<and> length unpacked < n")
    case True
    let ?m = "min (bits div 7) (n - length unpacked)"
    have "bits div 7 = Suc ((bits - 7) div 7)" using True by (simp add: le_div_geq)
    then have m: "?m = Suc (min ((bits - 7) div 7) (n - Suc (length unpacked)))" using True Suc_diff_Suc[of "length unpacked" n] by (auto simp: min_def)
    show ?thesis
      using True 1 septets_split[of 1 ?m buf]
      by (subst drain.simps) (simp add: m Let_def septet_def div_mult2_eq)
  next
    case False
    then have "min (bits div 7) (n - length unpacked) = 0" by auto
    with False show ?thesis by (auto simp: drain.simps[of n buf bits unpacked] Let_def)
  qed
qed

lemma unpack_loop_eq:
  assumes "buf < 2 ^ bits" "length unpacked \<le> n" "7 * (n - length unpacked) \<le> bits + 8 * length bs"
    "bits < 7 \<or> length unpacked = n"
  shows "unpack_loop n bs buf bits unpacked =
    unpacked @ map (septet (buf + 2 ^ bits * le_value bs)) [0..<n - length unpacked]"
  using assms
proof (induction bs arbitrary: buf bits unpacked)
  case Nil
  then have "n - length unpacked = 0" by auto
  then show ?case by simp
next
  case (Cons b bs)
  let ?buf = "buf + 2 ^ bits * unat b"
  let ?w = "buf + 2 ^ bits * le_value (b # bs)"
  obtain m where meq: "m = min ((bits + 8) div 7) (n - length unpacked)" by simp
  have m: "7 * m \<le> bits + 8" and le: "m \<le> n - length unpacked"
    and full: "bits + 8 - 7 * m < 7 \<or> length unpacked + m = n"
    using Cons.prems(2) meq by (auto simp: min_def)
  have w: "?w = ?buf + 2 ^ (bits + 8) * le_value bs" by (simp add: algebra_simps power_add)
  have "?buf < 2 ^ bits * (1 + unat b)" using Cons.prems(1) by (simp add: algebra_simps)
  also have "\<dots> \<le> 2 ^ bits * 256" by (rule mult_le_mono2) (use unat_byte_less[of b] in linarith)
  finally have "?buf < 2 ^ (bits + 8)" by (simp add: power_add)
  then have 1: "?buf div 128 ^ m < 2 ^ (bits + 8 - 7 * m)"
    unfolding power_split[OF m] by (rule less_mult_imp_div_less)
  let ?un = "unpacked @ map (septet ?buf) [0..<m]"
  have l: "length ?un = length unpacked + m" by simp
  have 2: "7 * (n - length ?un) \<le> bits + 8 - 7 * m + 8 * length bs"
    using Cons.prems(3) m le unfolding l by simp
  have "unpack_loop n (b # bs) buf bits unpacked = unpack_loop n bs (?buf div 128 ^ m) (bits + 8 - 7 * m) ?un"
    using or_push_bit[OF Cons.prems(1), of "unat b"] by (simp add: push_bit_eq_mult mult.commute drain_eq Let_def meq)
  also have "\<dots> = ?un @ map (septet (?buf div 128 ^ m + 2 ^ (bits + 8 - 7 * m) * le_value bs)) [0..<n - length ?un]"
    by (rule Cons.IH[OF 1 _ 2]) (use le Cons.prems(2) full in \<open>auto simp only: l\<close>)
  also have "map (septet ?buf) [0..<m] = map (septet ?w) [0..<m]"
    unfolding w using m by (intro map_cong) (auto intro!: septet_low[symmetric])
  also have "?buf div 128 ^ m + 2 ^ (bits + 8 - 7 * m) * le_value bs = ?w div 128 ^ m"
    unfolding w by (rule div_high[OF m, symmetric])
  finally show ?case using septets_split[OF le, of ?w] by simp
qed

lemma unpack_septets:
  assumes "7 * n \<le> 8 * length data"
  shows "unpack_loop n data 0 0 [] = map (septet (le_value data)) [0..<n]"
  using unpack_loop_eq[of 0 0 "[]" n data] assms by simp

section \<open>Swapped digits\<close>

fun swapped_bcd :: "nat list \<Rightarrow> byte list" where
  "swapped_bcd [] = []"
| "swapped_bcd [a] = [of_nat (a + 16 * 15)]"
| "swapped_bcd (a # b # ds) = of_nat (a + 16 * b) # swapped_bcd ds"

lemma nibble_value_le [simp]: "d < 16 \<Longrightarrow> (of_nat d :: byte) \<le> 9 \<longleftrightarrow> d \<le> 9"
  by (simp add: word_le_nat_alt)

lemma decodeSwappedBCD_swapped:
  assumes "\<forall>d \<in> set ds. d < 10"
  shows "decodeSwappedBCD (swapped_bcd ds) = digits ds"
  using assms
proof (induction ds rule: swapped_bcd.induct)
  case (2 a)
  then show ?case using nibbles[of a 15] by (simp add: decodeSwappedBCD_def digits_def)
next
  case (3 a b ds)
  then show ?case using nibbles[of a b] by (simp add: decodeSwappedBCD_def digits_def)
qed (simp add: decodeSwappedBCD_def digits_def)

section \<open>The service table\<close>

lemma and_bit_nonzero: "(b :: byte) AND push_bit k 1 \<noteq> 0 \<longleftrightarrow> bit b k"
  by (simp add: and_exp_eq_0_iff_not_bit push_bit_eq_mult)

lemma trimSPNPadding_prefix: "\<exists>pad. raw = trimSPNPadding raw @ pad \<and> (\<forall>b \<in> set pad. b = 0xFF \<or> b = 0x00)"
proof -
  let ?P = "\<lambda>b. b = 0xFF \<or> b = (0x00 :: byte)"
  have "raw = rev (takeWhile ?P (rev raw) @ dropWhile ?P (rev raw))" by simp
  then have "raw = trimSPNPadding raw @ rev (takeWhile ?P (rev raw))"
    unfolding trimSPNPadding_def rev_append .
  then show ?thesis by (intro exI[of _ "rev (takeWhile ?P (rev raw))"]) (auto dest: set_takeWhileD)
qed

lemma trimSPNPadding_nth: "i < length (trimSPNPadding raw) \<Longrightarrow> trimSPNPadding raw ! i = raw ! i"
  by (metis nth_append trimSPNPadding_prefix)

lemma trimSPNPadding_id: "raw \<noteq> [] \<Longrightarrow> last raw \<notin> {0xFF, 0x00} \<Longrightarrow> trimSPNPadding raw = raw"
  by (cases raw rule: rev_cases) (auto simp: trimSPNPadding_def)

definition table_services :: "byte list \<Rightarrow> nat list" where
  "table_services data = filter (\<lambda>n. bit (data ! ((n - 1) div 8)) ((n - 1) mod 8)) [1..<8 * length data + 1]"

lemma bits_of_byte:
  "concat (map (\<lambda>k. if bit (b :: byte) k then [i * 8 + k + 1] else []) [0..<8]) =
   filter (\<lambda>n. bit b ((n - 1) mod 8)) [i * 8 + 1..<i * 8 + 9]"
proof -
  have u: "[i * 8 + 1..<i * 8 + 9] = map (\<lambda>k. i * 8 + k + 1) [0..<8]"
    by (rule nth_equalityI) (auto simp: nth_append)
  have f: "concat (map (\<lambda>k. if P k then [f k] else []) ks) = map f (filter P ks)" for P f and ks :: "nat list"
    by (induction ks) auto
  have "((i * 8 + k + 1) - 1) mod 8 = k" if "k \<in> set [0..<8]" for k using that by simp
  then show ?thesis unfolding u f filter_map comp_def by (intro arg_cong[where f = "map _"] filter_cong) auto
qed

lemma services_of_bytes:
  "concat (map (\<lambda>i. concat (map (\<lambda>k. if data ! i AND push_bit k 1 \<noteq> 0 then [i * 8 + k + 1] else []) [0..<8])) [0..<length data]) =
   table_services data"
  unfolding and_bit_nonzero
proof (induction data rule: rev_induct)
  case (snoc b data)
  let ?n = "length data"
  have "concat (map (\<lambda>i. concat (map (\<lambda>k. if bit ((data @ [b]) ! i) k then [i * 8 + k + 1] else []) [0..<8])) [0..<?n]) =
      table_services data"
    unfolding snoc.IH[symmetric] by (intro arg_cong[where f = concat] map_cong) (auto simp: nth_append)
  moreover have "table_services (data @ [b]) =
      table_services data @ filter (\<lambda>n. bit b ((n - 1) mod 8)) [?n * 8 + 1..<?n * 8 + 9]"
  proof -
    have "[1..<8 * length (data @ [b]) + 1] = [1..<8 * ?n + 1] @ [?n * 8 + 1..<?n * 8 + 9]"
      using upt_add_eq_append[of 1 "8 * ?n + 1" 8] by (simp add: algebra_simps)
    moreover have "filter (\<lambda>n. bit ((data @ [b]) ! ((n - 1) div 8)) ((n - 1) mod 8)) [1..<8 * ?n + 1] = table_services data"
      unfolding table_services_def by (rule filter_cong) (auto simp: nth_append)
    moreover have "filter (\<lambda>n. bit ((data @ [b]) ! ((n - 1) div 8)) ((n - 1) mod 8)) [?n * 8 + 1..<?n * 8 + 9] =
        filter (\<lambda>n. bit b ((n - 1) mod 8)) [?n * 8 + 1..<?n * 8 + 9]"
    proof (rule filter_cong[OF refl])
      fix n assume "n \<in> set [?n * 8 + 1..<?n * 8 + 9]"
      then have "(n - 1) div 8 = ?n" by auto
      then show "bit ((data @ [b]) ! ((n - 1) div 8)) ((n - 1) mod 8) = bit b ((n - 1) mod 8)" by simp
    qed
    ultimately show ?thesis unfolding table_services_def[of "data @ [b]"] by (simp del: upt_Suc)
  qed
  ultimately show ?case using bits_of_byte[of b ?n] by simp
qed (simp add: table_services_def)

section \<open>Properties\<close>

text \<open>The name in a packed field, from the number the bytes make.\<close>

definition gsm7_name_reference :: "gsm7 \<Rightarrow> byte list \<Rightarrow> nat \<Rightarrow> go_error + string" where
  "gsm7_name_reference gsm7 data spare =
     (let n = (8 * length data - spare) div 7 in
      if n = 0 then Inl (ErrText ''GSM7 payload empty'')
      else bind_res (decodeSPNGSM gsm7 (map (septet (le_value data)) [0..<n])) (\<lambda>decoded.
        let name = TrimSpace (filter (\<lambda>c. c \<noteq> CHR 0x00) decoded) in
        if name = [] then Inl (ErrText ''GSM7 network name empty'') else Inr name))"

text \<open>C30: The unpacking of a network name takes the bytes as one number, lowest byte first, and cuts it
  into septets from the low end: the loop with its shifting buffer yields exactly these, as many as
  there is room for without the spare bits.\<close>

theorem decodePackedGSM7_reference:
  "decodePackedGSM7 gsm7 data spare =
     gsm7_name_reference gsm7 data (if spare < 0 \<or> spare > 7 then 0 else nat spare)"
proof -
  define s where "s = (if spare < 0 \<or> spare > 7 then 0 else nat spare)"
  define n where "n = (8 * length data - s) div 7"
  have s: "(if spare < 0 \<or> spare > 7 then 0 else spare) = int s" "s \<le> 7" by (auto simp: s_def)
  have "7 * n \<le> 8 * length data" unfolding n_def by linarith
  then have u: "unpack_loop n data 0 0 [] = map (septet (le_value data)) [0..<n]" by (rule unpack_septets)
  have n: "nat ((int (length data) * 8 - int s) div 7) = n"
    unfolding n_def using s(2) by (cases "data = []") (auto simp: nat_div_distrib nat_diff_distrib mult.commute)
  have z: "(int (length data) * 8 - int s) div 7 \<le> 0 \<longleftrightarrow> n = 0" unfolding n[symmetric] by simp
  show ?thesis
    unfolding s_def[symmetric] decodePackedGSM7_def gsm7_name_reference_def s Let_def z n u n_def[symmetric] ..
qed

text \<open>C2: The services of a table are the bits that are set in it, in order, the lowest bit of the
  first byte being service 1, up to the last byte that is neither \<^verbatim>\<open>00\<close> nor \<^verbatim>\<open>FF\<close>.\<close>

theorem decodeSIMServiceTable_bits:
  "decodeSIMServiceTable kind raw =
     (if trimSPNPadding raw = [] then None
      else Some \<lparr>st_Kind = kind, st_RawHex = simRawHex raw, st_EnabledServices = table_services (trimSPNPadding raw)\<rparr>)"
  unfolding decodeSIMServiceTable_def Let_def services_of_bytes by simp

text \<open>What the trimming takes for padding can be content. A byte of eight enabled services at the end of
  a service table is dropped, and with it the services; a network name in UCS2 that ends in a character
  with a low byte \<^verbatim>\<open>00\<close> is refused, though the decoder of the characters itself reads it; an operator
  list record that refers to no name record, number 0, is dropped.\<close>

theorem trimming_takes_content:
  "map_option st_EnabledServices (decodeSIMServiceTable ''UST'' [0x02, 0xFF]) = Some [2] \<and>
   decodePNNNetworkName gsm7 [0x90, 0x4E, 0x00] = Some (Inl (ErrText ''UCS2 SPN odd length: 1'')) \<and>
   decodeSPNUCS2 [0x4E, 0x00] = Some (Inr (map char_of [0xE4, 0xB8, 0x80 :: nat])) \<and>
   decodeOPLRecord 1 [0x64, 0xF0, 0x00, 0x00, 0x00, 0xFF, 0xFE, 0x00] = Some None"
proof (intro conjI)
  show "map_option st_EnabledServices (decodeSIMServiceTable ''UST'' [0x02, 0xFF]) = Some [2]"
    by code_simp
  have "trimSPNPadding [0x90, 0x4E, 0x00] = [0x90, 0x4E]" by code_simp
  moreover have "drop_bit 4 (0x90 :: byte) AND 0x07 = 1" by code_simp
  moreover have "decimal 1 = ''1''" by code_simp
  ultimately show "decodePNNNetworkName gsm7 [0x90, 0x4E, 0x00] = Some (Inl (ErrText ''UCS2 SPN odd length: 1''))"
    by (simp add: decodePNNNetworkName_def decodeSPNUCS2_def)
  show "decodeSPNUCS2 [0x4E, 0x00] = Some (Inr (map char_of [0xE4, 0xB8, 0x80 :: nat]))"
    by (simp add: decodeSPNUCS2_def strip_ffff.simps utf8_string_def utf8_encode_def string_of_bytes_def ok_def)
  show "decodeOPLRecord 1 [0x64, 0xF0, 0x00, 0x00, 0x00, 0xFF, 0xFE, 0x00] = Some None"
    by (simp add: decodeOPLRecord_def trimSPNPadding_def)
qed

end
