(* ===== verification/Uim.thy ===== *)
theory Uim
  imports SimText Nas
begin

text \<open>
  The UIM service, \<^verbatim>\<open>src/pkg/qmi/uim.go\<close>: card status, applications, PIN codes, logical channels, slots, refresh,
  the files of the card and the home network. The parsers first, then the methods; a method that reads a
  file at several paths, or record by record, is a sequence of requests on the state of the modem.
\<close>

section \<open>Constants\<close>

abbreviation (input) UIMReset :: u16 where "UIMReset \<equiv> 0x0000"
abbreviation (input) UIMGetSupportedMessages :: u16 where "UIMGetSupportedMessages \<equiv> 0x001E"
abbreviation (input) UIMReadTransparent :: u16 where "UIMReadTransparent \<equiv> 0x0020"
abbreviation (input) UIMReadRecord :: u16 where "UIMReadRecord \<equiv> 0x0021"
abbreviation (input) UIMGetFileAttrs :: u16 where "UIMGetFileAttrs \<equiv> 0x0024"
abbreviation (input) UIMSetPINProtection :: u16 where "UIMSetPINProtection \<equiv> 0x0025"
abbreviation (input) UIMVerifyPIN :: u16 where "UIMVerifyPIN \<equiv> 0x0026"
abbreviation (input) UIMUnblockPIN :: u16 where "UIMUnblockPIN \<equiv> 0x0027"
abbreviation (input) UIMChangePIN :: u16 where "UIMChangePIN \<equiv> 0x0028"
abbreviation (input) UIMRefreshRegister :: u16 where "UIMRefreshRegister \<equiv> 0x002A"
abbreviation (input) UIMRefreshComplete :: u16 where "UIMRefreshComplete \<equiv> 0x002C"
abbreviation (input) UIMRegisterEvents :: u16 where "UIMRegisterEvents \<equiv> 0x002E"
abbreviation (input) UIMGetCardStatus :: u16 where "UIMGetCardStatus \<equiv> 0x002F"
abbreviation (input) UIMPowerOffSIM :: u16 where "UIMPowerOffSIM \<equiv> 0x0030"
abbreviation (input) UIMPowerOnSIM :: u16 where "UIMPowerOnSIM \<equiv> 0x0031"
abbreviation (input) UIMChangeProvisioningSession :: u16 where "UIMChangeProvisioningSession \<equiv> 0x0038"
abbreviation (input) UIMSendAPDU :: u16 where "UIMSendAPDU \<equiv> 0x003B"
abbreviation (input) UIMCloseLogicalChannel :: u16 where "UIMCloseLogicalChannel \<equiv> 0x003F"
abbreviation (input) UIMOpenLogicalChannel :: u16 where "UIMOpenLogicalChannel \<equiv> 0x0042"
abbreviation (input) UIMRefreshRegisterAll :: u16 where "UIMRefreshRegisterAll \<equiv> 0x0044"
abbreviation (input) UIMSwitchSlot :: u16 where "UIMSwitchSlot \<equiv> 0x0046"
abbreviation (input) UIMGetSlotStatus :: u16 where "UIMGetSlotStatus \<equiv> 0x0047"
abbreviation (input) UIMSessionTypePrimaryGWProvisioning :: u8 where "UIMSessionTypePrimaryGWProvisioning \<equiv> 0"
abbreviation (input) UIMAppTypeUSIM :: u8 where "UIMAppTypeUSIM \<equiv> 2"
abbreviation (input) UIMAppTypeISIM :: u8 where "UIMAppTypeISIM \<equiv> 5"

definition uimUSIMAIDPrefix :: "byte list" where
  "uimUSIMAIDPrefix = [0xA0, 0x00, 0x00, 0x00, 0x87, 0x10, 0x02]"

definition uimISIMAIDPrefix :: "byte list" where
  "uimISIMAIDPrefix = [0xA0, 0x00, 0x00, 0x00, 0x87, 0x10, 0x04]"

section \<open>Data\<close>

datatype SIMStatus = SIMAbsent | SIMNotReady | SIMReady | SIMPINRequired | SIMPUKRequired | SIMBlocked | SIMNetworkLocked

record QMIUIM_PIN_STATE =
  up_UnivPIN :: u8
  up_PIN1State :: u8
  up_PIN1Retries :: u8
  up_PUK1Retries :: u8
  up_PIN2State :: u8
  up_PIN2Retries :: u8
  up_PUK2Retries :: u8

record uimCardStatusApp =
  ua_appType :: u8
  ua_appState :: u8
  ua_persoState :: u8
  ua_persoFeature :: u8
  ua_persoRetries :: u8
  ua_persoUnblockRetries :: u8
  ua_aid :: "byte list"
  ua_pin :: QMIUIM_PIN_STATE

text \<open>The fields of the chosen application are kept as its record; without one they are zero.\<close>

record CardStatusDetails =
  cd_CardState :: u8
  cd_ErrorCode :: u8
  cd_NumSlot :: u8
  cd_NumApp :: u8
  cd_App :: uimCardStatusApp
  cd_UsesUPIN :: bool
  cd_UPINState :: u8
  cd_UPINRetries :: u8
  cd_UPUKRetries :: u8

record UIMApplication =
  up_Type :: u8
  up_State :: u8
  up_AID :: "byte list"

type_synonym UIMCardResult = "u8 \<times> u8"
type_synonym UIMSecurityAttributes = "u8 \<times> u16"

record UIMRecordData =
  rd_CardResult :: "UIMCardResult option"
  rd_Data :: "byte list"
  rd_AdditionalData :: "byte list"
  rd_ResponseInIndicationToken :: "u32 option"

record UIMFileAttributes =
  fa_CardResult :: "UIMCardResult option"
  fa_FileSize :: u16
  fa_FileID :: u16
  fa_FileType :: u8
  fa_RecordSize :: u16
  fa_RecordCount :: u16
  fa_ReadSecurity :: UIMSecurityAttributes
  fa_WriteSecurity :: UIMSecurityAttributes
  fa_IncreaseSecurity :: UIMSecurityAttributes
  fa_DeactivateSecurity :: UIMSecurityAttributes
  fa_ActivateSecurity :: UIMSecurityAttributes
  fa_RawData :: "byte list"
  fa_ResponseInIndicationToken :: "u32 option"

record UIMSlotStatusSlot =
  sl_PhysicalCardStatus :: u32
  sl_PhysicalSlotStatus :: u32
  sl_LogicalSlot :: u8
  sl_ICCIDRaw :: "byte list"
  sl_ICCID :: string
  sl_CardProtocol :: u32
  sl_ValidApplications :: u8
  sl_ATR :: "byte list"
  sl_HasExtendedInfo :: bool
  sl_IsEUICC :: bool
  sl_EID :: "byte list"
  sl_HasEID :: bool

record UIMRefreshFile =
  rf_FileID :: u16
  rf_Path :: "u8 list"

record SIMMetadata =
  sm_NativeMCC :: string
  sm_NativeMNC :: string
  sm_GID1 :: string
  sm_GID2 :: string
  sm_PNN :: "PNNRecord list"
  sm_OPL :: "OPLRecord list"
  sm_ServiceTable :: "SIMServiceTable option"

record UIMChangeProvisioningSessionRequest =
  cp_SessionType :: u8
  cp_Activate :: bool
  cp_Slot :: "u8 option"
  cp_ApplicationIdentifier :: "byte list"

record UIMRefreshRegisterRequest =
  rq_SessionType :: u8
  rq_ApplicationIdentifier :: "byte list"
  rq_RegisterFlag :: bool
  rq_VoteForInit :: bool
  rq_Files :: "UIMRefreshFile list"

record UIMRefreshCompleteRequest =
  rc_SessionType :: u8
  rc_ApplicationIdentifier :: "byte list"
  rc_RefreshSuccess :: bool

record UIMRefreshRegisterAllRequest =
  ra_SessionType :: u8
  ra_ApplicationIdentifier :: "byte list"
  ra_RegisterFlag :: bool

record UIMRefreshIndication =
  ri_Stage :: u8
  ri_Mode :: u8
  ri_SessionType :: u8
  ri_ApplicationIdentifier :: "byte list"
  ri_Files :: "UIMRefreshFile list"

record uimRecordLayout =
  ul_path :: "byte list"
  ul_recordSize :: u16
  ul_recordCount :: u16
  ul_firstRecord :: "byte list option"

section \<open>Requests\<close>

definition uimBoolToByte :: "bool \<Rightarrow> byte" where
  "uimBoolToByte v = (if v then 1 else 0)"

definition buildOpenLogicalChannelTLVs :: "u8 \<Rightarrow> byte list \<Rightarrow> TLV list" where
  "buildOpenLogicalChannelTLVs slot aid =
     [\<lparr>tlv_Type = 0x10, tlv_Value = of_nat (length aid) # aid\<rparr>, \<lparr>tlv_Type = 0x01, tlv_Value = [slot]\<rparr>]"

definition buildUIMSessionTLV :: "u8 \<Rightarrow> byte list \<Rightarrow> TLV" where
  "buildUIMSessionTLV sessionType aid =
     \<lparr>tlv_Type = 0x01, tlv_Value = [sessionType, of_nat (length aid)] @ aid\<rparr>"

definition buildUIMFileTLV :: "u16 \<Rightarrow> u8 list \<Rightarrow> TLV" where
  "buildUIMFileTLV fileID path =
     \<lparr>tlv_Type = 0x02, tlv_Value = PutUint16 fileID @ [of_nat (length path)] @ path\<rparr>"

definition buildCloseLogicalChannelTLVs :: "u8 \<Rightarrow> u8 \<Rightarrow> TLV list" where
  "buildCloseLogicalChannelTLVs slot channel =
     [\<lparr>tlv_Type = 0x01, tlv_Value = [slot]\<rparr>, \<lparr>tlv_Type = 0x11, tlv_Value = [channel]\<rparr>,
      \<lparr>tlv_Type = 0x13, tlv_Value = [0x01]\<rparr>]"

definition buildSendAPDUTLVs :: "u8 \<Rightarrow> u8 \<Rightarrow> byte list \<Rightarrow> TLV list" where
  "buildSendAPDUTLVs slot channel command =
     (if channel \<noteq> 0 then [\<lparr>tlv_Type = 0x10, tlv_Value = [channel]\<rparr>] else []) @
     [\<lparr>tlv_Type = 0x02, tlv_Value = PutUint16 (of_nat (length command)) @ command\<rparr>,
      \<lparr>tlv_Type = 0x01, tlv_Value = [slot]\<rparr>]"

definition buildChangeProvisioningSessionTLVs :: "UIMChangeProvisioningSessionRequest \<Rightarrow> TLV list" where
  "buildChangeProvisioningSessionTLVs req =
     [\<lparr>tlv_Type = 0x01, tlv_Value = [cp_SessionType req, uimBoolToByte (cp_Activate req)]\<rparr>] @
     (if cp_Slot req \<noteq> None \<or> length (cp_ApplicationIdentifier req) > 0
      then [\<lparr>tlv_Type = 0x10, tlv_Value = [case cp_Slot req of Some s \<Rightarrow> s | None \<Rightarrow> 0,
              of_nat (length (cp_ApplicationIdentifier req))] @ cp_ApplicationIdentifier req\<rparr>]
      else [])"

definition refresh_file_bytes :: "UIMRefreshFile \<Rightarrow> byte list" where
  "refresh_file_bytes file = PutUint16 (rf_FileID file) @ [of_nat (length (rf_Path file))] @ rf_Path file"

definition buildRefreshRegisterInfoTLV :: "UIMRefreshRegisterRequest \<Rightarrow> go_error + TLV" where
  "buildRefreshRegisterInfoTLV req =
     (if length (rq_Files req) > 0xFFFF
      then Inl (ErrText (''too many refresh files: '' @ decimal (length (rq_Files req))))
      else (case find (\<lambda>(i, file). length (rf_Path file) > 0xFF) (enumerate 0 (rq_Files req)) of
        Some (i, file) \<Rightarrow>
          Inl (ErrText (''refresh file path too long at index '' @ decimal i @ '': '' @ decimal (length (rf_Path file))))
      | None \<Rightarrow>
          Inr \<lparr>tlv_Type = 0x02, tlv_Value =
            [uimBoolToByte (rq_RegisterFlag req), uimBoolToByte (rq_VoteForInit req)] @
            PutUint16 (of_nat (length (rq_Files req))) @ concat (map refresh_file_bytes (rq_Files req))\<rparr>))"

definition buildRefreshCompleteInfoTLV :: "UIMRefreshCompleteRequest \<Rightarrow> TLV" where
  "buildRefreshCompleteInfoTLV req = \<lparr>tlv_Type = 0x02, tlv_Value = [uimBoolToByte (rc_RefreshSuccess req)]\<rparr>"

definition buildRefreshRegisterAllInfoTLV :: "UIMRefreshRegisterAllRequest \<Rightarrow> TLV" where
  "buildRefreshRegisterAllInfoTLV req = \<lparr>tlv_Type = 0x02, tlv_Value = [uimBoolToByte (ra_RegisterFlag req)]\<rparr>"

definition wrapUIMNotSupported :: "string \<Rightarrow> go_error \<Rightarrow> go_error" where
  "wrapUIMNotSupported operation err =
     (case GetQMIError err of
        Some qe \<Rightarrow>
          if qe_ErrorCode qe = QMIErrNotSupported \<or> qe_ErrorCode qe = QMIErrInvalidQmiCmd
          then ErrNotSupported operation else err
      | None \<Rightarrow> err)"

definition checked_uim :: "string \<Rightarrow> (Packet \<Rightarrow> 'a parsed) \<Rightarrow> Packet \<Rightarrow> 'a parsed" where
  "checked_uim operation parse p =
     (case check p of Some e \<Rightarrow> Some (Inl (wrapUIMNotSupported operation e)) | None \<Rightarrow> parse p)"

lemma checked_uim_safe [safe]: "parse p \<noteq> None \<Longrightarrow> checked_uim operation parse p \<noteq> None"
  by (simp add: checked_uim_def split: option.split)

section \<open>Responses\<close>

text \<open>\<^verbatim>\<open>getCardStatusValue\<close>, the parser of its response.\<close>

definition card_status_value :: "Packet \<Rightarrow> byte list parsed" where
  "card_status_value = checked ''UIM get card status failed'' (\<lambda>resp.
     need_tlv (pkt_TLVs resp) 0x10 15 ''card status TLV missing or too short'' ok)"

definition parse_pin_state :: "byte list \<Rightarrow> nat \<Rightarrow> QMIUIM_PIN_STATE option" where
  "parse_pin_state v off = do {
     a \<leftarrow> at v off; b \<leftarrow> at v (off + 1); c \<leftarrow> at v (off + 2); d \<leftarrow> at v (off + 3); e \<leftarrow> at v (off + 4);
     f \<leftarrow> at v (off + 5); g \<leftarrow> at v (off + 6);
     Some \<lparr>up_UnivPIN = a, up_PIN1State = b, up_PIN1Retries = c, up_PUK1Retries = d, up_PIN2State = e,
       up_PIN2Retries = f, up_PUK2Retries = g\<rparr>
   }"

fun card_status_apps :: "nat \<Rightarrow> nat \<Rightarrow> byte list \<Rightarrow> uimCardStatusApp list option" where
  "card_status_apps 0 off v = Some []"
| "card_status_apps (Suc n) off v =
     (if off + 7 > length v then Some []
      else do {
        t \<leftarrow> at v off; s \<leftarrow> at v (off + 1); ps \<leftarrow> at v (off + 2); pf \<leftarrow> at v (off + 3); pr \<leftarrow> at v (off + 4);
        pu \<leftarrow> at v (off + 5); aidLen \<leftarrow> at v (off + 6);
        if off + 7 + unat aidLen > length v then Some []
        else do {
          aid \<leftarrow> (if unat aidLen > 0 then sub v (off + 7) (off + 7 + unat aidLen) else Some []);
          if off + 7 + unat aidLen + 7 > length v then Some []
          else do {
            pin \<leftarrow> parse_pin_state v (off + 7 + unat aidLen);
            rest \<leftarrow> card_status_apps n (off + 7 + unat aidLen + 7) v;
            Some (\<lparr>ua_appType = t, ua_appState = s, ua_persoState = ps, ua_persoFeature = pf, ua_persoRetries = pr,
              ua_persoUnblockRetries = pu, ua_aid = aid, ua_pin = pin\<rparr> # rest)
          }
        }
      })"

definition parseUIMCardStatusApps :: "byte list \<Rightarrow> u8 \<Rightarrow> uimCardStatusApp list option" where
  "parseUIMCardStatusApps v numApp = card_status_apps (unat numApp) 15 v"

definition no_app :: uimCardStatusApp where
  "no_app = \<lparr>ua_appType = 0, ua_appState = 0, ua_persoState = 0, ua_persoFeature = 0, ua_persoRetries = 0,
     ua_persoUnblockRetries = 0, ua_aid = [], ua_pin = \<lparr>up_UnivPIN = 0, up_PIN1State = 0, up_PIN1Retries = 0,
     up_PUK1Retries = 0, up_PIN2State = 0, up_PIN2Retries = 0, up_PUK2Retries = 0\<rparr>\<rparr>"

definition choose_app :: "uimCardStatusApp list \<Rightarrow> uimCardStatusApp option" where
  "choose_app apps =
     (case find (\<lambda>a. ua_appType a = 0x02) apps of
        Some a \<Rightarrow> Some a
      | None \<Rightarrow> if length apps > 0 then Some (apps ! 0) else None)"

text \<open>The states of a PIN: 0 not initialised, 1 not verified, 2 verified, 3 disabled, 4 blocked, 5 blocked for
  good, 6 unblocked, 7 changed.\<close>

definition pin_sim_status :: "u8 \<Rightarrow> SIMStatus" where
  "pin_sim_status state =
     (if state = 1 then SIMPINRequired
      else if state = 4 then SIMPUKRequired
      else if state = 5 then SIMBlocked
      else if state \<in> {0, 2, 3, 6, 7} then SIMReady
      else SIMNotReady)"

definition sim_status_of :: "CardStatusDetails \<Rightarrow> SIMStatus" where
  "sim_status_of d =
     (if cd_CardState d = 0x00 then SIMAbsent
      else if cd_CardState d = 0x02 then SIMBlocked
      else if cd_CardState d = 0x01 then
        (let status = pin_sim_status (if cd_UsesUPIN d then cd_UPINState d else up_PIN1State (ua_pin (cd_App d))) in
         if status = SIMReady \<and> ua_persoState (cd_App d) \<in> {1, 3, 4} then SIMNetworkLocked else status)
      else SIMNotReady)"

definition card_status_details :: "byte list \<Rightarrow> CardStatusDetails option" where
  "card_status_details v = do {
     slots \<leftarrow> at v 8; st \<leftarrow> at v 9; us \<leftarrow> at v 10; ur \<leftarrow> at v 11; uu \<leftarrow> at v 12; err \<leftarrow> at v 13; n \<leftarrow> at v 14;
     apps \<leftarrow> parseUIMCardStatusApps v n;
     let app = choose_app apps
     in Some \<lparr>cd_CardState = st, cd_ErrorCode = err, cd_NumSlot = slots, cd_NumApp = n,
          cd_App = (case app of Some a \<Rightarrow> a | None \<Rightarrow> no_app),
          cd_UsesUPIN = (case app of Some a \<Rightarrow> up_UnivPIN (ua_pin a) = 1 | None \<Rightarrow> False),
          cd_UPINState = us, cd_UPINRetries = ur, cd_UPUKRetries = uu\<rparr>
   }"

definition parse_card_status :: "Packet \<Rightarrow> (CardStatusDetails \<times> SIMStatus) parsed" where
  "parse_card_status resp =
     try_parse (card_status_value resp) (\<lambda>v. do {
       d \<leftarrow> card_status_details v;
       ok (d, sim_status_of d)
     })"

definition parse_applications :: "Packet \<Rightarrow> uimCardStatusApp list parsed" where
  "parse_applications resp =
     try_parse (card_status_value resp) (\<lambda>v. do {
       n \<leftarrow> at v 14;
       apps \<leftarrow> parseUIMCardStatusApps v n;
       ok apps
     })"

definition upper_hex :: "byte list \<Rightarrow> string" where
  "upper_hex bs = ToUpper (hex_EncodeToString bs)"

definition find_aid :: "u8 \<Rightarrow> byte list \<Rightarrow> string \<Rightarrow> uimCardStatusApp list \<Rightarrow> go_error + byte list" where
  "find_aid appType prefix' label apps =
     (case find (\<lambda>a. ua_appType a = appType) apps of
        None \<Rightarrow> Inl (ErrText (''UIM '' @ label @ '' application not found: app_type=0x'' @ hex2 appType))
      | Some app \<Rightarrow>
          if length (ua_aid app) < length prefix' \<or> take (length prefix') (ua_aid app) \<noteq> prefix'
          then Inl (ErrText (''UIM '' @ label @ '' AID invalid: '' @ upper_hex (ua_aid app)))
          else Inr (ua_aid app))"

definition parseSupportedMessagesTLV :: "Packet \<Rightarrow> u8 list parsed" where
  "parseSupportedMessagesTLV resp =
     need_tlv (pkt_TLVs resp) 0x10 2 ''supported messages response missing list TLV'' (\<lambda>v. do {
       count \<leftarrow> rd16 v 0;
       if length v < 2 + unat count
       then Some (Inl (ErrText (''supported messages TLV truncated: need '' @ decimal (2 + unat count) @ '', have '' @ decimal (length v))))
       else map_option Inr (sub v 2 (2 + unat count))
     })"

fun refresh_files :: "nat \<Rightarrow> nat \<Rightarrow> nat \<Rightarrow> byte list \<Rightarrow> (UIMRefreshFile list \<times> nat) parsed" where
  "refresh_files 0 i off v = Some (Inr ([], off))"
| "refresh_files (Suc n) i off v =
     (if off + 3 > length v then Some (Inl (ErrText (''refresh event file entry '' @ decimal i @ '' truncated'')))
      else do {
        fileID \<leftarrow> rd16 v off;
        pathLen \<leftarrow> at v (off + 2);
        if off + 3 + unat pathLen > length v
        then Some (Inl (ErrText (''refresh event file path '' @ decimal i @ '' truncated'')))
        else do {
          path \<leftarrow> (if unat pathLen > 0 then sub v (off + 3) (off + 3 + unat pathLen) else Some []);
          try_parse (refresh_files n (Suc i) (off + 3 + unat pathLen) v) (\<lambda>(fs, e).
            ok (\<lparr>rf_FileID = fileID, rf_Path = path\<rparr> # fs, e))
        }
      })"

definition parseRefreshEventTLV :: "byte list \<Rightarrow> UIMRefreshIndication parsed" where
  "parseRefreshEventTLV value =
     (if length value < 6 then Some (Inl (ErrText ''refresh event TLV too short''))
      else do {
        stage \<leftarrow> at value 0; mode \<leftarrow> at value 1; session \<leftarrow> at value 2; aidLen \<leftarrow> at value 3;
        if 4 + unat aidLen + 2 > length value
        then Some (Inl (ErrText ''refresh event TLV truncated in application identifier''))
        else do {
          aid \<leftarrow> (if unat aidLen > 0 then sub value 4 (4 + unat aidLen) else Some []);
          fileCount \<leftarrow> rd16 value (4 + unat aidLen);
          try_parse (refresh_files (unat fileCount) 0 (4 + unat aidLen + 2) value) (\<lambda>(files, off).
            if off \<noteq> length value
            then Some (Inl (ErrText (''refresh event TLV has '' @ decimal (length value - off) @ '' trailing bytes'')))
            else ok \<lparr>ri_Stage = stage, ri_Mode = mode, ri_SessionType = session, ri_ApplicationIdentifier = aid, ri_Files = files\<rparr>)
        }
      })"

definition parseUIMCardResult :: "TLV option \<Rightarrow> UIMCardResult option parsed" where
  "parseUIMCardResult tlv =
     (case tlv of
        None \<Rightarrow> ok None
      | Some t \<Rightarrow>
          if length (tlv_Value t) < 2 then Some (Inl (ErrText ''UIM card result TLV too short''))
          else do { a \<leftarrow> at (tlv_Value t) 0; b \<leftarrow> at (tlv_Value t) 1; ok (Some (a, b)) })"

definition empty_slot :: UIMSlotStatusSlot where
  "empty_slot = \<lparr>sl_PhysicalCardStatus = 0, sl_PhysicalSlotStatus = 0, sl_LogicalSlot = 0, sl_ICCIDRaw = [], sl_ICCID = [],
     sl_CardProtocol = 0, sl_ValidApplications = 0, sl_ATR = [], sl_HasExtendedInfo = False, sl_IsEUICC = False,
     sl_EID = [], sl_HasEID = False\<rparr>"

fun slot_entries :: "nat \<Rightarrow> nat \<Rightarrow> nat \<Rightarrow> byte list \<Rightarrow> UIMSlotStatusSlot list parsed" where
  "slot_entries 0 i off v = Some (Inr [])"
| "slot_entries (Suc n) i off v =
     (if off + 10 > length v then Some (Inl (ErrText (''slot status entry '' @ decimal i @ '' truncated'')))
      else do {
        card \<leftarrow> rd32 v off; slot \<leftarrow> rd32 v (off + 4); logical \<leftarrow> at v (off + 8); iccidLen \<leftarrow> at v (off + 9);
        if off + 10 + unat iccidLen > length v
        then Some (Inl (ErrText (''slot status ICCID entry '' @ decimal i @ '' truncated'')))
        else do {
          raw \<leftarrow> (if unat iccidLen > 0 then sub v (off + 10) (off + 10 + unat iccidLen) else Some []);
          try_parse (slot_entries n (Suc i) (off + 10 + unat iccidLen) v) (\<lambda>rest.
            ok (empty_slot\<lparr>sl_PhysicalCardStatus := card, sl_PhysicalSlotStatus := slot, sl_LogicalSlot := logical,
              sl_ICCIDRaw := raw, sl_ICCID := (if unat iccidLen > 0 then decodeUIMDigits raw else [])\<rparr> # rest))
        }
      })"

text \<open>\<^verbatim>\<open>if i >= len(slots) { slots = append(slots, ...) }\<close>, then an assignment to \<^verbatim>\<open>slots[i]\<close>.\<close>

definition set_slot :: "UIMSlotStatusSlot list \<Rightarrow> nat \<Rightarrow> (UIMSlotStatusSlot \<Rightarrow> UIMSlotStatusSlot) \<Rightarrow> UIMSlotStatusSlot list option" where
  "set_slot slots i f =
     (let s = (if i \<ge> length slots then slots @ [empty_slot] else slots) in do { x \<leftarrow> at s i; Some (s[i := f x]) })"

fun slot_infos :: "nat \<Rightarrow> nat \<Rightarrow> nat \<Rightarrow> byte list \<Rightarrow> UIMSlotStatusSlot list \<Rightarrow> UIMSlotStatusSlot list parsed" where
  "slot_infos 0 i off v slots = Some (Inr slots)"
| "slot_infos (Suc n) i off v slots =
     (if off + 7 > length v then Some (Inl (ErrText (''slot extended info entry '' @ decimal i @ '' truncated'')))
      else do {
        atrLen \<leftarrow> at v (off + 5);
        if off + 7 + unat atrLen > length v
        then Some (Inl (ErrText (''slot extended ATR entry '' @ decimal i @ '' truncated'')))
        else do {
          protocol \<leftarrow> rd32 v off; apps \<leftarrow> at v (off + 4);
          atr \<leftarrow> (if unat atrLen > 0 then map_option Some (sub v (off + 6) (off + 6 + unat atrLen)) else Some None);
          euicc \<leftarrow> at v (off + 6 + unat atrLen);
          slots' \<leftarrow> set_slot slots i (\<lambda>s. s\<lparr>sl_CardProtocol := protocol, sl_ValidApplications := apps,
            sl_ATR := (case atr of Some a \<Rightarrow> a | None \<Rightarrow> sl_ATR s), sl_IsEUICC := (euicc \<noteq> 0), sl_HasExtendedInfo := True\<rparr>);
          slot_infos n (Suc i) (off + 7 + unat atrLen) v slots'
        }
      })"

fun slot_eids :: "nat \<Rightarrow> nat \<Rightarrow> nat \<Rightarrow> byte list \<Rightarrow> UIMSlotStatusSlot list \<Rightarrow> UIMSlotStatusSlot list parsed" where
  "slot_eids 0 i off v slots = Some (Inr slots)"
| "slot_eids (Suc n) i off v slots =
     (if off + 1 > length v then Some (Inl (ErrText (''slot EID entry '' @ decimal i @ '' truncated'')))
      else do {
        eidLen \<leftarrow> at v off;
        if off + 1 + unat eidLen > length v
        then Some (Inl (ErrText (''slot EID data entry '' @ decimal i @ '' truncated'')))
        else do {
          eid \<leftarrow> (if unat eidLen > 0 then map_option Some (sub v (off + 1) (off + 1 + unat eidLen)) else Some None);
          slots' \<leftarrow> set_slot slots i (\<lambda>s. case eid of Some e \<Rightarrow> s\<lparr>sl_EID := e, sl_HasEID := True\<rparr> | None \<Rightarrow> s);
          slot_eids n (Suc i) (off + 1 + unat eidLen) v slots'
        }
      })"

definition optional_slots :: "TLV list \<Rightarrow> u8 \<Rightarrow> (nat \<Rightarrow> byte list \<Rightarrow> UIMSlotStatusSlot list \<Rightarrow> UIMSlotStatusSlot list parsed)
    \<Rightarrow> UIMSlotStatusSlot list \<Rightarrow> UIMSlotStatusSlot list parsed" where
  "optional_slots ts t f slots =
     (case FindTLV ts t of
        Some tlv \<Rightarrow>
          if length (tlv_Value tlv) \<ge> 1 then do { n \<leftarrow> at (tlv_Value tlv) 0; f (unat n) (tlv_Value tlv) slots } else ok slots
      | None \<Rightarrow> ok slots)"

definition parseSlotStatusTLVs :: "TLV list \<Rightarrow> UIMSlotStatusSlot list parsed" where
  "parseSlotStatusTLVs tlvs =
     try_parse (need_tlv tlvs 0x10 1 ''slot status TLV missing or too short'' (\<lambda>v. do {
       n \<leftarrow> at v 0; slot_entries (unat n) 0 1 v })) (\<lambda>slots.
     try_parse (optional_slots tlvs 0x11 (\<lambda>n. slot_infos n 0 1) slots) (\<lambda>slots1.
     optional_slots tlvs 0x12 (\<lambda>n. slot_eids n 0 1) slots1))"

definition parseGetSlotStatusResponse :: "Packet \<Rightarrow> UIMSlotStatusSlot list parsed" where
  "parseGetSlotStatusResponse = checked_uim ''get slot status'' (\<lambda>resp. parseSlotStatusTLVs (pkt_TLVs resp))"

definition ParseUIMSlotStatusIndication :: "Packet option \<Rightarrow> UIMSlotStatusSlot list parsed" where
  "ParseUIMSlotStatusIndication packet =
     (case packet of
        None \<Rightarrow> Some (Inl (ErrText ''slot status indication packet is nil''))
      | Some p \<Rightarrow> parseSlotStatusTLVs (pkt_TLVs p))"

definition ParseUIMRefreshIndication :: "Packet option \<Rightarrow> UIMRefreshIndication parsed" where
  "ParseUIMRefreshIndication packet =
     (case packet of
        None \<Rightarrow> Some (Inl (ErrText ''refresh indication packet is nil''))
      | Some p \<Rightarrow> need_tlv (pkt_TLVs p) 0x10 0 ''refresh indication TLV not found'' parseRefreshEventTLV)"

definition length_prefixed :: "TLV list \<Rightarrow> u8 \<Rightarrow> string \<Rightarrow> byte list parsed" where
  "length_prefixed ts t name =
     (case FindTLV ts t of
        None \<Rightarrow> ok []
      | Some tlv \<Rightarrow>
          let v = tlv_Value tlv in
          if length v < 2 then Some (Inl (ErrText (name @ '' TLV too short'')))
          else do {
            n \<leftarrow> rd16 v 0;
            if length v < 2 + unat n then Some (Inl (ErrText (name @ '' truncated'')))
            else map_option Inr (sub v 2 (2 + unat n))
          })"

definition parseReadRecordResponse :: "Packet \<Rightarrow> UIMRecordData parsed" where
  "parseReadRecordResponse = checked_uim ''read record'' (\<lambda>resp.
     try_parse (parseUIMCardResult (FindTLV (pkt_TLVs resp) 0x10)) (\<lambda>r.
     try_parse (length_prefixed (pkt_TLVs resp) 0x11 ''read record result'') (\<lambda>data.
     try_parse (length_prefixed (pkt_TLVs resp) 0x12 ''additional read result'') (\<lambda>more. do {
       token \<leftarrow> opt_tlv (pkt_TLVs resp) 0x13 4 (\<lambda>v. rd32 v 0);
       ok \<lparr>rd_CardResult = r, rd_Data = data, rd_AdditionalData = more, rd_ResponseInIndicationToken = token\<rparr>
     }))))"

definition security_at :: "byte list \<Rightarrow> nat \<Rightarrow> UIMSecurityAttributes option" where
  "security_at v i = do { l \<leftarrow> at v i; a \<leftarrow> rd16 v (i + 1); Some (l, a) }"

definition parseGetFileAttributesResponse :: "Packet \<Rightarrow> UIMFileAttributes parsed" where
  "parseGetFileAttributesResponse = checked_uim ''get file attributes'' (\<lambda>resp.
     try_parse (parseUIMCardResult (FindTLV (pkt_TLVs resp) 0x10)) (\<lambda>r.
     need_tlv (pkt_TLVs resp) 0x11 26 ''file attributes TLV missing or too short'' (\<lambda>v. do {
       sz \<leftarrow> rd16 v 0; fid \<leftarrow> rd16 v 2; t \<leftarrow> at v 4; rs \<leftarrow> rd16 v 5; rc \<leftarrow> rd16 v 7;
       s1 \<leftarrow> security_at v 9; s2 \<leftarrow> security_at v 12; s3 \<leftarrow> security_at v 15; s4 \<leftarrow> security_at v 18; s5 \<leftarrow> security_at v 21;
       rawLen \<leftarrow> rd16 v 24;
       if length v < 26 + unat rawLen then Some (Inl (ErrText ''file attributes raw data truncated''))
       else do {
         raw \<leftarrow> (if unat rawLen > 0 then sub v 26 (26 + unat rawLen) else Some []);
         token \<leftarrow> opt_tlv (pkt_TLVs resp) 0x12 4 (\<lambda>v. rd32 v 0);
         ok \<lparr>fa_CardResult = r, fa_FileSize = sz, fa_FileID = fid, fa_FileType = t, fa_RecordSize = rs, fa_RecordCount = rc,
           fa_ReadSecurity = s1, fa_WriteSecurity = s2, fa_IncreaseSecurity = s3, fa_DeactivateSecurity = s4,
           fa_ActivateSecurity = s5, fa_RawData = raw, fa_ResponseInIndicationToken = token\<rparr>
       }
     })))"

definition parseOpenLogicalChannelResponse :: "Packet \<Rightarrow> byte parsed" where
  "parseOpenLogicalChannelResponse = checked_uim ''open logical channel'' (\<lambda>resp.
     need_tlv (pkt_TLVs resp) 0x10 1 ''logical channel TLV missing or too short'' (\<lambda>v. do { b \<leftarrow> at v 0; ok b }))"

definition parseCloseLogicalChannelResponse :: "Packet \<Rightarrow> unit parsed" where
  "parseCloseLogicalChannelResponse = checked_uim ''close logical channel'' acked"

definition parseSendAPDUResponse :: "Packet \<Rightarrow> byte list parsed" where
  "parseSendAPDUResponse = checked_uim ''send APDU'' (\<lambda>resp.
     need_tlv (pkt_TLVs resp) 0x10 2 ''APDU response TLV missing or too short'' (\<lambda>v. do {
       n \<leftarrow> rd16 v 0;
       if length v < 2 + unat n then Some (Inl (ErrText ''APDU response truncated''))
       else map_option Inr (sub v 2 (2 + unat n))
     }))"

text \<open>\<^verbatim>\<open>2+contentLen\<close> is a sum of \<^verbatim>\<open>uint16\<close> values and wraps around.\<close>

definition parse_read_transparent :: "Packet \<Rightarrow> byte list parsed" where
  "parse_read_transparent = checked_plain (\<lambda>resp.
     (case FindTLV (pkt_TLVs resp) 0x11 of
        None \<Rightarrow> Some (Inl (ErrText ''read result missing''))
      | Some tlv \<Rightarrow>
          let v = tlv_Value tlv in
          if length v < 2 then Some (Inl (ErrText ''read result too short''))
          else do {
            contentLen \<leftarrow> rd16 v 0;
            if length v < unat (2 + contentLen) then Some (Inl (ErrText ''read result truncated''))
            else map_option Inr (sub v 2 (unat (2 + contentLen)))
          }))"

definition parse_register_events :: "u32 \<Rightarrow> Packet \<Rightarrow> u32 parsed" where
  "parse_register_events msk = checked_uim ''register UIM events'' (\<lambda>resp. do {
     m \<leftarrow> tlv_or msk (pkt_TLVs resp) 0x10 4 (\<lambda>v. rd32 v 0);
     ok m
   })"

section \<open>Methods\<close>

definition GetCardStatusDetails :: "'m sender \<Rightarrow> 'm \<Rightarrow> (CardStatusDetails \<times> SIMStatus) parsed \<times> 'm" where
  "GetCardStatusDetails send = call send UIMGetCardStatus [] parse_card_status"

definition GetCardStatus :: "'m sender \<Rightarrow> 'm \<Rightarrow> SIMStatus parsed \<times> 'm" where
  "GetCardStatus send = then_m (GetCardStatusDetails send) (\<lambda>(_, st). ret_m (ok st))"

definition ListApplications :: "'m sender \<Rightarrow> 'm \<Rightarrow> UIMApplication list parsed \<times> 'm" where
  "ListApplications send =
     then_m (call send UIMGetCardStatus [] parse_applications) (\<lambda>raw.
       ret_m (ok (map (\<lambda>a. \<lparr>up_Type = ua_appType a, up_State = ua_appState a, up_AID = ua_aid a\<rparr>) raw)))"

definition getCardStatusAID :: "'m sender \<Rightarrow> u8 \<Rightarrow> byte list \<Rightarrow> string \<Rightarrow> 'm \<Rightarrow> byte list parsed \<times> 'm" where
  "getCardStatusAID send appType prefix' label =
     then_m (call send UIMGetCardStatus [] parse_applications) (\<lambda>apps. ret_m (Some (find_aid appType prefix' label apps)))"

definition GetUSIMAID :: "'m sender \<Rightarrow> 'm \<Rightarrow> byte list parsed \<times> 'm" where
  "GetUSIMAID send = getCardStatusAID send UIMAppTypeUSIM uimUSIMAIDPrefix ''USIM''"

definition GetISIMAID :: "'m sender \<Rightarrow> 'm \<Rightarrow> byte list parsed \<times> 'm" where
  "GetISIMAID send = getCardStatusAID send UIMAppTypeISIM uimISIMAIDPrefix ''ISIM''"

definition VerifyPIN :: "'m sender \<Rightarrow> u8 \<Rightarrow> string \<Rightarrow> 'm \<Rightarrow> unit parsed \<times> 'm" where
  "VerifyPIN send pinID pin =
     call send UIMVerifyPIN
       [\<lparr>tlv_Type = 0x01, tlv_Value = [pinID, of_nat (length (bytes_of_string pin))] @ bytes_of_string pin\<rparr>]
       (checked_plain acked)"

definition SetPINProtection :: "'m sender \<Rightarrow> u8 \<Rightarrow> bool \<Rightarrow> string \<Rightarrow> 'm \<Rightarrow> unit parsed \<times> 'm" where
  "SetPINProtection send pinID enabled pin =
     call send UIMSetPINProtection
       [\<lparr>tlv_Type = 0x01, tlv_Value = [pinID, if enabled then 1 else 0, of_nat (length (bytes_of_string pin))] @ bytes_of_string pin\<rparr>]
       (checked_plain acked)"

definition two_codes :: "u8 \<Rightarrow> string \<Rightarrow> string \<Rightarrow> TLV" where
  "two_codes pinID a b = \<lparr>tlv_Type = 0x01, tlv_Value =
     [pinID, of_nat (length (bytes_of_string a))] @ bytes_of_string a @
     [of_nat (length (bytes_of_string b))] @ bytes_of_string b\<rparr>"

definition ChangePIN :: "'m sender \<Rightarrow> u8 \<Rightarrow> string \<Rightarrow> string \<Rightarrow> 'm \<Rightarrow> unit parsed \<times> 'm" where
  "ChangePIN send pinID oldPIN newPIN = call send UIMChangePIN [two_codes pinID oldPIN newPIN] (checked_plain acked)"

definition UnblockPIN :: "'m sender \<Rightarrow> u8 \<Rightarrow> string \<Rightarrow> string \<Rightarrow> 'm \<Rightarrow> unit parsed \<times> 'm" where
  "UnblockPIN send pinID puk newPIN = call send UIMUnblockPIN [two_codes pinID puk newPIN] (checked_plain acked)"

definition OpenLogicalChannel :: "'m sender \<Rightarrow> u8 \<Rightarrow> byte list \<Rightarrow> 'm \<Rightarrow> byte parsed \<times> 'm" where
  "OpenLogicalChannel send slot aid =
     call send UIMOpenLogicalChannel (buildOpenLogicalChannelTLVs slot aid) parseOpenLogicalChannelResponse"

definition CloseLogicalChannel :: "'m sender \<Rightarrow> u8 \<Rightarrow> u8 \<Rightarrow> 'm \<Rightarrow> unit parsed \<times> 'm" where
  "CloseLogicalChannel send slot channel =
     call send UIMCloseLogicalChannel (buildCloseLogicalChannelTLVs slot channel) parseCloseLogicalChannelResponse"

definition SendAPDU :: "'m sender \<Rightarrow> u8 \<Rightarrow> u8 \<Rightarrow> byte list \<Rightarrow> 'm \<Rightarrow> byte list parsed \<times> 'm" where
  "SendAPDU send slot channel command =
     call send UIMSendAPDU (buildSendAPDUTLVs slot channel command) parseSendAPDUResponse"

definition GetSlotStatus :: "'m sender \<Rightarrow> 'm \<Rightarrow> UIMSlotStatusSlot list parsed \<times> 'm" where
  "GetSlotStatus send = call send UIMGetSlotStatus [] parseGetSlotStatusResponse"

definition SwitchSlot :: "'m sender \<Rightarrow> u8 \<Rightarrow> u32 \<Rightarrow> 'm \<Rightarrow> unit parsed \<times> 'm" where
  "SwitchSlot send logicalSlot physicalSlot =
     call send UIMSwitchSlot [NewTLVUint8 0x01 logicalSlot, NewTLVUint32 0x02 physicalSlot] (checked_uim ''switch slot'' acked)"

definition RegisterEvents :: "'m sender \<Rightarrow> u32 \<Rightarrow> 'm \<Rightarrow> u32 parsed \<times> 'm" where
  "RegisterEvents send msk = call send UIMRegisterEvents [NewTLVUint32 0x01 msk] (parse_register_events msk)"

definition GetSupportedMessages :: "'m sender \<Rightarrow> 'm \<Rightarrow> u8 list parsed \<times> 'm" where
  "GetSupportedMessages send =
     call send UIMGetSupportedMessages [] (checked_uim ''get supported messages'' parseSupportedMessagesTLV)"

definition Reset :: "'m sender \<Rightarrow> 'm \<Rightarrow> unit parsed \<times> 'm" where
  "Reset send = call send UIMReset [] (checked_uim ''reset UIM service'' acked)"

definition PowerOffSIM :: "'m sender \<Rightarrow> u8 \<Rightarrow> 'm \<Rightarrow> unit parsed \<times> 'm" where
  "PowerOffSIM send slot = call send UIMPowerOffSIM [NewTLVUint8 0x01 slot] (checked_uim ''power off SIM'' acked)"

definition PowerOnSIM :: "'m sender \<Rightarrow> u8 \<Rightarrow> 'm \<Rightarrow> unit parsed \<times> 'm" where
  "PowerOnSIM send slot = call send UIMPowerOnSIM [NewTLVUint8 0x01 slot] (checked_uim ''power on SIM'' acked)"

definition ChangeProvisioningSession :: "'m sender \<Rightarrow> UIMChangeProvisioningSessionRequest \<Rightarrow> 'm \<Rightarrow> unit parsed \<times> 'm" where
  "ChangeProvisioningSession send req =
     call send UIMChangeProvisioningSession (buildChangeProvisioningSessionTLVs req)
       (checked_uim ''change provisioning session'' acked)"

definition RefreshRegister :: "'m sender \<Rightarrow> UIMRefreshRegisterRequest \<Rightarrow> 'm \<Rightarrow> unit parsed \<times> 'm" where
  "RefreshRegister send req m =
     (case buildRefreshRegisterInfoTLV req of
        Inl e \<Rightarrow> (Some (Inl e), m)
      | Inr info \<Rightarrow>
          call send UIMRefreshRegister [buildUIMSessionTLV (rq_SessionType req) (rq_ApplicationIdentifier req), info]
            (checked_uim ''refresh register'' acked) m)"

definition RefreshComplete :: "'m sender \<Rightarrow> UIMRefreshCompleteRequest \<Rightarrow> 'm \<Rightarrow> unit parsed \<times> 'm" where
  "RefreshComplete send req =
     call send UIMRefreshComplete
       [buildUIMSessionTLV (rc_SessionType req) (rc_ApplicationIdentifier req), buildRefreshCompleteInfoTLV req]
       (checked_uim ''refresh complete'' acked)"

definition RefreshRegisterAll :: "'m sender \<Rightarrow> UIMRefreshRegisterAllRequest \<Rightarrow> 'm \<Rightarrow> unit parsed \<times> 'm" where
  "RefreshRegisterAll send req =
     call send UIMRefreshRegisterAll
       [buildUIMSessionTLV (ra_SessionType req) (ra_ApplicationIdentifier req), buildRefreshRegisterAllInfoTLV req]
       (checked_uim ''refresh register all'' acked)"

definition ReadRecordWithSession :: "'m sender \<Rightarrow> u8 \<Rightarrow> u16 \<Rightarrow> u8 list \<Rightarrow> u16 \<Rightarrow> u16 \<Rightarrow> 'm \<Rightarrow> UIMRecordData parsed \<times> 'm" where
  "ReadRecordWithSession send sessionType fileID path recordNumber recordLength =
     call send UIMReadRecord
       [buildUIMSessionTLV sessionType [], buildUIMFileTLV fileID path,
        \<lparr>tlv_Type = 0x03, tlv_Value = PutUint16 recordNumber @ PutUint16 recordLength\<rparr>]
       parseReadRecordResponse"

definition ReadRecord :: "'m sender \<Rightarrow> u16 \<Rightarrow> u8 list \<Rightarrow> u16 \<Rightarrow> u16 \<Rightarrow> 'm \<Rightarrow> UIMRecordData parsed \<times> 'm" where
  "ReadRecord send = ReadRecordWithSession send UIMSessionTypePrimaryGWProvisioning"

definition GetFileAttributesWithSession :: "'m sender \<Rightarrow> u8 \<Rightarrow> u16 \<Rightarrow> u8 list \<Rightarrow> 'm \<Rightarrow> UIMFileAttributes parsed \<times> 'm" where
  "GetFileAttributesWithSession send sessionType fileID path =
     call send UIMGetFileAttrs [buildUIMSessionTLV sessionType [], buildUIMFileTLV fileID path] parseGetFileAttributesResponse"

definition GetFileAttributes :: "'m sender \<Rightarrow> u16 \<Rightarrow> u8 list \<Rightarrow> 'm \<Rightarrow> UIMFileAttributes parsed \<times> 'm" where
  "GetFileAttributes send = GetFileAttributesWithSession send UIMSessionTypePrimaryGWProvisioning"

definition ReadTransparentWithSession :: "'m sender \<Rightarrow> u8 \<Rightarrow> u16 \<Rightarrow> u8 list \<Rightarrow> 'm \<Rightarrow> byte list parsed \<times> 'm" where
  "ReadTransparentWithSession send sessionType fileID path =
     call send UIMReadTransparent
       [buildUIMSessionTLV sessionType [], buildUIMFileTLV fileID path,
        \<lparr>tlv_Type = 0x03, tlv_Value = PutUint16 0 @ PutUint16 0\<rparr>]
       parse_read_transparent"

definition ReadTransparent :: "'m sender \<Rightarrow> u16 \<Rightarrow> u8 list \<Rightarrow> 'm \<Rightarrow> byte list parsed \<times> 'm" where
  "ReadTransparent send = ReadTransparentWithSession send UIMSessionTypePrimaryGWProvisioning"

text \<open>The same file at one path after another; the error of the last one is the one returned.\<close>

fun read_paths :: "'m sender \<Rightarrow> u8 \<Rightarrow> u16 \<Rightarrow> byte list \<Rightarrow> byte list list \<Rightarrow> 'm \<Rightarrow> byte list parsed \<times> 'm" where
  "read_paths send session fileID path [] = ReadTransparentWithSession send session fileID path"
| "read_paths send session fileID path (p # ps) =
     try_m (ReadTransparentWithSession send session fileID path) (\<lambda>r.
       case r of Inl _ \<Rightarrow> read_paths send session fileID p ps | Inr data \<Rightarrow> ret_m (ok data))"

definition GetICCID :: "'m sender \<Rightarrow> 'm \<Rightarrow> string parsed \<times> 'm" where
  "GetICCID send =
     then_m (read_paths send 0x06 0x2FE2 [0x00, 0x3F] [[]]) (\<lambda>data.
       ret_m (if length data = 0 then Some (Inl (ErrText ''empty ICCID'')) else ok (decodeSwappedBCD data)))"

definition imsi_of_file :: "byte list \<Rightarrow> string parsed" where
  "imsi_of_file data =
     (if length data \<le> 1 then Some (Inl (ErrText ''invalid IMSI length''))
      else do {
        n \<leftarrow> at data 0;
        bcd \<leftarrow> (if unat n \<le> length data - 1 then sub data 1 (1 + unat n) else tail_from data 1);
        let imsi = decodeSwappedBCD bcd
        in if imsi = [] then Some (Inl (ErrText ''empty IMSI''))
           else map_option Inr (tail_from imsi 1)
      })"

definition sim_paths :: "byte list list" where
  "sim_paths = [[0x20, 0x7F], []]"

definition readSIMTransparentFallback :: "'m sender \<Rightarrow> u16 \<Rightarrow> 'm \<Rightarrow> byte list parsed \<times> 'm" where
  "readSIMTransparentFallback send fileID = read_paths send 0x00 fileID [0x00, 0x3F, 0xFF, 0x7F] sim_paths"

definition GetIMSI :: "'m sender \<Rightarrow> 'm \<Rightarrow> string parsed \<times> 'm" where
  "GetIMSI send =
     then_m (read_paths send 0x00 0x6F07 [0x00, 0x3F, 0xFF, 0x7F] sim_paths) (\<lambda>data. ret_m (imsi_of_file data))"

definition GetNativeSPN :: "gsm7 \<Rightarrow> 'm sender \<Rightarrow> 'm \<Rightarrow> string parsed \<times> 'm" where
  "GetNativeSPN gsm7 send = then_m (readSIMTransparentFallback send 0x6F46) (\<lambda>data. ret_m (decodeEFSPN gsm7 data))"

definition GetGID1 :: "'m sender \<Rightarrow> 'm \<Rightarrow> string parsed \<times> 'm" where
  "GetGID1 send = then_m (readSIMTransparentFallback send 0x6F3E) (\<lambda>data. ret_m (ok (simGIDHex data)))"

definition GetGID2 :: "'m sender \<Rightarrow> 'm \<Rightarrow> string parsed \<times> 'm" where
  "GetGID2 send = then_m (readSIMTransparentFallback send 0x6F3F) (\<lambda>data. ret_m (ok (simGIDHex data)))"

definition GetSIMServiceTable :: "'m sender \<Rightarrow> 'm \<Rightarrow> SIMServiceTable option parsed \<times> 'm" where
  "GetSIMServiceTable send =
     then_m (readSIMTransparentFallback send 0x6F38) (\<lambda>data.
       ret_m (ok (case decodeSIMServiceTable ''UST'' data of Some st \<Rightarrow> Some st | None \<Rightarrow> decodeSIMServiceTable ''SST'' data)))"

section \<open>Record files\<close>

text \<open>\<open>ctxErr\<close> is \<^verbatim>\<open>ctx.Err()\<close>, read off the state.\<close>

definition readRecordAtPath :: "'m sender \<Rightarrow> u16 \<Rightarrow> byte list \<Rightarrow> u16 \<Rightarrow> u16 \<Rightarrow> 'm \<Rightarrow> byte list parsed \<times> 'm" where
  "readRecordAtPath send fileID path rec len =
     then_m (ReadRecordWithSession send 0x00 fileID path rec len) (\<lambda>d. ret_m (ok (rd_Data d)))"

definition guard_ctx :: "('m \<Rightarrow> go_error option) \<Rightarrow> ('m \<Rightarrow> 'a parsed \<times> 'm) \<Rightarrow> 'm \<Rightarrow> 'a parsed \<times> 'm" where
  "guard_ctx ctxErr f m = (case ctxErr m of Some e \<Rightarrow> (Some (Inl e), m) | None \<Rightarrow> f m)"

fun layout_by_record :: "('m \<Rightarrow> go_error option) \<Rightarrow> 'm sender \<Rightarrow> u16 \<Rightarrow> u16 \<Rightarrow> byte list \<Rightarrow> byte list list \<Rightarrow> 'm
    \<Rightarrow> uimRecordLayout parsed \<times> 'm" where
  "layout_by_record ctxErr send fileID fallback path rest =
     guard_ctx ctxErr (try_m (readRecordAtPath send fileID path 1 fallback) (\<lambda>r.
       case r of
         Inr data \<Rightarrow> ret_m (ok \<lparr>ul_path = path, ul_recordSize = fallback, ul_recordCount = 32, ul_firstRecord = Some data\<rparr>)
       | Inl e \<Rightarrow> (case rest of [] \<Rightarrow> ret_m (Some (Inl e)) | p # ps \<Rightarrow> layout_by_record ctxErr send fileID fallback p ps)))"

fun layout_by_attributes :: "('m \<Rightarrow> go_error option) \<Rightarrow> 'm sender \<Rightarrow> u16 \<Rightarrow> u16 \<Rightarrow> byte list list \<Rightarrow> 'm
    \<Rightarrow> uimRecordLayout parsed \<times> 'm" where
  "layout_by_attributes ctxErr send fileID fallback [] =
     layout_by_record ctxErr send fileID fallback [0x00, 0x3F, 0xFF, 0x7F] sim_paths"
| "layout_by_attributes ctxErr send fileID fallback (p # ps) =
     guard_ctx ctxErr (try_m (GetFileAttributesWithSession send 0x00 fileID p) (\<lambda>r.
       case r of
         Inr a \<Rightarrow>
           if fa_RecordSize a > 0 \<and> fa_RecordCount a > 0
           then ret_m (ok \<lparr>ul_path = p, ul_recordSize = fa_RecordSize a, ul_recordCount = fa_RecordCount a, ul_firstRecord = None\<rparr>)
           else layout_by_attributes ctxErr send fileID fallback ps
       | Inl _ \<Rightarrow> layout_by_attributes ctxErr send fileID fallback ps))"

definition recordLayout :: "('m \<Rightarrow> go_error option) \<Rightarrow> 'm sender \<Rightarrow> u16 \<Rightarrow> u16 \<Rightarrow> 'm \<Rightarrow> uimRecordLayout parsed \<times> 'm" where
  "recordLayout ctxErr send fileID fallback =
     layout_by_attributes ctxErr send fileID fallback ([0x00, 0x3F, 0xFF, 0x7F] # sim_paths)"

text \<open>The loop over the records from number \<open>i\<close> on, with \<open>n\<close> left. It returns the records read so far
  and an error, if there is one.\<close>

fun record_loop :: "('m \<Rightarrow> go_error option) \<Rightarrow> 'm sender \<Rightarrow> u16 \<Rightarrow> uimRecordLayout \<Rightarrow> (nat \<Rightarrow> byte list \<Rightarrow> 'r option option)
    \<Rightarrow> nat \<Rightarrow> nat \<Rightarrow> 'r list \<Rightarrow> 'm \<Rightarrow> ('r list \<times> go_error option) option \<times> 'm" where
  "record_loop ctxErr send fileID layout decode 0 i records m = (Some (records, None), m)"
| "record_loop ctxErr send fileID layout decode (Suc n) i records m =
     (case ctxErr m of
        Some e \<Rightarrow> (Some (records, Some e), m)
      | None \<Rightarrow>
          try_m (if i = 1 \<and> ul_firstRecord layout \<noteq> None then ret_m (ok (the (ul_firstRecord layout)))
                 else readRecordAtPath send fileID (ul_path layout) (of_nat i) (ul_recordSize layout))
            (\<lambda>r m1. case r of
               Inl e \<Rightarrow> (Some (records, Some (case ctxErr m1 of Some c \<Rightarrow> c | None \<Rightarrow> e)), m1)
             | Inr data \<Rightarrow>
                 if length (trimSPNPadding data) = 0 then (Some (records, None), m1)
                 else (case decode i data of
                         None \<Rightarrow> (None, m1)
                       | Some rec \<Rightarrow>
                           record_loop ctxErr send fileID layout decode n (Suc i)
                             (records @ (case rec of Some x \<Rightarrow> [x] | None \<Rightarrow> [])) m1)) m)"

definition read_records :: "('m \<Rightarrow> go_error option) \<Rightarrow> 'm sender \<Rightarrow> u16 \<Rightarrow> u16 \<Rightarrow> (uimRecordLayout \<Rightarrow> uimRecordLayout)
    \<Rightarrow> (nat \<Rightarrow> byte list \<Rightarrow> 'r option option) \<Rightarrow> 'm \<Rightarrow> ('r list \<times> go_error option) option \<times> 'm" where
  "read_records ctxErr send fileID fallback adjust decode =
     try_m (recordLayout ctxErr send fileID fallback) (\<lambda>r m1. case r of
       Inl e \<Rightarrow> (Some ([], Some e), m1)
     | Inr l \<Rightarrow> record_loop ctxErr send fileID (adjust l) decode (min (unat (ul_recordCount l)) 32) 1 [] m1)"

definition readPNNRecords :: "gsm7 \<Rightarrow> ('m \<Rightarrow> go_error option) \<Rightarrow> 'm sender \<Rightarrow> u16 \<Rightarrow> 'm
    \<Rightarrow> (PNNRecord list \<times> go_error option) option \<times> 'm" where
  "readPNNRecords gsm7 ctxErr send fileID = read_records ctxErr send fileID 64 (\<lambda>l. l) (decodePNNRecord gsm7)"

definition readOPLRecords :: "('m \<Rightarrow> go_error option) \<Rightarrow> 'm sender \<Rightarrow> u16 \<Rightarrow> 'm
    \<Rightarrow> (OPLRecord list \<times> go_error option) option \<times> 'm" where
  "readOPLRecords ctxErr send fileID =
     read_records ctxErr send fileID 8 (\<lambda>l. if ul_recordSize l < 8 then l\<lparr>ul_recordSize := 8\<rparr> else l) decodeOPLRecord"

definition GetPNNRecords :: "gsm7 \<Rightarrow> ('m \<Rightarrow> go_error option) \<Rightarrow> 'm sender \<Rightarrow> 'm
    \<Rightarrow> (PNNRecord list \<times> go_error option) option \<times> 'm" where
  "GetPNNRecords gsm7 ctxErr send = readPNNRecords gsm7 ctxErr send 0x6FC5"

definition GetOPLRecords :: "('m \<Rightarrow> go_error option) \<Rightarrow> 'm sender \<Rightarrow> 'm \<Rightarrow> (OPLRecord list \<times> go_error option) option \<times> 'm" where
  "GetOPLRecords ctxErr send = readOPLRecords ctxErr send 0x6FC6"

section \<open>The home network\<close>

definition GetHomePLMN :: "'m sender \<Rightarrow> 'm \<Rightarrow> (string \<times> string) parsed \<times> 'm" where
  "GetHomePLMN send =
     try_m (readSIMTransparentFallback send 0x6FAD) (\<lambda>r. case r of
       Inl e \<Rightarrow> ret_m (Some (Inl (errorf ''mnc_length_unknown: read EF_AD'' e)))
     | Inr adData \<Rightarrow>
         if length adData < 4 \<or> (adData ! 3 \<noteq> 0x02 \<and> adData ! 3 \<noteq> 0x03)
         then ret_m (Some (Inl (ErrText ''mnc_length_unknown: EF_AD length is invalid'')))
         else try_m (GetIMSI send) (\<lambda>r. case r of
           Inl e \<Rightarrow> ret_m (Some (Inl (errorf ''read IMSI'' e)))
         | Inr imsi \<Rightarrow> ret_m (Some (homePLMNFromIMSIAndLength imsi (uint (adData ! 3))))))"

definition GetNativeMCCMNC :: "'m sender \<Rightarrow> 'm \<Rightarrow> (string \<times> string) parsed \<times> 'm" where
  "GetNativeMCCMNC send = GetHomePLMN send"

text \<open>A part of the metadata whose reading fails keeps its zero value.\<close>

definition or_zero :: "'a \<Rightarrow> go_error + 'a \<Rightarrow> 'a" where
  "or_zero z r = (case r of Inl _ \<Rightarrow> z | Inr x \<Rightarrow> x)"

definition records_result :: "('m \<Rightarrow> ('r list \<times> go_error option) option \<times> 'm) \<Rightarrow> 'm \<Rightarrow> 'r list parsed \<times> 'm" where
  "records_result f m =
     (case f m of
        (None, m1) \<Rightarrow> (None, m1)
      | (Some (rs, None), m1) \<Rightarrow> (ok rs, m1)
      | (Some (rs, Some e), m1) \<Rightarrow> (Some (Inl e), m1))"

definition GetSIMMetadata :: "gsm7 \<Rightarrow> ('m \<Rightarrow> go_error option) \<Rightarrow> 'm sender \<Rightarrow> 'm
    \<Rightarrow> (SIMMetadata \<times> go_error option) option \<times> 'm" where
  "GetSIMMetadata gsm7 ctxErr send =
     try_m (GetGID1 send) (\<lambda>g1.
     try_m (GetGID2 send) (\<lambda>g2.
     try_m (GetSIMServiceTable send) (\<lambda>st.
     try_m (records_result (GetPNNRecords gsm7 ctxErr send)) (\<lambda>pnn.
     try_m (records_result (GetOPLRecords ctxErr send)) (\<lambda>opl.
     try_m (GetHomePLMN send) (\<lambda>home.
       let meta = \<lparr>sm_NativeMCC = fst (or_zero ([], []) home), sm_NativeMNC = snd (or_zero ([], []) home),
                   sm_GID1 = or_zero [] g1, sm_GID2 = or_zero [] g2, sm_PNN = or_zero [] pnn, sm_OPL = or_zero [] opl,
                   sm_ServiceTable = or_zero None st\<rparr>
       in ret_m (Some (meta,
            if sm_NativeMCC meta = [] \<and> sm_NativeMNC meta = [] \<and> sm_GID1 meta = [] \<and> sm_GID2 meta = [] \<and>
               sm_ServiceTable meta = None \<and> sm_PNN meta = [] \<and> sm_OPL meta = []
            then Some (ErrText ''sim_metadata_empty'') else None))))))))"

end
