(* ===== verification/UimProofs.thy ===== *)
theory UimProofs
  imports Uim
begin

text \<open>
  Properties of the UIM service: where its parsers panic, refresh events read back, the IMSI and the home
  network of a card.
\<close>

section \<open>Where parsers panic\<close>

lemma parse_pin_state_safe [safe]: "off + 7 \<le> length v \<Longrightarrow> parse_pin_state v off \<noteq> None"
  unfolding parse_pin_state_def by (intro safe) auto

lemma card_status_apps_safe [safe]: "card_status_apps n off v \<noteq> None"
  by (induction n off v rule: card_status_apps.induct) (simp_all only: card_status_apps.simps, (intro safe; auto)+)

lemma card_status_value_safe [safe]: "card_status_value p \<noteq> None"
  unfolding card_status_value_def by (intro safe)

lemma card_status_value_length: "card_status_value p = Some (Inr v) \<Longrightarrow> 15 \<le> length v"
  by (auto simp: card_status_value_def checked_def need_tlv_def ok_def split: option.splits if_splits)

lemma card_status_safe [safe]: "parse_card_status p \<noteq> None" "parse_applications p \<noteq> None"
  unfolding parse_card_status_def card_status_details_def parse_applications_def parseUIMCardStatusApps_def
  by (intro safe; auto dest: card_status_value_length)+

lemma refresh_files_safe [safe]: "refresh_files n i off v \<noteq> None"
  by (induction n i off v rule: refresh_files.induct) (simp_all only: refresh_files.simps, (intro safe; auto)+)

lemma parseRefreshEventTLV_safe [safe]: "parseRefreshEventTLV v \<noteq> None"
  unfolding parseRefreshEventTLV_def by (intro safe) auto

lemma slot_entries_safe [safe]: "slot_entries n i off v \<noteq> None"
  by (induction n i off v rule: slot_entries.induct) (simp_all only: slot_entries.simps, (intro safe; auto)+)

lemma set_slot_safe [safe]: "i \<le> length slots \<Longrightarrow> set_slot slots i f \<noteq> None"
  unfolding set_slot_def by (intro safe) auto

lemma set_slot_length: "set_slot slots i f = Some slots' \<Longrightarrow> Suc i \<le> length slots'"
  by (auto simp: set_slot_def Let_def bind_eq_Some_conv at_def split: if_splits)

lemma slot_infos_safe: "i \<le> length slots \<Longrightarrow> slot_infos n i off v slots \<noteq> None"
proof (induction n arbitrary: i off slots)
  case (Suc n)
  then show ?case
    unfolding slot_infos.simps by (intro safe Suc.IH) (auto dest: set_slot_length)
qed simp

lemma slot_eids_safe: "i \<le> length slots \<Longrightarrow> slot_eids n i off v slots \<noteq> None"
proof (induction n arbitrary: i off slots)
  case (Suc n)
  then show ?case
    unfolding slot_eids.simps by (intro safe Suc.IH) (auto dest: set_slot_length)
qed simp

lemma parseSlotStatusTLVs_safe [safe]: "parseSlotStatusTLVs ts \<noteq> None"
  unfolding parseSlotStatusTLVs_def optional_slots_def
  by (intro safe) (use slot_infos_safe[of 0] slot_eids_safe[of 0] in auto)

lemma record_parts_safe [safe]:
  "parseUIMCardResult t \<noteq> None" "length_prefixed ts u name \<noteq> None" "i + 3 \<le> length v \<Longrightarrow> security_at v i \<noteq> None"
  unfolding parseUIMCardResult_def length_prefixed_def security_at_def by (intro safe; auto)+

lemma uim_responses_safe [safe]:
  "parseSupportedMessagesTLV p \<noteq> None" "parseGetSlotStatusResponse p \<noteq> None" "ParseUIMSlotStatusIndication q \<noteq> None"
  "ParseUIMRefreshIndication q \<noteq> None" "parseReadRecordResponse p \<noteq> None" "parseGetFileAttributesResponse p \<noteq> None"
  "parseOpenLogicalChannelResponse p \<noteq> None" "parseCloseLogicalChannelResponse p \<noteq> None" "parseSendAPDUResponse p \<noteq> None"
  "parse_register_events msk p \<noteq> None"
  unfolding parseSupportedMessagesTLV_def parseGetSlotStatusResponse_def ParseUIMSlotStatusIndication_def
    ParseUIMRefreshIndication_def parseReadRecordResponse_def parseGetFileAttributesResponse_def
    parseOpenLogicalChannelResponse_def parseCloseLogicalChannelResponse_def parseSendAPDUResponse_def
    parse_register_events_def
  by (intro safe; auto)+

lemma imsi_of_file_safe [safe]: "imsi_of_file data \<noteq> None"
  unfolding imsi_of_file_def by (intro safe) (auto simp: Suc_le_eq)

section \<open>A card with an identity\<close>

text \<open>The file of an IMSI: the length, then the digits behind a first nibble that says whether their
  number is odd.\<close>

definition imsi_file :: "nat list \<Rightarrow> byte list" where
  "imsi_file imsi =
     (let body = swapped_bcd ((if odd (length imsi) then 9 else 1) # imsi) in of_nat (length body) # body)"

lemma length_swapped_bcd: "length (swapped_bcd ds) = (length ds + 1) div 2"
  by (induction ds rule: swapped_bcd.induct) auto

lemma imsi_of_body:
  "unat n = length body \<Longrightarrow> body \<noteq> [] \<Longrightarrow> decodeSwappedBCD body = c # r \<Longrightarrow> imsi_of_file (n # body) = Some (Inr r)"
  by (simp add: imsi_of_file_def Suc_le_eq) (simp add: go_slice_def)

lemma imsi_of_imsi_file:
  assumes "\<forall>d \<in> set imsi. d < 10" "length imsi \<le> 500"
  shows "imsi_of_file (imsi_file imsi) = Some (Inr (digits imsi))"
proof -
  obtain x where x: "x = (if odd (length imsi) then 9 else 1 :: nat)" by simp
  let ?body = "swapped_bcd (x # imsi)"
  have l: "length ?body = (length imsi + 2) div 2" by (simp add: length_swapped_bcd)
  have "unat (of_nat (length ?body) :: byte) = length ?body"
    using assms(2) unfolding l by (intro unat_of_nat_byte) simp
  moreover have "decodeSwappedBCD ?body = digits (x # imsi)"
    using assms(1) x by (intro decodeSwappedBCD_swapped) auto
  moreover have "?body \<noteq> []" using l by auto
  ultimately show ?thesis
    unfolding imsi_file_def x[symmetric] Let_def
    by (intro imsi_of_body[where c = "digit_char x"]) (simp_all add: digits_def)
qed

section \<open>Refresh events\<close>

definition refresh_event_bytes :: "UIMRefreshIndication \<Rightarrow> byte list" where
  "refresh_event_bytes r =
     [ri_Stage r, ri_Mode r, ri_SessionType r, of_nat (length (ri_ApplicationIdentifier r))] @ ri_ApplicationIdentifier r @
     PutUint16 (of_nat (length (ri_Files r))) @ concat (map refresh_file_bytes (ri_Files r))"

lemma refresh_files_encode:
  assumes "\<forall>f \<in> set fs. length (rf_Path f) < 256"
  shows "refresh_files (length fs) i (length pre) (pre @ concat (map refresh_file_bytes fs)) =
    Some (Inr (fs, length pre + length (concat (map refresh_file_bytes fs))))"
  using assms
proof (induction fs arbitrary: i pre)
  case (Cons f fs)
  let ?n = "length (rf_Path f)" and ?k = "length pre" and ?r = "concat (map refresh_file_bytes fs)"
  let ?v = "pre @ concat (map refresh_file_bytes (f # fs))"
  have v: "?v = pre @ PutUint16 (rf_FileID f) @ of_nat ?n # rf_Path f @ ?r" by (simp add: refresh_file_bytes_def)
  have n: "unat (of_nat ?n :: byte) = ?n" using Cons.prems by simp
  have len: "length ?v = ?k + 3 + ?n + length ?r" unfolding v by simp
  have lb: "length (refresh_file_bytes f) = 3 + ?n" by (simp add: refresh_file_bytes_def)
  have id: "rd16 ?v ?k = Some (rf_FileID f)" unfolding v by (simp add: rd16_append)
  have pl: "at ?v (?k + 2) = Some (of_nat ?n)" unfolding v by (simp add: nth_append)
  have path: "sub ?v (?k + 3) (?k + 3 + ?n) = Some (rf_Path f)"
    using go_slice_mid[of "pre @ PutUint16 (rf_FileID f) @ [of_nat ?n]" "?k + 3" "rf_Path f" ?n ?r] len
    unfolding v by (simp add: sub_def)
  have rest: "refresh_files (length fs) (Suc i) (?k + 3 + ?n) ?v = Some (Inr (fs, ?k + 3 + ?n + length ?r))"
    using Cons.IH[of "Suc i" "pre @ refresh_file_bytes f"] Cons.prems lb by (simp add: add.assoc)
  show ?case
    using id pl path rest n len
    by (simp only: list.size refresh_files.simps)
      (simp add: try_parse_def ok_def lb)
qed simp

text \<open>A card with a network code of three MNC digits, for illustration.\<close>

definition demo_card :: "unit sender" where
  "demo_card msg tlvs m =
     (Inr \<lparr>pkt_ServiceType = 0x0B, pkt_ClientID = 1, pkt_TransactionID = 1, pkt_MessageID = msg, pkt_IsIndication = False,
       pkt_TLVs = [\<lparr>tlv_Type = 0x02, tlv_Value = [0, 0, 0, 0]\<rparr>,
         \<lparr>tlv_Type = 0x11, tlv_Value =
            (if FindTLV tlvs 0x02 = Some (buildUIMFileTLV 0x6FAD [0x00, 0x3F, 0xFF, 0x7F]) then [4, 0, 0, 0, 0, 3]
             else [5, 0, 4, 0x31, 0x01, 0x14, 0xF0])\<rparr>]\<rparr>, m)"

section \<open>Properties\<close>

text \<open>C28: The parsers of the UIM service return a value or an error on every packet, with one exception:
  the response to a transparent read, whose length field is added to 2 in 16 bits. Exactly when this sum
  wraps around, that is for a length of \<^verbatim>\<open>FFFE\<close> or \<^verbatim>\<open>FFFF\<close>, the slice has its end before its start and
  the program panics.\<close>

theorem uim_panics_only_on_wrap:
  "parse_card_status p \<noteq> None \<and> parse_applications p \<noteq> None \<and> parseSupportedMessagesTLV p \<noteq> None \<and>
   parseGetSlotStatusResponse p \<noteq> None \<and> ParseUIMSlotStatusIndication q \<noteq> None \<and> ParseUIMRefreshIndication q \<noteq> None \<and>
   parseReadRecordResponse p \<noteq> None \<and> parseGetFileAttributesResponse p \<noteq> None \<and>
   parseOpenLogicalChannelResponse p \<noteq> None \<and> parseSendAPDUResponse p \<noteq> None \<and> parse_register_events msk p \<noteq> None \<and>
   (parse_read_transparent p = None \<longleftrightarrow>
      check p = None \<and> (case FindTLV (pkt_TLVs p) 0x11 of
        Some tlv \<Rightarrow> 2 \<le> length (tlv_Value tlv) \<and> 0xFFFE \<le> Uint16 (tlv_Value tlv) | None \<Rightarrow> False))"
proof -
  have wrap: "unat (2 + c) < 2 \<longleftrightarrow> 0xFFFE \<le> c" for c :: u16
  proof -
    have "unat (2 + c) = (2 + unat c) mod 65536" by (simp add: unat_word_ariths)
    moreover have "(2 + x) mod 65536 < 2 \<longleftrightarrow> 65534 \<le> x" if "x < 65536" for x :: nat
    proof (cases "x < 65534")
      case False
      then obtain y where "x = 65534 + y" by (metis le_Suc_ex not_less)
      with that show ?thesis by simp
    qed simp
    ultimately show ?thesis using unat_u16_less[of c] by (simp add: word_le_nat_alt)
  qed
  have rd: "rd16 v 0 = Some (Uint16 v)" if len: "2 \<le> length v" for v
  proof -
    obtain a b r where v: "v = a # b # r" using len by (cases v rule: remdups_adj.cases) auto
    show ?thesis unfolding v by (simp add: rd16_def Uint16_def go_slice_def)
  qed
  have "(parse_read_transparent p = None) = (check p = None \<and> (case FindTLV (pkt_TLVs p) 0x11 of
        Some tlv \<Rightarrow> 2 \<le> length (tlv_Value tlv) \<and> 0xFFFE \<le> Uint16 (tlv_Value tlv) | None \<Rightarrow> False))"
    by (auto simp: parse_read_transparent_def checked_plain_def Let_def rd sub_def wrap[symmetric] not_less
        split: option.splits)
  then show ?thesis using card_status_safe uim_responses_safe by blast
qed

text \<open>A refresh event is read back with its application identifier and its files, as long as the
  identifier and the paths have at most 255 bytes and there are at most 65535 files; the files are
  encoded as in the registration request.\<close>

theorem refresh_event_roundtrip:
  assumes "length (ri_ApplicationIdentifier r) < 256" and "length (ri_Files r) < 65536"
    and "\<forall>f \<in> set (ri_Files r). length (rf_Path f) < 256"
  shows "parseRefreshEventTLV (refresh_event_bytes r) = Some (Inr r)"
proof -
  let ?aid = "ri_ApplicationIdentifier r" and ?fs = "concat (map refresh_file_bytes (ri_Files r))"
  let ?h = "[ri_Stage r, ri_Mode r, ri_SessionType r, of_nat (length ?aid)] @ ?aid"
  let ?c = "PutUint16 (of_nat (length (ri_Files r)))"
  have v: "refresh_event_bytes r = ?h @ ?c @ ?fs" by (simp add: refresh_event_bytes_def)
  have n: "unat (of_nat (length ?aid) :: byte) = length ?aid" using assms(1) by simp
  have files: "refresh_files (length (ri_Files r)) 0 (length (?h @ ?c)) ((?h @ ?c) @ ?fs) =
      Some (Inr (ri_Files r, length (?h @ ?c) + length ?fs))"
    by (rule refresh_files_encode[OF assms(3)])
  have l: "length (?h @ ?c) = 6 + length ?aid" by simp
  have cnt: "rd16 (?h @ ?c @ ?fs) (4 + length ?aid) = Some (of_nat (length (ri_Files r)))"
    using rd16_append[of ?h "4 + length ?aid" "?c @ ?fs"] by simp
  have aid: "sub (?h @ ?c @ ?fs) 4 (4 + length ?aid) = Some ?aid"
    using go_slice_mid[of "[ri_Stage r, ri_Mode r, ri_SessionType r, of_nat (length ?aid)]" 4 ?aid _ "?c @ ?fs"]
    by (simp add: sub_def)
  have "parseRefreshEventTLV (?h @ ?c @ ?fs) = Some (Inr
      \<lparr>ri_Stage = ri_Stage r, ri_Mode = ri_Mode r, ri_SessionType = ri_SessionType r, ri_ApplicationIdentifier = ?aid,
       ri_Files = ri_Files r\<rparr>)"
    using files[unfolded l] cnt aid n assms(2)
    by (simp add: parseRefreshEventTLV_def try_parse_def ok_def nth_append)
  then show ?thesis by (simp add: v)
qed

theorem refresh_event_roundtrip_witness:
  "parseRefreshEventTLV [0, 1, 0, 2, 0xA0, 0, 1, 0, 0x07, 0x6F, 2, 0x3F, 0] =
     Some (Inr \<lparr>ri_Stage = 0, ri_Mode = 1, ri_SessionType = 0, ri_ApplicationIdentifier = [0xA0, 0],
       ri_Files = [\<lparr>rf_FileID = 0x6F07, rf_Path = [0x3F, 0]\<rparr>]\<rparr>)"
proof -
  let ?r = "\<lparr>ri_Stage = 0, ri_Mode = 1, ri_SessionType = 0, ri_ApplicationIdentifier = [0xA0, 0],
       ri_Files = [\<lparr>rf_FileID = 0x6F07, rf_Path = [0x3F, 0]\<rparr>]\<rparr>"
  have "refresh_event_bytes ?r = [0, 1, 0, 2, 0xA0, 0, 1, 0, 0x07, 0x6F, 2, 0x3F, 0]" by code_simp
  with refresh_event_roundtrip[of ?r] show ?thesis by simp
qed

text \<open>C29: The home network of a card is the one of its IMSI, split where EF-AD says: with a card that
  answers the first reading of both files, the MCC is the first three digits and the MNC the next two or
  three, whatever the parity of the number of digits.\<close>

theorem home_plmn_of_card:
  assumes "ReadTransparentWithSession send 0x00 0x6FAD [0x00, 0x3F, 0xFF, 0x7F] m = (Some (Inr ad), m1)"
    and "ReadTransparentWithSession send 0x00 0x6F07 [0x00, 0x3F, 0xFF, 0x7F] m1 = (Some (Inr (imsi_file imsi)), m2)"
    and "4 \<le> length ad" and "ad ! 3 = of_nat n" and "n = 2 \<or> n = 3"
    and "\<forall>d \<in> set imsi. d < 10" and "3 + n \<le> length imsi" and "length imsi \<le> 15"
  shows "GetHomePLMN send m = (Some (Inr (digits (take 3 imsi), digits (take n (drop 3 imsi)))), m2)"
proof -
  have imsi: "GetIMSI send m1 = (Some (Inr (digits imsi)), m2)"
    using assms(2) imsi_of_imsi_file[OF assms(6)] assms(8)
    by (simp add: GetIMSI_def sim_paths_def then_m_def try_m_def ret_m_def ok_def)
  have "digits imsi \<noteq> []" using assms(7) by (auto simp: digits_def)
  then have c: "TrimSpace (digits imsi) = digits imsi" "decimalDigits (digits imsi)"
    using digits_clean[OF assms(6)] by (auto simp: digits_def)
  have u: "uint (ad ! 3) = int n" "ad ! 3 = 2 \<or> ad ! 3 = 3" using assms(4,5) by auto
  have h: "homePLMNFromIMSIAndLength (digits imsi) (int n) = Inr (digits (take 3 imsi), digits (take n (drop 3 imsi)))"
    using assms(5,7) c by (auto simp: homePLMNFromIMSIAndLength_def digits_def go_slice_def take_map drop_map drop_take Let_def)
  show ?thesis
    using assms(1,3) u imsi h
    by (simp add: GetHomePLMN_def readSIMTransparentFallback_def sim_paths_def try_m_def ret_m_def ok_def)
qed

theorem home_plmn_of_card_witness:
  "GetHomePLMN demo_card () = (Some (Inr (''310'', ''410'')), ())"
proof -
  have f: "imsi_file [3, 1, 0, 4, 1, 0] = [4, 0x31, 0x01, 0x14, 0xF0]" by code_simp
  have ad: "ReadTransparentWithSession demo_card 0x00 0x6FAD [0x00, 0x3F, 0xFF, 0x7F] () = (Some (Inr [0, 0, 0, 3]), ())"
    by code_simp
  have imsi: "ReadTransparentWithSession demo_card 0x00 0x6F07 [0x00, 0x3F, 0xFF, 0x7F] () =
      (Some (Inr (imsi_file [3, 1, 0, 4, 1, 0])), ())"
    unfolding f by code_simp
  have d: "digits (take 3 [3, 1, 0, 4, 1, 0]) = ''310''" "digits (take 3 (drop 3 [3, 1, 0, 4, 1, 0])) = ''410''"
    by code_simp+
  show ?thesis
    unfolding d[symmetric] by (rule home_plmn_of_card[OF ad imsi, of 3]) auto
qed

text \<open>A card that is present but whose status carries no application is reported ready: the state of its
  PIN is the zero value, which is that of a PIN that is not initialised.\<close>

theorem present_card_without_application:
  assumes "check p = None" and "FindTLV (pkt_TLVs p) 0x10 = Some tlv" and "15 \<le> length (tlv_Value tlv)"
    and "tlv_Value tlv ! 9 = 1" and "tlv_Value tlv ! 14 = 0"
  shows "\<exists>d. parse_card_status p = Some (Inr (d, SIMReady))"
  using assms
  by (auto simp: parse_card_status_def card_status_value_def checked_def need_tlv_def try_parse_def ok_def
      card_status_details_def parseUIMCardStatusApps_def choose_app_def no_app_def sim_status_of_def pin_sim_status_def Let_def)

end
