(* ===== verification/Dms.thy ===== *)
theory Dms
  imports UimProofs
begin

text \<open>
  The DMS service, \<^verbatim>\<open>src/pkg/qmi/dms.go\<close>: identity, capabilities, power, time, locks and user data of the
  device, and the state of the card, for which it goes on to the UIM service when the modem does not know
  the request. No packet makes it panic, user data is read back, and the query of the card status returns
  the client identifier it takes.
\<close>

section \<open>Constants\<close>

abbreviation (input) DMSGetCapabilities :: u16 where "DMSGetCapabilities \<equiv> 0x0020"
abbreviation (input) DMSGetManufacturer :: u16 where "DMSGetManufacturer \<equiv> 0x0021"
abbreviation (input) DMSGetModel :: u16 where "DMSGetModel \<equiv> 0x0022"
abbreviation (input) DMSGetDeviceRevID :: u16 where "DMSGetDeviceRevID \<equiv> 0x0023"
abbreviation (input) DMSGetMSISDN :: u16 where "DMSGetMSISDN \<equiv> 0x0024"
abbreviation (input) DMSGetDeviceSerialNumbers :: u16 where "DMSGetDeviceSerialNumbers \<equiv> 0x0025"
abbreviation (input) DMSGetPowerState :: u16 where "DMSGetPowerState \<equiv> 0x0026"
abbreviation (input) DMSUIMSetPINProtection :: u16 where "DMSUIMSetPINProtection \<equiv> 0x0027"
abbreviation (input) DMSUIMVerifyPIN :: u16 where "DMSUIMVerifyPIN \<equiv> 0x0028"
abbreviation (input) DMSUIMUnblockPIN :: u16 where "DMSUIMUnblockPIN \<equiv> 0x0029"
abbreviation (input) DMSUIMChangePIN :: u16 where "DMSUIMChangePIN \<equiv> 0x002A"
abbreviation (input) DMSUIMGetPINStatus :: u16 where "DMSUIMGetPINStatus \<equiv> 0x002B"
abbreviation (input) DMSGetHardwareRevision :: u16 where "DMSGetHardwareRevision \<equiv> 0x002C"
abbreviation (input) DMSGetOperatingMode :: u16 where "DMSGetOperatingMode \<equiv> 0x002D"
abbreviation (input) DMSSetOperatingMode :: u16 where "DMSSetOperatingMode \<equiv> 0x002E"
abbreviation (input) DMSGetTime :: u16 where "DMSGetTime \<equiv> 0x002F"
abbreviation (input) DMSGetPRLVersion :: u16 where "DMSGetPRLVersion \<equiv> 0x0030"
abbreviation (input) DMSGetActivationState :: u16 where "DMSGetActivationState \<equiv> 0x0031"
abbreviation (input) DMSGetUserLockState :: u16 where "DMSGetUserLockState \<equiv> 0x0034"
abbreviation (input) DMSSetUserLockState :: u16 where "DMSSetUserLockState \<equiv> 0x0035"
abbreviation (input) DMSSetUserLockCode :: u16 where "DMSSetUserLockCode \<equiv> 0x0036"
abbreviation (input) DMSReadUserData :: u16 where "DMSReadUserData \<equiv> 0x0037"
abbreviation (input) DMSWriteUserData :: u16 where "DMSWriteUserData \<equiv> 0x0038"
abbreviation (input) DMSUIMGetICCID :: u16 where "DMSUIMGetICCID \<equiv> 0x003C"
abbreviation (input) DMSUIMGetState :: u16 where "DMSUIMGetState \<equiv> 0x0044"
abbreviation (input) DMSGetBandCapabilities :: u16 where "DMSGetBandCapabilities \<equiv> 0x0045"
abbreviation (input) DMSGetFactorySKU :: u16 where "DMSGetFactorySKU \<equiv> 0x0046"
abbreviation (input) DMSGetSoftwareVersion :: u16 where "DMSGetSoftwareVersion \<equiv> 0x0051"
abbreviation (input) DMSGetMACAddress :: u16 where "DMSGetMACAddress \<equiv> 0x005C"

abbreviation (input) DMSPowerStateExternalSource :: u8 where "DMSPowerStateExternalSource \<equiv> 0x01"
abbreviation (input) DMSPowerStateBatteryConnected :: u8 where "DMSPowerStateBatteryConnected \<equiv> 0x02"
abbreviation (input) DMSPowerStateBatteryCharging :: u8 where "DMSPowerStateBatteryCharging \<equiv> 0x04"
abbreviation (input) DMSPowerStateFault :: u8 where "DMSPowerStateFault \<equiv> 0x08"

abbreviation (input) ModeOnline :: u8 where "ModeOnline \<equiv> 0x00"
abbreviation (input) ModeLowPower :: u8 where "ModeLowPower \<equiv> 0x01"

abbreviation (input) PINStatusNotVerified :: u8 where "PINStatusNotVerified \<equiv> 1"
abbreviation (input) PINStatusBlocked :: u8 where "PINStatusBlocked \<equiv> 4"
abbreviation (input) PINStatusPermBlocked :: u8 where "PINStatusPermBlocked \<equiv> 5"

section \<open>Data\<close>

fun SIMStatus_String :: "SIMStatus \<Rightarrow> string" where
  "SIMStatus_String SIMAbsent = ''absent''"
| "SIMStatus_String SIMNotReady = ''not_ready''"
| "SIMStatus_String SIMReady = ''ready''"
| "SIMStatus_String SIMPINRequired = ''pin_required''"
| "SIMStatus_String SIMPUKRequired = ''puk_required''"
| "SIMStatus_String SIMBlocked = ''blocked''"
| "SIMStatus_String SIMNetworkLocked = ''network_locked''"

definition ActivationState_String :: "u16 \<Rightarrow> string" where
  "ActivationState_String s =
     (if s = 0x00 then ''not_activated'' else if s = 0x01 then ''activated'' else if s = 0x02 then ''connecting''
      else if s = 0x03 then ''connected'' else if s = 0x04 then ''otasp_authenticated'' else if s = 0x05 then ''otasp_nam''
      else if s = 0x06 then ''otasp_mdn'' else if s = 0x07 then ''otasp_imsi'' else if s = 0x08 then ''otasp_prl''
      else if s = 0x09 then ''otasp_spc'' else if s = 0x0A then ''otasp_committed'' else ''unknown'')"

record PINInfo =
  pi_Status :: u8
  pi_VerifyRetriesLeft :: u8
  pi_UnblockRetriesLeft :: u8

text \<open>\<^verbatim>\<open>GetDeviceSerialNumbers\<close> fills these three of the fields of \<^verbatim>\<open>DeviceInfo\<close>; nothing in the package fills the others.\<close>

record DeviceInfo =
  di_IMEI :: string
  di_ESN :: string
  di_MEID :: string

record DeviceCapabilities =
  dc_MaxTxChannelRate :: u32
  dc_MaxRxChannelRate :: u32
  dc_DataServiceCapability :: u8
  dc_SIMCapability :: u8
  dc_RadioInterfaces :: "u8 list"

record PowerStateInfo =
  ps_Flags :: u8
  ps_BatteryLevel :: u8
  ps_ExternalSource :: bool
  ps_BatteryConnected :: bool
  ps_BatteryCharging :: bool
  ps_PowerFaultDetected :: bool

record TimeInfo =
  ti_DeviceTimeCount :: u64
  ti_TimeSource :: u16
  ti_SystemTime :: "u64 option"
  ti_UserTime :: "u64 option"

record PRLVersionInfo =
  pv_Version :: u16
  pv_PRLOnlyPreference :: "bool option"

record MACAddressInfo =
  ma_Type :: u32
  ma_Address :: "byte list"
  ma_AddressString :: string

record BandCapabilities =
  bc_BandCapability :: "u64 option"
  bc_LTEBandCapability :: "u64 option"
  bc_ExtendedLTEBandCapability :: "u16 list"
  bc_NR5GBandCapability :: "u16 list"

section \<open>Responses\<close>

text \<open>A response with an error that says that the modem does not know the request.\<close>

definition not_supported :: "go_error \<Rightarrow> bool" where
  "not_supported err = (case GetQMIError err of Some qe \<Rightarrow> qe_ErrorCode qe = QMIErrNotSupported | None \<Rightarrow> False)"

definition parse_pin_status :: "Packet \<Rightarrow> PINInfo parsed" where
  "parse_pin_status resp =
     (case check resp of
        Some err \<Rightarrow>
          if not_supported err then Some (Inl (ErrNotSupported ''get PIN status''))
          else Some (Inl (errorf ''UIM get PIN status failed'' err))
      | None \<Rightarrow> need_tlv (pkt_TLVs resp) 0x11 3 ''no PIN status in response'' (\<lambda>v. do {
          s \<leftarrow> at v 0; r \<leftarrow> at v 1; u \<leftarrow> at v 2;
          ok \<lparr>pi_Status = s, pi_VerifyRetriesLeft = r, pi_UnblockRetriesLeft = u\<rparr> }))"

text \<open>\<^verbatim>\<open>VerifyPIN\<close> adds the number of retries to the error when the modem reports it.\<close>

definition parse_verify_pin :: "Packet \<Rightarrow> unit parsed" where
  "parse_verify_pin resp =
     (case check resp of
        None \<Rightarrow> ok ()
      | Some err \<Rightarrow> do {
          retries \<leftarrow> opt_tlv (pkt_TLVs resp) 0x10 1 (\<lambda>v. at v 0);
          Some (Inl (case retries of
             Some n \<Rightarrow> errorf (''PIN verification failed, '' @ decimal (unat n) @ '' retries left'') err
           | None \<Rightarrow> errorf ''PIN verification failed'' err)) })"

definition parse_operating_mode :: "Packet \<Rightarrow> u8 parsed" where
  "parse_operating_mode = checked ''get operating mode failed'' (\<lambda>resp.
     need_tlv (pkt_TLVs resp) 0x01 1 ''no mode in response'' (\<lambda>v. do { m \<leftarrow> at v 0; ok m }))"

definition tlv_string :: "TLV list \<Rightarrow> u8 \<Rightarrow> string" where
  "tlv_string ts t = (case FindTLV ts t of Some tlv \<Rightarrow> string_of_bytes (tlv_Value tlv) | None \<Rightarrow> [])"

definition parse_serial_numbers :: "Packet \<Rightarrow> DeviceInfo parsed" where
  "parse_serial_numbers = checked ''get serial numbers failed'' (\<lambda>resp.
     ok \<lparr>di_IMEI = tlv_string (pkt_TLVs resp) 0x11, di_ESN = tlv_string (pkt_TLVs resp) 0x10,
          di_MEID = tlv_string (pkt_TLVs resp) 0x12\<rparr>)"

definition parse_string_value :: "string \<Rightarrow> Packet \<Rightarrow> string parsed" where
  "parse_string_value operation = checked (operation @ '' failed'') (\<lambda>resp.
     need_tlv (pkt_TLVs resp) 0x01 0 (operation @ '' response missing value TLV'') (\<lambda>v. ok (string_of_bytes v)))"

definition parse_nonempty_string :: "string \<Rightarrow> string \<Rightarrow> Packet \<Rightarrow> string parsed" where
  "parse_nonempty_string failed missing = checked failed (\<lambda>resp.
     need_tlv (pkt_TLVs resp) 0x01 1 missing (\<lambda>v. ok (string_of_bytes v)))"

definition parse_revision :: "Packet \<Rightarrow> (string \<times> string) parsed" where
  "parse_revision = checked ''get revision failed'' (\<lambda>resp.
     ok (tlv_string (pkt_TLVs resp) 0x01, tlv_string (pkt_TLVs resp) 0x10))"

definition parseDeviceCapabilitiesResponse :: "Packet \<Rightarrow> DeviceCapabilities parsed" where
  "parseDeviceCapabilitiesResponse = checked ''get capabilities failed'' (\<lambda>resp.
     need_tlv (pkt_TLVs resp) 0x01 11 ''capabilities TLV missing or too short'' (\<lambda>v. do {
       tx \<leftarrow> rd32 v 0; rx \<leftarrow> rd32 v 4; d \<leftarrow> at v 8; s \<leftarrow> at v 9; n \<leftarrow> at v 10;
       if length v < 11 + unat n then Some (Inl (ErrText ''radio interface list truncated''))
       else do {
         radios \<leftarrow> (if unat n > 0 then sub v 11 (11 + unat n) else Some []);
         ok \<lparr>dc_MaxTxChannelRate = tx, dc_MaxRxChannelRate = rx, dc_DataServiceCapability = d, dc_SIMCapability = s,
              dc_RadioInterfaces = radios\<rparr> } }))"

definition parsePowerStateResponse :: "Packet \<Rightarrow> PowerStateInfo parsed" where
  "parsePowerStateResponse = checked ''get power state failed'' (\<lambda>resp.
     need_tlv (pkt_TLVs resp) 0x01 2 ''power state TLV missing or too short'' (\<lambda>v. do {
       flags \<leftarrow> at v 0; level \<leftarrow> at v 1;
       ok \<lparr>ps_Flags = flags, ps_BatteryLevel = level,
            ps_ExternalSource = (flags AND DMSPowerStateExternalSource \<noteq> 0),
            ps_BatteryConnected = (flags AND DMSPowerStateBatteryConnected \<noteq> 0),
            ps_BatteryCharging = (flags AND DMSPowerStateBatteryCharging \<noteq> 0),
            ps_PowerFaultDetected = (flags AND DMSPowerStateFault \<noteq> 0)\<rparr> }))"

definition parseUint48LE :: "byte list \<Rightarrow> u64 option" where
  "parseUint48LE b =
     (if length b < 6 then Some 0
      else do {
        b0 \<leftarrow> at b 0; b1 \<leftarrow> at b 1; b2 \<leftarrow> at b 2; b3 \<leftarrow> at b 3; b4 \<leftarrow> at b 4; b5 \<leftarrow> at b 5;
        Some (ucast b0 OR push_bit 8 (ucast b1) OR push_bit 16 (ucast b2) OR push_bit 24 (ucast b3) OR
          push_bit 32 (ucast b4) OR push_bit 40 (ucast b5)) })"

definition parseTimeResponse :: "Packet \<Rightarrow> TimeInfo parsed" where
  "parseTimeResponse = checked ''get time failed'' (\<lambda>resp.
     need_tlv (pkt_TLVs resp) 0x01 8 ''device time TLV missing or too short'' (\<lambda>v. do {
       raw \<leftarrow> sub v 0 6; count \<leftarrow> parseUint48LE raw; src \<leftarrow> rd16 v 6;
       sys \<leftarrow> opt_tlv (pkt_TLVs resp) 0x10 8 (\<lambda>v. rd64 v 0);
       user \<leftarrow> opt_tlv (pkt_TLVs resp) 0x11 8 (\<lambda>v. rd64 v 0);
       ok \<lparr>ti_DeviceTimeCount = count, ti_TimeSource = src, ti_SystemTime = sys, ti_UserTime = user\<rparr> }))"

definition parsePRLVersionResponse :: "Packet \<Rightarrow> PRLVersionInfo parsed" where
  "parsePRLVersionResponse = checked ''get PRL version failed'' (\<lambda>resp.
     need_tlv (pkt_TLVs resp) 0x01 2 ''PRL version TLV missing or too short'' (\<lambda>v. do {
       version \<leftarrow> rd16 v 0;
       only \<leftarrow> opt_tlv (pkt_TLVs resp) 0x10 1 (\<lambda>v. map_option (\<lambda>b. b \<noteq> 0) (at v 0));
       ok \<lparr>pv_Version = version, pv_PRLOnlyPreference = only\<rparr> }))"

definition parseActivationStateResponse :: "Packet \<Rightarrow> u16 parsed" where
  "parseActivationStateResponse = checked ''get activation state failed'' (\<lambda>resp.
     need_tlv (pkt_TLVs resp) 0x01 2 ''activation state TLV missing or too short'' (\<lambda>v. do { s \<leftarrow> rd16 v 0; ok s }))"

definition parseUserLockStateResponse :: "Packet \<Rightarrow> bool parsed" where
  "parseUserLockStateResponse = checked ''get user lock state failed'' (\<lambda>resp.
     need_tlv (pkt_TLVs resp) 0x01 1 ''user lock state TLV missing or too short'' (\<lambda>v. do { s \<leftarrow> at v 0; ok (s \<noteq> 0) }))"

text \<open>\<^verbatim>\<open>net.HardwareAddr.String\<close>: lower case pairs of digits with colons between them.\<close>

fun HardwareAddr_String :: "byte list \<Rightarrow> string" where
  "HardwareAddr_String [] = []"
| "HardwareAddr_String [b] = hex2 b"
| "HardwareAddr_String (b # c # r) = hex2 b @ '':'' @ HardwareAddr_String (c # r)"

definition parseMACAddressResponse :: "u32 \<Rightarrow> Packet \<Rightarrow> MACAddressInfo parsed" where
  "parseMACAddressResponse macType = checked ''get MAC address failed'' (\<lambda>resp.
     need_tlv (pkt_TLVs resp) 0x10 1 ''MAC address TLV missing or too short'' (\<lambda>v. do {
       n \<leftarrow> at v 0;
       if length v < 1 + unat n then Some (Inl (ErrText ''MAC address TLV truncated''))
       else do {
         address \<leftarrow> sub v 1 (1 + unat n);
         ok \<lparr>ma_Type = macType, ma_Address = address, ma_AddressString = HardwareAddr_String address\<rparr> } }))"

definition parseUint16Array :: "byte list \<Rightarrow> u16 list parsed" where
  "parseUint16Array value =
     (if length value < 2 then Some (Inl (ErrText ''array TLV too short''))
      else do {
        n \<leftarrow> rd16 value 0;
        let count = unat n in
        if length value < 2 + count * 2
        then Some (Inl (ErrText (''array TLV truncated: need '' @ decimal (2 + count * 2) @ '' bytes, have '' @ decimal (length value))))
        else do { xs \<leftarrow> those (map (\<lambda>i. rd16 value (2 + 2 * i)) [0..<count]); ok xs } })"

definition uint16_array_tlv :: "TLV list \<Rightarrow> u8 \<Rightarrow> string \<Rightarrow> u16 list parsed" where
  "uint16_array_tlv ts t operation =
     (case FindTLV ts t of
        None \<Rightarrow> ok []
      | Some tlv \<Rightarrow> do {
          r \<leftarrow> parseUint16Array (tlv_Value tlv);
          Some (case r of Inl e \<Rightarrow> Inl (errorf operation e) | Inr xs \<Rightarrow> Inr xs) })"

definition parseBandCapabilitiesResponse :: "Packet \<Rightarrow> BandCapabilities parsed" where
  "parseBandCapabilitiesResponse = checked ''get band capabilities failed'' (\<lambda>resp. do {
     band \<leftarrow> opt_tlv (pkt_TLVs resp) 0x01 8 (\<lambda>v. rd64 v 0);
     lte \<leftarrow> opt_tlv (pkt_TLVs resp) 0x10 8 (\<lambda>v. rd64 v 0);
     try_parse (uint16_array_tlv (pkt_TLVs resp) 0x12 ''parse extended LTE band capability'') (\<lambda>ext.
     try_parse (uint16_array_tlv (pkt_TLVs resp) 0x13 ''parse NR5G band capability'') (\<lambda>nr5g.
       if band = None \<and> lte = None \<and> ext = [] \<and> nr5g = []
       then Some (Inl (ErrText ''no band capability TLVs in response''))
       else ok \<lparr>bc_BandCapability = band, bc_LTEBandCapability = lte, bc_ExtendedLTEBandCapability = ext,
                 bc_NR5GBandCapability = nr5g\<rparr>)) })"

definition parsePrefixedBytesResponse :: "u8 \<Rightarrow> nat \<Rightarrow> string \<Rightarrow> Packet \<Rightarrow> byte list parsed" where
  "parsePrefixedBytesResponse tlvType prefixSize operation = checked (operation @ '' failed'') (\<lambda>resp.
     need_tlv (pkt_TLVs resp) tlvType prefixSize (operation @ '' TLV missing or too short'') (\<lambda>v.
       if prefixSize \<noteq> 1 \<and> prefixSize \<noteq> 2
       then Some (Inl (ErrText (''unsupported prefix size '' @ decimal prefixSize)))
       else do {
         len \<leftarrow> (if prefixSize = 1 then map_option unat (at v 0) else map_option unat (rd16 v 0));
         if length v < prefixSize + len then Some (Inl (ErrText (operation @ '' TLV truncated'')))
         else do { b \<leftarrow> sub v prefixSize (prefixSize + len); ok b } }))"

section \<open>Methods\<close>

definition GetPINStatus :: "'m sender \<Rightarrow> 'm \<Rightarrow> PINInfo parsed \<times> 'm" where
  "GetPINStatus send = call send DMSUIMGetPINStatus [] parse_pin_status"

text \<open>A locked card is told apart by the state of its PIN.\<close>

definition locked_status :: "go_error + PINInfo \<Rightarrow> SIMStatus" where
  "locked_status r =
     (case r of
        Inr pin \<Rightarrow>
          if pi_Status pin = PINStatusNotVerified then SIMPINRequired
          else if pi_Status pin = PINStatusBlocked then SIMPUKRequired
          else if pi_Status pin = PINStatusPermBlocked then SIMBlocked
          else SIMPINRequired
      | Inl _ \<Rightarrow> SIMPINRequired)"

text \<open>\<open>newUIM\<close> is \<^verbatim>\<open>NewUIMService\<close>, which allocates a client identifier and gives a way to send UIM requests, and
  \<open>closeUIM\<close> is \<^verbatim>\<open>Close\<close>, which releases it: both belong to the client.\<close>

definition GetSIMStatus :: "'m sender \<Rightarrow> ('m \<Rightarrow> (go_error + 'm sender) \<times> 'm) \<Rightarrow> ('m \<Rightarrow> 'm) \<Rightarrow> 'm \<Rightarrow> SIMStatus parsed \<times> 'm" where
  "GetSIMStatus send newUIM closeUIM m =
     (case send DMSUIMGetState [] m of
        (Inl e, m1) \<Rightarrow> (Some (Inl e), m1)
      | (Inr resp, m1) \<Rightarrow>
         (case check resp of
            Some err \<Rightarrow>
              if not_supported err then
                (case newUIM m1 of
                   (Inl _, m2) \<Rightarrow> (Some (Inl (ErrNotSupported ''get SIM status'')), m2)
                 | (Inr uim, m2) \<Rightarrow> (let (r, m3) = GetCardStatus uim m2 in (r, closeUIM m3)))
              else (Some (Inl (errorf ''UIM get state failed'' err)), m1)
          | None \<Rightarrow>
             (case FindTLV (pkt_TLVs resp) 0x01 of
                None \<Rightarrow> (Some (Inl (ErrText ''no UIM state in response'')), m1)
              | Some tlv \<Rightarrow>
                 (if length (tlv_Value tlv) < 1 then (Some (Inl (ErrText ''no UIM state in response'')), m1)
                  else case at (tlv_Value tlv) 0 of
                    None \<Rightarrow> (None, m1)
                  | Some state \<Rightarrow>
                      if state = 0x00 then (ok SIMReady, m1)
                      else if state = 0x01 then try_m (GetPINStatus send) (\<lambda>r. ret_m (ok (locked_status r))) m1
                      else if state = 0x02 then (ok SIMAbsent, m1)
                      else (ok SIMNotReady, m1)))))"

definition VerifyPIN :: "'m sender \<Rightarrow> string \<Rightarrow> 'm \<Rightarrow> unit parsed \<times> 'm" where
  "VerifyPIN send pin m =
     (if length pin = 0 \<or> length pin > 8 then (Some (Inl (ErrText ''invalid PIN length'')), m)
      else call send DMSUIMVerifyPIN
        [\<lparr>tlv_Type = 0x01, tlv_Value = [0x01, of_nat (length pin)] @ bytes_of_string pin\<rparr>] parse_verify_pin m)"

definition GetOperatingMode :: "'m sender \<Rightarrow> 'm \<Rightarrow> u8 parsed \<times> 'm" where
  "GetOperatingMode send = call send DMSGetOperatingMode [] parse_operating_mode"

definition SetOperatingMode :: "'m sender \<Rightarrow> u8 \<Rightarrow> 'm \<Rightarrow> unit parsed \<times> 'm" where
  "SetOperatingMode send mode =
     call send DMSSetOperatingMode [NewTLVUint8 0x01 mode] (checked ''set operating mode failed'' acked)"

definition RadioPower :: "'m sender \<Rightarrow> bool \<Rightarrow> 'm \<Rightarrow> unit parsed \<times> 'm" where
  "RadioPower send on = SetOperatingMode send (if on then ModeOnline else ModeLowPower)"

definition SetPINProtection :: "'m sender \<Rightarrow> u8 \<Rightarrow> bool \<Rightarrow> string \<Rightarrow> 'm \<Rightarrow> unit parsed \<times> 'm" where
  "SetPINProtection send pinID enabled pin =
     call send DMSUIMSetPINProtection
       [\<lparr>tlv_Type = 0x01, tlv_Value = [pinID, if enabled then 1 else 0, of_nat (length pin)] @ bytes_of_string pin\<rparr>]
       (checked_plain acked)"

definition ChangePIN :: "'m sender \<Rightarrow> u8 \<Rightarrow> string \<Rightarrow> string \<Rightarrow> 'm \<Rightarrow> unit parsed \<times> 'm" where
  "ChangePIN send pinID oldPIN newPIN = call send DMSUIMChangePIN [two_codes pinID oldPIN newPIN] (checked_plain acked)"

definition UnblockPIN :: "'m sender \<Rightarrow> u8 \<Rightarrow> string \<Rightarrow> string \<Rightarrow> 'm \<Rightarrow> unit parsed \<times> 'm" where
  "UnblockPIN send pinID puk newPIN = call send DMSUIMUnblockPIN [two_codes pinID puk newPIN] (checked_plain acked)"

definition GetDeviceSerialNumbers :: "'m sender \<Rightarrow> 'm \<Rightarrow> DeviceInfo parsed \<times> 'm" where
  "GetDeviceSerialNumbers send = call send DMSGetDeviceSerialNumbers [] parse_serial_numbers"

definition getStringValue :: "'m sender \<Rightarrow> u16 \<Rightarrow> string \<Rightarrow> 'm \<Rightarrow> string parsed \<times> 'm" where
  "getStringValue send messageID operation = call send messageID [] (parse_string_value operation)"

definition GetIMSI :: "'m sender \<Rightarrow> 'm \<Rightarrow> string parsed \<times> 'm" where
  "GetIMSI send = call send 0x0043 [] (parse_nonempty_string ''DMS get IMSI failed'' ''no IMSI in response'')"

definition GetDeviceRevision :: "'m sender \<Rightarrow> 'm \<Rightarrow> (string \<times> string) parsed \<times> 'm" where
  "GetDeviceRevision send = call send DMSGetDeviceRevID [] parse_revision"

definition GetManufacturer :: "'m sender \<Rightarrow> 'm \<Rightarrow> string parsed \<times> 'm" where
  "GetManufacturer send = getStringValue send DMSGetManufacturer ''get manufacturer''"

definition GetModel :: "'m sender \<Rightarrow> 'm \<Rightarrow> string parsed \<times> 'm" where
  "GetModel send = getStringValue send DMSGetModel ''get model''"

definition GetHardwareRevision :: "'m sender \<Rightarrow> 'm \<Rightarrow> string parsed \<times> 'm" where
  "GetHardwareRevision send = getStringValue send DMSGetHardwareRevision ''get hardware revision''"

definition GetSoftwareVersion :: "'m sender \<Rightarrow> 'm \<Rightarrow> string parsed \<times> 'm" where
  "GetSoftwareVersion send = getStringValue send DMSGetSoftwareVersion ''get software version''"

definition GetMSISDN :: "'m sender \<Rightarrow> 'm \<Rightarrow> string parsed \<times> 'm" where
  "GetMSISDN send = getStringValue send DMSGetMSISDN ''get MSISDN''"

definition GetFactorySKU :: "'m sender \<Rightarrow> 'm \<Rightarrow> string parsed \<times> 'm" where
  "GetFactorySKU send = getStringValue send DMSGetFactorySKU ''get factory SKU''"

definition GetICCID :: "'m sender \<Rightarrow> 'm \<Rightarrow> string parsed \<times> 'm" where
  "GetICCID send = call send DMSUIMGetICCID [] (parse_nonempty_string ''DMS get ICCID failed'' ''no ICCID in response'')"

definition GetCapabilities :: "'m sender \<Rightarrow> 'm \<Rightarrow> DeviceCapabilities parsed \<times> 'm" where
  "GetCapabilities send = call send DMSGetCapabilities [] parseDeviceCapabilitiesResponse"

definition GetPowerState :: "'m sender \<Rightarrow> 'm \<Rightarrow> PowerStateInfo parsed \<times> 'm" where
  "GetPowerState send = call send DMSGetPowerState [] parsePowerStateResponse"

definition GetTime :: "'m sender \<Rightarrow> 'm \<Rightarrow> TimeInfo parsed \<times> 'm" where
  "GetTime send = call send DMSGetTime [] parseTimeResponse"

definition GetPRLVersion :: "'m sender \<Rightarrow> 'm \<Rightarrow> PRLVersionInfo parsed \<times> 'm" where
  "GetPRLVersion send = call send DMSGetPRLVersion [] parsePRLVersionResponse"

definition GetActivationState :: "'m sender \<Rightarrow> 'm \<Rightarrow> u16 parsed \<times> 'm" where
  "GetActivationState send = call send DMSGetActivationState [] parseActivationStateResponse"

definition GetUserLockState :: "'m sender \<Rightarrow> 'm \<Rightarrow> bool parsed \<times> 'm" where
  "GetUserLockState send = call send DMSGetUserLockState [] parseUserLockStateResponse"

definition SetUserLockState :: "'m sender \<Rightarrow> bool \<Rightarrow> string \<Rightarrow> 'm \<Rightarrow> unit parsed \<times> 'm" where
  "SetUserLockState send enabled lockCode m =
     (if length lockCode \<noteq> 4 then (Some (Inl (ErrText ''lock code must be exactly 4 characters'')), m)
      else call send DMSSetUserLockState
        [\<lparr>tlv_Type = 0x01, tlv_Value = [boolToUint8 enabled] @ bytes_of_string lockCode\<rparr>]
        (checked ''set user lock state failed'' acked) m)"

definition SetUserLockCode :: "'m sender \<Rightarrow> string \<Rightarrow> string \<Rightarrow> 'm \<Rightarrow> unit parsed \<times> 'm" where
  "SetUserLockCode send oldCode newCode m =
     (if length oldCode \<noteq> 4 \<or> length newCode \<noteq> 4
      then (Some (Inl (ErrText ''old and new lock code must both be exactly 4 characters'')), m)
      else call send DMSSetUserLockCode
        [\<lparr>tlv_Type = 0x01, tlv_Value = bytes_of_string oldCode @ bytes_of_string newCode\<rparr>]
        (checked ''set user lock code failed'' acked) m)"

definition ReadUserData :: "'m sender \<Rightarrow> 'm \<Rightarrow> byte list parsed \<times> 'm" where
  "ReadUserData send = call send DMSReadUserData [] (parsePrefixedBytesResponse 0x01 2 ''read user data'')"

definition WriteUserData :: "'m sender \<Rightarrow> byte list \<Rightarrow> 'm \<Rightarrow> unit parsed \<times> 'm" where
  "WriteUserData send data m =
     (if length data > 0xFFFF then (Some (Inl (ErrText (''user data too large: '' @ decimal (length data)))), m)
      else call send DMSWriteUserData [\<lparr>tlv_Type = 0x01, tlv_Value = PutUint16 (of_nat (length data)) @ data\<rparr>]
        (checked ''write user data failed'' acked) m)"

definition GetMACAddress :: "'m sender \<Rightarrow> u32 \<Rightarrow> 'm \<Rightarrow> MACAddressInfo parsed \<times> 'm" where
  "GetMACAddress send macType = call send DMSGetMACAddress [NewTLVUint32 0x01 macType] (parseMACAddressResponse macType)"

definition GetBandCapabilities :: "'m sender \<Rightarrow> 'm \<Rightarrow> BandCapabilities parsed \<times> 'm" where
  "GetBandCapabilities send = call send DMSGetBandCapabilities [] parseBandCapabilitiesResponse"

section \<open>Parsers do not panic\<close>

lemma parseUint48LE_safe [safe]: "parseUint48LE b \<noteq> None"
  unfolding parseUint48LE_def by (intro safe) auto

lemma parseUint16Array_safe [safe]: "parseUint16Array v \<noteq> None" "uint16_array_tlv ts t operation \<noteq> None"
proof -
  show "parseUint16Array v \<noteq> None" for v
    unfolding parseUint16Array_def by (intro safe) auto
  then show "uint16_array_tlv ts t operation \<noteq> None"
    unfolding uint16_array_tlv_def by (intro safe) auto
qed

lemma pin_status_safe [safe]: "parse_pin_status p \<noteq> None" "parse_verify_pin p \<noteq> None"
  unfolding parse_pin_status_def parse_verify_pin_def by (intro safe; auto)+

lemma GetCardStatus_safe: "fst (GetCardStatus send m) \<noteq> None"
  unfolding GetCardStatus_def GetCardStatusDetails_def then_m_def
  by (intro safe call_safe) (simp add: ret_m_def ok_def split: sum.split)

lemma GetSIMStatus_safe: "fst (GetSIMStatus send newUIM closeUIM m) \<noteq> None"
proof -
  have pin: "fst (try_m (GetPINStatus send) (\<lambda>r. ret_m (ok (locked_status r))) m1) \<noteq> None" for m1
    unfolding GetPINStatus_def by (intro safe call_safe)
  have card: "fst (let (r, m3) = GetCardStatus uim m2 in (r, closeUIM m3)) \<noteq> None" for uim m2
    using GetCardStatus_safe[of uim m2] by (simp add: split_beta)
  show ?thesis
    unfolding GetSIMStatus_def using pin card
    by (auto simp: ok_def split: prod.split sum.split option.split)
qed

section \<open>Properties\<close>

text \<open>No packet makes the DMS service panic, and the query of the card status, which may go on to the PIN
  status or to the UIM service, does not either.\<close>

theorem dms_never_panics:
  "parse_pin_status p \<noteq> None \<and> parse_verify_pin p \<noteq> None \<and> parse_operating_mode p \<noteq> None \<and> parse_serial_numbers p \<noteq> None \<and>
   parse_string_value operation p \<noteq> None \<and> parse_nonempty_string failed missing p \<noteq> None \<and> parse_revision p \<noteq> None \<and>
   parseDeviceCapabilitiesResponse p \<noteq> None \<and> parsePowerStateResponse p \<noteq> None \<and> parseTimeResponse p \<noteq> None \<and>
   parsePRLVersionResponse p \<noteq> None \<and> parseActivationStateResponse p \<noteq> None \<and> parseUserLockStateResponse p \<noteq> None \<and>
   parseMACAddressResponse macType p \<noteq> None \<and> parseBandCapabilitiesResponse p \<noteq> None \<and>
   parsePrefixedBytesResponse tlvType prefixSize operation p \<noteq> None \<and> fst (GetSIMStatus send newUIM closeUIM m) \<noteq> None"
  unfolding parse_operating_mode_def parse_serial_numbers_def parse_string_value_def parse_nonempty_string_def
    parse_revision_def parseDeviceCapabilitiesResponse_def parsePowerStateResponse_def parseTimeResponse_def
    parsePRLVersionResponse_def parseActivationStateResponse_def parseUserLockStateResponse_def parseMACAddressResponse_def
    parseBandCapabilitiesResponse_def parsePrefixedBytesResponse_def
  by (intro conjI; intro safe GetSIMStatus_safe; auto)

text \<open>A modem that keeps the user data: it stores the value of a write and returns it to a read.\<close>

definition user_data_modem :: "byte list sender" where
  "user_data_modem msg tlvs m =
     (if msg = DMSWriteUserData
      then (Inr (answer 0x02 msg []), case FindTLV tlvs 0x01 of Some tlv \<Rightarrow> tlv_Value tlv | None \<Rightarrow> m)
      else (Inr (answer 0x02 msg [\<lparr>tlv_Type = 0x01, tlv_Value = m\<rparr>]), m))"

text \<open>User data that is written is read back, up to the limit the code sets.\<close>

theorem user_data_roundtrip:
  assumes "length data \<le> 0xFFFF"
  shows "\<exists>m'. WriteUserData user_data_modem data m = (ok (), m') \<and> ReadUserData user_data_modem m' = (ok data, m')"
proof -
  let ?v = "PutUint16 (of_nat (length data)) @ data"
  have n: "unat (of_nat (length data) :: u16) = length data"
    using assms by (simp add: unat_of_nat take_bit_eq_mod)
  have "WriteUserData user_data_modem data m = (ok (), ?v)"
    using assms by (simp add: WriteUserData_def call_def user_data_modem_def checked_def acked_def ok_def)
  moreover have "ReadUserData user_data_modem ?v = (ok data, ?v)"
    using n go_slice_mid[of "PutUint16 (of_nat (length data))" 2 data "length data" "[]"]
    by (simp add: ReadUserData_def call_def user_data_modem_def parsePrefixedBytesResponse_def checked_def
        need_tlv_def answer_def[abs_def] check_answer[unfolded answer_def])
  ultimately show ?thesis by blast
qed

theorem user_data_roundtrip_witness:
  "\<exists>m'. WriteUserData user_data_modem [1, 2, 3] [] = (ok (), m') \<and> ReadUserData user_data_modem m' = (ok [1, 2, 3], m')"
  using user_data_roundtrip[of "[1, 2, 3]" "[]"] by simp

text \<open>The limit is two bytes too high: the TLV also holds the length, and its own length field wraps.\<close>

lemma user_data_limit_wraps:
  assumes "length data = 0xFFFE"
  shows "\<exists>tlv. WriteUserData send data m = call send DMSWriteUserData [tlv] (checked ''write user data failed'' acked) m \<and>
    take 3 (TLV_Marshal tlv) = [0x01, 0, 0] \<and> length (tlv_Value tlv) = 0x10000"
proof -
  let ?tlv = "\<lparr>tlv_Type = 0x01, tlv_Value = PutUint16 (of_nat (length data)) @ data\<rparr>"
  have "of_nat (length (tlv_Value ?tlv)) = (0 :: u16)" using assms by simp
  then have "take 3 (TLV_Marshal ?tlv) = [0x01, 0, 0]"
    unfolding TLV_Marshal_def by (simp add: PutUint16_def)
  then show ?thesis using assms by (intro exI[of _ ?tlv]) (simp add: WriteUserData_def)
qed

lemma snd_GetCardStatus: "snd (GetCardStatus send m) = snd (send UIMGetCardStatus [] m)"
  by (auto simp: GetCardStatus_def GetCardStatusDetails_def then_m_def try_m_def ret_m_def call_def
      split: prod.split option.split sum.split)

text \<open>C40: The query of the card status gives back every client identifier it takes: however \<open>held\<close> counts them, as
  long as opening the UIM service takes one, closing it returns one and requests take none.\<close>

theorem GetSIMStatus_releases:
  assumes send: "\<And>msg tlvs m. held (snd (send msg tlvs m)) = (held m :: nat)"
    and new_fails: "\<And>m e m'. newUIM m = (Inl e, m') \<Longrightarrow> held m' = held m"
    and new_holds: "\<And>m uim m'. newUIM m = (Inr uim, m') \<Longrightarrow> held m' = held m + 1"
    and uim: "\<And>m uim m' msg tlvs x. newUIM m = (Inr uim, m') \<Longrightarrow> held (snd (uim msg tlvs x)) = held x"
    and close: "\<And>m. held (closeUIM m) = held m - 1"
  shows "held (snd (GetSIMStatus send newUIM closeUIM m)) = held m"
proof -
  have pin: "held (snd (try_m (GetPINStatus send) (\<lambda>r. ret_m (ok (locked_status r))) x)) = held x" for x
    by (simp add: snd_try_ret GetPINStatus_def snd_call send)
  have card: "held (closeUIM (snd (GetCardStatus u m2))) = held m1" if "newUIM m1 = (Inr u, m2)" for u m1 m2
    using uim[OF that] new_holds[OF that] by (simp add: close snd_GetCardStatus)
  show ?thesis
    unfolding GetSIMStatus_def
    using pin card new_fails by (auto simp: split_beta send split: prod.split sum.split option.split)
qed

text \<open>A modem that does not know the request of DMS, and counts the client identifiers.\<close>

definition no_state_modem :: "nat sender" where
  "no_state_modem msg tlvs m =
     (Inr ((answer 0x02 msg [])\<lparr>pkt_TLVs := [\<lparr>tlv_Type = 0x02, tlv_Value = [1, 0, 0x5E, 0]\<rparr>]\<rparr>), m)"

theorem GetSIMStatus_releases_witness:
  "snd (GetSIMStatus no_state_modem (\<lambda>m. (Inr no_state_modem, m + 1)) (\<lambda>m. m - 1) 3) = 3"
  by (rule GetSIMStatus_releases[where held = "\<lambda>m. m"]) (auto simp: no_state_modem_def)

end
