(* ===== verification/Wms.thy ===== *)
theory Wms
  imports GoParse
begin

text \<open>
  The WMS service, \<^verbatim>\<open>src/pkg/qmi/wms.go\<close>: message storage, routes, acknowledgements, the address of the
  message centre and the methods that ask for them. No packet makes a parser panic; the two forms of a
  stored message are told apart and routes are read back as they were written.
\<close>

section \<open>Constants\<close>

abbreviation (input) WMSSetEventReport :: u16 where "WMSSetEventReport \<equiv> 0x0001"
abbreviation (input) WMSGetSupportedMessages :: u16 where "WMSGetSupportedMessages \<equiv> 0x001E"
abbreviation (input) WMSRawSend :: u16 where "WMSRawSend \<equiv> 0x0020"
abbreviation (input) WMSRawWrite :: u16 where "WMSRawWrite \<equiv> 0x0021"
abbreviation (input) WMSRawRead :: u16 where "WMSRawRead \<equiv> 0x0022"
abbreviation (input) WMSModifyTag :: u16 where "WMSModifyTag \<equiv> 0x0023"
abbreviation (input) WMSDelete :: u16 where "WMSDelete \<equiv> 0x0024"
abbreviation (input) WMSGetMessageProtocol :: u16 where "WMSGetMessageProtocol \<equiv> 0x0030"
abbreviation (input) WMSListMessages :: u16 where "WMSListMessages \<equiv> 0x0031"
abbreviation (input) WMSSetRoutes :: u16 where "WMSSetRoutes \<equiv> 0x0032"
abbreviation (input) WMSGetRoutes :: u16 where "WMSGetRoutes \<equiv> 0x0033"
abbreviation (input) WMSGetSMSCAddress :: u16 where "WMSGetSMSCAddress \<equiv> 0x0034"
abbreviation (input) WMSSendAck :: u16 where "WMSSendAck \<equiv> 0x0037"
abbreviation (input) WMSSendFromStorage :: u16 where "WMSSendFromStorage \<equiv> 0x0042"
abbreviation (input) WMSIndicationRegister :: u16 where "WMSIndicationRegister \<equiv> 0x0047"
abbreviation (input) WMSGetTransportNetworkRegistrationStatus :: u16 where "WMSGetTransportNetworkRegistrationStatus \<equiv> 0x004A"
abbreviation (input) TagTypeMTRead :: u8 where "TagTypeMTRead \<equiv> 0x00"
abbreviation (input) TagTypeMTNotRead :: u8 where "TagTypeMTNotRead \<equiv> 0x01"
abbreviation (input) MessageModeGW :: u8 where "MessageModeGW \<equiv> 0x01"

section \<open>Data\<close>

record rawReadMessageValue =
  rm_tag :: "u8 option"
  rm_data :: "byte list"

record WMSRoute =
  ro_MessageType :: u8
  ro_MessageClass :: u8
  ro_StorageType :: u8
  ro_ReceiptAction :: u8

record WMSRouteConfig =
  rt_Routes :: "WMSRoute list"
  rt_TransferStatusReportToClient :: "bool option"

record WMSAckRequest =
  ak_TransactionID :: u32
  ak_Protocol :: u8
  ak_Success :: bool
  ak_Failure3GPP2 :: "(u8 \<times> u8) option"
  ak_Failure3GPP :: "(u8 \<times> u8) option"
  ak_SMSOnIMS :: "bool option"

record WMSAckResult =
  ar_FailureCause :: "u8 option"

record WMSSendFromStorageResult =
  sr_MessageID :: "u16 option"
  sr_CDMACauseCode :: "u16 option"
  sr_CDMAErrorClass :: "u8 option"
  sr_GSMWCDMARPCause :: "u16 option"
  sr_GSMWCDMATPCause :: "u8 option"
  sr_DeliveryFailureType :: "u8 option"

section \<open>Requests\<close>

definition buildRawWriteMessageTLVs :: "u8 \<Rightarrow> u8 \<Rightarrow> byte list \<Rightarrow> TLV list" where
  "buildRawWriteMessageTLVs storageType format pdu =
     [\<lparr>tlv_Type = 0x01, tlv_Value = [storageType, format] @ PutUint16 (of_nat (length pdu)) @ pdu\<rparr>]"

definition route_bytes :: "WMSRoute \<Rightarrow> byte list" where
  "route_bytes r = [ro_MessageType r, ro_MessageClass r, ro_StorageType r, ro_ReceiptAction r]"

definition buildSetRoutesTLVs :: "WMSRoute list \<Rightarrow> bool \<Rightarrow> TLV list" where
  "buildSetRoutesTLVs routes transferStatusReportToClient =
     [\<lparr>tlv_Type = 0x01, tlv_Value = PutUint16 (of_nat (length routes)) @ concat (map route_bytes routes)\<rparr>,
      NewTLVUint8 0x10 (boolToUint8 transferStatusReportToClient)]"

definition buildSendAckTLVs :: "WMSAckRequest \<Rightarrow> TLV list" where
  "buildSendAckTLVs req =
     [\<lparr>tlv_Type = 0x01, tlv_Value = PutUint32 (ak_TransactionID req) @ [ak_Protocol req, boolToUint8 (ak_Success req)]\<rparr>] @
     (case ak_Failure3GPP2 req of
        Some (c, d) \<Rightarrow> if \<not> ak_Success req then [\<lparr>tlv_Type = 0x10, tlv_Value = [c, d]\<rparr>] else []
      | None \<Rightarrow> []) @
     (case ak_Failure3GPP req of
        Some (c, d) \<Rightarrow> if \<not> ak_Success req then [\<lparr>tlv_Type = 0x11, tlv_Value = [c, d]\<rparr>] else []
      | None \<Rightarrow> []) @
     (case ak_SMSOnIMS req of Some b \<Rightarrow> [NewTLVUint8 0x12 (boolToUint8 b)] | None \<Rightarrow> [])"

definition buildSendFromStorageTLVs :: "u8 \<Rightarrow> u32 \<Rightarrow> u8 \<Rightarrow> bool \<Rightarrow> TLV list" where
  "buildSendFromStorageTLVs storageType index mode smsOnIMS =
     [\<lparr>tlv_Type = 0x01, tlv_Value = [storageType] @ PutUint32 index @ [mode]\<rparr>, NewTLVUint8 0x10 (boolToUint8 smsOnIMS)]"

section \<open>Responses\<close>

definition message_entry :: "byte list \<Rightarrow> nat \<Rightarrow> (u32 \<times> u8) option" where
  "message_entry v off = do { idx \<leftarrow> rd32 v off; tag \<leftarrow> at v (off + 4); Some (idx, tag) }"

definition parse_message_list :: "Packet \<Rightarrow> (u32 \<times> u8) list parsed" where
  "parse_message_list = checked ''list messages failed'' (\<lambda>resp.
     map_option Inr (tlv_or [] (pkt_TLVs resp) 0x01 4 (\<lambda>v. do {
       count \<leftarrow> rd32 v 0; strided 5 (unat count) 4 v (message_entry v) })))"

definition isKnownMessageTagType :: "byte \<Rightarrow> bool" where
  "isKnownMessageTagType v \<longleftrightarrow> v \<in> {0x00, 0x01, 0x02, 0x03}"

definition parseRawReadMessageValue :: "byte list \<Rightarrow> rawReadMessageValue parsed" where
  "parseRawReadMessageValue val =
     (if length val < 3 then Some (Inl (ErrText ''raw message TLV too short''))
      else do {
        n \<leftarrow> rd16 val 1;
        if unat n \<le> length val - 3 then do {
          d \<leftarrow> sub val 3 (3 + unat n);
          ok \<lparr>rm_tag = None, rm_data = d\<rparr>
        }
        else do {
          tagged \<leftarrow> (if length val \<ge> 4 then do {
              k \<leftarrow> rd16 val 2;
              t \<leftarrow> at val 0;
              if isKnownMessageTagType t \<and> unat k \<le> length val - 4
              then do { d \<leftarrow> sub val 4 (4 + unat k); Some (Some \<lparr>rm_tag = Some t, rm_data = d\<rparr>) }
              else Some None
            } else Some None);
          (case tagged of
             Some r \<Rightarrow> ok r
           | None \<Rightarrow> do { d \<leftarrow> tail_from val 3; ok \<lparr>rm_tag = None, rm_data = d\<rparr> })
        }
      })"

definition parse_raw_read :: "Packet \<Rightarrow> rawReadMessageValue parsed" where
  "parse_raw_read = checked ''read message failed'' (\<lambda>resp.
     need_tlv (pkt_TLVs resp) 0x01 3 ''response missing raw message TLV or too short'' parseRawReadMessageValue)"

text \<open>A TLV that must be there and have \<open>n\<close> bytes, with a message for each.\<close>

definition sized_tlv :: "TLV list \<Rightarrow> u8 \<Rightarrow> nat \<Rightarrow> string \<Rightarrow> string \<Rightarrow> (byte list \<Rightarrow> 'a parsed) \<Rightarrow> 'a parsed" where
  "sized_tlv ts t n missing short f =
     (case FindTLV ts t of
        None \<Rightarrow> Some (Inl (ErrText missing))
      | Some tlv \<Rightarrow>
          if length (tlv_Value tlv) < n
          then Some (Inl (ErrText (short @ '' too short: '' @ decimal (length (tlv_Value tlv)))))
          else f (tlv_Value tlv))"

text \<open>A TLV that may be missing but, when it is there, must have \<open>n\<close> bytes.\<close>

definition opt_sized_tlv :: "TLV list \<Rightarrow> u8 \<Rightarrow> nat \<Rightarrow> string \<Rightarrow> (byte list \<Rightarrow> 'a option) \<Rightarrow> 'a option parsed" where
  "opt_sized_tlv ts t n short f =
     (case FindTLV ts t of
        None \<Rightarrow> ok None
      | Some tlv \<Rightarrow>
          if length (tlv_Value tlv) < n
          then Some (Inl (ErrText (short @ '' too short: '' @ decimal (length (tlv_Value tlv)))))
          else do { x \<leftarrow> f (tlv_Value tlv); ok (Some x) })"

lemma sized_tlv_safe [safe]: "(\<And>v. n \<le> length v \<Longrightarrow> f v \<noteq> None) \<Longrightarrow> sized_tlv ts t n a b f \<noteq> None"
  by (auto simp: sized_tlv_def split: option.split)

lemma opt_sized_tlv_safe [safe]: "(\<And>v. n \<le> length v \<Longrightarrow> f v \<noteq> None) \<Longrightarrow> opt_sized_tlv ts t n a f \<noteq> None"
  unfolding opt_sized_tlv_def by (intro safe) auto

definition parseRawWriteMessageResponse :: "Packet \<Rightarrow> u32 parsed" where
  "parseRawWriteMessageResponse = checked ''raw write message failed'' (\<lambda>resp.
     sized_tlv (pkt_TLVs resp) 0x01 4 ''raw write response missing memory index TLV'' ''raw write memory index TLV''
       (\<lambda>v. do { i \<leftarrow> rd32 v 0; ok i }))"

definition parseGetMessageProtocolResponse :: "Packet \<Rightarrow> u8 parsed" where
  "parseGetMessageProtocolResponse = checked ''get message protocol failed'' (\<lambda>resp.
     sized_tlv (pkt_TLVs resp) 0x01 1 ''message protocol TLV not found'' ''message protocol TLV'' (\<lambda>v. do { b \<leftarrow> at v 0; ok b }))"

definition route_at :: "byte list \<Rightarrow> nat \<Rightarrow> WMSRoute option" where
  "route_at v off = do {
     a \<leftarrow> at v off; b \<leftarrow> at v (off + 1); c \<leftarrow> at v (off + 2); d \<leftarrow> at v (off + 3);
     Some \<lparr>ro_MessageType = a, ro_MessageClass = b, ro_StorageType = c, ro_ReceiptAction = d\<rparr>
   }"

definition parseRouteList :: "byte list \<Rightarrow> WMSRoute list parsed" where
  "parseRouteList value =
     (if length value < 2 then Some (Inl (ErrText (''route list TLV too short: '' @ decimal (length value))))
      else do {
        count \<leftarrow> rd16 value 0;
        if length value < 2 + unat count * 4
        then Some (Inl (ErrText (''route list TLV truncated: need '' @ decimal (2 + unat count * 4) @ '', have '' @ decimal (length value))))
        else map_option Inr (those (map (\<lambda>i. route_at value (2 + i * 4)) [0..<unat count]))
      })"

definition parseGetRoutesResponse :: "Packet \<Rightarrow> WMSRouteConfig parsed" where
  "parseGetRoutesResponse = checked ''get routes failed'' (\<lambda>resp.
     try_parse (case FindTLV (pkt_TLVs resp) 0x01 of None \<Rightarrow> ok [] | Some tlv \<Rightarrow> parseRouteList (tlv_Value tlv)) (\<lambda>routes.
     try_parse (opt_sized_tlv (pkt_TLVs resp) 0x10 1 ''transfer status report TLV'' (\<lambda>v. map_option (\<lambda>b. b \<noteq> 0) (at v 0))) (\<lambda>report.
     ok \<lparr>rt_Routes = routes, rt_TransferStatusReportToClient = report\<rparr>)))"

text \<open>Two results can come with an error: the details of a failed transfer.\<close>

definition parseSendAckResponse :: "Packet \<Rightarrow> (WMSAckResult option \<times> go_error option) option" where
  "parseSendAckResponse resp = do {
     cause \<leftarrow> opt_sized_tlv (pkt_TLVs resp) 0x10 1 ''ack failure cause TLV'' (\<lambda>v. at v 0);
     Some (case cause of
       Inl e \<Rightarrow> (None, Some e)
     | Inr c \<Rightarrow> (Some \<lparr>ar_FailureCause = c\<rparr>, map_option (errorf ''send ack failed'') (check resp)))
   }"

definition part :: "string \<Rightarrow> ('a \<Rightarrow> string) \<Rightarrow> 'a option \<Rightarrow> string list" where
  "part name f v = (case v of Some x \<Rightarrow> [name @ ''=0x'' @ f x] | None \<Rightarrow> [])"

fun join_commas :: "string list \<Rightarrow> string" where
  "join_commas [] = []"
| "join_commas [s] = s"
| "join_commas (s # ss) = s @ '','' @ join_commas ss"

definition summarizeSendFromStorageResult :: "WMSSendFromStorageResult \<Rightarrow> string" where
  "summarizeSendFromStorageResult r =
     join_commas (part ''msg_id'' hex4 (sr_MessageID r) @ part ''cdma_cause'' hex4 (sr_CDMACauseCode r) @
       part ''cdma_class'' hex2 (sr_CDMAErrorClass r) @ part ''rp_cause'' hex4 (sr_GSMWCDMARPCause r) @
       part ''tp_cause'' hex2 (sr_GSMWCDMATPCause r) @ part ''delivery_failure_type'' hex2 (sr_DeliveryFailureType r))"

definition summarizeRawSendResponse :: "Packet \<Rightarrow> string option" where
  "summarizeRawSendResponse resp = do {
     msgid \<leftarrow> opt_tlv (pkt_TLVs resp) 0x01 2 (\<lambda>v. rd16 v 0);
     cause \<leftarrow> opt_tlv (pkt_TLVs resp) 0x10 2 (\<lambda>v. rd16 v 0);
     cls \<leftarrow> opt_tlv (pkt_TLVs resp) 0x11 1 (\<lambda>v. at v 0);
     rp \<leftarrow> opt_tlv (pkt_TLVs resp) 0x12 3 (\<lambda>v. rd16 v 0);
     tp \<leftarrow> opt_tlv (pkt_TLVs resp) 0x12 3 (\<lambda>v. at v 2);
     dft \<leftarrow> opt_tlv (pkt_TLVs resp) 0x13 1 (\<lambda>v. at v 0);
     Some (join_commas (part ''msg_id'' hex4 msgid @ part ''cdma_cause'' hex4 cause @ part ''cdma_class'' hex2 cls @
       part ''rp_cause'' hex4 rp @ part ''tp_cause'' hex2 tp @ part ''delivery_failure_type'' hex2 dft))
   }"

text \<open>\<^verbatim>\<open>fmt.Errorf("...: %w (%s)", err, summary)\<close> when there is a summary.\<close>

definition with_summary :: "string \<Rightarrow> go_error \<Rightarrow> string \<Rightarrow> go_error" where
  "with_summary pre e summary = (if summary \<noteq> [] then ErrWrap (pre @ '': '') e ('' ('' @ summary @ '')'') else errorf pre e)"

definition storage_result :: "TLV list \<Rightarrow> WMSSendFromStorageResult parsed" where
  "storage_result ts =
     try_parse (opt_sized_tlv ts 0x10 2 ''message ID TLV'' (\<lambda>v. rd16 v 0)) (\<lambda>msgid.
     try_parse (opt_sized_tlv ts 0x11 2 ''CDMA cause TLV'' (\<lambda>v. rd16 v 0)) (\<lambda>cause.
     try_parse (opt_sized_tlv ts 0x12 1 ''CDMA error class TLV'' (\<lambda>v. at v 0)) (\<lambda>cls.
     try_parse (opt_sized_tlv ts 0x13 3 ''GSM/WCDMA cause TLV'' (\<lambda>v. do { rp \<leftarrow> rd16 v 0; tp \<leftarrow> at v 2; Some (rp, tp) })) (\<lambda>gw.
     try_parse (opt_sized_tlv ts 0x14 1 ''delivery failure type TLV'' (\<lambda>v. at v 0)) (\<lambda>dft.
     ok \<lparr>sr_MessageID = msgid, sr_CDMACauseCode = cause, sr_CDMAErrorClass = cls, sr_GSMWCDMARPCause = map_option fst gw,
       sr_GSMWCDMATPCause = map_option snd gw, sr_DeliveryFailureType = dft\<rparr>)))))"

definition parseSendFromStorageResponse :: "Packet \<Rightarrow> (WMSSendFromStorageResult option \<times> go_error option) option" where
  "parseSendFromStorageResponse resp = do {
     res \<leftarrow> storage_result (pkt_TLVs resp);
     Some (case res of
       Inl e \<Rightarrow> (None, Some e)
     | Inr r \<Rightarrow> (Some r, map_option (\<lambda>e. with_summary ''send from storage failed'' e (summarizeSendFromStorageResult r)) (check resp)))
   }"

definition parse_raw_send :: "Packet \<Rightarrow> unit parsed" where
  "parse_raw_send resp =
     (case check resp of
        Some e \<Rightarrow> do { s \<leftarrow> summarizeRawSendResponse resp; Some (Inl (with_summary ''send message failed'' e s)) }
      | None \<Rightarrow> ok ())"

definition parseTransportNetworkRegistrationStatusResponse :: "Packet \<Rightarrow> u8 parsed" where
  "parseTransportNetworkRegistrationStatusResponse = checked ''get transport network registration status failed'' (\<lambda>resp.
     sized_tlv (pkt_TLVs resp) 0x10 1 ''transport network registration status TLV not found''
       ''transport network registration status TLV'' (\<lambda>v. do { b \<leftarrow> at v 0; ok b }))"

definition ParseWMSTransportNetworkRegistrationStatusIndication :: "Packet \<Rightarrow> u8 parsed" where
  "ParseWMSTransportNetworkRegistrationStatusIndication packet =
     sized_tlv (pkt_TLVs packet) 0x01 1 ''transport network registration indication TLV not found''
       ''transport network registration indication TLV'' (\<lambda>v. do { b \<leftarrow> at v 0; ok b })"

definition WMSTransportNetworkRegistration_String :: "u8 \<Rightarrow> string" where
  "WMSTransportNetworkRegistration_String s =
     (if s = 0 then ''no-service'' else if s = 1 then ''in-process'' else if s = 2 then ''failure''
      else if s = 3 then ''limited-service'' else if s = 4 then ''full-service'' else ''unknown'')"

definition parseWMSSupportedMessagesResponse :: "Packet \<Rightarrow> u8 list parsed" where
  "parseWMSSupportedMessagesResponse = checked ''get supported messages failed'' (\<lambda>resp.
     need_tlv (pkt_TLVs resp) 0x10 2 ''supported messages response missing list TLV'' (\<lambda>v. do {
       count \<leftarrow> rd16 v 0;
       if length v < 2 + unat count
       then Some (Inl (ErrText (''supported messages TLV truncated: need '' @ decimal (2 + unat count) @ '', have '' @ decimal (length v))))
       else map_option Inr (sub v 2 (2 + unat count))
     }))"

definition parseWMSSMSCAddressValue :: "byte list \<Rightarrow> string parsed" where
  "parseWMSSMSCAddressValue value =
     (if length value < 4 then Some (Inl (ErrText (''SMSC address TLV too short: '' @ decimal (length value))))
      else do {
        digitsLen \<leftarrow> at value 3;
        if length value < 4 + unat digitsLen
        then Some (Inl (ErrText (''SMSC address TLV truncated: need '' @ decimal (4 + unat digitsLen) @ '', have '' @ decimal (length value))))
        else do {
          raw \<leftarrow> rdstr value 4 (4 + unat digitsLen);
          ty \<leftarrow> rdstr value 0 3;
          let digits = TrimSpace raw
          in if digits = [] then Some (Inl (ErrText ''SMSC address TLV contains an empty address''))
             else ok (if TrimSpace ty = ''145'' \<and> \<not> prefix ''+'' digits then ''+'' @ digits else digits)
        }
      })"

definition parseGetSMSCAddressResponse :: "Packet \<Rightarrow> string parsed" where
  "parseGetSMSCAddressResponse = checked ''get SMSC address failed'' (\<lambda>resp.
     need_tlv (pkt_TLVs resp) 0x01 0 ''get SMSC address response missing address TLV'' parseWMSSMSCAddressValue)"

section \<open>Methods\<close>

definition GetSupportedMessages :: "'m sender \<Rightarrow> 'm \<Rightarrow> u8 list parsed \<times> 'm" where
  "GetSupportedMessages send = call send WMSGetSupportedMessages [] parseWMSSupportedMessagesResponse"

definition ListMessages :: "'m sender \<Rightarrow> u8 \<Rightarrow> u8 \<Rightarrow> 'm \<Rightarrow> (u32 \<times> u8) list parsed \<times> 'm" where
  "ListMessages send storageType tagType =
     call send WMSListMessages
       [\<lparr>tlv_Type = 0x01, tlv_Value = [storageType]\<rparr>, \<lparr>tlv_Type = 0x11, tlv_Value = [tagType]\<rparr>] parse_message_list"

definition ListMessagesAuto :: "'m sender \<Rightarrow> u8 \<Rightarrow> 'm \<Rightarrow> (u32 \<times> u8) list parsed \<times> 'm" where
  "ListMessagesAuto send storageType =
     (let storage = \<lparr>tlv_Type = 0x01, tlv_Value = [storageType]\<rparr>;
          mode = \<lparr>tlv_Type = 0x10, tlv_Value = [MessageModeGW]\<rparr>
      in attempt_m (\<lambda>tlvs. call send WMSListMessages tlvs parse_message_list)
        [storage, \<lparr>tlv_Type = 0x11, tlv_Value = [TagTypeMTNotRead]\<rparr>]
        [[storage, \<lparr>tlv_Type = 0x11, tlv_Value = [TagTypeMTNotRead]\<rparr>, mode],
         [storage, \<lparr>tlv_Type = 0x02, tlv_Value = [TagTypeMTNotRead]\<rparr>],
         [storage, \<lparr>tlv_Type = 0x02, tlv_Value = [TagTypeMTNotRead]\<rparr>, mode],
         [storage, \<lparr>tlv_Type = 0x11, tlv_Value = [TagTypeMTRead]\<rparr>],
         [storage, \<lparr>tlv_Type = 0x11, tlv_Value = [TagTypeMTRead]\<rparr>, mode]])"

definition RawReadMessageMeta :: "'m sender \<Rightarrow> u8 \<Rightarrow> u32 \<Rightarrow> 'm \<Rightarrow> rawReadMessageValue parsed \<times> 'm" where
  "RawReadMessageMeta send storageType index =
     call send WMSRawRead
       [\<lparr>tlv_Type = 0x01, tlv_Value = [storageType] @ PutUint32 index\<rparr>, \<lparr>tlv_Type = 0x10, tlv_Value = [0x01]\<rparr>]
       parse_raw_read"

definition RawReadMessage :: "'m sender \<Rightarrow> u8 \<Rightarrow> u32 \<Rightarrow> 'm \<Rightarrow> byte list parsed \<times> 'm" where
  "RawReadMessage send storageType index =
     then_m (RawReadMessageMeta send storageType index) (\<lambda>r. ret_m (ok (rm_data r)))"

definition delete_attempts :: "'m sender \<Rightarrow> TLV list \<Rightarrow> TLV list \<Rightarrow> 'm \<Rightarrow> unit parsed \<times> 'm" where
  "delete_attempts send a b = attempt_m (\<lambda>tlvs. call send WMSDelete tlvs (checked_plain acked)) a [b]"

definition DeleteMessageByIndex :: "'m sender \<Rightarrow> u8 \<Rightarrow> u32 \<Rightarrow> u8 \<Rightarrow> 'm \<Rightarrow> unit parsed \<times> 'm" where
  "DeleteMessageByIndex send storageType index mode =
     delete_attempts send
       [NewTLVUint8 0x01 storageType, NewTLVUint32 0x10 index, NewTLVUint8 0x12 mode]
       [NewTLVUint8 0x01 storageType, NewTLVUint32 0x02 index, NewTLVUint8 0x04 mode]"

definition DeleteMessage :: "'m sender \<Rightarrow> u8 \<Rightarrow> u32 \<Rightarrow> 'm \<Rightarrow> unit parsed \<times> 'm" where
  "DeleteMessage send storageType index = DeleteMessageByIndex send storageType index MessageModeGW"

definition DeleteMessagesByTag :: "'m sender \<Rightarrow> u8 \<Rightarrow> u8 \<Rightarrow> u8 \<Rightarrow> 'm \<Rightarrow> unit parsed \<times> 'm" where
  "DeleteMessagesByTag send storageType tag mode =
     delete_attempts send
       [NewTLVUint8 0x01 storageType, NewTLVUint8 0x11 tag, NewTLVUint8 0x12 mode]
       [NewTLVUint8 0x01 storageType, NewTLVUint8 0x03 tag, NewTLVUint8 0x04 mode]"

definition ModifyMessageTag :: "'m sender \<Rightarrow> u8 \<Rightarrow> u32 \<Rightarrow> u8 \<Rightarrow> 'm \<Rightarrow> unit parsed \<times> 'm" where
  "ModifyMessageTag send storageType index newTag =
     (let modeTLV = \<lparr>tlv_Type = 0x10, tlv_Value = [0x01]\<rparr>;
          combined = \<lparr>tlv_Type = 0x01, tlv_Value = [storageType] @ PutUint32 index @ [newTag]\<rparr>;
          info = \<lparr>tlv_Type = 0x03, tlv_Value = [storageType] @ PutUint32 index\<rparr>
      in attempt_m (\<lambda>tlvs. call send WMSModifyTag tlvs (checked_plain acked))
        [combined, modeTLV]
        [[combined],
         [NewTLVUint8 0x01 newTag, info, modeTLV],
         [NewTLVUint8 0x01 newTag, info],
         [NewTLVUint8 0x01 newTag, NewTLVUint32 0x02 0, info, modeTLV]])"

definition GetSMSCAddress :: "'m sender \<Rightarrow> 'm \<Rightarrow> string parsed \<times> 'm" where
  "GetSMSCAddress send = call send WMSGetSMSCAddress [] parseGetSMSCAddressResponse"

definition RegisterEventReport :: "'m sender \<Rightarrow> 'm \<Rightarrow> unit parsed \<times> 'm" where
  "RegisterEventReport send =
     call send WMSSetEventReport [NewTLVUint8 0x10 0x01] (checked ''register event report failed'' acked)"

definition RawWriteMessage :: "'m sender \<Rightarrow> u8 \<Rightarrow> u8 \<Rightarrow> byte list \<Rightarrow> 'm \<Rightarrow> u32 parsed \<times> 'm" where
  "RawWriteMessage send storageType format pdu =
     call send WMSRawWrite (buildRawWriteMessageTLVs storageType format pdu) parseRawWriteMessageResponse"

definition GetMessageProtocol :: "'m sender \<Rightarrow> 'm \<Rightarrow> u8 parsed \<times> 'm" where
  "GetMessageProtocol send = call send WMSGetMessageProtocol [] parseGetMessageProtocolResponse"

definition SetRoutes :: "'m sender \<Rightarrow> WMSRoute list \<Rightarrow> bool \<Rightarrow> 'm \<Rightarrow> unit parsed \<times> 'm" where
  "SetRoutes send routes report = call send WMSSetRoutes (buildSetRoutesTLVs routes report) (checked ''set routes failed'' acked)"

definition GetRoutes :: "'m sender \<Rightarrow> 'm \<Rightarrow> WMSRouteConfig parsed \<times> 'm" where
  "GetRoutes send = call send WMSGetRoutes [] parseGetRoutesResponse"

definition call_with :: "'m sender \<Rightarrow> u16 \<Rightarrow> TLV list \<Rightarrow> (Packet \<Rightarrow> ('a option \<times> go_error option) option) \<Rightarrow> 'm
    \<Rightarrow> ('a option \<times> go_error option) option \<times> 'm" where
  "call_with send msg tlvs parse m =
     (case send msg tlvs m of
        (Inl e, m') \<Rightarrow> (Some (None, Some e), m')
      | (Inr resp, m') \<Rightarrow> (parse resp, m'))"

definition SendAck :: "'m sender \<Rightarrow> WMSAckRequest \<Rightarrow> 'm \<Rightarrow> (WMSAckResult option \<times> go_error option) option \<times> 'm" where
  "SendAck send req = call_with send WMSSendAck (buildSendAckTLVs req) parseSendAckResponse"

definition SendFromStorage :: "'m sender \<Rightarrow> u8 \<Rightarrow> u32 \<Rightarrow> u8 \<Rightarrow> bool \<Rightarrow> 'm
    \<Rightarrow> (WMSSendFromStorageResult option \<times> go_error option) option \<times> 'm" where
  "SendFromStorage send storageType index mode smsOnIMS =
     call_with send WMSSendFromStorage (buildSendFromStorageTLVs storageType index mode smsOnIMS) parseSendFromStorageResponse"

definition IndicationRegister :: "'m sender \<Rightarrow> bool \<Rightarrow> 'm \<Rightarrow> unit parsed \<times> 'm" where
  "IndicationRegister send report =
     call send WMSIndicationRegister [NewTLVUint8 0x11 (boolToUint8 report)] (checked ''indication register failed'' acked)"

definition GetTransportNetworkRegistrationStatus :: "'m sender \<Rightarrow> 'm \<Rightarrow> u8 parsed \<times> 'm" where
  "GetTransportNetworkRegistrationStatus send =
     call send WMSGetTransportNetworkRegistrationStatus [] parseTransportNetworkRegistrationStatusResponse"

definition SendRawMessage :: "'m sender \<Rightarrow> u8 \<Rightarrow> byte list \<Rightarrow> 'm \<Rightarrow> unit parsed \<times> 'm" where
  "SendRawMessage send format pdu =
     call send WMSRawSend [\<lparr>tlv_Type = 0x01, tlv_Value = [format] @ PutUint16 (of_nat (length pdu)) @ pdu\<rparr>] parse_raw_send"

section \<open>Parsers do not panic\<close>

lemma wms_parts_safe [safe]:
  "off + 5 \<le> length v \<Longrightarrow> message_entry v off \<noteq> None"
  "off + 4 \<le> length v \<Longrightarrow> route_at v off \<noteq> None"
  "parseRawReadMessageValue v \<noteq> None"
  "parseWMSSMSCAddressValue v \<noteq> None"
  "storage_result ts \<noteq> None"
  "summarizeRawSendResponse p \<noteq> None"
  unfolding message_entry_def route_at_def parseRawReadMessageValue_def parseWMSSMSCAddressValue_def storage_result_def
    summarizeRawSendResponse_def
  by (intro safe; auto)+

lemma parseRouteList_safe [safe]: "parseRouteList v \<noteq> None"
  unfolding parseRouteList_def by (intro safe) auto

section \<open>Properties\<close>

text \<open>No packet makes the WMS service panic.\<close>

theorem wms_never_panics:
  "parse_message_list p \<noteq> None \<and> parse_raw_read p \<noteq> None \<and> parseRawWriteMessageResponse p \<noteq> None \<and>
   parseGetMessageProtocolResponse p \<noteq> None \<and> parseGetRoutesResponse p \<noteq> None \<and> parseSendAckResponse p \<noteq> None \<and>
   parseSendFromStorageResponse p \<noteq> None \<and> parse_raw_send p \<noteq> None \<and>
   parseTransportNetworkRegistrationStatusResponse p \<noteq> None \<and>
   ParseWMSTransportNetworkRegistrationStatusIndication p \<noteq> None \<and> parseWMSSupportedMessagesResponse p \<noteq> None \<and>
   parseGetSMSCAddressResponse p \<noteq> None"
  unfolding parse_message_list_def parse_raw_read_def parseRawWriteMessageResponse_def parseGetMessageProtocolResponse_def
    parseGetRoutesResponse_def parseSendAckResponse_def parseSendFromStorageResponse_def parse_raw_send_def
    parseTransportNetworkRegistrationStatusResponse_def ParseWMSTransportNetworkRegistrationStatusIndication_def
    parseWMSSupportedMessagesResponse_def parseGetSMSCAddressResponse_def
  by (intro conjI; intro safe; auto)

text \<open>The two forms of a stored message are told apart: a message of up to 255 bytes is read with
  its tag when it comes with one and without when it does not. The form without a tag is tried first; a
  tagged message is not taken for one, since the low byte of its length would count 256-fold.\<close>

theorem raw_message_forms:
  assumes "0 < length pdu" and "length pdu < 256" and "isKnownMessageTagType tag"
  shows "parseRawReadMessageValue ([format] @ PutUint16 (of_nat (length pdu)) @ pdu) = ok \<lparr>rm_tag = None, rm_data = pdu\<rparr> \<and>
    parseRawReadMessageValue ([tag, format] @ PutUint16 (of_nat (length pdu)) @ pdu) = ok \<lparr>rm_tag = Some tag, rm_data = pdu\<rparr>"
proof
  let ?n = "length pdu" and ?l = "of_nat (length pdu) :: u16"
  have n: "unat ?l = ?n" using assms(2) by simp
  have hd: "rd16 ([format] @ PutUint16 ?l @ pdu) 1 = Some ?l"
    using rd16_append[of "[format]" 1 "PutUint16 ?l @ pdu"] by simp
  show "parseRawReadMessageValue ([format] @ PutUint16 ?l @ pdu) = ok \<lparr>rm_tag = None, rm_data = pdu\<rparr>"
    using hd n go_slice_mid[of "[format] @ PutUint16 ?l" 3 pdu ?n "[]"]
    by (simp add: parseRawReadMessageValue_def sub_def)
  have low: "ucast ?l = (of_nat ?n :: byte)" and high: "ucast (drop_bit 8 ?l) = (0 :: byte)"
    using assms(2) n by (simp_all only: word_unat_eq_iff unsigned_ucast_eq unsigned_drop_bit_eq)
      (simp_all add: take_bit_eq_mod drop_bit_eq_div)
  have put: "PutUint16 ?l = [of_nat ?n, 0]" by (simp add: PutUint16_def low high)
  have first: "rd16 ([tag, format] @ PutUint16 ?l @ pdu) 1 = Some (Uint16 [format, of_nat ?n])"
    unfolding put by (simp add: rd16_def)
  have big: "\<not> unat (Uint16 [format, of_nat ?n]) \<le> ?n + 1"
  proof -
    have "unat (of_nat ?n :: byte) = ?n" using assms(2) by simp
    moreover have "0 < ?n" using assms(1) by simp
    ultimately show ?thesis by (simp only: unat_Uint16 list.sel nth_Cons_0 nth_Cons_Suc One_nat_def)
  qed
  have sec: "rd16 ([tag, format] @ PutUint16 ?l @ pdu) 2 = Some ?l"
    using rd16_append[of "[tag, format]" 2 "PutUint16 ?l @ pdu"] by simp
  show "parseRawReadMessageValue ([tag, format] @ PutUint16 ?l @ pdu) = ok \<lparr>rm_tag = Some tag, rm_data = pdu\<rparr>"
    using first big sec n assms(3) go_slice_mid[of "[tag, format] @ PutUint16 ?l" 4 pdu ?n "[]"]
    by (simp add: parseRawReadMessageValue_def sub_def)
qed

theorem raw_message_forms_witness:
  "parseRawReadMessageValue [6, 2, 0, 0x11, 0x22] = ok \<lparr>rm_tag = None, rm_data = [0x11, 0x22]\<rparr> \<and>
   parseRawReadMessageValue [1, 6, 2, 0, 0x11, 0x22] = ok \<lparr>rm_tag = Some 1, rm_data = [0x11, 0x22]\<rparr>"
  using raw_message_forms[of "[0x11, 0x22]" 1 6] by (simp add: isKnownMessageTagType_def PutUint16_def)

text \<open>The routes a request sets are the routes a response with the same list is read to.\<close>

theorem routes_roundtrip:
  assumes "length routes < 65536"
  shows "map_option parseRouteList (map_option tlv_Value (FindTLV (buildSetRoutesTLVs routes report) 0x01)) =
    Some (Some (Inr routes))"
proof -
  let ?l = "PutUint16 (of_nat (length routes))" and ?b = "concat (map route_bytes routes)"
  have len: "length ?b = length routes * 4"
    by (induction routes) (simp_all add: route_bytes_def)
  have at4: "route_at (pre @ concat (map route_bytes rs)) (length pre + i * 4) = Some (rs ! i)" if "i < length rs" for pre rs i
    using that
  proof (induction rs arbitrary: pre i)
    case (Cons r rs)
    have lb: "length (route_bytes r) = 4" by (simp add: route_bytes_def)
    show ?case
    proof (cases i)
      case (Suc j)
      then show ?thesis using Cons.IH[of j "pre @ route_bytes r"] Cons.prems lb by (simp add: add.assoc)
    qed (simp add: route_at_def route_bytes_def nth_append)
  qed simp
  have "those (map (\<lambda>i. route_at (?l @ ?b) (2 + i * 4)) [0..<length routes]) = those (map (\<lambda>i. Some (routes ! i)) [0..<length routes])"
    using at4[of _ routes ?l] by (intro arg_cong[where f = those] map_cong) simp_all
  also have "\<dots> = Some routes" using those_map_Some[of "\<lambda>i. routes ! i" "[0..<length routes]"] by (simp add: map_nth)
  finally show ?thesis
    using assms len by (simp add: buildSetRoutesTLVs_def parseRouteList_def)
qed

theorem routes_roundtrip_witness:
  "map_option parseRouteList (map_option tlv_Value (FindTLV (buildSetRoutesTLVs
     [\<lparr>ro_MessageType = 0, ro_MessageClass = 1, ro_StorageType = 1, ro_ReceiptAction = 2\<rparr>] True) 0x01)) =
   Some (Some (Inr [\<lparr>ro_MessageType = 0, ro_MessageClass = 1, ro_StorageType = 1, ro_ReceiptAction = 2\<rparr>]))"
  by (rule routes_roundtrip) simp

end
