(* ===== verification/Voice.thy ===== *)
theory Voice
  imports GoParse
begin

text \<open>
  The VOICE service, \<^verbatim>\<open>src/pkg/qmi/voice.go\<close>: calls, DTMF, supplementary services, USSD and the configuration of
  voice. No packet makes it panic; lists of calls and of numbers are read back, and so is a USSD text.
\<close>

section \<open>Constants\<close>

abbreviation (input) VOICEIndicationRegister :: u16 where "VOICEIndicationRegister \<equiv> 0x0003"
abbreviation (input) VOICEGetSupportedMessages :: u16 where "VOICEGetSupportedMessages \<equiv> 0x001E"
abbreviation (input) VOICEDialCall :: u16 where "VOICEDialCall \<equiv> 0x0020"
abbreviation (input) VOICEEndCall :: u16 where "VOICEEndCall \<equiv> 0x0021"
abbreviation (input) VOICEAnswerCall :: u16 where "VOICEAnswerCall \<equiv> 0x0022"
abbreviation (input) VOICEBurstDTMF :: u16 where "VOICEBurstDTMF \<equiv> 0x0028"
abbreviation (input) VOICEStartContinuousDTMF :: u16 where "VOICEStartContinuousDTMF \<equiv> 0x0029"
abbreviation (input) VOICEStopContinuousDTMF :: u16 where "VOICEStopContinuousDTMF \<equiv> 0x002A"
abbreviation (input) VOICEGetAllCallInfo :: u16 where "VOICEGetAllCallInfo \<equiv> 0x002F"
abbreviation (input) VOICEManageCalls :: u16 where "VOICEManageCalls \<equiv> 0x0031"
abbreviation (input) VOICESetSupplementaryService :: u16 where "VOICESetSupplementaryService \<equiv> 0x0033"
abbreviation (input) VOICEGetCallWaiting :: u16 where "VOICEGetCallWaiting \<equiv> 0x0034"
abbreviation (input) VOICEOriginateUSSD :: u16 where "VOICEOriginateUSSD \<equiv> 0x003A"
abbreviation (input) VOICEAnswerUSSD :: u16 where "VOICEAnswerUSSD \<equiv> 0x003B"
abbreviation (input) VOICECancelUSSD :: u16 where "VOICECancelUSSD \<equiv> 0x003C"
abbreviation (input) VOICEGetConfig :: u16 where "VOICEGetConfig \<equiv> 0x0041"
abbreviation (input) VOICEOriginateUSSDNoWait :: u16 where "VOICEOriginateUSSDNoWait \<equiv> 0x0043"

section \<open>Data\<close>

record VoiceIndicationRegistration =
  vr_DTMFEvents :: bool
  vr_VoicePrivacyEvents :: bool
  vr_SupplementaryServiceNotificationEvents :: bool
  vr_CallNotificationEvents :: bool
  vr_HandoverEvents :: bool
  vr_SpeechCodecEvents :: bool
  vr_USSDNotificationEvents :: bool
  vr_ModificationEvents :: bool
  vr_UUSEvents :: bool
  vr_AOCEvents :: bool
  vr_ConferenceEvents :: bool
  vr_ExtendedBurstTypeInternationalInformationEvents :: bool
  vr_MTPageMissInformationEvents :: bool

record VoiceCallInfo =
  vc_ID :: u8
  vc_State :: u8
  vc_Type :: u8
  vc_Direction :: u8
  vc_Mode :: u8
  vc_Multipart :: bool
  vc_ALS :: u8

record VoiceRemotePartyNumber =
  vn_CallID :: u8
  vn_PresentationIndicator :: u8
  vn_Number :: string
  vn_RawNumber :: "byte list"

record VoiceAllCallInfo =
  va_Calls :: "VoiceCallInfo list"
  va_RemotePartyNumbers :: "VoiceRemotePartyNumber list"

record VoiceManageCallsRequest =
  vm_ServiceType :: u8
  vm_CallID :: u8

record VoiceSupplementaryServiceRequest =
  vs_Action :: u8
  vs_Reason :: u8

record VoiceSupplementaryServiceStatus =
  vs_Active :: bool
  vs_Provisioned :: bool

record VoiceSupplementaryServiceIndication =
  vsi_CallID :: u8
  vsi_NotificationType :: u8

record VoiceUSSDRequest =
  ur_DCS :: u8
  ur_Data :: "byte list"

record VoiceUSSDPayload =
  up_DCS :: u8
  up_Data :: "byte list"
  up_Text :: string

text \<open>The value and the \<^verbatim>\<open>Has\<close> flag of a field are an option.\<close>

record VoiceSupplementaryServiceRequestIndication =
  vq_Info :: "(u8 \<times> bool) option"
  vq_ServiceClass :: "u8 option"
  vq_Reason :: "u8 option"
  vq_USSData :: "VoiceUSSDPayload option"
  vq_CallID :: "u8 option"
  vq_Alpha :: "VoiceUSSDPayload option"
  vq_DataSource :: "u8 option"
  vq_FailureCause :: "u16 option"
  vq_EncodedDataUTF16 :: "u16 list"
  vq_ExtendedServiceClass :: "u8 option"

record VoiceUSSDResponse =
  vu_FailureCause :: "u16 option"
  vu_Alpha :: "VoiceUSSDPayload option"
  vu_USSData :: "VoiceUSSDPayload option"
  vu_CallControlResultType :: "u8 option"
  vu_CallID :: "u8 option"
  vu_CallControlSupplementaryServiceType :: "u8 option"
  vu_CallControlSupplementaryServiceReason :: "u8 option"
  vu_USSDataUTF16 :: "u16 list"

record VoiceUSSDIndication =
  vi_UserAction :: "u8 option"
  vi_USSData :: "VoiceUSSDPayload option"
  vi_USSDataUTF16 :: "u16 list"

record VoiceUSSDNoWaitIndication =
  vw_ErrorCode :: "u16 option"
  vw_FailureCause :: "u16 option"
  vw_USSData :: "VoiceUSSDPayload option"
  vw_Alpha :: "VoiceUSSDPayload option"
  vw_USSDataUTF16 :: "u16 list"

record VoiceConfigQuery =
  cq_AutoAnswer :: bool
  cq_AirTimer :: bool
  cq_RoamTimer :: bool
  cq_TTYMode :: bool
  cq_PreferredVoiceSO :: bool
  cq_AMRStatus :: bool
  cq_PreferredVoicePrivacy :: bool
  cq_NAMIndex :: bool
  cq_VoiceDomainPreference :: bool

record VoiceTimerCount =
  vt_NAMID :: u8
  vt_Minutes :: u32

record VoicePreferredVoiceSO =
  vp_NAMID :: u8
  vp_EVRCCapability :: bool
  vp_HomePageVoiceServiceOption :: u16
  vp_HomeOriginationVoiceServiceOption :: u16
  vp_RoamOriginationVoiceServiceOption :: u16

record VoiceAMRStatus =
  vx_GSM :: bool
  vx_WCDMA :: u8

record VoiceConfig =
  cf_AutoAnswerStatus :: "bool option"
  cf_AirTimer :: "VoiceTimerCount option"
  cf_RoamTimer :: "VoiceTimerCount option"
  cf_CurrentTTYMode :: "u8 option"
  cf_PreferredVoiceSO :: "VoicePreferredVoiceSO option"
  cf_CurrentAMRStatus :: "VoiceAMRStatus option"
  cf_CurrentVoicePrivacyPreference :: "u8 option"
  cf_CurrentVoiceDomainPreference :: "u8 option"

section \<open>Requests\<close>

definition buildVoiceIndicationRegistrationTLVs :: "VoiceIndicationRegistration \<Rightarrow> TLV list" where
  "buildVoiceIndicationRegistrationTLVs cfg =
     [NewTLVUint8 0x10 (boolToUint8 (vr_DTMFEvents cfg)),
      NewTLVUint8 0x11 (boolToUint8 (vr_VoicePrivacyEvents cfg)),
      NewTLVUint8 0x12 (boolToUint8 (vr_SupplementaryServiceNotificationEvents cfg)),
      NewTLVUint8 0x13 (boolToUint8 (vr_CallNotificationEvents cfg)),
      NewTLVUint8 0x14 (boolToUint8 (vr_HandoverEvents cfg)),
      NewTLVUint8 0x15 (boolToUint8 (vr_SpeechCodecEvents cfg)),
      NewTLVUint8 0x16 (boolToUint8 (vr_USSDNotificationEvents cfg)),
      NewTLVUint8 0x18 (boolToUint8 (vr_ModificationEvents cfg)),
      NewTLVUint8 0x19 (boolToUint8 (vr_UUSEvents cfg)),
      NewTLVUint8 0x1A (boolToUint8 (vr_AOCEvents cfg)),
      NewTLVUint8 0x1B (boolToUint8 (vr_ConferenceEvents cfg)),
      NewTLVUint8 0x1C (boolToUint8 (vr_ExtendedBurstTypeInternationalInformationEvents cfg)),
      NewTLVUint8 0x1D (boolToUint8 (vr_MTPageMissInformationEvents cfg))]"

definition buildVoiceBurstDTMFTLV :: "u8 \<Rightarrow> string \<Rightarrow> TLV" where
  "buildVoiceBurstDTMFTLV callID ds =
     \<lparr>tlv_Type = 0x01, tlv_Value = [callID, of_nat (length ds)] @ bytes_of_string ds\<rparr>"

definition buildVoiceStartContinuousDTMFTLV :: "u8 \<Rightarrow> u8 \<Rightarrow> TLV" where
  "buildVoiceStartContinuousDTMFTLV callID digit = \<lparr>tlv_Type = 0x01, tlv_Value = [callID, digit]\<rparr>"

definition buildVoiceStopContinuousDTMFTLV :: "u8 \<Rightarrow> TLV" where
  "buildVoiceStopContinuousDTMFTLV callID = \<lparr>tlv_Type = 0x01, tlv_Value = [callID]\<rparr>"

definition buildVoiceManageCallsTLVs :: "VoiceManageCallsRequest \<Rightarrow> TLV list" where
  "buildVoiceManageCallsTLVs req = [NewTLVUint8 0x01 (vm_ServiceType req), NewTLVUint8 0x10 (vm_CallID req)]"

definition buildVoiceSupplementaryServiceTLV :: "VoiceSupplementaryServiceRequest \<Rightarrow> TLV" where
  "buildVoiceSupplementaryServiceTLV req = \<lparr>tlv_Type = 0x01, tlv_Value = [vs_Action req, vs_Reason req]\<rparr>"

definition buildVoiceUSSDRequestTLV :: "VoiceUSSDRequest \<Rightarrow> TLV" where
  "buildVoiceUSSDRequestTLV req =
     \<lparr>tlv_Type = 0x01, tlv_Value = [ur_DCS req, of_nat (length (ur_Data req))] @ ur_Data req\<rparr>"

definition isZeroVoiceConfigQuery :: "VoiceConfigQuery \<Rightarrow> bool" where
  "isZeroVoiceConfigQuery q \<longleftrightarrow>
     \<not> cq_AutoAnswer q \<and> \<not> cq_AirTimer q \<and> \<not> cq_RoamTimer q \<and> \<not> cq_TTYMode q \<and> \<not> cq_PreferredVoiceSO q \<and>
     \<not> cq_AMRStatus q \<and> \<not> cq_PreferredVoicePrivacy q \<and> \<not> cq_NAMIndex q \<and> \<not> cq_VoiceDomainPreference q"

definition buildVoiceConfigQueryTLVs :: "VoiceConfigQuery \<Rightarrow> TLV list" where
  "buildVoiceConfigQueryTLVs query =
     (let q = (if isZeroVoiceConfigQuery query
               then \<lparr>cq_AutoAnswer = True, cq_AirTimer = True, cq_RoamTimer = True, cq_TTYMode = True,
                     cq_PreferredVoiceSO = True, cq_AMRStatus = True, cq_PreferredVoicePrivacy = True,
                     cq_NAMIndex = True, cq_VoiceDomainPreference = True\<rparr>
               else query)
      in flag_tlv 0x10 (cq_AutoAnswer q) @ flag_tlv 0x11 (cq_AirTimer q) @ flag_tlv 0x12 (cq_RoamTimer q) @
         flag_tlv 0x13 (cq_TTYMode q) @ flag_tlv 0x14 (cq_PreferredVoiceSO q) @ flag_tlv 0x15 (cq_AMRStatus q) @
         flag_tlv 0x16 (cq_PreferredVoicePrivacy q) @ flag_tlv 0x17 (cq_NAMIndex q) @
         flag_tlv 0x18 (cq_VoiceDomainPreference q))"

section \<open>Responses and indications\<close>

definition parseVoiceSupportedMessagesResponse :: "Packet \<Rightarrow> u8 list parsed" where
  "parseVoiceSupportedMessagesResponse = checked ''get supported messages failed'' (\<lambda>resp.
     need_tlv (pkt_TLVs resp) 0x10 2 ''supported messages response missing list TLV'' (\<lambda>v. do {
       n \<leftarrow> rd16 v 0;
       if length v < 2 + unat n
       then Some (Inl (ErrText (''supported messages TLV truncated: need '' @ decimal (2 + unat n) @ '', have '' @ decimal (length v))))
       else do { out \<leftarrow> sub v 2 (2 + unat n); ok out } }))"

definition parseVoiceCallIDResponse :: "string \<Rightarrow> Packet \<Rightarrow> u8 parsed" where
  "parseVoiceCallIDResponse operation = checked (operation @ '' failed'') (\<lambda>resp.
     need_tlv (pkt_TLVs resp) 0x10 1 (operation @ '' response missing call id TLV'') (\<lambda>v. do { x \<leftarrow> at v 0; ok x }))"

definition call_info_at :: "byte list \<Rightarrow> nat \<Rightarrow> VoiceCallInfo option" where
  "call_info_at v off = do {
     a \<leftarrow> at v off; b \<leftarrow> at v (off + 1); c \<leftarrow> at v (off + 2); d \<leftarrow> at v (off + 3); e \<leftarrow> at v (off + 4);
     f \<leftarrow> at v (off + 5); g \<leftarrow> at v (off + 6);
     Some \<lparr>vc_ID = a, vc_State = b, vc_Type = c, vc_Direction = d, vc_Mode = e, vc_Multipart = (f \<noteq> 0), vc_ALS = g\<rparr> }"

definition parseVoiceCallInfoArray :: "byte list \<Rightarrow> VoiceCallInfo list parsed" where
  "parseVoiceCallInfoArray value =
     (if length value < 1 then Some (Inl (ErrText ''voice call info array too short''))
      else do {
        n \<leftarrow> at value 0;
        let count = unat n; expected = 1 + count * 7 in
        if length value < expected
        then Some (Inl (ErrText (''voice call info array truncated: need '' @ decimal expected @ '', have '' @ decimal (length value))))
        else do { items \<leftarrow> those (map (\<lambda>i. call_info_at value (1 + i * 7)) [0..<count]); ok items } })"

text \<open>The loop of \<^verbatim>\<open>parseVoiceRemotePartyNumberArray\<close>: \<open>n\<close> items are left, \<open>i\<close> is the number of the next one.\<close>

fun remote_numbers :: "nat \<Rightarrow> nat \<Rightarrow> nat \<Rightarrow> byte list \<Rightarrow> VoiceRemotePartyNumber list parsed" where
  "remote_numbers 0 i off v = ok []"
| "remote_numbers (Suc n) i off v =
     (if off + 3 > length v
      then Some (Inl (ErrText (''voice remote party number array truncated at item '' @ decimal i)))
      else do {
        l \<leftarrow> at v (off + 2);
        if off + 3 + unat l > length v
        then Some (Inl (ErrText (''voice remote party number item '' @ decimal i @ '' truncated'')))
        else do {
          raw \<leftarrow> sub v (off + 3) (off + 3 + unat l); c \<leftarrow> at v off; p \<leftarrow> at v (off + 1);
          try_parse (remote_numbers n (i + 1) (off + 3 + unat l) v) (\<lambda>rest.
            ok (\<lparr>vn_CallID = c, vn_PresentationIndicator = p, vn_Number = string_of_bytes raw, vn_RawNumber = raw\<rparr> # rest)) } })"

definition parseVoiceRemotePartyNumberArray :: "byte list \<Rightarrow> VoiceRemotePartyNumber list parsed" where
  "parseVoiceRemotePartyNumberArray value =
     (if length value < 1 then Some (Inl (ErrText ''voice remote party number array too short''))
      else do { n \<leftarrow> at value 0; remote_numbers (unat n) 0 1 value })"

text \<open>\<^verbatim>\<open>if tlv := FindTLV(tlvs, t); tlv != nil { x, err := parse(tlv) ... }\<close>, with \<open>d\<close> when the TLV is missing.\<close>

definition parse_present :: "'a \<Rightarrow> (byte list \<Rightarrow> 'a parsed) \<Rightarrow> TLV list \<Rightarrow> u8 \<Rightarrow> 'a parsed" where
  "parse_present d f ts t = (case FindTLV ts t of None \<Rightarrow> ok d | Some tlv \<Rightarrow> f (tlv_Value tlv))"

definition parseVoiceAllCallInfoPacket :: "u8 \<Rightarrow> u8 \<Rightarrow> string \<Rightarrow> Packet \<Rightarrow> VoiceAllCallInfo parsed" where
  "parseVoiceAllCallInfoPacket callTLVType remoteTLVType operation packet =
     (case (if FindTLV (pkt_TLVs packet) 0x02 \<noteq> None then check packet else None) of
        Some err \<Rightarrow> Some (Inl (errorf (operation @ '' failed'') err))
      | None \<Rightarrow>
          try_parse (parse_present [] parseVoiceCallInfoArray (pkt_TLVs packet) callTLVType) (\<lambda>calls.
          try_parse (parse_present [] parseVoiceRemotePartyNumberArray (pkt_TLVs packet) remoteTLVType) (\<lambda>numbers.
            ok \<lparr>va_Calls = calls, va_RemotePartyNumbers = numbers\<rparr>)))"

definition parseVoiceAllCallInfoResponse :: "Packet \<Rightarrow> VoiceAllCallInfo parsed" where
  "parseVoiceAllCallInfoResponse = parseVoiceAllCallInfoPacket 0x10 0x11 ''get all call info''"

definition ParseVoiceAllCallStatus :: "Packet \<Rightarrow> VoiceAllCallInfo parsed" where
  "ParseVoiceAllCallStatus = parseVoiceAllCallInfoPacket 0x01 0x10 ''all call status indication''"

definition parseVoiceSupplementaryServiceStatusResponse :: "Packet \<Rightarrow> VoiceSupplementaryServiceStatus parsed" where
  "parseVoiceSupplementaryServiceStatusResponse = checked ''set supplementary service failed'' (\<lambda>resp.
     need_tlv (pkt_TLVs resp) 0x15 2 ''set supplementary service response missing status TLV'' (\<lambda>v. do {
       a \<leftarrow> at v 0; p \<leftarrow> at v 1; ok \<lparr>vs_Active = (a \<noteq> 0), vs_Provisioned = (p \<noteq> 0)\<rparr> }))"

definition parse_call_waiting :: "Packet \<Rightarrow> u8 parsed" where
  "parse_call_waiting = checked ''get call waiting failed'' (\<lambda>resp.
     need_tlv (pkt_TLVs resp) 0x10 1 ''get call waiting response missing service class TLV'' (\<lambda>v. do { x \<leftarrow> at v 0; ok x }))"

definition ParseVoiceSupplementaryServiceIndication :: "Packet \<Rightarrow> VoiceSupplementaryServiceIndication parsed" where
  "ParseVoiceSupplementaryServiceIndication packet =
     need_tlv (pkt_TLVs packet) 0x01 2 ''supplementary service indication missing info TLV'' (\<lambda>v. do {
       c \<leftarrow> at v 0; n \<leftarrow> at v 1; ok \<lparr>vsi_CallID = c, vsi_NotificationType = n\<rparr> })"

definition parseVoiceUSSDPayloadTLV :: "byte list \<Rightarrow> VoiceUSSDPayload parsed" where
  "parseVoiceUSSDPayloadTLV value =
     (if length value < 2 then Some (Inl (ErrText ''voice ussd payload TLV too short''))
      else do {
        l \<leftarrow> at value 1;
        if length value < 2 + unat l
        then Some (Inl (ErrText (''voice ussd payload TLV truncated: need '' @ decimal (2 + unat l) @ '', have '' @ decimal (length value))))
        else do {
          data \<leftarrow> sub value 2 (2 + unat l); dcs \<leftarrow> at value 0;
          ok \<lparr>up_DCS = dcs, up_Data = data, up_Text = string_of_bytes data\<rparr> } })"

definition ussd_payload :: "TLV list \<Rightarrow> u8 \<Rightarrow> VoiceUSSDPayload option parsed" where
  "ussd_payload = parse_present None (\<lambda>v. try_parse (parseVoiceUSSDPayloadTLV v) (\<lambda>p. ok (Some p)))"

definition parseUint16ArrayWithUint8Length :: "byte list \<Rightarrow> u16 list parsed" where
  "parseUint16ArrayWithUint8Length value =
     (if length value < 1 then Some (Inl (ErrText ''uint16 array value too short''))
      else do {
        n \<leftarrow> at value 0;
        let count = unat n; expected = 1 + count * 2 in
        if length value < expected
        then Some (Inl (ErrText (''uint16 array truncated: need '' @ decimal expected @ '', have '' @ decimal (length value))))
        else do { out \<leftarrow> those (map (\<lambda>i. rd16 value (1 + i * 2)) [0..<count]); ok out } })"

definition u8_field :: "TLV list \<Rightarrow> u8 \<Rightarrow> u8 option option" where
  "u8_field ts t = opt_tlv ts t 1 (\<lambda>v. at v 0)"

definition u16_field :: "TLV list \<Rightarrow> u8 \<Rightarrow> u16 option option" where
  "u16_field ts t = opt_tlv ts t 2 (\<lambda>v. rd16 v 0)"

definition request_info :: "byte list \<Rightarrow> (u8 \<times> bool) option parsed" where
  "request_info v =
     (if length v < 2 then Some (Inl (ErrText ''supplementary service request indication info TLV too short''))
      else do { r \<leftarrow> at v 0; m \<leftarrow> at v 1; ok (Some (r, m \<noteq> 0)) })"

definition ParseVoiceSupplementaryServiceRequestIndication :: "Packet \<Rightarrow> VoiceSupplementaryServiceRequestIndication parsed" where
  "ParseVoiceSupplementaryServiceRequestIndication packet =
     (let ts = pkt_TLVs packet in
      try_parse (parse_present None request_info ts 0x01) (\<lambda>info. do {
        service \<leftarrow> u8_field ts 0x10;
        reason \<leftarrow> u8_field ts 0x11;
        try_parse (ussd_payload ts 0x14) (\<lambda>uss. do {
          callID \<leftarrow> u8_field ts 0x15;
          try_parse (ussd_payload ts 0x16) (\<lambda>alpha. do {
            source \<leftarrow> u8_field ts 0x19;
            cause \<leftarrow> u16_field ts 0x1A;
            try_parse (parse_present [] parseUint16ArrayWithUint8Length ts 0x21) (\<lambda>utf16. do {
              ext \<leftarrow> u8_field ts 0x22;
              ok \<lparr>vq_Info = info, vq_ServiceClass = service, vq_Reason = reason, vq_USSData = uss, vq_CallID = callID,
                   vq_Alpha = alpha, vq_DataSource = source, vq_FailureCause = cause, vq_EncodedDataUTF16 = utf16,
                   vq_ExtendedServiceClass = ext\<rparr> }) }) }) }))"

definition ParseVoiceUSSDIndication :: "Packet \<Rightarrow> VoiceUSSDIndication parsed" where
  "ParseVoiceUSSDIndication packet =
     (let ts = pkt_TLVs packet in do {
        action \<leftarrow> u8_field ts 0x01;
        try_parse (ussd_payload ts 0x10) (\<lambda>uss.
        try_parse (parse_present [] parseUint16ArrayWithUint8Length ts 0x11) (\<lambda>utf16.
          ok \<lparr>vi_UserAction = action, vi_USSData = uss, vi_USSDataUTF16 = utf16\<rparr>)) })"

definition ParseVoiceUSSDNoWaitIndication :: "Packet \<Rightarrow> VoiceUSSDNoWaitIndication parsed" where
  "ParseVoiceUSSDNoWaitIndication packet =
     (let ts = pkt_TLVs packet in do {
        code \<leftarrow> u16_field ts 0x10;
        cause \<leftarrow> u16_field ts 0x11;
        try_parse (ussd_payload ts 0x12) (\<lambda>uss.
        try_parse (ussd_payload ts 0x13) (\<lambda>alpha.
        try_parse (parse_present [] parseUint16ArrayWithUint8Length ts 0x14) (\<lambda>utf16.
          ok \<lparr>vw_ErrorCode = code, vw_FailureCause = cause, vw_USSData = uss, vw_Alpha = alpha, vw_USSDataUTF16 = utf16\<rparr>))) })"

text \<open>The result comes with an error when the modem reports one: both are returned.\<close>

definition parseVoiceUSSDResponse :: "string \<Rightarrow> Packet \<Rightarrow> (VoiceUSSDResponse option \<times> go_error option) option" where
  "parseVoiceUSSDResponse operation resp =
     (let ts = pkt_TLVs resp in do {
        cause \<leftarrow> u16_field ts 0x10;
        r \<leftarrow> try_parse (ussd_payload ts 0x11) (\<lambda>alpha.
          try_parse (ussd_payload ts 0x12) (\<lambda>uss. do {
            resultType \<leftarrow> u8_field ts 0x13;
            callID \<leftarrow> u8_field ts 0x14;
            ssType \<leftarrow> u8_field ts 0x15;
            ssReason \<leftarrow> opt_tlv ts 0x15 2 (\<lambda>v. at v 1);
            try_parse (parse_present [] parseUint16ArrayWithUint8Length ts 0x16) (\<lambda>utf16.
              ok \<lparr>vu_FailureCause = cause, vu_Alpha = alpha, vu_USSData = uss, vu_CallControlResultType = resultType,
                   vu_CallID = callID, vu_CallControlSupplementaryServiceType = ssType,
                   vu_CallControlSupplementaryServiceReason = ssReason, vu_USSDataUTF16 = utf16\<rparr>) }));
        Some (case r of
          Inl e \<Rightarrow> (None, Some e)
        | Inr result \<Rightarrow> (Some result, map_option (errorf (operation @ '' failed'')) (check resp))) })"

definition timer_at :: "byte list \<Rightarrow> VoiceTimerCount option" where
  "timer_at v = do { n \<leftarrow> at v 0; m \<leftarrow> rd32 v 1; Some \<lparr>vt_NAMID = n, vt_Minutes = m\<rparr> }"

definition parseVoiceConfigResponse :: "Packet \<Rightarrow> VoiceConfig parsed" where
  "parseVoiceConfigResponse = checked ''get voice config failed'' (\<lambda>resp.
     let ts = pkt_TLVs resp in do {
       auto \<leftarrow> opt_tlv ts 0x10 1 (\<lambda>v. map_option (\<lambda>b. b \<noteq> 0) (at v 0));
       air \<leftarrow> opt_tlv ts 0x11 5 timer_at;
       roam \<leftarrow> opt_tlv ts 0x12 5 timer_at;
       tty \<leftarrow> u8_field ts 0x13;
       so \<leftarrow> opt_tlv ts 0x14 8 (\<lambda>v. do {
         n \<leftarrow> at v 0; e \<leftarrow> at v 1; a \<leftarrow> rd16 v 2; b \<leftarrow> rd16 v 4; c \<leftarrow> rd16 v 6;
         Some \<lparr>vp_NAMID = n, vp_EVRCCapability = (e \<noteq> 0), vp_HomePageVoiceServiceOption = a,
               vp_HomeOriginationVoiceServiceOption = b, vp_RoamOriginationVoiceServiceOption = c\<rparr> });
       amr \<leftarrow> opt_tlv ts 0x15 2 (\<lambda>v. do { g \<leftarrow> at v 0; w \<leftarrow> at v 1; Some \<lparr>vx_GSM = (g \<noteq> 0), vx_WCDMA = w\<rparr> });
       privacy \<leftarrow> u8_field ts 0x16;
       domain \<leftarrow> u8_field ts 0x17;
       ok \<lparr>cf_AutoAnswerStatus = auto, cf_AirTimer = air, cf_RoamTimer = roam, cf_CurrentTTYMode = tty,
            cf_PreferredVoiceSO = so, cf_CurrentAMRStatus = amr, cf_CurrentVoicePrivacyPreference = privacy,
            cf_CurrentVoiceDomainPreference = domain\<rparr> })"

section \<open>Methods\<close>

definition IndicationRegister :: "'m sender \<Rightarrow> VoiceIndicationRegistration \<Rightarrow> 'm \<Rightarrow> unit parsed \<times> 'm" where
  "IndicationRegister send cfg =
     call send VOICEIndicationRegister (buildVoiceIndicationRegistrationTLVs cfg) (checked ''voice indication register failed'' acked)"

definition GetSupportedMessages :: "'m sender \<Rightarrow> 'm \<Rightarrow> u8 list parsed \<times> 'm" where
  "GetSupportedMessages send = call send VOICEGetSupportedMessages [] parseVoiceSupportedMessagesResponse"

definition DialCall :: "'m sender \<Rightarrow> string \<Rightarrow> 'm \<Rightarrow> u8 parsed \<times> 'm" where
  "DialCall send number =
     call send VOICEDialCall [NewTLVString 0x01 (bytes_of_string number)] (parseVoiceCallIDResponse ''dial call'')"

definition EndCall :: "'m sender \<Rightarrow> u8 \<Rightarrow> 'm \<Rightarrow> u8 parsed \<times> 'm" where
  "EndCall send callID = call send VOICEEndCall [NewTLVUint8 0x01 callID] (parseVoiceCallIDResponse ''end call'')"

definition AnswerCall :: "'m sender \<Rightarrow> u8 \<Rightarrow> 'm \<Rightarrow> u8 parsed \<times> 'm" where
  "AnswerCall send callID = call send VOICEAnswerCall [NewTLVUint8 0x01 callID] (parseVoiceCallIDResponse ''answer call'')"

definition BurstDTMF :: "'m sender \<Rightarrow> u8 \<Rightarrow> string \<Rightarrow> 'm \<Rightarrow> u8 parsed \<times> 'm" where
  "BurstDTMF send callID ds =
     call send VOICEBurstDTMF [buildVoiceBurstDTMFTLV callID ds] (parseVoiceCallIDResponse ''burst dtmf'')"

definition StartContinuousDTMF :: "'m sender \<Rightarrow> u8 \<Rightarrow> u8 \<Rightarrow> 'm \<Rightarrow> u8 parsed \<times> 'm" where
  "StartContinuousDTMF send callID digit =
     call send VOICEStartContinuousDTMF [buildVoiceStartContinuousDTMFTLV callID digit]
       (parseVoiceCallIDResponse ''start continuous dtmf'')"

definition StopContinuousDTMF :: "'m sender \<Rightarrow> u8 \<Rightarrow> 'm \<Rightarrow> u8 parsed \<times> 'm" where
  "StopContinuousDTMF send callID =
     call send VOICEStopContinuousDTMF [buildVoiceStopContinuousDTMFTLV callID]
       (parseVoiceCallIDResponse ''stop continuous dtmf'')"

definition GetAllCallInfo :: "'m sender \<Rightarrow> 'm \<Rightarrow> VoiceAllCallInfo parsed \<times> 'm" where
  "GetAllCallInfo send = call send VOICEGetAllCallInfo [] parseVoiceAllCallInfoResponse"

definition ManageCalls :: "'m sender \<Rightarrow> VoiceManageCallsRequest \<Rightarrow> 'm \<Rightarrow> unit parsed \<times> 'm" where
  "ManageCalls send req = call send VOICEManageCalls (buildVoiceManageCallsTLVs req) (checked ''manage calls failed'' acked)"

definition SetSupplementaryService :: "'m sender \<Rightarrow> VoiceSupplementaryServiceRequest \<Rightarrow> 'm
    \<Rightarrow> VoiceSupplementaryServiceStatus parsed \<times> 'm" where
  "SetSupplementaryService send req =
     call send VOICESetSupplementaryService [buildVoiceSupplementaryServiceTLV req] parseVoiceSupplementaryServiceStatusResponse"

definition GetCallWaiting :: "'m sender \<Rightarrow> u8 \<Rightarrow> 'm \<Rightarrow> u8 parsed \<times> 'm" where
  "GetCallWaiting send serviceClass = call send VOICEGetCallWaiting [NewTLVUint8 0x10 serviceClass] parse_call_waiting"

definition OriginateUSSD :: "'m sender \<Rightarrow> VoiceUSSDRequest \<Rightarrow> 'm \<Rightarrow> (VoiceUSSDResponse option \<times> go_error option) option \<times> 'm" where
  "OriginateUSSD send req m =
     (case send VOICEOriginateUSSD [buildVoiceUSSDRequestTLV req] m of
        (Inl e, m1) \<Rightarrow> (Some (None, Some e), m1)
      | (Inr resp, m1) \<Rightarrow> (parseVoiceUSSDResponse ''originate ussd'' resp, m1))"

definition AnswerUSSD :: "'m sender \<Rightarrow> VoiceUSSDRequest \<Rightarrow> 'm \<Rightarrow> unit parsed \<times> 'm" where
  "AnswerUSSD send req = call send VOICEAnswerUSSD [buildVoiceUSSDRequestTLV req] (checked ''answer ussd failed'' acked)"

definition CancelUSSD :: "'m sender \<Rightarrow> 'm \<Rightarrow> unit parsed \<times> 'm" where
  "CancelUSSD send = call send VOICECancelUSSD [] (checked ''cancel ussd failed'' acked)"

definition GetConfig :: "'m sender \<Rightarrow> VoiceConfigQuery \<Rightarrow> 'm \<Rightarrow> VoiceConfig parsed \<times> 'm" where
  "GetConfig send query = call send VOICEGetConfig (buildVoiceConfigQueryTLVs query) parseVoiceConfigResponse"

definition OriginateUSSDNoWait :: "'m sender \<Rightarrow> VoiceUSSDRequest \<Rightarrow> 'm \<Rightarrow> unit parsed \<times> 'm" where
  "OriginateUSSDNoWait send req =
     call send VOICEOriginateUSSDNoWait [buildVoiceUSSDRequestTLV req] (checked ''originate ussd no wait failed'' acked)"

section \<open>Parsers do not panic\<close>

lemma parse_present_safe [safe]: "(\<And>v. f v \<noteq> None) \<Longrightarrow> parse_present d f ts t \<noteq> None"
  by (simp add: parse_present_def ok_def split: option.split)

lemma call_info_at_safe [safe]: "off + 7 \<le> length v \<Longrightarrow> call_info_at v off \<noteq> None"
  unfolding call_info_at_def by (intro safe) auto

lemma remote_numbers_safe [safe]: "remote_numbers n i off v \<noteq> None"
proof (induction n arbitrary: i off)
  case (Suc n)
  show ?case unfolding remote_numbers.simps by (intro safe Suc.IH) auto
qed (simp add: ok_def)

lemma voice_values_safe [safe]:
  "parseVoiceCallInfoArray v \<noteq> None"
  "parseVoiceRemotePartyNumberArray v \<noteq> None"
  "parseVoiceUSSDPayloadTLV v \<noteq> None"
  "parseUint16ArrayWithUint8Length v \<noteq> None"
  "request_info v \<noteq> None"
  "5 \<le> length v \<Longrightarrow> timer_at v \<noteq> None"
  "u8_field ts t \<noteq> None"
  "u16_field ts t \<noteq> None"
  unfolding parseVoiceCallInfoArray_def parseVoiceRemotePartyNumberArray_def parseVoiceUSSDPayloadTLV_def
    parseUint16ArrayWithUint8Length_def request_info_def timer_at_def u8_field_def u16_field_def
  by (intro safe; auto)+

lemma ussd_payload_safe [safe]: "ussd_payload ts t \<noteq> None"
  unfolding ussd_payload_def by (intro safe)

section \<open>Properties\<close>

text \<open>No packet makes the VOICE service panic.\<close>

theorem voice_never_panics:
  "parseVoiceSupportedMessagesResponse p \<noteq> None \<and> parseVoiceCallIDResponse operation p \<noteq> None \<and>
   parseVoiceAllCallInfoResponse p \<noteq> None \<and> ParseVoiceAllCallStatus p \<noteq> None \<and>
   parseVoiceSupplementaryServiceStatusResponse p \<noteq> None \<and> parse_call_waiting p \<noteq> None \<and>
   ParseVoiceSupplementaryServiceIndication p \<noteq> None \<and> ParseVoiceSupplementaryServiceRequestIndication p \<noteq> None \<and>
   ParseVoiceUSSDIndication p \<noteq> None \<and> ParseVoiceUSSDNoWaitIndication p \<noteq> None \<and>
   parseVoiceUSSDResponse operation p \<noteq> None \<and> parseVoiceConfigResponse p \<noteq> None"
  unfolding parseVoiceSupportedMessagesResponse_def parseVoiceCallIDResponse_def parseVoiceAllCallInfoResponse_def
    ParseVoiceAllCallStatus_def parseVoiceAllCallInfoPacket_def parseVoiceSupplementaryServiceStatusResponse_def
    parse_call_waiting_def ParseVoiceSupplementaryServiceIndication_def
    ParseVoiceSupplementaryServiceRequestIndication_def ParseVoiceUSSDIndication_def ParseVoiceUSSDNoWaitIndication_def
    parseVoiceUSSDResponse_def parseVoiceConfigResponse_def
  by (intro conjI; intro safe; auto)

text \<open>The bytes of a list of calls and of a list of numbers, as the parsers expect them.\<close>

definition call_info_bytes :: "VoiceCallInfo \<Rightarrow> byte list" where
  "call_info_bytes c = [vc_ID c, vc_State c, vc_Type c, vc_Direction c, vc_Mode c, boolToUint8 (vc_Multipart c), vc_ALS c]"

definition number_bytes :: "VoiceRemotePartyNumber \<Rightarrow> byte list" where
  "number_bytes n = [vn_CallID n, vn_PresentationIndicator n, of_nat (length (vn_RawNumber n))] @ vn_RawNumber n"

lemma length_concat_calls: "length (concat (map call_info_bytes cs)) = length cs * 7"
  by (induction cs) (simp_all add: call_info_bytes_def)

lemma call_info_at_bytes: "call_info_at (pre @ call_info_bytes c @ post) (length pre) = Some c"
  by (cases c) (simp add: call_info_at_def call_info_bytes_def nth_append boolToUint8_def)

lemma calls_read_back:
  "i < length cs \<Longrightarrow> call_info_at (pre @ concat (map call_info_bytes cs) @ post) (length pre + i * 7) = Some (cs ! i)"
proof (induction cs arbitrary: i pre)
  case (Cons c cs)
  show ?case
  proof (cases i)
    case 0
    then show ?thesis using call_info_at_bytes[of pre c] by simp
  next
    case (Suc j)
    have "length (call_info_bytes c) = 7" by (simp add: call_info_bytes_def)
    then show ?thesis using Cons.IH[of j "pre @ call_info_bytes c"] Cons.prems Suc by (simp add: add.assoc)
  qed
qed simp

lemma numbers_read_back:
  assumes "\<forall>n \<in> set ns. length (vn_RawNumber n) < 256 \<and> vn_Number n = string_of_bytes (vn_RawNumber n)"
  shows "remote_numbers (length ns) i (length pre) (pre @ concat (map number_bytes ns) @ post) = ok ns"
  using assms
proof (induction ns arbitrary: i pre)
  case (Cons n ns)
  let ?raw = "vn_RawNumber n" and ?rest = "concat (map number_bytes ns) @ post"
  let ?v = "pre @ concat (map number_bytes (n # ns)) @ post" and ?k = "length pre"
  have v: "?v = pre @ vn_CallID n # vn_PresentationIndicator n # of_nat (length ?raw) # ?raw @ ?rest"
    by (simp add: number_bytes_def)
  have l: "unat (of_nat (length ?raw) :: byte) = length ?raw" using Cons.prems by simp
  have raw: "sub ?v (?k + 3) (?k + 3 + length ?raw) = Some ?raw"
    using go_slice_mid[of "pre @ [vn_CallID n, vn_PresentationIndicator n, of_nat (length ?raw)]" "?k + 3" ?raw "length ?raw" ?rest]
    unfolding v by (simp add: sub_def)
  have ends: "?k + 3 + length ?raw \<le> length ?v" "?k + 3 \<le> length ?v" unfolding v by simp_all
  have at: "at ?v ?k = Some (vn_CallID n)" "at ?v (?k + 1) = Some (vn_PresentationIndicator n)"
    "at ?v (?k + 2) = Some (of_nat (length ?raw))"
    unfolding v by (simp_all add: nth_append)
  have rest: "remote_numbers (length ns) (i + 1) (?k + 3 + length ?raw) ?v = ok ns"
  proof -
    have "length (pre @ number_bytes n) = ?k + 3 + length ?raw" by (simp add: number_bytes_def)
    moreover have "(pre @ number_bytes n) @ concat (map number_bytes ns) @ post = ?v" by simp
    moreover have "\<forall>n \<in> set ns. length (vn_RawNumber n) < 256 \<and> vn_Number n = string_of_bytes (vn_RawNumber n)"
      using Cons.prems by simp
    ultimately show ?thesis using Cons.IH[of "i + 1" "pre @ number_bytes n"] by (simp only: simp_thms)
  qed
  have "\<lparr>vn_CallID = vn_CallID n, vn_PresentationIndicator = vn_PresentationIndicator n,
      vn_Number = string_of_bytes ?raw, vn_RawNumber = ?raw\<rparr> = n" using Cons.prems by simp
  then show ?case
    using raw at l rest ends by (simp only: list.size remote_numbers.simps)
      (simp add: not_less try_parse_def ok_def)
qed simp

lemma parse_calls_bytes:
  assumes "length cs < 256"
  shows "parseVoiceCallInfoArray (of_nat (length cs) # concat (map call_info_bytes cs) @ x) = ok cs"
proof -
  define v where "v = [of_nat (length cs) :: byte] @ concat (map call_info_bytes cs) @ x"
  have head: "at v 0 = Some (of_nat (length cs))" "\<not> length v < 1" "\<not> length v < 1 + length cs * 7"
    by (simp_all add: v_def length_concat_calls)
  have "call_info_at v (1 + i * 7) = Some (cs ! i)" if "i < length cs" for i
    unfolding v_def using calls_read_back[OF that, of "[of_nat (length cs)]" x] by (simp only: length_Cons list.size One_nat_def add_Suc add_0)
  then have "map (\<lambda>i. call_info_at v (1 + i * 7)) [0..<length cs] = map Some cs"
    by (intro nth_equalityI) (simp_all only: length_map length_upt nth_map nth_upt diff_zero add_0)
  then have "those (map (\<lambda>i. call_info_at v (1 + i * 7)) [0..<length cs]) = Some cs"
    using those_map_Some[of "\<lambda>x. x" cs] by simp
  with head assms have "parseVoiceCallInfoArray v = ok cs"
    unfolding parseVoiceCallInfoArray_def Let_def by simp
  then show ?thesis by (simp add: v_def)
qed

lemma parse_numbers_bytes:
  assumes "length ns < 256" "\<forall>n \<in> set ns. length (vn_RawNumber n) < 256 \<and> vn_Number n = string_of_bytes (vn_RawNumber n)"
  shows "parseVoiceRemotePartyNumberArray (of_nat (length ns) # concat (map number_bytes ns) @ y) = ok ns"
  using numbers_read_back[OF assms(2), of 0 "[of_nat (length ns)]" y] assms(1)
  by (simp add: parseVoiceRemotePartyNumberArray_def)

text \<open>The calls and the numbers of the other parties are read back, from the response to the query and
  from the indication alike, whatever follows the lists.\<close>

theorem all_calls_roundtrip:
  assumes "length cs < 256" and "length ns < 256"
    and "\<forall>n \<in> set ns. length (vn_RawNumber n) < 256 \<and> vn_Number n = string_of_bytes (vn_RawNumber n)"
    and "FindTLV (pkt_TLVs p) 0x02 = None \<or> check p = None"
    and "map_option tlv_Value (FindTLV (pkt_TLVs p) t) = Some (of_nat (length cs) # concat (map call_info_bytes cs) @ x)"
    and "map_option tlv_Value (FindTLV (pkt_TLVs p) u) = Some (of_nat (length ns) # concat (map number_bytes ns) @ y)"
  shows "parseVoiceAllCallInfoPacket t u operation p = ok \<lparr>va_Calls = cs, va_RemotePartyNumbers = ns\<rparr>"
proof -
  have "parse_present [] parseVoiceCallInfoArray (pkt_TLVs p) t = ok cs"
    using assms(5) parse_calls_bytes[OF assms(1), of x] by (auto simp: parse_present_def)
  moreover have "parse_present [] parseVoiceRemotePartyNumberArray (pkt_TLVs p) u = ok ns"
    using assms(6) parse_numbers_bytes[OF assms(2,3), of y] by (auto simp: parse_present_def)
  ultimately show ?thesis
    using assms(4) by (auto simp: parseVoiceAllCallInfoPacket_def try_parse_def ok_def)
qed

text \<open>A USSD text that is sent is read back with its coding scheme when a USSD indication carries it, as long
  as it has at most 255 bytes; beyond that the length byte wraps.\<close>

theorem ussd_payload_roundtrip:
  "parseVoiceUSSDPayloadTLV (tlv_Value (buildVoiceUSSDRequestTLV req) @ rest) =
     ok \<lparr>up_DCS = ur_DCS req, up_Data = take (length (ur_Data req) mod 256) (ur_Data req),
          up_Text = string_of_bytes (take (length (ur_Data req) mod 256) (ur_Data req))\<rparr>"
proof -
  let ?n = "length (ur_Data req)"
  have n: "unat (of_nat ?n :: byte) = ?n mod 256" by (simp add: unat_of_nat take_bit_eq_mod)
  have "?n mod 256 \<le> ?n" by simp
  then have "go_slice 2 (2 + ?n mod 256) (ur_DCS req # of_nat ?n # ur_Data req @ rest) = take (?n mod 256) (ur_Data req)"
    by (simp add: go_slice_def)
  moreover have "\<not> ?n + length rest < ?n mod 256" using \<open>?n mod 256 \<le> ?n\<close> by linarith
  ultimately show ?thesis
    by (simp add: parseVoiceUSSDPayloadTLV_def buildVoiceUSSDRequestTLV_def n)
qed

theorem all_calls_roundtrip_witness:
  "ParseVoiceAllCallStatus \<lparr>pkt_ServiceType = 9, pkt_ClientID = 1, pkt_TransactionID = 0, pkt_MessageID = 0x2E,
     pkt_IsIndication = True, pkt_TLVs = [\<lparr>tlv_Type = 0x01, tlv_Value = [1, 1, 3, 0, 1, 4, 0, 0]\<rparr>,
       \<lparr>tlv_Type = 0x10, tlv_Value = [1, 1, 0, 2, 49, 50]\<rparr>]\<rparr> =
   ok \<lparr>va_Calls = [\<lparr>vc_ID = 1, vc_State = 3, vc_Type = 0, vc_Direction = 1, vc_Mode = 4, vc_Multipart = False, vc_ALS = 0\<rparr>],
        va_RemotePartyNumbers = [\<lparr>vn_CallID = 1, vn_PresentationIndicator = 0, vn_Number = string_of_bytes [49, 50], vn_RawNumber = [49, 50]\<rparr>]\<rparr>"
  unfolding ParseVoiceAllCallStatus_def
  by (rule all_calls_roundtrip[where x = "[]" and y = "[]"])
    (simp_all add: call_info_bytes_def number_bytes_def boolToUint8_def)

end
