(* ===== verification/WdaIms.thy ===== *)
theory WdaIms
  imports GoParse
begin

text \<open>
  The small services: WDA with the data format of the link (\<^verbatim>\<open>src/pkg/qmi/wda.go\<close>), and IMS, IMSA and IMSP with the
  settings and the registration of IMS (\<^verbatim>\<open>ims.go\<close>, \<^verbatim>\<open>imsa.go\<close>, \<^verbatim>\<open>imsp.go\<close>). No packet makes them panic, and settings are
  read back from the indication of their change, but for the call mode preference.
\<close>

section \<open>WDA\<close>

abbreviation (input) WDASetDataFormat :: u16 where "WDASetDataFormat \<equiv> 0x0020"
abbreviation (input) WDAGetDataFormat :: u16 where "WDAGetDataFormat \<equiv> 0x0021"
abbreviation (input) WDASetQMAPSettings :: u16 where "WDASetQMAPSettings \<equiv> 0x002B"
abbreviation (input) WDAGetQMAPSettings :: u16 where "WDAGetQMAPSettings \<equiv> 0x002C"
abbreviation (input) WDASetLoopbackConfig :: u16 where "WDASetLoopbackConfig \<equiv> 0x002F"

record DataFormat =
  df_LinkProtocol :: u32
  df_UlDataAggregation :: u32
  df_DlDataAggregation :: u32
  df_EndpointType :: u32
  df_InterfaceNumber :: u32

record DataFormatDetails =
  dd_QOSSetting :: u8
  dd_LinkProtocol :: u32
  dd_UlDataAggregation :: u32
  dd_DlDataAggregation :: u32
  dd_DlMaxDatagrams :: u32
  dd_DlMaxSize :: u32
  dd_UlMaxDatagrams :: u32
  dd_UlMaxSize :: u32

record QMAPSettings =
  qs_InBandFlowControl :: u8

record LoopbackConfig =
  lc_State :: u8
  lc_ReplicationFactor :: u32

definition data_format_tlvs :: "DataFormat \<Rightarrow> TLV list" where
  "data_format_tlvs format =
     [\<lparr>tlv_Type = 0x10, tlv_Value = [0x00]\<rparr>,
      \<lparr>tlv_Type = 0x11, tlv_Value = PutUint32 (df_LinkProtocol format)\<rparr>,
      \<lparr>tlv_Type = 0x12, tlv_Value = PutUint32 (df_UlDataAggregation format)\<rparr>,
      \<lparr>tlv_Type = 0x13, tlv_Value = PutUint32 (df_DlDataAggregation format)\<rparr>] @
     (if df_EndpointType format \<noteq> 0
      then [\<lparr>tlv_Type = 0x17, tlv_Value = PutUint32 (df_EndpointType format) @ PutUint32 (df_InterfaceNumber format)\<rparr>]
      else [])"

definition SetDataFormat :: "'m sender \<Rightarrow> DataFormat \<Rightarrow> 'm \<Rightarrow> unit parsed \<times> 'm" where
  "SetDataFormat send format = call send WDASetDataFormat (data_format_tlvs format) (checked_plain acked)"

definition u32_field :: "TLV list \<Rightarrow> u8 \<Rightarrow> u32 option" where
  "u32_field ts t = tlv_or 0 ts t 4 (\<lambda>v. le32 v)"

definition parseDataFormatDetails :: "Packet \<Rightarrow> DataFormatDetails option" where
  "parseDataFormatDetails resp = (let ts = pkt_TLVs resp in do {
     qos \<leftarrow> tlv_or 0 ts 0x10 1 (\<lambda>v. at v 0);
     link \<leftarrow> u32_field ts 0x11;
     ul \<leftarrow> u32_field ts 0x12;
     dl \<leftarrow> u32_field ts 0x13;
     dlmax \<leftarrow> u32_field ts 0x15;
     dlsize \<leftarrow> u32_field ts 0x16;
     ulmax \<leftarrow> u32_field ts 0x17;
     ulsize \<leftarrow> u32_field ts 0x18;
     Some \<lparr>dd_QOSSetting = qos, dd_LinkProtocol = link, dd_UlDataAggregation = ul, dd_DlDataAggregation = dl,
           dd_DlMaxDatagrams = dlmax, dd_DlMaxSize = dlsize, dd_UlMaxDatagrams = ulmax, dd_UlMaxSize = ulsize\<rparr> })"

definition GetDataFormatDetails :: "'m sender \<Rightarrow> 'm \<Rightarrow> DataFormatDetails parsed \<times> 'm" where
  "GetDataFormatDetails send =
     call send WDAGetDataFormat [] (checked_plain (\<lambda>resp. do { d \<leftarrow> parseDataFormatDetails resp; ok d }))"

definition GetDataFormat :: "'m sender \<Rightarrow> 'm \<Rightarrow> DataFormat parsed \<times> 'm" where
  "GetDataFormat send = then_m (GetDataFormatDetails send) (\<lambda>d. ret_m (ok
     \<lparr>df_LinkProtocol = dd_LinkProtocol d, df_UlDataAggregation = dd_UlDataAggregation d,
      df_DlDataAggregation = dd_DlDataAggregation d, df_EndpointType = 0, df_InterfaceNumber = 0\<rparr>))"

definition SetQMAPSettings :: "'m sender \<Rightarrow> QMAPSettings \<Rightarrow> 'm \<Rightarrow> unit parsed \<times> 'm" where
  "SetQMAPSettings send settings =
     call send WDASetQMAPSettings [\<lparr>tlv_Type = 0x10, tlv_Value = [qs_InBandFlowControl settings]\<rparr>] (checked_plain acked)"

definition parse_qmap_settings :: "Packet \<Rightarrow> QMAPSettings parsed" where
  "parse_qmap_settings = checked_plain (\<lambda>resp. do {
     flow \<leftarrow> tlv_or 0 (pkt_TLVs resp) 0x10 1 (\<lambda>v. at v 0);
     ok \<lparr>qs_InBandFlowControl = flow\<rparr> })"

definition GetQMAPSettings :: "'m sender \<Rightarrow> 'm \<Rightarrow> QMAPSettings parsed \<times> 'm" where
  "GetQMAPSettings send = call send WDAGetQMAPSettings [] parse_qmap_settings"

definition parse_loopback :: "Packet \<Rightarrow> unit parsed" where
  "parse_loopback resp =
     (case check resp of
        None \<Rightarrow> ok ()
      | Some err \<Rightarrow>
          (case GetQMIError err of
             Some qe \<Rightarrow>
               if qe_ErrorCode qe = QMIErrInvalidQmiCmd then Some (Inl (ErrNotSupported ''loopback''))
               else Some (Inl (errorf ''set loopback config failed'' err))
           | None \<Rightarrow> Some (Inl (errorf ''set loopback config failed'' err))))"

definition SetLoopbackConfig :: "'m sender \<Rightarrow> LoopbackConfig \<Rightarrow> 'm \<Rightarrow> unit parsed \<times> 'm" where
  "SetLoopbackConfig send config =
     call send WDASetLoopbackConfig
       ([\<lparr>tlv_Type = 0x01, tlv_Value = [lc_State config]\<rparr>] @
        (if lc_ReplicationFactor config > 0 then [\<lparr>tlv_Type = 0x10, tlv_Value = PutUint32 (lc_ReplicationFactor config)\<rparr>] else []))
       parse_loopback"

section \<open>IMS\<close>

abbreviation (input) IMSSetServicesEnabledSetting :: u16 where "IMSSetServicesEnabledSetting \<equiv> 0x008F"
abbreviation (input) IMSGetServicesEnabledSetting :: u16 where "IMSGetServicesEnabledSetting \<equiv> 0x0090"
abbreviation (input) IMSBindRequest :: u16 where "IMSBindRequest \<equiv> 0x0098"

text \<open>A setting with its \<^verbatim>\<open>Has\<close> flag is an option, and so is a pointer of the update: the two structures
  have the same fields.\<close>

record IMSServicesEnabledSettings =
  im_VoiceOverLTEEnabled :: "bool option"
  im_VideoTelephonyEnabled :: "bool option"
  im_VoiceWiFiEnabled :: "bool option"
  im_CallModePreference :: "u8 option"
  im_IMSServiceEnabled :: "bool option"
  im_UTServiceEnabled :: "bool option"
  im_SMSServiceEnabled :: "bool option"
  im_USSDServiceEnabled :: "bool option"
  im_PresenceEnabled :: "bool option"
  im_AutoconfigEnabled :: "bool option"
  im_XDMClientEnabled :: "bool option"
  im_RCSEnabled :: "bool option"
  im_CarrierConfigEnabled :: "bool option"

type_synonym IMSServicesEnabledSettingsUpdate = IMSServicesEnabledSettings

definition bool_tlv :: "u8 \<Rightarrow> bool option \<Rightarrow> TLV list" where
  "bool_tlv t b = u8_tlv t (map_option boolToUint8 b)"

definition buildIMSSetServicesEnabledSettingTLVs :: "IMSServicesEnabledSettingsUpdate \<Rightarrow> TLV list" where
  "buildIMSSetServicesEnabledSettingTLVs update =
     bool_tlv 0x10 (im_VoiceOverLTEEnabled update) @
     bool_tlv 0x11 (im_VideoTelephonyEnabled update) @
     bool_tlv 0x14 (im_VoiceWiFiEnabled update) @
     u8_tlv 0x15 (im_CallModePreference update) @
     bool_tlv 0x18 (im_IMSServiceEnabled update) @
     bool_tlv 0x19 (im_UTServiceEnabled update) @
     bool_tlv 0x1A (im_SMSServiceEnabled update) @
     bool_tlv 0x1C (im_USSDServiceEnabled update) @
     bool_tlv 0x1E (im_PresenceEnabled update) @
     bool_tlv 0x1F (im_AutoconfigEnabled update) @
     bool_tlv 0x20 (im_XDMClientEnabled update) @
     bool_tlv 0x21 (im_RCSEnabled update) @
     bool_tlv 0x25 (im_CarrierConfigEnabled update)"

definition buildIMSBindTLVs :: "u32 \<Rightarrow> TLV list" where
  "buildIMSBindTLVs binding = [NewTLVUint32 0x01 binding]"

definition setIMSBoolField :: "TLV list \<Rightarrow> u8 \<Rightarrow> bool option option" where
  "setIMSBoolField ts t = opt_tlv ts t 1 (\<lambda>v. map_option (\<lambda>b. b \<noteq> 0) (at v 0))"

definition parseIMSGetServicesEnabledSettingResponse :: "Packet \<Rightarrow> IMSServicesEnabledSettings parsed" where
  "parseIMSGetServicesEnabledSettingResponse = checked ''get ims services enabled setting failed'' (\<lambda>resp.
     let ts = pkt_TLVs resp in do {
       lte \<leftarrow> setIMSBoolField ts 0x11;
       video \<leftarrow> setIMSBoolField ts 0x12;
       wifi \<leftarrow> setIMSBoolField ts 0x15;
       ims \<leftarrow> setIMSBoolField ts 0x18;
       ut \<leftarrow> setIMSBoolField ts 0x19;
       sms \<leftarrow> setIMSBoolField ts 0x1A;
       ussd \<leftarrow> setIMSBoolField ts 0x1C;
       ok \<lparr>im_VoiceOverLTEEnabled = lte, im_VideoTelephonyEnabled = video, im_VoiceWiFiEnabled = wifi,
            im_CallModePreference = None, im_IMSServiceEnabled = ims, im_UTServiceEnabled = ut, im_SMSServiceEnabled = sms,
            im_USSDServiceEnabled = ussd, im_PresenceEnabled = None, im_AutoconfigEnabled = None,
            im_XDMClientEnabled = None, im_RCSEnabled = None, im_CarrierConfigEnabled = None\<rparr> })"

definition parseIMSSettingsChangedIndication :: "Packet \<Rightarrow> IMSServicesEnabledSettings parsed" where
  "parseIMSSettingsChangedIndication packet = (let ts = pkt_TLVs packet in do {
     lte \<leftarrow> setIMSBoolField ts 0x10;
     video \<leftarrow> setIMSBoolField ts 0x11;
     wifi \<leftarrow> setIMSBoolField ts 0x14;
     ims \<leftarrow> setIMSBoolField ts 0x18;
     ut \<leftarrow> setIMSBoolField ts 0x19;
     sms \<leftarrow> setIMSBoolField ts 0x1A;
     ussd \<leftarrow> setIMSBoolField ts 0x1C;
     presence \<leftarrow> setIMSBoolField ts 0x1E;
     autoconfig \<leftarrow> setIMSBoolField ts 0x1F;
     xdm \<leftarrow> setIMSBoolField ts 0x20;
     rcs \<leftarrow> setIMSBoolField ts 0x21;
     carrier \<leftarrow> setIMSBoolField ts 0x25;
     ok \<lparr>im_VoiceOverLTEEnabled = lte, im_VideoTelephonyEnabled = video, im_VoiceWiFiEnabled = wifi,
          im_CallModePreference = None, im_IMSServiceEnabled = ims, im_UTServiceEnabled = ut, im_SMSServiceEnabled = sms,
          im_USSDServiceEnabled = ussd, im_PresenceEnabled = presence, im_AutoconfigEnabled = autoconfig,
          im_XDMClientEnabled = xdm, im_RCSEnabled = rcs, im_CarrierConfigEnabled = carrier\<rparr> })"

definition ParseIMSServicesEnabledSetting :: "Packet \<Rightarrow> IMSServicesEnabledSettings parsed" where
  "ParseIMSServicesEnabledSetting packet =
     (if FindTLV (pkt_TLVs packet) 0x02 \<noteq> None then parseIMSGetServicesEnabledSettingResponse packet
      else parseIMSSettingsChangedIndication packet)"

definition IMS_Bind :: "'m sender \<Rightarrow> u32 \<Rightarrow> 'm \<Rightarrow> unit parsed \<times> 'm" where
  "IMS_Bind send binding = call send IMSBindRequest (buildIMSBindTLVs binding) (checked ''ims bind failed'' acked)"

definition GetServicesEnabledSetting :: "'m sender \<Rightarrow> 'm \<Rightarrow> IMSServicesEnabledSettings parsed \<times> 'm" where
  "GetServicesEnabledSetting send = call send IMSGetServicesEnabledSetting [] parseIMSGetServicesEnabledSettingResponse"

definition SetServicesEnabledSetting :: "'m sender \<Rightarrow> IMSServicesEnabledSettingsUpdate \<Rightarrow> 'm \<Rightarrow> unit parsed \<times> 'm" where
  "SetServicesEnabledSetting send update =
     call send IMSSetServicesEnabledSetting (buildIMSSetServicesEnabledSettingTLVs update)
       (checked ''set ims services enabled setting failed'' acked)"

section \<open>IMSA\<close>

abbreviation (input) IMSAGetIMSRegistrationStatus :: u16 where "IMSAGetIMSRegistrationStatus \<equiv> 0x0020"
abbreviation (input) IMSAGetIMSServicesStatus :: u16 where "IMSAGetIMSServicesStatus \<equiv> 0x0021"
abbreviation (input) IMSARegisterIndications :: u16 where "IMSARegisterIndications \<equiv> 0x0022"
abbreviation (input) IMSABindRequest :: u16 where "IMSABindRequest \<equiv> 0x0033"

record IMSARegistrationStatus =
  ia_Status :: "u32 option"
  ia_ErrorCode :: "u16 option"
  ia_ErrorMessage :: "string option"
  ia_Technology :: "u32 option"

record IMSAServicesStatus =
  is_SMSServiceStatus :: "u32 option"
  is_VoiceServiceStatus :: "u32 option"
  is_VideoTelephonyServiceStatus :: "u32 option"
  is_SMSTechnology :: "u32 option"
  is_VoiceTechnology :: "u32 option"
  is_VideoTelephonyTechnology :: "u32 option"
  is_UETASServiceStatus :: "u32 option"
  is_UETASTechnology :: "u32 option"
  is_VideoShareServiceStatus :: "u32 option"
  is_VideoShareTechnology :: "u32 option"

record IMSAIndicationRegistration =
  ir_RegistrationStatusChanged :: bool
  ir_ServicesStatusChanged :: bool

definition buildIMSARegisterIndicationsTLVs :: "IMSAIndicationRegistration \<Rightarrow> TLV list" where
  "buildIMSARegisterIndicationsTLVs cfg =
     [NewTLVUint8 0x10 (boolToUint8 (ir_RegistrationStatusChanged cfg)),
      NewTLVUint8 0x11 (boolToUint8 (ir_ServicesStatusChanged cfg))]"

definition buildIMSABindTLVs :: "u32 \<Rightarrow> TLV list" where
  "buildIMSABindTLVs binding = [NewTLVUint32 0x10 binding]"

definition opt_u32 :: "TLV list \<Rightarrow> u8 \<Rightarrow> u32 option option" where
  "opt_u32 ts t = opt_tlv ts t 4 (\<lambda>v. rd32 v 0)"

definition parseIMSARegistrationStatusPacket :: "Packet \<Rightarrow> bool \<Rightarrow> IMSARegistrationStatus parsed" where
  "parseIMSARegistrationStatusPacket packet isResponse = (let ts = pkt_TLVs packet in do {
     status \<leftarrow> opt_u32 ts (if isResponse then 0x12 else 0x11);
     code \<leftarrow> opt_tlv ts (if isResponse then 0x11 else 0x10) 2 (\<lambda>v. rd16 v 0);
     msg \<leftarrow> opt_tlv ts (if isResponse then 0x13 else 0x12) 0 (\<lambda>v. Some (string_of_bytes v));
     tech \<leftarrow> opt_u32 ts (if isResponse then 0x14 else 0x13);
     if status = None then Some (Inl (ErrText ''ims registration status TLV missing''))
     else ok \<lparr>ia_Status = status, ia_ErrorCode = code, ia_ErrorMessage = msg, ia_Technology = tech\<rparr> })"

definition parseIMSARegistrationStatusResponse :: "Packet \<Rightarrow> IMSARegistrationStatus parsed" where
  "parseIMSARegistrationStatusResponse = checked ''get ims registration status failed''
     (\<lambda>resp. parseIMSARegistrationStatusPacket resp True)"

definition ParseIMSARegistrationStatusChanged :: "Packet \<Rightarrow> IMSARegistrationStatus parsed" where
  "ParseIMSARegistrationStatusChanged packet = parseIMSARegistrationStatusPacket packet False"

definition parseIMSAServicesStatusPacket :: "Packet \<Rightarrow> IMSAServicesStatus parsed" where
  "parseIMSAServicesStatusPacket packet = (let ts = pkt_TLVs packet in do {
     sms \<leftarrow> opt_u32 ts 0x10; voice \<leftarrow> opt_u32 ts 0x11; video \<leftarrow> opt_u32 ts 0x12;
     smsT \<leftarrow> opt_u32 ts 0x13; voiceT \<leftarrow> opt_u32 ts 0x14; videoT \<leftarrow> opt_u32 ts 0x15;
     uetas \<leftarrow> opt_u32 ts 0x16; uetasT \<leftarrow> opt_u32 ts 0x17;
     share \<leftarrow> opt_u32 ts 0x18; shareT \<leftarrow> opt_u32 ts 0x19;
     ok \<lparr>is_SMSServiceStatus = sms, is_VoiceServiceStatus = voice, is_VideoTelephonyServiceStatus = video,
          is_SMSTechnology = smsT, is_VoiceTechnology = voiceT, is_VideoTelephonyTechnology = videoT,
          is_UETASServiceStatus = uetas, is_UETASTechnology = uetasT, is_VideoShareServiceStatus = share,
          is_VideoShareTechnology = shareT\<rparr> })"

definition parseIMSAServicesStatusResponse :: "Packet \<Rightarrow> IMSAServicesStatus parsed" where
  "parseIMSAServicesStatusResponse = checked ''get ims services status failed'' parseIMSAServicesStatusPacket"

definition ParseIMSAServicesStatusChanged :: "Packet \<Rightarrow> IMSAServicesStatus parsed" where
  "ParseIMSAServicesStatusChanged = parseIMSAServicesStatusPacket"

definition IMSA_Bind :: "'m sender \<Rightarrow> u32 \<Rightarrow> 'm \<Rightarrow> unit parsed \<times> 'm" where
  "IMSA_Bind send binding = call send IMSABindRequest (buildIMSABindTLVs binding) (checked ''imsa bind failed'' acked)"

definition GetIMSRegistrationStatus :: "'m sender \<Rightarrow> 'm \<Rightarrow> IMSARegistrationStatus parsed \<times> 'm" where
  "GetIMSRegistrationStatus send = call send IMSAGetIMSRegistrationStatus [] parseIMSARegistrationStatusResponse"

definition GetIMSServicesStatus :: "'m sender \<Rightarrow> 'm \<Rightarrow> IMSAServicesStatus parsed \<times> 'm" where
  "GetIMSServicesStatus send = call send IMSAGetIMSServicesStatus [] parseIMSAServicesStatusResponse"

definition RegisterIndications :: "'m sender \<Rightarrow> IMSAIndicationRegistration \<Rightarrow> 'm \<Rightarrow> unit parsed \<times> 'm" where
  "RegisterIndications send cfg =
     call send IMSARegisterIndications (buildIMSARegisterIndicationsTLVs cfg) (checked ''imsa register indications failed'' acked)"

section \<open>IMSP\<close>

abbreviation (input) IMSPGetEnablerState :: u16 where "IMSPGetEnablerState \<equiv> 0x0024"

definition parseIMSPGetEnablerStateResponse :: "Packet \<Rightarrow> u32 parsed" where
  "parseIMSPGetEnablerStateResponse = checked ''get imsp enabler state failed'' (\<lambda>resp.
     need_tlv (pkt_TLVs resp) 0x10 4 ''imsp enabler state TLV missing'' (\<lambda>v. do { s \<leftarrow> rd32 v 0; ok s }))"

definition GetEnablerState :: "'m sender \<Rightarrow> 'm \<Rightarrow> u32 parsed \<times> 'm" where
  "GetEnablerState send = call send IMSPGetEnablerState [] parseIMSPGetEnablerStateResponse"

section \<open>Properties\<close>

lemma ims_fields_safe [safe]:
  "setIMSBoolField ts t \<noteq> None" "opt_u32 ts t \<noteq> None" "u32_field ts t \<noteq> None"
  unfolding setIMSBoolField_def opt_u32_def u32_field_def by (intro safe; auto)+

lemma data_format_safe [safe]: "parseDataFormatDetails p \<noteq> None"
  unfolding parseDataFormatDetails_def by (intro safe; auto)

text \<open>No packet makes the WDA, IMS, IMSA and IMSP services panic.\<close>

theorem wda_ims_never_panic:
  "parseDataFormatDetails p \<noteq> None \<and> parse_qmap_settings p \<noteq> None \<and> parse_loopback p \<noteq> None \<and>
   ParseIMSServicesEnabledSetting p \<noteq> None \<and> parseIMSARegistrationStatusPacket p r \<noteq> None \<and>
   parseIMSARegistrationStatusResponse p \<noteq> None \<and> parseIMSAServicesStatusResponse p \<noteq> None \<and>
   ParseIMSAServicesStatusChanged p \<noteq> None \<and> parseIMSPGetEnablerStateResponse p \<noteq> None"
  unfolding parse_qmap_settings_def parse_loopback_def ParseIMSServicesEnabledSetting_def
    parseIMSGetServicesEnabledSettingResponse_def parseIMSSettingsChangedIndication_def
    parseIMSARegistrationStatusResponse_def parseIMSARegistrationStatusPacket_def parseIMSAServicesStatusResponse_def
    ParseIMSAServicesStatusChanged_def parseIMSAServicesStatusPacket_def parseIMSPGetEnablerStateResponse_def
  by (intro conjI; intro safe; auto)

lemma FindTLV_append: "FindTLV (xs @ ys) t = (case FindTLV xs t of Some x \<Rightarrow> Some x | None \<Rightarrow> FindTLV ys t)"
  by (induction xs) auto

lemma FindTLV_u8: "FindTLV (u8_tlv a v) t = (if a = t then map_option (NewTLVUint8 t) v else None)"
  by (cases v) (auto simp: u8_tlv_def NewTLVUint8_def)

lemma find_bool: "FindTLV (bool_tlv a b) t = (if a = t then map_option (\<lambda>x. NewTLVUint8 t (boolToUint8 x)) b else None)"
  by (simp add: bool_tlv_def FindTLV_u8 option.map_comp comp_def)

lemma setIMSBoolField_found:
  "FindTLV ts t = map_option (\<lambda>x. NewTLVUint8 t (boolToUint8 x)) b \<Longrightarrow> setIMSBoolField ts t = Some b"
  by (cases b) (auto simp: setIMSBoolField_def opt_tlv_def with_tlv_def NewTLVUint8_def boolToUint8_def)

lemma ims_setting_fields:
  "setIMSBoolField (buildIMSSetServicesEnabledSettingTLVs u) 0x10 = Some (im_VoiceOverLTEEnabled u)"
  "setIMSBoolField (buildIMSSetServicesEnabledSettingTLVs u) 0x11 = Some (im_VideoTelephonyEnabled u)"
  "setIMSBoolField (buildIMSSetServicesEnabledSettingTLVs u) 0x14 = Some (im_VoiceWiFiEnabled u)"
  "setIMSBoolField (buildIMSSetServicesEnabledSettingTLVs u) 0x18 = Some (im_IMSServiceEnabled u)"
  "setIMSBoolField (buildIMSSetServicesEnabledSettingTLVs u) 0x19 = Some (im_UTServiceEnabled u)"
  "setIMSBoolField (buildIMSSetServicesEnabledSettingTLVs u) 0x1A = Some (im_SMSServiceEnabled u)"
  "setIMSBoolField (buildIMSSetServicesEnabledSettingTLVs u) 0x1C = Some (im_USSDServiceEnabled u)"
  "setIMSBoolField (buildIMSSetServicesEnabledSettingTLVs u) 0x1E = Some (im_PresenceEnabled u)"
  "setIMSBoolField (buildIMSSetServicesEnabledSettingTLVs u) 0x1F = Some (im_AutoconfigEnabled u)"
  "setIMSBoolField (buildIMSSetServicesEnabledSettingTLVs u) 0x20 = Some (im_XDMClientEnabled u)"
  "setIMSBoolField (buildIMSSetServicesEnabledSettingTLVs u) 0x21 = Some (im_RCSEnabled u)"
  "setIMSBoolField (buildIMSSetServicesEnabledSettingTLVs u) 0x25 = Some (im_CarrierConfigEnabled u)"
  unfolding buildIMSSetServicesEnabledSettingTLVs_def
  by (rule setIMSBoolField_found, simp add: FindTLV_append find_bool FindTLV_u8 cong: option.case_cong, (simp split: option.split)?)+

text \<open>The settings of an update come back in the indication of a change that echoes them, each in its own
  field and absent where the update leaves them out; the call mode preference alone is lost, as no parser reads it.\<close>

theorem ims_settings_roundtrip:
  "parseIMSSettingsChangedIndication (p\<lparr>pkt_TLVs := buildIMSSetServicesEnabledSettingTLVs update\<rparr>) =
     ok (update\<lparr>im_CallModePreference := None\<rparr>)"
  by (cases update) (simp add: parseIMSSettingsChangedIndication_def ims_setting_fields)

text \<open>The data format that is set is the one a modem that keeps it reports; a modem that echoes the whole request
  would have its endpoint type taken for a limit of datagrams, since the response uses that TLV for the limit.\<close>

theorem data_format_roundtrip:
  "map_option (\<lambda>d. (dd_LinkProtocol d, dd_UlDataAggregation d, dd_DlDataAggregation d, dd_UlMaxDatagrams d))
     (parseDataFormatDetails (p\<lparr>pkt_TLVs := data_format_tlvs format\<rparr>)) =
   Some (df_LinkProtocol format, df_UlDataAggregation format, df_DlDataAggregation format, df_EndpointType format)"
proof -
  have "Uint32 (PutUint32 x) = x" for x using Uint32_PutUint32[of x "[]"] by simp
  then show ?thesis
    by (simp add: parseDataFormatDetails_def data_format_tlvs_def u32_field_def tlv_or_def with_tlv_def)
qed

end
