(* ===== verification/Snapshot.thy ===== *)
theory Snapshot
  imports Uim
begin

text \<open>
  The device snapshot, \<^verbatim>\<open>src/pkg/manager/snapshot.go\<close>: what indications and queries reported last, and the identities
  of device and card. Every operation runs under the lock of the snapshot, so that a run is a sequence of
  operations. The readiness flags are exact after any run, an identity that was asked for before the card
  changed is refused, and pieces of a network scan are merged to the last report of each network.
\<close>

section \<open>Data\<close>

text \<open>A cached value and the time it was stored (\<^term>\<open>None\<close> is the zero time), and the same with the flag
  that says whether the value is valid. Copies are values here: the clone functions of the source keep
  callers from sharing memory with the cache.\<close>

record 'a timed =
  tm_value :: "'a option"
  tm_last :: "int option"

record 'a cached = "'a timed" +
  ca_valid :: bool

record DeviceIdentities =
  id_IMEI :: string
  id_ICCID :: string
  id_IMSI :: string
  id_SMSC :: string
  id_FirmwareRevision :: string
  id_HardwareRevision :: string
  id_Manufacturer :: string
  id_Model :: string
  id_OperatingMode :: "u8 option"
  id_SimInserted :: "bool option"

record DeviceSnapshot =
  sn_serving :: "ServingSystem timed"
  sn_signal :: "SignalStrength timed"
  sn_sysInfo :: "SysInfo timed"
  sn_operatorName :: "NASOperatorNameInfo cached"
  sn_networkTime :: "NetworkTimeInfo cached"
  sn_signalInfo :: "SignalInfo cached"
  sn_networkReject :: "NASNetworkRejectInfo cached"
  sn_incrementalScan :: "NASIncrementalNetworkScanInfo cached"
  sn_cellLocation :: "CellLocationInfo cached"
  sn_uimRefresh :: "UIMRefreshIndication cached"
  sn_uimSlotStatus :: "UIMSlotStatusSlot list cached"
  sn_identities :: DeviceIdentities
  sn_staticReady :: bool
  sn_simReady :: bool
  sn_generation :: u64

definition no_timed :: "'a timed" where
  "no_timed = \<lparr>tm_value = None, tm_last = None\<rparr>"

definition no_cached :: "'a cached" where
  "no_cached = \<lparr>tm_value = None, tm_last = None, ca_valid = False\<rparr>"

definition store_timed :: "int \<Rightarrow> 'a \<Rightarrow> 'a timed" where
  "store_timed now x = \<lparr>tm_value = Some x, tm_last = Some now\<rparr>"

definition store_cached :: "int \<Rightarrow> 'a \<Rightarrow> 'a cached" where
  "store_cached now x = \<lparr>tm_value = Some x, tm_last = Some now, ca_valid = True\<rparr>"

definition no_identities :: DeviceIdentities where
  "no_identities = \<lparr>id_IMEI = [], id_ICCID = [], id_IMSI = [], id_SMSC = [], id_FirmwareRevision = [], id_HardwareRevision = [],
     id_Manufacturer = [], id_Model = [], id_OperatingMode = None, id_SimInserted = None\<rparr>"

definition empty_snapshot :: DeviceSnapshot where
  "empty_snapshot = \<lparr>sn_serving = no_timed, sn_signal = no_timed, sn_sysInfo = no_timed, sn_operatorName = no_cached,
     sn_networkTime = no_cached, sn_signalInfo = no_cached, sn_networkReject = no_cached, sn_incrementalScan = no_cached,
     sn_cellLocation = no_cached, sn_uimRefresh = no_cached, sn_uimSlotStatus = no_cached,
     sn_identities = no_identities, sn_staticReady = False, sn_simReady = False, sn_generation = 0\<rparr>"

section \<open>Updates\<close>

text \<open>A nil argument leaves the snapshot as it is.\<close>

definition when_given :: "'a option \<Rightarrow> ('a \<Rightarrow> 's \<Rightarrow> 's) \<Rightarrow> 's \<Rightarrow> 's" where
  "when_given x f s = (case x of None \<Rightarrow> s | Some v \<Rightarrow> f v s)"

abbreviation (input) RegStateUnknown :: u8 where "RegStateUnknown \<equiv> 4"

definition zero_serving :: ServingSystem where
  "zero_serving = \<lparr>sv_RegistrationState = 0, sv_PSAttached = False, sv_RadioInterface = 0, sv_MCC = 0, sv_MNC = 0\<rparr>"

definition current_serving :: "DeviceSnapshot \<Rightarrow> ServingSystem" where
  "current_serving s = (case tm_value (sn_serving s) of None \<Rightarrow> zero_serving | Some v \<Rightarrow> v)"

definition updateServingRegistration :: "int \<Rightarrow> ServingSystem option \<Rightarrow> DeviceSnapshot \<Rightarrow> DeviceSnapshot" where
  "updateServingRegistration now ss = when_given ss (\<lambda>v s. s\<lparr>sn_serving := store_timed now
     ((current_serving s)\<lparr>sv_RegistrationState := sv_RegistrationState v, sv_PSAttached := sv_PSAttached v,
        sv_RadioInterface := sv_RadioInterface v\<rparr>)\<rparr>)"

definition updateServingFromQuery :: "int \<Rightarrow> ServingSystem option \<Rightarrow> DeviceSnapshot \<Rightarrow> DeviceSnapshot" where
  "updateServingFromQuery now ss = when_given ss (\<lambda>v s.
     let base = (current_serving s)\<lparr>sv_RegistrationState := sv_RegistrationState v, sv_PSAttached := sv_PSAttached v,
           sv_RadioInterface := sv_RadioInterface v\<rparr>;
         merged = (if sv_MCC v \<noteq> 0 \<or> sv_MNC v \<noteq> 0 then base\<lparr>sv_MCC := sv_MCC v, sv_MNC := sv_MNC v\<rparr> else base)
     in s\<lparr>sn_serving := store_timed now merged\<rparr>)"

definition updateServingPLMN :: "int \<Rightarrow> u16 \<Rightarrow> u16 \<Rightarrow> DeviceSnapshot \<Rightarrow> DeviceSnapshot" where
  "updateServingPLMN now mcc mnc s =
     (if mcc = 0 \<and> mnc = 0 then s
      else s\<lparr>sn_serving := store_timed now
        (case tm_value (sn_serving s) of
           None \<Rightarrow> zero_serving\<lparr>sv_RegistrationState := RegStateUnknown, sv_MCC := mcc, sv_MNC := mnc\<rparr>
         | Some v \<Rightarrow> v\<lparr>sv_MCC := mcc, sv_MNC := mnc\<rparr>)\<rparr>)"

definition updateSysInfo :: "int \<Rightarrow> SysInfo option \<Rightarrow> DeviceSnapshot \<Rightarrow> DeviceSnapshot" where
  "updateSysInfo now info = when_given info (\<lambda>v s. s\<lparr>sn_sysInfo := store_timed now v\<rparr>)"

definition updateNASOperatorName :: "int \<Rightarrow> NASOperatorNameInfo option \<Rightarrow> DeviceSnapshot \<Rightarrow> DeviceSnapshot" where
  "updateNASOperatorName now info = when_given info (\<lambda>v s. s\<lparr>sn_operatorName := store_cached now v\<rparr>)"

definition updateNASNetworkTime :: "int \<Rightarrow> NetworkTimeInfo option \<Rightarrow> DeviceSnapshot \<Rightarrow> DeviceSnapshot" where
  "updateNASNetworkTime now info = when_given info (\<lambda>v s. s\<lparr>sn_networkTime := store_cached now v\<rparr>)"

definition updateNASSignalInfo :: "int \<Rightarrow> SignalInfo option \<Rightarrow> DeviceSnapshot \<Rightarrow> DeviceSnapshot" where
  "updateNASSignalInfo now info = when_given info (\<lambda>v s. s\<lparr>sn_signalInfo := store_cached now v\<rparr>)"

definition updateNASCellLocationInfo :: "int \<Rightarrow> CellLocationInfo option \<Rightarrow> DeviceSnapshot \<Rightarrow> DeviceSnapshot" where
  "updateNASCellLocationInfo now info = when_given info (\<lambda>v s. s\<lparr>sn_cellLocation := store_cached now v\<rparr>)"

definition updateNASNetworkReject :: "int \<Rightarrow> NASNetworkRejectInfo option \<Rightarrow> DeviceSnapshot \<Rightarrow> DeviceSnapshot" where
  "updateNASNetworkReject now info = when_given info (\<lambda>v s. s\<lparr>sn_networkReject := store_cached now v\<rparr>)"

definition updateUIMRefresh :: "int \<Rightarrow> UIMRefreshIndication option \<Rightarrow> DeviceSnapshot \<Rightarrow> DeviceSnapshot" where
  "updateUIMRefresh now info = when_given info (\<lambda>v s. s\<lparr>sn_uimRefresh := store_cached now v\<rparr>)"

definition updateUIMSlotStatus :: "int \<Rightarrow> (UIMSlotStatusSlot list) option \<Rightarrow> DeviceSnapshot \<Rightarrow> DeviceSnapshot" where
  "updateUIMSlotStatus now info = when_given info (\<lambda>v s. s\<lparr>sn_uimSlotStatus := store_cached now v\<rparr>)"

definition updateSignal :: "int \<Rightarrow> SignalStrength option \<Rightarrow> DeviceSnapshot \<Rightarrow> DeviceSnapshot" where
  "updateSignal now info = when_given info (\<lambda>v s. s\<lparr>sn_signal := store_timed now v\<rparr>)"

subsection \<open>Results of a scan that arrive in pieces\<close>

definition scan_key :: "NetworkScanResult \<Rightarrow> string" where
  "scan_key r = ns_MCC r @ ''|'' @ ns_MNC r @ ''|'' @ ns_Description r"

text \<open>The map from keys to indexes, where a later entry of the same key replaces an earlier one.\<close>

definition index_by_key :: "NetworkScanResult list \<Rightarrow> string \<rightharpoonup> nat" where
  "index_by_key rs = foldl (\<lambda>m i. m(scan_key (rs ! i) \<mapsto> i)) Map.empty [0..<length rs]"

fun merge_loop :: "NetworkScanResult list \<Rightarrow> (string \<rightharpoonup> nat) \<Rightarrow> NetworkScanResult list \<Rightarrow> NetworkScanResult list" where
  "merge_loop merged ix [] = merged"
| "merge_loop merged ix (entry # rest) =
     (case ix (scan_key entry) of
        Some idx \<Rightarrow> merge_loop (merged[idx := entry]) ix rest
      | None \<Rightarrow> merge_loop (merged @ [entry]) (ix(scan_key entry \<mapsto> length merged)) rest)"

definition mergeScanResults :: "NetworkScanResult list \<Rightarrow> NetworkScanResult list \<Rightarrow> NetworkScanResult list" where
  "mergeScanResults oldResults newResults =
     (if length oldResults = 0 then newResults
      else if length newResults = 0 then oldResults
      else merge_loop oldResults (index_by_key oldResults) newResults)"

definition updateNASIncrementalScan :: "int \<Rightarrow> NASIncrementalNetworkScanInfo option \<Rightarrow> DeviceSnapshot \<Rightarrow> DeviceSnapshot" where
  "updateNASIncrementalScan now info = when_given info (\<lambda>v s.
     let mergedResults = (case tm_value (sn_incrementalScan s) of
           Some old \<Rightarrow> mergeScanResults (is_Results old) (is_Results v)
         | None \<Rightarrow> is_Results v)
     in s\<lparr>sn_incrementalScan := store_cached now \<lparr>is_ScanComplete = is_ScanComplete v, is_Results = mergedResults\<rparr>\<rparr>)"

subsection \<open>Identities\<close>

definition keep_string :: "string \<Rightarrow> string \<Rightarrow> string" where
  "keep_string new old = (if new \<noteq> [] then new else old)"

definition keep_option :: "'a option \<Rightarrow> 'a option \<Rightarrow> 'a option" where
  "keep_option new old = (case new of Some _ \<Rightarrow> new | None \<Rightarrow> old)"

definition hasStatic :: "DeviceIdentities \<Rightarrow> bool" where
  "hasStatic d \<longleftrightarrow> id_IMEI d \<noteq> [] \<or> id_FirmwareRevision d \<noteq> [] \<or> id_HardwareRevision d \<noteq> [] \<or> id_Manufacturer d \<noteq> [] \<or>
     id_Model d \<noteq> [] \<or> id_OperatingMode d \<noteq> None"

definition hasSIM :: "DeviceIdentities \<Rightarrow> bool" where
  "hasSIM d \<longleftrightarrow> id_ICCID d \<noteq> [] \<or> id_IMSI d \<noteq> [] \<or> id_SimInserted d \<noteq> None"

definition updateIdentitiesLocked :: "DeviceIdentities \<Rightarrow> DeviceSnapshot \<Rightarrow> DeviceSnapshot" where
  "updateIdentitiesLocked ids s =
     (let old = sn_identities s;
          new = \<lparr>id_IMEI = keep_string (id_IMEI ids) (id_IMEI old),
                 id_ICCID = keep_string (id_ICCID ids) (id_ICCID old),
                 id_IMSI = keep_string (id_IMSI ids) (id_IMSI old),
                 id_SMSC = keep_string (id_SMSC ids) (id_SMSC old),
                 id_FirmwareRevision = keep_string (id_FirmwareRevision ids) (id_FirmwareRevision old),
                 id_HardwareRevision = keep_string (id_HardwareRevision ids) (id_HardwareRevision old),
                 id_Manufacturer = keep_string (id_Manufacturer ids) (id_Manufacturer old),
                 id_Model = keep_string (id_Model ids) (id_Model old),
                 id_OperatingMode = keep_option (id_OperatingMode ids) (id_OperatingMode old),
                 id_SimInserted = keep_option (id_SimInserted ids) (id_SimInserted old)\<rparr>
      in s\<lparr>sn_identities := new, sn_staticReady := hasStatic new, sn_simReady := hasSIM new\<rparr>)"

definition UpdateIdentities :: "DeviceIdentities \<Rightarrow> DeviceSnapshot \<Rightarrow> DeviceSnapshot" where
  "UpdateIdentities ids s = updateIdentitiesLocked ids s"

definition UpdateIdentitiesIfGeneration :: "DeviceIdentities \<Rightarrow> u64 \<Rightarrow> DeviceSnapshot \<Rightarrow> bool \<times> DeviceSnapshot" where
  "UpdateIdentitiesIfGeneration ids generation s =
     (if generation \<noteq> sn_generation s then (False, s) else (True, updateIdentitiesLocked ids s))"

definition without_sim :: "DeviceIdentities \<Rightarrow> DeviceIdentities" where
  "without_sim d = d\<lparr>id_ICCID := [], id_IMSI := [], id_SMSC := [], id_SimInserted := None\<rparr>"

definition ResetIdentities :: "bool \<Rightarrow> DeviceSnapshot \<Rightarrow> DeviceSnapshot" where
  "ResetIdentities clearAll s =
     (let s1 = s\<lparr>sn_generation := sn_generation s + 1\<rparr> in
      if clearAll then s1\<lparr>sn_identities := no_identities, sn_staticReady := False, sn_simReady := False\<rparr>
      else s1\<lparr>sn_identities := without_sim (sn_identities s), sn_simReady := False\<rparr>)"

definition Reset_snapshot :: "DeviceSnapshot \<Rightarrow> DeviceSnapshot" where
  "Reset_snapshot s =
     \<lparr>sn_serving = no_timed, sn_signal = no_timed, sn_sysInfo = no_timed, sn_operatorName = no_cached,
      sn_networkTime = no_cached, sn_signalInfo = no_cached, sn_networkReject = no_cached, sn_incrementalScan = no_cached,
      sn_cellLocation = no_cached, sn_uimRefresh = no_cached, sn_uimSlotStatus = no_cached,
      sn_identities = without_sim (sn_identities s), sn_staticReady = sn_staticReady s, sn_simReady = False,
      sn_generation = sn_generation s + 1\<rparr>"

subsection \<open>Reading\<close>

definition Identities :: "DeviceSnapshot \<Rightarrow> DeviceIdentities \<times> bool" where
  "Identities s = (sn_identities s, sn_staticReady s)"

definition IdentityReadiness :: "DeviceSnapshot \<Rightarrow> bool \<times> bool" where
  "IdentityReadiness s = (sn_staticReady s, sn_simReady s)"

definition IdentityGeneration :: "DeviceSnapshot \<Rightarrow> u64" where
  "IdentityGeneration s = sn_generation s"

definition get_ServingSystem :: "DeviceSnapshot \<Rightarrow> ServingSystem option \<times> int option" where
  "get_ServingSystem s = (tm_value (sn_serving s), tm_last (sn_serving s))"

definition get_Signal :: "DeviceSnapshot \<Rightarrow> SignalStrength option \<times> int option" where
  "get_Signal s = (tm_value (sn_signal s), tm_last (sn_signal s))"

definition get_SysInfo :: "DeviceSnapshot \<Rightarrow> SysInfo option \<times> int option" where
  "get_SysInfo s = (tm_value (sn_sysInfo s), tm_last (sn_sysInfo s))"

definition get_NASOperatorName :: "DeviceSnapshot \<Rightarrow> NASOperatorNameInfo option \<times> int option \<times> bool" where
  "get_NASOperatorName s = (tm_value (sn_operatorName s), tm_last (sn_operatorName s), ca_valid (sn_operatorName s))"

definition get_NASNetworkTime :: "DeviceSnapshot \<Rightarrow> NetworkTimeInfo option \<times> int option \<times> bool" where
  "get_NASNetworkTime s = (tm_value (sn_networkTime s), tm_last (sn_networkTime s), ca_valid (sn_networkTime s))"

definition get_NASSignalInfo :: "DeviceSnapshot \<Rightarrow> SignalInfo option \<times> int option \<times> bool" where
  "get_NASSignalInfo s = (tm_value (sn_signalInfo s), tm_last (sn_signalInfo s), ca_valid (sn_signalInfo s))"

definition get_NASCellLocationInfo :: "DeviceSnapshot \<Rightarrow> CellLocationInfo option \<times> int option \<times> bool" where
  "get_NASCellLocationInfo s = (tm_value (sn_cellLocation s), tm_last (sn_cellLocation s), ca_valid (sn_cellLocation s))"

definition get_NASNetworkReject :: "DeviceSnapshot \<Rightarrow> NASNetworkRejectInfo option \<times> int option \<times> bool" where
  "get_NASNetworkReject s = (tm_value (sn_networkReject s), tm_last (sn_networkReject s), ca_valid (sn_networkReject s))"

definition get_NASIncrementalScan :: "DeviceSnapshot \<Rightarrow> NASIncrementalNetworkScanInfo option \<times> int option \<times> bool" where
  "get_NASIncrementalScan s = (tm_value (sn_incrementalScan s), tm_last (sn_incrementalScan s), ca_valid (sn_incrementalScan s))"

definition get_UIMRefresh :: "DeviceSnapshot \<Rightarrow> UIMRefreshIndication option \<times> int option \<times> bool" where
  "get_UIMRefresh s = (tm_value (sn_uimRefresh s), tm_last (sn_uimRefresh s), ca_valid (sn_uimRefresh s))"

definition get_UIMSlotStatus :: "DeviceSnapshot \<Rightarrow> (UIMSlotStatusSlot list) option \<times> int option \<times> bool" where
  "get_UIMSlotStatus s = (tm_value (sn_uimSlotStatus s), tm_last (sn_uimSlotStatus s), ca_valid (sn_uimSlotStatus s))"

section \<open>Any sequence of updates and resets\<close>

datatype snapshot_op =
    Serving int "ServingSystem option" | Queried int "ServingSystem option" | PLMN int u16 u16 | Cells int "SysInfo option"
  | Operator int "NASOperatorNameInfo option" | Clock int "NetworkTimeInfo option" | Levels int "SignalInfo option"
  | Location int "CellLocationInfo option" | Reject int "NASNetworkRejectInfo option"
  | Scan int "NASIncrementalNetworkScanInfo option" | Refreshed int "UIMRefreshIndication option"
  | Slots int "UIMSlotStatusSlot list option" | Strength int "SignalStrength option"
  | SetIds DeviceIdentities | SetIdsIf DeviceIdentities u64 | ClearIds bool | ClearAll

fun apply_op :: "snapshot_op \<Rightarrow> DeviceSnapshot \<Rightarrow> DeviceSnapshot" where
  "apply_op (Serving now x) = updateServingRegistration now x"
| "apply_op (Queried now x) = updateServingFromQuery now x"
| "apply_op (PLMN now mcc mnc) = updateServingPLMN now mcc mnc"
| "apply_op (Cells now x) = updateSysInfo now x"
| "apply_op (Operator now x) = updateNASOperatorName now x"
| "apply_op (Clock now x) = updateNASNetworkTime now x"
| "apply_op (Levels now x) = updateNASSignalInfo now x"
| "apply_op (Location now x) = updateNASCellLocationInfo now x"
| "apply_op (Reject now x) = updateNASNetworkReject now x"
| "apply_op (Scan now x) = updateNASIncrementalScan now x"
| "apply_op (Refreshed now x) = updateUIMRefresh now x"
| "apply_op (Slots now x) = updateUIMSlotStatus now x"
| "apply_op (Strength now x) = updateSignal now x"
| "apply_op (SetIds ids) = UpdateIdentities ids"
| "apply_op (SetIdsIf ids g) = snd \<circ> UpdateIdentitiesIfGeneration ids g"
| "apply_op (ClearIds all) = ResetIdentities all"
| "apply_op ClearAll = Reset_snapshot"

definition run_ops :: "snapshot_op list \<Rightarrow> DeviceSnapshot \<Rightarrow> DeviceSnapshot" where
  "run_ops ops s = foldl (\<lambda>s op. apply_op op s) s ops"

definition is_reset :: "snapshot_op \<Rightarrow> bool" where
  "is_reset op = (case op of ClearIds _ \<Rightarrow> True | ClearAll \<Rightarrow> True | _ \<Rightarrow> False)"


lemmas update_defs = updateServingRegistration_def updateServingFromQuery_def updateServingPLMN_def updateSysInfo_def
  updateNASOperatorName_def updateNASNetworkTime_def updateNASSignalInfo_def updateNASCellLocationInfo_def
  updateNASNetworkReject_def updateNASIncrementalScan_def updateUIMRefresh_def updateUIMSlotStatus_def updateSignal_def
  when_given_def



lemma generation_step: "sn_generation (apply_op op s) = sn_generation s + (if is_reset op then 1 else 0)"
  by (cases op)
    (simp_all add: is_reset_def update_defs UpdateIdentities_def UpdateIdentitiesIfGeneration_def updateIdentitiesLocked_def
      ResetIdentities_def Reset_snapshot_def Let_def split: option.split)

lemma generation_run: "sn_generation (run_ops ops s) = sn_generation s + of_nat (length (filter is_reset ops))"
  by (induction ops arbitrary: s) (simp_all add: run_ops_def generation_step algebra_simps)


text \<open>C37: An identity that was asked for before the card changed is never stored: with the generation taken at the start,
  the update is refused and changes nothing after any sequence of operations with at least one reset, up to the
  wrap-around of the 64-bit counter.\<close>

theorem stale_identity_refused:
  assumes "\<exists>op \<in> set ops. is_reset op" and "length ops < 2 ^ 64"
  shows "UpdateIdentitiesIfGeneration ids (IdentityGeneration s) (run_ops ops s) = (False, run_ops ops s)"
proof -
  let ?n = "length (filter is_reset ops)"
  have "0 < ?n" using assms(1) by (auto simp: filter_empty_conv)
  moreover have "?n < 2 ^ 64" using assms(2) length_filter_le[of is_reset ops] by linarith
  ultimately have "(of_nat ?n :: u64) \<noteq> 0" by (simp add: word_of_nat_eq_0_iff nat_dvd_not_less)
  then show ?thesis
    by (simp add: UpdateIdentitiesIfGeneration_def IdentityGeneration_def generation_run)
qed

theorem stale_identity_refused_witness:
  "UpdateIdentitiesIfGeneration (no_identities\<lparr>id_SMSC := ''+1''\<rparr>) (IdentityGeneration empty_snapshot)
     (run_ops [ClearIds False] empty_snapshot) = (False, run_ops [ClearIds False] empty_snapshot)"
  by (rule stale_identity_refused) (auto simp: is_reset_def)

text \<open>What was reported last for each network.\<close>

definition latest_results :: "NetworkScanResult list \<Rightarrow> string \<rightharpoonup> NetworkScanResult" where
  "latest_results rs = map_of (rev (map (\<lambda>r. (scan_key r, r)) rs))"

definition indexes :: "NetworkScanResult list \<Rightarrow> (string \<rightharpoonup> nat) \<Rightarrow> bool" where
  "indexes rs ix \<longleftrightarrow> (\<forall>k i. ix k = Some i \<longleftrightarrow> i < length rs \<and> scan_key (rs ! i) = k)"

lemma indexesD: "indexes rs ix \<Longrightarrow> i < length rs \<Longrightarrow> ix (scan_key (rs ! i)) = Some i"
  by (simp add: indexes_def)

lemma indexes_distinct:
  assumes "indexes rs ix"
  shows "distinct (map scan_key rs)"
  unfolding distinct_conv_nth
proof (intro allI impI)
  fix i j assume ij: "i < length (map scan_key rs)" "j < length (map scan_key rs)" "i \<noteq> j"
  show "map scan_key rs ! i \<noteq> map scan_key rs ! j"
  proof
    assume "map scan_key rs ! i = map scan_key rs ! j"
    then have "ix (scan_key (rs ! i)) = Some i" "ix (scan_key (rs ! i)) = Some j"
      using assms ij by (auto simp: indexes_def)
    with ij(3) show False by simp
  qed
qed

lemma latest_of_distinct:
  assumes "distinct (map scan_key rs)"
  shows "latest_results rs k = Some r \<longleftrightarrow> r \<in> set rs \<and> scan_key r = k"
proof -
  have "distinct (map fst (rev (map (\<lambda>r. (scan_key r, r)) rs)))"
    using assms by (simp add: rev_map[symmetric] comp_def)
  then show ?thesis unfolding latest_results_def by (auto simp: map_of_eq_Some_iff)
qed

lemma latest_append: "latest_results (xs @ ys) = latest_results xs ++ latest_results ys"
  by (simp add: latest_results_def map_of_append)

lemma indexes_append:
  assumes "indexes rs ix" "ix (scan_key e) = None"
  shows "indexes (rs @ [e]) (ix(scan_key e \<mapsto> length rs))"
proof -
  have "scan_key (rs ! i) \<noteq> scan_key e" if "i < length rs" for i
    using indexesD[OF assms(1) that] assms(2) by auto
  with assms show ?thesis unfolding indexes_def by (auto simp: nth_append less_Suc_eq)
qed

lemma indexes_update:
  assumes "indexes rs ix" "ix (scan_key e) = Some i"
  shows "indexes (rs[i := e]) ix" "latest_results (rs[i := e]) = (latest_results rs)(scan_key e \<mapsto> e)"
    "map scan_key (rs[i := e]) = map scan_key rs"
proof -
  have i: "i < length rs" "scan_key (rs ! i) = scan_key e" using assms by (auto simp: indexes_def)
  show keys: "map scan_key (rs[i := e]) = map scan_key rs"
    using i by (auto simp: map_update list_update_same_conv)
  show ind: "indexes (rs[i := e]) ix"
    using assms(1) i unfolding indexes_def by (auto simp: nth_list_update)
  have d: "distinct (map scan_key rs)" by (rule indexes_distinct[OF assms(1)])
  have uniq: "j = i" if "j < length rs" "scan_key (rs ! j) = scan_key e" for j
    using indexesD[OF assms(1) that(1)] that(2) assms(2) by simp
  show "latest_results (rs[i := e]) = (latest_results rs)(scan_key e \<mapsto> e)"
  proof
    fix k
    have mem: "r \<in> set (rs[i := e]) \<longleftrightarrow> r = e \<or> (\<exists>j < length rs. j \<noteq> i \<and> rs ! j = r)" for r
      using i(1) by (auto simp: in_set_conv_nth nth_list_update)
    have old: "r \<in> set rs \<and> scan_key r = k \<longleftrightarrow> (\<exists>j < length rs. rs ! j = r \<and> scan_key (rs ! j) = k)" for r
      by (auto simp: in_set_conv_nth)
    have "r \<in> set (rs[i := e]) \<and> scan_key r = k \<longleftrightarrow> (if k = scan_key e then r = e else r \<in> set rs \<and> scan_key r = k)" for r
    proof (cases "k = scan_key e")
      case True
      then show ?thesis using mem uniq by auto
    next
      case False
      then show ?thesis unfolding mem old using i(2) by auto
    qed
    then have "latest_results (rs[i := e]) k = Some r \<longleftrightarrow> ((latest_results rs)(scan_key e \<mapsto> e)) k = Some r" for r
      unfolding latest_of_distinct[OF indexes_distinct[OF ind]] by (auto simp: latest_of_distinct[OF d])
    then show "latest_results (rs[i := e]) k = ((latest_results rs)(scan_key e \<mapsto> e)) k"
      by (metis not_Some_eq)
  qed
qed

lemma merge_loop_latest:
  assumes "indexes merged ix"
  shows "latest_results (merge_loop merged ix new) = latest_results (merged @ new) \<and>
    distinct (map scan_key (merge_loop merged ix new)) \<and>
    (\<exists>more. map scan_key (merge_loop merged ix new) = map scan_key merged @ more)"
  using assms
proof (induction new arbitrary: merged ix)
  case Nil
  then show ?case using indexes_distinct by auto
next
  case (Cons e new)
  show ?case
  proof (cases "ix (scan_key e)")
    case None
    then show ?thesis
      using Cons.IH[OF indexes_append[OF Cons.prems None]] by (simp del: fun_upd_apply) blast
  next
    case (Some i)
    note u = indexes_update[OF Cons.prems Some]
    have "latest_results [e] = [scan_key e \<mapsto> e]" by (simp add: latest_results_def)
    then have "latest_results (merged[i := e] @ new) = latest_results (merged @ e # new)"
      using latest_append[of merged "[e] @ new"] latest_append[of "[e]" new] latest_append[of "merged[i := e]" new] u(2)
      by (simp add: map_add_assoc)
    then show ?thesis using Cons.IH[OF u(1)] u(3) Some by simp
  qed
qed

lemma index_by_key_indexes:
  assumes "distinct (map scan_key rs)"
  shows "indexes rs (index_by_key rs)"
proof -
  have "foldl (\<lambda>m i. m(scan_key (rs ! i) \<mapsto> i)) Map.empty [0..<n] k = Some i \<longleftrightarrow> i < n \<and> scan_key (rs ! i) = k"
    if "n \<le> length rs" for n k i
    using that
  proof (induction n)
    case (Suc n)
    have "j = n" if "j < Suc n" "scan_key (rs ! j) = scan_key (rs ! n)" for j
      using that assms Suc.prems nth_eq_iff_index_eq[OF assms, of j n] by simp
    then show ?case using Suc by (auto simp: less_Suc_eq)
  qed simp
  then show ?thesis unfolding indexes_def index_by_key_def by auto
qed

text \<open>Merging keeps one entry per network: what the scan reported last for a network is what the merged list holds for
  it, no network is listed twice, and the networks known before keep their places.\<close>

theorem merge_keeps_latest:
  assumes "distinct (map scan_key old)" and "distinct (map scan_key new)"
  shows "latest_results (mergeScanResults old new) = latest_results (old @ new) \<and>
    distinct (map scan_key (mergeScanResults old new)) \<and>
    (\<exists>more. map scan_key (mergeScanResults old new) = map scan_key old @ more)"
  using assms merge_loop_latest[OF index_by_key_indexes[OF assms(1)], of new]
  by (auto simp: mergeScanResults_def)

theorem merge_keeps_latest_witness:
  "latest_results (mergeScanResults
     [\<lparr>ns_MCC = ''460'', ns_MNC = ''00'', ns_Status = 1, ns_Description = ''A'', ns_RATs = []\<rparr>]
     [\<lparr>ns_MCC = ''460'', ns_MNC = ''00'', ns_Status = 2, ns_Description = ''A'', ns_RATs = [8]\<rparr>]) ''460|00|A'' =
   Some \<lparr>ns_MCC = ''460'', ns_MNC = ''00'', ns_Status = 2, ns_Description = ''A'', ns_RATs = [8]\<rparr>"
proof -
  let ?a = "\<lparr>ns_MCC = ''460'', ns_MNC = ''00'', ns_Status = 1 :: u8, ns_Description = ''A'', ns_RATs = [] :: u8 list\<rparr>"
  let ?b = "\<lparr>ns_MCC = ''460'', ns_MNC = ''00'', ns_Status = 2 :: u8, ns_Description = ''A'', ns_RATs = [8] :: u8 list\<rparr>"
  have "latest_results (mergeScanResults [?a] [?b]) = latest_results ([?a] @ [?b])"
    using merge_keeps_latest[of "[?a]" "[?b]"] by simp
  then show ?thesis by (simp add: latest_results_def scan_key_def)
qed

end
