(* ===== verification/Smsc.thy ===== *)
theory Smsc
  imports Snapshot UimProofs
begin

text \<open>
  The SMS service centre, \<^verbatim>\<open>src/pkg/manager/smsc.go\<close> and \<^verbatim>\<open>preWarmSMSC\<close>. The number is asked from the modem
  (\<open>GetSMSC\<close>, which stores it in the snapshot unless the card changed meanwhile) or, for diagnosis, read from the
  files of the card: with commands on the basic channel, with commands on a logical channel, and with the
  file operations of the UIM service. The card commands of the manager are a record of functions on the state of
  the modem, and the context an error that this state determines. Any number that is read from the card is a
  telephone number; a number stored in the card's files is read back; an opened channel is always closed.
\<close>

section \<open>Numbers in SIM files\<close>

definition allBytes :: "byte list \<Rightarrow> byte \<Rightarrow> bool" where
  "allBytes buf value = (if length buf = 0 then False else list_all (\<lambda>b. b = value) buf)"

definition nibble_text :: "byte \<Rightarrow> go_error + string" where
  "nibble_text d =
     (if d \<le> 9 then Inr [char_of (48 + unat d)]
      else if d \<noteq> 0x0F then Inl (ErrText (''invalid BCD digit: '' @ [hex_char (unat d)]))
      else Inr [])"

fun bcd_text :: "byte list \<Rightarrow> go_error + string" where
  "bcd_text [] = Inr []"
| "bcd_text (b # bs) =
     bind_res (nibble_text (lo_nibble b)) (\<lambda>lo.
     bind_res (nibble_text (hi_nibble b)) (\<lambda>hi.
     bind_res (bcd_text bs) (\<lambda>rest. Inr (lo @ hi @ rest))))"

definition decodeAddressValue :: "byte list \<Rightarrow> go_error + string" where
  "decodeAddressValue v =
     (case v of
        [] \<Rightarrow> Inl (ErrText ''address value is empty'')
      | ton # bcd \<Rightarrow> bind_res (bcd_text bcd) (\<lambda>s. Inr ((if ton AND 0x70 = 0x10 then ''+'' else []) @ s)))"

definition trim_plus :: "string \<Rightarrow> string" where
  "trim_plus v = (case v of c # r \<Rightarrow> if c = CHR ''+'' then r else v | [] \<Rightarrow> [])"

definition isLikelySMSC :: "string \<Rightarrow> bool" where
  "isLikelySMSC smsc =
     (let v = TrimSpace smsc in
      if v = [] then False
      else let w = trim_plus v in
        if length w < 5 \<or> length w > 16 then False
        else list_all (\<lambda>c. (48 :: nat) \<le> of_char c \<and> of_char c \<le> (57 :: nat)) w)"

definition likely_address :: "byte list \<Rightarrow> string" where
  "likely_address v = (case decodeAddressValue v of Inl _ \<Rightarrow> [] | Inr smsc \<Rightarrow> if isLikelySMSC smsc then smsc else [])"

definition parseSMSCFromTSServiceCentreAddress :: "byte list \<Rightarrow> string option" where
  "parseSMSCFromTSServiceCentreAddress raw =
     (if length raw = 0 \<or> allBytes raw 0xFF then Some []
      else do {
        n \<leftarrow> at raw 0;
        if unat n < 2 \<or> unat n = 0xFF then Some []
        else if 1 + unat n > length raw then Some []
        else do { v \<leftarrow> sub raw 1 (1 + unat n); Some (likely_address v) } })"

definition decodeSMSCAtOffset :: "byte list \<Rightarrow> nat \<Rightarrow> string option" where
  "decodeSMSCAtOffset buf offset =
     (if int offset \<ge> int (length buf) - 1 then Some []
      else do {
        n \<leftarrow> at buf offset;
        if unat n < 2 \<or> unat n > 12 then Some []
        else if offset + 1 + unat n > length buf then Some []
        else do {
          toa \<leftarrow> at buf (offset + 1);
          if toa = 0x00 \<or> toa = 0xFF \<or> toa AND 0x80 = 0 then Some []
          else do { v \<leftarrow> sub buf (offset + 1) (offset + 1 + unat n); Some (likely_address v) } } })"

fun scan_offsets :: "byte list \<Rightarrow> nat list \<Rightarrow> string option" where
  "scan_offsets record [] = Some []"
| "scan_offsets record (offset # rest) = do {
     smsc \<leftarrow> decodeSMSCAtOffset record offset;
     if smsc \<noteq> [] then Some smsc else scan_offsets record rest }"

definition parseSMSCFromSMSPRecord :: "byte list \<Rightarrow> string option" where
  "parseSMSCFromSMSPRecord record =
     (if length record = 0 then Some []
      else do {
        smsc \<leftarrow> decodeSMSCAtOffset record 13;
        if smsc \<noteq> [] then Some smsc
        else scan_offsets record (filter (\<lambda>i. i \<noteq> 13) [0..<length record - 2]) })"

text \<open>The length field of a data object, in the long form the bytes that follow it. Go computes with a signed
  64-bit integer, which \<^verbatim>\<open>l = (l << 8) | b\<close> lets wrap around.\<close>

definition be_length :: "byte list \<Rightarrow> 64 word" where
  "be_length bs = foldl (\<lambda>l b. push_bit 8 l OR ucast b) 0 bs"

definition fcp_length :: "byte list \<Rightarrow> nat \<Rightarrow> (64 word \<times> nat) option" where
  "fcp_length data i =
     (let l = data ! i; j = i + 1 in
      if l AND 0x80 \<noteq> 0 then
        (let n = unat (l AND 0x7F) in
         if n = 0 \<or> j + n > length data then None else Some (be_length (go_slice j (j + n) data), j + n))
      else Some (ucast l, j))"

lemma fcp_length_progress: "fcp_length data i = Some (l, j) \<Longrightarrow> i < j \<and> (j \<le> length data \<or> j = i + 1)"
  by (auto simp: fcp_length_def Let_def split: if_splits)

text \<open>The loop over the data objects of a file control block; \<^term>\<open>None\<close> is a slice whose end lies before its start.\<close>

function fcp_loop :: "byte list \<Rightarrow> nat \<Rightarrow> (nat \<times> nat) option" where
  "fcp_loop data i =
     (if i + 2 > length data then Some (0, 0)
      else case fcp_length data (i + 1) of
        None \<Rightarrow> Some (0, 0)
      | Some (l, j) \<Rightarrow>
          let e = sint (of_nat j + l) in
          if e > int (length data) then Some (0, 0)
          else if e < int j then None
          else
            let v = go_slice j (nat e) data; n = length v in
            if data ! i = 0x82 \<and> n \<ge> 5 \<and> unat (v ! (n - 3)) * 256 + unat (v ! (n - 2)) > 0
            then Some (unat (v ! (n - 3)) * 256 + unat (v ! (n - 2)), unat (v ! (n - 1)))
            else fcp_loop data (nat e))"
  by pat_completeness auto
termination
  by (relation "measure (\<lambda>(data, i). length data - i)") (auto dest!: fcp_length_progress)

declare fcp_loop.simps [simp del]

definition parseLinearFixedMetaFromFCP :: "byte list \<Rightarrow> (nat \<times> nat) option" where
  "parseLinearFixedMetaFromFCP fcp =
     (if length fcp < 2 then Some (0, 0)
      else
        let data = (if fcp ! 0 = 0x62 then go_slice 2 (2 + min (unat (fcp ! 1)) (length fcp - 2)) fcp else fcp)
        in fcp_loop data 0)"

section \<open>Commands to the card\<close>

type_synonym 'm apduSender = "byte list \<Rightarrow> 'm \<Rightarrow> byte list parsed \<times> 'm"

definition apduStatusFromResp :: "byte list \<Rightarrow> (byte \<times> byte) option" where
  "apduStatusFromResp rsp = (if length rsp < 2 then None else Some (rsp ! (length rsp - 2), rsp ! (length rsp - 1)))"

definition isAPDUSuccess :: "byte \<Rightarrow> byte \<Rightarrow> bool" where
  "isAPDUSuccess sw1 sw2 \<longleftrightarrow> sw1 = 0x90 \<or> sw1 = 0x62 \<or> sw1 = 0x63"

definition too_short :: "byte list \<Rightarrow> go_error" where
  "too_short rsp = ErrText (''APDU response too short: '' @ upper_hex rsp)"

definition status_text :: "byte \<Rightarrow> byte \<Rightarrow> string" where
  "status_text sw1 sw2 = ''SW='' @ upper_hex [sw1, sw2]"

definition extractAPDUSuccessData :: "byte list \<Rightarrow> go_error + byte list" where
  "extractAPDUSuccessData rsp =
     (case apduStatusFromResp rsp of
        None \<Rightarrow> Inl (too_short rsp)
      | Some (sw1, sw2) \<Rightarrow>
          if \<not> isAPDUSuccess sw1 sw2 then Inl (ErrText (status_text sw1 sw2))
          else Inr (take (length rsp - 2) rsp))"

definition get_response :: "'m apduSender \<Rightarrow> byte \<Rightarrow> byte \<Rightarrow> byte list \<Rightarrow> 'm \<Rightarrow> byte list parsed \<times> 'm" where
  "get_response tx sw1 sw2 rsp = (if sw1 = 0x61 then tx [0x00, 0xC0, 0x00, 0x00, sw2] else ret_m (ok rsp))"

definition transmitBasicAPDUWithFollowUp :: "'m apduSender \<Rightarrow> byte list \<Rightarrow> 'm \<Rightarrow> byte list parsed \<times> 'm" where
  "transmitBasicAPDUWithFollowUp tx apdu = then_m (tx apdu) (\<lambda>rsp.
     case apduStatusFromResp rsp of
       None \<Rightarrow> ret_m (Some (Inl (too_short rsp)))
     | Some (sw1, sw2) \<Rightarrow>
         if sw1 = 0x6C \<and> length apdu \<ge> 5 then
           then_m (tx (apdu[length apdu - 1 := sw2])) (\<lambda>rsp.
             case apduStatusFromResp rsp of
               None \<Rightarrow> ret_m (Some (Inl (too_short rsp)))
             | Some (sw1, sw2) \<Rightarrow> get_response tx sw1 sw2 rsp)
         else get_response tx sw1 sw2 rsp)"

definition command_data :: "'m apduSender \<Rightarrow> string \<Rightarrow> byte list \<Rightarrow> 'm \<Rightarrow> byte list parsed \<times> 'm" where
  "command_data tx failed cmd = try_m (transmitBasicAPDUWithFollowUp tx cmd) (\<lambda>r.
     ret_m (Some (case bind_res r extractAPDUSuccessData of Inl e \<Rightarrow> Inl (errorf failed e) | Inr d \<Rightarrow> Inr d)))"

definition select_file :: "'m apduSender \<Rightarrow> byte list \<Rightarrow> 'm \<Rightarrow> unit parsed \<times> 'm" where
  "select_file tx cmd = try_m (transmitBasicAPDUWithFollowUp tx cmd) (\<lambda>r.
     ret_m (Some (bind_res (bind_res r extractAPDUSuccessData) (\<lambda>_. Inr ()))))"

definition genericUSIMAID :: "byte list" where
  "genericUSIMAID = [0xA0, 0x00, 0x00, 0x00, 0x87, 0x10, 0x02]"

definition selectUSIMOrFallback :: "'m apduSender \<Rightarrow> 'm \<Rightarrow> unit parsed \<times> 'm" where
  "selectUSIMOrFallback tx =
     try_m (select_file tx ([0x00, 0xA4, 0x04, 0x00, of_nat (length genericUSIMAID)] @ genericUSIMAID)) (\<lambda>r.
       case r of
         Inr _ \<Rightarrow> ret_m (ok ())
       | Inl aidErr \<Rightarrow>
           try_m (select_file tx [0x00, 0xA4, 0x00, 0x04, 0x02, 0x3F, 0x00]) (\<lambda>r.
             case r of
               Inl e \<Rightarrow> ret_m (Some (Inl (ErrWrap (''select USIM AID failed: '' @ err_text aidErr @ ''; select MF failed: '') e [])))
             | Inr _ \<Rightarrow>
                 try_m (select_file tx [0x00, 0xA4, 0x00, 0x04, 0x02, 0x7F, 0x20]) (\<lambda>r.
                   case r of
                     Inl e \<Rightarrow> ret_m (Some (Inl (ErrWrap
                       (''select USIM AID failed: '' @ err_text aidErr @ ''; select DF_GSM failed: '') e [])))
                   | Inr _ \<Rightarrow> ret_m (ok ()))))"

text \<open>\<^verbatim>\<open>smsc, err := f(); if strings.TrimSpace(smsc) != "" { return strings.TrimSpace(smsc), nil }\<close>: every function
  here returns the empty string with an error.\<close>

definition or_else :: "('m \<Rightarrow> string parsed \<times> 'm) \<Rightarrow> (go_error option \<Rightarrow> 'm \<Rightarrow> string parsed \<times> 'm) \<Rightarrow> 'm \<Rightarrow> string parsed \<times> 'm" where
  "or_else f g = try_m f (\<lambda>r.
     case r of
       Inr smsc \<Rightarrow> if TrimSpace smsc \<noteq> [] then ret_m (ok (TrimSpace smsc)) else g None
     | Inl e \<Rightarrow> g (Some e))"

definition fail_m :: "go_error \<Rightarrow> 'm \<Rightarrow> 'a parsed \<times> 'm" where
  "fail_m e = ret_m (Some (Inl e))"

definition readSMSCFromEFPSISMSC :: "'m apduSender \<Rightarrow> 'm \<Rightarrow> string parsed \<times> 'm" where
  "readSMSCFromEFPSISMSC tx =
     then_m (command_data tx ''select EFPSISMSC failed'' [0x00, 0xA4, 0x00, 0x04, 0x02, 0x6F, 0xE5]) (\<lambda>_.
     then_m (command_data tx ''read EFPSISMSC failed'' [0x00, 0xB0, 0x00, 0x00, 0x1C]) (\<lambda>data.
       ret_m (do {
         smsc \<leftarrow> parseSMSCFromTSServiceCentreAddress data;
         if smsc \<noteq> [] then ok smsc else Some (Inl (ErrText ''EFPSISMSC has no valid SMSC'')) })))"

definition smsp_failed :: "go_error option \<Rightarrow> go_error" where
  "smsp_failed lastErr = (case lastErr of Some e \<Rightarrow> errorf ''EFSMSP parse failed'' e | None \<Rightarrow> ErrText ''EFSMSP parse failed'')"

definition no_more_records :: "byte \<Rightarrow> byte \<Rightarrow> bool" where
  "no_more_records sw1 sw2 \<longleftrightarrow> sw1 = 0x6A \<and> (sw2 = 0x83 \<or> sw2 = 0x82)"

definition record_command :: "nat \<Rightarrow> nat \<Rightarrow> byte list" where
  "record_command record recordLen = [0x00, 0xB2, of_nat record, 0x04, of_nat recordLen]"

text \<open>The data of a record that was read, or what to do when there is none: \<open>next\<close> goes on with the length and the
  error so far.\<close>

definition take_record :: "(nat \<Rightarrow> go_error option \<Rightarrow> 'm \<Rightarrow> string parsed \<times> 'm) \<Rightarrow> nat \<Rightarrow> nat \<Rightarrow> go_error option \<Rightarrow> byte \<Rightarrow> byte
    \<Rightarrow> byte list \<Rightarrow> 'm \<Rightarrow> string parsed \<times> 'm" where
  "take_record next record recordLen lastErr sw1 sw2 rsp =
     (if \<not> isAPDUSuccess sw1 sw2
      then next recordLen (Some (ErrText (''read record '' @ decimal record @ '' failed: '' @ status_text sw1 sw2)))
      else case parseSMSCFromSMSPRecord (take (length rsp - 2) rsp) of
             None \<Rightarrow> ret_m None
           | Some smsc \<Rightarrow> if smsc \<noteq> [] then ret_m (ok smsc) else next recordLen lastErr)"

fun smsp_records :: "'m apduSender \<Rightarrow> nat \<Rightarrow> nat \<Rightarrow> nat \<Rightarrow> go_error option \<Rightarrow> 'm \<Rightarrow> string parsed \<times> 'm" where
  "smsp_records tx 0 record recordLen lastErr = fail_m (smsp_failed lastErr)"
| "smsp_records tx (Suc left) record recordLen lastErr =
     try_m (transmitBasicAPDUWithFollowUp tx (record_command record recordLen)) (\<lambda>r.
       case r of
         Inl e \<Rightarrow> smsp_records tx left (record + 1) recordLen (Some e)
       | Inr rsp \<Rightarrow>
          (case apduStatusFromResp rsp of
             None \<Rightarrow> smsp_records tx left (record + 1) recordLen
               (Some (ErrText (''record '' @ decimal record @ '' response too short'')))
           | Some (sw1, sw2) \<Rightarrow>
               if no_more_records sw1 sw2 then fail_m (smsp_failed lastErr)
               else if sw1 = 0x67 \<and> sw2 > 0 then
                 try_m (transmitBasicAPDUWithFollowUp tx (record_command record (unat sw2))) (\<lambda>r2.
                   case r2 of
                     Inl e \<Rightarrow> smsp_records tx left (record + 1) (unat sw2) (Some e)
                   | Inr rsp2 \<Rightarrow>
                      (case apduStatusFromResp rsp2 of
                         None \<Rightarrow> smsp_records tx left (record + 1) (unat sw2)
                           (Some (ErrText (''record '' @ decimal record @ '' retry response too short'')))
                       | Some (t1, t2) \<Rightarrow>
                           if no_more_records t1 t2 then fail_m (smsp_failed lastErr)
                           else take_record (smsp_records tx left (record + 1)) record (unat sw2) lastErr t1 t2 rsp2))
               else take_record (smsp_records tx left (record + 1)) record recordLen lastErr sw1 sw2 rsp))"

definition readSMSCFromEFSMSP :: "'m apduSender \<Rightarrow> 'm \<Rightarrow> string parsed \<times> 'm" where
  "readSMSCFromEFSMSP tx =
     then_m (command_data tx ''select EFSMSP failed'' [0x00, 0xA4, 0x00, 0x04, 0x02, 0x6F, 0x42]) (\<lambda>fcpData.
       case parseLinearFixedMetaFromFCP fcpData of
         None \<Rightarrow> ret_m None
       | Some (recordLen, recordCount) \<Rightarrow>
           smsp_records tx (if recordCount > 0 \<and> recordCount < 10 then recordCount else 10) 1
             (if recordLen \<le> 0 \<or> recordLen > 0xFF then 0x1C else recordLen) None)"

definition getSMSCFromSelectedFiles :: "'m apduSender \<Rightarrow> 'm \<Rightarrow> string parsed \<times> 'm" where
  "getSMSCFromSelectedFiles tx =
     or_else (readSMSCFromEFSMSP tx) (\<lambda>errSMSP.
     or_else (readSMSCFromEFPSISMSC tx) (\<lambda>errPSI.
       fail_m (case (errSMSP, errPSI) of
         (Some a, Some b) \<Rightarrow> ErrText (''QMI read SMSC failed: EFSMSP='' @ err_text a @ ''; EFPSISMSC='' @ err_text b)
       | (Some a, None) \<Rightarrow> a
       | (None, Some b) \<Rightarrow> b
       | (None, None) \<Rightarrow> ErrText ''QMI did not resolve SMSC'')))"

definition getSMSCFromUIM :: "'m apduSender \<Rightarrow> 'm \<Rightarrow> string parsed \<times> 'm" where
  "getSMSCFromUIM tx =
     try_m (selectUSIMOrFallback tx) (\<lambda>sel.
     or_else (getSMSCFromSelectedFiles tx) (\<lambda>readErr.
       fail_m (case (sel, readErr) of
         (Inl a, Some b) \<Rightarrow> ErrWrap (''select USIM failed: '' @ err_text a @ ''; read SMSC failed: '') b []
       | (Inr _, Some b) \<Rightarrow> b
       | (Inl a, None) \<Rightarrow> a
       | (Inr _, None) \<Rightarrow> ErrText ''QMI did not resolve SMSC'')))"

section \<open>The service centre on a logical channel and in card files\<close>

text \<open>What the reader of the service centre uses of the manager: the card commands of \<^verbatim>\<open>manager.go\<close> and the file
  reader. Every operation may fail or panic and changes the state of the modem.\<close>

record 'm uimFileReader =
  rd_GetFileAttributes :: "u8 \<Rightarrow> u16 \<Rightarrow> u8 list \<Rightarrow> 'm \<Rightarrow> UIMFileAttributes option parsed \<times> 'm"
  rd_ReadRecord :: "u8 \<Rightarrow> u16 \<Rightarrow> u8 list \<Rightarrow> u16 \<Rightarrow> u16 \<Rightarrow> 'm \<Rightarrow> UIMRecordData option parsed \<times> 'm"
  rd_ReadTransparent :: "u8 \<Rightarrow> u16 \<Rightarrow> u8 list \<Rightarrow> 'm \<Rightarrow> byte list parsed \<times> 'm"

record 'm card_ops =
  co_ensureUIM :: "'m \<Rightarrow> unit parsed \<times> 'm"
  co_sendAPDU :: "u8 \<Rightarrow> u8 \<Rightarrow> byte list \<Rightarrow> 'm \<Rightarrow> byte list parsed \<times> 'm"
  co_openLogicalChannel :: "u8 \<Rightarrow> byte list \<Rightarrow> 'm \<Rightarrow> u8 parsed \<times> 'm"
  co_closeLogicalChannel :: "u8 \<Rightarrow> u8 \<Rightarrow> 'm \<Rightarrow> unit parsed \<times> 'm"
  co_reader :: "'m uimFileReader"

text \<open>A deferred call: it runs after the body on every path, a panic of the body included.\<close>

definition defer_m :: "('m \<Rightarrow> unit parsed \<times> 'm) \<Rightarrow> ('m \<Rightarrow> 'a parsed \<times> 'm) \<Rightarrow> 'm \<Rightarrow> 'a parsed \<times> 'm" where
  "defer_m clean body m =
     (case body m of (r, m1) \<Rightarrow> case clean m1 of (c, m2) \<Rightarrow> (if c = None then None else r, m2))"

definition smscAPDUSlot :: u8 where "smscAPDUSlot = 1"
definition efSMSP :: u16 where "efSMSP = 0x6F42"
definition efPSISMSC :: u16 where "efPSISMSC = 0x6FE5"
definition smscCandidatePaths :: "u8 list list" where
  "smscCandidatePaths = [[], [0x00, 0x3F, 0xFF, 0x7F], [0x20, 0x7F], [0x00, 0x3F, 0x10, 0x7F]]"

definition getSMSCFromUIMLogicalChannel :: "('m \<Rightarrow> go_error option) \<Rightarrow> 'm card_ops \<Rightarrow> 'm \<Rightarrow> string parsed \<times> 'm" where
  "getSMSCFromUIMLogicalChannel ctxErr sim =
     try_m (co_openLogicalChannel sim smscAPDUSlot genericUSIMAID) (\<lambda>r.
       case r of
         Inl e \<Rightarrow> fail_m (errorf ''open USIM logical channel failed'' e)
       | Inr channel \<Rightarrow>
           defer_m (co_closeLogicalChannel sim smscAPDUSlot channel)
             (or_else (getSMSCFromSelectedFiles (\<lambda>cmd. guard_ctx ctxErr (co_sendAPDU sim smscAPDUSlot channel cmd)))
               (\<lambda>readErr. fail_m (case readErr of
                  Some e \<Rightarrow> errorf ''logical channel SMSC read failed'' e
                | None \<Rightarrow> ErrText ''logical channel did not resolve SMSC''))))"

definition formatUIMPath :: "u8 list \<Rightarrow> string" where
  "formatUIMPath path = (if length path = 0 then ''<current>'' else upper_hex path)"

definition smsp_limits :: "go_error + UIMFileAttributes option \<Rightarrow> nat \<times> nat" where
  "smsp_limits attrs =
     (case attrs of
        Inr (Some a) \<Rightarrow>
          (if fa_RecordSize a > 0 \<and> fa_RecordSize a \<le> 0xFF then unat (fa_RecordSize a) else 0x1C,
           if fa_RecordCount a > 0 then min 30 (unat (fa_RecordCount a)) else 10)
      | _ \<Rightarrow> (0x1C, 10))"

definition smsp_read_error :: "u8 list \<Rightarrow> go_error option \<Rightarrow> go_error option \<Rightarrow> go_error" where
  "smsp_read_error path attrErr lastErr =
     (let p = formatUIMPath path in
      case (attrErr, lastErr) of
        (Some a, Some l) \<Rightarrow> ErrWrap (''UIM read EFSMSP failed path='' @ p @ '': attrs='' @ err_text a @ '' read='') l []
      | (None, Some l) \<Rightarrow> errorf (''UIM read EFSMSP failed path='' @ p) l
      | (Some a, None) \<Rightarrow> errorf (''UIM read EFSMSP attrs failed path='' @ p) a
      | (None, None) \<Rightarrow> ErrText (''UIM EFSMSP has no valid SMSC path='' @ p))"

fun smsp_file_records :: "('m \<Rightarrow> go_error option) \<Rightarrow> 'm uimFileReader \<Rightarrow> u8 list \<Rightarrow> nat \<Rightarrow> go_error option \<Rightarrow> nat \<Rightarrow> nat
    \<Rightarrow> go_error option \<Rightarrow> 'm \<Rightarrow> string parsed \<times> 'm" where
  "smsp_file_records ctxErr uim path recordLen attrErr 0 record lastErr = fail_m (smsp_read_error path attrErr lastErr)"
| "smsp_file_records ctxErr uim path recordLen attrErr (Suc left) record lastErr =
     guard_ctx ctxErr (try_m (rd_ReadRecord uim 0 efSMSP path (of_nat record) (of_nat recordLen)) (\<lambda>r.
       case r of
         Inl e \<Rightarrow> smsp_file_records ctxErr uim path recordLen attrErr left (record + 1) (Some e)
       | Inr None \<Rightarrow> smsp_file_records ctxErr uim path recordLen attrErr left (record + 1) lastErr
       | Inr (Some rec) \<Rightarrow>
           (if length (rd_Data rec) = 0 then smsp_file_records ctxErr uim path recordLen attrErr left (record + 1) lastErr
            else case parseSMSCFromSMSPRecord (rd_Data rec) of
                   None \<Rightarrow> ret_m None
                 | Some smsc \<Rightarrow>
                     if smsc \<noteq> [] then ret_m (ok smsc)
                     else smsp_file_records ctxErr uim path recordLen attrErr left (record + 1) lastErr)))"

definition readSMSCFromEFSMSPWithUIMRead :: "('m \<Rightarrow> go_error option) \<Rightarrow> 'm uimFileReader \<Rightarrow> u8 list \<Rightarrow> 'm \<Rightarrow> string parsed \<times> 'm" where
  "readSMSCFromEFSMSPWithUIMRead ctxErr uim path =
     try_m (rd_GetFileAttributes uim 0 efSMSP path) (\<lambda>attrs.
       case smsp_limits attrs of (recordLen, maxRecords) \<Rightarrow>
         smsp_file_records ctxErr uim path recordLen (case attrs of Inl e \<Rightarrow> Some e | Inr _ \<Rightarrow> None) maxRecords 1 None)"

definition readSMSCFromEFPSISMSCWithUIMRead :: "'m uimFileReader \<Rightarrow> u8 list \<Rightarrow> 'm \<Rightarrow> string parsed \<times> 'm" where
  "readSMSCFromEFPSISMSCWithUIMRead uim path =
     try_m (rd_ReadTransparent uim 0 efPSISMSC path) (\<lambda>r.
       case r of
         Inl e \<Rightarrow> fail_m (errorf (''UIM read EFPSISMSC failed path='' @ formatUIMPath path) e)
       | Inr data \<Rightarrow> ret_m (do {
           smsc \<leftarrow> parseSMSCFromTSServiceCentreAddress data;
           if smsc \<noteq> [] then ok smsc
           else Some (Inl (ErrText (''UIM EFPSISMSC has no valid SMSC path='' @ formatUIMPath path))) }))"

text \<open>One loop over the candidate paths; \<open>next\<close> goes on with the last error.\<close>

fun try_paths :: "('m \<Rightarrow> go_error option) \<Rightarrow> (u8 list \<Rightarrow> 'm \<Rightarrow> string parsed \<times> 'm) \<Rightarrow> (go_error option \<Rightarrow> 'm \<Rightarrow> string parsed \<times> 'm)
    \<Rightarrow> u8 list list \<Rightarrow> go_error option \<Rightarrow> 'm \<Rightarrow> string parsed \<times> 'm" where
  "try_paths ctxErr read next [] lastErr = next lastErr"
| "try_paths ctxErr read next (path # rest) lastErr =
     guard_ctx ctxErr (or_else (read path) (\<lambda>err.
       try_paths ctxErr read next rest (case err of Some e \<Rightarrow> Some e | None \<Rightarrow> lastErr)))"

definition getSMSCFromUIMFiles :: "('m \<Rightarrow> go_error option) \<Rightarrow> 'm uimFileReader \<Rightarrow> 'm \<Rightarrow> string parsed \<times> 'm" where
  "getSMSCFromUIMFiles ctxErr uim =
     try_paths ctxErr (readSMSCFromEFSMSPWithUIMRead ctxErr uim) (\<lambda>errSMSP.
       try_paths ctxErr (readSMSCFromEFPSISMSCWithUIMRead uim) (\<lambda>errPSI.
         fail_m (case (errSMSP, errPSI) of
           (Some a, Some b) \<Rightarrow> ErrText (''UIM file read failed: EFSMSP='' @ err_text a @ ''; EFPSISMSC='' @ err_text b)
         | (Some a, None) \<Rightarrow> a
         | (None, Some b) \<Rightarrow> b
         | (None, None) \<Rightarrow> ErrText ''UIM file read did not resolve SMSC''))
         smscCandidatePaths None)
       smscCandidatePaths None"

definition shown_error :: "go_error option \<Rightarrow> string" where
  "shown_error err = (case err of Some e \<Rightarrow> err_text e | None \<Rightarrow> ''<nil>'')"

definition querySMSCFromDevice :: "('m \<Rightarrow> go_error option) \<Rightarrow> 'm card_ops \<Rightarrow> 'm \<Rightarrow> string parsed \<times> 'm" where
  "querySMSCFromDevice ctxErr sim =
     guard_ctx ctxErr (then_m (co_ensureUIM sim) (\<lambda>_.
       or_else (getSMSCFromUIM (\<lambda>cmd. guard_ctx ctxErr (co_sendAPDU sim smscAPDUSlot 0 cmd))) (\<lambda>errBasic.
       guard_ctx ctxErr (or_else (getSMSCFromUIMLogicalChannel ctxErr sim) (\<lambda>errLogical.
       guard_ctx ctxErr (or_else (getSMSCFromUIMFiles ctxErr (co_reader sim)) (\<lambda>errFile.
         fail_m (ErrText (''QMI read SMSC failed: APDU-basic='' @ shown_error errBasic @ ''; APDU-logical='' @
           shown_error errLogical @ ''; UIM-file='' @ shown_error errFile)))))))))"

definition readSMSCFromSIMFilesUngated :: "('m \<Rightarrow> go_error option) \<Rightarrow> 'm card_ops \<Rightarrow> 'm \<Rightarrow> string parsed \<times> 'm" where
  "readSMSCFromSIMFilesUngated ctxErr sim =
     then_m (querySMSCFromDevice ctxErr sim) (\<lambda>smsc. ret_m (ok (TrimSpace smsc)))"

section \<open>The service centre of the modem\<close>

text \<open>\<open>query\<close> asks the modem; while it runs, other goroutines may change the snapshot.\<close>

definition GetSMSC :: "(DeviceSnapshot \<Rightarrow> string parsed \<times> DeviceSnapshot) \<Rightarrow> DeviceSnapshot \<Rightarrow> string parsed \<times> DeviceSnapshot" where
  "GetSMSC query s =
     (let generation = IdentityGeneration s in
      then_m query (\<lambda>raw s1.
        let smsc = TrimSpace raw in
        if smsc = [] then fail_m (ErrText ''WMS Get SMSC Address returned an empty address'') s1
        else case UpdateIdentitiesIfGeneration (no_identities\<lparr>id_SMSC := smsc\<rparr>) generation s1 of
               (True, s2) \<Rightarrow> ret_m (ok smsc) s2
             | (False, s2) \<Rightarrow> fail_m (ErrText ''discarded stale SMSC result after SIM identity changed'') s2) s)"

definition preWarmSMSC :: "(DeviceSnapshot \<Rightarrow> string parsed \<times> DeviceSnapshot) \<Rightarrow> u64 \<Rightarrow> DeviceSnapshot \<Rightarrow> unit option \<times> DeviceSnapshot" where
  "preWarmSMSC query generation =
     try_m query (\<lambda>r s1.
       case r of
         Inl _ \<Rightarrow> (Some (), s1)
       | Inr raw \<Rightarrow>
           let smsc = TrimSpace raw in
           if smsc = [] then (Some (), s1)
           else (Some (), snd (UpdateIdentitiesIfGeneration (no_identities\<lparr>id_SMSC := smsc\<rparr>) generation s1)))"

definition CachedSMSC :: "DeviceSnapshot \<Rightarrow> string" where
  "CachedSMSC s = TrimSpace (id_SMSC (fst (Identities s)))"

section \<open>Every number that is returned is a telephone number\<close>

definition digit_text :: "string \<Rightarrow> bool" where
  "digit_text v = list_all (\<lambda>c. 48 \<le> (of_char c :: nat) \<and> of_char c \<le> (57 :: nat)) v"

definition phone_number :: "string \<Rightarrow> bool" where
  "phone_number v =
     (case v of
        [] \<Rightarrow> False
      | c # r \<Rightarrow> (let w = (if c = CHR ''+'' then r else v) in digit_text w \<and> 5 \<le> length w \<and> length w \<le> 16))"

lemma nibble_text_digits: "nibble_text d = Inr s \<Longrightarrow> digit_text s"
proof -
  assume "nibble_text d = Inr s"
  then consider "s = []" | "d \<le> 9" "s = [char_of (48 + unat d)]"
    by (auto simp: nibble_text_def split: if_splits)
  then show ?thesis
  proof cases
    case 2
    then have "unat d \<le> 9" by (simp add: word_le_nat_alt)
    then have "(of_char (char_of (48 + unat d) :: char) :: nat) = 48 + unat d" by simp
    with \<open>unat d \<le> 9\<close> show ?thesis by (simp only: 2 digit_text_def list.pred_inject) simp
  qed (simp add: digit_text_def)
qed

lemma bcd_text_digits: "bcd_text bs = Inr s \<Longrightarrow> digit_text s"
proof (induction bs arbitrary: s)
  case (Cons b bs)
  then show ?case
    by (auto simp: bind_res_def digit_text_def split: sum.splits dest!: nibble_text_digits[unfolded digit_text_def])
qed (simp add: digit_text_def)

lemma digit_text_plain: "digit_text v \<Longrightarrow> \<forall>c \<in> set v. 33 \<le> (of_char c :: nat) \<and> (of_char c :: nat) \<le> 127"
  by (fastforce simp: digit_text_def list_all_iff)

lemma decodeAddressValue_trim: "decodeAddressValue v = Inr s \<Longrightarrow> TrimSpace s = s"
  by (rule TrimSpace_id)
    (use digit_text_plain in \<open>fastforce simp: decodeAddressValue_def bind_res_def split: list.splits sum.splits if_splits dest!: bcd_text_digits\<close>)

lemma likely_number: "TrimSpace s = s \<Longrightarrow> isLikelySMSC s \<Longrightarrow> phone_number s"
  unfolding isLikelySMSC_def phone_number_def digit_text_def trim_plus_def by (auto simp: Let_def split: if_splits list.splits)

lemma likely_address_number: "likely_address v \<noteq> [] \<Longrightarrow> TrimSpace (likely_address v) = likely_address v \<and> phone_number (likely_address v)"
  by (auto simp: likely_address_def split: sum.splits if_splits intro: decodeAddressValue_trim likely_number)

lemma offset_number: "decodeSMSCAtOffset buf i = Some s \<Longrightarrow> s \<noteq> [] \<Longrightarrow> TrimSpace s = s \<and> phone_number s"
  using likely_address_number
  by (fastforce simp: decodeSMSCAtOffset_def bind_eq_Some_conv split: if_splits)

lemma scan_number: "scan_offsets buf is = Some s \<Longrightarrow> s \<noteq> [] \<Longrightarrow> TrimSpace s = s \<and> phone_number s"
  by (induction "is") (auto simp: bind_eq_Some_conv split: if_splits dest: offset_number)

lemma record_number: "parseSMSCFromSMSPRecord r = Some s \<Longrightarrow> s \<noteq> [] \<Longrightarrow> TrimSpace s = s \<and> phone_number s"
  by (auto simp: parseSMSCFromSMSPRecord_def bind_eq_Some_conv split: if_splits dest: offset_number scan_number)

lemma address_number:
  "parseSMSCFromTSServiceCentreAddress r = Some s \<Longrightarrow> s \<noteq> [] \<Longrightarrow> TrimSpace s = s \<and> phone_number s"
  using likely_address_number
  by (fastforce simp: parseSMSCFromTSServiceCentreAddress_def bind_eq_Some_conv split: if_splits)

text \<open>A method yields values with a property, whatever the card answers.\<close>

definition yields :: "('a \<Rightarrow> bool) \<Rightarrow> ('m \<Rightarrow> 'a parsed \<times> 'm) \<Rightarrow> bool" where
  "yields P f \<longleftrightarrow> (\<forall>m v m'. f m = (Some (Inr v), m') \<longrightarrow> P v)"

abbreviation clean_number :: "string \<Rightarrow> bool" where
  "clean_number s \<equiv> TrimSpace s = s \<and> phone_number s"

lemma yields_try: "(\<And>r. yields P (g r)) \<Longrightarrow> yields P (try_m f g)"
  unfolding yields_def try_m_def by (auto split: prod.splits option.splits; blast)

lemma yields_then: "(\<And>x. yields P (g x)) \<Longrightarrow> yields P (then_m f g)"
  unfolding then_m_def by (rule yields_try) (auto simp: yields_def split: sum.splits)

lemma yields_fail [simp]: "yields P (fail_m e)"
  by (simp add: yields_def fail_m_def ret_m_def)

lemma yields_ret [simp]: "yields P (ret_m r) \<longleftrightarrow> (\<forall>v. r = Some (Inr v) \<longrightarrow> P v)"
  by (auto simp: yields_def ret_m_def)

lemma yields_guard: "yields P f \<Longrightarrow> yields P (guard_ctx c f)"
  by (auto simp: yields_def guard_ctx_def split: option.splits)

lemma yields_defer: "yields P f \<Longrightarrow> yields P (defer_m c f)"
  by (fastforce simp: yields_def defer_m_def split: prod.splits if_splits)

lemma yields_or_else:
  assumes "yields clean_number f" "\<And>e. yields clean_number (g e)"
  shows "yields clean_number (or_else f g)"
  unfolding yields_def
proof (intro allI impI)
  fix m v m' assume run: "or_else f g m = (Some (Inr v), m')"
  obtain r m1 where f: "f m = (r, m1)" by force
  show "clean_number v"
  proof (cases "\<exists>s. r = Some (Inr s) \<and> TrimSpace s \<noteq> []")
    case True
    then obtain s where s: "r = Some (Inr s)" "TrimSpace s \<noteq> []" by auto
    then have "clean_number s" using assms(1) f by (auto simp: yields_def)
    then show ?thesis using run f s by (simp add: or_else_def try_m_def ret_m_def ok_def)
  next
    case False
    with run f obtain e where "g e m1 = (Some (Inr v), m')"
      by (auto simp: or_else_def try_m_def split: option.splits sum.splits if_splits)
    then show ?thesis using assms(2)[of e] unfolding yields_def by blast
  qed
qed

lemma EFPSISMSC_number: "yields clean_number (readSMSCFromEFPSISMSC tx)"
  unfolding readSMSCFromEFPSISMSC_def
  by (intro yields_then) (auto simp: bind_eq_Some_conv ok_def split: if_splits dest: address_number)

lemma take_record_number:
  assumes "\<And>l e. yields clean_number (next l e)"
  shows "yields clean_number (take_record next record l e a b rsp)"
  using assms by (auto simp: take_record_def ok_def split: option.split dest: record_number)

lemma smsp_records_number: "yields clean_number (smsp_records tx n i l e)"
proof (induction n arbitrary: i l e)
  case (Suc n)
  show ?case unfolding smsp_records.simps
    by (intro yields_try) (simp add: Suc.IH take_record_number yields_try split: sum.split option.split)
qed simp

lemma EFSMSP_number: "yields clean_number (readSMSCFromEFSMSP tx)"
  unfolding readSMSCFromEFSMSP_def by (intro yields_then) (auto simp: smsp_records_number split: option.split)

lemma selected_number: "yields clean_number (getSMSCFromSelectedFiles tx)"
  unfolding getSMSCFromSelectedFiles_def by (intro yields_or_else EFSMSP_number EFPSISMSC_number yields_fail)

lemma uim_number: "yields clean_number (getSMSCFromUIM tx)"
  unfolding getSMSCFromUIM_def by (intro yields_try yields_or_else selected_number yields_fail)

lemma channel_number: "yields clean_number (getSMSCFromUIMLogicalChannel c sim)"
  unfolding getSMSCFromUIMLogicalChannel_def
  by (intro yields_try) (auto split: sum.split intro!: yields_defer yields_or_else selected_number)

lemma file_records_number: "yields clean_number (smsp_file_records c uim path l a n i e)"
proof (induction n arbitrary: i e)
  case (Suc n)
  show ?case unfolding smsp_file_records.simps
    by (intro yields_guard yields_try) (auto simp: Suc.IH ok_def split: sum.split option.split dest: record_number)
qed simp

lemma paths_number:
  assumes "\<And>p. yields clean_number (read p)" "\<And>e. yields clean_number (next e)"
  shows "yields clean_number (try_paths c read next ps e)"
  by (induction ps arbitrary: e) (auto simp: assms intro!: yields_guard yields_or_else)

lemma files_number: "yields clean_number (getSMSCFromUIMFiles c uim)"
  unfolding getSMSCFromUIMFiles_def
proof (intro paths_number yields_fail)
  show "yields clean_number (readSMSCFromEFSMSPWithUIMRead c uim p)" for p
    unfolding readSMSCFromEFSMSPWithUIMRead_def by (intro yields_try) (simp add: file_records_number split: prod.split)
  show "yields clean_number (readSMSCFromEFPSISMSCWithUIMRead uim p)" for p
    unfolding readSMSCFromEFPSISMSCWithUIMRead_def
    by (intro yields_try) (auto simp: bind_eq_Some_conv ok_def split: sum.split if_splits dest: address_number)
qed

lemma query_number: "yields clean_number (querySMSCFromDevice c sim)"
  unfolding querySMSCFromDevice_def
  by (intro yields_guard yields_then yields_or_else uim_number channel_number files_number yields_fail)

text \<open>C39: Whatever bytes the card returns, the service centre that the reader returns from the files of the card is
  five to sixteen digits, with or without a leading plus sign.\<close>

theorem smsc_is_phone_number:
  assumes "readSMSCFromSIMFilesUngated ctxErr sim m = (Some (Inr smsc), m')"
  shows "phone_number smsc"
proof -
  have "yields phone_number (readSMSCFromSIMFilesUngated ctxErr sim)"
    unfolding readSMSCFromSIMFilesUngated_def yields_def then_m_def try_m_def
    using query_number[of ctxErr sim]
    by (fastforce simp: yields_def ret_m_def ok_def split: prod.splits option.splits sum.splits)
  with assms show ?thesis by (auto simp: yields_def)
qed

section \<open>Reading back an address\<close>

definition type_of_address :: "bool \<Rightarrow> byte" where
  "type_of_address international = (if international then 0x91 else 0x81)"

definition encode_address :: "bool \<Rightarrow> nat list \<Rightarrow> byte list" where
  "encode_address international ds =
     (let v = type_of_address international # swapped_bcd ds in of_nat (length v) # v)"

definition address_text :: "bool \<Rightarrow> nat list \<Rightarrow> string" where
  "address_text international ds = (if international then ''+'' else []) @ digits ds"

lemma nibble_text_digit: "d < 10 \<Longrightarrow> nibble_text (of_nat d) = Inr [digit_char d]"
  by (simp add: nibble_text_def digit_char_def)

lemma nibble_text_fill: "nibble_text (of_nat 15) = Inr []"
  by (simp add: nibble_text_def)

lemma bcd_text_swapped: "\<forall>d \<in> set ds. d < 10 \<Longrightarrow> bcd_text (swapped_bcd ds) = Inr (digits ds)"
proof (induction ds rule: swapped_bcd.induct)
  case (2 a)
  then show ?case using nibbles[of a 15]
    by (simp add: nibble_text_digit nibble_text_fill[simplified] bind_res_def digits_def)
next
  case (3 a b ds)
  then show ?case using nibbles[of a b] by (simp add: nibble_text_digit bind_res_def digits_def)
qed (simp add: digits_def)

lemma likely_digits:
  assumes "\<forall>d \<in> set ds. d < 10" "5 \<le> length ds" "length ds \<le> 16"
  shows "isLikelySMSC (address_text international ds)"
proof -
  have d: "48 \<le> (of_char c :: nat) \<and> (of_char c :: nat) \<le> 57" if "c \<in> set (digits ds)" for c
    using that assms(1) by (fastforce simp: digits_def of_char_digit_char)
  have p: "CHR ''+'' \<notin> set (digits ds)" using d by fastforce
  have t: "TrimSpace (address_text international ds) = address_text international ds"
    by (rule TrimSpace_id) (use d in \<open>fastforce simp: address_text_def\<close>)
  have "trim_plus (address_text international ds) = digits ds"
    using p by (cases "digits ds") (auto simp: trim_plus_def address_text_def)
  moreover have "address_text international ds \<noteq> []" using assms(2) by (auto simp: address_text_def digits_def)
  moreover have "length (digits ds) = length ds" by (simp add: digits_def)
  ultimately show ?thesis
    unfolding isLikelySMSC_def t using assms(2,3) d by (auto simp: Let_def list_all_iff)
qed

lemma likely_address_encoded:
  assumes "\<forall>d \<in> set ds. d < 10" "5 \<le> length ds" "length ds \<le> 16"
  shows "likely_address (type_of_address international # swapped_bcd ds) = address_text international ds"
proof -
  have "decodeAddressValue (type_of_address international # swapped_bcd ds) = Inr (address_text international ds)"
    using assms(1) by (simp add: decodeAddressValue_def bcd_text_swapped bind_res_def type_of_address_def address_text_def)
  then show ?thesis using likely_digits[OF assms] by (simp add: likely_address_def)
qed

lemma encoded_length:
  assumes "length ds \<le> 16" "5 \<le> length ds"
  shows "unat (of_nat (length (type_of_address i # swapped_bcd ds)) :: byte) = Suc (length (swapped_bcd ds))"
    "2 \<le> Suc (length (swapped_bcd ds))" "Suc (length (swapped_bcd ds)) \<le> 12"
proof -
  have "Suc (length (swapped_bcd ds)) \<le> 9" using assms(1) by (simp add: length_swapped_bcd)
  then show "unat (of_nat (length (type_of_address i # swapped_bcd ds)) :: byte) = Suc (length (swapped_bcd ds))"
    by (simp only: length_Cons) (subst unat_of_nat_byte; simp)
  show "2 \<le> Suc (length (swapped_bcd ds))" "Suc (length (swapped_bcd ds)) \<le> 12"
    using assms by (simp_all add: length_swapped_bcd)
qed

lemma slice_middle: "go_slice (length xs) (length xs + length ys) (xs @ ys @ zs) = ys"
  by (simp add: go_slice_def)

lemma address_read_back:
  assumes "\<forall>d \<in> set ds. d < 10" "5 \<le> length ds" "length ds \<le> 16" "length before = 13"
  shows "parseSMSCFromSMSPRecord (before @ encode_address international ds @ rest) = Some (address_text international ds) \<and>
    parseSMSCFromTSServiceCentreAddress (encode_address international ds @ rest) = Some (address_text international ds)"
proof
  define v where "v = type_of_address international # swapped_bcd ds"
  have n: "unat (of_nat (length v) :: byte) = length v" "2 \<le> length v" "length v \<le> 12"
    using encoded_length(1)[OF assms(3,2), of international] encoded_length(2,3)[OF assms(3,2)] by (simp_all add: v_def)
  have a: "likely_address v = address_text international ds"
    unfolding v_def by (rule likely_address_encoded[OF assms(1-3)])
  have ne: "address_text international ds \<noteq> []" using assms(2) by (auto simp: address_text_def digits_def)
  have e: "encode_address international ds = of_nat (length v) # v" by (simp add: encode_address_def v_def Let_def)
  have v0: "v ! 0 = type_of_address international" "v \<noteq> []" by (simp_all add: v_def)
  let ?r = "before @ (of_nat (length v) # v) @ rest"
  have r: "?r ! 13 = of_nat (length v)" "?r ! 14 = v ! 0" "length ?r = 14 + length v + length rest"
    using assms(4) v0(2) by (simp_all add: nth_append nth_Cons')
  have s: "go_slice 14 (14 + length v) ?r = v"
    using slice_middle[of "before @ [of_nat (length v)]" v rest] assms(4) by simp
  have t: "type_of_address international \<noteq> 0" "type_of_address international \<noteq> 0xFF"
    "type_of_address international AND 0x80 \<noteq> 0" by (simp_all add: type_of_address_def)
  have "decodeSMSCAtOffset ?r 13 = Some (likely_address v)"
    unfolding decodeSMSCAtOffset_def using r s n t v0 by simp
  then show "parseSMSCFromSMSPRecord (before @ encode_address international ds @ rest) = Some (address_text international ds)"
    unfolding e parseSMSCFromSMSPRecord_def using r(3) a ne by simp
  let ?q = "(of_nat (length v) # v) @ rest"
  have q: "?q ! 0 = of_nat (length v)" "length ?q = 1 + length v + length rest" by simp_all
  have "(of_nat (length v) :: byte) \<noteq> 0xFF" using n by (auto simp: word_unat_eq_iff)
  moreover have "go_slice 1 (1 + length v) ?q = v" using slice_middle[of "[of_nat (length v)]" v rest] by simp
  ultimately show "parseSMSCFromTSServiceCentreAddress (encode_address international ds @ rest) = Some (address_text international ds)"
    unfolding e parseSMSCFromTSServiceCentreAddress_def using q n a by (simp add: allBytes_def)
qed

text \<open>A service centre number of five to sixteen digits that is stored in the files of a card is read back: from
  a parameter record, where it stands after thirteen octets, and from the service centre address file, whatever
  follows it there.\<close>

theorem smsc_file_roundtrip:
  assumes "\<forall>d \<in> set ds. d < 10" "5 \<le> length ds" "length ds \<le> 16" "length before = 13"
  shows "parseSMSCFromSMSPRecord (before @ encode_address international ds @ rest) = Some (address_text international ds) \<and>
    parseSMSCFromTSServiceCentreAddress (encode_address international ds @ rest) = Some (address_text international ds)"
  using assms by (rule address_read_back)

theorem smsc_file_roundtrip_witness:
  "parseSMSCFromSMSPRecord (replicate 13 0xFF @ encode_address True [8,6,1,3,8,0,0] @ [0xFF, 0xFF]) = Some ''+8613800'' \<and>
   parseSMSCFromTSServiceCentreAddress (encode_address True [8,6,1,3,8,0,0] @ [0xFF, 0xFF]) = Some ''+8613800''"
proof -
  have t: "address_text True [8,6,1,3,8,0,0] = ''+8613800''" by code_simp
  show ?thesis
    using smsc_file_roundtrip[of "[8,6,1,3,8,0,0]" "replicate 13 0xFF" True "[0xFF, 0xFF]", unfolded t] by simp
qed

text \<open>A card that answers every selection and holds a number in its parameter records.\<close>

definition smsc_number :: string where "smsc_number = address_text True [8,6,1,3,8,0,0]"
definition smsc_record :: "byte list" where
  "smsc_record = replicate 13 0xFF @ encode_address True [8,6,1,3,8,0,0] @ [0xFF, 0xFF]"

definition smsc_card :: "unit card_ops" where
  "smsc_card =
     \<lparr>co_ensureUIM = ret_m (ok ()),
      co_sendAPDU = (\<lambda>slot channel cmd. ret_m (ok (if cmd ! 1 = 0xB2 then smsc_record @ [0x90, 0x00] else [0x90, 0x00]))),
      co_openLogicalChannel = (\<lambda>slot aid. ret_m (ok 1)),
      co_closeLogicalChannel = (\<lambda>slot channel. ret_m (ok ())),
      co_reader = \<lparr>rd_GetFileAttributes = (\<lambda>s f p. ret_m (ok None)), rd_ReadRecord = (\<lambda>s f p r l. ret_m (ok None)),
        rd_ReadTransparent = (\<lambda>s f p. ret_m (ok []))\<rparr>\<rparr>"

lemma or_else_ok: "f m = (ok v, m1) \<Longrightarrow> TrimSpace v = v \<Longrightarrow> v \<noteq> [] \<Longrightarrow> or_else f g m = (ok v, m1)"
  by (simp add: or_else_def try_m_def ok_def ret_m_def)

lemma smsc_card_read: "readSMSCFromSIMFilesUngated (\<lambda>_. None) smsc_card () = (Some (Inr smsc_number), ())"
proof -
  have p: "parseSMSCFromSMSPRecord smsc_record = Some smsc_number"
    using address_read_back[of "[8,6,1,3,8,0,0]" "replicate 13 0xFF" True "[0xFF, 0xFF]"] by (simp add: smsc_record_def smsc_number_def)
  then have t: "TrimSpace smsc_number = smsc_number" "smsc_number \<noteq> []"
    using record_number by (auto simp: smsc_number_def address_text_def)
  define tx where "tx = (\<lambda>cmd. guard_ctx (\<lambda>_. None) (co_sendAPDU smsc_card smscAPDUSlot 0 cmd))"
  have tx: "tx cmd () = (ok (if cmd ! 1 = 0xB2 then smsc_record @ [0x90, 0x00] else [0x90, 0x00]), ())" for cmd
    by (simp add: tx_def guard_ctx_def smsc_card_def ret_m_def)
  have send: "transmitBasicAPDUWithFollowUp tx cmd () = tx cmd ()" for cmd
    by (simp add: transmitBasicAPDUWithFollowUp_def then_m_def try_m_def tx ok_def apduStatusFromResp_def get_response_def ret_m_def nth_append)
  have sel: "select_file tx cmd () = (ok (), ())" "command_data tx f cmd () = (ok [], ())" if "cmd ! 1 \<noteq> 0xB2" for f cmd
    using that by (simp_all add: select_file_def command_data_def try_m_def send tx ok_def ret_m_def bind_res_def extractAPDUSuccessData_def
      apduStatusFromResp_def isAPDUSuccess_def)
  have uim: "selectUSIMOrFallback tx () = (ok (), ())"
    by (simp add: selectUSIMOrFallback_def try_m_def sel ret_m_def ok_def)
  have records: "smsp_records tx (Suc n) 1 l None () = (ok smsc_number, ())" for n l
    by (simp add: try_m_def send tx record_command_def ok_def apduStatusFromResp_def nth_append no_more_records_def take_record_def
      isAPDUSuccess_def p t ret_m_def)
  have ten: "smsp_records tx 10 1 l None () = (Some (Inr smsc_number), ())" for l
    using records[of 9 l] by (simp add: ok_def del: smsp_records.simps)
  have smsp: "readSMSCFromEFSMSP tx () = (ok smsc_number, ())"
    unfolding readSMSCFromEFSMSP_def then_m_def try_m_def
    by (simp add: sel parseLinearFixedMetaFromFCP_def ok_def ten ten[simplified] del: smsp_records.simps)
  have files: "getSMSCFromSelectedFiles tx () = (ok smsc_number, ())"
    unfolding getSMSCFromSelectedFiles_def by (rule or_else_ok) (rule smsp t)+
  have basic: "getSMSCFromUIM tx () = (ok smsc_number, ())"
    unfolding getSMSCFromUIM_def try_m_def uim by (simp add: or_else_ok[where f = "getSMSCFromSelectedFiles tx" and m = "()", OF files t] ok_def)
  show ?thesis
    unfolding readSMSCFromSIMFilesUngated_def querySMSCFromDevice_def guard_ctx_def then_m_def try_m_def tx_def[symmetric, unfolded guard_ctx_def]
    by (simp add: or_else_ok[where f = "getSMSCFromUIM tx" and m = "()", OF basic t] smsc_card_def ret_m_def ok_def t)
qed

theorem smsc_is_phone_number_witness:
  "readSMSCFromSIMFilesUngated (\<lambda>_. None) smsc_card () = (Some (Inr smsc_number), ()) \<and> phone_number smsc_number"
  using smsc_is_phone_number[OF smsc_card_read] smsc_card_read by blast

section \<open>Channels, stale answers, file control blocks\<close>

text \<open>A logical channel that was opened is closed: on every path, a panic included, closing it is the last thing
  that happens.\<close>

theorem smsc_channel_closed:
  assumes "co_openLogicalChannel sim smscAPDUSlot genericUSIMAID m = (Some (Inr channel), m1)"
  shows "\<exists>m2. snd (getSMSCFromUIMLogicalChannel ctxErr sim m) = snd (co_closeLogicalChannel sim smscAPDUSlot channel m2)"
proof -
  have "snd (defer_m clean body x) = snd (clean (snd (body x)))"
    for clean :: "'a \<Rightarrow> unit parsed \<times> 'a" and body :: "'a \<Rightarrow> string parsed \<times> 'a" and x
    by (simp add: defer_m_def split: prod.split)
  with assms show ?thesis
    by (auto simp: getSMSCFromUIMLogicalChannel_def try_m_def)
qed

text \<open>An answer of the modem is stored and returned unless the card changed while the modem was asked; then the
  caller gets an error and the snapshot of the new card is left alone.\<close>

lemma GetSMSC_result:
  assumes "query s = (Some (Inr raw), s1)" "TrimSpace raw \<noteq> []"
  shows "GetSMSC query s =
    (if IdentityGeneration s1 = IdentityGeneration s
     then (Some (Inr (TrimSpace raw)), UpdateIdentities (no_identities\<lparr>id_SMSC := TrimSpace raw\<rparr>) s1)
     else (Some (Inl (ErrText ''discarded stale SMSC result after SIM identity changed'')), s1))"
  using assms
  by (simp add: GetSMSC_def then_m_def try_m_def UpdateIdentitiesIfGeneration_def UpdateIdentities_def IdentityGeneration_def
    fail_m_def ret_m_def ok_def Let_def)

text \<open>The length of a data object in long form is a signed integer of 64 bits: eight octets that a card sends
  can make it negative, and slicing the template then panics.\<close>

lemma fcp_length_overflow: "parseLinearFixedMetaFromFCP ([0x62, 10, 0x82, 0x88] @ replicate 8 0xFF) = None"
  by code_simp

end
