(* ===== verification/SmsPdu.thy ===== *)
theory SmsPdu
  imports GoParse
begin

text \<open>
  Stored and sent short messages, \<^verbatim>\<open>src/pkg/manager/sms_trim.go\<close> and the message methods at the end of
  \<^verbatim>\<open>manager.go\<close>: looking for a TPDU in the octets a storage returns, trimming it to the length it declares, decoding
  it, and encoding a text. The coding library (\<^verbatim>\<open>warthog618/sms\<close>) is a record of functions.
\<close>

section \<open>Trimming a deliver TPDU to its declared length\<close>

text \<open>The coding library decides the alphabet of a data coding scheme: an error, or whether it is the alphabet of
  seven bits.\<close>

type_synonym dcs_alphabet = "byte \<Rightarrow> bool option"

definition deliverTPDUDeclaredLength :: "dcs_alphabet \<Rightarrow> byte list \<Rightarrow> (nat \<times> bool \<times> nat) option option" where
  "deliverTPDUDeclaredLength alphabet p =
     (if length p < 1 then Some None
      else do {
        b0 \<leftarrow> at p 0;
        if b0 AND 0x03 \<noteq> 0 then Some None
        else if 1 + 2 > length p then Some None
        else do {
          oaLen \<leftarrow> at p 1;
          let i = 3;
          let oaOctets = (unat oaLen + 1) div 2;
          if i + oaOctets > length p then Some None
          else if i + oaOctets + 10 > length p then Some None
          else do {
            let i = i + oaOctets;
            dcs \<leftarrow> at p (i + 1);
            udl \<leftarrow> at p (i + 9);
            (case alphabet dcs of
               None \<Rightarrow> Some None
             | Some seven \<Rightarrow>
                 let udOctets = (if seven then (unat udl * 7 + 7) div 8 else unat udl);
                     want = i + 10 + udOctets
                 in if want > length p then Some None else Some (Some (want, seven, unat udl))) } } })"

definition trimDeliverTPDUToDeclaredLength :: "dcs_alphabet \<Rightarrow> byte list \<Rightarrow> (byte list \<times> bool) option" where
  "trimDeliverTPDUToDeclaredLength alphabet p = do {
     d \<leftarrow> deliverTPDUDeclaredLength alphabet p;
     (case d of
        None \<Rightarrow> Some (p, False)
      | Some (want, seven, udl) \<Rightarrow>
          if want > length p then Some (p, False)
          else
            let trimmed = take want p;
                udOctets = (udl * 7 + 7) div 8;
                paddingBits = udOctets * 8 - udl * 7
            in if seven \<and> want > 0 \<and> paddingBits > 0 \<and> paddingBits < 8
               then do {
                 b \<leftarrow> at trimmed (want - 1);
                 Some (trimmed[want - 1 := b AND (push_bit (8 - paddingBits) 1 - 1)], True) }
               else Some (trimmed, True)) }"

section \<open>Finding the TPDU in a stored message\<close>

definition looksLikeDeliverTPDU :: "byte list \<Rightarrow> bool" where
  "looksLikeDeliverTPDU p \<longleftrightarrow> length p > 0 \<and> p ! 0 AND 0x03 = 0"

definition extractFullPDUWithSMSC :: "byte list \<Rightarrow> byte list option option" where
  "extractFullPDUWithSMSC raw =
     (if length raw < 2 then Some None
      else do {
        smscLen \<leftarrow> at raw 0;
        if unat smscLen = 0 then
          (if length raw \<le> 1 then Some None else map_option Some (tail_from raw 1))
        else if unat smscLen < 2 \<or> 1 + unat smscLen \<ge> length raw then Some None
        else do {
          toa \<leftarrow> at raw 1;
          if toa AND 0x80 = 0 then Some None else map_option Some (tail_from raw (1 + unat smscLen)) } })"

text \<open>\<open>skipRPAddress\<close> returns the new position, or nothing when the address does not fit.\<close>

definition skipRPAddress :: "byte list \<Rightarrow> nat \<Rightarrow> nat option option" where
  "skipRPAddress raw i =
     (if i \<ge> length raw then Some None
      else do {
        n \<leftarrow> at raw i;
        if i + 1 + unat n > length raw then Some None else Some (Some (i + 1 + unat n)) })"

definition extractIncomingRPDataTPDU :: "byte list \<Rightarrow> byte list option option" where
  "extractIncomingRPDataTPDU raw =
     (if length raw < 5 \<or> raw ! 0 \<noteq> 0x01 then Some None
      else do {
        a \<leftarrow> skipRPAddress raw 2;
        (case a of
           None \<Rightarrow> Some None
         | Some i \<Rightarrow> do {
             b \<leftarrow> skipRPAddress raw i;
             (case b of
                None \<Rightarrow> Some None
              | Some j \<Rightarrow>
                  if j \<ge> length raw then Some None
                  else do {
                    udLen \<leftarrow> at raw j;
                    if unat udLen \<le> 0 \<or> j + 1 + unat udLen > length raw then Some None
                    else map_option Some (sub raw (j + 1) (j + 1 + unat udLen)) }) }) })"

definition appendCandidate :: "string \<Rightarrow> byte list \<Rightarrow> (string \<times> byte list) list \<Rightarrow> (string \<times> byte list) list" where
  "appendCandidate name p candidates =
     (if \<not> looksLikeDeliverTPDU p then candidates
      else if list_ex (\<lambda>c. snd c = p) candidates then candidates
      else candidates @ [(name, p)])"

definition append_found :: "string \<Rightarrow> byte list option \<Rightarrow> (string \<times> byte list) list \<Rightarrow> (string \<times> byte list) list" where
  "append_found name found candidates = (case found of None \<Rightarrow> candidates | Some p \<Rightarrow> appendCandidate name p candidates)"

definition incomingSMSPDUCandidates :: "byte list \<Rightarrow> (string \<times> byte list) list option" where
  "incomingSMSPDUCandidates raw = do {
     let c1 = appendCandidate ''direct_tpdu'' raw [];
     full \<leftarrow> extractFullPDUWithSMSC raw;
     rp \<leftarrow> extractIncomingRPDataTPDU raw;
     Some (append_found ''rp_data'' rp (append_found ''full_pdu_smsc'' full c1)) }"

section \<open>Decoding\<close>

text \<open>What the code uses of the coding library, for a TPDU of type \<open>'p\<close> and times of type \<open>'t\<close>.\<close>

record ('p, 't) tpdu_library =
  tl_alphabet :: dcs_alphabet
  tl_UnmarshalBinary :: "byte list \<Rightarrow> go_error + 'p"
  tl_Decode :: "'p \<Rightarrow> go_error + byte list"
  tl_OANumber :: "'p \<Rightarrow> string"
  tl_SCTS :: "'p \<Rightarrow> 't"
  tl_UDH :: "'p \<Rightarrow> (byte \<times> byte list) list"
  tl_Encode :: "byte list \<Rightarrow> string \<Rightarrow> bool \<Rightarrow> go_error + 'p list"
  tl_EncodeUCS2 :: "string \<Rightarrow> byte list"
  tl_unknownISDN :: "'p \<Rightarrow> 'p"
  tl_MarshalBinary :: "'p \<Rightarrow> go_error + byte list"

record 't DecodedSMS =
  ds_Index :: u32
  ds_Storage :: u8
  ds_Sender :: string
  ds_Message :: string
  ds_Timestamp :: 't
  ds_IsConcat :: bool
  ds_ConcatRef :: nat
  ds_ConcatTotal :: nat
  ds_ConcatSeq :: nat

fun populateConcatInfo :: "'t DecodedSMS \<Rightarrow> (byte \<times> byte list) list \<Rightarrow> 't DecodedSMS" where
  "populateConcatInfo resp [] = resp"
| "populateConcatInfo resp ((ieID, data) # rest) =
     (if ieID = 0x00 \<and> length data \<ge> 3 then
        resp\<lparr>ds_IsConcat := True, ds_ConcatRef := unat (data ! 0), ds_ConcatTotal := unat (data ! 1), ds_ConcatSeq := unat (data ! 2)\<rparr>
      else if ieID = 0x08 \<and> length data \<ge> 4 then
        resp\<lparr>ds_IsConcat := True, ds_ConcatRef := unat (data ! 0) * 256 + unat (data ! 1),
             ds_ConcatTotal := unat (data ! 2), ds_ConcatSeq := unat (data ! 3)\<rparr>
      else populateConcatInfo resp rest)"

definition decodeIncomingTPDU :: "('p, 't) tpdu_library \<Rightarrow> byte list \<Rightarrow> u8 \<Rightarrow> u32 \<Rightarrow> 't DecodedSMS parsed" where
  "decodeIncomingTPDU lib p storageType index = do {
     t \<leftarrow> trimDeliverTPDUToDeclaredLength (tl_alphabet lib) p;
     let bytes = (if snd t then fst t else p);
     Some (bind_res (tl_UnmarshalBinary lib bytes) (\<lambda>pd.
       bind_res (tl_Decode lib pd) (\<lambda>text.
         Inr (populateConcatInfo
           \<lparr>ds_Index = index, ds_Storage = storageType, ds_Sender = tl_OANumber lib pd, ds_Message = string_of_bytes text,
            ds_Timestamp = tl_SCTS lib pd, ds_IsConcat = False, ds_ConcatRef = 0, ds_ConcatTotal = 0, ds_ConcatSeq = 0\<rparr>
           (tl_UDH lib pd))))) }"

fun joined :: "string list \<Rightarrow> string" where
  "joined [] = []"
| "joined [e] = e"
| "joined (e # es) = e @ ''; '' @ joined es"

fun first_decoded :: "('p, 't) tpdu_library \<Rightarrow> u8 \<Rightarrow> u32 \<Rightarrow> (string \<times> byte list) list \<Rightarrow> string list \<Rightarrow> 't DecodedSMS parsed" where
  "first_decoded lib storageType index [] errs = Some (Inl (ErrText (''PDU decode failed: '' @ joined errs)))"
| "first_decoded lib storageType index ((name, p) # rest) errs = do {
     r \<leftarrow> decodeIncomingTPDU lib p storageType index;
     (case r of
        Inr resp \<Rightarrow> ok resp
      | Inl e \<Rightarrow> first_decoded lib storageType index rest (errs @ [name @ '': '' @ err_text e])) }"

definition DecodeIncomingSMSPDU :: "('p, 't) tpdu_library \<Rightarrow> byte list \<Rightarrow> u8 \<Rightarrow> u32 \<Rightarrow> 't DecodedSMS parsed" where
  "DecodeIncomingSMSPDU lib raw storageType index =
     (if length raw = 0 then Some (Inl (ErrText ''PDU too short''))
      else do {
        candidates \<leftarrow> incomingSMSPDUCandidates raw;
        if length candidates = 0 then Some (Inl (ErrText ''PDU decode failed: no supported SMS PDU candidate''))
        else first_decoded lib storageType index candidates [] })"

section \<open>Encoding\<close>

datatype SMSEncoding = SMSEncodingAuto | SMSEncodingUCS2

definition NormalizeSMSEncoding :: "string \<Rightarrow> go_error + SMSEncoding" where
  "NormalizeSMSEncoding raw =
     (let v = ToLower (TrimSpace raw) in
      if v = [] \<or> v = ''auto'' then Inr SMSEncodingAuto
      else if v = ''ucs2'' then Inr SMSEncodingUCS2
      else Inl (ErrText (''unsupported SMS encoding: '' @ raw)))"

definition isLikelyShortCode :: "string \<Rightarrow> bool" where
  "isLikelyShortCode number =
     (let phone = TrimSpace number in
      if phone = [] then False
      else if prefix ''+'' phone then False
      else dropWhile (\<lambda>c. 48 \<le> (of_char c :: nat) \<and> of_char c \<le> (57 :: nat)) phone = [] \<and> length phone \<le> 6)"

definition encodeSMSWithOptions :: "('p, 't) tpdu_library \<Rightarrow> string \<Rightarrow> string \<Rightarrow> string \<Rightarrow> go_error + byte list" where
  "encodeSMSWithOptions lib number text encoding =
     (let normalizedNumber = TrimSpace number in
      bind_res (NormalizeSMSEncoding encoding) (\<lambda>enc.
      bind_res (tl_Encode lib (if enc = SMSEncodingUCS2 then tl_EncodeUCS2 lib text else bytes_of_string text)
                  normalizedNumber (enc = SMSEncodingUCS2)) (\<lambda>pdus.
        case pdus of
          [] \<Rightarrow> Inl (ErrText ''no PDUs generated'')
        | p # _ \<Rightarrow>
            bind_res (tl_MarshalBinary lib (if isLikelyShortCode normalizedNumber then tl_unknownISDN lib p else p))
              (\<lambda>binaryTPDU. Inr (0x00 # binaryTPDU)))))"

section \<open>Trimming is stable\<close>

lemma declared_length_bounds:
  assumes "deliverTPDUDeclaredLength alphabet p = Some (Some (want, seven, udl))"
  shows "want \<le> length p \<and> 13 \<le> want \<and> (\<exists>i. 3 \<le> i \<and> i + 10 + (if seven then (udl * 7 + 7) div 8 else udl) = want)"
  using assms by (auto simp: deliverTPDUDeclaredLength_def at_def Let_def bind_eq_Some_conv split: if_splits option.splits)

text \<open>The declared length depends only on the octets before the user data.\<close>

lemma declared_length_cong:
  assumes "deliverTPDUDeclaredLength alphabet p = Some (Some (want, seven, udl))"
    and "want \<le> length q"
    and "\<And>i. i < want - (if seven then (udl * 7 + 7) div 8 else udl) \<Longrightarrow> q ! i = p ! i"
  shows "deliverTPDUDeclaredLength alphabet q = Some (Some (want, seven, udl))"
proof -
  define i where "i = 3 + (unat (p ! 1) + 1) div 2"
  define k where "k = (if seven then (udl * 7 + 7) div 8 else udl)"
  have p: "p ! 0 AND 0x03 = 0" "i + 10 \<le> length p" "alphabet (p ! (i + 1)) = Some seven" "udl = unat (p ! (i + 9))"
    "want = i + 10 + k" "want \<le> length p" "1 \<le> length p" "3 \<le> length p"
    using assms(1) unfolding i_def k_def
    by (auto simp: deliverTPDUDeclaredLength_def at_def Let_def bind_eq_Some_conv not_less not_le split: if_splits option.splits)
  have eq: "q ! j = p ! j" if "j < i + 10" for j
    using assms(3)[of j] that p(5) by (simp add: k_def)
  have q: "q ! 0 = p ! 0" "q ! 1 = p ! 1" "q ! (i + 1) = p ! (i + 1)" "q ! (i + 9) = p ! (i + 9)"
    by (rule eq; simp add: i_def)+
  have len: "i + 10 + k \<le> length q" using assms(2) p(5) by simp
  then have "3 \<le> length q" by (simp add: i_def)
  then have "\<not> length q < 1" "\<not> length q < 3" "3 \<le> length q" by linarith+
  then show ?thesis
    using p len unfolding deliverTPDUDeclaredLength_def
    by (cases seven) (simp_all add: Let_def q i_def[symmetric] k_def del: One_nat_def)
qed

definition mask_tail :: "nat \<Rightarrow> bool \<Rightarrow> nat \<Rightarrow> byte list \<Rightarrow> byte list" where
  "mask_tail want seven udl t =
     (let paddingBits = (udl * 7 + 7) div 8 * 8 - udl * 7 in
      if seven \<and> paddingBits > 0 \<and> paddingBits < 8
      then t[want - 1 := t ! (want - 1) AND (push_bit (8 - paddingBits) 1 - 1)] else t)"

lemma trim_declared:
  assumes "deliverTPDUDeclaredLength alphabet p = Some (Some (want, seven, udl))"
  shows "trimDeliverTPDUToDeclaredLength alphabet p = Some (mask_tail want seven udl (take want p), True)"
  using assms declared_length_bounds[OF assms]
  by (auto simp: trimDeliverTPDUToDeclaredLength_def mask_tail_def Let_def)

lemma trimmed_declared:
  "trimDeliverTPDUToDeclaredLength alphabet p = Some (t, True) \<Longrightarrow>
    \<exists>want seven udl. deliverTPDUDeclaredLength alphabet p = Some (Some (want, seven, udl)) \<and> t = mask_tail want seven udl (take want p)"
proof -
  assume run: "trimDeliverTPDUToDeclaredLength alphabet p = Some (t, True)"
  then obtain d where d: "deliverTPDUDeclaredLength alphabet p = Some d"
    by (auto simp: trimDeliverTPDUToDeclaredLength_def bind_eq_Some_conv)
  with run obtain want seven udl where "d = Some (want, seven, udl)"
    by (cases d) (auto simp: trimDeliverTPDUToDeclaredLength_def)
  with d run show ?thesis using trim_declared[of alphabet p want seven udl] by auto
qed

lemma length_mask_tail [simp]: "length (mask_tail want seven udl t) = length t"
  by (simp add: mask_tail_def Let_def)

lemma mask_tail_nth: "i < want - (if seven then (udl * 7 + 7) div 8 else udl) \<Longrightarrow> mask_tail want seven udl t ! i = t ! i"
  by (cases "udl = 0") (auto simp: mask_tail_def Let_def nth_list_update split: if_splits)

lemma mask_tail_idem: "want \<le> length t \<Longrightarrow> 0 < want \<Longrightarrow> mask_tail want seven udl (mask_tail want seven udl t) = mask_tail want seven udl t"
  by (simp add: mask_tail_def Let_def and.assoc)

text \<open>Octets that the storage appends to a message do not change what the decoder is given, and a trimmed message is
  trimmed to itself.\<close>

theorem trim_stable:
  assumes "trimDeliverTPDUToDeclaredLength alphabet p = Some (t, True)"
  shows "trimDeliverTPDUToDeclaredLength alphabet (p @ padding) = Some (t, True) \<and>
    trimDeliverTPDUToDeclaredLength alphabet t = Some (t, True) \<and> length t \<le> length p"
proof -
  obtain want seven udl where d: "deliverTPDUDeclaredLength alphabet p = Some (Some (want, seven, udl))"
    and t: "t = mask_tail want seven udl (take want p)" using trimmed_declared[OF assms] by blast
  note b = declared_length_bounds[OF d]
  have lt: "length t = want" using b t by simp
  have "deliverTPDUDeclaredLength alphabet (p @ padding) = Some (Some (want, seven, udl))"
    by (rule declared_length_cong[OF d]) (use b in \<open>auto simp: nth_append\<close>)
  from trim_declared[OF this] have "trimDeliverTPDUToDeclaredLength alphabet (p @ padding) = Some (t, True)"
    using b t by simp
  moreover have "deliverTPDUDeclaredLength alphabet t = Some (Some (want, seven, udl))"
    by (rule declared_length_cong[OF d]) (use b in \<open>auto simp: t mask_tail_nth\<close>)
  from trim_declared[OF this] have "trimDeliverTPDUToDeclaredLength alphabet t = Some (t, True)"
    using b lt by (simp add: t mask_tail_idem)
  ultimately show ?thesis using b lt by simp
qed

definition demo_tpdu :: "byte list" where
  "demo_tpdu = [0x04, 0x02, 0x91, 0x21, 0x00, 0x00, 0, 0, 0, 0, 0, 0, 0, 0x01, 0xFF]"

theorem trim_stable_witness:
  "trimDeliverTPDUToDeclaredLength (\<lambda>_. Some True) (demo_tpdu @ [0xFF, 0xFF]) =
     Some ([0x04, 0x02, 0x91, 0x21, 0x00, 0x00, 0, 0, 0, 0, 0, 0, 0, 0x01, 0x7F], True)"
proof -
  have "trimDeliverTPDUToDeclaredLength (\<lambda>_. Some True) demo_tpdu =
     Some ([0x04, 0x02, 0x91, 0x21, 0x00, 0x00, 0, 0, 0, 0, 0, 0, 0, 0x01, 0x7F], True)" by code_simp
  from trim_stable[OF this, of "[0xFF, 0xFF]"] show ?thesis by blast
qed

section \<open>Unwrapping\<close>

lemma candidates_never_panic: "incomingSMSPDUCandidates raw \<noteq> None"
proof -
  have skip: "\<exists>y. skipRPAddress raw i = Some y" for i by (simp add: skipRPAddress_def Let_def)
  obtain a where a: "skipRPAddress raw 2 = Some a" using skip by blast
  have "extractIncomingRPDataTPDU raw \<noteq> None"
  proof (cases a)
    case (Some i)
    obtain b where "skipRPAddress raw i = Some b" using skip by blast
    with a Some show ?thesis by (cases b) (simp_all add: extractIncomingRPDataTPDU_def)
  qed (simp add: extractIncomingRPDataTPDU_def a)
  moreover have "extractFullPDUWithSMSC raw \<noteq> None"
  proof (cases "length raw < 2")
    case False
    then have "0 < length raw" "1 < length raw" "1 \<le> length raw" by linarith+
    with False show ?thesis by (simp add: extractFullPDUWithSMSC_def del: One_nat_def)
  qed (simp add: extractFullPDUWithSMSC_def)
  ultimately show ?thesis by (auto simp: incomingSMSPDUCandidates_def bind_eq_None_conv Let_def)
qed

lemma trim_never_panics: "trimDeliverTPDUToDeclaredLength alphabet p \<noteq> None"
proof -
  have d: "deliverTPDUDeclaredLength alphabet p \<noteq> None"
    by (auto simp: deliverTPDUDeclaredLength_def bind_eq_None_conv at_def Let_def split: option.splits)
  show ?thesis
  proof (cases "deliverTPDUDeclaredLength alphabet p")
    case (Some r)
    then show ?thesis using trim_declared[of alphabet p]
      by (cases r) (auto simp: trimDeliverTPDUToDeclaredLength_def)
  qed (use d in simp)
qed

lemma decode_never_panics: "decodeIncomingTPDU lib p storageType index \<noteq> None"
  using trim_never_panics by (auto simp: decodeIncomingTPDU_def bind_eq_None_conv Let_def)

lemma first_decoded_safe: "first_decoded lib storageType index cs errs \<noteq> None"
proof (induction cs arbitrary: errs)
  case (Cons c cs)
  obtain name p where c: "c = (name, p)" by force
  obtain r where "decodeIncomingTPDU lib p storageType index = Some r" using decode_never_panics by fastforce
  then show ?case using Cons.IH by (simp add: c ok_def split: sum.split)
qed simp

text \<open>Whatever octets a storage or an indication delivers, looking for a message in them does not panic.\<close>

theorem incoming_sms_never_panics: "DecodeIncomingSMSPDU lib raw storageType index \<noteq> None"
  using candidates_never_panic[of raw] first_decoded_safe[of lib storageType index]
  by (auto simp: DecodeIncomingSMSPDU_def bind_eq_None_conv)

text \<open>The TPDU of an RP-DATA message is found between its two addresses, and a TPDU that is sent with the default
  service centre is found again behind its length octet.\<close>

lemma skip_address:
  assumes "length a < 256"
  shows "skipRPAddress (xs @ (of_nat (length a) # a) @ ys) (length xs) = Some (Some (length xs + 1 + length a))"
  using assms by (simp add: skipRPAddress_def Let_def unat_of_nat_byte)

theorem rp_data_roundtrip:
  assumes "length a < 256" "length b < 256" "0 < length tpdu" "length tpdu < 256"
  shows "extractIncomingRPDataTPDU ([0x01, mr] @ (of_nat (length a) # a) @ (of_nat (length b) # b) @ (of_nat (length tpdu) # tpdu) @ rest)
    = Some (Some tpdu)"
proof -
  let ?raw = "[0x01, mr] @ (of_nat (length a) # a) @ (of_nat (length b) # b) @ (of_nat (length tpdu) # tpdu) @ rest"
  define xs where "xs = [0x01, mr] @ (of_nat (length a) # a)"
  define ys where "ys = xs @ (of_nat (length b) # b)"
  have s1: "skipRPAddress ?raw 2 = Some (Some (length xs))"
    using skip_address[OF assms(1), of "[0x01, mr]"] by (simp add: xs_def numeral_2_eq_2)
  have s2: "skipRPAddress ?raw (length xs) = Some (Some (length ys))"
    using skip_address[OF assms(2), of xs] by (simp add: xs_def ys_def)
  have r: "?raw = ys @ (of_nat (length tpdu) # tpdu) @ rest" by (simp add: xs_def ys_def)
  have ud: "?raw ! length ys = of_nat (length tpdu)" "length ys < length ?raw"
    "go_slice (length ys + 1) (length ys + 1 + length tpdu) ?raw = tpdu"
    by (simp_all only: r) (simp_all add: nth_append go_slice_def)
  have "length ys + 1 + length tpdu \<le> length ?raw" "\<not> length ?raw < 5" by (simp_all only: r) (simp_all add: ys_def xs_def)
  moreover have "?raw ! 0 = 0x01" by simp
  ultimately show ?thesis
    unfolding extractIncomingRPDataTPDU_def using s1 s2 ud assms(3,4)
    by (simp only: unat_of_nat_byte bind.bind_lunit option.case at_eq sub_eq le_add1) (simp add: unat_of_nat_byte)
qed

theorem rp_data_roundtrip_witness:
  "extractIncomingRPDataTPDU ([0x01, 0x2A] @ (of_nat (length [0x91 :: byte, 0x68]) # [0x91, 0x68]) @ (of_nat (length ([] :: byte list)) # [])
     @ (of_nat (length demo_tpdu) # demo_tpdu) @ []) = Some (Some demo_tpdu)"
  by (rule rp_data_roundtrip) (simp_all add: demo_tpdu_def)

text \<open>Only the first of the TPDUs that a text is split into is sent: the rest of a long text is dropped.\<close>

lemma only_first_segment_sent:
  assumes "\<And>msg n u. tl_Encode lib msg n u = Inr (p # ps)"
  shows "encodeSMSWithOptions lib number text encoding =
    encodeSMSWithOptions (lib\<lparr>tl_Encode := \<lambda>_ _ _. Inr [p]\<rparr>) number text encoding"
  using assms by (simp add: encodeSMSWithOptions_def bind_res_def Let_def split: sum.split)

end
