(* ===== verification/DataPlane.thy ===== *)
theory DataPlane
  imports Wds WdaIms
begin

text \<open>
  The data plane, \<^verbatim>\<open>src/pkg/manager/data_plane.go\<close>, \<^verbatim>\<open>pdn_session.go\<close> and the parts of \<^verbatim>\<open>manager.go\<close> they call: the
  convergence of the modem and the host on a native or QMAP topology, and the secondary PDNs opened on it. What
  these functions ask of the modem and of the host is a \<open>call\<close>; the state keeps the history of calls, and an
  \<open>environment\<close> answers each call depending on this history. A function is an action on the state, and
  the lock \<^verbatim>\<open>dataPlane.mu\<close> makes it one step.
\<close>

section \<open>The data plane\<close>

text \<open>The modes are strings in the source; the empty one is a specification that was never declared.\<close>

type_synonym DataPlaneMode = string

definition DataPlaneModeNative :: DataPlaneMode where "DataPlaneModeNative = ''native''"
definition DataPlaneModeQMAP :: DataPlaneMode where "DataPlaneModeQMAP = ''qmap''"

record DataPlaneSpec =
  sp_Mode :: DataPlaneMode
  sp_DefaultMuxID :: u8

record DataPlaneSnapshot =
  dp_Generation :: u64
  dp_Mode :: DataPlaneMode
  dp_DefaultInterface :: string
  dp_DefaultMuxID :: u8
  dp_DegradedReason :: string

definition no_snapshot :: DataPlaneSnapshot where
  "no_snapshot = \<lparr>dp_Generation = 0, dp_Mode = [], dp_DefaultInterface = [], dp_DefaultMuxID = 0, dp_DegradedReason = []\<rparr>"

record PDNRequest =
  pr_APN :: string
  pr_MuxID :: u8
  pr_IPFamily :: u8
  pr_ProfileIndex :: u8
  pr_CallType :: "u8 option"
  pr_EndpointType :: u32
  pr_InterfaceID :: u32
  pr_ClientType :: u32
  pr_UserspaceOnly :: bool

text \<open>What the data plane asks of the modem and of the host. A leased WDS service is named by the length that the
  history had when it was leased.\<close>

datatype call =
    CreateWDS | CreateWDSv6 | CreateWDA
  | ReconcileResidualMux string "u8 list" | EnableRawIPHost
  | GetDataFormat | SetDataFormat DataFormat
  | DiscoverTopology string | EnableRawIP string | AddMux string u8 | DeleteMux string u8
  | BringUp string | BringDown string | FlushRoutes string | FlushAddresses string | PrepareUserspace string
  | DiscoverEndpoint string | LeaseWDS | Bind nat MuxBinding | Start nat PDNRequest | GetSettings nat u8
  | StopCall nat u32 | ReleaseWDS nat
  | Disconnect | EnqueueStart

text \<open>Their answers depend on everything that was asked before.\<close>

record environment =
  en_ctx :: "call list \<Rightarrow> go_error option"
  en_unit :: "call list \<Rightarrow> call \<Rightarrow> go_error option"
  en_name :: "call list \<Rightarrow> call \<Rightarrow> go_error + string"
  en_number :: "call list \<Rightarrow> call \<Rightarrow> go_error + u32"
  en_settings :: "call list \<Rightarrow> call \<Rightarrow> go_error + RuntimeSettings option"
  en_format :: "call list \<Rightarrow> go_error + DataFormat"
  en_topology :: "call list \<Rightarrow> string \<Rightarrow> go_error + string \<times> (u8 \<times> string) list"

record PDNSnapshot =
  ps_ID :: u64
  ps_Generation :: u64
  ps_InterfaceName :: string
  ps_Handle :: u32
  ps_Settings :: RuntimeSettings

text \<open>The session of a secondary PDN. The map of sessions is an association list: the order in which Go visits its
  entries is one of many.\<close>

record managedPDNSession =
  se_snapshot :: PDNSnapshot
  se_master :: string
  se_muxID :: u8
  se_wds :: nat

record plane_config =
  pc_NetInterface :: string
  pc_EnableIPv4 :: bool
  pc_EnableIPv6 :: bool
  pc_Disabled :: bool
  pc_DataPlane :: DataPlaneSpec

record plane =
  pl_snapshot :: DataPlaneSnapshot
  pl_declared :: DataPlaneSpec
  pl_masterInterface :: string
  pl_nextSessionID :: u64
  pl_sessions :: "(u64 \<times> managedPDNSession) list"
  pl_reserved :: "(u8 \<times> u64) list"
  pl_wds :: bool
  pl_wdsV6 :: bool
  pl_wda :: bool
  pl_masterIface :: string
  pl_muxIface :: string
  pl_stopping :: bool
  pl_client :: bool
  pl_connected :: bool
  pl_connectedGeneration :: u64
  pl_calls :: "call list"

type_synonym 'a act = "plane \<Rightarrow> (go_error + 'a) \<times> plane"

definition say :: "call \<Rightarrow> plane \<Rightarrow> plane" where
  "say c p = p\<lparr>pl_calls := pl_calls p @ [c]\<rparr>"

definition ask :: "(call list \<Rightarrow> go_error + 'a) \<Rightarrow> call \<Rightarrow> 'a act" where
  "ask reply c p = (reply (pl_calls p), say c p)"

definition do_call :: "environment \<Rightarrow> call \<Rightarrow> unit act" where
  "do_call e c = ask (\<lambda>h. case en_unit e h c of Some x \<Rightarrow> Inl x | None \<Rightarrow> Inr ()) c"

definition and_then :: "'a act \<Rightarrow> ('a \<Rightarrow> 'b act) \<Rightarrow> 'b act" where
  "and_then f g p = (case f p of (Inl x, q) \<Rightarrow> (Inl x, q) | (Inr v, q) \<Rightarrow> g v q)"

definition finished :: "'a \<Rightarrow> 'a act" where
  "finished v p = (Inr v, p)"

definition give_up :: "go_error \<Rightarrow> 'a act" where
  "give_up x p = (Inl x, p)"

text \<open>\<^verbatim>\<open>fmt.Errorf("...: %w", err)\<close> around the error of an action, and an action whose error is only logged.\<close>

definition wrapped :: "string \<Rightarrow> 'a act \<Rightarrow> 'a act" where
  "wrapped msg f p = (case f p of (Inl x, q) \<Rightarrow> (Inl (errorf msg x), q) | (Inr v, q) \<Rightarrow> (Inr v, q))"

definition logged :: "'a act \<Rightarrow> unit act" where
  "logged f p = (Inr (), snd (f p))"

definition update :: "(plane \<Rightarrow> plane) \<Rightarrow> unit act" where
  "update u p = (Inr (), u p)"

definition check_ctx :: "environment \<Rightarrow> unit act" where
  "check_ctx e p = (case en_ctx e (pl_calls p) of Some x \<Rightarrow> (Inl x, p) | None \<Rightarrow> (Inr (), p))"

definition skip :: "unit act" where "skip = finished ()"

section \<open>Services and the modem's data format\<close>

definition shouldAllocateWDA :: "plane_config \<Rightarrow> bool" where
  "shouldAllocateWDA c \<longleftrightarrow> TrimSpace (pc_NetInterface c) \<noteq> [] \<and> (pc_EnableIPv4 c \<or> pc_EnableIPv6 c)"

definition activeMuxIDs :: "plane \<Rightarrow> u8 list" where
  "activeMuxIDs p =
     remdups (filter (\<lambda>n. n > 0)
       (dp_DefaultMuxID (pl_snapshot p) # sp_DefaultMuxID (pl_declared p) # map (se_muxID \<circ> snd) (pl_sessions p)))"

text \<open>\<^verbatim>\<open>createWDSService\<close> and the like: the field is set when the service was created.\<close>

definition allocate :: "environment \<Rightarrow> string \<Rightarrow> call \<Rightarrow> (plane \<Rightarrow> plane) \<Rightarrow> unit act" where
  "allocate e what c set_field =
     and_then (check_ctx e) (\<lambda>_.
     and_then (wrapped (''failed to allocate '' @ what @ '' client'') (do_call e c)) (\<lambda>_. update set_field))"

definition ensureDataPlaneServicesLocked :: "plane_config \<Rightarrow> environment \<Rightarrow> unit act" where
  "ensureDataPlaneServicesLocked c e p =
     (if pc_Disabled c then (Inl (ErrServiceNotReady ''data-plane''), p)
      else
        and_then (\<lambda>p. if pc_EnableIPv4 c \<and> \<not> pl_wds p then allocate e ''WDS'' CreateWDS (pl_wds_update (\<lambda>_. True)) p else skip p) (\<lambda>_.
        and_then (\<lambda>p. if pc_EnableIPv6 c \<and> \<not> pl_wdsV6 p then allocate e ''IPv6 WDS'' CreateWDSv6 (pl_wdsV6_update (\<lambda>_. True)) p else skip p) (\<lambda>_ p.
          if shouldAllocateWDA c \<and> \<not> pl_wda p then
            and_then (allocate e ''WDA'' CreateWDA (pl_wda_update (\<lambda>_. True))) (\<lambda>_.
            and_then (\<lambda>p. logged (do_call e (ReconcileResidualMux (pc_NetInterface c) (activeMuxIDs p))) p) (\<lambda>_ p.
              case do_call e EnableRawIPHost p of
                (Inl x, q) \<Rightarrow> (case en_ctx e (pl_calls q) of
                     Some y \<Rightarrow> (Inl (errorf ''failed to enable RawIP mode'' y), q)
                   | None \<Rightarrow> (Inr (), q))
              | (Inr _, q) \<Rightarrow> (Inr (), q))) p
          else skip p)) p)"

definition dataFormatTargetForMux :: "u8 \<Rightarrow> DataFormat" where
  "dataFormatTargetForMux muxID =
     (let agg = (if muxID > 0 then 5 else 0) in
      \<lparr>df_LinkProtocol = 2, df_UlDataAggregation = agg, df_DlDataAggregation = agg, df_EndpointType = 0, df_InterfaceNumber = 0\<rparr>)"

definition dataFormatMatches :: "DataFormat \<Rightarrow> DataFormat \<Rightarrow> bool" where
  "dataFormatMatches current target \<longleftrightarrow>
     df_LinkProtocol current = df_LinkProtocol target \<and> df_UlDataAggregation current = df_UlDataAggregation target \<and>
     df_DlDataAggregation current = df_DlDataAggregation target"

definition modemDataFormatMatches :: "environment \<Rightarrow> DataFormat \<Rightarrow> bool act" where
  "modemDataFormatMatches e target p =
     (if \<not> pl_wda p then (Inl (ErrText ''WDA service not available''), p)
      else and_then (ask (en_format e) GetDataFormat) (\<lambda>current. finished (dataFormatMatches current target)) p)"

definition ensureModemDataFormat :: "environment \<Rightarrow> DataFormat \<Rightarrow> unit act" where
  "ensureModemDataFormat e target p =
     (if \<not> pl_wda p then (Inl (ErrText ''WDA service not available''), p)
      else case modemDataFormatMatches e target p of
        (Inr True, q) \<Rightarrow> (Inr (), q)
      | (_, q) \<Rightarrow> do_call e (SetDataFormat target) q)"

section \<open>Convergence\<close>

definition declaredDataPlaneSpec :: "plane_config \<Rightarrow> plane \<Rightarrow> DataPlaneSpec" where
  "declaredDataPlaneSpec c p = (if sp_Mode (pl_declared p) \<noteq> [] then pl_declared p else pc_DataPlane c)"

definition CurrentDataPlaneSnapshot :: "plane \<Rightarrow> DataPlaneSnapshot \<times> bool" where
  "CurrentDataPlaneSnapshot p = (pl_snapshot p, dp_Generation (pl_snapshot p) \<noteq> 0)"

definition hasActiveManagedPDN :: "plane \<Rightarrow> bool" where
  "hasActiveManagedPDN p \<longleftrightarrow> length (pl_sessions p) > 0"

definition next_generation :: "plane \<Rightarrow> u64" where
  "next_generation p = dp_Generation (pl_snapshot p) + 1"

definition convergeNativeLocked :: "environment \<Rightarrow> string \<Rightarrow> DataPlaneSnapshot act" where
  "convergeNativeLocked e master =
     and_then (wrapped ''qmi manager: ensure modem data format (native)'' (ensureModemDataFormat e (dataFormatTargetForMux 0))) (\<lambda>_ p.
       (Inr \<lparr>dp_Generation = next_generation p, dp_Mode = DataPlaneModeNative, dp_DefaultInterface = master, dp_DefaultMuxID = 0,
             dp_DegradedReason = []\<rparr>,
        p\<lparr>pl_masterIface := master, pl_muxIface := []\<rparr>))"

definition qmap_ready :: "string \<Rightarrow> string \<Rightarrow> u8 \<Rightarrow> DataPlaneSnapshot act" where
  "qmap_ready master iface mux p =
     (Inr \<lparr>dp_Generation = next_generation p, dp_Mode = DataPlaneModeQMAP, dp_DefaultInterface = iface, dp_DefaultMuxID = mux,
           dp_DegradedReason = []\<rparr>,
      p\<lparr>pl_masterInterface := master, pl_masterIface := master, pl_muxIface := iface\<rparr>)"

definition create_default_mux :: "environment \<Rightarrow> string \<Rightarrow> u8 \<Rightarrow> DataPlaneSnapshot act" where
  "create_default_mux e master mux =
     and_then (logged (do_call e (EnableRawIP master))) (\<lambda>_.
     and_then (wrapped ''qmi manager: create default data mux'' (ask (\<lambda>h. en_name e h (AddMux master mux)) (AddMux master mux)))
       (\<lambda>iface. qmap_ready master iface mux))"

definition convergeQMAPLocked :: "environment \<Rightarrow> DataPlaneSpec \<Rightarrow> string \<Rightarrow> DataPlaneSnapshot act" where
  "convergeQMAPLocked e spec originalMaster =
     and_then (wrapped ''qmi manager: ensure modem data format'' (ensureModemDataFormat e (dataFormatTargetForMux (sp_DefaultMuxID spec)))) (\<lambda>_ p.
       if pl_masterInterface p \<noteq> [] then create_default_mux e (pl_masterInterface p) (sp_DefaultMuxID spec) p
       else
         and_then (wrapped ''qmi manager: discover QMAP topology''
           (ask (\<lambda>h. en_topology e h originalMaster) (DiscoverTopology originalMaster))) (\<lambda>(master, muxes).
             case map_of muxes (sp_DefaultMuxID spec) of
               Some iface \<Rightarrow> if iface \<noteq> [] then qmap_ready master iface (sp_DefaultMuxID spec)
                             else create_default_mux e master (sp_DefaultMuxID spec)
             | None \<Rightarrow> create_default_mux e master (sp_DefaultMuxID spec)) p)"

definition publish :: "DataPlaneSnapshot \<Rightarrow> DataPlaneSnapshot act" where
  "publish snapshot p = (Inr snapshot, p\<lparr>pl_snapshot := snapshot\<rparr>)"

definition convergeDataPlaneLocked :: "plane_config \<Rightarrow> environment \<Rightarrow> DataPlaneSpec \<Rightarrow> DataPlaneSnapshot act" where
  "convergeDataPlaneLocked c e spec p0 =
     (if sp_Mode spec \<noteq> DataPlaneModeNative \<and> sp_Mode spec \<noteq> DataPlaneModeQMAP
      then (Inl (ErrText (''qmi manager: unsupported data-plane mode '' @ CHR 0x22 # sp_Mode spec @ [CHR 0x22])), p0)
      else if sp_Mode spec = DataPlaneModeQMAP \<and> sp_DefaultMuxID spec = 0
      then (Inl (ErrText ''qmi manager: QMAP requires a nonzero default mux ID''), p0)
      else
        let p = p0\<lparr>pl_declared := spec\<rparr>; snapshot = pl_snapshot p in
        if dp_Generation snapshot \<noteq> 0 \<and> dp_Mode snapshot = sp_Mode spec \<and> dp_DefaultMuxID snapshot = sp_DefaultMuxID spec
        then (Inr snapshot, p)
        else
          and_then (wrapped ''qmi manager: allocate data-plane services'' (ensureDataPlaneServicesLocked c e)) (\<lambda>_.
            if pc_NetInterface c = [] then give_up (ErrText ''qmi manager: missing data-plane interface'')
            else if sp_Mode spec = DataPlaneModeNative then and_then (convergeNativeLocked e (pc_NetInterface c)) publish
            else (\<lambda>p. case convergeQMAPLocked e spec (pc_NetInterface c) p of
                (Inr snapshot, q) \<Rightarrow> publish snapshot q
              | (Inl qmapErr, q) \<Rightarrow>
                 (case convergeNativeLocked e (pc_NetInterface c) q of
                    (Inl nativeErr, r) \<Rightarrow>
                      (Inl (errorf (''qmi manager: QMAP failed ('' @ err_text qmapErr @ ''), native fallback failed'') nativeErr), r)
                  | (Inr degraded, r) \<Rightarrow> publish (degraded\<lparr>dp_DegradedReason := err_text qmapErr\<rparr>) r))) p)"

definition redialIfDataPlaneGenerationChanged :: "DataPlaneSnapshot \<Rightarrow> plane \<Rightarrow> plane" where
  "redialIfDataPlaneGenerationChanged snapshot p =
     (if dp_Generation snapshot = 0 then p
      else if \<not> pl_connected p \<or> pl_connectedGeneration p = 0 \<or> pl_connectedGeneration p = dp_Generation snapshot then p
      else say EnqueueStart (say Disconnect (p\<lparr>pl_connected := False, pl_connectedGeneration := 0\<rparr>)))"

definition ConvergeDataPlane :: "plane_config \<Rightarrow> environment \<Rightarrow> DataPlaneSpec \<Rightarrow> DataPlaneSnapshot act" where
  "ConvergeDataPlane c e spec p =
     (case convergeDataPlaneLocked c e spec p of
        (Inl x, q) \<Rightarrow> (Inl x, q)
      | (Inr snapshot, q) \<Rightarrow> (Inr snapshot, redialIfDataPlaneGenerationChanged snapshot q))"

definition EnsureDataPlaneTopology :: "plane_config \<Rightarrow> environment \<Rightarrow> unit act" where
  "EnsureDataPlaneTopology c e p = and_then (ConvergeDataPlane c e (declaredDataPlaneSpec c p)) (\<lambda>_. finished ()) p"

definition recoverDeclaredDataPlaneAfterModemReset :: "plane_config \<Rightarrow> environment \<Rightarrow> unit act" where
  "recoverDeclaredDataPlaneAfterModemReset c e p =
     (if pc_Disabled c then (Inr (), p)
      else let spec = declaredDataPlaneSpec c p in
        if sp_Mode spec = [] then (Inr (), p)
        else and_then (wrapped ''qmi manager: recover declared data-plane topology'' (ConvergeDataPlane c e spec)) (\<lambda>_. finished ()) p)"

section \<open>Secondary PDNs\<close>

definition ErrPDNMuxConflict :: go_error where "ErrPDNMuxConflict = ErrText ''qmi manager: PDN mux conflict''"
definition ErrStalePDNSession :: go_error where "ErrStalePDNSession = ErrText ''qmi manager: stale PDN session''"
definition ErrManagerStopping :: go_error where "ErrManagerStopping = ErrText ''qmi manager: manager is stopping''"
definition ErrPDNTopologyNotReady :: go_error where
  "ErrPDNTopologyNotReady = ErrText ''qmi manager: QMAP topology is not ready''"
definition ErrPDNStart :: go_error where "ErrPDNStart = ErrText ''qmi manager: start PDN network''"

text \<open>The deferred clean-up of \<^verbatim>\<open>OpenPDN\<close> once the interface exists.\<close>

definition undo_open :: "environment \<Rightarrow> string \<Rightarrow> u8 \<Rightarrow> nat option \<Rightarrow> u32 option \<Rightarrow> plane \<Rightarrow> plane" where
  "undo_open e master mux wds handle p =
     (let p1 = (case (wds, handle) of (Some w, Some h) \<Rightarrow> say (StopCall w h) p | _ \<Rightarrow> p);
          p2 = (case wds of Some w \<Rightarrow> say (ReleaseWDS w) p1 | None \<Rightarrow> p1)
      in say (DeleteMux master mux) p2)"

definition failing :: "(plane \<Rightarrow> plane) \<Rightarrow> 'a act \<Rightarrow> 'a act" where
  "failing undo f p = (case f p of (Inl x, q) \<Rightarrow> (Inl x, undo q) | (Inr v, q) \<Rightarrow> (Inr v, q))"

text \<open>Starting the call of a leased service, and what follows it. An error of the modem is wrapped together with
  \<^const>\<open>ErrPDNStart\<close>; the model keeps the modem's.\<close>

definition after_start :: "environment \<Rightarrow> PDNRequest \<Rightarrow> string \<Rightarrow> nat \<Rightarrow> RuntimeSettings act" where
  "after_start e req iface w =
     and_then (wrapped ''qmi manager: read PDN settings'' (ask (\<lambda>h. en_settings e h (GetSettings w (pr_IPFamily req))) (GetSettings w (pr_IPFamily req)))) (\<lambda>settings.
       case settings of
         None \<Rightarrow> give_up (ErrText ''qmi manager: PDN settings are empty'')
       | Some st \<Rightarrow>
           and_then (if pr_UserspaceOnly req
                     then wrapped ''qmi manager: isolate userspace-only PDN interface'' (do_call e (PrepareUserspace iface)) else skip) (\<lambda>_.
           and_then (wrapped ''qmi manager: bring PDN interface up'' (do_call e (BringUp iface))) (\<lambda>_. finished st)))"

definition before_start :: "environment \<Rightarrow> PDNRequest \<Rightarrow> string \<Rightarrow> nat \<Rightarrow> u32 act" where
  "before_start e req master w =
     and_then (if pr_InterfaceID req = 0
               then wrapped (''qmi manager: discover data endpoint for '' @ master @ '' (set ims.volte.ep_if_id to override)'')
                      (ask (\<lambda>h. en_number e h (DiscoverEndpoint master)) (DiscoverEndpoint master))
               else finished (pr_InterfaceID req)) (\<lambda>endpointIfID.
     and_then (wrapped ''qmi manager: bind PDN mux'' (do_call e (Bind w
         \<lparr>mb_EpType = pr_EndpointType req, mb_EpIfID = endpointIfID, mb_MuxID = pr_MuxID req, mb_ClientType = pr_ClientType req\<rparr>))) (\<lambda>_.
     wrapped (err_text ErrPDNStart) (ask (\<lambda>h. en_number e h (Start w req)) (Start w req))))"

definition register_session :: "u64 \<Rightarrow> managedPDNSession \<Rightarrow> managedPDNSession act" where
  "register_session n s p = (Inr s, p\<lparr>pl_sessions := (n, s) # filter (\<lambda>(k, _). k \<noteq> n) (pl_sessions p)\<rparr>)"

definition open_on_mux :: "environment \<Rightarrow> PDNRequest \<Rightarrow> u64 \<Rightarrow> u64 \<Rightarrow> string \<Rightarrow> string \<Rightarrow> managedPDNSession act" where
  "open_on_mux e req n generation master iface p =
     (let w = length (pl_calls p); undo = undo_open e master (pr_MuxID req) in
      and_then (failing (undo None None) (wrapped ''qmi manager: lease PDN WDS'' (do_call e LeaseWDS))) (\<lambda>_.
      and_then (failing (undo (Some w) None) (before_start e req master w)) (\<lambda>handle.
      and_then (failing (undo (Some w) (Some handle)) (after_start e req iface w)) (\<lambda>settings.
        register_session n
          \<lparr>se_snapshot = \<lparr>ps_ID = n, ps_Generation = generation, ps_InterfaceName = iface, ps_Handle = handle, ps_Settings = settings\<rparr>,
           se_master = master, se_muxID = pr_MuxID req, se_wds = w\<rparr>))) p)"

definition OpenPDN :: "environment \<Rightarrow> PDNRequest \<Rightarrow> managedPDNSession act" where
  "OpenPDN e req p =
     (let topology = pl_snapshot p; mux = pr_MuxID req in
      if pl_stopping p then (Inl ErrManagerStopping, p)
      else if dp_Generation topology = 0 \<or> dp_Mode topology \<noteq> DataPlaneModeQMAP then (Inl ErrPDNTopologyNotReady, p)
      else if mux = 0 \<or> mux = dp_DefaultMuxID topology
      then (Inl (ErrWrap [] ErrPDNMuxConflict ('': mux ID '' @ decimal (unat mux))), p)
      else case find (\<lambda>(_, s). se_muxID s = mux) (pl_sessions p) of
        Some (_, s) \<Rightarrow> (Inl (ErrWrap [] ErrPDNMuxConflict ('': mux ID '' @ decimal (unat mux) @ '' is in use by PDN session ''
          @ decimal (unat (ps_ID (se_snapshot s))))), p)
      | None \<Rightarrow>
          if map_of (pl_reserved p) mux \<noteq> None
          then (Inl (ErrWrap [] ErrPDNMuxConflict ('': mux ID '' @ decimal (unat mux) @ '' is already reserved'')), p)
          else
            let n = pl_nextSessionID p + 1;
                p1 = p\<lparr>pl_nextSessionID := n, pl_reserved := (mux, n) # pl_reserved p\<rparr>;
                master = pl_masterInterface p;
                (r, q) =
                  (if \<not> pl_client p then (Inl (ErrText ''qmi manager: no shared QMI client for PDN''), p1)
                   else if master = [] then (Inl ErrPDNTopologyNotReady, p1)
                   else
                     and_then (wrapped ''qmi manager: bring physical master up'' (do_call e (BringUp master))) (\<lambda>_.
                     and_then (wrapped (''qmi manager: add PDN mux '' @ decimal (unat mux))
                         (ask (\<lambda>h. en_name e h (AddMux master mux)) (AddMux master mux))) (\<lambda>iface.
                       open_on_mux e req n (dp_Generation topology) master iface)) p1)
            in (r, q\<lparr>pl_reserved := filter (\<lambda>(k, _). k \<noteq> mux) (pl_reserved q)\<rparr>))"

text \<open>\<^verbatim>\<open>Close\<close> runs its body once per session: a first section decides whether the session still owns its interface,
  the operations run without the lock, and a last section removes the session.\<close>

definition owns :: "plane \<Rightarrow> managedPDNSession \<Rightarrow> bool" where
  "owns p s \<longleftrightarrow> map_of (pl_sessions p) (ps_ID (se_snapshot s)) = Some s \<and>
     dp_Generation (pl_snapshot p) = ps_Generation (se_snapshot s)"

definition close_calls :: "managedPDNSession \<Rightarrow> bool \<Rightarrow> call list" where
  "close_calls s owned =
     (let iface = ps_InterfaceName (se_snapshot s); h = ps_Handle (se_snapshot s) in
      (if h \<noteq> 0 then [StopCall (se_wds s) h] else []) @
      (if owned then [FlushRoutes iface, FlushAddresses iface, BringDown iface] else []) @
      [ReleaseWDS (se_wds s)] @
      (if owned then [DeleteMux (se_master s) (se_muxID s)] else []))"

fun run_all :: "environment \<Rightarrow> call list \<Rightarrow> plane \<Rightarrow> go_error list \<times> plane" where
  "run_all e [] p = ([], p)"
| "run_all e (c # cs) p =
     (case do_call e c p of (r, q) \<Rightarrow> case run_all e cs q of (errs, z) \<Rightarrow>
        (case r of Inl x \<Rightarrow> (x # errs, z) | Inr _ \<Rightarrow> (errs, z)))"

definition forget :: "managedPDNSession \<Rightarrow> plane \<Rightarrow> plane" where
  "forget s p =
     (let n = ps_ID (se_snapshot s) in
      if map_of (pl_sessions p) n = Some s then p\<lparr>pl_sessions := filter (\<lambda>(k, _). k \<noteq> n) (pl_sessions p)\<rparr> else p)"

definition finish_close :: "environment \<Rightarrow> managedPDNSession \<Rightarrow> bool \<Rightarrow> plane \<Rightarrow> go_error option \<times> plane" where
  "finish_close e s owned p =
     (case run_all e (close_calls s owned) p of (errs, q) \<Rightarrow>
        let all = errs @ (if owned then [] else [ErrStalePDNSession]) in
        (if all = [] then None else Some (ErrJoin all), forget s q))"

definition Close_session :: "environment \<Rightarrow> managedPDNSession \<Rightarrow> plane \<Rightarrow> go_error option \<times> plane" where
  "Close_session e s p = finish_close e s (owns p s) p"

definition closeManagedPDNSessions :: "environment \<Rightarrow> plane \<Rightarrow> plane" where
  "closeManagedPDNSessions e p = foldl (\<lambda>q s. snd (Close_session e s q)) p (map snd (pl_sessions p))"

text \<open>What \<^verbatim>\<open>cleanup\<close> does to the data plane after it has closed the sessions.\<close>

definition cleanup_plane :: "plane \<Rightarrow> plane" where
  "cleanup_plane p = p\<lparr>pl_snapshot := no_snapshot, pl_masterInterface := [], pl_wds := False, pl_wdsV6 := False, pl_wda := False,
     pl_client := False, pl_muxIface := [], pl_masterIface := []\<rparr>"

end
