(* ===== verification/Pdn.thy ===== *)
theory Pdn
  imports DataPlane
begin

text \<open>
  Secondary PDNs that are opened, closed and interleaved with convergence, as a transition system over the
  critical sections of \<^verbatim>\<open>pdn_session.go\<close>: while a session lives, nothing takes away its interface, its service or its
  call; the services and calls held are exactly those of the sessions that are not closed; an opening that fails
  leaves nothing behind; a degraded topology is published anew by every convergence.
\<close>

section \<open>Interleaved sessions\<close>

text \<open>Opening, closing and convergence in any order. Each session is closed by one goroutine at a time; between the
  first and the last section of a close anything may happen. The identifiers of sessions are not exhausted.\<close>

record pdn_world =
  pw_plane :: plane
  pw_opened :: "managedPDNSession list"
  pw_closing :: "(managedPDNSession \<times> bool) list"
  pw_closed :: "managedPDNSession list"

definition same_books :: "plane \<Rightarrow> plane \<Rightarrow> bool" where
  "same_books p q \<longleftrightarrow> pl_sessions q = pl_sessions p \<and> pl_nextSessionID q = pl_nextSessionID p \<and> pl_calls q = pl_calls p"

inductive pdn_step :: "environment \<Rightarrow> pdn_world \<Rightarrow> pdn_world \<Rightarrow> bool" for e where
  opened: "OpenPDN e req (pw_plane w) = (Inr s, q) \<Longrightarrow> pl_nextSessionID (pw_plane w) \<noteq> - 1 \<Longrightarrow>
    pdn_step e w (w\<lparr>pw_plane := q, pw_opened := s # pw_opened w\<rparr>)"
| refused: "OpenPDN e req (pw_plane w) = (Inl x, q) \<Longrightarrow> pl_nextSessionID (pw_plane w) \<noteq> - 1 \<Longrightarrow>
    pdn_step e w (w\<lparr>pw_plane := q\<rparr>)"
| converged: "ConvergeDataPlane c e spec (pw_plane w) = (r, q) \<Longrightarrow> pdn_step e w (w\<lparr>pw_plane := q\<rparr>)"
| begin_close: "s \<in> set (pw_opened w) \<Longrightarrow> s \<notin> fst ` set (pw_closing w) \<Longrightarrow> s \<notin> set (pw_closed w) \<Longrightarrow>
    pdn_step e w (w\<lparr>pw_closing := (s, owns (pw_plane w) s) # pw_closing w\<rparr>)"
| end_close: "(s, owned) \<in> set (pw_closing w) \<Longrightarrow> finish_close e s owned (pw_plane w) = (err, q) \<Longrightarrow>
    pdn_step e w (w\<lparr>pw_plane := q, pw_closing := filter (\<lambda>(t, _). t \<noteq> s) (pw_closing w), pw_closed := s # pw_closed w\<rparr>)"
| elsewhere: "same_books (pw_plane w) q \<Longrightarrow> pdn_step e w (w\<lparr>pw_plane := q\<rparr>)"

definition new_world :: "pdn_world \<Rightarrow> bool" where
  "new_world w \<longleftrightarrow> pl_sessions (pw_plane w) = [] \<and> pl_nextSessionID (pw_plane w) = 0 \<and> pl_calls (pw_plane w) = [] \<and>
     pw_opened w = [] \<and> pw_closing w = [] \<and> pw_closed w = []"

inductive pdn_reachable :: "environment \<Rightarrow> pdn_world \<Rightarrow> bool" for e where
  start: "new_world w \<Longrightarrow> pdn_reachable e w"
| step: "pdn_reachable e w \<Longrightarrow> pdn_step e w w' \<Longrightarrow> pdn_reachable e w'"

text \<open>A call that leaves the interface, the call and the service of a session alone.\<close>

definition spares :: "managedPDNSession \<Rightarrow> call \<Rightarrow> bool" where
  "spares s c =
     (case c of
        DeleteMux master mux \<Rightarrow> mux \<noteq> se_muxID s
      | ReleaseWDS w \<Rightarrow> w \<noteq> se_wds s
      | StopCall w h \<Rightarrow> w \<noteq> se_wds s
      | ReconcileResidualMux master keep \<Rightarrow> se_muxID s \<in> set keep
      | _ \<Rightarrow> True)"

definition intact :: "managedPDNSession \<Rightarrow> call list \<Rightarrow> bool" where
  "intact s cs = list_all (spares s) (drop (se_wds s) cs)"

subsection \<open>What the actions leave alone\<close>

definition quiet :: "(u64 \<times> managedPDNSession) list \<Rightarrow> (call \<Rightarrow> bool) \<Rightarrow> 'a act \<Rightarrow> bool" where
  "quiet S P f \<longleftrightarrow> (\<forall>p. pl_sessions p = S \<longrightarrow>
     pl_sessions (snd (f p)) = S \<and> pl_nextSessionID (snd (f p)) = pl_nextSessionID p \<and>
     (\<exists>seg. pl_calls (snd (f p)) = pl_calls p @ seg \<and> list_all P seg))"

lemma quietD:
  assumes "quiet S P f" "pl_sessions p = S" "f p = (r, q)"
  obtains seg where "pl_sessions q = S" "pl_nextSessionID q = pl_nextSessionID p" "pl_calls q = pl_calls p @ seg" "list_all P seg"
proof -
  have "pl_sessions q = S \<and> pl_nextSessionID q = pl_nextSessionID p \<and> (\<exists>seg. pl_calls q = pl_calls p @ seg \<and> list_all P seg)"
    using assms(1)[unfolded quiet_def, rule_format, OF assms(2)] assms(3) by simp
  then show thesis using that by blast
qed

lemma quiet_same: "(\<And>p. pl_sessions (snd (f p)) = pl_sessions p \<and> pl_nextSessionID (snd (f p)) = pl_nextSessionID p \<and>
    pl_calls (snd (f p)) = pl_calls p) \<Longrightarrow> quiet S P f"
  by (simp add: quiet_def)

lemma quiet_ask: "P c \<Longrightarrow> quiet S P (ask reply c)"
  by (simp add: quiet_def ask_def say_def)

lemma quiet_do_call: "P c \<Longrightarrow> quiet S P (do_call e c)"
  by (simp add: do_call_def quiet_ask)

lemma quiet_and_then:
  assumes "quiet S P f" "\<And>v. quiet S P (g v)"
  shows "quiet S P (and_then f g)"
  unfolding quiet_def
proof (intro allI impI)
  fix p :: plane assume p: "pl_sessions p = S"
  obtain r q where f: "f p = (r, q)" by force
  from quietD[OF assms(1) p f] obtain seg where q: "pl_sessions q = S" "pl_nextSessionID q = pl_nextSessionID p"
    "pl_calls q = pl_calls p @ seg" "list_all P seg" .
  show "pl_sessions (snd (and_then f g p)) = S \<and> pl_nextSessionID (snd (and_then f g p)) = pl_nextSessionID p \<and>
    (\<exists>seg. pl_calls (snd (and_then f g p)) = pl_calls p @ seg \<and> list_all P seg)"
  proof (cases r)
    case (Inl x)
    then show ?thesis using f q by (simp add: and_then_def)
  next
    case (Inr v)
    obtain r' z where g: "g v q = (r', z)" by force
    from quietD[OF assms(2) q(1) g] obtain seg' where "pl_sessions z = S" "pl_nextSessionID z = pl_nextSessionID q"
      "pl_calls z = pl_calls q @ seg'" "list_all P seg'" .
    then show ?thesis using f q Inr g by (auto simp: and_then_def)
  qed
qed

lemma quiet_wrapped: "quiet S P f \<Longrightarrow> quiet S P (wrapped m f)"
proof -
  have "snd (wrapped m f p) = snd (f p)" for p by (simp add: wrapped_def split: prod.split sum.split)
  then show "quiet S P f \<Longrightarrow> quiet S P (wrapped m f)" by (simp add: quiet_def)
qed

lemma quiet_logged: "quiet S P f \<Longrightarrow> quiet S P (logged f)"
  by (simp add: quiet_def logged_def)

lemma quiet_pure: "quiet S P (finished v)" "quiet S P (give_up x)" "quiet S P skip" "quiet S P (check_ctx e)"
  by (simp_all add: quiet_def finished_def give_up_def skip_def check_ctx_def split: option.split)

lemma quiet_if: "quiet S P f \<Longrightarrow> quiet S P g \<Longrightarrow> quiet S P (if b then f else g)"
  by simp

lemma quiet_choose: "quiet S P f \<Longrightarrow> quiet S P g \<Longrightarrow> quiet S P (\<lambda>p. if b p then f p else g p)"
  by (simp add: quiet_def)

lemma quiet_state: "(\<And>p. pl_sessions p = S \<Longrightarrow> quiet S P (f p)) \<Longrightarrow> quiet S P (\<lambda>p. f p p)"
  by (simp add: quiet_def)

lemmas quiet_rules = quiet_ask quiet_do_call quiet_and_then quiet_wrapped quiet_logged quiet_pure quiet_if quiet_choose

lemma quiet_case:
  assumes "quiet S P f" "\<And>x. quiet S P (g x)" "\<And>v. quiet S P (h v)"
  shows "quiet S P (\<lambda>p. case f p of (Inl x, q) \<Rightarrow> g x q | (Inr v, q) \<Rightarrow> h v q)"
  unfolding quiet_def
proof (intro allI impI)
  fix p :: plane assume p: "pl_sessions p = S"
  let ?k = "\<lambda>p. case f p of (Inl x, q) \<Rightarrow> g x q | (Inr v, q) \<Rightarrow> h v q"
  obtain r q where f: "f p = (r, q)" by force
  from quietD[OF assms(1) p f] obtain seg where q: "pl_sessions q = S" "pl_nextSessionID q = pl_nextSessionID p"
    "pl_calls q = pl_calls p @ seg" "list_all P seg" .
  obtain r' z where k: "?k p = (r', z)" by force
  have "\<exists>seg'. pl_sessions z = S \<and> pl_nextSessionID z = pl_nextSessionID q \<and> pl_calls z = pl_calls q @ seg' \<and> list_all P seg'"
  proof (cases r)
    case (Inl x)
    then have "g x q = (r', z)" using k f by simp
    from quietD[OF assms(2) q(1) this] show ?thesis by blast
  next
    case (Inr v)
    then have "h v q = (r', z)" using k f by simp
    from quietD[OF assms(3) q(1) this] show ?thesis by blast
  qed
  then obtain seg' where z: "pl_sessions z = S" "pl_nextSessionID z = pl_nextSessionID q" "pl_calls z = pl_calls q @ seg'"
    "list_all P seg'" by blast
  have "\<exists>seg''. pl_calls z = pl_calls p @ seg'' \<and> list_all P seg''"
    using q z by (intro exI[of _ "seg @ seg'"]) simp
  then show "pl_sessions (snd (?k p)) = S \<and> pl_nextSessionID (snd (?k p)) = pl_nextSessionID p \<and>
    (\<exists>seg. pl_calls (snd (?k p)) = pl_calls p @ seg \<and> list_all P seg)"
    using k q z by simp
qed

lemma quiet_update:
  assumes "\<And>p. pl_sessions (u p) = pl_sessions p" "\<And>p. pl_nextSessionID (u p) = pl_nextSessionID p" "\<And>p. pl_calls (u p) = pl_calls p"
  shows "quiet S P (update u)"
  using assms by (simp add: quiet_def update_def)

lemma quiet_first_update:
  assumes "quiet S P f" "\<And>p. pl_sessions (u p) = pl_sessions p" "\<And>p. pl_nextSessionID (u p) = pl_nextSessionID p"
    "\<And>p. pl_calls (u p) = pl_calls p"
  shows "quiet S P (\<lambda>p. f (u p))"
  unfolding quiet_def
proof (intro allI impI)
  fix p :: plane assume "pl_sessions p = S"
  then show "pl_sessions (snd (f (u p))) = S \<and> pl_nextSessionID (snd (f (u p))) = pl_nextSessionID p \<and>
    (\<exists>seg. pl_calls (snd (f (u p))) = pl_calls p @ seg \<and> list_all P seg)"
    using assms(1)[unfolded quiet_def, rule_format, of "u p"] assms(2-4) by simp
qed

text \<open>Calls that no session minds.\<close>

definition bland :: "call \<Rightarrow> bool" where
  "bland c = (case c of DeleteMux _ _ \<Rightarrow> False | ReleaseWDS _ \<Rightarrow> False | StopCall _ _ \<Rightarrow> False | ReconcileResidualMux _ _ \<Rightarrow> False
     | LeaseWDS \<Rightarrow> False | Start _ _ \<Rightarrow> False | _ \<Rightarrow> True)"

lemma bland_spares: "bland c \<Longrightarrow> spares s c"
  by (auto simp: bland_def spares_def split: call.splits)

definition guarded_call :: "(u64 \<times> managedPDNSession) list \<Rightarrow> call \<Rightarrow> bool" where
  "guarded_call S c \<longleftrightarrow> bland c \<or> (\<exists>m keep. c = ReconcileResidualMux m keep \<and> (\<forall>(k, s) \<in> set S. se_muxID s > 0 \<longrightarrow> se_muxID s \<in> set keep))"

lemma quiet_allocate: "quiet S P (allocate e what c u)" if "P c" "\<And>p. pl_sessions (u p) = pl_sessions p"
  "\<And>p. pl_nextSessionID (u p) = pl_nextSessionID p" "\<And>p. pl_calls (u p) = pl_calls p"
  unfolding allocate_def by (intro quiet_rules quiet_update that)

lemma keep_active: "pl_sessions p = S \<Longrightarrow> guarded_call S (ReconcileResidualMux m (activeMuxIDs p))"
  by (force simp: guarded_call_def activeMuxIDs_def)

lemma quiet_services: "quiet S (guarded_call S) (ensureDataPlaneServicesLocked c e)"
proof -
  have g: "guarded_call S CreateWDS" "guarded_call S CreateWDSv6" "guarded_call S CreateWDA" "guarded_call S EnableRawIPHost"
    by (simp_all add: guarded_call_def bland_def)
  have raw: "quiet S (guarded_call S) (\<lambda>p. case do_call e EnableRawIPHost p of
      (Inl x, q) \<Rightarrow> (case en_ctx e (pl_calls q) of Some y \<Rightarrow> (Inl (errorf ''failed to enable RawIP mode'' y), q) | None \<Rightarrow> (Inr (), q))
    | (Inr _, q) \<Rightarrow> (Inr (), q))"
    by (rule quiet_case, rule quiet_do_call, rule g) (simp_all add: quiet_def split: option.split)
  have reconcile: "quiet S (guarded_call S) (\<lambda>p. logged (do_call e (ReconcileResidualMux m (activeMuxIDs p))) p)" for m
    by (rule quiet_state) (intro quiet_logged quiet_do_call keep_active)
  show ?thesis
    unfolding ensureDataPlaneServicesLocked_def
    by (intro quiet_choose quiet_if quiet_and_then quiet_allocate g raw reconcile quiet_pure) (simp_all add: quiet_def)
qed

lemma quiet_format: "quiet S (guarded_call S) (ensureModemDataFormat e target)"
proof -
  have g: "guarded_call S GetDataFormat" "guarded_call S (SetDataFormat target)" by (simp_all add: guarded_call_def bland_def)
  have m: "quiet S (guarded_call S) (modemDataFormatMatches e target)"
    unfolding modemDataFormatMatches_def
    by (intro quiet_choose quiet_and_then quiet_ask g quiet_pure) (simp_all add: quiet_def)
  have "quiet S (guarded_call S) (\<lambda>p. case modemDataFormatMatches e target p of
      (Inl x, q) \<Rightarrow> do_call e (SetDataFormat target) q
    | (Inr b, q) \<Rightarrow> (if b then finished () else do_call e (SetDataFormat target)) q)"
    by (rule quiet_case[OF m]) (intro quiet_do_call g quiet_if quiet_pure)+
  moreover have "ensureModemDataFormat e target = (\<lambda>p. if \<not> pl_wda p then (Inl (ErrText ''WDA service not available''), p)
    else (case modemDataFormatMatches e target p of
      (Inl x, q) \<Rightarrow> do_call e (SetDataFormat target) q
    | (Inr b, q) \<Rightarrow> (if b then finished () else do_call e (SetDataFormat target)) q))"
    by (rule ext) (auto simp: ensureModemDataFormat_def finished_def split: prod.split sum.split bool.split)
  ultimately show ?thesis by (simp only:) (rule quiet_choose, simp_all add: quiet_def)
qed

lemma quiet_native: "quiet S (guarded_call S) (convergeNativeLocked e master)"
  unfolding convergeNativeLocked_def
  by (intro quiet_and_then quiet_wrapped quiet_format) (simp add: quiet_def)

lemma quiet_ready: "quiet S P (qmap_ready master iface mux)"
  by (simp add: quiet_def qmap_ready_def)

lemma quiet_publish: "quiet S P (publish snapshot)"
  by (simp add: quiet_def publish_def)

lemma quiet_default_mux: "quiet S (guarded_call S) (create_default_mux e master mux)"
  unfolding create_default_mux_def
  by (intro quiet_and_then quiet_logged quiet_do_call quiet_wrapped quiet_ask quiet_ready) (simp_all add: guarded_call_def bland_def)

lemma quiet_qmap: "quiet S (guarded_call S) (convergeQMAPLocked e spec master)"
proof -
  have t: "quiet S (guarded_call S) (ask reply (DiscoverTopology m))" for reply :: "call list \<Rightarrow> go_error + string \<times> (u8 \<times> string) list" and m
    by (rule quiet_ask) (simp add: guarded_call_def bland_def)
  have d: "quiet S (guarded_call S) (case z of (m, muxes) \<Rightarrow>
      (case map_of muxes (sp_DefaultMuxID spec) of
        Some iface \<Rightarrow> if iface \<noteq> [] then qmap_ready m iface (sp_DefaultMuxID spec) else create_default_mux e m (sp_DefaultMuxID spec)
      | None \<Rightarrow> create_default_mux e m (sp_DefaultMuxID spec)))" for z
    by (cases z) (auto intro: quiet_ready quiet_default_mux split: option.split)
  have k: "quiet S (guarded_call S) (\<lambda>p. create_default_mux e (pl_masterInterface p) (sp_DefaultMuxID spec) p)"
    by (rule quiet_state) (rule quiet_default_mux)
  show ?thesis
    unfolding convergeQMAPLocked_def
    by (intro quiet_and_then quiet_wrapped quiet_format quiet_choose k t d)
qed

lemma quiet_converge_locked: "quiet S (guarded_call S) (convergeDataPlaneLocked c e spec)"
proof -
  have native: "quiet S (guarded_call S) (\<lambda>q. case convergeNativeLocked e master q of
      (Inl x, r) \<Rightarrow> (Inl (errorf t x), r)
    | (Inr d, r) \<Rightarrow> publish (d\<lparr>dp_DegradedReason := u\<rparr>) r)" for master t u
    by (rule quiet_case[OF quiet_native], simp add: quiet_def) (rule quiet_publish)
  have qmap: "quiet S (guarded_call S) (\<lambda>p. case convergeQMAPLocked e spec m p of
      (Inl x, q) \<Rightarrow> (\<lambda>q. case convergeNativeLocked e m q of
          (Inl y, r) \<Rightarrow> (Inl (errorf (''qmi manager: QMAP failed ('' @ err_text x @ ''), native fallback failed'') y), r)
        | (Inr d, r) \<Rightarrow> publish (d\<lparr>dp_DegradedReason := err_text x\<rparr>) r) q
    | (Inr s, q) \<Rightarrow> publish s q)" for m
    by (rule quiet_case[OF quiet_qmap]) (simp_all only: native quiet_publish)
  have body: "quiet S (guarded_call S)
      (and_then (wrapped ''qmi manager: allocate data-plane services'' (ensureDataPlaneServicesLocked c e)) (\<lambda>_.
            if pc_NetInterface c = [] then give_up (ErrText ''qmi manager: missing data-plane interface'')
            else if sp_Mode spec = DataPlaneModeNative then and_then (convergeNativeLocked e (pc_NetInterface c)) publish
            else (\<lambda>p. case convergeQMAPLocked e spec (pc_NetInterface c) p of
                (Inr snapshot, q) \<Rightarrow> publish snapshot q
              | (Inl qmapErr, q) \<Rightarrow>
                 (case convergeNativeLocked e (pc_NetInterface c) q of
                    (Inl nativeErr, r) \<Rightarrow>
                      (Inl (errorf (''qmi manager: QMAP failed ('' @ err_text qmapErr @ ''), native fallback failed'') nativeErr), r)
                  | (Inr degraded, r) \<Rightarrow> publish (degraded\<lparr>dp_DegradedReason := err_text qmapErr\<rparr>) r))))"
    using qmap by (intro quiet_and_then quiet_wrapped quiet_services quiet_if quiet_pure quiet_native quiet_publish) simp
  show ?thesis
    unfolding convergeDataPlaneLocked_def Let_def
    by (intro quiet_choose quiet_if quiet_first_update[OF body]) (simp_all add: quiet_def)
qed

lemma quiet_converge: "quiet S (guarded_call S) (ConvergeDataPlane c e spec)"
proof -
  have redial: "quiet S (guarded_call S) (\<lambda>q. (Inr snapshot, redialIfDataPlaneGenerationChanged snapshot q))" for snapshot :: DataPlaneSnapshot
    by (simp add: quiet_def redialIfDataPlaneGenerationChanged_def say_def guarded_call_def bland_def)
  show ?thesis
    unfolding ConvergeDataPlane_def
    by (rule quiet_case[OF quiet_converge_locked], simp add: quiet_def) (rule redial)
qed

subsection \<open>What is held\<close>

text \<open>The interfaces, services and calls that the history has acquired and not given back. A request to give one back
  counts whatever its answer.\<close>

datatype resource = RMux string u8 | RWds nat | RCall nat u32

definition lose :: "call \<Rightarrow> resource set" where
  "lose c = (case c of DeleteMux m x \<Rightarrow> {RMux m x} | ReleaseWDS w \<Rightarrow> {RWds w} | StopCall w h \<Rightarrow> {RCall w h} | _ \<Rightarrow> {})"

definition gain :: "environment \<Rightarrow> call list \<Rightarrow> call \<Rightarrow> resource set" where
  "gain e h c =
     (case c of
        AddMux m x \<Rightarrow> (case en_name e h c of Inr _ \<Rightarrow> {RMux m x} | Inl _ \<Rightarrow> {})
      | LeaseWDS \<Rightarrow> (if en_unit e h c = None then {RWds (length h)} else {})
      | Start w _ \<Rightarrow> (case en_number e h c of Inr n \<Rightarrow> {RCall w n} | Inl _ \<Rightarrow> {})
      | _ \<Rightarrow> {})"

fun held_rev :: "environment \<Rightarrow> call list \<Rightarrow> resource set" where
  "held_rev e [] = {}"
| "held_rev e (c # h) = (held_rev e h - lose c) \<union> gain e (rev h) c"

definition held :: "environment \<Rightarrow> call list \<Rightarrow> resource set" where
  "held e cs = held_rev e (rev cs)"

lemma held_Nil [simp]: "held e [] = {}"
  by (simp add: held_def)

lemma held_snoc [simp]: "held e (h @ [c]) = (held e h - lose c) \<union> gain e h c"
  by (simp add: held_def)

lemma books_say [simp]: "pl_sessions (say c p) = pl_sessions p" "pl_nextSessionID (say c p) = pl_nextSessionID p"
  by (simp_all add: say_def)

lemma calls_say: "pl_calls (say c p) = pl_calls p @ [c]"
  by (simp add: say_def)

lemma held_say [simp]: "held e (pl_calls (say c p)) = (held e (pl_calls p) - lose c) \<union> gain e (pl_calls p) c"
  by (simp add: calls_say)

text \<open>What a call gives back of services and calls; a history frees only what it holds when every such request finds the service or the
  call held by the history before it. A second release of the same service, or a stop of a call that was stopped already, is
  then excluded, because what was lost is not held any more.\<close>

definition frees :: "call \<Rightarrow> resource set" where
  "frees c = (case c of ReleaseWDS w \<Rightarrow> {RWds w} | StopCall w h \<Rightarrow> {RCall w h} | _ \<Rightarrow> {})"

definition frees_held :: "environment \<Rightarrow> call list \<Rightarrow> bool" where
  "frees_held e cs \<longleftrightarrow> (\<forall>before c after. cs = before @ c # after \<longrightarrow> frees c \<subseteq> held e before)"

lemma frees_held_Nil [simp]: "frees_held e []"
  by (simp add: frees_held_def)

lemma frees_held_snoc [simp]: "frees_held e (h @ [c]) \<longleftrightarrow> frees_held e h \<and> frees c \<subseteq> held e h"
proof
  assume a: "frees_held e (h @ [c])"
  have "frees d \<subseteq> held e before" if "h = before @ d # after" for before d after
    using a that unfolding frees_held_def by (metis append.assoc append_Cons)
  moreover have "frees c \<subseteq> held e h" using a by (simp add: frees_held_def)
  ultimately show "frees_held e h \<and> frees c \<subseteq> held e h" by (simp add: frees_held_def)
next
  assume a: "frees_held e h \<and> frees c \<subseteq> held e h"
  have "frees d \<subseteq> held e before" if "h @ [c] = before @ d # after" for before d after
    using a that by (cases after rule: rev_cases) (auto simp: frees_held_def)
  then show "frees_held e (h @ [c])" by (simp add: frees_held_def)
qed

lemma frees_held_none: "list_all (\<lambda>c. frees c = {}) seg \<Longrightarrow> frees_held e (h @ seg) = frees_held e h"
proof (induction seg rule: rev_induct)
  case (snoc c seg)
  then have "frees_held e ((h @ seg) @ [c]) = frees_held e h" by (simp only: frees_held_snoc) simp
  then show ?case by simp
qed simp

lemma frees_held_say [simp]: "frees_held e (pl_calls (say c p)) \<longleftrightarrow> frees_held e (pl_calls p) \<and> frees c \<subseteq> held e (pl_calls p)"
  by (simp add: calls_say)

text \<open>Services and calls, without the interfaces.\<close>

definition used :: "environment \<Rightarrow> call list \<Rightarrow> resource set" where
  "used e cs = held e cs - range (\<lambda>(m, x). RMux m x)"

lemma used_bland: "bland c \<or> (\<exists>m k. c = ReconcileResidualMux m k) \<Longrightarrow> used e (h @ [c]) = used e h"
  by (auto simp: used_def held_snoc lose_def gain_def bland_def split: call.splits sum.splits)

lemma used_guarded: "list_all (guarded_call S) seg \<Longrightarrow> used e (h @ seg) = used e h"
proof (induction seg rule: rev_induct)
  case (snoc c seg)
  then have "used e ((h @ seg) @ [c]) = used e (h @ seg)" by (intro used_bland) (auto simp: guarded_call_def)
  then show ?case using snoc by simp
qed simp

subsection \<open>Opening\<close>

definition opening_call :: "call \<Rightarrow> bool" where
  "opening_call c \<longleftrightarrow> bland c \<or> c = LeaseWDS \<or> (\<exists>w r. c = Start w r)"

lemma opening_spares: "opening_call c \<Longrightarrow> spares s c"
  by (auto simp: opening_call_def spares_def bland_def split: call.splits)

lemma opening_frees: "list_all opening_call seg \<Longrightarrow> frees_held e (h @ seg) = frees_held e h"
proof (rule frees_held_none)
  assume "list_all opening_call seg"
  then show "list_all (\<lambda>c. frees c = {}) seg"
    by (rule list.pred_mono_strong) (auto simp: opening_call_def bland_def frees_def split: call.splits)
qed

lemma guarded_frees: "list_all (guarded_call S) seg \<Longrightarrow> frees_held e (h @ seg) = frees_held e h"
proof (rule frees_held_none)
  assume "list_all (guarded_call S) seg"
  then show "list_all (\<lambda>c. frees c = {}) seg"
    by (rule list.pred_mono_strong) (auto simp: guarded_call_def bland_def frees_def split: call.splits)
qed

text \<open>The effect of the parts of an opening on what is held.\<close>

lemma do_call_result: "do_call e c p = (r, q) \<Longrightarrow> q = say c p \<and> (r = Inr () \<longleftrightarrow> en_unit e (pl_calls p) c = None)"
  by (auto simp: do_call_def ask_def split: option.splits)

definition neutral :: "environment \<Rightarrow> 'a act \<Rightarrow> bool" where
  "neutral e f \<longleftrightarrow> (\<forall>p. held e (pl_calls (snd (f p))) = held e (pl_calls p))"

lemma neutral_ask: "(\<And>h. gain e h c = {}) \<Longrightarrow> lose c = {} \<Longrightarrow> neutral e (ask r c)"
  by (simp add: neutral_def ask_def)

lemma neutral_do: "(\<And>h. gain e h c = {}) \<Longrightarrow> lose c = {} \<Longrightarrow> neutral e (do_call e c)"
  by (simp add: do_call_def neutral_ask)

lemma neutral_and_then: "neutral e f \<Longrightarrow> (\<And>v. neutral e (g v)) \<Longrightarrow> neutral e (and_then f g)"
proof -
  assume f: "neutral e f" and g: "\<And>v. neutral e (g v)"
  have "held e (pl_calls (snd (and_then f g p))) = held e (pl_calls p)" for p
    using f[unfolded neutral_def, rule_format, of p] g[unfolded neutral_def, rule_format]
    by (auto simp: and_then_def split: prod.split sum.split)
  then show "neutral e (and_then f g)" by (simp add: neutral_def)
qed

lemma neutral_wrapped: "neutral e f \<Longrightarrow> neutral e (wrapped m f)"
proof -
  have "snd (wrapped m f p) = snd (f p)" for p by (simp add: wrapped_def split: prod.split sum.split)
  then show "neutral e f \<Longrightarrow> neutral e (wrapped m f)" by (simp add: neutral_def)
qed

lemma neutral_pure: "neutral e (finished v)" "neutral e (give_up x)" "neutral e skip"
  by (simp_all add: neutral_def finished_def give_up_def skip_def)

lemma neutral_after_start: "neutral e (after_start e req iface w)"
  unfolding after_start_def
  by (intro neutral_and_then neutral_wrapped neutral_ask)
    (auto simp: gain_def lose_def intro!: neutral_and_then neutral_wrapped neutral_do neutral_pure split: option.split)

lemma and_then_neutral_first:
  assumes "and_then f g p = (r, q)" "neutral e f"
  obtains x where "r = Inl x" "held e (pl_calls q) = held e (pl_calls p)"
  | v p' where "g v p' = (r, q)" "held e (pl_calls p') = held e (pl_calls p)"
  using assms(1) assms(2)[unfolded neutral_def, rule_format, of p]
  by (auto simp: and_then_def split: prod.splits sum.splits)

lemma start_held:
  assumes "wrapped m (ask (\<lambda>h. en_number e h (Start w req)) (Start w req)) p = (r, q)"
  shows "held e (pl_calls q) = (case r of Inr h \<Rightarrow> insert (RCall w h) (held e (pl_calls p)) | Inl _ \<Rightarrow> held e (pl_calls p))"
  using assms by (auto simp: wrapped_def ask_def gain_def lose_def split: sum.splits)

lemma before_start_held:
  assumes "before_start e req master w p = (r, q)"
  shows "held e (pl_calls q) = (case r of Inr h \<Rightarrow> insert (RCall w h) (held e (pl_calls p)) | Inl _ \<Rightarrow> held e (pl_calls p))"
  using assms unfolding before_start_def
proof (rule and_then_neutral_first)
  show "neutral e (if pr_InterfaceID req = 0
      then wrapped (''qmi manager: discover data endpoint for '' @ master @ '' (set ims.volte.ep_if_id to override)'')
        (ask (\<lambda>h. en_number e h (DiscoverEndpoint master)) (DiscoverEndpoint master))
      else finished (pr_InterfaceID req))"
    by (auto intro!: neutral_wrapped neutral_ask neutral_pure simp: gain_def lose_def)
next
  fix ep p' assume "and_then (wrapped ''qmi manager: bind PDN mux'' (do_call e (Bind w
         \<lparr>mb_EpType = pr_EndpointType req, mb_EpIfID = ep, mb_MuxID = pr_MuxID req, mb_ClientType = pr_ClientType req\<rparr>))) (\<lambda>_.
     wrapped (err_text ErrPDNStart) (ask (\<lambda>h. en_number e h (Start w req)) (Start w req))) p' = (r, q)"
    and h: "held e (pl_calls p') = held e (pl_calls p)"
  then show ?thesis
  proof (elim and_then_neutral_first)
    show "neutral e (wrapped ''qmi manager: bind PDN mux'' (do_call e (Bind w
         \<lparr>mb_EpType = pr_EndpointType req, mb_EpIfID = ep, mb_MuxID = pr_MuxID req, mb_ClientType = pr_ClientType req\<rparr>)))"
      by (auto intro!: neutral_wrapped neutral_do simp: gain_def lose_def)
  qed (use h in \<open>auto dest: start_held split: sum.splits\<close>)
qed auto

lemma opening_quiet: "quiet S opening_call (before_start e req master w)" "quiet S opening_call (after_start e req iface w)"
  "quiet S opening_call (do_call e LeaseWDS)"
proof -
  have b: "bland c \<Longrightarrow> opening_call c" for c by (simp add: opening_call_def)
  show "quiet S opening_call (do_call e LeaseWDS)" by (intro quiet_do_call) (simp add: opening_call_def)
  show "quiet S opening_call (before_start e req master w)"
    unfolding before_start_def
    by (intro quiet_and_then quiet_if quiet_wrapped quiet_ask quiet_do_call quiet_pure) (simp_all add: bland_def opening_call_def)
  have st: "quiet S opening_call (case settings of
      None \<Rightarrow> give_up (ErrText ''qmi manager: PDN settings are empty'')
    | Some st \<Rightarrow> and_then (if pr_UserspaceOnly req
          then wrapped ''qmi manager: isolate userspace-only PDN interface'' (do_call e (PrepareUserspace iface)) else skip) (\<lambda>_.
        and_then (wrapped ''qmi manager: bring PDN interface up'' (do_call e (BringUp iface))) (\<lambda>_. finished st)))" for settings
    by (cases settings)
      (auto intro!: quiet_and_then quiet_wrapped quiet_do_call quiet_pure simp: opening_call_def bland_def)
  show "quiet S opening_call (after_start e req iface w)"
    unfolding after_start_def by (intro quiet_and_then quiet_wrapped quiet_ask st b) (simp add: bland_def)
qed

text \<open>The calls of an opening that fails after the interface exists: the calls that open, then those that undo.\<close>

definition undoing :: "string \<Rightarrow> u8 \<Rightarrow> nat \<Rightarrow> call \<Rightarrow> bool" where
  "undoing master mux w c \<longleftrightarrow> opening_call c \<or> c = ReleaseWDS w \<or> c = DeleteMux master mux \<or> (\<exists>h. c = StopCall w h)"

lemma undo_open_facts:
  "pl_sessions (undo_open e m x wds h p) = pl_sessions p" "pl_nextSessionID (undo_open e m x wds h p) = pl_nextSessionID p"
  by (simp_all add: undo_open_def Let_def split: option.split)

lemma failing_cases:
  assumes "and_then (failing undo f) g p = (r, q)"
  obtains x p' where "f p = (Inl x, p')" "r = Inl x" "q = undo p'"
  | v p' where "f p = (Inr v, p')" "g v p' = (r, q)"
  using assms by (auto simp: and_then_def failing_def split: prod.splits sum.splits)

lemma open_on_mux_result:
  assumes run: "open_on_mux e req n g master iface p = (r, q)"
  shows "\<exists>seg. pl_calls q = pl_calls p @ seg \<and> seg \<noteq> [] \<and>
    (frees_held e (pl_calls p) \<longrightarrow> frees_held e (pl_calls q)) \<and>
    (case r of
       Inl x \<Rightarrow> list_all (undoing master (pr_MuxID req) (length (pl_calls p))) seg \<and> pl_sessions q = pl_sessions p \<and>
         pl_nextSessionID q = pl_nextSessionID p \<and>
         held e (pl_calls q) - {RMux master (pr_MuxID req)} \<subseteq> held e (pl_calls p) \<and> RMux master (pr_MuxID req) \<notin> held e (pl_calls q) \<and>
         held e (pl_calls p) - {RMux master (pr_MuxID req), RWds (length (pl_calls p))} - range (RCall (length (pl_calls p))) \<subseteq> held e (pl_calls q)
     | Inr s \<Rightarrow> list_all opening_call seg \<and> pl_sessions q = (n, s) # filter (\<lambda>(k, _). k \<noteq> n) (pl_sessions p) \<and>
         pl_nextSessionID q = pl_nextSessionID p \<and> se_wds s = length (pl_calls p) \<and> se_muxID s = pr_MuxID req \<and>
         se_master s = master \<and> ps_ID (se_snapshot s) = n \<and> ps_Generation (se_snapshot s) = g \<and>
         held e (pl_calls q) = held e (pl_calls p) \<union> {RWds (se_wds s), RCall (se_wds s) (ps_Handle (se_snapshot s))})"
  (is "\<exists>seg. ?goal seg")
proof -
  define w where "w = length (pl_calls p)"
  define mux where "mux = pr_MuxID req"
  have wrap: "snd (wrapped t f p) = snd (f p)" for t p and f :: "'z act"
    by (simp add: wrapped_def split: prod.split sum.split)
  let ?lease = "wrapped ''qmi manager: lease PDN WDS'' (do_call e LeaseWDS)"
  have q0: "quiet (pl_sessions p) opening_call ?lease" by (intro quiet_wrapped opening_quiet)
  from run have "and_then (failing (undo_open e master mux None None) ?lease) (\<lambda>_.
      and_then (failing (undo_open e master mux (Some w) None) (before_start e req master w)) (\<lambda>handle.
      and_then (failing (undo_open e master mux (Some w) (Some handle)) (after_start e req iface w)) (\<lambda>settings.
        register_session n
          \<lparr>se_snapshot = \<lparr>ps_ID = n, ps_Generation = g, ps_InterfaceName = iface, ps_Handle = handle, ps_Settings = settings\<rparr>,
           se_master = master, se_muxID = mux, se_wds = w\<rparr>))) p = (r, q)"
    by (simp add: open_on_mux_def w_def mux_def Let_def)
  then show ?thesis
  proof (cases rule: failing_cases)
    case (1 x p')
    then have p': "p' = say LeaseWDS p" "en_unit e (pl_calls p) LeaseWDS \<noteq> None"
      by (auto simp: wrapped_def do_call_def ask_def split: prod.splits sum.splits option.splits)
    have q: "pl_calls q = pl_calls p @ [LeaseWDS, DeleteMux master mux]" "pl_sessions q = pl_sessions p"
      "pl_nextSessionID q = pl_nextSessionID p"
      using 1(3) p'(1) by (simp_all add: undo_open_def calls_say)
    have hq: "held e (pl_calls q) = held e (pl_calls p) - {RMux master mux}"
      using 1(3) p' by (auto simp: undo_open_def gain_def lose_def)
    have fr: "frees_held e (pl_calls p) \<longrightarrow> frees_held e (pl_calls q)" using 1(3) p' by (simp add: undo_open_def frees_def)
    show ?thesis
      by (rule exI[of _ "[LeaseWDS, DeleteMux master mux]"])
        (use q(2,3) fr in \<open>auto simp: q(1)[symmetric] hq 1(2) undoing_def opening_call_def mux_def[symmetric]\<close>)
  next
    case (2 u p1)
    then have p1: "p1 = say LeaseWDS p" "en_unit e (pl_calls p) LeaseWDS = None"
      by (auto simp: wrapped_def do_call_def ask_def split: prod.splits sum.splits option.splits)
    have h1: "held e (pl_calls p1) = insert (RWds w) (held e (pl_calls p))" using p1 by (auto simp: gain_def lose_def w_def)
    have lease_frees: "frees_held e (pl_calls p1) = frees_held e (pl_calls p)" using p1 by (simp add: frees_def)
    have s1: "pl_sessions p1 = pl_sessions p" "pl_nextSessionID p1 = pl_nextSessionID p" "pl_calls p1 = pl_calls p @ [LeaseWDS]"
      using p1 by (simp_all add: calls_say)
    from 2(2) show ?thesis
    proof (cases rule: failing_cases)
      case (1 x p2)
      from quietD[OF opening_quiet(1) s1(1) 1(1)] obtain seg where s2: "pl_sessions p2 = pl_sessions p"
        "pl_nextSessionID p2 = pl_nextSessionID p1" "pl_calls p2 = pl_calls p1 @ seg" "list_all opening_call seg" .
      have h2: "held e (pl_calls p2) = insert (RWds w) (held e (pl_calls p))" using before_start_held[OF 1(1)] h1 by simp
      have q: "pl_calls q = pl_calls p @ LeaseWDS # seg @ [ReleaseWDS w, DeleteMux master mux]" "pl_sessions q = pl_sessions p"
        "pl_nextSessionID q = pl_nextSessionID p"
        using 1(3) s1 s2 by (simp_all add: undo_open_def calls_say)
      have hq: "held e (pl_calls q) = held e (pl_calls p) - {RWds w} - {RMux master mux}"
        using 1(3) h2 by (auto simp: undo_open_def gain_def lose_def)
      have fr: "frees_held e (pl_calls p) \<longrightarrow> frees_held e (pl_calls q)"
        using 1(3) h2 lease_frees opening_frees[OF s2(4), of e "pl_calls p1"] s2(3) by (simp add: undo_open_def frees_def)
      show ?thesis
        by (rule exI[of _ "LeaseWDS # seg @ [ReleaseWDS w, DeleteMux master mux]"])
          (use q(2,3) s2(4) fr in \<open>auto simp: q(1)[symmetric] hq 1(2) undoing_def opening_call_def mux_def[symmetric] w_def[symmetric] list_all_iff\<close>)
    next
      case (2 handle p2)
      from quietD[OF opening_quiet(1) s1(1) 2(1)] obtain seg where s2: "pl_sessions p2 = pl_sessions p"
        "pl_nextSessionID p2 = pl_nextSessionID p1" "pl_calls p2 = pl_calls p1 @ seg" "list_all opening_call seg" .
      have h2: "held e (pl_calls p2) = insert (RCall w handle) (insert (RWds w) (held e (pl_calls p)))"
        using before_start_held[OF 2(1)] h1 by simp
      from 2(2) show ?thesis
      proof (cases rule: failing_cases)
        case (1 x p3)
        from quietD[OF opening_quiet(2) s2(1) 1(1)] obtain seg' where s3: "pl_sessions p3 = pl_sessions p"
          "pl_nextSessionID p3 = pl_nextSessionID p2" "pl_calls p3 = pl_calls p2 @ seg'" "list_all opening_call seg'" .
        have h3: "held e (pl_calls p3) = insert (RCall w handle) (insert (RWds w) (held e (pl_calls p)))"
          using neutral_after_start[unfolded neutral_def, rule_format, of e req iface w p2] 1(1) h2 by simp
        have q: "pl_calls q = pl_calls p @ LeaseWDS # seg @ seg' @ [StopCall w handle, ReleaseWDS w, DeleteMux master mux]"
          "pl_sessions q = pl_sessions p" "pl_nextSessionID q = pl_nextSessionID p"
          using 1(3) s1 s2 s3 by (simp_all add: undo_open_def calls_say)
        have hq: "held e (pl_calls q) = held e (pl_calls p) - {RCall w handle} - {RWds w} - {RMux master mux}"
          using 1(3) h3 by (auto simp: undo_open_def gain_def lose_def)
        have fr: "frees_held e (pl_calls p) \<longrightarrow> frees_held e (pl_calls q)"
          using 1(3) h3 lease_frees opening_frees[OF s2(4), of e "pl_calls p1"] s2(3)
            opening_frees[OF s3(4), of e "pl_calls p2"] s3(3)
          by (simp add: undo_open_def frees_def lose_def gain_def)
        show ?thesis
          by (rule exI[of _ "LeaseWDS # seg @ seg' @ [StopCall w handle, ReleaseWDS w, DeleteMux master mux]"])
            (use q(2,3) s2(4) s3(4) fr in \<open>auto simp: q(1)[symmetric] hq 1(2) undoing_def opening_call_def mux_def[symmetric] w_def[symmetric] list_all_iff\<close>)
      next
        case (2 settings p3)
        from quietD[OF opening_quiet(2) s2(1) 2(1)] obtain seg' where s3: "pl_sessions p3 = pl_sessions p"
          "pl_nextSessionID p3 = pl_nextSessionID p2" "pl_calls p3 = pl_calls p2 @ seg'" "list_all opening_call seg'" .
        have h3: "held e (pl_calls p3) = insert (RCall w handle) (insert (RWds w) (held e (pl_calls p)))"
          using neutral_after_start[unfolded neutral_def, rule_format, of e req iface w p2] 2(1) h2 by simp
        have q3: "pl_calls q = pl_calls p3" "pl_nextSessionID q = pl_nextSessionID p3"
          using 2(2) by (auto simp: register_session_def)
        have q: "pl_calls q = pl_calls p @ LeaseWDS # seg @ seg'" "pl_nextSessionID q = pl_nextSessionID p"
          using q3 s1 s2 s3 by simp_all
        have hq: "held e (pl_calls q) = insert (RCall w handle) (insert (RWds w) (held e (pl_calls p)))"
          using q3(1) h3 by simp
        define s where "s = \<lparr>se_snapshot = \<lparr>ps_ID = n, ps_Generation = g, ps_InterfaceName = iface, ps_Handle = handle, ps_Settings = settings\<rparr>,
           se_master = master, se_muxID = mux, se_wds = w\<rparr>"
        have r: "r = Inr s" "pl_sessions q = (n, s) # filter (\<lambda>(k, _). k \<noteq> n) (pl_sessions p)"
          using 2(2) s3(1) by (auto simp: register_session_def s_def)
        have s: "se_wds s = w" "se_muxID s = mux" "se_master s = master" "ps_ID (se_snapshot s) = n" "ps_Generation (se_snapshot s) = g"
          "ps_Handle (se_snapshot s) = handle" by (simp_all add: s_def)
        have op: "list_all opening_call (LeaseWDS # seg @ seg')" using s2(4) s3(4) by (simp add: opening_call_def)
        have fr: "frees_held e (pl_calls q) = frees_held e (pl_calls p)"
          unfolding q(1) by (rule opening_frees[OF op])
        show ?thesis
          by (rule exI[of _ "LeaseWDS # seg @ seg'"])
            (simp add: q(1)[symmetric] fr hq q(2) op[simplified] r s mux_def[symmetric] w_def[symmetric] insert_commute)
      qed
    qed
  qed
qed

definition open_body :: "environment \<Rightarrow> PDNRequest \<Rightarrow> u64 \<Rightarrow> u64 \<Rightarrow> string \<Rightarrow> managedPDNSession act" where
  "open_body e req n g master =
     and_then (wrapped ''qmi manager: bring physical master up'' (do_call e (BringUp master))) (\<lambda>_.
     and_then (wrapped (''qmi manager: add PDN mux '' @ decimal (unat (pr_MuxID req)))
         (ask (\<lambda>h. en_name e h (AddMux master (pr_MuxID req))) (AddMux master (pr_MuxID req)))) (\<lambda>iface.
       open_on_mux e req n g master iface))"

lemma OpenPDN_cases:
  assumes "OpenPDN e req p = (r, q)"
  obtains x where "r = Inl x" "q = p"
  | x where "r = Inl x" "pl_calls q = pl_calls p" "pl_sessions q = pl_sessions p" "pl_nextSessionID q = pl_nextSessionID p + 1"
  | p1 q1 where "open_body e req (pl_nextSessionID p + 1) (dp_Generation (pl_snapshot p)) (pl_masterInterface p) p1 = (r, q1)"
      "pl_calls p1 = pl_calls p" "pl_sessions p1 = pl_sessions p" "pl_nextSessionID p1 = pl_nextSessionID p + 1"
      "pl_calls q = pl_calls q1" "pl_sessions q = pl_sessions q1" "pl_nextSessionID q = pl_nextSessionID q1"
      "pr_MuxID req \<noteq> 0" "\<forall>(k, s) \<in> set (pl_sessions p). se_muxID s \<noteq> pr_MuxID req"
proof -
  define n where "n = pl_nextSessionID p + 1"
  define p1 where "p1 = p\<lparr>pl_nextSessionID := n, pl_reserved := (pr_MuxID req, n) # pl_reserved p\<rparr>"
  define body where "body =
    (if \<not> pl_client p then (Inl (ErrText ''qmi manager: no shared QMI client for PDN''), p1)
     else if pl_masterInterface p = [] then (Inl ErrPDNTopologyNotReady, p1)
     else open_body e req n (dp_Generation (pl_snapshot p)) (pl_masterInterface p) p1)"
  obtain r1 q1 where b: "body = (r1, q1)" by force
  consider (early) x where "r = Inl x" "q = p"
    | (late) "r = r1" "q = q1\<lparr>pl_reserved := filter (\<lambda>(k, _). k \<noteq> pr_MuxID req) (pl_reserved q1)\<rparr>"
      "pr_MuxID req \<noteq> 0" "find (\<lambda>(_, s). se_muxID s = pr_MuxID req) (pl_sessions p) = None"
    using assms b unfolding OpenPDN_def open_body_def[symmetric] n_def[symmetric] Let_def p1_def[symmetric] body_def[symmetric]
    by (auto split: if_splits option.splits prod.splits)
  then show thesis
  proof cases
    case early
    then show ?thesis by (rule that(1))
  next
    case late
    have free: "\<forall>(k, s) \<in> set (pl_sessions p). se_muxID s \<noteq> pr_MuxID req" using late(4) by (auto simp: find_None_iff)
    show ?thesis
    proof (cases "\<not> pl_client p \<or> pl_masterInterface p = []")
      case True
      then obtain x where "r1 = Inl x" "q1 = p1" using b by (auto simp: body_def split: if_splits)
      then show ?thesis using late by (intro that(2)[of x]) (auto simp: p1_def n_def)
    next
      case False
      then have "open_body e req (pl_nextSessionID p + 1) (dp_Generation (pl_snapshot p)) (pl_masterInterface p) p1 = (r, q1)"
        using b late(1) by (simp add: body_def n_def)
      then show ?thesis by (rule that(3)) (use late free in \<open>auto simp: p1_def n_def\<close>)
    qed
  qed
qed

lemma open_body_result:
  assumes run: "open_body e req n g master p = (r, q)"
  shows "\<exists>seg w. pl_calls q = pl_calls p @ seg \<and> length (pl_calls p) \<le> w \<and>
    (frees_held e (pl_calls p) \<longrightarrow> frees_held e (pl_calls q)) \<and>
    (case r of
       Inl x \<Rightarrow> list_all (undoing master (pr_MuxID req) w) seg \<and> pl_sessions q = pl_sessions p \<and>
         pl_nextSessionID q = pl_nextSessionID p \<and> held e (pl_calls q) \<subseteq> held e (pl_calls p) \<and>
         held e (pl_calls p) - {RMux master (pr_MuxID req), RWds w} - range (RCall w) \<subseteq> held e (pl_calls q)
     | Inr s \<Rightarrow> list_all opening_call seg \<and> pl_sessions q = (n, s) # filter (\<lambda>(k, _). k \<noteq> n) (pl_sessions p) \<and>
         pl_nextSessionID q = pl_nextSessionID p \<and> se_wds s = w \<and> w < length (pl_calls q) \<and> se_muxID s = pr_MuxID req \<and>
         se_master s = master \<and> ps_ID (se_snapshot s) = n \<and> ps_Generation (se_snapshot s) = g \<and>
         held e (pl_calls q) = held e (pl_calls p) \<union>
           {RMux master (pr_MuxID req), RWds w, RCall w (ps_Handle (se_snapshot s))})"
proof -
  define mux where "mux = pr_MuxID req"
  let ?up = "wrapped ''qmi manager: bring physical master up'' (do_call e (BringUp master))"
  let ?add = "wrapped (''qmi manager: add PDN mux '' @ decimal (unat mux)) (ask (\<lambda>h. en_name e h (AddMux master mux)) (AddMux master mux))"
  define p1 where "p1 = say (BringUp master) p"
  define p2 where "p2 = say (AddMux master mux) p1"
  have up: "snd (?up p) = p1" by (simp add: wrapped_def do_call_def ask_def p1_def split: prod.split sum.split option.split)
  have h1: "held e (pl_calls p1) = held e (pl_calls p)" by (simp add: p1_def gain_def lose_def)
  have fr: "frees_held e (pl_calls p1) = frees_held e (pl_calls p)" "frees_held e (pl_calls p2) = frees_held e (pl_calls p)"
    by (simp_all add: p1_def p2_def frees_def)
  have c2: "pl_calls p2 = pl_calls p @ [BringUp master, AddMux master mux]" "pl_sessions p2 = pl_sessions p"
    "pl_nextSessionID p2 = pl_nextSessionID p" by (simp_all add: p1_def p2_def calls_say)
  have add: "?add p1 = (Inl y, z) \<Longrightarrow> z = p2 \<and> held e (pl_calls p2) = held e (pl_calls p)"
    "?add p1 = (Inr iface, z) \<Longrightarrow> z = p2 \<and> held e (pl_calls p2) = insert (RMux master mux) (held e (pl_calls p))" for y iface z
    using h1 by (auto simp: wrapped_def ask_def p2_def gain_def lose_def split: sum.splits)
  consider (up_failed) x where "r = Inl x" "q = p1" | (add_failed) x where "r = Inl x" "q = p2" "held e (pl_calls p2) = held e (pl_calls p)"
    | (added) iface where "open_on_mux e req n g master iface p2 = (r, q)"
        "held e (pl_calls p2) = insert (RMux master mux) (held e (pl_calls p))"
    using run up add unfolding open_body_def and_then_def mux_def[symmetric]
    by (auto split: prod.splits sum.splits)
  then show ?thesis
  proof cases
    case up_failed
    then show ?thesis
      by (intro exI[of _ "[BringUp master]"] exI[of _ "length (pl_calls p)"])
        (auto simp: h1 p1_def calls_say[of _ p] fr(1)[unfolded p1_def calls_say] undoing_def opening_call_def bland_def gain_def lose_def frees_def)
  next
    case add_failed
    then show ?thesis
      by (intro exI[of _ "[BringUp master, AddMux master mux]"] exI[of _ "length (pl_calls p)"])
        (auto simp: c2(1)[symmetric] c2(2,3) fr(2) undoing_def opening_call_def bland_def)
  next
    case added
    from open_on_mux_result[OF added(1)] obtain seg where seg: "pl_calls q = pl_calls p2 @ seg" "seg \<noteq> []"
      "frees_held e (pl_calls p2) \<longrightarrow> frees_held e (pl_calls q)" and
      res: "case r of
       Inl x \<Rightarrow> list_all (undoing master mux (length (pl_calls p2))) seg \<and> pl_sessions q = pl_sessions p2 \<and>
         pl_nextSessionID q = pl_nextSessionID p2 \<and>
         held e (pl_calls q) - {RMux master mux} \<subseteq> held e (pl_calls p2) \<and> RMux master mux \<notin> held e (pl_calls q) \<and>
         held e (pl_calls p2) - {RMux master mux, RWds (length (pl_calls p2))} - range (RCall (length (pl_calls p2))) \<subseteq> held e (pl_calls q)
     | Inr s \<Rightarrow> list_all opening_call seg \<and> pl_sessions q = (n, s) # filter (\<lambda>(k, _). k \<noteq> n) (pl_sessions p2) \<and>
         pl_nextSessionID q = pl_nextSessionID p2 \<and> se_wds s = length (pl_calls p2) \<and> se_muxID s = mux \<and>
         se_master s = master \<and> ps_ID (se_snapshot s) = n \<and> ps_Generation (se_snapshot s) = g \<and>
         held e (pl_calls q) = held e (pl_calls p2) \<union> {RWds (se_wds s), RCall (se_wds s) (ps_Handle (se_snapshot s))}"
      unfolding mux_def by blast
    define k where "k = length (pl_calls p2)"
    have k: "length (pl_calls p) \<le> k" by (simp add: k_def c2(1))
    have cq: "pl_calls q = pl_calls p @ (BringUp master # AddMux master mux # seg)" using seg(1) c2(1) by simp
    have lq: "k < length (pl_calls q)" using seg by (simp add: k_def)
    have op: "opening_call (BringUp master)" "opening_call (AddMux master mux)" by (simp_all add: opening_call_def bland_def)
    then have un: "undoing master mux k (BringUp master)" "undoing master mux k (AddMux master mux)" by (simp_all add: undoing_def)
    show ?thesis
      by (rule exI[of _ "BringUp master # AddMux master mux # seg"], rule exI[of _ k])
        (use res cq[symmetric] k lq op un seg(3) fr(2) in \<open>cases r; force simp: added(2) c2(2,3) mux_def[symmetric] k_def[symmetric]\<close>)
  qed
qed

subsection \<open>The invariant of sessions\<close>

text \<open>Books: the map of sessions against the sessions that were opened, are being closed, and are closed.\<close>

definition books_ok :: "pdn_world \<Rightarrow> bool" where
  "books_ok w \<longleftrightarrow>
     (\<forall>(k, s) \<in> set (pl_sessions (pw_plane w)). k = ps_ID (se_snapshot s) \<and> se_muxID s \<noteq> 0 \<and> s \<in> set (pw_opened w) \<and> s \<notin> set (pw_closed w)) \<and>
     distinct (map fst (pl_sessions (pw_plane w))) \<and>
     inj_on se_muxID (snd ` set (pl_sessions (pw_plane w))) \<and>
     (\<forall>s \<in> set (pw_opened w). se_wds s < length (pl_calls (pw_plane w)) \<and>
        unat (ps_ID (se_snapshot s)) \<le> unat (pl_nextSessionID (pw_plane w))) \<and>
     inj_on se_wds (set (pw_opened w)) \<and> inj_on (\<lambda>s. ps_ID (se_snapshot s)) (set (pw_opened w)) \<and>
     (\<forall>(s, owned) \<in> set (pw_closing w). s \<in> set (pw_opened w) \<and> s \<notin> set (pw_closed w) \<and>
        (owned \<longrightarrow> (ps_ID (se_snapshot s), s) \<in> set (pl_sessions (pw_plane w)))) \<and>
     set (pw_closed w) \<subseteq> set (pw_opened w)"

definition live :: "pdn_world \<Rightarrow> managedPDNSession \<Rightarrow> bool" where
  "live w s \<longleftrightarrow> s \<in> snd ` set (pl_sessions (pw_plane w)) \<and> s \<notin> fst ` set (pw_closing w)"

definition live_intact :: "pdn_world \<Rightarrow> bool" where
  "live_intact w \<longleftrightarrow> (\<forall>s. live w s \<longrightarrow> intact s (pl_calls (pw_plane w)))"

definition exactly_held :: "environment \<Rightarrow> pdn_world \<Rightarrow> bool" where
  "exactly_held e w \<longleftrightarrow>
     (\<forall>n. RWds n \<in> held e (pl_calls (pw_plane w)) \<longleftrightarrow> (\<exists>s \<in> set (pw_opened w) - set (pw_closed w). se_wds s = n)) \<and>
     (\<forall>n h. h \<noteq> 0 \<longrightarrow> (RCall n h \<in> held e (pl_calls (pw_plane w)) \<longleftrightarrow>
        (\<exists>s \<in> set (pw_opened w) - set (pw_closed w). se_wds s = n \<and> ps_Handle (se_snapshot s) = h))) \<and>
     frees_held e (pl_calls (pw_plane w))"

lemma intact_append:
  assumes "intact s cs" "se_wds s \<le> length cs" "\<forall>c \<in> set seg. spares s c"
  shows "intact s (cs @ seg)"
  using assms unfolding intact_def list_all_iff by auto

lemma intact_fresh:
  assumes "length cs \<le> se_wds s" "list_all opening_call seg"
  shows "intact s (cs @ seg)"
  using assms opening_spares by (auto simp: intact_def list_all_iff dest: in_set_dropD)

text \<open>A stretch of calls that neither opens nor closes a session for good.\<close>

lemma books_same:
  assumes "books_ok w" "pl_sessions q = pl_sessions (pw_plane w)" "length (pl_calls (pw_plane w)) \<le> length (pl_calls q)"
    "unat (pl_nextSessionID (pw_plane w)) \<le> unat (pl_nextSessionID q)"
  shows "books_ok (w\<lparr>pw_plane := q\<rparr>)"
  using assms unfolding books_ok_def by (auto intro: less_le_trans le_trans)

lemma next_id: "n \<noteq> - 1 \<Longrightarrow> unat (n + 1) = Suc (unat n)" for n :: u64
  using unatSuc[of n] by (simp add: add.commute eq_neg_iff_add_eq_0)

lemma live_wds:
  assumes "books_ok w" "live w s"
  shows "se_wds s < length (pl_calls (pw_plane w))" "se_muxID s \<noteq> 0" "s \<in> set (pw_opened w)" "s \<notin> set (pw_closed w)"
    "(ps_ID (se_snapshot s), s) \<in> set (pl_sessions (pw_plane w))"
  using assms unfolding books_ok_def live_def by fastforce+

subsubsection \<open>Convergence and what happens elsewhere\<close>

lemma converged_keeps:
  assumes inv: "books_ok w" "live_intact w" "exactly_held e w"
    and run: "ConvergeDataPlane c e spec (pw_plane w) = (r, q)"
  shows "books_ok (w\<lparr>pw_plane := q\<rparr>) \<and> live_intact (w\<lparr>pw_plane := q\<rparr>) \<and> exactly_held e (w\<lparr>pw_plane := q\<rparr>)"
proof -
  from quietD[OF quiet_converge refl run] obtain seg where q: "pl_sessions q = pl_sessions (pw_plane w)"
    "pl_nextSessionID q = pl_nextSessionID (pw_plane w)" "pl_calls q = pl_calls (pw_plane w) @ seg"
    "list_all (guarded_call (pl_sessions (pw_plane w))) seg" .
  have used: "used e (pl_calls q) = used e (pl_calls (pw_plane w))" unfolding q(3) by (rule used_guarded[OF q(4)])
  have wds: "RWds n \<in> held e (pl_calls q) \<longleftrightarrow> RWds n \<in> held e (pl_calls (pw_plane w))"
    and rcall: "RCall n h \<in> held e (pl_calls q) \<longleftrightarrow> RCall n h \<in> held e (pl_calls (pw_plane w))" for n h
    using used unfolding used_def set_eq_iff by (auto dest: spec[of _ "RWds n"] spec[of _ "RCall n h"])
  have "intact s (pl_calls q)" if s: "live (w\<lparr>pw_plane := q\<rparr>) s" for s
  proof -
    have l: "live w s" using s q(1) by (simp add: live_def)
    have "spares s c" if "c \<in> set seg" for c
    proof -
      have g: "guarded_call (pl_sessions (pw_plane w)) c" using q(4) that by (simp add: list_all_iff)
      have "0 < se_muxID s" using live_wds(2)[OF inv(1) l] by (simp add: word_gt_0)
      then show ?thesis
        using g live_wds(5)[OF inv(1) l] bland_spares by (fastforce simp: guarded_call_def spares_def)
    qed
    then show ?thesis
      using inv(2) l live_wds(1)[OF inv(1) l] unfolding q(3) live_intact_def by (intro intact_append) auto
  qed
  moreover have "books_ok (w\<lparr>pw_plane := q\<rparr>)" by (rule books_same[OF inv(1)]) (simp_all add: q(1,2) q(3))
  moreover have "frees_held e (pl_calls q) = frees_held e (pl_calls (pw_plane w))"
    unfolding q(3) by (rule guarded_frees[OF q(4)])
  ultimately show ?thesis using inv(3) by (simp add: live_intact_def exactly_held_def wds rcall)
qed

lemma elsewhere_keeps:
  assumes "books_ok w" "live_intact w" "exactly_held e w" "same_books (pw_plane w) q"
  shows "books_ok (w\<lparr>pw_plane := q\<rparr>) \<and> live_intact (w\<lparr>pw_plane := q\<rparr>) \<and> exactly_held e (w\<lparr>pw_plane := q\<rparr>)"
  using assms by (simp add: books_ok_def live_intact_def exactly_held_def same_books_def live_def)

subsubsection \<open>Opening\<close>

lemma undoing_spares:
  assumes "undoing m mux n c" "mux \<noteq> se_muxID s" "se_wds s < n"
  shows "spares s c"
  using assms opening_spares by (auto simp: undoing_def spares_def)

lemma refused_keeps:
  assumes inv: "books_ok w" "live_intact w" "exactly_held e w"
    and run: "OpenPDN e req (pw_plane w) = (Inl x, q)" "pl_nextSessionID (pw_plane w) \<noteq> - 1"
  shows "books_ok (w\<lparr>pw_plane := q\<rparr>) \<and> live_intact (w\<lparr>pw_plane := q\<rparr>) \<and> exactly_held e (w\<lparr>pw_plane := q\<rparr>)"
  using run(1)
proof (cases rule: OpenPDN_cases)
  case 1
  then show ?thesis using inv by simp
next
  case 2
  then have "books_ok (w\<lparr>pw_plane := q\<rparr>)" by (intro books_same[OF inv(1)]) (simp_all add: next_id[OF run(2)])
  with 2 inv show ?thesis by (simp add: live_intact_def exactly_held_def live_def)
next
  case (3 p1 q1)
  from open_body_result[OF 3(1)] obtain seg n where r: "pl_calls q1 = pl_calls p1 @ seg" "length (pl_calls p1) \<le> n"
    "list_all (undoing (pl_masterInterface (pw_plane w)) (pr_MuxID req) n) seg" "pl_sessions q1 = pl_sessions p1"
    "pl_nextSessionID q1 = pl_nextSessionID p1" "held e (pl_calls q1) \<subseteq> held e (pl_calls p1)"
    "held e (pl_calls p1) - {RMux (pl_masterInterface (pw_plane w)) (pr_MuxID req), RWds n} - range (RCall n) \<subseteq> held e (pl_calls q1)"
    and fr: "frees_held e (pl_calls p1) \<longrightarrow> frees_held e (pl_calls q1)"
    by auto
  have calls: "pl_calls q = pl_calls (pw_plane w) @ seg" using r(1) 3 by simp
  have n: "length (pl_calls (pw_plane w)) \<le> n" using r(2) 3 by simp
  have fresh: "RWds n \<notin> held e (pl_calls (pw_plane w))" "h \<noteq> 0 \<Longrightarrow> RCall n h \<notin> held e (pl_calls (pw_plane w))" for h
    using inv(1,3) n unfolding books_ok_def exactly_held_def by fastforce+
  have wds: "RWds k \<in> held e (pl_calls q) \<longleftrightarrow> RWds k \<in> held e (pl_calls (pw_plane w))"
    and rcall: "h \<noteq> 0 \<Longrightarrow> RCall k h \<in> held e (pl_calls q) \<longleftrightarrow> RCall k h \<in> held e (pl_calls (pw_plane w))" for k h
    using r(6,7) fresh unfolding 3(2,5) by blast+
  have books: "books_ok (w\<lparr>pw_plane := q\<rparr>)"
    by (rule books_same[OF inv(1)]) (use 3 r calls next_id[OF run(2)] in simp_all)
  have "intact s (pl_calls q)" if s: "live (w\<lparr>pw_plane := q\<rparr>) s" for s
  proof -
    have l: "live w s" using s 3 r by (simp add: live_def)
    have "spares s c" if "c \<in> set seg" for c
    proof (rule undoing_spares)
      show "undoing (pl_masterInterface (pw_plane w)) (pr_MuxID req) n c" using r(3) that by (simp add: list_all_iff)
      show "pr_MuxID req \<noteq> se_muxID s" using 3 l by (auto simp: live_def)
      show "se_wds s < n" using live_wds(1)[OF inv(1) l] n by simp
    qed
    then show ?thesis
      using inv(2) l live_wds(1)[OF inv(1) l] unfolding calls live_intact_def by (intro intact_append) auto
  qed
  moreover have "frees_held e (pl_calls (pw_plane w)) \<longrightarrow> frees_held e (pl_calls q)" using fr 3(2,5) by simp
  ultimately show ?thesis using inv(3) books by (simp add: live_intact_def exactly_held_def wds rcall)
qed

lemma opened_keeps:
  assumes inv: "books_ok w" "live_intact w" "exactly_held e w"
    and run: "OpenPDN e req (pw_plane w) = (Inr s, q)" "pl_nextSessionID (pw_plane w) \<noteq> - 1"
  defines "w' \<equiv> w\<lparr>pw_plane := q, pw_opened := s # pw_opened w\<rparr>"
  shows "books_ok w' \<and> live_intact w' \<and> exactly_held e w'"
  using run(1)
proof (cases rule: OpenPDN_cases)
  case (3 p1 q1)
  define p where "p = pw_plane w"
  from open_body_result[OF 3(1)] obtain seg where r: "pl_calls q1 = pl_calls p1 @ seg" "length (pl_calls p1) \<le> se_wds s"
    "list_all opening_call seg" "pl_sessions q1 = (pl_nextSessionID p + 1, s) # filter (\<lambda>(k, _). k \<noteq> pl_nextSessionID p + 1) (pl_sessions p1)"
    "pl_nextSessionID q1 = pl_nextSessionID p1" "se_wds s < length (pl_calls q1)" "se_muxID s = pr_MuxID req"
    "ps_ID (se_snapshot s) = pl_nextSessionID p + 1"
    "held e (pl_calls q1) = held e (pl_calls p1) \<union> {RMux (pl_masterInterface p) (pr_MuxID req), RWds (se_wds s),
       RCall (se_wds s) (ps_Handle (se_snapshot s))}"
    and fr: "frees_held e (pl_calls p1) \<longrightarrow> frees_held e (pl_calls q1)"
    unfolding p_def by auto
  note b = inv(1)[unfolded books_ok_def, folded p_def]
  have id: "unat (pl_nextSessionID p + 1) = Suc (unat (pl_nextSessionID p))" using next_id[OF run(2)] by (simp add: p_def)
  have calls: "pl_calls q = pl_calls p @ seg" "pl_nextSessionID q = pl_nextSessionID p + 1" using r 3 by (simp_all add: p_def)
  have old: "t \<in> set (pw_opened w) \<Longrightarrow> se_wds t < se_wds s \<and> ps_ID (se_snapshot t) \<noteq> pl_nextSessionID p + 1" for t
    using b r(2) 3(2) id by (fastforce simp: p_def)
  have "filter (\<lambda>(k, _). k \<noteq> pl_nextSessionID p + 1) (pl_sessions p) = pl_sessions p"
    by (rule filter_True) (use b old in fastforce)
  then have sess: "pl_sessions q = (pl_nextSessionID p + 1, s) # pl_sessions p" using r(4) 3 by (simp add: p_def)
  have new: "s \<notin> set (pw_opened w)" using old by blast
  then have notclosed: "s \<notin> set (pw_closed w)" using b by blast
  have keys: "pl_nextSessionID p + 1 \<notin> fst ` set (pl_sessions p)" using b old by fastforce
  have muxes: "se_muxID s \<notin> se_muxID ` snd ` set (pl_sessions p)" using 3(9) r(7) by (fastforce simp: p_def)
  have w': "pw_plane w' = q" "pw_opened w' = s # pw_opened w" "pw_closing w' = pw_closing w" "pw_closed w' = pw_closed w"
    by (simp_all add: w'_def)
  have books: "books_ok w'"
    unfolding books_ok_def w' sess calls
  proof (intro conjI)
    show "\<forall>(k, t) \<in> set ((pl_nextSessionID p + 1, s) # pl_sessions p). k = ps_ID (se_snapshot t) \<and> se_muxID t \<noteq> 0 \<and>
        t \<in> set (s # pw_opened w) \<and> t \<notin> set (pw_closed w)"
    proof (intro ballI)
      fix x assume "x \<in> set ((pl_nextSessionID p + 1, s) # pl_sessions p)"
      then consider "x = (pl_nextSessionID p + 1, s)" | "x \<in> set (pl_sessions p)" by auto
      then show "case x of (k, t) \<Rightarrow> k = ps_ID (se_snapshot t) \<and> se_muxID t \<noteq> 0 \<and> t \<in> set (s # pw_opened w) \<and> t \<notin> set (pw_closed w)"
      proof cases
        case 1
        then show ?thesis using r(7,8) 3(8) notclosed by simp
      next
        case 2
        with b[THEN conjunct1] show ?thesis by (cases x) auto
      qed
    qed
    show "distinct (map fst ((pl_nextSessionID p + 1, s) # pl_sessions p))" using b keys by simp
    show "inj_on se_muxID (snd ` set ((pl_nextSessionID p + 1, s) # pl_sessions p))"
    proof -
      have "inj_on se_muxID (snd ` set (pl_sessions p))" using b by blast
      then show ?thesis using muxes unfolding list.set(2) image_insert snd_conv inj_on_insert by auto
    qed
    show "\<forall>t \<in> set (s # pw_opened w). se_wds t < length (pl_calls p @ seg) \<and>
        unat (ps_ID (se_snapshot t)) \<le> unat (pl_nextSessionID p + 1)"
      using b r(1,6,8) 3(2) id by (fastforce simp: p_def)
    show "inj_on se_wds (set (s # pw_opened w))" using b old by (fastforce simp: inj_on_insert)
    show "inj_on (\<lambda>s. ps_ID (se_snapshot s)) (set (s # pw_opened w))" using b old r(8) by (fastforce simp: inj_on_insert)
    show "\<forall>(t, owned) \<in> set (pw_closing w). t \<in> set (s # pw_opened w) \<and> t \<notin> set (pw_closed w) \<and>
        (owned \<longrightarrow> (ps_ID (se_snapshot t), t) \<in> set ((pl_nextSessionID p + 1, s) # pl_sessions p))"
      using b by fastforce
    show "set (pw_closed w) \<subseteq> set (s # pw_opened w)" using b by auto
  qed
  have "intact t (pl_calls q)" if t: "live w' t" for t
  proof (cases "t = s")
    case True
    then show ?thesis unfolding calls using r(2,3) 3(2) by (intro intact_fresh) (simp_all add: p_def)
  next
    case False
    then have l: "live w t" using t sess by (auto simp: live_def w'_def p_def)
    then show ?thesis
      using inv(2) live_wds(1)[OF inv(1) l] r(3) opening_spares unfolding calls live_intact_def p_def
      by (intro intact_append) (auto simp: list_all_iff)
  qed
  moreover have "exactly_held e w'"
  proof -
    have h: "held e (pl_calls q) = held e (pl_calls p) \<union> {RMux (pl_masterInterface p) (pr_MuxID req), RWds (se_wds s),
       RCall (se_wds s) (ps_Handle (se_snapshot s))}" using r(9) 3 by (simp add: p_def)
    have split: "set (s # pw_opened w) - set (pw_closed w) = insert s (set (pw_opened w) - set (pw_closed w))"
      using notclosed by auto
    have "frees_held e (pl_calls p) \<longrightarrow> frees_held e (pl_calls q)" using fr 3(2,5) by (simp add: p_def)
    then show ?thesis
      using inv(3) unfolding exactly_held_def w' split h p_def[symmetric] by auto
  qed
  ultimately show ?thesis using books by (simp add: live_intact_def w'_def)
qed simp_all

subsubsection \<open>Closing\<close>

lemma run_all_books: "run_all e cs p = (errs, q) \<Longrightarrow> pl_sessions q = pl_sessions p \<and> pl_nextSessionID q = pl_nextSessionID p \<and>
    pl_snapshot q = pl_snapshot p \<and> pl_calls q = pl_calls p @ cs"
proof (induction cs arbitrary: p errs q)
  case (Cons c cs)
  obtain r p1 where r: "do_call e c p = (r, p1)" by force
  obtain errs' q' where q': "run_all e cs p1 = (errs', q')" by force
  have p1: "p1 = say c p" using do_call_result[OF r] by simp
  have "q = q'" using Cons.prems r q' by (auto split: sum.splits)
  with Cons.IH[OF q'] p1 show ?case by (simp add: say_def)
qed simp

lemma finish_close_books:
  assumes "finish_close e s owned p = (err, q)"
  shows "pl_calls q = pl_calls p @ close_calls s owned" "pl_nextSessionID q = pl_nextSessionID p"
    "pl_sessions q = pl_sessions (forget s p)"
proof -
  obtain errs p1 where r: "run_all e (close_calls s owned) p = (errs, p1)" by force
  then have q: "q = forget s p1" using assms by (simp add: finish_close_def Let_def)
  note b = run_all_books[OF r]
  then show "pl_calls q = pl_calls p @ close_calls s owned" "pl_nextSessionID q = pl_nextSessionID p"
    "pl_sessions q = pl_sessions (forget s p)"
    by (simp_all add: q forget_def Let_def)
qed

text \<open>What a close gives back.\<close>

lemma held_close:
  "RWds n \<in> held e (h @ close_calls s owned) \<longleftrightarrow> RWds n \<in> held e h \<and> n \<noteq> se_wds s"
  "k \<noteq> 0 \<Longrightarrow> RCall n k \<in> held e (h @ close_calls s owned) \<longleftrightarrow>
     RCall n k \<in> held e h \<and> \<not> (n = se_wds s \<and> k = ps_Handle (se_snapshot s))"
proof -
  have app: "held e (h @ c # cs) = held e ((h @ [c]) @ cs)" for h c cs by simp
  show "RWds n \<in> held e (h @ close_calls s owned) \<longleftrightarrow> RWds n \<in> held e h \<and> n \<noteq> se_wds s"
    "k \<noteq> 0 \<Longrightarrow> RCall n k \<in> held e (h @ close_calls s owned) \<longleftrightarrow>
     RCall n k \<in> held e h \<and> \<not> (n = se_wds s \<and> k = ps_Handle (se_snapshot s))"
    unfolding close_calls_def Let_def
    by (cases "ps_Handle (se_snapshot s) = 0"; cases owned;
        simp only: simp_thms if_True if_False append_Nil append_Nil2 append.simps app held_snoc;
        simp add: lose_def gain_def; blast)+
qed

text \<open>A close frees the service and the call of its session, each once.\<close>

lemma frees_close:
  assumes "RWds (se_wds s) \<in> held e h" "ps_Handle (se_snapshot s) \<noteq> 0 \<Longrightarrow> RCall (se_wds s) (ps_Handle (se_snapshot s)) \<in> held e h"
  shows "frees_held e (h @ close_calls s owned) = frees_held e h"
proof -
  have app: "frees_held e (h @ c # cs) = frees_held e ((h @ [c]) @ cs)" for h c cs by simp
  show ?thesis
    unfolding close_calls_def Let_def using assms
    by (cases "ps_Handle (se_snapshot s) = 0"; cases owned;
        simp only: simp_thms if_True if_False append_Nil append_Nil2 append.simps app frees_held_snoc held_snoc;
        simp add: frees_def lose_def gain_def)
qed

lemma close_spares:
  assumes "c \<in> set (close_calls s owned)" "se_wds t \<noteq> se_wds s" "owned \<Longrightarrow> se_muxID t \<noteq> se_muxID s"
  shows "spares t c"
  using assms by (auto simp: close_calls_def Let_def spares_def split: if_splits)

lemma forget_sessions:
  assumes "distinct (map fst (pl_sessions p))" "\<forall>(k, t) \<in> set (pl_sessions p). k = ps_ID (se_snapshot t)"
  shows "set (pl_sessions (forget s p)) = {(k, t) \<in> set (pl_sessions p). t \<noteq> s}" "distinct (map fst (pl_sessions (forget s p)))"
proof -
  have "set (pl_sessions (forget s p)) = {(k, t) \<in> set (pl_sessions p). t \<noteq> s}"
  proof (cases "map_of (pl_sessions p) (ps_ID (se_snapshot s)) = Some s")
    case True
    have "(k, t) \<in> set (pl_sessions p) \<Longrightarrow> k \<noteq> ps_ID (se_snapshot s) \<longleftrightarrow> t \<noteq> s" for k t
      using True assms by (auto dest: map_of_is_SomeI[OF assms(1)])
    then show ?thesis using True by (auto simp: forget_def Let_def)
  next
    case False
    then have "(k, s) \<notin> set (pl_sessions p)" for k using assms by (auto dest: map_of_is_SomeI[OF assms(1)])
    then show ?thesis using False by (auto simp: forget_def Let_def)
  qed
  moreover have "distinct (map fst (pl_sessions (forget s p)))"
    using assms(1) by (auto simp: forget_def Let_def distinct_map_filter)
  ultimately show "set (pl_sessions (forget s p)) = {(k, t) \<in> set (pl_sessions p). t \<noteq> s}"
    "distinct (map fst (pl_sessions (forget s p)))" by blast+
qed

lemma begin_close_keeps:
  assumes inv: "books_ok w" "live_intact w" "exactly_held e w"
    and s: "s \<in> set (pw_opened w)" "s \<notin> set (pw_closed w)"
  defines "w' \<equiv> w\<lparr>pw_closing := (s, owns (pw_plane w) s) # pw_closing w\<rparr>"
  shows "books_ok w' \<and> live_intact w' \<and> exactly_held e w'"
proof -
  have o: "owns (pw_plane w) s \<Longrightarrow> (ps_ID (se_snapshot s), s) \<in> set (pl_sessions (pw_plane w))"
    by (auto simp: owns_def dest: map_of_SomeD)
  have "books_ok w'" using inv(1) s o unfolding books_ok_def w'_def by simp
  moreover have "live w' t \<Longrightarrow> live w t" for t by (simp add: live_def w'_def)
  ultimately show ?thesis using inv(2,3) by (simp add: live_intact_def exactly_held_def w'_def)
qed

lemma end_close_keeps:
  assumes inv: "books_ok w" "live_intact w" "exactly_held e w"
    and s: "(s, owned) \<in> set (pw_closing w)" and run: "finish_close e s owned (pw_plane w) = (err, q)"
  defines "w' \<equiv> w\<lparr>pw_plane := q, pw_closing := filter (\<lambda>(t, _). t \<noteq> s) (pw_closing w), pw_closed := s # pw_closed w\<rparr>"
  shows "books_ok w' \<and> live_intact w' \<and> exactly_held e w'"
proof -
  define p where "p = pw_plane w"
  note b = inv(1)[unfolded books_ok_def, folded p_def]
  note f = finish_close_books[OF run, folded p_def]
  have keyed: "\<forall>(k, t) \<in> set (pl_sessions p). k = ps_ID (se_snapshot t)" "distinct (map fst (pl_sessions p))" using b by auto
  note sess = forget_sessions[OF keyed(2,1), of s, folded f(3)]
  have w': "pw_plane w' = q" "pw_opened w' = pw_opened w" "pw_closing w' = filter (\<lambda>(t, _). t \<noteq> s) (pw_closing w)"
    "pw_closed w' = s # pw_closed w" by (simp_all add: w'_def)
  have so: "s \<in> set (pw_opened w)" "s \<notin> set (pw_closed w)" "owned \<Longrightarrow> (ps_ID (se_snapshot s), s) \<in> set (pl_sessions p)"
    using b s by auto
  have books: "books_ok w'"
    unfolding books_ok_def w'
  proof (intro conjI)
    show "\<forall>(k, t) \<in> set (pl_sessions q). k = ps_ID (se_snapshot t) \<and> se_muxID t \<noteq> 0 \<and> t \<in> set (pw_opened w) \<and>
        t \<notin> set (s # pw_closed w)" using b unfolding sess by fastforce
    show "distinct (map fst (pl_sessions q))" by (rule sess(2))
    show "inj_on se_muxID (snd ` set (pl_sessions q))"
      by (rule inj_on_subset[of _ "snd ` set (pl_sessions p)"]) (use b sess(1) in auto)
    show "\<forall>t \<in> set (pw_opened w). se_wds t < length (pl_calls q) \<and>
        unat (ps_ID (se_snapshot t)) \<le> unat (pl_nextSessionID q)" using b by (auto simp: f(1,2) trans_less_add1)
    show "inj_on se_wds (set (pw_opened w))" "inj_on (\<lambda>s. ps_ID (se_snapshot s)) (set (pw_opened w))" using b by blast+
    show "\<forall>(t, o1) \<in> set (filter (\<lambda>(t, _). t \<noteq> s) (pw_closing w)). t \<in> set (pw_opened w) \<and> t \<notin> set (s # pw_closed w) \<and>
        (o1 \<longrightarrow> (ps_ID (se_snapshot t), t) \<in> set (pl_sessions q))" using b unfolding sess by fastforce
    show "set (s # pw_closed w) \<subseteq> set (pw_opened w)" using b so by auto
  qed
  have "intact t (pl_calls q)" if t: "live w' t" for t
  proof -
    have ts: "t \<noteq> s" "t \<in> snd ` set (pl_sessions p)" "t \<notin> fst ` set (pw_closing w)"
      using t unfolding live_def w' sess by auto
    then have l: "live w t" by (simp add: live_def p_def)
    note lt = live_wds[OF inv(1) l, folded p_def]
    have "se_wds t \<noteq> se_wds s" using b lt(3) so(1) ts(1) by (auto dest: inj_onD)
    moreover have "se_muxID t \<noteq> se_muxID s" if owned
    proof -
      have "s \<in> snd ` set (pl_sessions p)" using so(3)[OF that] by force
      then show ?thesis using b ts(1,2) by (auto dest: inj_onD)
    qed
    ultimately show ?thesis
      using inv(2) l lt(1) unfolding f(1) live_intact_def p_def[symmetric]
      by (intro intact_append) (auto intro: close_spares)
  qed
  moreover have "exactly_held e w'"
  proof -
    have uniq: "t \<in> set (pw_opened w) \<Longrightarrow> se_wds t = se_wds s \<longleftrightarrow> t = s" for t using b so(1) by (auto dest: inj_onD)
    have "frees_held e (pl_calls p @ close_calls s owned) = frees_held e (pl_calls p)"
      by (rule frees_close) (use inv(3) so(1,2) in \<open>auto simp: exactly_held_def p_def\<close>)
    then show ?thesis
      using inv(3) uniq unfolding exactly_held_def w' f(1) held_close p_def[symmetric] by (auto simp: held_close)
  qed
  ultimately show ?thesis using books by (simp add: live_intact_def w')
qed

lemma pdn_invariant:
  assumes "pdn_reachable e w"
  shows "books_ok w \<and> live_intact w \<and> exactly_held e w"
  using assms
proof (induction rule: pdn_reachable.induct)
  case (start w)
  then show ?case by (simp add: new_world_def books_ok_def live_intact_def live_def exactly_held_def)
next
  case (step w w')
  then have inv: "books_ok w" "live_intact w" "exactly_held e w" by blast+
  from step(2) show ?case
  proof cases
    case opened
    then show ?thesis using opened_keeps[OF inv] by blast
  next
    case refused
    then show ?thesis using refused_keeps[OF inv] by blast
  next
    case converged
    then show ?thesis using converged_keeps[OF inv] by blast
  next
    case begin_close
    then show ?thesis using begin_close_keeps[OF inv] by blast
  next
    case end_close
    then show ?thesis using end_close_keeps[OF inv] by blast
  next
    case elsewhere
    then show ?thesis using elsewhere_keeps[OF inv] by blast
  qed
qed

section \<open>Properties\<close>

text \<open>C11: While a session is open and nobody closes it, no call that was made since its service was leased deletes its
  interface, releases its service, stops its call, or clears its interface as a residual one: whatever other sessions
  are opened, refused or closed, and however the topology converges, interleaved in any way.\<close>

theorem live_session_intact:
  assumes "pdn_reachable e w" "(k, s) \<in> set (pl_sessions (pw_plane w))" "s \<notin> fst ` set (pw_closing w)"
  shows "list_all (spares s) (drop (se_wds s) (pl_calls (pw_plane w)))"
proof -
  have "live w s" using assms(2,3) by (force simp: live_def)
  then show ?thesis using pdn_invariant[OF assms(1)] by (simp add: live_intact_def intact_def)
qed


text \<open>C32: An opening that fails, at whatever step, holds nothing afterwards that was not held before, and registers no session.\<close>

theorem failed_open_leaks_nothing:
  assumes "OpenPDN e req p = (Inl err, q)"
  shows "held e (pl_calls q) \<subseteq> held e (pl_calls p) \<and> pl_sessions q = pl_sessions p"
  using assms
proof (cases rule: OpenPDN_cases)
  case (3 p1 q1)
  from open_body_result[OF 3(1)] show ?thesis using 3 by auto
qed simp_all

subsection \<open>A modem\<close>

definition demo_settings :: RuntimeSettings where
  "demo_settings = \<lparr>rt_IPv4Address = [], rt_IPv4Subnet = [], rt_IPv4Gateway = [], rt_IPv4DNS1 = [], rt_IPv4DNS2 = [],
     rt_IPv6Address = [], rt_IPv6Prefix = 0, rt_IPv6Gateway = [], rt_IPv6DNS1 = [], rt_IPv6DNS2 = [],
     rt_IPv6DelegatedPrefix = [], rt_IPv6DelegatedPrefixLen = 0, rt_MTU = 1500, rt_PCSCFUsingPCO = None, rt_PCSCFv4 = [],
     rt_PCSCFv6 = [], rt_PCSCFDomains = [], rt_IMCN = False, rt_ResponseTLVs = []\<rparr>"

text \<open>Everything succeeds, except the calls in \<open>bad\<close>.\<close>

definition demo_env :: "call list \<Rightarrow> environment" where
  "demo_env bad =
     \<lparr>en_ctx = (\<lambda>_. None), en_unit = (\<lambda>_ c. if c \<in> set bad then Some (ErrText ''refused'') else None),
      en_name = (\<lambda>_ c. if c \<in> set bad then Inl (ErrText ''refused'') else Inr ''qmimux1''),
      en_number = (\<lambda>_ c. if c \<in> set bad then Inl (ErrText ''refused'') else Inr 7),
      en_settings = (\<lambda>_ c. Inr (Some demo_settings)),
      en_format = (\<lambda>_. Inr (dataFormatTargetForMux 0)), en_topology = (\<lambda>_ m. Inr (m, []))\<rparr>"

definition demo_plane :: plane where
  "demo_plane = \<lparr>pl_snapshot = \<lparr>dp_Generation = 1, dp_Mode = DataPlaneModeQMAP, dp_DefaultInterface = ''qmimux0'', dp_DefaultMuxID = 1,
       dp_DegradedReason = []\<rparr>, pl_declared = \<lparr>sp_Mode = DataPlaneModeQMAP, sp_DefaultMuxID = 1\<rparr>, pl_masterInterface = ''wwan0'',
     pl_nextSessionID = 0, pl_sessions = [], pl_reserved = [], pl_wds = True, pl_wdsV6 = True, pl_wda = True,
     pl_masterIface = ''wwan0'', pl_muxIface = ''qmimux0'', pl_stopping = False, pl_client = True, pl_connected = True,
     pl_connectedGeneration = 1, pl_calls = []\<rparr>"

definition demo_request :: PDNRequest where
  "demo_request = \<lparr>pr_APN = ''ims'', pr_MuxID = 2, pr_IPFamily = 6, pr_ProfileIndex = 0, pr_CallType = None, pr_EndpointType = 2,
     pr_InterfaceID = 4, pr_ClientType = 1, pr_UserspaceOnly = True\<rparr>"

definition demo_session :: managedPDNSession where
  "demo_session = \<lparr>se_snapshot = \<lparr>ps_ID = 1, ps_Generation = 1, ps_InterfaceName = ''qmimux1'', ps_Handle = 7, ps_Settings = demo_settings\<rparr>,
     se_master = ''wwan0'', se_muxID = 2, se_wds = 2\<rparr>"

definition demo_open :: plane where
  "demo_open = demo_plane\<lparr>pl_nextSessionID := 1, pl_sessions := [(1, demo_session)],
     pl_calls := [BringUp ''wwan0'', AddMux ''wwan0'' 2, LeaseWDS,
       Bind 2 \<lparr>mb_EpType = 2, mb_EpIfID = 4, mb_MuxID = 2, mb_ClientType = 1\<rparr>, Start 2 demo_request, GetSettings 2 6,
       PrepareUserspace ''qmimux1'', BringUp ''qmimux1'']\<rparr>"

lemmas open_defs = OpenPDN_def open_on_mux_def before_start_def after_start_def undo_open_def failing_def register_session_def
  and_then_def wrapped_def ask_def do_call_def say_def finished_def skip_def give_up_def Let_def

lemma demo_opens: "OpenPDN (demo_env []) demo_request demo_plane = (Inr demo_session, demo_open)"
  by (simp add: open_defs demo_env_def demo_request_def demo_plane_def demo_session_def demo_open_def DataPlaneModeQMAP_def)

lemma demo_reachable:
  "pdn_reachable (demo_env []) \<lparr>pw_plane = demo_open, pw_opened = [demo_session], pw_closing = [], pw_closed = []\<rparr>"
proof -
  let ?w = "\<lparr>pw_plane = demo_plane, pw_opened = [], pw_closing = [], pw_closed = []\<rparr>"
  have "pdn_reachable (demo_env []) ?w" by (rule pdn_reachable.start) (simp add: new_world_def demo_plane_def)
  moreover have "pdn_step (demo_env []) ?w \<lparr>pw_plane = demo_open, pw_opened = [demo_session], pw_closing = [], pw_closed = []\<rparr>"
    using pdn_step.opened[of "demo_env []" demo_request ?w demo_session demo_open] demo_opens by (simp add: demo_plane_def)
  ultimately show ?thesis by (rule pdn_reachable.step)
qed

theorem live_session_intact_witness:
  "(1, demo_session) \<in> set (pl_sessions demo_open) \<and> list_all (spares demo_session) (drop (se_wds demo_session) (pl_calls demo_open))"
  using live_session_intact[OF demo_reachable, of 1 demo_session] by (simp add: demo_open_def)


text \<open>The modem rejects the call after the interface was created and the service leased.\<close>

theorem failed_open_leaks_nothing_witness:
  "\<exists>err q. OpenPDN (demo_env [Start 2 demo_request]) demo_request demo_plane = (Inl err, q) \<and>
     pl_calls q = [BringUp ''wwan0'', AddMux ''wwan0'' 2, LeaseWDS, Bind 2 \<lparr>mb_EpType = 2, mb_EpIfID = 4, mb_MuxID = 2, mb_ClientType = 1\<rparr>,
       Start 2 demo_request, ReleaseWDS 2, DeleteMux ''wwan0'' 2] \<and>
     held (demo_env [Start 2 demo_request]) (pl_calls q) \<subseteq> {}"
proof -
  obtain err q where o: "OpenPDN (demo_env [Start 2 demo_request]) demo_request demo_plane = (Inl err, q)"
    and c: "pl_calls q = [BringUp ''wwan0'', AddMux ''wwan0'' 2, LeaseWDS, Bind 2 \<lparr>mb_EpType = 2, mb_EpIfID = 4, mb_MuxID = 2, mb_ClientType = 1\<rparr>,
       Start 2 demo_request, ReleaseWDS 2, DeleteMux ''wwan0'' 2]"
    by (simp add: open_defs demo_env_def demo_request_def demo_plane_def DataPlaneModeQMAP_def)
  have "pl_calls demo_plane = []" by (simp add: demo_plane_def)
  with failed_open_leaks_nothing[OF o] o c show ?thesis by simp
qed

subsection \<open>A degraded topology\<close>

text \<open>When QMAP was asked for and only a native topology could be had, every convergence tries again, and every one
  that fails again publishes the same topology under a new generation. A connected default call of the previous
  generation is then disconnected and dialled again, although nothing changed.\<close>

definition degraded_plane :: plane where
  "degraded_plane = demo_plane\<lparr>pl_snapshot := \<lparr>dp_Generation = 1, dp_Mode = DataPlaneModeNative, dp_DefaultInterface = ''wwan0'',
     dp_DefaultMuxID = 0, dp_DegradedReason = ''refused''\<rparr>, pl_masterInterface := []\<rparr>"

definition demo_config :: plane_config where
  "demo_config = \<lparr>pc_NetInterface = ''wwan0'', pc_EnableIPv4 = True, pc_EnableIPv6 = True, pc_Disabled = False,
     pc_DataPlane = \<lparr>sp_Mode = DataPlaneModeQMAP, sp_DefaultMuxID = 1\<rparr>\<rparr>"

lemma degraded_convergence_redials:
  "\<exists>snapshot q. ConvergeDataPlane demo_config (demo_env [SetDataFormat (dataFormatTargetForMux 1)]) \<lparr>sp_Mode = DataPlaneModeQMAP, sp_DefaultMuxID = 1\<rparr> degraded_plane =
     (Inr snapshot, q) \<and> dp_Mode snapshot = DataPlaneModeNative \<and> dp_DefaultInterface snapshot = ''wwan0'' \<and> dp_Generation snapshot = 2 \<and>
     \<not> pl_connected q \<and> Disconnect \<in> set (pl_calls q)"
  by (simp add: ConvergeDataPlane_def convergeDataPlaneLocked_def degraded_plane_def demo_plane_def demo_config_def
    ensureDataPlaneServicesLocked_def shouldAllocateWDA_def and_then_def wrapped_def skip_def finished_def convergeQMAPLocked_def
    ensureModemDataFormat_def modemDataFormatMatches_def ask_def say_def demo_env_def dataFormatMatches_def dataFormatTargetForMux_def
    do_call_def convergeNativeLocked_def publish_def redialIfDataPlaneGenerationChanged_def next_generation_def
    DataPlaneModeQMAP_def DataPlaneModeNative_def Let_def)

text \<open>\<^verbatim>\<open>cleanup\<close> starts the generations again at zero, so that the first topology after it bears the number of an
  earlier one: a session that was registered in between passes for one of the new topology.\<close>

lemma generation_reused:
  "\<exists>snapshot q. ConvergeDataPlane demo_config (demo_env []) \<lparr>sp_Mode = DataPlaneModeQMAP, sp_DefaultMuxID = 1\<rparr>
       (cleanup_plane demo_open) = (Inr snapshot, q) \<and> owns q demo_session"
  by (simp add: ConvergeDataPlane_def convergeDataPlaneLocked_def cleanup_plane_def no_snapshot_def demo_open_def demo_plane_def demo_config_def
    ensureDataPlaneServicesLocked_def shouldAllocateWDA_def and_then_def wrapped_def skip_def finished_def convergeQMAPLocked_def
    allocate_def check_ctx_def update_def logged_def create_default_mux_def qmap_ready_def
    ensureModemDataFormat_def modemDataFormatMatches_def ask_def say_def demo_env_def dataFormatMatches_def dataFormatTargetForMux_def
    do_call_def convergeNativeLocked_def publish_def redialIfDataPlaneGenerationChanged_def next_generation_def owns_def demo_session_def
    DataPlaneModeQMAP_def DataPlaneModeNative_def Let_def TrimSpace_id)

end
