(* ===== verification/DataCall.thy ===== *)
theory DataCall
  imports Pdn
begin

text \<open>
  The default connection, \<^verbatim>\<open>src/pkg/manager/manager.go\<close> (\<^verbatim>\<open>doConnectLockedContext\<close>, \<^verbatim>\<open>configureNetwork\<close>, the
  disconnect, the status check, the rotation of the address), \<^verbatim>\<open>dual_stack_dial.go\<close>, \<^verbatim>\<open>default_data_bearer.go\<close>,
  \<^verbatim>\<open>data_config.go\<close> and \<^verbatim>\<open>selected_data_apn.go\<close>. The lock \<^verbatim>\<open>dataOpMu\<close> makes each operation one step: an action on the
  record \<open>data_manager\<close> that returns, fails or panics. What is asked of the modem, the host and the runtime is a \<open>dcall\<close>,
  kept in a history on which the answers of the environment depend; the topology is that of theory DataPlane.
\<close>

section \<open>Dialling both families\<close>

record dualStackDialResult =
  dd_handleV4 :: u32
  dd_handleV6 :: u32
  dd_v4Err :: "go_error option"
  dd_v6Err :: "go_error option"
  dd_err :: "go_error option"

text \<open>The texts of two errors are in Chinese in the source.\<close>

definition no_family :: go_error where "no_family = ErrText ''no family enabled''"
definition no_v6_client :: go_error where "no_v6_client = ErrText ''no IPv6 WDS client''"

definition joined_errors :: "go_error option \<Rightarrow> go_error option \<Rightarrow> go_error" where
  "joined_errors a b = ErrJoin ((case a of Some e \<Rightarrow> [e] | None \<Rightarrow> []) @ (case b of Some e \<Rightarrow> [e] | None \<Rightarrow> []))"

definition dial_outcome :: "bool \<Rightarrow> bool \<Rightarrow> dualStackDialResult \<Rightarrow> dualStackDialResult" where
  "dial_outcome enableV4 canV6 r =
     (if (enableV4 \<and> dd_v4Err r = None) \<or> (canV6 \<and> dd_v6Err r = None) then r
      else if enableV4 \<and> canV6 then r\<lparr>dd_err := Some (ErrWrap ''both data calls failed: '' (joined_errors (dd_v4Err r) (dd_v6Err r)) [])\<rparr>
      else if enableV4 then r\<lparr>dd_err := dd_v4Err r\<rparr>
      else r\<lparr>dd_err := Some (case dd_v6Err r of None \<Rightarrow> no_v6_client | Some e \<Rightarrow> e)\<rparr>)"

definition not_dialled :: dualStackDialResult where
  "not_dialled = \<lparr>dd_handleV4 = 0, dd_handleV6 = 0, dd_v4Err = None, dd_v6Err = None, dd_err = None\<rparr>"

text \<open>A dial may panic, and changes the state of the manager and the modem. A dial that fails returns no handle.\<close>

type_synonym 'm dialler = "'m \<Rightarrow> u32 parsed \<times> 'm"

definition dialDualStack :: "bool \<Rightarrow> bool \<Rightarrow> 'm dialler \<Rightarrow> 'm dialler option \<Rightarrow> 'm \<Rightarrow> dualStackDialResult option \<times> 'm" where
  "dialDualStack enableV4 enableV6 dialV4 dialV6 =
     (if \<not> enableV4 \<and> \<not> enableV6 then ret_m (Some (not_dialled\<lparr>dd_err := Some no_family\<rparr>))
      else
        try_m (if enableV4 then dialV4 else ret_m (ok 0)) (\<lambda>a.
        try_m (case dialV6 of Some dial \<Rightarrow> if enableV6 then dial else ret_m (ok 0) | None \<Rightarrow> ret_m (ok 0)) (\<lambda>b.
          ret_m (Some (dial_outcome enableV4 (enableV6 \<and> dialV6 \<noteq> None)
            \<lparr>dd_handleV4 = (case a of Inr h \<Rightarrow> h | Inl _ \<Rightarrow> 0), dd_handleV6 = (case b of Inr h \<Rightarrow> h | Inl _ \<Rightarrow> 0),
             dd_v4Err = (case a of Inl e \<Rightarrow> Some e | Inr _ \<Rightarrow> None), dd_v6Err = (case b of Inl e \<Rightarrow> Some e | Inr _ \<Rightarrow> None),
             dd_err = None\<rparr>)))))"

datatype ipFamily = familyNone | familyV4 | familyV6

definition packetStatusFamily :: "u32 \<Rightarrow> u32 \<Rightarrow> bool \<Rightarrow> bool \<Rightarrow> ipFamily" where
  "packetStatusFamily handleV4 handleV6 hasV4 hasV6 =
     (if handleV4 \<noteq> 0 \<and> hasV4 then familyV4
      else if handleV6 \<noteq> 0 \<and> hasV6 then familyV6
      else if hasV4 then familyV4
      else if hasV6 then familyV6
      else familyNone)"

definition is_qmi_code :: "u16 list \<Rightarrow> go_error \<Rightarrow> bool" where
  "is_qmi_code codes err = (case GetQMIError err of Some q \<Rightarrow> qe_ErrorCode q \<in> set codes | None \<Rightarrow> False)"

definition dialRecoveringNoEffect :: "'m dialler \<Rightarrow> ('m \<Rightarrow> unit parsed \<times> 'm) \<Rightarrow> 'm dialler" where
  "dialRecoveringNoEffect dial stop =
     try_m dial (\<lambda>r.
       case r of
         Inr h \<Rightarrow> ret_m (ok h)
       | Inl err \<Rightarrow>
           if \<not> is_qmi_code [QMIErrNoEffect] err then ret_m (Some (Inl err))
           else try_m stop (\<lambda>s.
             case s of
               Inl stopErr \<Rightarrow> ret_m (Some (Inl (ErrWrap [] err ('' (stopping the stale call failed too: '' @ err_text stopErr @ '')''))))
             | Inr _ \<Rightarrow> dial))"

section \<open>The link MTU\<close>

definition mtu_step :: "(go_error + int) \<Rightarrow> bool \<times> int \<times> int \<Rightarrow> go_error + int" where
  "mtu_step acc item =
     bind_res acc (\<lambda>result.
       case item of (active, network, fallback) \<Rightarrow>
         if \<not> active then Inr result
         else if network > 65535 then Inl (ErrText ''network MTU out of range'')
         else
           let v = (if network > 0 then network else fallback) in
           Inr (if v > 0 \<and> (result = 0 \<or> v < result) then v else result))"

definition defaultDataMTU :: "int \<Rightarrow> int \<Rightarrow> int \<Rightarrow> int \<Rightarrow> bool \<Rightarrow> bool \<Rightarrow> go_error + int" where
  "defaultDataMTU network4 network6 fallback4 fallback6 v4 v6 =
     bind_res (foldl mtu_step (Inr 0) [(v4, network4, fallback4), (v6, network6, fallback6)]) (\<lambda>result.
       if v6 \<and> result > 0 \<and> result < 1280 then Inl (ErrText ''data MTU below the IPv6 minimum'') else Inr result)"

section \<open>The state of the default connection\<close>

datatype State = StateDisconnected | StateConnecting | StateConnected | StateStopping

record data_cfg =
  dc_APN :: string
  dc_Username :: string
  dc_Password :: string
  dc_AuthType :: u8
  dc_EnableIPv4 :: bool
  dc_EnableIPv6 :: bool
  dc_MTUv4 :: int
  dc_MTUv6 :: int

record link_cfg =
  lc_NetInterface :: string
  lc_Disabled :: bool
  lc_DataPlane :: DataPlaneSpec
  lc_ProfileIndex :: u8
  lc_NoRoute :: bool
  lc_NoDNS :: bool
  lc_AutoReconnect :: bool
  lc_retryDelays :: "nat list"
  lc_RadioResetAfter :: nat

text \<open>Events for the callbacks, and what is asked of the modem, the host and the runtime.\<close>

datatype EventType = EventConnected | EventDisconnected | EventReconnecting | EventDialFailed | EventIPChanged

datatype dcall =
    BindMux ipFamily u8 | EndpointOf string
  | QuerySignalStrength | QueryServingSystem | QueryRegistered
  | StartNetwork ipFamily bool data_cfg | StopNetwork ipFamily u32 | StopAny ipFamily
  | PacketStatus ipFamily | RuntimeSettingsOf ipFamily
  | LinkUp string | SetAddress string net_IP nat | SetAddress6 string net_IP nat
  | DefaultRoute string net_IP | DirectRoute string bool | ResolvConf string string | LinkMTU string int
  | FlushAddr string | FlushRoute string | LinkDown string
  | Guard nat | VerifyCard nat
  | Emit EventType | RetryAfter nat | StartEvent | RadioReset | RadioCycle | AwaitRegistration

record data_env =
  de_plane :: environment
  de_ctx :: "dcall list \<Rightarrow> go_error option"
  de_unit :: "dcall list \<Rightarrow> dcall \<Rightarrow> go_error option"
  de_flag :: "dcall list \<Rightarrow> dcall \<Rightarrow> bool"
  de_number :: "dcall list \<Rightarrow> dcall \<Rightarrow> go_error + u32"
  de_settings :: "dcall list \<Rightarrow> dcall \<Rightarrow> go_error + RuntimeSettings"
  de_status :: "dcall list \<Rightarrow> dcall \<Rightarrow> go_error + u8"

text \<open>A guard or a verification that the caller of \<^verbatim>\<open>ConnectDefaultDataBearer\<close> passes is a name; the environment
  answers for it. \<open>dm_plane\<close> is the data plane: its fields \<open>pl_wds\<close> and \<open>pl_wdsV6\<close> tell whether the manager has the
  WDS services.\<close>

record data_manager =
  dm_cfg :: data_cfg
  dm_state :: State
  dm_coreReady :: bool
  dm_desired :: bool
  dm_reconfiguring :: bool
  dm_rotating :: bool
  dm_handleV4 :: u32
  dm_handleV6 :: u32
  dm_settings :: "RuntimeSettings option"
  dm_generation :: u64
  dm_retryCount :: nat
  dm_guard :: "nat option"
  dm_verify :: "nat option"
  dm_explicitAuth :: bool
  dm_plane :: plane
  dm_hist :: "dcall list"

type_synonym 'a dact = "data_manager \<Rightarrow> 'a parsed \<times> data_manager"

definition noted :: "dcall \<Rightarrow> data_manager \<Rightarrow> data_manager" where
  "noted c m = m\<lparr>dm_hist := dm_hist m @ [c]\<rparr>"

definition query :: "(dcall list \<Rightarrow> dcall \<Rightarrow> go_error + 'a) \<Rightarrow> dcall \<Rightarrow> 'a dact" where
  "query reply c m = (Some (reply (dm_hist m) c), noted c m)"

definition perform :: "data_env \<Rightarrow> dcall \<Rightarrow> unit dact" where
  "perform e c = query (\<lambda>h c. case de_unit e h c of Some x \<Rightarrow> Inl x | None \<Rightarrow> Inr ()) c"

text \<open>An action whose error is ignored or only logged, one that only changes the state, and a failure.\<close>

definition ignoring :: "'a dact \<Rightarrow> unit dact" where
  "ignoring f = try_m f (\<lambda>_. ret_m (ok ()))"

definition change :: "(data_manager \<Rightarrow> data_manager) \<Rightarrow> unit dact" where
  "change u m = (ok (), u m)"

definition fails :: "go_error \<Rightarrow> 'a dact" where
  "fails x = ret_m (Some (Inl x))"

definition pass :: "unit dact" where "pass = ret_m (ok ())"

definition reading :: "(data_manager \<Rightarrow> 'a dact) \<Rightarrow> 'a dact" where
  "reading f m = f m m"

definition when_m :: "bool \<Rightarrow> unit dact \<Rightarrow> unit dact" where
  "when_m b f = (if b then f else pass)"

definition ctx_ok :: "data_env \<Rightarrow> unit dact" where
  "ctx_ok e m = (case de_ctx e (dm_hist m) of Some x \<Rightarrow> (Some (Inl x), m) | None \<Rightarrow> (ok (), m))"

definition setState :: "State \<Rightarrow> unit dact" where
  "setState s = change (\<lambda>m. m\<lparr>dm_state := s\<rparr>)"

definition emitEvent :: "EventType \<Rightarrow> unit dact" where
  "emitEvent t = change (noted (Emit t))"

definition has_wds :: "ipFamily \<Rightarrow> data_manager \<Rightarrow> bool" where
  "has_wds f m = (case f of familyV4 \<Rightarrow> pl_wds (dm_plane m) | familyV6 \<Rightarrow> pl_wdsV6 (dm_plane m) | familyNone \<Rightarrow> False)"

text \<open>A method of a WDS service that the manager does not have: a nil pointer.\<close>

definition on_wds :: "ipFamily \<Rightarrow> 'a dact \<Rightarrow> 'a dact" where
  "on_wds f act m = (if has_wds f m then act m else (None, m))"

section \<open>One call\<close>

definition defaultDataInterface :: "link_cfg \<Rightarrow> data_manager \<Rightarrow> string" where
  "defaultDataInterface c m =
     (let target = dp_DefaultInterface (pl_snapshot (dm_plane m)) in if target \<noteq> [] then target else lc_NetInterface c)"

definition verify_guard :: "data_env \<Rightarrow> unit dact" where
  "verify_guard e = reading (\<lambda>m.
     case dm_guard m of
       None \<Rightarrow> pass
     | Some g \<Rightarrow> (\<lambda>m. let current = de_flag e (dm_hist m) (Guard g); m1 = noted (Guard g) m in
          if current then (ok (), m1) else (Some (Inl ErrCanceled), m1)))"

definition verifyDefaultDataCurrent :: "data_env \<Rightarrow> unit dact" where
  "verifyDefaultDataCurrent e =
     then_m (ctx_ok e) (\<lambda>_.
     then_m (verify_guard e) (\<lambda>_.
     then_m (reading (\<lambda>m.
       case dm_verify m of
         None \<Rightarrow> pass
       | Some v \<Rightarrow> try_m (perform e (VerifyCard v)) (\<lambda>r.
           case r of
             Inr _ \<Rightarrow> pass
           | Inl _ \<Rightarrow> then_m (ctx_ok e) (\<lambda>_. fails (ErrText ''card identity check failed''))))) (\<lambda>_.
       verify_guard e)))"

text \<open>\<^verbatim>\<open>startDefaultDataCall\<close> on the WDS service of a family.\<close>

definition startDefaultDataCall :: "data_env \<Rightarrow> ipFamily \<Rightarrow> u32 dact" where
  "startDefaultDataCall e f =
     then_m (verifyDefaultDataCurrent e) (\<lambda>_.
     then_m (reading (\<lambda>m. on_wds f (query (de_number e) (StartNetwork f (dm_explicitAuth m) (dm_cfg m))))) (\<lambda>handle.
       try_m (verifyDefaultDataCurrent e) (\<lambda>r.
         case r of
           Inr _ \<Rightarrow> ret_m (ok handle)
         | Inl verifyErr \<Rightarrow> then_m (ignoring (on_wds f (perform e (StopNetwork f handle)))) (\<lambda>_. fails verifyErr))))"

definition isExistingDataStopNoopError :: "go_error \<Rightarrow> bool" where
  "isExistingDataStopNoopError err = is_qmi_code [QMIErrOutOfCall, QMIErrNoEffect] err"

definition stopExistingPacketDataCall :: "data_env \<Rightarrow> ipFamily \<Rightarrow> unit dact" where
  "stopExistingPacketDataCall e f = reading (\<lambda>m.
     if \<not> has_wds f m then fails (ErrText ''wds service not available'')
     else try_m (perform e (StopAny f)) (\<lambda>r.
       case r of
         Inr _ \<Rightarrow> pass
       | Inl err \<Rightarrow> if isExistingDataStopNoopError err then pass else fails err))"

definition getPacketServiceState :: "data_env \<Rightarrow> u8 dact" where
  "getPacketServiceState e = reading (\<lambda>m.
     case packetStatusFamily (dm_handleV4 m) (dm_handleV6 m) (has_wds familyV4 m) (has_wds familyV6 m) of
       familyNone \<Rightarrow> fails (ErrText ''wds service not available'')
     | f \<Rightarrow> query (de_status e) (PacketStatus f))"

section \<open>Taking the connection down\<close>

definition flushDefaultDataAddresses :: "link_cfg \<Rightarrow> data_env \<Rightarrow> unit dact" where
  "flushDefaultDataAddresses c e = reading (\<lambda>m. ignoring (perform e (FlushAddr (defaultDataInterface c m))))"

definition teardownDefaultDataInterface :: "link_cfg \<Rightarrow> data_env \<Rightarrow> unit dact" where
  "teardownDefaultDataInterface c e = reading (\<lambda>m.
     let target = defaultDataInterface c m in
     then_m (ignoring (perform e (FlushAddr target))) (\<lambda>_.
     then_m (ignoring (perform e (FlushRoute target))) (\<lambda>_.
       ignoring (perform e (LinkDown target)))))"

definition stop_family :: "data_env \<Rightarrow> ipFamily \<Rightarrow> (data_manager \<Rightarrow> u32) \<Rightarrow> (data_manager \<Rightarrow> data_manager) \<Rightarrow> string
    \<Rightarrow> go_error list dact" where
  "stop_family e f handle clear what = reading (\<lambda>m.
     if handle m = 0 then ret_m (ok [])
     else try_m (if has_wds f m then perform e (StopNetwork f (handle m)) else pass) (\<lambda>r.
       then_m (change clear) (\<lambda>_. ret_m (ok (case r of Inl x \<Rightarrow> [errorf what x] | Inr _ \<Rightarrow> [])))))"

definition clear_v4 :: "data_manager \<Rightarrow> data_manager" where "clear_v4 m = m\<lparr>dm_handleV4 := 0\<rparr>"
definition clear_v6 :: "data_manager \<Rightarrow> data_manager" where "clear_v6 m = m\<lparr>dm_handleV6 := 0\<rparr>"

definition doDisconnectWithContextLocked :: "link_cfg \<Rightarrow> data_env \<Rightarrow> unit dact" where
  "doDisconnectWithContextLocked c e =
     then_m (stop_family e familyV4 dm_handleV4 clear_v4 ''stop IPv4 data call'') (\<lambda>errs4.
     then_m (stop_family e familyV6 dm_handleV6 clear_v6 ''stop IPv6 data call'') (\<lambda>errs6.
     then_m (teardownDefaultDataInterface c e) (\<lambda>_.
     then_m (change (\<lambda>m. m\<lparr>dm_settings := None, dm_generation := 0\<rparr>)) (\<lambda>_.
     then_m (setState StateDisconnected) (\<lambda>_.
     then_m (emitEvent EventDisconnected) (\<lambda>_.
       ret_m (Some (if errs4 @ errs6 = [] then Inr () else Inl (ErrJoin (errs4 @ errs6))))))))))"

definition cleanupFailedDefaultDataCall :: "link_cfg \<Rightarrow> data_env \<Rightarrow> 'a parsed \<Rightarrow> unit dact" where
  "cleanupFailedDefaultDataCall c e r = reading (\<lambda>m.
     case r of
       Some (Inl _) \<Rightarrow>
         if \<not> dm_explicitAuth m \<or> (dm_handleV4 m = 0 \<and> dm_handleV6 m = 0) then pass
         else ignoring (doDisconnectWithContextLocked c e)
     | _ \<Rightarrow> pass)"

text \<open>A deferred clean-up: it sees the result of the body. A panic of the body passes on.\<close>

definition deferred :: "('a parsed \<Rightarrow> unit dact) \<Rightarrow> 'a dact \<Rightarrow> 'a dact" where
  "deferred clean body m =
     (case body m of
        (None, m1) \<Rightarrow> (None, m1)
      | (r, m1) \<Rightarrow> (case clean r m1 of (None, m2) \<Rightarrow> (None, m2) | (_, m2) \<Rightarrow> (r, m2)))"

section \<open>Failures and retries\<close>

definition getRetryDelay :: "link_cfg \<Rightarrow> data_manager \<Rightarrow> nat" where
  "getRetryDelay c m =
     (let ds = lc_retryDelays c in if dm_retryCount m < length ds then ds ! dm_retryCount m else ds ! (length ds - 1))"

definition handleDialFailure :: "link_cfg \<Rightarrow> unit dact" where
  "handleDialFailure c =
     then_m (setState StateDisconnected) (\<lambda>_.
     then_m (emitEvent EventDialFailed) (\<lambda>_. reading (\<lambda>m.
       if dm_reconfiguring m \<or> \<not> lc_AutoReconnect c \<or> \<not> dm_desired m then pass
       else let delay = getRetryDelay c m in
         then_m (change (\<lambda>m. m\<lparr>dm_retryCount := dm_retryCount m + 1\<rparr>)) (\<lambda>_.
         then_m (when_m (dm_retryCount m + 1 = lc_RadioResetAfter c \<and> \<not> hasActiveManagedPDN (dm_plane m)) (change (noted RadioReset))) (\<lambda>_.
         then_m (emitEvent EventReconnecting) (\<lambda>_.
           change (noted (RetryAfter delay))))))))"

definition dial_failed :: "link_cfg \<Rightarrow> 'a dact \<Rightarrow> 'a dact" where
  "dial_failed c f = try_m f (\<lambda>r. case r of Inr v \<Rightarrow> ret_m (ok v) | Inl x \<Rightarrow> then_m (handleDialFailure c) (\<lambda>_. fails x))"

section \<open>The topology under the connection\<close>

definition plane_cfg :: "link_cfg \<Rightarrow> data_manager \<Rightarrow> plane_config" where
  "plane_cfg c m = \<lparr>pc_NetInterface = lc_NetInterface c, pc_EnableIPv4 = dc_EnableIPv4 (dm_cfg m), pc_EnableIPv6 = dc_EnableIPv6 (dm_cfg m),
     pc_Disabled = lc_Disabled c, pc_DataPlane = lc_DataPlane c\<rparr>"

text \<open>\<^verbatim>\<open>EnsureDataPlaneTopology\<close> while a dial is in progress: the connection is not up, so that no redial follows.\<close>

definition ensure_topology :: "link_cfg \<Rightarrow> data_env \<Rightarrow> unit dact" where
  "ensure_topology c e m =
     (case EnsureDataPlaneTopology (plane_cfg c m) (de_plane e) ((dm_plane m)\<lparr>pl_connected := (dm_state m = StateConnected),
           pl_connectedGeneration := dm_generation m\<rparr>) of
        (r, p) \<Rightarrow> (Some r, m\<lparr>dm_plane := p\<rparr>))"

definition bind_family :: "data_env \<Rightarrow> ipFamily \<Rightarrow> u8 \<Rightarrow> unit dact" where
  "bind_family e f mux = reading (\<lambda>m. when_m (has_wds f m) (ignoring (perform e (BindMux f mux))))"

definition bind_default_mux :: "link_cfg \<Rightarrow> data_env \<Rightarrow> unit dact" where
  "bind_default_mux c e = reading (\<lambda>m.
     let topology = pl_snapshot (dm_plane m); master = pl_masterInterface (dm_plane m) in
     if dp_Mode topology = DataPlaneModeQMAP \<and> dp_DefaultMuxID topology > 0 then
       try_m (query (de_number e) (EndpointOf (if master = [] then lc_NetInterface c else master))) (\<lambda>r.
         case r of
           Inl x \<Rightarrow> fails (errorf ''qmi manager: discover data endpoint'' x)
         | Inr _ \<Rightarrow> then_m (bind_family e familyV4 (dp_DefaultMuxID topology)) (\<lambda>_. bind_family e familyV6 (dp_DefaultMuxID topology)))
     else pass)"

section \<open>Configuring the interface\<close>

text \<open>The prefix length of a mask that \<^verbatim>\<open>IPMask.Size\<close> reads: the leading ones of a canonical mask, else zero.\<close>

definition mask_bits :: "byte list \<Rightarrow> bool list" where
  "mask_bits bs = concat (map (\<lambda>b. map (bit b) [7, 6, 5, 4, 3, 2, 1, 0]) bs)"

definition mask_Size :: "byte list \<Rightarrow> nat" where
  "mask_Size bs =
     (let bits = mask_bits bs; ones = takeWhile id bits in
      if list_all Not (drop (length ones) bits) then length ones else 0)"

definition is_zero_ip :: "net_IP \<Rightarrow> bool" where
  "is_zero_ip ip \<longleftrightarrow> ip = [0, 0, 0, 0] \<or> ip = replicate 10 0 @ [0xFF, 0xFF, 0, 0, 0, 0]"

definition configure_v4 :: "link_cfg \<Rightarrow> data_env \<Rightarrow> string \<Rightarrow> (net_IP \<Rightarrow> string) \<Rightarrow> (int \<times> bool) dact" where
  "configure_v4 c e ifname show_ip = reading (\<lambda>m.
     if \<not> has_wds familyV4 m then ret_m (ok (0, False))
     else try_m (query (de_settings e) (RuntimeSettingsOf familyV4)) (\<lambda>r.
       case r of
         Inl _ \<Rightarrow> ret_m (ok (0, False))
       | Inr st \<Rightarrow>
           then_m (change (\<lambda>m. m\<lparr>dm_settings := Some st\<rparr>)) (\<lambda>_.
             if rt_IPv4Address st = [] then ret_m (ok (0, False))
             else
               let size = mask_Size (rt_IPv4Subnet st); pfx = (if size = 0 then 32 else size) in
               then_m (ignoring (perform e (SetAddress ifname (rt_IPv4Address st) pfx))) (\<lambda>_.
               then_m (when_m (\<not> lc_NoRoute c)
                 (if rt_IPv4Gateway st \<noteq> [] \<and> \<not> is_zero_ip (rt_IPv4Gateway st)
                  then ignoring (perform e (DefaultRoute ifname (rt_IPv4Gateway st)))
                  else ignoring (perform e (DirectRoute ifname False)))) (\<lambda>_.
               then_m (when_m (\<not> lc_NoDNS c \<and> rt_IPv4DNS1 st \<noteq> [])
                 (ignoring (perform e (ResolvConf (show_ip (rt_IPv4DNS1 st)) (if rt_IPv4DNS2 st = [] then [] else show_ip (rt_IPv4DNS2 st)))))) (\<lambda>_.
               ret_m (ok (int (rt_MTU st), True))))))))"

definition merge_v6 :: "RuntimeSettings \<Rightarrow> RuntimeSettings option \<Rightarrow> RuntimeSettings" where
  "merge_v6 v6 old =
     (let base = (case old of Some st \<Rightarrow> st | None \<Rightarrow> empty_RuntimeSettings []) in
      base\<lparr>rt_IPv6Address := rt_IPv6Address v6, rt_IPv6Prefix := rt_IPv6Prefix v6, rt_IPv6Gateway := rt_IPv6Gateway v6,
           rt_IPv6DNS1 := rt_IPv6DNS1 v6, rt_IPv6DNS2 := rt_IPv6DNS2 v6,
           rt_MTU := (if rt_MTU base = 0 then rt_MTU v6 else rt_MTU base)\<rparr>)"

definition configure_v6 :: "link_cfg \<Rightarrow> data_env \<Rightarrow> string \<Rightarrow> (int \<times> bool) dact" where
  "configure_v6 c e ifname = reading (\<lambda>m.
     if \<not> has_wds familyV6 m then ret_m (ok (0, False))
     else try_m (query (de_settings e) (RuntimeSettingsOf familyV6)) (\<lambda>r.
       case r of
         Inl _ \<Rightarrow> ret_m (ok (0, False))
       | Inr v6 \<Rightarrow>
           then_m (change (\<lambda>m. m\<lparr>dm_settings := Some (merge_v6 v6 (dm_settings m))\<rparr>)) (\<lambda>_.
             if rt_IPv6Address v6 = [] then ret_m (ok (0, False))
             else
               then_m (ignoring (perform e (SetAddress6 ifname (rt_IPv6Address v6) (rt_IPv6Prefix v6)))) (\<lambda>_.
               then_m (when_m (\<not> lc_NoRoute c)
                 (if rt_IPv6Gateway v6 \<noteq> [] then ignoring (perform e (DefaultRoute ifname (rt_IPv6Gateway v6)))
                  else ignoring (perform e (DirectRoute ifname True)))) (\<lambda>_.
               ret_m (ok (int (rt_MTU v6), True)))))))"

definition configureNetwork :: "link_cfg \<Rightarrow> data_env \<Rightarrow> (net_IP \<Rightarrow> string) \<Rightarrow> unit dact" where
  "configureNetwork c e show_ip = reading (\<lambda>m.
     let topology = pl_snapshot (dm_plane m);
         ifname = defaultDataInterface c m;
         master = (if pl_masterInterface (dm_plane m) = [] then lc_NetInterface c else pl_masterInterface (dm_plane m)) in
     then_m (when_m (dp_Mode topology = DataPlaneModeQMAP \<and> ifname \<noteq> master) (ignoring (perform e (LinkUp master)))) (\<lambda>_.
     then_m (ignoring (perform e (LinkUp ifname))) (\<lambda>_.
     then_m (configure_v4 c e ifname show_ip) (\<lambda>(mtu4, active4).
     then_m (configure_v6 c e ifname) (\<lambda>(mtu6, active6).
     then_m (ret_m (Some (defaultDataMTU mtu4 mtu6 (dc_MTUv4 (dm_cfg m)) (dc_MTUv6 (dm_cfg m)) active4 active6))) (\<lambda>mtu.
     then_m (if mtu > 0 then try_m (perform e (LinkMTU ifname mtu)) (\<lambda>r.
               case r of Inl _ \<Rightarrow> fails (ErrText ''applying the default data MTU failed'') | Inr _ \<Rightarrow> pass) else pass) (\<lambda>_.
       ignoring (perform e (LinkUp ifname)))))))))"

section \<open>Connecting\<close>

definition dial_family :: "data_env \<Rightarrow> ipFamily \<Rightarrow> u32 dact" where
  "dial_family e f = dialRecoveringNoEffect (startDefaultDataCall e f) (stopExistingPacketDataCall e f)"

definition set_handles :: "dualStackDialResult \<Rightarrow> data_manager \<Rightarrow> data_manager" where
  "set_handles d m = m\<lparr>dm_handleV4 := (if dd_handleV4 d \<noteq> 0 then dd_handleV4 d else dm_handleV4 m),
     dm_handleV6 := (if dd_handleV6 d \<noteq> 0 then dd_handleV6 d else dm_handleV6 m)\<rparr>"

text \<open>Any nil service has been ruled out for at most one of the families. What is only logged about the signal and
  the registration is asked for and ignored.\<close>

definition dial_call :: "data_env \<Rightarrow> unit dact" where
  "dial_call e = reading (\<lambda>m.
     try_m (\<lambda>m. case dialDualStack (dc_EnableIPv4 (dm_cfg m)) (dc_EnableIPv6 (dm_cfg m)) (dial_family e familyV4)
                (if has_wds familyV6 m then Some (dial_family e familyV6) else None) m of
              (None, m1) \<Rightarrow> (None, m1) | (Some d, m1) \<Rightarrow> (ok d, m1)) (\<lambda>r.
       case r of
         Inl x \<Rightarrow> fails x
       | Inr d \<Rightarrow> (case dd_err d of
             Some x \<Rightarrow> fails x
           | None \<Rightarrow> change (set_handles d))))"

definition connected :: "u64 \<Rightarrow> unit dact" where
  "connected generation =
     then_m (setState StateConnected) (\<lambda>_.
     then_m (change (\<lambda>m. m\<lparr>dm_generation := generation, dm_retryCount := 0\<rparr>)) (\<lambda>_.
       emitEvent EventConnected))"

definition connect_body :: "link_cfg \<Rightarrow> data_env \<Rightarrow> (net_IP \<Rightarrow> string) \<Rightarrow> unit dact" where
  "connect_body c e show_ip =
     then_m (setState StateConnecting) (\<lambda>_.
     then_m (dial_failed c (ensure_topology c e)) (\<lambda>_.
     then_m (dial_failed c (reading (\<lambda>m. if \<not> has_wds familyV4 m \<and> \<not> has_wds familyV6 m
        then fails (ErrText ''wds service not available'') else pass))) (\<lambda>_. reading (\<lambda>m.
     let topology = pl_snapshot (dm_plane m) in
     then_m (dial_failed c (bind_default_mux c e)) (\<lambda>_.
     then_m (ignoring (perform e QuerySignalStrength)) (\<lambda>_.
     then_m (ignoring (perform e QueryServingSystem)) (\<lambda>_.
     then_m (ignoring (perform e QueryRegistered)) (\<lambda>_.
     then_m (dial_failed c (dial_call e)) (\<lambda>_.
     then_m (dial_failed c (verifyDefaultDataCurrent e)) (\<lambda>_.
     then_m (dial_failed c (configureNetwork c e show_ip)) (\<lambda>_.
     then_m (dial_failed c (verifyDefaultDataCurrent e)) (\<lambda>_.
       connected (dp_Generation topology)))))))))))))"

definition doConnectLockedContext :: "link_cfg \<Rightarrow> data_env \<Rightarrow> (net_IP \<Rightarrow> string) \<Rightarrow> unit dact" where
  "doConnectLockedContext c e show_ip =
     deferred (cleanupFailedDefaultDataCall c e)
       (then_m (verify_guard e) (\<lambda>_. reading (\<lambda>m.
          if \<not> dm_desired m then pass
          else if dm_state m = StateConnected \<or> dm_state m = StateStopping then pass
          else if dm_state m = StateConnecting then pass
          else connect_body c e show_ip)))"

text \<open>The entry points that the application calls.\<close>

definition Connect :: "link_cfg \<Rightarrow> data_env \<Rightarrow> (net_IP \<Rightarrow> string) \<Rightarrow> unit dact" where
  "Connect c e show_ip = reading (\<lambda>m.
     if \<not> dm_coreReady m then fails (ErrText ''manager core not started'')
     else if dm_state m = StateStopping then fails (ErrText ''manager is stopping'')
     else if dm_state m = StateConnected \<or> dm_state m = StateConnecting then change (\<lambda>m. m\<lparr>dm_desired := True\<rparr>)
     else then_m (change (\<lambda>m. m\<lparr>dm_desired := True\<rparr>)) (\<lambda>_. doConnectLockedContext c e show_ip))"

definition call_active :: "data_manager \<Rightarrow> bool" where
  "call_active m \<longleftrightarrow> dm_handleV4 m \<noteq> 0 \<or> dm_handleV6 m \<noteq> 0 \<or> dm_state m = StateConnected \<or> dm_state m = StateConnecting"

definition Disconnect_call :: "link_cfg \<Rightarrow> data_env \<Rightarrow> unit dact" where
  "Disconnect_call c e = reading (\<lambda>m.
     if \<not> dm_coreReady m then fails (ErrText ''manager core not started'')
     else if dm_state m = StateStopping then fails (ErrText ''manager is stopping'')
     else then_m (change (\<lambda>m. m\<lparr>dm_desired := False\<rparr>)) (\<lambda>_.
       if \<not> call_active m then pass else ignoring (doDisconnectWithContextLocked c e)))"

section \<open>A bearer of the caller's own\<close>

definition ErrInvalidDataConfig :: go_error where "ErrInvalidDataConfig = ErrText ''qmi manager: invalid data config''"
definition ErrDataCallActive :: go_error where "ErrDataCallActive = ErrText ''the default data bearer is still running''"

text \<open>What is taken over for the bearer, and given back when it fails.\<close>

definition install_bearer :: "data_cfg \<Rightarrow> nat option \<Rightarrow> nat option \<Rightarrow> data_manager \<Rightarrow> data_manager" where
  "install_bearer cfg guard verify m =
     m\<lparr>dm_cfg := cfg, dm_desired := True, dm_guard := guard, dm_verify := verify, dm_explicitAuth := True\<rparr>"

definition restore_bearer :: "data_manager \<Rightarrow> data_manager \<Rightarrow> data_manager" where
  "restore_bearer old m =
     m\<lparr>dm_cfg := dm_cfg old, dm_desired := dm_desired old, dm_guard := dm_guard old, dm_verify := dm_verify old,
       dm_explicitAuth := dm_explicitAuth old\<rparr>"

definition mtu_ok :: "int \<Rightarrow> bool" where "mtu_ok n \<longleftrightarrow> 0 \<le> n \<and> n \<le> 65535"

definition bearer_valid :: "data_cfg \<Rightarrow> bool" where
  "bearer_valid cfg \<longleftrightarrow> dc_AuthType cfg \<le> 3 \<and> (dc_EnableIPv4 cfg \<or> dc_EnableIPv6 cfg) \<and> mtu_ok (dc_MTUv4 cfg) \<and> mtu_ok (dc_MTUv6 cfg)"

definition ConnectDefaultDataBearer :: "link_cfg \<Rightarrow> data_env \<Rightarrow> (net_IP \<Rightarrow> string) \<Rightarrow> data_cfg \<Rightarrow> nat option \<Rightarrow> nat option \<Rightarrow> unit dact" where
  "ConnectDefaultDataBearer c e show_ip cfg guard verify =
     (if \<not> bearer_valid cfg then fails ErrInvalidDataConfig
      else then_m (ctx_ok e) (\<lambda>_. reading (\<lambda>old.
        if \<not> dm_coreReady old \<or> dm_state old = StateStopping then fails (ErrText ''default data core not ready'')
        else if call_active old then fails ErrDataCallActive
        else
          then_m (change (install_bearer cfg guard verify)) (\<lambda>_.
            try_m (then_m (doConnectLockedContext c e show_ip) (\<lambda>_. ctx_ok e)) (\<lambda>r.
              case r of
                Inr _ \<Rightarrow> pass
              | Inl x \<Rightarrow>
                  then_m (ignoring (doDisconnectWithContextLocked c e)) (\<lambda>_.
                  then_m (change (restore_bearer old)) (\<lambda>_. fails x)))))))"

section \<open>Another APN or other families\<close>

record DataConfig =
  nc_APN :: string
  nc_EnableIPv4 :: bool
  nc_EnableIPv6 :: bool

definition current_config :: "data_manager \<Rightarrow> DataConfig" where
  "current_config m = \<lparr>nc_APN = dc_APN (dm_cfg m), nc_EnableIPv4 = dc_EnableIPv4 (dm_cfg m), nc_EnableIPv6 = dc_EnableIPv6 (dm_cfg m)\<rparr>"

definition put_config :: "DataConfig \<Rightarrow> data_manager \<Rightarrow> data_manager" where
  "put_config n m = m\<lparr>dm_cfg := (dm_cfg m)\<lparr>dc_APN := nc_APN n, dc_EnableIPv4 := nc_EnableIPv4 n, dc_EnableIPv6 := nc_EnableIPv6 n\<rparr>\<rparr>"

text \<open>The steps of \<^verbatim>\<open>ReconfigureDataConfig\<close> after the call was taken down: \<open>desired\<close> and \<open>old\<close> are what the caller wanted
  and what was configured before. The flag that suppresses retries is cleared by a deferred function, which
  a panic runs too.\<close>

definition clear_reconfiguring :: "data_manager \<Rightarrow> data_manager" where
  "clear_reconfiguring m = m\<lparr>dm_reconfiguring := False\<rparr>"

definition set_desired :: "bool \<Rightarrow> data_manager \<Rightarrow> data_manager" where
  "set_desired b m = m\<lparr>dm_desired := b\<rparr>"

definition always :: "(data_manager \<Rightarrow> data_manager) \<Rightarrow> 'a dact \<Rightarrow> 'a dact" where
  "always u body m = (case body m of (r, m1) \<Rightarrow> (r, u m1))"

definition restorePrevious :: "DataConfig \<Rightarrow> bool \<Rightarrow> data_manager \<Rightarrow> data_manager" where
  "restorePrevious old desired m = set_desired desired (put_config old m)"

definition cleanupAfterFailedRedial :: "link_cfg \<Rightarrow> data_env \<Rightarrow> DataConfig \<Rightarrow> bool \<Rightarrow> unit dact" where
  "cleanupAfterFailedRedial c e old desired =
     then_m (ignoring (doDisconnectWithContextLocked c e)) (\<lambda>_. change (restorePrevious old desired))"

definition or_restore :: "unit dact \<Rightarrow> unit dact \<Rightarrow> unit dact" where
  "or_restore restore f = try_m f (\<lambda>r. case r of Inr _ \<Rightarrow> pass | Inl x \<Rightarrow> then_m restore (\<lambda>_. fails x))"

definition apply_config :: "link_cfg \<Rightarrow> data_env \<Rightarrow> (net_IP \<Rightarrow> string) \<Rightarrow> DataConfig \<Rightarrow> DataConfig \<Rightarrow> bool \<Rightarrow> bool \<Rightarrow> unit dact" where
  "apply_config c e show_ip cfg old active desired =
     then_m (or_restore (change (set_desired desired)) (ctx_ok e)) (\<lambda>_. reading (\<lambda>m.
       if dm_state m = StateStopping then fails (ErrText ''qmi manager: manager is stopping'')
       else
         then_m (change (put_config cfg)) (\<lambda>_.
           if active \<and> desired then
             then_m (or_restore (change (restorePrevious old desired)) (ctx_ok e)) (\<lambda>_.
             then_m (change (set_desired True)) (\<lambda>_.
             or_restore (cleanupAfterFailedRedial c e old desired)
               (then_m (doConnectLockedContext c e show_ip) (\<lambda>_. ctx_ok e))))
           else or_restore (change (restorePrevious old desired)) (ctx_ok e))))"

definition ReconfigureDataConfig :: "link_cfg \<Rightarrow> data_env \<Rightarrow> (net_IP \<Rightarrow> string) \<Rightarrow> DataConfig \<Rightarrow> unit dact" where
  "ReconfigureDataConfig c e show_ip request =
     (if \<not> nc_EnableIPv4 request \<and> \<not> nc_EnableIPv6 request then fails ErrInvalidDataConfig
      else
        let cfg = request\<lparr>nc_APN := TrimSpace (nc_APN request)\<rparr> in reading (\<lambda>m.
          let old = current_config m; desired = dm_desired m; active = call_active m in
          if dm_state m = StateStopping then fails (ErrText ''qmi manager: manager is stopping'')
          else if old = cfg then pass
          else if active then
            then_m (ctx_ok e) (\<lambda>_.
            then_m (change (\<lambda>m. m\<lparr>dm_reconfiguring := True, dm_desired := False\<rparr>)) (\<lambda>_.
            then_m (or_restore (change (\<lambda>m. m\<lparr>dm_reconfiguring := False, dm_desired := desired\<rparr>))
              (doDisconnectWithContextLocked c e)) (\<lambda>_.
            always clear_reconfiguring (apply_config c e show_ip cfg old active desired))))
          else
            then_m (change (\<lambda>m. m\<lparr>dm_reconfiguring := True\<rparr>)) (\<lambda>_.
            always clear_reconfiguring (apply_config c e show_ip cfg old active desired))))"

section \<open>A new address\<close>

definition stop_ignoring :: "data_env \<Rightarrow> ipFamily \<Rightarrow> (data_manager \<Rightarrow> u32) \<Rightarrow> (data_manager \<Rightarrow> data_manager) \<Rightarrow> unit dact" where
  "stop_ignoring e f handle clear = reading (\<lambda>m.
     if handle m \<noteq> 0 \<and> has_wds f m
     then then_m (ignoring (perform e (StopNetwork f (handle m)))) (\<lambda>_. change clear) else pass)"

definition redialIPv6 :: "data_env \<Rightarrow> unit dact" where
  "redialIPv6 e =
     try_m (verifyDefaultDataCurrent e) (\<lambda>r.
       case r of
         Inl _ \<Rightarrow> pass
       | Inr _ \<Rightarrow> reading (\<lambda>m.
           if \<not> dc_EnableIPv6 (dm_cfg m) \<or> \<not> has_wds familyV6 m then pass
           else
             then_m (stop_ignoring e familyV6 dm_handleV6 clear_v6) (\<lambda>_.
             try_m (startDefaultDataCall e familyV6) (\<lambda>r.
               case r of Inl _ \<Rightarrow> pass | Inr handle \<Rightarrow> change (\<lambda>m. m\<lparr>dm_handleV6 := handle\<rparr>)))))"

definition ip_text :: "(net_IP \<Rightarrow> string) \<Rightarrow> data_manager \<Rightarrow> string" where
  "ip_text show_ip m = (case dm_settings m of
     Some st \<Rightarrow> if rt_IPv4Address st = [] then [] else show_ip (rt_IPv4Address st) | None \<Rightarrow> [])"

definition ErrRotateBlockedBySecondaryPDN :: go_error where
  "ErrRotateBlockedBySecondaryPDN = ErrText ''qmi manager: IP rotation requires a radio reset, blocked by an active secondary PDN''"

text \<open>The common end of both rotations: the call is dialled, the network configured.\<close>

definition after_redial :: "link_cfg \<Rightarrow> data_env \<Rightarrow> (net_IP \<Rightarrow> string) \<Rightarrow> u32 \<Rightarrow> unit dact" where
  "after_redial c e show_ip handle =
     then_m (change (\<lambda>m. m\<lparr>dm_handleV4 := handle\<rparr>)) (\<lambda>_.
     then_m (redialIPv6 e) (\<lambda>_.
     then_m (verifyDefaultDataCurrent e) (\<lambda>_.
     then_m (configureNetwork c e show_ip) (\<lambda>_.
     then_m (verifyDefaultDataCurrent e) (\<lambda>_.
     then_m (setState StateConnected) (\<lambda>_. change (\<lambda>m. m\<lparr>dm_retryCount := 0\<rparr>)))))))"

definition stop_both :: "link_cfg \<Rightarrow> data_env \<Rightarrow> unit dact" where
  "stop_both c e =
     then_m (stop_ignoring e familyV4 dm_handleV4 clear_v4) (\<lambda>_.
     then_m (stop_ignoring e familyV6 dm_handleV6 clear_v6) (\<lambda>_. flushDefaultDataAddresses c e))"

definition rotateViaRadioReset :: "link_cfg \<Rightarrow> data_env \<Rightarrow> (net_IP \<Rightarrow> string) \<Rightarrow> unit dact" where
  "rotateViaRadioReset c e show_ip =
     deferred (cleanupFailedDefaultDataCall c e)
       (then_m (verifyDefaultDataCurrent e) (\<lambda>_. reading (\<lambda>m.
          if hasActiveManagedPDN (dm_plane m) then fails ErrRotateBlockedBySecondaryPDN
          else
            then_m (stop_both c e) (\<lambda>_.
            then_m (ignoring (perform e RadioCycle)) (\<lambda>_.
            then_m (perform e AwaitRegistration) (\<lambda>_.
            then_m (try_m (startDefaultDataCall e familyV4) (\<lambda>r.
                case r of Inl x \<Rightarrow> fails (errorf ''redial after radio reset failed'' x) | Inr h \<Rightarrow> ret_m (ok h))) (\<lambda>handle.
            then_m (after_redial c e show_ip handle) (\<lambda>_. emitEvent EventIPChanged))))))))"

definition rotate_body :: "link_cfg \<Rightarrow> data_env \<Rightarrow> (net_IP \<Rightarrow> string) \<Rightarrow> unit dact" where
  "rotate_body c e show_ip = reading (\<lambda>m.
     let oldIP = ip_text show_ip m in
     then_m (stop_both c e) (\<lambda>_.
     try_m (startDefaultDataCall e familyV4) (\<lambda>r.
       case r of
         Inl _ \<Rightarrow> rotateViaRadioReset c e show_ip
       | Inr handle \<Rightarrow>
           try_m (query (de_settings e) (RuntimeSettingsOf familyV4)) (\<lambda>s.
             if (case s of Inr st \<Rightarrow> rt_IPv4Address st \<noteq> [] \<and> show_ip (rt_IPv4Address st) = oldIP | Inl _ \<Rightarrow> False)
             then then_m (ignoring (perform e (StopNetwork familyV4 handle))) (\<lambda>_. rotateViaRadioReset c e show_ip)
             else then_m (after_redial c e show_ip handle) (\<lambda>_. reading (\<lambda>m.
               if oldIP = ip_text show_ip m then rotateViaRadioReset c e show_ip else emitEvent EventIPChanged))))))"

definition RotateIP :: "link_cfg \<Rightarrow> data_env \<Rightarrow> (net_IP \<Rightarrow> string) \<Rightarrow> unit dact" where
  "RotateIP c e show_ip =
     deferred (cleanupFailedDefaultDataCall c e)
       (then_m (verifyDefaultDataCurrent e) (\<lambda>_. reading (\<lambda>m.
          if dm_state m \<noteq> StateConnected then fails (ErrText ''not connected, cannot rotate IP'')
          else then_m (change (\<lambda>m. m\<lparr>dm_rotating := True\<rparr>)) (\<lambda>_.
            always (\<lambda>m. m\<lparr>dm_rotating := False\<rparr>) (rotate_body c e show_ip)))))"

section \<open>Watching the connection\<close>

text \<open>\<^verbatim>\<open>net.IP.Equal\<close>: an address of four bytes and its mapped form of sixteen are the same.\<close>

definition ip4_of :: "net_IP \<Rightarrow> byte list" where
  "ip4_of ip = (if length ip = 16 \<and> take 12 ip = replicate 10 0 @ [0xFF, 0xFF] then drop 12 ip else ip)"

definition ip_Equal :: "net_IP \<Rightarrow> net_IP \<Rightarrow> bool" where
  "ip_Equal a b \<longleftrightarrow> ip4_of a = ip4_of b"

definition verifyIPConsistency :: "data_env \<Rightarrow> unit dact" where
  "verifyIPConsistency e = reading (\<lambda>m.
     case dm_settings m of
       None \<Rightarrow> pass
     | Some st \<Rightarrow>
         if \<not> has_wds familyV4 m \<or> dm_handleV4 m = 0 then pass
         else then_m (query (de_settings e) (RuntimeSettingsOf familyV4)) (\<lambda>new.
           if \<not> ip_Equal (rt_IPv4Address new) (rt_IPv4Address st) then fails (ErrText ''local IP differs from the IP of the modem'') else pass))"

text \<open>The event that reconnects is sent to the queue of the event loop, here by the event loop itself.\<close>

definition reconnect_event :: "link_cfg \<Rightarrow> bool \<Rightarrow> unit dact" where
  "reconnect_event c desired = reading (\<lambda>m.
     if lc_AutoReconnect c \<and> desired \<and> dm_state m \<noteq> StateStopping
     then then_m (emitEvent EventReconnecting) (\<lambda>_. change (noted StartEvent)) else pass)"

definition connection_restored :: "link_cfg \<Rightarrow> data_env \<Rightarrow> (net_IP \<Rightarrow> string) \<Rightarrow> unit dact" where
  "connection_restored c e show_ip =
     then_m (ignoring (configureNetwork c e show_ip)) (\<lambda>_.
     then_m (setState StateConnected) (\<lambda>_.
     then_m (change (\<lambda>m. m\<lparr>dm_retryCount := 0\<rparr>)) (\<lambda>_. emitEvent EventConnected)))"

definition still_connected :: "link_cfg \<Rightarrow> data_env \<Rightarrow> bool \<Rightarrow> bool \<Rightarrow> unit dact" where
  "still_connected c e checkIP desired =
     (if \<not> checkIP then pass
      else try_m (verifyIPConsistency e) (\<lambda>r.
        case r of
          Inr _ \<Rightarrow> pass
        | Inl _ \<Rightarrow> then_m (ignoring (doDisconnectWithContextLocked c e)) (\<lambda>_. reconnect_event c desired)))"

definition connection_lost :: "link_cfg \<Rightarrow> data_env \<Rightarrow> bool \<Rightarrow> unit dact" where
  "connection_lost c e desired =
     then_m (change (\<lambda>m. m\<lparr>dm_handleV4 := 0, dm_handleV6 := 0\<rparr>)) (\<lambda>_.
     then_m (flushDefaultDataAddresses c e) (\<lambda>_.
     then_m (setState StateDisconnected) (\<lambda>_.
     then_m (emitEvent EventDisconnected) (\<lambda>_. reconnect_event c desired))))"

text \<open>\<open>due\<close>: the last comparison of addresses is older than the interval of the configuration.\<close>

definition doStatusCheck :: "link_cfg \<Rightarrow> data_env \<Rightarrow> (net_IP \<Rightarrow> string) \<Rightarrow> bool \<Rightarrow> bool \<Rightarrow> unit dact" where
  "doStatusCheck c e show_ip due full = reading (\<lambda>m.
     let currentState = dm_state m; desired = dm_desired m in
     if dm_rotating m then pass
     else if currentState = StateStopping \<or> currentState = StateDisconnected then pass
     else if \<not> pl_client (dm_plane m) then pass
     else
       then_m (when_m full (ignoring (perform e QuerySignalStrength))) (\<lambda>_.
       then_m (when_m full (ignoring (perform e QueryServingSystem))) (\<lambda>_.
       try_m (getPacketServiceState e) (\<lambda>r.
         case r of
           Inl _ \<Rightarrow> pass
         | Inr status \<Rightarrow>
             if status = 2 then
               (if currentState \<noteq> StateConnected then connection_restored c e show_ip
                else still_connected c e (full \<or> due) desired)
             else if status = 1 then
               (if currentState = StateConnected then connection_lost c e desired else pass)
             else pass))))"

section \<open>An earlier connection, and the APN in use\<close>

definition packetServiceStatusHasDataCall :: "u8 \<Rightarrow> bool" where
  "packetServiceStatusHasDataCall status \<longleftrightarrow> status \<in> {2, 3, 4}"

text \<open>\<open>ResetExistingDataConnection\<close>, on the WDS service of the manager, or on one that is allocated for it and closed at
  the end.\<close>

definition reset_with_service :: "(data_env \<Rightarrow> u8 dact) \<Rightarrow> (data_env \<Rightarrow> unit dact) \<Rightarrow> data_env \<Rightarrow> bool dact" where
  "reset_with_service packet_status stop_existing e =
     try_m (packet_status e) (\<lambda>r.
       case r of
         Inl x \<Rightarrow> fails (errorf ''query existing packet service status'' x)
       | Inr status \<Rightarrow>
           if \<not> packetServiceStatusHasDataCall status then ret_m (ok False)
           else try_m (stop_existing e) (\<lambda>r.
             case r of
               Inl x \<Rightarrow> fails (errorf ''stop existing qmi data call'' x)
             | Inr _ \<Rightarrow> try_m (packet_status e) (\<lambda>r.
                 case r of
                   Inl x \<Rightarrow> fails (errorf ''verify existing packet service status after stop'' x)
                 | Inr status \<Rightarrow>
                     if packetServiceStatusHasDataCall status then fails (ErrText ''existing qmi data call still connected after stop'')
                     else then_m (change (\<lambda>m. m\<lparr>dm_handleV4 := 0, dm_handleV6 := 0, dm_settings := None, dm_desired := False,
                            dm_state := (if dm_state m = StateConnected \<or> dm_state m = StateConnecting then StateDisconnected else dm_state m)\<rparr>))
                          (\<lambda>_. ret_m (ok True)))))"

text \<open>The history does not tell a temporary service from the manager's: the operations name the IPv4 family.\<close>

definition existing_status :: "data_env \<Rightarrow> u8 dact" where
  "existing_status e = query (de_status e) (PacketStatus familyV4)"

definition existing_stop :: "data_env \<Rightarrow> unit dact" where
  "existing_stop e = try_m (perform e (StopAny familyV4)) (\<lambda>r.
     case r of Inr _ \<Rightarrow> pass | Inl err \<Rightarrow> if isExistingDataStopNoopError err then pass else fails err)"

definition ResetExistingDataConnection :: "data_env \<Rightarrow> unit dact \<Rightarrow> unit dact \<Rightarrow> bool dact" where
  "ResetExistingDataConnection e create_wds close_wds = reading (\<lambda>m.
     if \<not> dm_coreReady m \<or> \<not> pl_client (dm_plane m) then fails (ErrServiceNotReady ''qmi-core'')
     else if has_wds familyV4 m then reset_with_service existing_status existing_stop e
     else try_m create_wds (\<lambda>r.
       case r of
         Inl x \<Rightarrow> fails (errorf ''allocate WDS client for existing data cleanup'' x)
       | Inr _ \<Rightarrow> deferred (\<lambda>_. ignoring close_wds) (reset_with_service existing_status existing_stop e)))"

definition inactive :: "string \<Rightarrow> go_error" where "inactive what = ErrText (''selected APN: '' @ what)"

definition ReadSelectedDataAPN :: "data_env \<Rightarrow> (ipFamily \<Rightarrow> string dact) \<Rightarrow> bool \<Rightarrow> string dact" where
  "ReadSelectedDataAPN e read_apn lock_free =
     (if \<not> lock_free then fails (inactive ''default data operation in progress'')
      else then_m (ctx_ok e) (\<lambda>_. reading (\<lambda>m.
        if dm_state m \<noteq> StateConnected then fails (inactive ''no connected default data call'')
        else
          let selected = (if dm_handleV4 m \<noteq> 0 \<and> has_wds familyV4 m then familyV4
                          else if dm_handleV6 m \<noteq> 0 \<and> has_wds familyV6 m then familyV6 else familyNone) in
          if selected = familyNone then fails (inactive ''no owned default data handle'')
          else try_m (query (de_status e) (PacketStatus selected)) (\<lambda>r.
            if r \<noteq> Inr 2 then fails (inactive ''default data call inactive'')
            else then_m (read_apn selected) (\<lambda>apn.
              try_m (query (de_status e) (PacketStatus selected)) (\<lambda>r.
                if r \<noteq> Inr 2 then fails (inactive ''default data call changed during read'')
                else reading (\<lambda>n.
                  if dm_state n = StateConnected \<and> has_wds familyV4 n = has_wds familyV4 m \<and> has_wds familyV6 n = has_wds familyV6 m \<and>
                     dm_handleV4 n = dm_handleV4 m \<and> dm_handleV6 n = dm_handleV6 m
                  then ret_m (ok apn)
                  else fails (inactive ''default data identity changed during read''))))))))"

end
