(* ===== verification/DataCallProofs.thy ===== *)
theory DataCallProofs
  imports DataCall
begin

text \<open>
  What the operations of theory DataCall guarantee: a bearer and a reconfiguration take effect or restore what was there
  before, a failed call leaves no handle, no operation resets the radio under a secondary PDN. The locale
  \<open>connection_view\<close> states on what the operations of a connection may not depend; it is interpreted on the caller's
  wishes and, with its extension \<open>link_view\<close>, on the radio.
\<close>

section \<open>What the operations of a connection leave alone\<close>

text \<open>A view of the manager is stable under an action when the action does not change it, where it satisfies \<open>P\<close>.\<close>

definition stable :: "('v \<Rightarrow> bool) \<Rightarrow> (data_manager \<Rightarrow> 'v) \<Rightarrow> (data_manager \<Rightarrow> 'a option \<times> data_manager) \<Rightarrow> bool" where
  "stable P view f \<longleftrightarrow> (\<forall>m. P (view m) \<longrightarrow> view (snd (f m)) = view m)"

lemma stable_try: "stable P view f \<Longrightarrow> (\<And>r. stable P view (g r)) \<Longrightarrow> stable P view (try_m f g)"
proof -
  assume f: "stable P view f" and g: "\<And>r. stable P view (g r)"
  have "view (snd (try_m f g m)) = view m" if "P (view m)" for m
    using f[unfolded stable_def, rule_format, OF that] g[unfolded stable_def, rule_format] that
    by (auto simp: try_m_def split: prod.split option.split)
  then show "stable P view (try_m f g)" by (simp add: stable_def)
qed

lemma stable_ret: "stable P view (ret_m r)"
  by (simp add: stable_def ret_m_def)

lemma stable_then: "stable P view f \<Longrightarrow> (\<And>v. stable P view (g v)) \<Longrightarrow> stable P view (then_m f g)"
  unfolding then_m_def by (rule stable_try) (auto simp: stable_def split: sum.split)

lemma stable_reading: "(\<And>m. P (view m) \<Longrightarrow> stable P view (f m)) \<Longrightarrow> stable P view (reading f)"
  by (auto simp: stable_def reading_def)

lemma stable_self: "(\<And>m. P (view m) \<Longrightarrow> stable P view (f m)) \<Longrightarrow> stable P view (\<lambda>m. f m m)"
  by (auto simp: stable_def)

lemma stable_change: "(\<And>m. P (view m) \<Longrightarrow> view (u m) = view m) \<Longrightarrow> stable P view (change u)"
  by (simp add: stable_def change_def)

lemma stable_pure: "stable P view (fails x)" "stable P view pass" "stable P view (ctx_ok e)"
  by (simp_all add: stable_def fails_def pass_def ret_m_def ctx_ok_def split: option.split)

lemma stable_ignoring: "stable P view f \<Longrightarrow> stable P view (ignoring f)"
  unfolding ignoring_def by (intro stable_try stable_ret)

lemma stable_when: "(b \<Longrightarrow> stable P view f) \<Longrightarrow> stable P view (when_m b f)"
  by (simp add: when_m_def stable_pure)

lemma stable_if: "(b \<Longrightarrow> stable P view f) \<Longrightarrow> (\<not> b \<Longrightarrow> stable P view g) \<Longrightarrow> stable P view (if b then f else g)"
  by simp

lemma stable_sum: "(\<And>x. stable P view (f x)) \<Longrightarrow> (\<And>v. stable P view (g v)) \<Longrightarrow> stable P view (case r of Inl x \<Rightarrow> f x | Inr v \<Rightarrow> g v)"
  by (cases r) simp_all

lemma stable_option: "stable P view f \<Longrightarrow> (\<And>v. stable P view (g v)) \<Longrightarrow> stable P view (case r of None \<Rightarrow> f | Some v \<Rightarrow> g v)"
  by (cases r) simp_all

lemma stable_deferred: "stable P view f \<Longrightarrow> (\<And>r. stable P view (g r)) \<Longrightarrow> stable P view (deferred g f)"
proof -
  assume f: "stable P view f" and g: "\<And>r. stable P view (g r)"
  have "view (snd (deferred g f m)) = view m" if "P (view m)" for m
  proof (cases "f m")
    case (Pair r n)
    have "view n = view m"
      using f[unfolded stable_def, rule_format, OF that] Pair by simp
    then show ?thesis
      using g[unfolded stable_def, rule_format, of n r] that Pair
      by (cases "g r n") (auto simp: deferred_def split: option.split)
  qed
  then show "stable P view (deferred g f)" by (simp add: stable_def)
qed

lemma stable_always: "stable P view f \<Longrightarrow> (\<And>m. P (view m) \<Longrightarrow> view (u m) = view m) \<Longrightarrow> stable P view (always u f)"
  by (auto simp: stable_def always_def split: prod.split)

lemma stable_on_wds: "stable P view f \<Longrightarrow> stable P view (on_wds g f)"
  by (simp add: stable_def on_wds_def)

lemmas stable_rules = stable_then stable_try stable_reading stable_ret stable_pure stable_ignoring stable_when stable_if stable_sum
  stable_option stable_on_wds

text \<open>The laws of a view on which the operations of the connection may rest: it does not depend on the connection
  itself, nor on the calls that are \<open>benign\<close>; where a secondary PDN is active, a radio reset need not be.\<close>

locale connection_view =
  fixes view :: "data_manager \<Rightarrow> 'v" and P :: "'v \<Rightarrow> bool" and benign :: "dcall \<Rightarrow> bool"
  assumes view_noted: "benign c \<Longrightarrow> view (noted c m) = view m"
    and view_state: "view (m\<lparr>dm_state := s\<rparr>) = view m"
    and view_handleV4: "view (m\<lparr>dm_handleV4 := h\<rparr>) = view m"
    and view_handleV6: "view (m\<lparr>dm_handleV6 := h\<rparr>) = view m"
    and view_settings: "view (m\<lparr>dm_settings := st\<rparr>) = view m"
    and view_generation: "view (m\<lparr>dm_generation := g\<rparr>) = view m"
    and view_retryCount: "view (m\<lparr>dm_retryCount := n\<rparr>) = view m"
    and view_rotating: "view (m\<lparr>dm_rotating := b\<rparr>) = view m"
    and view_plane: "pl_sessions q = pl_sessions (dm_plane m) \<Longrightarrow> view (m\<lparr>dm_plane := q\<rparr>) = view m"
    and benign: "c \<noteq> RadioReset \<Longrightarrow> c \<noteq> RadioCycle \<Longrightarrow> benign c"
    and radio: "P (view m) \<Longrightarrow> \<not> hasActiveManagedPDN (dm_plane m) \<Longrightarrow> benign c"
begin

lemmas view_simps = view_state view_handleV4 view_handleV6 view_settings view_generation view_retryCount view_rotating

lemma st_query: "benign c \<Longrightarrow> stable P view (query reply c)"
  by (simp add: stable_def query_def view_noted)

lemma st_perform: "benign c \<Longrightarrow> stable P view (perform e c)"
  by (simp add: perform_def st_query)

lemma st_setState: "stable P view (setState s)"
  unfolding setState_def by (rule stable_change) (simp add: view_simps)

lemma st_emit: "stable P view (emitEvent t)"
  unfolding emitEvent_def by (rule stable_change) (simp add: view_noted benign)

lemma st_guard: "stable P view (verify_guard e)"
  unfolding verify_guard_def
  by (intro stable_reading stable_option stable_pure) (simp add: stable_def view_noted benign Let_def)

lemma st_verify: "stable P view (verifyDefaultDataCurrent e)"
  unfolding verifyDefaultDataCurrent_def by (intro stable_rules st_guard st_perform benign) simp_all

lemma st_start: "stable P view (startDefaultDataCall e f)"
  unfolding startDefaultDataCall_def by (intro stable_rules st_verify st_query st_perform benign) simp_all

lemma st_stop_existing: "stable P view (stopExistingPacketDataCall e f)"
  unfolding stopExistingPacketDataCall_def by (intro stable_rules st_perform benign) simp_all

lemma st_packet_state: "stable P view (getPacketServiceState e)"
  unfolding getPacketServiceState_def
  by (intro stable_reading) (auto intro: stable_pure st_query benign split: ipFamily.split)

lemma st_flush: "stable P view (flushDefaultDataAddresses c e)"
  unfolding flushDefaultDataAddresses_def by (intro stable_rules st_perform benign) simp_all

lemma st_teardown: "stable P view (teardownDefaultDataInterface c e)"
  unfolding teardownDefaultDataInterface_def Let_def by (intro stable_rules st_perform benign) simp_all

lemma st_clear: "stable P view (change clear_v4)" "stable P view (change clear_v6)"
  by (rule stable_change, simp add: clear_v4_def clear_v6_def view_simps)+

lemma st_stop_family: "stable P view (change clear) \<Longrightarrow> stable P view (stop_family e f handle clear what)"
  unfolding stop_family_def by (intro stable_rules st_perform benign) simp_all

lemma st_forget: "stable P view (change (\<lambda>m. m\<lparr>dm_settings := None, dm_generation := 0\<rparr>))"
  by (rule stable_change) (simp only: view_simps)

lemma st_disconnect: "stable P view (doDisconnectWithContextLocked c e)"
  unfolding doDisconnectWithContextLocked_def
  by (intro stable_then st_stop_family st_clear st_teardown st_setState st_emit stable_ret st_forget)

lemma st_cleanup_failed: "stable P view (cleanupFailedDefaultDataCall c e r)"
  unfolding cleanupFailedDefaultDataCall_def
  by (intro stable_reading stable_option stable_pure stable_sum stable_if stable_ignoring st_disconnect)

lemma st_dial_failure: "stable P view (handleDialFailure c)"
proof -
  have reset: "stable P view (when_m (b \<and> \<not> hasActiveManagedPDN (dm_plane m)) (change (noted RadioReset)))" if "P (view m)" for b m
    by (intro stable_when stable_change view_noted radio[OF that]) simp
  show ?thesis
    unfolding handleDialFailure_def Let_def
    by (intro stable_then st_setState st_emit stable_reading stable_if stable_pure stable_change reset)
      (simp_all add: view_simps view_noted benign)
qed

lemma st_dial_failed: "stable P view f \<Longrightarrow> stable P view (dial_failed c f)"
  unfolding dial_failed_def by (intro stable_rules st_dial_failure)

lemma st_ensure: "stable P view (ensure_topology c e)"
  unfolding stable_def
proof (intro allI impI)
  fix m :: data_manager
  let ?p = "(dm_plane m)\<lparr>pl_connected := (dm_state m = StateConnected), pl_connectedGeneration := dm_generation m\<rparr>"
  obtain r q where run: "ConvergeDataPlane (plane_cfg c m) (de_plane e) (declaredDataPlaneSpec (plane_cfg c m) ?p) ?p = (r, q)"
    by (cases "ConvergeDataPlane (plane_cfg c m) (de_plane e) (declaredDataPlaneSpec (plane_cfg c m) ?p) ?p")
  from quietD[OF quiet_converge refl run] have "pl_sessions q = pl_sessions (dm_plane m)" by auto
  then show "view (snd (ensure_topology c e m)) = view m"
    by (cases r) (simp_all add: ensure_topology_def EnsureDataPlaneTopology_def and_then_def run finished_def view_plane)
qed

lemma st_bind_family: "stable P view (bind_family e f mux)"
  unfolding bind_family_def by (intro stable_rules st_perform benign) simp_all

lemma st_bind_default: "stable P view (bind_default_mux c e)"
  unfolding bind_default_mux_def Let_def by (intro stable_rules st_bind_family st_query benign) simp_all

lemma st_settings_change: "stable P view (change (\<lambda>m. m\<lparr>dm_settings := f m\<rparr>))"
  by (rule stable_change) (simp add: view_simps)

lemma st_configure_v4: "stable P view (configure_v4 c e ifname show_ip)"
  unfolding configure_v4_def Let_def
  by (intro stable_rules st_settings_change st_query st_perform benign) simp_all

lemma st_configure_v6: "stable P view (configure_v6 c e ifname)"
  unfolding configure_v6_def Let_def
  by (intro stable_rules st_settings_change st_query st_perform benign) simp_all

lemma stable_pair: "(\<And>a b. stable P view (f a b)) \<Longrightarrow> stable P view (case x of (a, b) \<Rightarrow> f a b)"
  by (cases x) simp

lemma st_configure: "stable P view (configureNetwork c e show_ip)"
  unfolding configureNetwork_def Let_def
  by (intro stable_rules stable_pair st_configure_v4 st_configure_v6 st_perform benign) simp_all

lemma st_dial_family: "stable P view (dial_family e f)"
  unfolding dial_family_def dialRecoveringNoEffect_def
  by (intro stable_rules st_start st_stop_existing)

lemma st_dual: "stable P view f \<Longrightarrow> (\<And>g. d = Some g \<Longrightarrow> stable P view g) \<Longrightarrow> stable P view (dialDualStack b4 b6 f d)"
  unfolding dialDualStack_def by (cases d) (auto intro!: stable_try stable_ret)

lemma st_caught: "stable P view f \<Longrightarrow> stable P view (\<lambda>m. case f m of (None, m1) \<Rightarrow> (None, m1) | (Some r, m1) \<Rightarrow> (ok r, m1))"
  unfolding stable_def by (auto split: prod.split option.split)

lemma st_handles: "stable P view (change (set_handles d))"
  by (rule stable_change) (simp add: set_handles_def view_simps)

lemma st_dials: "stable P view (\<lambda>m. dialDualStack (b4 m) (b6 m) (dial_family e familyV4)
    (if has_wds familyV6 m then Some (dial_family e familyV6) else None) m)"
  by (rule stable_self, rule st_dual) (auto split: if_splits intro: st_dial_family)

lemma st_dial_call: "stable P view (dial_call e)"
  unfolding dial_call_def
  by (intro stable_reading stable_try st_caught st_dials stable_sum stable_option stable_pure st_handles)

lemma st_generation: "stable P view (change (\<lambda>m. m\<lparr>dm_generation := g, dm_retryCount := n\<rparr>))"
  by (rule stable_change) (simp only: view_simps)

lemma st_connected: "stable P view (connected g)"
  unfolding connected_def by (intro stable_then st_setState st_generation st_emit)

lemma st_connect_body: "stable P view (connect_body c e show_ip)"
  unfolding connect_body_def Let_def
  by (intro stable_then stable_reading stable_if stable_pure stable_ignoring st_setState st_dial_failed st_ensure st_bind_default
      st_perform st_dial_call st_verify st_configure st_connected benign) simp_all

lemma st_connect: "stable P view (doConnectLockedContext c e show_ip)"
  unfolding doConnectLockedContext_def
  by (intro stable_deferred st_cleanup_failed stable_then st_guard stable_reading stable_if stable_pure st_connect_body)

lemma st_stop_ignoring: "stable P view (change clear) \<Longrightarrow> stable P view (stop_ignoring e f handle clear)"
  unfolding stop_ignoring_def by (intro stable_rules st_perform benign) simp_all

lemma st_handle_change: "stable P view (change (\<lambda>m. m\<lparr>dm_handleV4 := h\<rparr>))" "stable P view (change (\<lambda>m. m\<lparr>dm_handleV6 := h\<rparr>))"
  by (rule stable_change, simp add: view_simps)+

lemma st_redialIPv6: "stable P view (redialIPv6 e)"
  unfolding redialIPv6_def
  by (intro stable_try st_verify stable_sum stable_pure stable_reading stable_if stable_then st_stop_ignoring st_clear st_start st_handle_change)

lemma st_retryCount: "stable P view (change (\<lambda>m. m\<lparr>dm_retryCount := n\<rparr>))"
  by (rule stable_change) (simp add: view_simps)

lemma st_after_redial: "stable P view (after_redial c e show_ip handle)"
  unfolding after_redial_def
  by (intro stable_then st_handle_change st_redialIPv6 st_verify st_configure st_setState st_retryCount)

lemma st_stop_both: "stable P view (stop_both c e)"
  unfolding stop_both_def by (intro stable_then st_stop_ignoring st_clear st_flush)

lemma st_reset_cycle: "P (view m) \<Longrightarrow> \<not> hasActiveManagedPDN (dm_plane m) \<Longrightarrow> stable P view (perform e RadioCycle)"
  by (intro st_perform radio)

lemma st_rotate_radio: "stable P view (rotateViaRadioReset c e show_ip)"
  unfolding rotateViaRadioReset_def
  by (intro stable_deferred st_cleanup_failed stable_then st_verify stable_reading stable_if stable_pure st_stop_both stable_ignoring
      st_reset_cycle st_perform stable_try st_start stable_sum stable_ret st_after_redial st_emit) (auto intro: benign)

lemma st_rotate_body: "stable P view (rotate_body c e show_ip)"
  unfolding rotate_body_def Let_def
  by (intro stable_then stable_reading stable_try st_stop_both st_start stable_sum st_rotate_radio st_query stable_if stable_ignoring
      st_perform st_after_redial st_emit benign) simp_all

lemma st_rotating: "P (view m) \<Longrightarrow> view (m\<lparr>dm_rotating := b\<rparr>) = view m"
  by (simp add: view_simps)

lemma st_rotate: "stable P view (RotateIP c e show_ip)"
  unfolding RotateIP_def
  by (intro stable_deferred st_cleanup_failed stable_then st_verify stable_reading stable_if stable_pure stable_change stable_always
      st_rotating st_rotate_body)

lemma st_verify_ip: "stable P view (verifyIPConsistency e)"
  unfolding verifyIPConsistency_def by (intro stable_rules st_query benign) simp_all

lemma st_note: "c \<noteq> RadioReset \<Longrightarrow> c \<noteq> RadioCycle \<Longrightarrow> stable P view (change (noted c))"
  by (intro stable_change view_noted benign)

lemma st_reconnect: "stable P view (reconnect_event c desired)"
  unfolding reconnect_event_def by (intro stable_reading stable_if stable_then st_emit st_note stable_pure) simp_all

lemma st_lost: "stable P view (change (\<lambda>m. m\<lparr>dm_handleV4 := 0, dm_handleV6 := 0\<rparr>))"
  by (rule stable_change) (simp only: view_simps)

lemma st_status_check: "stable P view (doStatusCheck c e show_ip due full)"
  unfolding doStatusCheck_def connection_restored_def still_connected_def connection_lost_def Let_def
  by (intro stable_reading stable_if stable_pure stable_then stable_when stable_ignoring st_perform stable_try st_packet_state stable_sum
      st_configure st_setState st_retryCount st_emit st_verify_ip st_disconnect st_reconnect st_lost st_flush benign) simp_all

end

section \<open>Entry points that change the configuration\<close>

text \<open>A view that the configuration, the wish to connect and the caller's guards do not show either.\<close>

locale link_view = connection_view +
  assumes view_cfg: "view (m\<lparr>dm_cfg := x\<rparr>) = view m"
    and view_desired: "view (m\<lparr>dm_desired := b\<rparr>) = view m"
    and view_guard: "view (m\<lparr>dm_guard := g\<rparr>) = view m"
    and view_verify: "view (m\<lparr>dm_verify := g\<rparr>) = view m"
    and view_explicit: "view (m\<lparr>dm_explicitAuth := b\<rparr>) = view m"
    and view_reconfiguring: "view (m\<lparr>dm_reconfiguring := b\<rparr>) = view m"
begin

lemmas link_simps = view_simps view_cfg view_desired view_guard view_verify view_explicit view_reconfiguring

lemma st_desired: "stable P view (change (\<lambda>m. m\<lparr>dm_desired := b\<rparr>))"
  by (rule stable_change) (simp add: link_simps)

lemma st_Connect: "stable P view (Connect c e show_ip)"
  unfolding Connect_def by (intro stable_reading stable_if stable_pure stable_then st_desired st_connect)

lemma st_Disconnect: "stable P view (Disconnect_call c e)"
  unfolding Disconnect_call_def
  by (intro stable_reading stable_if stable_pure stable_then st_desired stable_ignoring st_disconnect)

lemma st_bearer: "stable P view (ConnectDefaultDataBearer c e show_ip cfg guard verify)"
proof -
  have "stable P view (change (install_bearer cfg guard verify))" "stable P view (change (restore_bearer m))" for m
    by (rule stable_change, simp add: install_bearer_def restore_bearer_def link_simps)+
  then show ?thesis
    unfolding ConnectDefaultDataBearer_def
    by (intro stable_if stable_pure stable_then stable_reading stable_try st_connect stable_sum stable_ignoring st_disconnect)
qed

lemma stable_or_restore: "stable P view f \<Longrightarrow> stable P view g \<Longrightarrow> stable P view (or_restore f g)"
  unfolding or_restore_def by (intro stable_try stable_sum stable_pure stable_then)

lemma st_restore: "stable P view (change (set_desired b))" "stable P view (change (put_config n))"
    "stable P view (change (restorePrevious n b))"
  by (rule stable_change, simp add: set_desired_def put_config_def restorePrevious_def link_simps)+

lemma st_failed_redial: "stable P view (cleanupAfterFailedRedial c e old b)"
  unfolding cleanupAfterFailedRedial_def by (intro stable_then stable_ignoring st_disconnect st_restore)

lemma st_apply: "stable P view (apply_config c e show_ip cfg old active desired)"
  unfolding apply_config_def
  by (intro stable_then stable_or_restore st_restore stable_pure stable_reading stable_if st_failed_redial st_connect)

lemma st_both: "stable P view (change (\<lambda>m. m\<lparr>dm_reconfiguring := a, dm_desired := b\<rparr>))"
    "stable P view (change (\<lambda>m. m\<lparr>dm_reconfiguring := a\<rparr>))"
  by (rule stable_change, simp only: link_simps)+

lemma st_reconfigure: "stable P view (ReconfigureDataConfig c e show_ip request)"
  unfolding ReconfigureDataConfig_def Let_def
  by (intro stable_if stable_pure stable_reading stable_then st_both stable_or_restore st_disconnect stable_always st_apply)
    (simp_all add: clear_reconfiguring_def link_simps)

end

section \<open>No radio reset under a secondary PDN\<close>

definition resets_radio :: "dcall \<Rightarrow> bool" where
  "resets_radio c \<longleftrightarrow> c = RadioReset \<or> c = RadioCycle"

definition radio_view :: "data_manager \<Rightarrow> (u64 \<times> managedPDNSession) list \<times> dcall list" where
  "radio_view m = (pl_sessions (dm_plane m), filter resets_radio (dm_hist m))"

interpretation radio: link_view radio_view "\<lambda>v. fst v \<noteq> []" "Not \<circ> resets_radio"
  by unfold_locales (auto simp: radio_view_def noted_def resets_radio_def hasActiveManagedPDN_def)

text \<open>What a caller has asked for, and what is kept for the calls to come.\<close>

definition wishes :: "data_manager \<Rightarrow> data_cfg \<times> bool \<times> nat option \<times> nat option \<times> bool \<times> bool \<times> bool" where
  "wishes m = (dm_cfg m, dm_desired m, dm_guard m, dm_verify m, dm_explicitAuth m, dm_reconfiguring m, dm_coreReady m)"

interpretation wish: connection_view wishes "\<lambda>_. True" "\<lambda>_. True"
  by unfold_locales (simp_all add: wishes_def noted_def)

datatype data_operation =
    DoConnect data_cfg "nat option" "nat option" | DoReconfigure DataConfig | DoConnectDefault | DoDisconnect
  | DoRotate | DoStatusCheck bool bool

definition run_operation :: "link_cfg \<Rightarrow> data_env \<Rightarrow> (net_IP \<Rightarrow> string) \<Rightarrow> data_operation \<Rightarrow> unit dact" where
  "run_operation c e show_ip op =
     (case op of
        DoConnect cfg guard verify \<Rightarrow> ConnectDefaultDataBearer c e show_ip cfg guard verify
      | DoReconfigure request \<Rightarrow> ReconfigureDataConfig c e show_ip request
      | DoConnectDefault \<Rightarrow> Connect c e show_ip
      | DoDisconnect \<Rightarrow> Disconnect_call c e
      | DoRotate \<Rightarrow> RotateIP c e show_ip
      | DoStatusCheck due full \<Rightarrow> doStatusCheck c e show_ip due full)"

lemma operations_stable: "stable (\<lambda>v. fst v \<noteq> []) radio_view (run_operation c e show_ip op)"
  by (cases op) (simp_all add: run_operation_def radio.st_bearer radio.st_reconfigure radio.st_Connect radio.st_Disconnect
      radio.st_rotate radio.st_status_check)

text \<open>C16: Whatever sequence of operations the application runs on the default connection, and whatever the modem answers:
  while a secondary PDN is open, none of them resets the radio, and the sessions stay as they are.\<close>

theorem no_radio_reset_with_pdn:
  assumes open_pdn: "pl_sessions (dm_plane m) \<noteq> []"
    and reached: "foldl (\<lambda>n op. snd (run_operation c e show_ip op n)) m ops = n"
  shows "filter resets_radio (dm_hist n) = filter resets_radio (dm_hist m) \<and> pl_sessions (dm_plane n) = pl_sessions (dm_plane m)"
proof -
  have "radio_view n = radio_view m"
    using open_pdn reached
  proof (induction ops arbitrary: m)
    case (Cons op ops)
    have "radio_view (snd (run_operation c e show_ip op m)) = radio_view m"
      using operations_stable Cons.prems(1) by (simp add: stable_def radio_view_def)
    moreover have "radio_view n = radio_view (snd (run_operation c e show_ip op m))"
      using Cons.IH[of "snd (run_operation c e show_ip op m)"] Cons.prems calculation by (simp add: radio_view_def)
    ultimately show ?case by simp
  qed (simp add: radio_view_def)
  then show ?thesis by (simp add: radio_view_def)
qed

section \<open>A call is taken down completely\<close>

definition call_gone :: "data_manager \<Rightarrow> bool" where
  "call_gone m \<longleftrightarrow> dm_handleV4 m = 0 \<and> dm_handleV6 m = 0 \<and> dm_state m = StateDisconnected \<and> dm_settings m = None \<and> dm_generation m = 0"

lemma perform_result: "\<exists>r. perform e c m = (Some r, noted c m)"
  by (simp add: perform_def query_def)

lemma ignoring_perform: "ignoring (perform e c) m = (ok (), noted c m)"
  by (simp add: ignoring_def perform_def query_def try_m_def ret_m_def)

lemma then_ok: "f m = (ok v, n) \<Longrightarrow> then_m f g m = g v n"
  by (simp add: then_m_def try_m_def ok_def)

lemma stop_family_result: "\<exists>errs n. stop_family e f handle clear what m = (ok errs, n) \<and>
    (n = m \<and> handle m = 0 \<or> n = clear m \<or> (\<exists>c. n = clear (noted c m)))"
  by (auto simp: stop_family_def reading_def try_m_def then_m_def ret_m_def pass_def change_def perform_def query_def ok_def)

lemma disconnect_result: "\<exists>r n. doDisconnectWithContextLocked c e m = (Some r, n) \<and> call_gone n"
proof -
  obtain errs4 m4 where a: "stop_family e familyV4 dm_handleV4 clear_v4 ''stop IPv4 data call'' m = (ok errs4, m4)" "dm_handleV4 m4 = 0"
    using stop_family_result[of e familyV4 dm_handleV4 clear_v4 "''stop IPv4 data call''" m] by (auto simp: clear_v4_def noted_def)
  obtain errs6 m6 where b: "stop_family e familyV6 dm_handleV6 clear_v6 ''stop IPv6 data call'' m4 = (ok errs6, m6)"
      "dm_handleV4 m6 = 0" "dm_handleV6 m6 = 0"
    using stop_family_result[of e familyV6 dm_handleV6 clear_v6 "''stop IPv6 data call''" m4] a(2) by (auto simp: clear_v6_def noted_def)
  show ?thesis
    by (simp add: doDisconnectWithContextLocked_def a(1)[unfolded ok_def] b(1)[unfolded ok_def] teardownDefaultDataInterface_def
        Let_def reading_def ignoring_perform then_m_def try_m_def ok_def change_def setState_def emitEvent_def ret_m_def call_gone_def
        noted_def b)
qed

lemma ignored_disconnect: "\<exists>n. ignoring (doDisconnectWithContextLocked c e) m = (ok (), n) \<and> call_gone n \<and>
    wishes n = wishes m"
proof -
  obtain r n where n: "doDisconnectWithContextLocked c e m = (Some r, n)" "call_gone n" using disconnect_result by blast
  moreover have "wishes n = wishes m"
    using wish.st_disconnect[of c e] n(1) by (simp add: stable_def, metis snd_conv)
  ultimately show ?thesis by (simp add: ignoring_def try_m_def ret_m_def)
qed

lemma keeps_wishes: "stable (\<lambda>_. True) wishes f \<Longrightarrow> f m = (r, n) \<Longrightarrow> wishes n = wishes m"
  by (metis stable_def snd_conv)

section \<open>A bearer or a configuration takes effect or leaves nothing behind\<close>

lemma then_succeeds:
  assumes "then_m f g m = (Some (Inr v), n)"
  obtains x m1 where "f m = (Some (Inr x), m1)" "g x m1 = (Some (Inr v), n)"
  using assms by (auto simp: then_m_def try_m_def split: prod.splits option.splits sum.splits)

lemma guard_result: "verify_guard e m = (Some (Inr ()), n) \<Longrightarrow> dm_state n = dm_state m \<and> wishes n = wishes m"
  by (auto simp: verify_guard_def reading_def pass_def ret_m_def ok_def Let_def noted_def wishes_def split: option.splits if_splits)

lemma connected_state: "connected g m = (r, n) \<Longrightarrow> dm_state n = StateConnected"
  by (auto simp: connected_def then_m_def try_m_def setState_def change_def emitEvent_def noted_def ok_def)

lemma reading_eq: "reading f m = f m m"
  by (simp add: reading_def)

lemma connect_body_succeeds: "connect_body c e show_ip m = (Some (Inr ()), n) \<Longrightarrow> dm_state n = StateConnected"
  unfolding connect_body_def Let_def
  by (elim then_succeeds; (simp only: reading_eq)?)+ (erule connected_state)

lemma deferred_result:
  "deferred clean body m = (Some r, n) \<Longrightarrow> \<exists>m1 x. body m = (Some r, m1) \<and> clean (Some r) m1 = (Some x, n)"
  by (auto simp: deferred_def split: prod.splits option.splits)

lemma connect_succeeds:
  assumes "doConnectLockedContext c e show_ip m = (Some (Inr ()), n)" "dm_desired m" "dm_state m = StateDisconnected"
  shows "dm_state n = StateConnected"
proof -
  let ?body = "then_m (verify_guard e) (\<lambda>_. reading (\<lambda>m.
          if \<not> dm_desired m then pass
          else if dm_state m = StateConnected \<or> dm_state m = StateStopping then pass
          else if dm_state m = StateConnecting then pass
          else connect_body c e show_ip))"
  from assms(1)[unfolded doConnectLockedContext_def, THEN deferred_result]
  obtain m1 x where body: "?body m = (Some (Inr ()), m1)" and clean: "cleanupFailedDefaultDataCall c e (Some (Inr ())) m1 = (Some x, n)" by blast
  from clean have n: "n = m1" by (simp add: cleanupFailedDefaultDataCall_def reading_def pass_def ret_m_def)
  from body obtain m2 where guard: "verify_guard e m = (Some (Inr ()), m2)"
    and rest: "(if \<not> dm_desired m2 then pass
          else if dm_state m2 = StateConnected \<or> dm_state m2 = StateStopping then pass
          else if dm_state m2 = StateConnecting then pass
          else connect_body c e show_ip) m2 = (Some (Inr ()), m1)"
    by (elim then_succeeds) (simp add: reading_eq)
  from guard_result[OF guard] assms have "dm_desired m2" "dm_state m2 = StateDisconnected" by (simp_all add: wishes_def)
  with rest have "connect_body c e show_ip m2 = (Some (Inr ()), m1)" by simp
  then show ?thesis using n connect_body_succeeds by simp
qed

lemma ctx_ok_state: "snd (ctx_ok e m) = m"
  by (simp add: ctx_ok_def split: option.split)

lemma dial_and_check:
  assumes "then_m (doConnectLockedContext c e show_ip) (\<lambda>_. ctx_ok e) m = (Some r, n)"
  shows "wishes n = wishes m"
    and "r = Inr () \<Longrightarrow> dm_desired m \<Longrightarrow> dm_state m = StateDisconnected \<Longrightarrow> dm_state n = StateConnected"
proof -
  have "stable (\<lambda>_. True) wishes (then_m (doConnectLockedContext c e show_ip) (\<lambda>_. ctx_ok e))"
    by (intro stable_then wish.st_connect stable_pure)
  then show "wishes n = wishes m" using assms keeps_wishes by blast
  assume s: "r = Inr ()" "dm_desired m" "dm_state m = StateDisconnected"
  with assms obtain x m1 where a: "doConnectLockedContext c e show_ip m = (Some (Inr x), m1)" "ctx_ok e m1 = (Some (Inr ()), n)"
    by (auto elim: then_succeeds)
  then have "n = m1" using ctx_ok_state[of e m1] by simp
  with a s connect_succeeds show "dm_state n = StateConnected" by simp
qed

lemma idle_state: "\<not> call_active m \<Longrightarrow> dm_state m \<noteq> StateStopping \<Longrightarrow> dm_state m = StateDisconnected"
  by (cases "dm_state m") (auto simp: call_active_def)

text \<open>C13: The caller's own bearer comes up with exactly the configuration and the guards that were passed, or the wishes of
  the manager are as they were: nothing was touched, or no handle, setting or connection is left of the attempt.\<close>

theorem bearer_atomic:
  assumes "ConnectDefaultDataBearer c e show_ip cfg guard verify m = (Some r, n)"
  shows "case r of
      Inr _ \<Rightarrow> dm_state n = StateConnected \<and> wishes n = wishes (install_bearer cfg guard verify m)
    | Inl _ \<Rightarrow> wishes n = wishes m \<and> (n = m \<or> call_gone n)"
proof (cases "\<not> bearer_valid cfg \<or> de_ctx e (dm_hist m) \<noteq> None \<or> \<not> dm_coreReady m \<or> dm_state m = StateStopping \<or> call_active m")
  case True
  with assms show ?thesis
    by (auto simp: ConnectDefaultDataBearer_def fails_def ret_m_def then_m_def try_m_def ctx_ok_def reading_def ok_def
        split: if_splits option.splits)
next
  case False
  then have idle: "dm_state m = StateDisconnected" using idle_state by blast
  let ?m = "install_bearer cfg guard verify m"
  let ?dial = "then_m (doConnectLockedContext c e show_ip) (\<lambda>_. ctx_ok e)"
  obtain s m1 where dial: "?dial ?m = (s, m1)" by (cases "?dial ?m")
  from False assms dial obtain x where s: "s = Some x"
    by (cases s) (auto simp: ConnectDefaultDataBearer_def then_m_def[of "ctx_ok e"] then_m_def[of "change _"] try_m_def ctx_ok_def reading_def ok_def
        change_def)
  note kept = dial_and_check[OF dial[unfolded s]]
  from False assms have run: "(case x of Inr _ \<Rightarrow> pass | Inl y \<Rightarrow>
                  then_m (ignoring (doDisconnectWithContextLocked c e)) (\<lambda>_.
                  then_m (change (restore_bearer m)) (\<lambda>_. fails y))) m1 = (Some r, n)"
    using dial s by (auto simp: ConnectDefaultDataBearer_def then_m_def[of "ctx_ok e"] then_m_def[of "change (install_bearer _ _ _)"] try_m_def ctx_ok_def
        reading_def ok_def change_def)
  show ?thesis
  proof (cases x)
    case (Inr v)
    then have "dm_state m1 = StateConnected" using kept(2) idle by (simp add: install_bearer_def)
    then show ?thesis using run Inr kept(1) by (auto simp: pass_def ret_m_def ok_def)
  next
    case (Inl y)
    obtain m2 where m2: "ignoring (doDisconnectWithContextLocked c e) m1 = (ok (), m2)" "call_gone m2" "wishes m2 = wishes m1"
      using ignored_disconnect by blast
    have "r = Inl y \<and> n = restore_bearer m m2"
      using run Inl m2(1) by (simp add: then_m_def try_m_def ok_def change_def fails_def ret_m_def)
    moreover have "call_gone (restore_bearer m m2)" using m2(2) by (simp add: call_gone_def restore_bearer_def)
    moreover have "wishes (restore_bearer m m2) = wishes m"
      using m2(3) kept(1) by (simp add: wishes_def restore_bearer_def install_bearer_def)
    ultimately show ?thesis by simp
  qed
qed

lemma or_restore_result:
  assumes "or_restore restore f m = (Some r, n)"
  obtains v where "f m = (Some (Inr v), n)" "r = Inr ()"
  | x m1 where "f m = (Some (Inl x), m1)" "then_m restore (\<lambda>_. fails x) m1 = (Some r, n)"
  using assms by (auto simp: or_restore_def try_m_def pass_def ret_m_def ok_def split: prod.splits option.splits sum.splits)

lemma change_fails: "then_m (change u) (\<lambda>_. fails x) m = (Some (Inl x), u m)"
  by (simp add: then_m_def try_m_def change_def ok_def fails_def ret_m_def)

lemma then_change: "then_m (change u) g m = g () (u m)"
  by (simp add: then_m_def try_m_def change_def ok_def)

lemma wishes_simps [simp]:
  "wishes (m\<lparr>dm_state := s\<rparr>) = wishes m" "wishes (noted c m) = wishes m"
  by (simp_all add: wishes_def noted_def)

text \<open>What a reconfiguration is to leave behind: the new selection, or the wishes and the configuration from before.\<close>

definition settled :: "DataConfig \<Rightarrow> bool \<Rightarrow> data_manager \<Rightarrow> unit parsed \<Rightarrow> data_manager \<Rightarrow> bool" where
  "settled cfg redial m r n =
     (case r of
        None \<Rightarrow> True
      | Some (Inr _) \<Rightarrow> wishes n = wishes (put_config cfg m) \<and> (redial \<longrightarrow> dm_state n = StateConnected)
      | Some (Inl _) \<Rightarrow> wishes n = wishes m)"

lemma failed_redial_result:
  "\<exists>n. cleanupAfterFailedRedial c e old desired m = (ok (), restorePrevious old desired n) \<and> call_gone n \<and> wishes n = wishes m"
proof -
  obtain n where "ignoring (doDisconnectWithContextLocked c e) m = (ok (), n)" "call_gone n" "wishes n = wishes m"
    using ignored_disconnect by blast
  then show ?thesis by (auto simp: cleanupAfterFailedRedial_def then_m_def try_m_def change_def ok_def)
qed

text \<open>The second half runs in a state \<open>a\<close> in which the call is down: its wishes are those of \<open>m\<close>, but for the wish to connect, which
  is suspended while a call is replaced, and for the flag that suppresses retries.\<close>

lemma restore_wishes:
  assumes "wishes a = wishes (b\<lparr>dm_reconfiguring := True, dm_desired := x\<rparr>)" "\<not> dm_reconfiguring b"
  shows "wishes (clear_reconfiguring (restorePrevious (current_config b) (dm_desired b) a)) = wishes b"
    and "wishes (clear_reconfiguring (restorePrevious (current_config b) (dm_desired b) (put_config cfg a))) = wishes b"
    and "wishes (clear_reconfiguring (set_desired (dm_desired b) a)) = wishes b"
    and "wishes (clear_reconfiguring (put_config cfg (set_desired (dm_desired b) a))) = wishes (put_config cfg b)"
  using assms
  by (simp_all add: wishes_def clear_reconfiguring_def restorePrevious_def set_desired_def put_config_def current_config_def)

lemma ctx_result: "ctx_ok e m = (r, n) \<Longrightarrow> n = m"
  using ctx_ok_state[of e m] by simp

lemma apply_config_settled:
  assumes start: "wishes a = wishes (b\<lparr>dm_reconfiguring := True, dm_desired := (dm_desired b \<and> \<not> active)\<rparr>)" "\<not> dm_reconfiguring b"
    and state: "dm_state a \<noteq> StateStopping" "active \<Longrightarrow> dm_state a = StateDisconnected"
    and run: "apply_config c e show_ip cfg (current_config b) active (dm_desired b) a = (r, n)"
  shows "settled cfg (active \<and> dm_desired b) b r (clear_reconfiguring n)"
proof (cases "de_ctx e (dm_hist a)")
  case (Some x)
  then have "r = Some (Inl x) \<and> n = set_desired (dm_desired b) a"
    using run by (simp add: apply_config_def or_restore_def ctx_ok_def then_m_def try_m_def change_def ok_def fails_def ret_m_def)
  then show ?thesis using restore_wishes(3)[OF start] by (simp add: settled_def)
next
  case None
  let ?a = "put_config cfg a"
  have alive: "de_ctx e (dm_hist ?a) = None" using None by (simp add: put_config_def)
  have first: "or_restore (change u) (ctx_ok e) a' = (ok (), a')" if "de_ctx e (dm_hist a') = None" for a' u
    using that by (simp add: or_restore_def ctx_ok_def try_m_def pass_def ret_m_def ok_def)
  have checked: "then_m (or_restore (change u) (ctx_ok e)) g a' = g () a'" if "de_ctx e (dm_hist a') = None" for a' u and g :: "unit \<Rightarrow> unit dact"
    using first[OF that] by (rule then_ok)
  have whole: "(if active \<and> dm_desired b then
             then_m (or_restore (change (restorePrevious (current_config b) (dm_desired b))) (ctx_ok e)) (\<lambda>_.
             then_m (change (set_desired True)) (\<lambda>_.
             or_restore (cleanupAfterFailedRedial c e (current_config b) (dm_desired b))
               (then_m (doConnectLockedContext c e show_ip) (\<lambda>_. ctx_ok e))))
           else or_restore (change (restorePrevious (current_config b) (dm_desired b))) (ctx_ok e)) ?a = (r, n)"
    using run state(1)
    by (simp add: apply_config_def checked[OF None] reading_eq then_change)
  show ?thesis
  proof (cases "active \<and> dm_desired b")
    case False
    with whole have "r = ok () \<and> n = ?a" by (simp add: first[OF alive])
    moreover have "wishes (clear_reconfiguring ?a) = wishes (put_config cfg b)"
      using restore_wishes(4)[OF start] start False by (auto simp: wishes_def clear_reconfiguring_def put_config_def set_desired_def)
    ultimately show ?thesis using False by (auto simp: settled_def ok_def)
  next
    case True
    let ?d = "set_desired True ?a"
    have redial: "or_restore (cleanupAfterFailedRedial c e (current_config b) (dm_desired b))
               (then_m (doConnectLockedContext c e show_ip) (\<lambda>_. ctx_ok e)) ?d = (r, n)"
      using whole True by (simp add: checked[OF alive] then_change)
    have d: "dm_desired ?d" "dm_state ?d = StateDisconnected" using state(2) True by (simp_all add: set_desired_def put_config_def)
    show ?thesis
    proof (cases r)
      case (Some s)
      from redial[unfolded Some] show ?thesis
      proof (cases rule: or_restore_result)
        case (1 v)
        have "wishes n = wishes ?d" "dm_state n = StateConnected" using dial_and_check[OF 1(1)] d by simp_all
        moreover have "wishes (clear_reconfiguring n) = wishes (put_config cfg b)"
          using calculation(1) start True by (simp add: wishes_def clear_reconfiguring_def put_config_def set_desired_def)
        ultimately show ?thesis using 1(2) Some True by (simp add: settled_def clear_reconfiguring_def)
      next
        case (2 x m1)
        obtain k where k: "cleanupAfterFailedRedial c e (current_config b) (dm_desired b) m1 =
            (ok (), restorePrevious (current_config b) (dm_desired b) k)" "wishes k = wishes m1"
          using failed_redial_result by blast
        then have n: "s = Inl x \<and> n = restorePrevious (current_config b) (dm_desired b) k"
          using 2(2) by (simp add: then_m_def try_m_def ok_def fails_def ret_m_def)
        have "wishes k = wishes ?d" using dial_and_check(1)[OF 2(1)] k(2) by simp
        then have "wishes (clear_reconfiguring n) = wishes b"
          using n start True by (simp add: wishes_def clear_reconfiguring_def put_config_def set_desired_def restorePrevious_def current_config_def)
        then show ?thesis using n Some by (simp add: settled_def)
      qed
    qed (simp add: settled_def)
  qed
qed

definition rest_of :: "link_cfg \<Rightarrow> data_env \<Rightarrow> (net_IP \<Rightarrow> string) \<Rightarrow> DataConfig \<Rightarrow> data_manager \<Rightarrow> unit dact" where
  "rest_of c e show_ip cfg m =
     always clear_reconfiguring (apply_config c e show_ip cfg (current_config m) (call_active m) (dm_desired m))"

lemma rest_settled:
  assumes run: "rest_of c e show_ip cfg m a = (Some r, n)" and calm: "\<not> dm_reconfiguring m"
    and start: "wishes a = wishes (m\<lparr>dm_reconfiguring := True, dm_desired := (dm_desired m \<and> \<not> call_active m)\<rparr>)"
    and state: "dm_state a \<noteq> StateStopping" "call_active m \<Longrightarrow> dm_state a = StateDisconnected"
  shows "settled cfg (call_active m \<and> dm_desired m) m (Some r) n"
proof -
  obtain k where "apply_config c e show_ip cfg (current_config m) (call_active m) (dm_desired m) a = (Some r, k)" "n = clear_reconfiguring k"
    using run by (cases "apply_config c e show_ip cfg (current_config m) (call_active m) (dm_desired m) a")
      (simp add: rest_of_def always_def)
  then show ?thesis using apply_config_settled[OF start calm state] by blast
qed

lemma reconfigure_active:
  assumes run: "then_m (ctx_ok e) (\<lambda>_. then_m (change (\<lambda>m. m\<lparr>dm_reconfiguring := True, dm_desired := False\<rparr>)) (\<lambda>_.
            then_m (or_restore (change (\<lambda>m'. m'\<lparr>dm_reconfiguring := False, dm_desired := dm_desired m\<rparr>))
              (doDisconnectWithContextLocked c e)) (\<lambda>_. rest_of c e show_ip cfg m))) m = (Some r, n)"
    and calm: "\<not> dm_reconfiguring m" and active: "call_active m"
  shows "settled cfg (dm_desired m) m (Some r) n"
proof (cases "de_ctx e (dm_hist m)")
  case (Some x)
  with run have "r = Inl x \<and> n = m" by (simp add: then_m_def try_m_def ctx_ok_def)
  then show ?thesis by (simp add: settled_def)
next
  case None
  let ?m = "m\<lparr>dm_reconfiguring := True, dm_desired := False\<rparr>"
  obtain s k where k: "doDisconnectWithContextLocked c e ?m = (Some s, k)" "call_gone k" using disconnect_result by blast
  have wk: "wishes k = wishes ?m" using keeps_wishes[OF wish.st_disconnect k(1)] .
  have disc: "then_m (or_restore (change (\<lambda>m'. m'\<lparr>dm_reconfiguring := False, dm_desired := dm_desired m\<rparr>))
              (doDisconnectWithContextLocked c e)) (\<lambda>_. rest_of c e show_ip cfg m) ?m = (Some r, n)"
    using run None by (simp add: then_m_def[of "ctx_ok e"] then_change try_m_def ctx_ok_def ok_def)
  show ?thesis
  proof (cases s)
    case (Inl x)
    then have "r = Inl x \<and> n = k\<lparr>dm_reconfiguring := False, dm_desired := dm_desired m\<rparr>"
      using disc k(1) by (simp add: or_restore_def then_m_def try_m_def change_def ok_def fails_def ret_m_def)
    then show ?thesis using wk calm by (simp add: wishes_def settled_def)
  next
    case (Inr v)
    then have "rest_of c e show_ip cfg m k = (Some r, n)"
      using disc k(1) by (simp add: or_restore_def then_m_def try_m_def pass_def ok_def ret_m_def)
    then show ?thesis
      using rest_settled[of c e show_ip cfg m k r n] calm active wk k(2) by (simp add: call_gone_def wishes_def)
  qed
qed

text \<open>C17: Reconfiguring is a transaction on the wishes of the manager. A reconfiguration that fails on the way restores the
  configuration, the wish to connect and the flag that suppresses retries; one that returns nil has changed exactly the
  three fields, and where a call was running and wanted it is up again.\<close>

theorem reconfigure_atomic:
  assumes run: "ReconfigureDataConfig c e show_ip request m = (Some r, n)" and calm: "\<not> dm_reconfiguring m"
  shows "case r of
      Inr _ \<Rightarrow> wishes n = wishes (put_config (request\<lparr>nc_APN := TrimSpace (nc_APN request)\<rparr>) m) \<and>
        (n = m \<or> (call_active m \<and> dm_desired m \<longrightarrow> dm_state n = StateConnected))
    | Inl _ \<Rightarrow> wishes n = wishes m"
proof -
  let ?cfg = "request\<lparr>nc_APN := TrimSpace (nc_APN request)\<rparr>"
  consider (invalid) "\<not> nc_EnableIPv4 request \<and> \<not> nc_EnableIPv6 request"
    | (early) "dm_state m = StateStopping \<or> current_config m = ?cfg" "nc_EnableIPv4 request \<or> nc_EnableIPv6 request"
    | (change_it) "nc_EnableIPv4 request \<or> nc_EnableIPv6 request" "dm_state m \<noteq> StateStopping" "current_config m \<noteq> ?cfg" by blast
  then show ?thesis
  proof cases
    case invalid
    with run show ?thesis by (auto simp: ReconfigureDataConfig_def fails_def ret_m_def)
  next
    case early
    with run have "(\<exists>x. r = Inl x) \<and> n = m \<or> r = Inr () \<and> n = m \<and> current_config m = ?cfg"
      by (auto simp: ReconfigureDataConfig_def Let_def reading_eq fails_def pass_def ret_m_def ok_def split: if_splits)
    moreover have "wishes (put_config (current_config m) m) = wishes m"
      by (simp add: wishes_def put_config_def current_config_def)
    ultimately show ?thesis by (elim disjE) auto
  next
    case change_it
    then have valid: "(\<not> nc_EnableIPv4 request \<and> \<not> nc_EnableIPv6 request) = False" by simp
    note run = run[unfolded ReconfigureDataConfig_def valid if_False Let_def reading_eq]
    have "settled ?cfg (call_active m \<and> dm_desired m) m (Some r) n"
    proof (cases "call_active m")
      case True
      then have "settled ?cfg (dm_desired m) m (Some r) n"
        using run change_it calm
        by (intro reconfigure_active[where c = c and e = e and show_ip = show_ip]) (simp_all add: rest_of_def)
      then show ?thesis using True by simp
    next
      case False
      have "rest_of c e show_ip ?cfg m (m\<lparr>dm_reconfiguring := True\<rparr>) = (Some r, n)"
        using run change_it False by (simp add: then_change rest_of_def)
      then show ?thesis using False change_it calm by (intro rest_settled[where a = "m\<lparr>dm_reconfiguring := True\<rparr>"]) (simp_all add: wishes_def)
    qed
    then show ?thesis by (cases r) (simp_all add: settled_def)
  qed
qed

section \<open>Families, the MTU, and private bearers\<close>

definition handle_of :: "go_error + u32 \<Rightarrow> u32" where
  "handle_of r = (case r of Inr h \<Rightarrow> h | Inl _ \<Rightarrow> 0)"

definition succeeded :: "go_error + u32 \<Rightarrow> bool" where
  "succeeded r = (case r of Inr _ \<Rightarrow> True | Inl _ \<Rightarrow> False)"

text \<open>Both families are dialled, IPv4 first, whatever the first one returns; the connection fails only when every family
  that is enabled fails, and a family that was not dialled has no handle.\<close>

theorem dialDualStack_spec:
  assumes "b4 \<or> b6"
    and v4: "b4 \<Longrightarrow> dialV4 m = (Some r4, m4)" and v6: "b6 \<Longrightarrow> dialV6 (if b4 then m4 else m) = (Some r6, m6)"
  shows "\<exists>d. dialDualStack b4 b6 dialV4 (Some dialV6) m = (Some d, if b6 then m6 else m4) \<and>
    (dd_err d = None \<longleftrightarrow> b4 \<and> succeeded r4 \<or> b6 \<and> succeeded r6) \<and>
    dd_handleV4 d = (if b4 then handle_of r4 else 0) \<and> dd_handleV6 d = (if b6 then handle_of r6 else 0)"
  using assms
  by (auto simp: dialDualStack_def try_m_def ret_m_def ok_def dial_outcome_def handle_of_def succeeded_def split: sum.split)

text \<open>What a family asks for: the MTU of the network, else the one that was configured for it.\<close>

definition wanted_mtu :: "bool \<Rightarrow> int \<Rightarrow> int \<Rightarrow> int" where
  "wanted_mtu active network fallback = (if \<not> active then 0 else if network > 0 then network else fallback)"

definition least_mtu :: "int \<Rightarrow> int \<Rightarrow> int" where
  "least_mtu a b = (if a \<le> 0 then max 0 b else if b \<le> 0 then a else min a b)"

text \<open>C35: The MTU of the link is the smallest that the active families ask for, zero when none does; the network may not announce
  more than 65535, and IPv6 needs at least 1280.\<close>

theorem defaultDataMTU_least:
  "defaultDataMTU network4 network6 fallback4 fallback6 v4 v6 = Inr mtu \<longleftrightarrow>
     \<not> (v4 \<and> network4 > 65535) \<and> \<not> (v6 \<and> network6 > 65535) \<and>
     mtu = least_mtu (wanted_mtu v4 network4 fallback4) (wanted_mtu v6 network6 fallback6) \<and>
     \<not> (v6 \<and> 0 < mtu \<and> mtu < 1280)"
  by (auto simp: defaultDataMTU_def mtu_step_def bind_res_def Let_def wanted_mtu_def least_mtu_def)

lemma released:
  fixes body :: "unit dact"
  assumes "deferred (cleanupFailedDefaultDataCall c e) body m = (Some (Inl x), n)" "wishes n = wishes m" "dm_explicitAuth m"
  shows "dm_handleV4 n = 0 \<and> dm_handleV6 n = 0"
proof -
  obtain m1 y where clean: "cleanupFailedDefaultDataCall c e (Some (Inl x) :: unit parsed) m1 = (Some y, n)"
    using deferred_result[OF assms(1)] by blast
  have "wishes n = wishes m1" using clean keeps_wishes[OF wish.st_cleanup_failed] by blast
  then have "dm_explicitAuth m1" using assms(2,3) by (simp add: wishes_def)
  moreover obtain k where "ignoring (doDisconnectWithContextLocked c e) m1 = (ok (), k)" "call_gone k"
    using ignored_disconnect by blast
  ultimately show ?thesis using clean
    by (auto simp: cleanupFailedDefaultDataCall_def reading_def pass_def ret_m_def call_gone_def split: if_splits)
qed

text \<open>C33: A call that was dialled with a caller's credentials and fails, in the first connection or in a rotation, leaves no
  handle behind.\<close>

theorem private_bearer_released:
  assumes "dm_explicitAuth m"
    and "doConnectLockedContext c e show_ip m = (Some (Inl x), n) \<or> RotateIP c e show_ip m = (Some (Inl x), n)"
  shows "dm_handleV4 n = 0 \<and> dm_handleV6 n = 0"
  using assms(2)
proof
  assume dial: "doConnectLockedContext c e show_ip m = (Some (Inl x), n)"
  show ?thesis
    by (rule released[OF dial[unfolded doConnectLockedContext_def] keeps_wishes[OF wish.st_connect dial] assms(1)])
next
  assume rotate: "RotateIP c e show_ip m = (Some (Inl x), n)"
  show ?thesis
    by (rule released[OF rotate[unfolded RotateIP_def] keeps_wishes[OF wish.st_rotate rotate] assms(1)])
qed

section \<open>A modem that answers\<close>

definition demo_data_cfg :: "bool \<Rightarrow> bool \<Rightarrow> data_cfg" where
  "demo_data_cfg v4 v6 = \<lparr>dc_APN = ''internet'', dc_Username = [], dc_Password = [], dc_AuthType = 0, dc_EnableIPv4 = v4,
     dc_EnableIPv6 = v6, dc_MTUv4 = 0, dc_MTUv6 = 0\<rparr>"

definition demo_link :: link_cfg where
  "demo_link = \<lparr>lc_NetInterface = ''wwan0'', lc_Disabled = False, lc_DataPlane = \<lparr>sp_Mode = DataPlaneModeNative, sp_DefaultMuxID = 0\<rparr>,
     lc_ProfileIndex = 0, lc_NoRoute = False, lc_NoDNS = True, lc_AutoReconnect = True, lc_retryDelays = [5, 10, 20],
     lc_RadioResetAfter = 3\<rparr>"

text \<open>Everything succeeds, except the calls that \<open>bad\<close> names.\<close>

definition demo_modem :: "(dcall \<Rightarrow> bool) \<Rightarrow> data_env" where
  "demo_modem bad = \<lparr>de_plane = demo_env [], de_ctx = (\<lambda>_. None),
     de_unit = (\<lambda>_ c. if bad c then Some (ErrText ''refused'') else None), de_flag = (\<lambda>_ _. True),
     de_number = (\<lambda>_ c. if bad c then Inl (ErrText ''refused'') else Inr 7),
     de_settings = (\<lambda>_ _. Inr (demo_settings\<lparr>rt_IPv4Address := [10, 0, 0, 2], rt_IPv4Subnet := [255, 255, 255, 0]\<rparr>)),
     de_status = (\<lambda>_ _. Inr 2)\<rparr>"

definition demo_topology :: "bool \<Rightarrow> bool \<Rightarrow> plane" where
  "demo_topology v4 v6 = demo_plane\<lparr>pl_snapshot := \<lparr>dp_Generation = 1, dp_Mode = DataPlaneModeNative, dp_DefaultInterface = ''wwan0'',
       dp_DefaultMuxID = 0, dp_DegradedReason = []\<rparr>, pl_declared := \<lparr>sp_Mode = [], sp_DefaultMuxID = 0\<rparr>, pl_wds := v4, pl_wdsV6 := v6\<rparr>"

definition demo_idle :: "bool \<Rightarrow> bool \<Rightarrow> data_manager" where
  "demo_idle v4 v6 = \<lparr>dm_cfg = demo_data_cfg v4 v6, dm_state = StateDisconnected, dm_coreReady = True, dm_desired = True,
     dm_reconfiguring = False, dm_rotating = False, dm_handleV4 = 0, dm_handleV6 = 0, dm_settings = None, dm_generation = 0,
     dm_retryCount = 0, dm_guard = None, dm_verify = None, dm_explicitAuth = False, dm_plane = demo_topology v4 v6, dm_hist = []\<rparr>"

definition no_text :: "net_IP \<Rightarrow> string" where "no_text ip = []"

definition demo_bearer :: "(dcall \<Rightarrow> bool) \<Rightarrow> unit parsed \<times> data_manager" where
  "demo_bearer bad = ConnectDefaultDataBearer demo_link (demo_modem bad) no_text (demo_data_cfg True True) None (Some 1) (demo_idle True True)"

lemma demo_bearer_up: "fst (demo_bearer (\<lambda>_. False)) = Some (Inr ())"
  by code_simp

lemma demo_bearer_fails: "\<exists>x. fst (demo_bearer (\<lambda>c. c = LinkUp ''wwan0'' \<or> c = VerifyCard 1)) = Some (Inl x)"
proof -
  have "(case fst (demo_bearer (\<lambda>c. c = LinkUp ''wwan0'' \<or> c = VerifyCard 1)) of Some (Inl x) \<Rightarrow> True | _ \<Rightarrow> False)" by code_simp
  then show ?thesis by (simp split: option.splits sum.splits)
qed

theorem bearer_atomic_witness:
  "dm_state (snd (demo_bearer (\<lambda>_. False))) = StateConnected \<and>
   wishes (snd (demo_bearer (\<lambda>c. c = LinkUp ''wwan0'' \<or> c = VerifyCard 1))) = wishes (demo_idle True True)"
proof
  show "dm_state (snd (demo_bearer (\<lambda>_. False))) = StateConnected"
    using bearer_atomic[of demo_link "demo_modem (\<lambda>_. False)" no_text "demo_data_cfg True True" None "Some 1" "demo_idle True True" "Inr ()"
        "snd (demo_bearer (\<lambda>_. False))"] demo_bearer_up
    by (simp add: demo_bearer_def prod_eq_iff)
  obtain x where "fst (demo_bearer (\<lambda>c. c = LinkUp ''wwan0'' \<or> c = VerifyCard 1)) = Some (Inl x)" using demo_bearer_fails by blast
  then show "wishes (snd (demo_bearer (\<lambda>c. c = LinkUp ''wwan0'' \<or> c = VerifyCard 1))) = wishes (demo_idle True True)"
    using bearer_atomic[of demo_link "demo_modem (\<lambda>c. c = LinkUp ''wwan0'' \<or> c = VerifyCard 1)" no_text "demo_data_cfg True True" None "Some 1" "demo_idle True True"
        "Inl x" "snd (demo_bearer (\<lambda>c. c = LinkUp ''wwan0'' \<or> c = VerifyCard 1))"]
    by (simp add: demo_bearer_def prod_eq_iff)
qed

text \<open>A connection that is up, and another APN for it.\<close>

definition demo_up :: "bool \<Rightarrow> bool \<Rightarrow> data_manager" where
  "demo_up v4 v6 = (demo_idle v4 v6)\<lparr>dm_state := StateConnected, dm_handleV4 := (if v4 then 7 else 0), dm_handleV6 := (if v6 then 7 else 0),
     dm_generation := 1\<rparr>"

definition demo_reconfigure :: "DataConfig \<Rightarrow> bool \<Rightarrow> bool \<Rightarrow> unit parsed \<times> data_manager" where
  "demo_reconfigure request v4 v6 = ReconfigureDataConfig demo_link (demo_modem (\<lambda>_. False)) no_text request (demo_up v4 v6)"

definition demo_request_cfg :: DataConfig where
  "demo_request_cfg = \<lparr>nc_APN = '' ims '', nc_EnableIPv4 = True, nc_EnableIPv6 = True\<rparr>"

lemma demo_reconfigured: "fst (demo_reconfigure demo_request_cfg True True) = Some (Inr ())"
  by code_simp

theorem reconfigure_atomic_witness:
  "wishes (snd (demo_reconfigure demo_request_cfg True True)) =
     wishes (put_config \<lparr>nc_APN = ''ims'', nc_EnableIPv4 = True, nc_EnableIPv6 = True\<rparr> (demo_up True True))"
proof -
  have trim: "demo_request_cfg\<lparr>nc_APN := TrimSpace (nc_APN demo_request_cfg)\<rparr> = \<lparr>nc_APN = ''ims'', nc_EnableIPv4 = True, nc_EnableIPv6 = True\<rparr>"
    by code_simp
  show ?thesis
    using reconfigure_atomic[of demo_link "demo_modem (\<lambda>_. False)" no_text demo_request_cfg "demo_up True True" "Inr ()"
        "snd (demo_reconfigure demo_request_cfg True True)"] demo_reconfigured
    unfolding trim by (simp add: demo_reconfigure_def prod_eq_iff demo_up_def demo_idle_def)
qed

definition demo_private :: "unit parsed \<times> data_manager" where
  "demo_private = doConnectLockedContext demo_link (demo_modem (\<lambda>c. c = LinkMTU ''wwan0'' 1500)) no_text ((demo_idle True True)\<lparr>dm_explicitAuth := True\<rparr>)"

lemma demo_private_fails: "\<exists>x. fst demo_private = Some (Inl x)"
proof -
  have "(case fst demo_private of Some (Inl x) \<Rightarrow> True | _ \<Rightarrow> False)" by code_simp
  then show ?thesis by (simp split: option.splits sum.splits)
qed

theorem private_bearer_released_witness:
  "StartNetwork familyV4 True (demo_data_cfg True True) \<in> set (dm_hist (snd demo_private)) \<and> dm_handleV4 (snd demo_private) = 0"
proof
  show "StartNetwork familyV4 True (demo_data_cfg True True) \<in> set (dm_hist (snd demo_private))" by code_simp
  obtain x where "fst demo_private = Some (Inl x)" using demo_private_fails by blast
  then show "dm_handleV4 (snd demo_private) = 0"
    using private_bearer_released[of "(demo_idle True True)\<lparr>dm_explicitAuth := True\<rparr>" demo_link "demo_modem (\<lambda>c. c = LinkMTU ''wwan0'' 1500)" no_text
        x "snd demo_private"]
    by (simp add: demo_private_def prod_eq_iff)
qed

theorem dialDualStack_spec_witness:
  "\<exists>d. dialDualStack True True (\<lambda>n. (Some (Inl ErrCanceled), n)) (Some (\<lambda>n. (Some (Inr 7), n + 1))) (0::nat) = (Some d, 1) \<and>
     dd_err d = None \<and> dd_handleV6 d = 7"
  using dialDualStack_spec[of True True "\<lambda>n. (Some (Inl ErrCanceled), n)" "0::nat" "Inl ErrCanceled" 0 "\<lambda>n. (Some (Inr 7), n + 1)" "Inr 7" 1]
  by (auto simp: handle_of_def succeeded_def)

definition demo_shared :: data_manager where
  "demo_shared = (demo_up True True)\<lparr>dm_plane := (demo_topology True True)\<lparr>pl_sessions := [(1, demo_session)]\<rparr>\<rparr>"

theorem no_radio_reset_with_pdn_witness:
  "filter resets_radio (dm_hist (snd (RotateIP demo_link (demo_modem (\<lambda>_. True)) no_text demo_shared))) = []"
  using no_radio_reset_with_pdn[of demo_shared demo_link "demo_modem (\<lambda>_. True)" no_text "[DoRotate]", OF _ refl]
  by (simp add: demo_shared_def demo_up_def demo_idle_def run_operation_def)

text \<open>Enabling IPv4 on a manager that was started for IPv6 only: the topology is published, so that no IPv4 service is
  allocated, and the dial calls a method of the nil service. Rotating the address of such a connection does the same.\<close>

lemma missing_service_panics:
  "fst (demo_reconfigure demo_request_cfg False True) = None"
  "fst (RotateIP demo_link (demo_modem (\<lambda>_. False)) no_text (demo_up False True)) = None"
  by code_simp+

end
