(* ===== verification/Readiness.thy ===== *)
theory Readiness
  imports Snapshot
begin

text \<open>
  Whether the card is usable, \<^verbatim>\<open>src/pkg/manager/uim_readiness.go\<close>, and the loop that provisions it,
  \<^verbatim>\<open>uim_provisioning.go\<close>, with the requests of \<^verbatim>\<open>device_query.go\<close> that they send. The loop asks an environment, whose
  answers depend on the history of what was asked; it is bounded by its attempts. The flags of a
  readiness say what its reason says, and the loop disturbs only cards that are stuck, within its budget.
\<close>

section \<open>The active slot\<close>

definition UIMPhysicalCardStatePresent :: u32 where "UIMPhysicalCardStatePresent = 2"
definition UIMSlotStateActive :: u32 where "UIMSlotStateActive = 1"
definition UIMAppStateUnknown :: u8 where "UIMAppStateUnknown = 0"
definition UIMAppStateDetected :: u8 where "UIMAppStateDetected = 1"
definition UIMAppStateReady :: u8 where "UIMAppStateReady = 7"

definition slot_in_use :: "UIMSlotStatusSlot \<Rightarrow> bool" where
  "slot_in_use s \<longleftrightarrow> sl_PhysicalCardStatus s = UIMPhysicalCardStatePresent \<and> sl_PhysicalSlotStatus s = UIMSlotStateActive"

text \<open>The first slot in use with its position, counted from one.\<close>

fun first_in_use :: "nat \<Rightarrow> UIMSlotStatusSlot list \<Rightarrow> (nat \<times> UIMSlotStatusSlot) option" where
  "first_in_use n [] = None"
| "first_in_use n (s # slots) = (if slot_in_use s then Some (n + 1, s) else first_in_use (n + 1) slots)"

definition active_slot :: "UIMSlotStatusSlot list option \<Rightarrow> (nat \<times> UIMSlotStatusSlot) option" where
  "active_slot info = (case info of None \<Rightarrow> None | Some slots \<Rightarrow> first_in_use 0 slots)"

definition resolveActiveUIMSlot :: "UIMSlotStatusSlot list option \<Rightarrow> u8 \<times> bool \<times> string" where
  "resolveActiveUIMSlot info =
     (case active_slot info of
        None \<Rightarrow> (0, False, [])
      | Some (pos, s) \<Rightarrow>
          if sl_LogicalSlot s \<noteq> 0 then (sl_LogicalSlot s, True, ''uim_slot_status'')
          else (of_nat pos, True, ''uim_slot_status_index''))"

definition resolveActiveUIMPhysicalSlot :: "UIMSlotStatusSlot list option \<Rightarrow> u8 \<times> bool" where
  "resolveActiveUIMPhysicalSlot info =
     (case active_slot info of None \<Rightarrow> (0, False) | Some (pos, _) \<Rightarrow> (of_nat pos, True))"

definition resolveActiveUIMSlotEUICC :: "UIMSlotStatusSlot list option \<Rightarrow> bool" where
  "resolveActiveUIMSlotEUICC info = (case active_slot info of None \<Rightarrow> False | Some (_, s) \<Rightarrow> sl_IsEUICC s)"

section \<open>Readiness\<close>

datatype UIMReadinessReason =
    UIMReadinessReady | UIMReadinessTransportFatal | UIMReadinessControlUnavailable | UIMReadinessCardAbsent
  | UIMReadinessCardResetting | UIMReadinessSIMBlocked | UIMReadinessIdentityEmpty | UIMReadinessNeedsProvisioning

record UIMReadiness =
  ur_TransportReady :: bool
  ur_ControlReady :: bool
  ur_UIMReady :: bool
  ur_CardPresent :: bool
  ur_SIMStatus :: SIMStatus
  ur_ActiveSlot :: u8
  ur_SlotKnown :: bool
  ur_SlotSource :: string
  ur_ActivePhysicalSlot :: u8
  ur_PhysicalSlotKnown :: bool
  ur_ICCID :: string
  ur_IMSI :: string
  ur_AppState :: u8
  ur_ProvisioningActive :: bool
  ur_NeedsProvisioning :: bool
  ur_Reason :: "UIMReadinessReason option"
  ur_ActiveSlotIsEUICC :: bool
  ur_PIN1Retries :: u8
  ur_PUK1Retries :: u8
  ur_CardState :: u8
  ur_PIN1State :: u8
  ur_CardDetailsKnown :: bool
  ur_Err :: "go_error option"

definition fatal_fragments :: "string list" where
  "fatal_fragments = [''qmi: read failed'', ''qmi read failed'', ''failed to open qmi device'', ''no such device'',
     ''no such file or directory'', ''client closed'', ''read failed: eof'', ''read failed eof'']"

definition isUIMReadinessTransportFatal :: "go_error option \<Rightarrow> bool" where
  "isUIMReadinessTransportFatal err =
     (case err of
        None \<Rightarrow> False
      | Some x \<Rightarrow>
          let msg = ToLower (TrimSpace (err_text x)) in
          if msg = [] then False
          else if Contains msg ''qmi-proxy'' \<and> Contains msg ''broken pipe'' then True
          else list_ex (Contains msg) fatal_fragments)"

text \<open>What is known before the errors are looked at.\<close>

definition readiness_base :: "SIMStatus \<Rightarrow> CardStatusDetails option \<Rightarrow> UIMSlotStatusSlot list option \<Rightarrow> DeviceIdentities \<Rightarrow> go_error option \<Rightarrow> UIMReadiness" where
  "readiness_base status details slots ids sourceErr =
     (let (slot, known, source) = resolveActiveUIMSlot slots;
          (physical, physicalKnown) = resolveActiveUIMPhysicalSlot slots in
      \<lparr>ur_TransportReady = True, ur_ControlReady = True, ur_UIMReady = False, ur_CardPresent = False, ur_SIMStatus = status,
       ur_ActiveSlot = slot, ur_SlotKnown = known, ur_SlotSource = source, ur_ActivePhysicalSlot = physical,
       ur_PhysicalSlotKnown = physicalKnown, ur_ICCID = TrimSpace (id_ICCID ids), ur_IMSI = TrimSpace (id_IMSI ids),
       ur_AppState = 0, ur_ProvisioningActive = False, ur_NeedsProvisioning = False, ur_Reason = None,
       ur_ActiveSlotIsEUICC = resolveActiveUIMSlotEUICC slots,
       ur_PIN1Retries = (case details of Some d \<Rightarrow> up_PIN1Retries (ua_pin (cd_App d)) | None \<Rightarrow> 0),
       ur_PUK1Retries = (case details of Some d \<Rightarrow> up_PUK1Retries (ua_pin (cd_App d)) | None \<Rightarrow> 0),
       ur_CardState = (case details of Some d \<Rightarrow> cd_CardState d | None \<Rightarrow> 0),
       ur_PIN1State = (case details of Some d \<Rightarrow> up_PIN1State (ua_pin (cd_App d)) | None \<Rightarrow> 0),
       ur_CardDetailsKnown = (details \<noteq> None), ur_Err = sourceErr\<rparr>)"

definition transport_fatal :: "UIMReadiness \<Rightarrow> UIMReadiness" where
  "transport_fatal r = r\<lparr>ur_TransportReady := False, ur_ControlReady := False, ur_Reason := Some UIMReadinessTransportFatal\<rparr>"

definition card_present :: "SIMStatus \<Rightarrow> CardStatusDetails option \<Rightarrow> bool" where
  "card_present status details =
     (case details of
        None \<Rightarrow> status \<noteq> SIMAbsent
      | Some d \<Rightarrow> if cd_CardState d = 0 then False else if cd_CardState d = 1 \<or> cd_CardState d = 2 then True else status \<noteq> SIMAbsent)"

definition app_known :: "SIMStatus \<Rightarrow> CardStatusDetails option \<Rightarrow> UIMReadiness \<Rightarrow> UIMReadiness" where
  "app_known status details r =
     (case details of
        None \<Rightarrow> r\<lparr>ur_CardPresent := card_present status details\<rparr>
      | Some d \<Rightarrow> r\<lparr>ur_CardPresent := card_present status details, ur_AppState := ua_appState (cd_App d),
           ur_ProvisioningActive := (ua_appState (cd_App d) = UIMAppStateReady)\<rparr>)"

definition classify :: "SIMStatus \<Rightarrow> CardStatusDetails option \<Rightarrow> UIMReadiness \<Rightarrow> UIMReadiness" where
  "classify status details r =
     (if \<not> ur_CardPresent r then r\<lparr>ur_Reason := Some UIMReadinessCardAbsent\<rparr>
      else if status \<in> {SIMBlocked, SIMPINRequired, SIMPUKRequired, SIMNetworkLocked} then r\<lparr>ur_Reason := Some UIMReadinessSIMBlocked\<rparr>
      else if (case details of Some d \<Rightarrow> ua_appState (cd_App d) = UIMAppStateDetected | None \<Rightarrow> False)
      then r\<lparr>ur_NeedsProvisioning := True, ur_Reason := Some UIMReadinessNeedsProvisioning\<rparr>
      else if status \<noteq> SIMReady then r\<lparr>ur_Reason := Some UIMReadinessCardResetting\<rparr>
      else r\<lparr>ur_UIMReady := True,
             ur_Reason := Some (if ur_ICCID r = [] \<and> ur_IMSI r = [] then UIMReadinessIdentityEmpty else UIMReadinessReady)\<rparr>)"

definition buildUIMReadinessWithSlotError :: "SIMStatus \<Rightarrow> CardStatusDetails option \<Rightarrow> UIMSlotStatusSlot list option \<Rightarrow> DeviceIdentities
    \<Rightarrow> go_error option \<Rightarrow> go_error option \<Rightarrow> UIMReadiness" where
  "buildUIMReadinessWithSlotError status details slots ids cardErr slotErr =
     (let out = readiness_base status details slots ids (case cardErr of None \<Rightarrow> slotErr | Some x \<Rightarrow> Some x) in
      if cardErr \<noteq> None then
        (if isUIMReadinessTransportFatal cardErr then transport_fatal out
         else out\<lparr>ur_ControlReady := False, ur_Reason := Some UIMReadinessControlUnavailable\<rparr>)
      else if isUIMReadinessTransportFatal slotErr then transport_fatal out
      else classify status details (app_known status details out))"

definition buildUIMReadiness :: "SIMStatus \<Rightarrow> CardStatusDetails option \<Rightarrow> UIMSlotStatusSlot list option \<Rightarrow> DeviceIdentities
    \<Rightarrow> go_error option \<Rightarrow> UIMReadiness" where
  "buildUIMReadiness status details slots ids sourceErr = buildUIMReadinessWithSlotError status details slots ids sourceErr None"

text \<open>The queries of a device: the card status, the slots, the identities of the cache and of the card. Each may panic.\<close>

record 'm readiness_ops =
  ro_card :: "'m \<Rightarrow> (CardStatusDetails \<times> SIMStatus) parsed \<times> 'm"
  ro_slots :: "'m \<Rightarrow> UIMSlotStatusSlot list parsed \<times> 'm"
  ro_cached :: "'m \<Rightarrow> DeviceIdentities"
  ro_iccid :: "'m \<Rightarrow> string parsed \<times> 'm"
  ro_imsi :: "'m \<Rightarrow> string parsed \<times> 'm"

definition err_of :: "go_error + 'a \<Rightarrow> go_error option" where
  "err_of r = (case r of Inl x \<Rightarrow> Some x | Inr _ \<Rightarrow> None)"

definition val_of :: "go_error + 'a \<Rightarrow> 'a option" where
  "val_of r = (case r of Inl _ \<Rightarrow> None | Inr v \<Rightarrow> Some v)"

text \<open>An identity that the cache has not, read from the card where the card answers.\<close>

definition identity_live :: "bool \<Rightarrow> string \<Rightarrow> ('m \<Rightarrow> string parsed \<times> 'm) \<Rightarrow> 'm \<Rightarrow> string parsed \<times> 'm" where
  "identity_live wanted cached live =
     (if wanted \<and> TrimSpace cached = []
      then try_m live (\<lambda>r. ret_m (ok (case r of Inr v \<Rightarrow> v | Inl _ \<Rightarrow> cached)))
      else ret_m (ok cached))"

definition getUIMReadiness :: "'m readiness_ops \<Rightarrow> 'm \<Rightarrow> (UIMReadiness \<times> go_error option) option \<times> 'm" where
  "getUIMReadiness ops =
     try_m (ro_card ops) (\<lambda>card.
     try_m (if err_of card = None then ro_slots ops else ret_m (ok [])) (\<lambda>slots m.
       let cardErr = err_of card;
           slotErr = (if cardErr = None then err_of slots else None);
           slotInfo = (if cardErr = None then val_of slots else None);
           ids = ro_cached ops m in
       try_m (identity_live (cardErr = None) (id_ICCID ids) (ro_iccid ops)) (\<lambda>iccid.
       try_m (identity_live (cardErr = None) (id_IMSI ids) (ro_imsi ops)) (\<lambda>imsi.
         let ids' = ids\<lparr>id_ICCID := (case iccid of Inr v \<Rightarrow> v | Inl _ \<Rightarrow> []), id_IMSI := (case imsi of Inr v \<Rightarrow> v | Inl _ \<Rightarrow> [])\<rparr>;
             readiness = buildUIMReadinessWithSlotError (case card of Inr (_, st) \<Rightarrow> st | Inl _ \<Rightarrow> SIMNotReady)
               (map_option fst (val_of card)) slotInfo ids' cardErr slotErr in
         ret_m (Some (readiness, if cardErr \<noteq> None then cardErr else if isUIMReadinessTransportFatal slotErr then slotErr else None)))) m))"

section \<open>Provisioning\<close>

text \<open>What the loop asks for, in a history; the answers of the device may depend on it. A sleep that returns an error was
  cancelled.\<close>

datatype prov_call =
    AskReadiness | AskAID | SendProvisioning UIMChangeProvisioningSessionRequest | Sleep int
  | PowerOffSIM u8 | PowerOnSIM u8

record prov_env =
  pe_readiness :: "prov_call list \<Rightarrow> UIMReadiness \<times> go_error option"
  pe_aid :: "prov_call list \<Rightarrow> go_error + byte list"
  pe_send :: "prov_call list \<Rightarrow> prov_call \<Rightarrow> go_error option"

type_synonym 'a prov = "prov_call list \<Rightarrow> 'a \<times> prov_call list"

definition p_send :: "prov_env \<Rightarrow> prov_call \<Rightarrow> go_error option prov" where
  "p_send e c h = (pe_send e h c, h @ [c])"

text \<open>\<^verbatim>\<open>sleepWithContext\<close>: nothing is slept for a duration that is not positive.\<close>

definition sleepWithContext :: "prov_env \<Rightarrow> int \<Rightarrow> go_error option prov" where
  "sleepWithContext e d h = (if d \<le> 0 then (None, h) else p_send e (Sleep d) h)"

definition p_then :: "go_error option prov \<Rightarrow> (go_error \<Rightarrow> go_error) \<Rightarrow> go_error option prov \<Rightarrow> go_error option prov" where
  "p_then f wrap g h = (case f h of (Some x, h1) \<Rightarrow> (Some (wrap x), h1) | (None, h1) \<Rightarrow> g h1)"

definition millisecond :: int where "millisecond = 1000000"

definition deactivate_request :: UIMChangeProvisioningSessionRequest where
  "deactivate_request = \<lparr>cp_SessionType = UIMSessionTypePrimaryGWProvisioning, cp_Activate = False, cp_Slot = None, cp_ApplicationIdentifier = []\<rparr>"

definition activate_request :: "u8 \<Rightarrow> byte list \<Rightarrow> UIMChangeProvisioningSessionRequest" where
  "activate_request slot aid = \<lparr>cp_SessionType = UIMSessionTypePrimaryGWProvisioning, cp_Activate = True, cp_Slot = Some slot,
     cp_ApplicationIdentifier = aid\<rparr>"

definition uimRebindPrimaryGWProvisioningWithSender :: "prov_env \<Rightarrow> u8 \<Rightarrow> byte list \<Rightarrow> int \<Rightarrow> go_error option prov" where
  "uimRebindPrimaryGWProvisioningWithSender e slot0 usimAID wait h =
     (let slot = (if slot0 = 0 then 1 else slot0) in
      if usimAID = [] then (Some (ErrText ''USIM AID is required for provisioning rebind''), h)
      else
        p_then (p_send e (SendProvisioning deactivate_request)) (errorf ''deactivate PrimaryGW provisioning'')
          (p_then (sleepWithContext e wait) id
            (p_then (p_send e (SendProvisioning (activate_request slot usimAID))) (errorf ''activate PrimaryGW provisioning'')
              (\<lambda>h. (None, h)))) h)"

definition UIMRebindPrimaryGWProvisioning :: "prov_env \<Rightarrow> u8 \<Rightarrow> byte list \<Rightarrow> go_error option prov" where
  "UIMRebindPrimaryGWProvisioning e slot aid = uimRebindPrimaryGWProvisioningWithSender e slot aid (200 * millisecond)"

definition resolveUIMReloadSlot :: "UIMReadiness \<Rightarrow> u8 \<Rightarrow> u8" where
  "resolveUIMReloadSlot r defaultSlot =
     (if ur_SlotKnown r \<and> ur_ActiveSlot r \<noteq> 0 then ur_ActiveSlot r else if defaultSlot \<noteq> 0 then defaultSlot else 1)"

record EnsureSIMProvisionedOptions =
  eo_DefaultSlot :: u8
  eo_PollInterval :: int
  eo_MaxAttempts :: int
  eo_UnknownAppStateBackstop :: int
  eo_MaxActivations :: int
  eo_ActivationSettle :: int

definition normalizeEnsureSIMProvisionedOptions :: "EnsureSIMProvisionedOptions \<Rightarrow> EnsureSIMProvisionedOptions" where
  "normalizeEnsureSIMProvisionedOptions o' =
     \<lparr>eo_DefaultSlot = (if eo_DefaultSlot o' = 0 then 1 else eo_DefaultSlot o'),
      eo_PollInterval = (if eo_PollInterval o' \<le> 0 then 500 * millisecond else eo_PollInterval o'),
      eo_MaxAttempts = (if eo_MaxAttempts o' \<le> 0 then 10 else eo_MaxAttempts o'),
      eo_UnknownAppStateBackstop = (if eo_UnknownAppStateBackstop o' \<le> 0 then 3 else eo_UnknownAppStateBackstop o'),
      eo_MaxActivations = (if eo_MaxActivations o' \<le> 0 then 2 else eo_MaxActivations o'),
      eo_ActivationSettle = (if eo_ActivationSettle o' \<le> 0 then 2000 * millisecond else eo_ActivationSettle o')\<rparr>"

text \<open>What one answer means: the device is ready or cannot be helped, or an activation is wanted; the streak
  counts the answers that did not know the state of the application.\<close>

definition settled_reasons :: "UIMReadinessReason option set" where
  "settled_reasons = {Some UIMReadinessCardAbsent, Some UIMReadinessSIMBlocked, Some UIMReadinessTransportFatal, Some UIMReadinessControlUnavailable}"

definition next_streak :: "UIMReadiness \<Rightarrow> int \<Rightarrow> int" where
  "next_streak r streak = (if ur_NeedsProvisioning r then 0 else if ur_AppState r = UIMAppStateUnknown then streak + 1 else streak)"

definition want_activate :: "int \<Rightarrow> UIMReadiness \<Rightarrow> int \<Rightarrow> bool" where
  "want_activate backstop r streak \<longleftrightarrow>
     ur_NeedsProvisioning r \<or> (ur_AppState r = UIMAppStateUnknown \<and> backstop \<le> streak + 1)"

definition is_not_supported :: "go_error \<Rightarrow> bool" where
  "is_not_supported err \<longleftrightarrow> list_ex (\<lambda>x. case x of ErrNotSupported _ \<Rightarrow> True | _ \<Rightarrow> False) (err_chain err)"

datatype activation = NotTried | Tried "go_error option"

definition try_activation :: "prov_env \<Rightarrow> EnsureSIMProvisionedOptions \<Rightarrow> UIMReadiness \<Rightarrow> activation prov" where
  "try_activation e o' r h =
     (case (pe_aid e h, h @ [AskAID]) of
        (Inl _, h1) \<Rightarrow> (NotTried, h1)
      | (Inr aid, h1) \<Rightarrow>
          if aid = [] then (NotTried, h1)
          else (case UIMRebindPrimaryGWProvisioning e (resolveUIMReloadSlot r (eo_DefaultSlot o')) aid h1 of (x, h2) \<Rightarrow> (Tried x, h2)))"

text \<open>The loop with \<open>k\<close> attempts left, the present one included.\<close>

definition pause :: "prov_env \<Rightarrow> nat \<Rightarrow> int \<Rightarrow> go_error option prov" where
  "pause e k d h = (if k = 0 then (None, h) else sleepWithContext e d h)"

fun ensure_loop :: "prov_env \<Rightarrow> EnsureSIMProvisionedOptions \<Rightarrow> nat \<Rightarrow> UIMReadiness \<Rightarrow> int \<Rightarrow> int \<Rightarrow> (UIMReadiness \<times> go_error option) prov" where
  "ensure_loop e o' 0 prev streak activations h = ((prev, None), h)"
| "ensure_loop e o' (Suc k) prev streak activations h =
     (case (pe_readiness e h, h @ [AskReadiness]) of
        ((r, Some err), h1) \<Rightarrow> ((r, Some err), h1)
      | ((r, None), h1) \<Rightarrow>
          if ur_UIMReady r \<or> ur_Reason r \<in> settled_reasons then ((r, None), h1)
          else
            let streak1 = next_streak r streak;
                poll = (\<lambda>streak activations h.
                  (case pause e k (eo_PollInterval o') h of
                     (Some err, h2) \<Rightarrow> ((r, Some err), h2)
                   | (None, h2) \<Rightarrow> ensure_loop e o' k r streak activations h2)) in
            if want_activate (eo_UnknownAppStateBackstop o') r streak \<and> activations < eo_MaxActivations o' then
              (case try_activation e o' r h1 of
                 (NotTried, h2) \<Rightarrow> poll streak1 activations h2
               | (Tried (Some err), h2) \<Rightarrow>
                   if is_not_supported err then ((r, None), h2) else poll streak1 (activations + 1) h2
               | (Tried None, h2) \<Rightarrow>
                   (case pause e k (eo_ActivationSettle o') h2 of
                      (Some err, h3) \<Rightarrow> ((r, Some err), h3)
                    | (None, h3) \<Rightarrow> ensure_loop e o' k r 0 (activations + 1) h3))
            else poll streak1 activations h1)"

definition no_readiness :: UIMReadiness where
  "no_readiness =
     \<lparr>ur_TransportReady = False, ur_ControlReady = False, ur_UIMReady = False, ur_CardPresent = False, ur_SIMStatus = SIMAbsent,
      ur_ActiveSlot = 0, ur_SlotKnown = False, ur_SlotSource = [], ur_ActivePhysicalSlot = 0, ur_PhysicalSlotKnown = False,
      ur_ICCID = [], ur_IMSI = [], ur_AppState = 0, ur_ProvisioningActive = False, ur_NeedsProvisioning = False, ur_Reason = None,
      ur_ActiveSlotIsEUICC = False, ur_PIN1Retries = 0, ur_PUK1Retries = 0, ur_CardState = 0, ur_PIN1State = 0,
      ur_CardDetailsKnown = False, ur_Err = None\<rparr>"

definition EnsureSIMProvisioned :: "prov_env \<Rightarrow> EnsureSIMProvisionedOptions \<Rightarrow> (UIMReadiness \<times> go_error option) prov" where
  "EnsureSIMProvisioned e opts =
     (let o' = normalizeEnsureSIMProvisionedOptions opts in ensure_loop e o' (nat (eo_MaxAttempts o')) no_readiness 0 0)"

section \<open>Reloading after a switch of profiles\<close>

definition UIMPowerCycleSIM :: "prov_env \<Rightarrow> u8 \<Rightarrow> int \<Rightarrow> go_error option prov" where
  "UIMPowerCycleSIM e slot0 wait0 =
     (let slot = (if slot0 = 0 then 1 else slot0); wait = (if wait0 \<le> 0 then 500 * millisecond else wait0) in
      p_then (p_send e (PowerOffSIM slot)) (errorf (''UIMPowerOffSIM(slot='' @ decimal (unat slot) @ '')''))
        (p_then (sleepWithContext e wait) id
          (p_then (p_send e (PowerOnSIM slot)) (errorf (''UIMPowerOnSIM(slot='' @ decimal (unat slot) @ '')''))
            (sleepWithContext e wait))))"

definition UIMPostSwitchReload :: "prov_env \<Rightarrow> UIMReadiness \<Rightarrow> u8 \<Rightarrow> int \<Rightarrow> (u8 \<times> go_error option) prov" where
  "UIMPostSwitchReload e r defaultSlot0 wait0 h =
     (let defaultSlot = (if defaultSlot0 = 0 then 1 else defaultSlot0);
          wait = (if wait0 \<le> 0 then 500 * millisecond else wait0);
          slot = resolveUIMReloadSlot r defaultSlot in
      case UIMPowerCycleSIM e slot wait h of
        (Some x, h1) \<Rightarrow> ((slot, Some x), h1)
      | (None, h1) \<Rightarrow>
         (case EnsureSIMProvisioned e \<lparr>eo_DefaultSlot = slot, eo_PollInterval = 400 * millisecond, eo_MaxAttempts = 4,
               eo_UnknownAppStateBackstop = 0, eo_MaxActivations = 1, eo_ActivationSettle = 1500 * millisecond\<rparr> h1 of
            ((_, err), h2) \<Rightarrow> ((slot, err), h2)))"

section \<open>What the classification says\<close>

text \<open>Whatever the card, the slots and the errors are: the reason says what the flags say. The card is usable exactly for the
  reasons ready and identity-empty, provisioning is needed exactly for its reason, the transport is lost exactly
  for the fatal one; a usable card is present, its SIM ready, its application not merely detected.\<close>

definition readiness_consistent :: "UIMReadiness \<Rightarrow> bool" where
  "readiness_consistent r \<longleftrightarrow>
     (ur_UIMReady r \<longleftrightarrow> ur_Reason r \<in> {Some UIMReadinessReady, Some UIMReadinessIdentityEmpty}) \<and>
     (ur_NeedsProvisioning r \<longleftrightarrow> ur_Reason r = Some UIMReadinessNeedsProvisioning) \<and>
     (ur_TransportReady r \<longleftrightarrow> ur_Reason r \<noteq> Some UIMReadinessTransportFatal) \<and>
     (ur_ControlReady r \<longleftrightarrow> ur_Reason r \<notin> {Some UIMReadinessTransportFatal, Some UIMReadinessControlUnavailable}) \<and>
     (ur_CardPresent r \<longleftrightarrow> ur_Reason r \<notin> {Some UIMReadinessTransportFatal, Some UIMReadinessControlUnavailable, Some UIMReadinessCardAbsent}) \<and>
     (ur_Reason r = Some UIMReadinessReady \<longleftrightarrow> ur_UIMReady r \<and> (ur_ICCID r \<noteq> [] \<or> ur_IMSI r \<noteq> [])) \<and>
     (ur_UIMReady r \<longrightarrow> ur_SIMStatus r = SIMReady \<and> ur_AppState r \<noteq> UIMAppStateDetected) \<and> ur_Reason r \<noteq> None"

definition detected :: "CardStatusDetails option \<Rightarrow> bool" where
  "detected details = (case details of Some d \<Rightarrow> ua_appState (cd_App d) = UIMAppStateDetected | None \<Rightarrow> False)"

lemma classify_consistent:
  assumes "ur_TransportReady r" "ur_ControlReady r" "\<not> ur_UIMReady r" "\<not> ur_NeedsProvisioning r" "ur_SIMStatus r = status"
    and "\<not> detected details \<Longrightarrow> ur_AppState r \<noteq> UIMAppStateDetected"
  shows "readiness_consistent (classify status details r)"
proof -
  let ?locked = "status \<in> {SIMBlocked, SIMPINRequired, SIMPUKRequired, SIMNetworkLocked}"
  have classify: "classify status details r =
     (if \<not> ur_CardPresent r then r\<lparr>ur_Reason := Some UIMReadinessCardAbsent\<rparr>
      else if ?locked then r\<lparr>ur_Reason := Some UIMReadinessSIMBlocked\<rparr>
      else if detected details then r\<lparr>ur_NeedsProvisioning := True, ur_Reason := Some UIMReadinessNeedsProvisioning\<rparr>
      else if status \<noteq> SIMReady then r\<lparr>ur_Reason := Some UIMReadinessCardResetting\<rparr>
      else r\<lparr>ur_UIMReady := True,
             ur_Reason := Some (if ur_ICCID r = [] \<and> ur_IMSI r = [] then UIMReadinessIdentityEmpty else UIMReadinessReady)\<rparr>)"
    by (simp add: classify_def detected_def)
  consider "\<not> ur_CardPresent r" | "ur_CardPresent r" ?locked | "ur_CardPresent r" "\<not> ?locked" "detected details"
    | "ur_CardPresent r" "\<not> ?locked" "\<not> detected details" "status \<noteq> SIMReady"
    | "ur_CardPresent r" "\<not> ?locked" "\<not> detected details" "status = SIMReady" by blast
  then show ?thesis
  proof cases
    case 1 then show ?thesis using assms by (simp add: classify readiness_consistent_def)
  next
    case 2 then show ?thesis unfolding classify using assms by (simp only: if_True if_False not_not simp_thms) (simp add: readiness_consistent_def)
  next
    case 3 then show ?thesis unfolding classify using assms by (simp only: if_True if_False not_not simp_thms) (simp add: readiness_consistent_def)
  next
    case 4 then show ?thesis unfolding classify using assms by (simp only: if_True if_False not_not simp_thms) (simp add: readiness_consistent_def)
  next
    case 5 then show ?thesis unfolding classify using assms by (simp only: if_True if_False not_not simp_thms) (simp add: readiness_consistent_def)
  qed
qed

lemma app_known_simps [simp]:
  "ur_TransportReady (app_known s d r) = ur_TransportReady r" "ur_ControlReady (app_known s d r) = ur_ControlReady r"
  "ur_UIMReady (app_known s d r) = ur_UIMReady r" "ur_NeedsProvisioning (app_known s d r) = ur_NeedsProvisioning r"
  "ur_SIMStatus (app_known s d r) = ur_SIMStatus r"
  "ur_AppState (app_known s d r) = (case d of None \<Rightarrow> ur_AppState r | Some c \<Rightarrow> ua_appState (cd_App c))"
  by (cases d; simp add: app_known_def)+

text \<open>C40: Whatever the card, the slots, the identities and the errors are, the reported reason and the flags of the result agree:
  it always gives a reason; it is ready exactly for the reasons ready and identity-empty, needs provisioning exactly for the one reason
  that says so, has lost the transport exactly for the fatal one, and a ready card is present with a ready SIM.\<close>

theorem readiness_flags_agree:
  "readiness_consistent (buildUIMReadinessWithSlotError status details slots ids cardErr slotErr)"
proof -
  let ?out = "readiness_base status details slots ids (case cardErr of None \<Rightarrow> slotErr | Some x \<Rightarrow> Some x)"
  have base: "ur_TransportReady ?out" "ur_ControlReady ?out" "\<not> ur_UIMReady ?out" "\<not> ur_CardPresent ?out" "\<not> ur_NeedsProvisioning ?out"
      "ur_SIMStatus ?out = status" "ur_AppState ?out = 0"
    by (simp_all add: readiness_base_def split: prod.split)
  have "readiness_consistent (classify status details (app_known status details ?out))"
    using base by (intro classify_consistent; cases details) (simp_all add: detected_def UIMAppStateDetected_def)
  moreover have "readiness_consistent (transport_fatal ?out)" "readiness_consistent (?out\<lparr>ur_ControlReady := False, ur_Reason := Some UIMReadinessControlUnavailable\<rparr>)"
    using base by (simp_all add: transport_fatal_def readiness_consistent_def)
  ultimately show ?thesis unfolding buildUIMReadinessWithSlotError_def Let_def by presburger
qed

section \<open>What the provisioning loop does\<close>

definition is_poll :: "prov_call \<Rightarrow> bool" where "is_poll c \<longleftrightarrow> c = AskReadiness"

definition is_deactivation :: "prov_call \<Rightarrow> bool" where
  "is_deactivation c \<longleftrightarrow> (case c of SendProvisioning q \<Rightarrow> \<not> cp_Activate q | _ \<Rightarrow> False)"

text \<open>An answer after which the card may be disturbed: the modem is reached, the card is there, it is neither usable nor
  locked, and its application is detected or not known.\<close>

definition stuck :: "UIMReadiness \<Rightarrow> bool" where
  "stuck r \<longleftrightarrow> ur_TransportReady r \<and> ur_ControlReady r \<and> ur_CardPresent r \<and> \<not> ur_UIMReady r \<and>
     ur_SIMStatus r \<notin> {SIMBlocked, SIMPINRequired, SIMPUKRequired, SIMNetworkLocked} \<and>
     ur_AppState r \<in> {UIMAppStateDetected, UIMAppStateUnknown}"

text \<open>The answers that the query of the device builds, whatever the card, the slots, the identities and the errors are.\<close>

definition built :: "UIMReadiness \<Rightarrow> bool" where
  "built r \<longleftrightarrow> (\<exists>status details slots ids cardErr slotErr. r = buildUIMReadinessWithSlotError status details slots ids cardErr slotErr)"

lemma built_query [intro]: "built (buildUIMReadinessWithSlotError status details slots ids cardErr slotErr)"
  unfolding built_def by blast

lemma classify_stuck:
  assumes "r = classify status details (app_known status details out)"
    and out: "ur_TransportReady out" "ur_ControlReady out" "\<not> ur_NeedsProvisioning out" "ur_SIMStatus out = status"
    and "\<not> ur_UIMReady r" "ur_Reason r \<notin> settled_reasons" "ur_NeedsProvisioning r \<or> ur_AppState r = UIMAppStateUnknown"
  shows "stuck r"
proof -
  let ?r = "app_known status details out" and ?locked = "status \<in> {SIMBlocked, SIMPINRequired, SIMPUKRequired, SIMNetworkLocked}"
  have r: "r = (if \<not> ur_CardPresent ?r then ?r\<lparr>ur_Reason := Some UIMReadinessCardAbsent\<rparr>
      else if ?locked then ?r\<lparr>ur_Reason := Some UIMReadinessSIMBlocked\<rparr>
      else if detected details then ?r\<lparr>ur_NeedsProvisioning := True, ur_Reason := Some UIMReadinessNeedsProvisioning\<rparr>
      else if status \<noteq> SIMReady then ?r\<lparr>ur_Reason := Some UIMReadinessCardResetting\<rparr>
      else ?r\<lparr>ur_UIMReady := True,
             ur_Reason := Some (if ur_ICCID ?r = [] \<and> ur_IMSI ?r = [] then UIMReadinessIdentityEmpty else UIMReadinessReady)\<rparr>)"
    unfolding assms(1) by (simp add: classify_def detected_def)
  have present: "ur_CardPresent ?r" and free: "\<not> ?locked"
    using assms(7) unfolding r by (auto simp: settled_reasons_def split: if_splits)
  show ?thesis
  proof (cases "detected details")
    case True
    then have "ur_AppState ?r = UIMAppStateDetected" by (auto simp: detected_def split: option.splits)
    then show ?thesis unfolding r using present free True out assms(6)
      by (simp only: if_True if_False not_not simp_thms) (simp add: stuck_def r)
  next
    case False
    with present free assms(6) r have "r = ?r\<lparr>ur_Reason := Some UIMReadinessCardResetting\<rparr>" by (auto split: if_splits)
    then show ?thesis using present free out assms(6,8) by (simp add: stuck_def)
  qed
qed

lemma built_stuck:
  assumes "built r" "\<not> ur_UIMReady r" "ur_Reason r \<notin> settled_reasons" "ur_NeedsProvisioning r \<or> ur_AppState r = UIMAppStateUnknown"
  shows "stuck r"
proof -
  obtain status details slots ids cardErr slotErr where r: "r = buildUIMReadinessWithSlotError status details slots ids cardErr slotErr"
    using assms(1) by (auto simp: built_def)
  let ?out = "readiness_base status details slots ids (case cardErr of None \<Rightarrow> slotErr | Some x \<Rightarrow> Some x)"
  have "r = classify status details (app_known status details ?out)"
    using assms(3) unfolding r buildUIMReadinessWithSlotError_def Let_def
    by (auto simp: transport_fatal_def settled_reasons_def split: if_splits)
  then show ?thesis
    by (rule classify_stuck) (use assms in \<open>simp_all add: readiness_base_def split: prod.split\<close>)
qed

text \<open>Every request on the provisioning session follows an answer of readiness, \<open>l\<close> the last one, after which it may.\<close>

fun justified :: "prov_env \<Rightarrow> UIMReadiness option \<Rightarrow> prov_call list \<Rightarrow> prov_call list \<Rightarrow> bool" where
  "justified e l h [] \<longleftrightarrow> True"
| "justified e l h (c # cs) \<longleftrightarrow>
     (case c of SendProvisioning _ \<Rightarrow> (case l of Some r \<Rightarrow> stuck r | None \<Rightarrow> False) | _ \<Rightarrow> True) \<and>
     justified e (if is_poll c then Some (fst (pe_readiness e h)) else l) (h @ [c]) cs"

lemma justified_append:
  "list_all (\<lambda>c. \<not> is_poll c) a \<Longrightarrow> justified e l h (a @ b) \<longleftrightarrow> justified e l h a \<and> justified e l (h @ a) b"
  by (induction a arbitrary: h) (auto simp: is_poll_def)

lemma justified_quiet:
  "list_all (\<lambda>c. \<not> is_poll c \<and> (\<forall>q. c \<noteq> SendProvisioning q)) a \<Longrightarrow> justified e l h a"
  by (induction a arbitrary: h) (auto split: prov_call.split simp: is_poll_def)

lemma justified_stuck: "stuck r \<Longrightarrow> list_all (\<lambda>c. \<not> is_poll c) a \<Longrightarrow> justified e (Some r) h a"
  by (induction a arbitrary: h) (auto split: prov_call.split simp: is_poll_def)

definition deactivations :: "prov_call list \<Rightarrow> nat" where "deactivations h = length (filter is_deactivation h)"
definition polls :: "prov_call list \<Rightarrow> nat" where "polls h = length (filter is_poll h)"

lemma counts_append [simp]: "deactivations (a @ b) = deactivations a + deactivations b" "polls (a @ b) = polls a + polls b"
  "deactivations [] = 0" "polls [] = 0"
  by (simp_all add: deactivations_def polls_def)

lemma sleep_result: "sleepWithContext e d h = (x, h') \<Longrightarrow> \<exists>seg. h' = h @ seg \<and> (seg = [] \<or> seg = [Sleep d])"
  by (auto simp: sleepWithContext_def p_send_def split: if_splits)

lemma pause_result:
  assumes "pause e k d h = (x, h')"
  obtains seg where "h' = h @ seg" "seg = [] \<or> seg = [Sleep d]"
  using assms sleep_result[of e d h x h'] that by (auto simp: pause_def split: if_splits)

lemma sleeps_simps [simp]: "deactivations [Sleep d] = 0" "polls [Sleep d] = 0" "deactivations [AskReadiness] = 0" "polls [AskReadiness] = 1"
  by (simp_all add: deactivations_def polls_def is_deactivation_def is_poll_def)

lemma rebind_result:
  assumes "UIMRebindPrimaryGWProvisioning e slot aid h = (x, h')"
  shows "\<exists>seg. h' = h @ seg \<and> list_all (\<lambda>c. \<not> is_poll c) seg \<and> deactivations seg \<le> 1"
  using assms
  by (auto simp: UIMRebindPrimaryGWProvisioning_def uimRebindPrimaryGWProvisioningWithSender_def p_then_def p_send_def sleepWithContext_def
      Let_def millisecond_def is_poll_def deactivations_def is_deactivation_def deactivate_request_def activate_request_def
      split: if_splits option.splits prod.splits)

lemma activation_result:
  assumes "try_activation e o' r h = (t, h')"
  shows "\<exists>seg. h' = h @ seg \<and> list_all (\<lambda>c. \<not> is_poll c) seg \<and> deactivations seg \<le> (if t = NotTried then 0 else 1)"
proof (cases "pe_aid e h")
  case (Inl x)
  then show ?thesis using assms by (auto simp: try_activation_def is_poll_def deactivations_def is_deactivation_def)
next
  case (Inr aid)
  show ?thesis
  proof (cases "aid = []")
    case True
    then show ?thesis using assms Inr by (auto simp: try_activation_def is_poll_def deactivations_def is_deactivation_def)
  next
    case False
    obtain x h2 where run: "UIMRebindPrimaryGWProvisioning e (resolveUIMReloadSlot r (eo_DefaultSlot o')) aid (h @ [AskAID]) = (x, h2)"
      by (cases "UIMRebindPrimaryGWProvisioning e (resolveUIMReloadSlot r (eo_DefaultSlot o')) aid (h @ [AskAID])")
    from rebind_result[OF run] obtain seg where "h2 = (h @ [AskAID]) @ seg" "list_all (\<lambda>c. \<not> is_poll c) seg" "deactivations seg \<le> 1"
      by blast
    then show ?thesis using assms Inr False run
      by (intro exI[of _ "AskAID # seg"]) (auto simp: try_activation_def is_poll_def deactivations_def is_deactivation_def)
  qed
qed

definition disciplined :: "prov_env \<Rightarrow> int \<Rightarrow> nat \<Rightarrow> prov_call list \<Rightarrow> prov_call list \<Rightarrow> bool" where
  "disciplined e budget k h h' \<longleftrightarrow>
     (\<exists>seg. h' = h @ seg \<and> polls seg \<le> k \<and> int (deactivations seg) \<le> max 0 budget \<and> (\<forall>l. justified e l h seg))"

lemma disciplined_refl: "disciplined e b k h h"
  by (auto simp: disciplined_def intro!: exI[of _ "[]"])

lemma disciplined_quiet:
  assumes "disciplined e b k (h @ seg) h'" "list_all (\<lambda>c. \<not> is_poll c \<and> (\<forall>q. c \<noteq> SendProvisioning q)) seg"
  shows "disciplined e b k h h'"
proof -
  obtain rest where r: "h' = (h @ seg) @ rest" "polls rest \<le> k" "int (deactivations rest) \<le> max 0 b" "\<forall>l. justified e l (h @ seg) rest"
    using assms(1) by (auto simp: disciplined_def)
  have q: "list_all (\<lambda>c. \<not> is_poll c) seg" "polls seg = 0" "deactivations seg = 0"
    using assms(2) by (auto simp: list_all_iff polls_def deactivations_def filter_empty_conv is_deactivation_def split: prov_call.splits)
  show ?thesis
    unfolding disciplined_def
    using r q justified_quiet[OF assms(2)] by (intro exI[of _ "seg @ rest"]) (simp add: justified_append)
qed

lemma disciplined_poll:
  assumes "disciplined e b k (h @ AskReadiness # seg) h'" "list_all (\<lambda>c. \<not> is_poll c) seg" "int (deactivations seg) \<le> d"
    and "stuck (fst (pe_readiness e h)) \<or> list_all (\<lambda>c. \<forall>q. c \<noteq> SendProvisioning q) seg" "max 0 b + d \<le> max 0 c"
  shows "disciplined e c (Suc k) h h'"
proof -
  obtain rest where r: "h' = (h @ AskReadiness # seg) @ rest" "polls rest \<le> k" "int (deactivations rest) \<le> max 0 b"
      "\<forall>l. justified e l (h @ AskReadiness # seg) rest"
    using assms(1) by (auto simp: disciplined_def)
  have q: "polls seg = 0" using assms(2) by (simp add: list_all_iff polls_def filter_empty_conv)
  have j: "justified e (Some (fst (pe_readiness e h))) (h @ [AskReadiness]) seg"
    using assms(4)
  proof
    assume "list_all (\<lambda>c. \<forall>q. c \<noteq> SendProvisioning q) seg"
    then show ?thesis using assms(2) by (intro justified_quiet) (simp add: list_all_iff)
  qed (intro justified_stuck assms(2))
  have counts: "polls (AskReadiness # seg @ rest) = 1 + polls rest" "deactivations (AskReadiness # seg @ rest) = deactivations seg + deactivations rest"
    using q by (simp_all add: polls_def deactivations_def is_poll_def is_deactivation_def)
  show ?thesis
    unfolding disciplined_def
  proof (intro exI[of _ "(AskReadiness # seg) @ rest"] conjI allI)
    show "justified e l h ((AskReadiness # seg) @ rest)" for l
      using j r(4) justified_append[OF assms(2), of e "Some (fst (pe_readiness e h))" "h @ [AskReadiness]" rest]
      by (simp add: is_poll_def)
  qed (use r counts assms(3,5) in \<open>simp_all\<close>)
qed

text \<open>A pause between two attempts changes nothing of that, whether it is cut short or not.\<close>

lemma disciplined_pause:
  assumes run: "(case pause e j d g of (Some err, g2) \<Rightarrow> ((r, Some err), g2) | (None, g2) \<Rightarrow> go g2) = (res, h')"
    and rest: "\<And>g2. go g2 = (res, h') \<Longrightarrow> disciplined e b k g2 h'"
  shows "disciplined e b k g h'"
proof -
  obtain x g2 where p: "pause e j d g = (x, g2)" by (cases "pause e j d g")
  obtain seg where seg: "g2 = g @ seg" "seg = [] \<or> seg = [Sleep d]" by (rule pause_result[OF p])
  have "disciplined e b k g2 h'"
    using run rest p by (cases x) (auto simp: disciplined_refl)
  then show ?thesis unfolding seg(1) by (rule disciplined_quiet) (use seg(2) in \<open>auto simp: is_poll_def\<close>)
qed

text \<open>An attempt at an activation, and what follows it.\<close>

lemma disciplined_activation:
  assumes attempt: "try_activation e o' r (h @ [AskReadiness]) = (t, h2)" and ans: "fst (pe_readiness e h) = r" "stuck r"
    and room: "n < (m::int)"
    and rest: "t = NotTried \<Longrightarrow> disciplined e (m - n) k h2 h'" "t \<noteq> NotTried \<Longrightarrow> disciplined e (m - (n + 1)) k h2 h'"
  shows "disciplined e (m - n) (Suc k) h h'"
proof -
  from activation_result[OF attempt] obtain seg where seg: "h2 = h @ AskReadiness # seg" "list_all (\<lambda>c. \<not> is_poll c) seg"
      "deactivations seg \<le> (if t = NotTried then 0 else 1)" by auto
  show ?thesis
  proof (cases "t = NotTried")
    case True
    then show ?thesis using disciplined_poll[OF rest(1)[OF True, unfolded seg(1)] seg(2), of 0 "m - n"] seg(3) ans by simp
  next
    case False
    then show ?thesis using disciplined_poll[OF rest(2)[OF False, unfolded seg(1)] seg(2), of 1 "m - n"] seg(3) ans room by simp
  qed
qed

lemma ensure_disciplined:
  assumes "\<forall>h. built (fst (pe_readiness e h))"
  shows "ensure_loop e o' k prev streak n h = (res, h') \<Longrightarrow> disciplined e (eo_MaxActivations o' - n) k h h'"
proof (induction k arbitrary: prev streak n h res h')
  case (Suc k)
  obtain r err where ans: "pe_readiness e h = (r, err)" by (cases "pe_readiness e h")
  let ?h = "h @ [AskReadiness]" and ?m = "eo_MaxActivations o'" and ?streak = "next_streak r streak"
  have quiet: "disciplined e (?m - n) (Suc k) h h'" if "disciplined e (?m - n) k ?h h'"
    using disciplined_poll[of e "?m - n" k h "[]" h' 0 "?m - n"] that by (simp add: deactivations_def)
  note run = Suc.prems[unfolded ensure_loop.simps ans prod.case Let_def]
  show ?case
  proof (cases "err \<noteq> None \<or> ur_UIMReady r \<or> ur_Reason r \<in> settled_reasons")
    case True
    with run have "h' = ?h" by (auto split: option.splits)
    then show ?thesis by (intro quiet) (simp add: disciplined_refl)
  next
    case go: False
    show ?thesis
    proof (cases "want_activate (eo_UnknownAppStateBackstop o') r streak \<and> n < ?m")
      case False
      with run go have "(case pause e k (eo_PollInterval o') ?h of (Some err, h2) \<Rightarrow> ((r, Some err), h2)
          | (None, h2) \<Rightarrow> ensure_loop e o' k r ?streak n h2) = (res, h')" by auto
      then have "disciplined e (?m - n) k ?h h'" by (rule disciplined_pause) (erule Suc.IH)
      then show ?thesis by (rule quiet)
    next
      case wanted: True
      obtain t h2 where t: "try_activation e o' r ?h = (t, h2)" by (cases "try_activation e o' r ?h")
      have "built r" using assms ans by (metis fst_conv)
      then have stuck: "stuck r" by (rule built_stuck) (use go wanted in \<open>auto simp: want_activate_def\<close>)
      show ?thesis
      proof (rule disciplined_activation[OF t _ stuck])
        assume "t = NotTried"
        with run go wanted t have "(case pause e k (eo_PollInterval o') h2 of (Some err, h2) \<Rightarrow> ((r, Some err), h2)
            | (None, h2) \<Rightarrow> ensure_loop e o' k r ?streak n h2) = (res, h')" by auto
        then show "disciplined e (?m - n) k h2 h'" by (rule disciplined_pause) (erule Suc.IH)
      next
        assume "t \<noteq> NotTried"
        then obtain x where x: "t = Tried x" by (cases t) auto
        consider "x = None" | "x \<noteq> None" "is_not_supported (the x)" | "x \<noteq> None" "\<not> is_not_supported (the x)" by blast
        then show "disciplined e (?m - (n + 1)) k h2 h'"
        proof cases
          case 1
          with run go wanted t x have "(case pause e k (eo_ActivationSettle o') h2 of (Some err, h3) \<Rightarrow> ((r, Some err), h3)
              | (None, h3) \<Rightarrow> ensure_loop e o' k r 0 (n + 1) h3) = (res, h')" by auto
          then show ?thesis by (rule disciplined_pause) (erule Suc.IH)
        next
          case 2
          with run go wanted t x show ?thesis by (auto simp: disciplined_refl)
        next
          case 3
          with run go wanted t x have "(case pause e k (eo_PollInterval o') h2 of (Some err, h3) \<Rightarrow> ((r, Some err), h3)
              | (None, h3) \<Rightarrow> ensure_loop e o' k r ?streak (n + 1) h3) = (res, h')" by auto
          then show ?thesis by (rule disciplined_pause) (erule Suc.IH)
        qed
      qed (use ans wanted in simp_all)
    qed
  qed
qed (simp add: disciplined_refl)

text \<open>C34: Whatever the card, its slots and the errors of the device are (every answer of readiness is one that the query builds),
  provisioning asks at most as often as it may, deactivates and activates the session at most as often as it may, and does so
  only after a last answer that showed the modem reachable and a card that is present, neither usable nor locked, and
  whose application is detected or not known.\<close>

theorem provisioning_disciplined:
  assumes "\<forall>h. built (fst (pe_readiness e h))"
  shows "\<exists>seg. snd (EnsureSIMProvisioned e opts h) = h @ seg \<and>
    int (polls seg) \<le> eo_MaxAttempts (normalizeEnsureSIMProvisionedOptions opts) \<and>
    int (deactivations seg) \<le> eo_MaxActivations (normalizeEnsureSIMProvisionedOptions opts) \<and> justified e None h seg"
proof -
  let ?limits = "normalizeEnsureSIMProvisionedOptions opts"
  obtain res h' where run: "EnsureSIMProvisioned e opts h = (res, h')" by (cases "EnsureSIMProvisioned e opts h")
  have "0 < eo_MaxAttempts ?limits" "0 < eo_MaxActivations ?limits"
    by (simp_all add: normalizeEnsureSIMProvisionedOptions_def)
  then show ?thesis
    using ensure_disciplined[OF assms run[unfolded EnsureSIMProvisioned_def Let_def]] run
    by (auto simp: disciplined_def)
qed

text \<open>The query of the device builds its answers this way.\<close>

lemma getUIMReadiness_built: "getUIMReadiness ops m = (Some (r, err), m') \<Longrightarrow> built r"
  by (auto simp: getUIMReadiness_def try_m_def ret_m_def Let_def split: prod.splits option.splits)

text \<open>A card whose application is only detected, rebound at the first answer.\<close>

definition detected_card :: CardStatusDetails where
  "detected_card = \<lparr>cd_CardState = 1, cd_ErrorCode = 0, cd_NumSlot = 1, cd_NumApp = 1, cd_App = no_app\<lparr>ua_appState := UIMAppStateDetected\<rparr>,
     cd_UsesUPIN = False, cd_UPINState = 0, cd_UPINRetries = 0, cd_UPUKRetries = 0\<rparr>"

definition detected_env :: prov_env where
  "detected_env = \<lparr>pe_readiness = (\<lambda>_. (buildUIMReadinessWithSlotError SIMNotReady (Some detected_card) None no_identities None None, None)),
     pe_aid = (\<lambda>_. Inr [0xA0]), pe_send = (\<lambda>_ _. None)\<rparr>"

definition one_attempt :: EnsureSIMProvisionedOptions where
  "one_attempt = \<lparr>eo_DefaultSlot = 0, eo_PollInterval = 0, eo_MaxAttempts = 1, eo_UnknownAppStateBackstop = 0, eo_MaxActivations = 0,
     eo_ActivationSettle = 0\<rparr>"

theorem provisioning_disciplined_witness:
  "snd (EnsureSIMProvisioned detected_env one_attempt []) =
     [AskReadiness, AskAID, SendProvisioning deactivate_request, Sleep (200 * millisecond), SendProvisioning (activate_request 1 [0xA0])] \<and>
   justified detected_env None [] (snd (EnsureSIMProvisioned detected_env one_attempt []))"
proof
  have "\<forall>h. built (fst (pe_readiness detected_env h))" by (auto simp: detected_env_def)
  from provisioning_disciplined[OF this, of one_attempt "[]"]
  show "justified detected_env None [] (snd (EnsureSIMProvisioned detected_env one_attempt []))" by auto
  show "snd (EnsureSIMProvisioned detected_env one_attempt []) =
     [AskReadiness, AskAID, SendProvisioning deactivate_request, Sleep (200 * millisecond), SendProvisioning (activate_request 1 [0xA0])]"
    by (simp add: EnsureSIMProvisioned_def normalizeEnsureSIMProvisionedOptions_def one_attempt_def detected_env_def
        buildUIMReadinessWithSlotError_def readiness_base_def classify_def app_known_def card_present_def detected_card_def no_app_def
        isUIMReadinessTransportFatal_def resolveActiveUIMSlot_def resolveActiveUIMPhysicalSlot_def active_slot_def
        settled_reasons_def want_activate_def try_activation_def UIMRebindPrimaryGWProvisioning_def
        uimRebindPrimaryGWProvisioningWithSender_def p_then_def p_send_def sleepWithContext_def pause_def resolveUIMReloadSlot_def
        UIMAppStateDetected_def millisecond_def Let_def)
qed

section \<open>Where the code leaves the card off, and how it counts\<close>

text \<open>A cancellation after the card was powered off returns without powering it on again.\<close>

lemma cancelled_power_cycle_leaves_card_off:
  assumes "pe_send e h (PowerOffSIM 1) = None" "pe_send e (h @ [PowerOffSIM 1]) (Sleep d) = Some ErrCanceled" "0 < d"
  shows "UIMPowerCycleSIM e 1 d h = (Some ErrCanceled, h @ [PowerOffSIM 1, Sleep d])"
  using assms by (simp add: UIMPowerCycleSIM_def Let_def p_then_def p_send_def sleepWithContext_def)

text \<open>The answers that do not know the state of the application need not follow each other: a different state in between
  does not start the count again.\<close>

lemma unknown_answers_not_consecutive:
  assumes "\<not> ur_NeedsProvisioning r" "ur_AppState r \<noteq> UIMAppStateUnknown"
  shows "next_streak r streak = streak"
  using assms by (simp add: next_streak_def)

end
