(* ===== verification/ImsProbe.thy ===== *)
theory ImsProbe
  imports DataCall Wds
begin

text \<open>
  The probe of IMS settings, \<^verbatim>\<open>src/pkg/manager/ims_probe.go\<close>. First who may probe: \<^verbatim>\<open>beginIMSProbe\<close>, the scope it returns
  and \<^verbatim>\<open>blockIMSProbes\<close>, interleaved lock by lock and channel operation by channel operation with changes of the
  manager. Then what one probe does: every call it makes, on every path, with the deferred clean-up.
\<close>

section \<open>Who may probe\<close>

text \<open>What \<^verbatim>\<open>m.mu\<close> protects: the slot is a channel of one token, created at the first probe; \<^verbatim>\<open>imsProbeCancel\<close> is
  given by the probe whose context it ends.\<close>

record probe_mgr =
  pm_blocked :: bool
  pm_state :: State
  pm_coreReady :: bool
  pm_client :: "nat option"
  pm_slot :: "nat option"
  pm_wg :: nat
  pm_cancel :: "nat option"
  pm_activePDN :: bool

abbreviation ErrIMSProbeActivePDN :: go_error where
  "ErrIMSProbeActivePDN \<equiv> ErrText ''qmi manager: IMS probe requires no active PDN''"

text \<open>The first critical section of \<^verbatim>\<open>beginIMSProbe\<close>.\<close>

definition begin_queue :: "probe_mgr \<Rightarrow> go_error + probe_mgr" where
  "begin_queue m =
     (if pm_blocked m then Inl (ErrServiceNotReady ''qmi-core'')
      else if pm_state m = StateStopping then Inl ErrManagerStopping
      else if \<not> pm_coreReady m \<or> pm_client m = None then Inl (ErrServiceNotReady ''qmi-core'')
      else Inr (m\<lparr>pm_slot := Some (case pm_slot m of None \<Rightarrow> 1 | Some n \<Rightarrow> n)\<rparr>))"

text \<open>The second one, with the token in hand; \<^verbatim>\<open>Inl\<close> is the error that follows the return of the token.\<close>

definition begin_decide :: "nat \<Rightarrow> probe_mgr \<Rightarrow> go_error + nat \<times> probe_mgr" where
  "begin_decide i m =
     (let stopping = (pm_state m = StateStopping); ready = (pm_coreReady m \<and> pm_client m \<noteq> None) in
      if pm_blocked m \<or> stopping \<or> \<not> ready \<or> pm_activePDN m
      then Inl (if stopping then ErrManagerStopping
                else if pm_activePDN m then ErrIMSProbeActivePDN
                else ErrServiceNotReady ''qmi-core'')
      else Inr (the (pm_client m), m\<lparr>pm_wg := pm_wg m + 1, pm_cancel := Some i\<rparr>))"

text \<open>\<^verbatim>\<open>slot <- struct{}{}\<close>: \<^term>\<open>None\<close> while the channel is full.\<close>

definition put_token :: "probe_mgr \<Rightarrow> probe_mgr option" where
  "put_token m = (case pm_slot m of Some 0 \<Rightarrow> Some (m\<lparr>pm_slot := Some 1\<rparr>) | _ \<Rightarrow> None)"

definition take_token :: "probe_mgr \<Rightarrow> probe_mgr option" where
  "take_token m = (case pm_slot m of Some (Suc n) \<Rightarrow> Some (m\<lparr>pm_slot := Some n\<rparr>) | _ \<Rightarrow> None)"

text \<open>\<^verbatim>\<open>imsProbeWG.Done()\<close>: \<^term>\<open>None\<close> is the panic of a negative counter.\<close>

definition wg_done :: "probe_mgr \<Rightarrow> probe_mgr option" where
  "wg_done m = (if pm_wg m = 0 then None else Some (m\<lparr>pm_wg := pm_wg m - 1\<rparr>))"

text \<open>A caller of \<^verbatim>\<open>ProbeIMSPDNSettings\<close>: before, in the \<^verbatim>\<open>select\<close>, with the token, giving it back, probing, inside the
  release (after its first, second and third statement), returned.\<close>

datatype prober =
    Before
  | Queued
  | Deciding
  | GivingBack go_error
  | Probing nat
  | Uncancelable
  | Cancelled
  | Counted_out
  | Returned "go_error option"

text \<open>A caller of \<^verbatim>\<open>blockIMSProbes\<close>.\<close>

datatype blocker = BlockBefore | BlockGot "nat option" | BlockWaiting | BlockReturned

record probe_sys =
  ps_mgr :: probe_mgr
  ps_probers :: "nat \<Rightarrow> prober"
  ps_ended :: "nat set"
  ps_blockers :: "nat \<Rightarrow> blocker"

abbreviation set_prober :: "nat \<Rightarrow> prober \<Rightarrow> probe_sys \<Rightarrow> probe_sys" where
  "set_prober i p s \<equiv> s\<lparr>ps_probers := (ps_probers s)(i := p)\<rparr>"

inductive probe_step :: "probe_sys \<Rightarrow> probe_sys \<Rightarrow> bool" where
  queue_no: "\<lbrakk>ps_probers s i = Before; begin_queue (ps_mgr s) = Inl err\<rbrakk> \<Longrightarrow> probe_step s (set_prober i (Returned (Some err)) s)"
| queue_yes: "\<lbrakk>ps_probers s i = Before; begin_queue (ps_mgr s) = Inr m\<rbrakk> \<Longrightarrow> probe_step s (set_prober i Queued (s\<lparr>ps_mgr := m\<rparr>))"
| ctx_ends: "ps_probers s i \<noteq> Before \<Longrightarrow> probe_step s (s\<lparr>ps_ended := insert i (ps_ended s)\<rparr>)"
| give_up: "\<lbrakk>ps_probers s i = Queued; i \<in> ps_ended s; err \<in> {ErrCanceled, ErrDeadlineExceeded}\<rbrakk> \<Longrightarrow>
    probe_step s (set_prober i (Returned (Some err)) s)"
| take_slot: "\<lbrakk>ps_probers s i = Queued; take_token (ps_mgr s) = Some m\<rbrakk> \<Longrightarrow> probe_step s (set_prober i Deciding (s\<lparr>ps_mgr := m\<rparr>))"
| decide_no: "\<lbrakk>ps_probers s i = Deciding; begin_decide i (ps_mgr s) = Inl err\<rbrakk> \<Longrightarrow> probe_step s (set_prober i (GivingBack err) s)"
| give_back: "\<lbrakk>ps_probers s i = GivingBack err; put_token (ps_mgr s) = Some m\<rbrakk> \<Longrightarrow>
    probe_step s (set_prober i (Returned (Some err)) (s\<lparr>ps_mgr := m\<rparr>))"
| decide_yes: "\<lbrakk>ps_probers s i = Deciding; begin_decide i (ps_mgr s) = Inr (client, m)\<rbrakk> \<Longrightarrow>
    probe_step s (set_prober i (Probing client) (s\<lparr>ps_mgr := m\<rparr>))"
| release_uncancelable: "ps_probers s i = Probing client \<Longrightarrow>
    probe_step s (set_prober i Uncancelable (s\<lparr>ps_mgr := (ps_mgr s)\<lparr>pm_cancel := None\<rparr>\<rparr>))"
| release_cancel: "ps_probers s i = Uncancelable \<Longrightarrow> probe_step s (set_prober i Cancelled (s\<lparr>ps_ended := insert i (ps_ended s)\<rparr>))"
| release_done: "\<lbrakk>ps_probers s i = Cancelled; wg_done (ps_mgr s) = Some m\<rbrakk> \<Longrightarrow>
    probe_step s (set_prober i Counted_out (s\<lparr>ps_mgr := m\<rparr>))"
| release_token: "\<lbrakk>ps_probers s i = Counted_out; put_token (ps_mgr s) = Some m\<rbrakk> \<Longrightarrow>
    probe_step s (set_prober i (Returned None) (s\<lparr>ps_mgr := m\<rparr>))"
| block_mark: "ps_blockers s b = BlockBefore \<Longrightarrow>
    probe_step s (s\<lparr>ps_mgr := (ps_mgr s)\<lparr>pm_blocked := True\<rparr>, ps_blockers := (ps_blockers s)(b := BlockGot (pm_cancel (ps_mgr s)))\<rparr>)"
| block_cancel: "ps_blockers s b = BlockGot c \<Longrightarrow>
    probe_step s (s\<lparr>ps_ended := set_option c \<union> ps_ended s, ps_blockers := (ps_blockers s)(b := BlockWaiting)\<rparr>)"
| block_wait: "\<lbrakk>ps_blockers s b = BlockWaiting; pm_wg (ps_mgr s) = 0\<rbrakk> \<Longrightarrow>
    probe_step s (s\<lparr>ps_blockers := (ps_blockers s)(b := BlockReturned)\<rparr>)"
| manager_moves: "probe_step s (s\<lparr>ps_mgr := (ps_mgr s)\<lparr>pm_state := st, pm_coreReady := r, pm_client := c, pm_activePDN := a\<rparr>\<rparr>)"

text \<open>\<^verbatim>\<open>StartCoreContext\<close> and \<^verbatim>\<open>doRecoverFromModemReset\<close> lift the block.\<close>

inductive probe_unblock :: "probe_sys \<Rightarrow> probe_sys \<Rightarrow> bool" where
  "probe_unblock s (s\<lparr>ps_mgr := (ps_mgr s)\<lparr>pm_blocked := False\<rparr>\<rparr>)"

definition probe_any :: "probe_sys \<Rightarrow> probe_sys \<Rightarrow> bool" where
  "probe_any s t \<longleftrightarrow> probe_step s t \<or> probe_unblock s t"

definition init_probe_sys :: "probe_mgr \<Rightarrow> probe_sys" where
  "init_probe_sys m = \<lparr>ps_mgr = m\<lparr>pm_slot := None, pm_wg := 0, pm_cancel := None\<rparr>, ps_probers = (\<lambda>_. Before), ps_ended = {},
     ps_blockers = (\<lambda>_. BlockBefore)\<rparr>"

inductive_cases probe_stepE: "probe_step s t"
inductive_cases probe_unblockE: "probe_unblock s t"

section \<open>One token, one probe\<close>

fun holds_token :: "prober \<Rightarrow> bool" where
  "holds_token Before = False"
| "holds_token Queued = False"
| "holds_token (Returned r) = False"
| "holds_token p = True"

fun counts :: "prober \<Rightarrow> bool" where
  "counts (Probing c) = True"
| "counts Uncancelable = True"
| "counts Cancelled = True"
| "counts p = False"

fun probing :: "prober \<Rightarrow> bool" where
  "probing (Probing c) = True"
| "probing p = False"

text \<open>Either the token is in the slot, or one prober has it, and only that one counts.\<close>

definition token_ok :: "probe_mgr \<Rightarrow> (nat \<Rightarrow> prober) \<Rightarrow> nat option \<Rightarrow> bool" where
  "token_ok m T own \<longleftrightarrow>
     (\<forall>i. holds_token (T i) \<longleftrightarrow> own = Some i) \<and>
     (case pm_slot m of None \<Rightarrow> own = None \<and> (\<forall>i. T i \<noteq> Queued) | Some n \<Rightarrow> n = (if own = None then 1 else 0)) \<and>
     pm_wg m = (case own of Some i \<Rightarrow> if counts (T i) then 1 else 0 | None \<Rightarrow> 0) \<and>
     (\<forall>i. probing (T i) \<longleftrightarrow> pm_cancel m = Some i)"

definition block_ok :: "probe_sys \<Rightarrow> bool" where
  "block_ok s \<longleftrightarrow> (\<forall>i. pm_blocked (ps_mgr s) \<and> probing (ps_probers s i) \<longrightarrow>
     i \<in> ps_ended s \<or> (\<exists>b. ps_blockers s b = BlockGot (Some i)))"

lemma token_step:
  assumes "probe_step s t" "token_ok (ps_mgr s) (ps_probers s) own"
  shows "\<exists>own'. token_ok (ps_mgr t) (ps_probers t) own'"
proof -
  have at: "holds_token (ps_probers s i) = (own = Some i)" "probing (ps_probers s i) = (pm_cancel (ps_mgr s) = Some i)" for i
    using assms(2) unfolding token_ok_def by blast+
  note splits = option.splits nat.splits if_splits
  show ?thesis using assms(1)
  proof (cases rule: probe_step.cases)
    case (take_slot i m)
    then have "token_ok (ps_mgr t) (ps_probers t) (Some i)"
      using assms(2) at[of i] by (auto simp: token_ok_def take_token_def split: splits)
    then show ?thesis ..
  next
    case (give_back i err m)
    then have "token_ok (ps_mgr t) (ps_probers t) None"
      using assms(2) at[of i] by (auto simp: token_ok_def put_token_def split: splits)
    then show ?thesis ..
  next
    case (release_token i m)
    then have "token_ok (ps_mgr t) (ps_probers t) None"
      using assms(2) at[of i] by (auto simp: token_ok_def put_token_def split: splits)
    then show ?thesis ..
  next
    case (queue_no i err)
    then have "token_ok (ps_mgr t) (ps_probers t) own" using assms(2) at[of i] by (auto simp: token_ok_def split: splits)
    then show ?thesis ..
  next
    case (queue_yes i m)
    then have "token_ok (ps_mgr t) (ps_probers t) own"
      using assms(2) at[of i] by (auto simp: token_ok_def begin_queue_def split: splits)
    then show ?thesis ..
  next
    case (give_up i err)
    then have "token_ok (ps_mgr t) (ps_probers t) own" using assms(2) at[of i] by (auto simp: token_ok_def split: splits)
    then show ?thesis ..
  next
    case (decide_no i err)
    then have "token_ok (ps_mgr t) (ps_probers t) own" using assms(2) at[of i] by (auto simp: token_ok_def split: splits)
    then show ?thesis ..
  next
    case (decide_yes i client m)
    have "probing (ps_probers s j) \<Longrightarrow> holds_token (ps_probers s j)" for j by (cases "ps_probers s j") auto
    then have "pm_cancel (ps_mgr s) \<noteq> Some j" for j
      using at(1)[of j] at(1)[of i] at(2)[of j] at(2)[of i] decide_yes(2) by (cases "i = j") auto
    then have "pm_cancel (ps_mgr s) = None" by blast
    with decide_yes have "token_ok (ps_mgr t) (ps_probers t) own"
      using assms(2) at[of i] by (auto simp: token_ok_def begin_decide_def Let_def split: splits)
    then show ?thesis ..
  next
    case (release_uncancelable i client)
    then have "token_ok (ps_mgr t) (ps_probers t) own" using assms(2) at[of i] by (auto simp: token_ok_def split: splits)
    then show ?thesis ..
  next
    case (release_cancel i)
    then have "token_ok (ps_mgr t) (ps_probers t) own" using assms(2) at[of i] by (auto simp: token_ok_def split: splits)
    then show ?thesis ..
  next
    case (release_done i m)
    then have "token_ok (ps_mgr t) (ps_probers t) own"
      using assms(2) at[of i] by (auto simp: token_ok_def wg_done_def split: splits)
    then show ?thesis ..
  qed ((rule exI[of _ own], insert assms(2), simp add: token_ok_def)+)
qed

lemma token_unblock: "probe_unblock s t \<Longrightarrow> token_ok (ps_mgr s) (ps_probers s) own \<Longrightarrow> token_ok (ps_mgr t) (ps_probers t) own"
  by (elim probe_unblockE) (simp add: token_ok_def)

text \<open>Only a prober that finds the manager not blocked starts to probe, and the first statement of its release makes it
  uncancelable; so a prober that a blocker left behind is in that blocker's hands.\<close>

lemma block_step:
  assumes "probe_step s t" "block_ok s" "token_ok (ps_mgr s) (ps_probers s) own"
  shows "block_ok t"
  using assms
proof (cases rule: probe_step.cases)
  case (block_mark b)
  have cancel: "probing (ps_probers s i) \<Longrightarrow> pm_cancel (ps_mgr s) = Some i" for i
    using assms(3) by (simp add: token_ok_def)
  show ?thesis using block_mark cancel by (auto simp: block_ok_def)
next
  case (block_cancel b c)
  show ?thesis unfolding block_ok_def
  proof (intro allI impI)
    fix i assume "pm_blocked (ps_mgr t) \<and> probing (ps_probers t i)"
    then consider "i \<in> ps_ended s" | b' where "ps_blockers s b' = BlockGot (Some i)"
      using assms(2) block_cancel by (auto simp: block_ok_def)
    then show "i \<in> ps_ended t \<or> (\<exists>b. ps_blockers t b = BlockGot (Some i))"
    proof cases
      case 2
      then show ?thesis using block_cancel by (cases "b' = b") auto
    qed (use block_cancel in simp)
  qed
next
  case (block_wait b)
  show ?thesis unfolding block_ok_def
  proof (intro allI impI)
    fix i assume "pm_blocked (ps_mgr t) \<and> probing (ps_probers t i)"
    then consider "i \<in> ps_ended s" | b' where "ps_blockers s b' = BlockGot (Some i)"
      using assms(2) block_wait by (auto simp: block_ok_def)
    then show "i \<in> ps_ended t \<or> (\<exists>b. ps_blockers t b = BlockGot (Some i))"
    proof cases
      case 2
      then show ?thesis using block_wait by (cases "b' = b") auto
    qed (use block_wait in simp)
  qed
qed (use assms(2) in \<open>(auto simp: block_ok_def begin_queue_def begin_decide_def take_token_def put_token_def wg_done_def Let_def
      split: option.splits nat.splits if_splits)\<close>)

lemma block_unblock: "probe_unblock s t \<Longrightarrow> block_ok t"
  by (auto simp: block_ok_def elim!: probe_unblockE)

definition probe_inv :: "probe_sys \<Rightarrow> bool" where
  "probe_inv s \<longleftrightarrow> (\<exists>own. token_ok (ps_mgr s) (ps_probers s) own) \<and> block_ok s"

lemma probe_inv_reachable:
  assumes "probe_any\<^sup>*\<^sup>* (init_probe_sys m) s"
  shows "probe_inv s"
  using assms
proof (induction rule: rtranclp_induct)
  case base
  have "token_ok (ps_mgr (init_probe_sys m)) (ps_probers (init_probe_sys m)) None"
    by (simp add: token_ok_def init_probe_sys_def)
  then show ?case by (auto simp: probe_inv_def block_ok_def init_probe_sys_def)
next
  case (step s t)
  then show ?case using token_step block_step token_unblock block_unblock by (fastforce simp: probe_inv_def probe_any_def)
qed

lemma running_probe_counted:
  assumes "probe_any\<^sup>*\<^sup>* (init_probe_sys m) s"
  shows "(counts (ps_probers s i) \<longrightarrow> pm_wg (ps_mgr s) = 1) \<and> (holds_token (ps_probers s i) \<longrightarrow> put_token (ps_mgr s) \<noteq> None)"
proof -
  obtain own where own: "token_ok (ps_mgr s) (ps_probers s) own"
    using probe_inv_reachable[OF assms] by (auto simp: probe_inv_def)
  have h: "holds_token (ps_probers s i) = (own = Some i)" using own unfolding token_ok_def by blast
  have c: "counts (ps_probers s i) \<Longrightarrow> holds_token (ps_probers s i)" by (cases "ps_probers s i") auto
  have w: "pm_wg (ps_mgr s) = (case own of Some i \<Rightarrow> if counts (ps_probers s i) then 1 else 0 | None \<Rightarrow> 0)"
    and slot: "case pm_slot (ps_mgr s) of None \<Rightarrow> own = None | Some n \<Rightarrow> n = (if own = None then 1 else 0)"
    using own by (auto simp: token_ok_def split: option.splits)
  show ?thesis using h c w slot
    by (auto simp: put_token_def split: option.splits)
qed

text \<open>C26: In every interleaving of probes, blocks and changes of the manager at most one probe runs, and it is the one that the
  manager can cancel; its wait group counts it, so that neither the counter becomes negative nor the return of the token
  blocks; and while the manager is blocked, the context of a running probe is ended or is about to be by a blocker
  that still waits.\<close>

theorem one_probe_at_a_time:
  assumes "probe_any\<^sup>*\<^sup>* (init_probe_sys m) s"
  shows "(probing (ps_probers s i) \<and> probing (ps_probers s j) \<longrightarrow> i = j) \<and>
    (probing (ps_probers s i) \<longrightarrow> pm_cancel (ps_mgr s) = Some i) \<and>
    (counts (ps_probers s i) \<longrightarrow> pm_wg (ps_mgr s) = 1 \<and> wg_done (ps_mgr s) \<noteq> None) \<and>
    (holds_token (ps_probers s i) \<longrightarrow> put_token (ps_mgr s) \<noteq> None) \<and>
    (pm_blocked (ps_mgr s) \<and> probing (ps_probers s i) \<longrightarrow> i \<in> ps_ended s \<or> (\<exists>b. ps_blockers s b = BlockGot (Some i)))"
proof -
  obtain own where own: "token_ok (ps_mgr s) (ps_probers s) own" and b: "block_ok s"
    using probe_inv_reachable[OF assms] by (auto simp: probe_inv_def)
  have "probing (ps_probers s k) = (pm_cancel (ps_mgr s) = Some k)" for k
    using own unfolding token_ok_def by blast
  then show ?thesis using running_probe_counted[OF assms, of i] b
    by (auto simp: wg_done_def block_ok_def)
qed

text \<open>Once \<^verbatim>\<open>blockIMSProbes\<close> has found the wait group at zero, no probe runs until the block is lifted.\<close>

lemma blocked_stays_blocked:
  assumes "probe_step s t" "pm_blocked (ps_mgr s)"
  shows "pm_blocked (ps_mgr t)"
  using assms by (cases rule: probe_step.cases)
    (auto simp: begin_queue_def begin_decide_def take_token_def put_token_def wg_done_def Let_def split: option.splits nat.splits if_splits)

lemma blocked_nobody_counts:
  assumes "probe_step s t" "pm_blocked (ps_mgr s)" "\<forall>i. \<not> counts (ps_probers s i)"
  shows "\<forall>i. \<not> counts (ps_probers t i)"
  using assms(1)
proof (cases rule: probe_step.cases)
  case (decide_yes i client m)
  then show ?thesis using assms(2) by (simp add: begin_decide_def Let_def)
next
  case (release_uncancelable i client)
  have "counts (ps_probers s i)" using release_uncancelable by simp
  then show ?thesis using assms(3) by blast
next
  case (release_cancel i)
  have "counts (ps_probers s i)" using release_cancel by simp
  then show ?thesis using assms(3) by blast
qed (use assms(3) in \<open>auto\<close>)

theorem blocked_probes_stay_out:
  assumes "probe_any\<^sup>*\<^sup>* (init_probe_sys m) s" "pm_blocked (ps_mgr s)" "pm_wg (ps_mgr s) = 0"
    and "probe_step\<^sup>*\<^sup>* s t"
  shows "\<not> probing (ps_probers t i)"
proof -
  have "\<forall>i. \<not> counts (ps_probers s i)"
    using running_probe_counted[OF assms(1)] assms(3) by fastforce
  with assms(4,2) have "pm_blocked (ps_mgr t) \<and> (\<forall>i. \<not> counts (ps_probers t i))"
  proof (induction rule: rtranclp_induct)
    case (step u t)
    then show ?case using blocked_stays_blocked blocked_nobody_counts by blast
  qed simp
  moreover have "probing (ps_probers t i) \<Longrightarrow> counts (ps_probers t i)" by (cases "ps_probers t i") auto
  ultimately show ?thesis by blast
qed

section \<open>A probe and a block\<close>

definition sample_probe_mgr :: probe_mgr where
  "sample_probe_mgr = \<lparr>pm_blocked = False, pm_state = StateDisconnected, pm_coreReady = True, pm_client = Some 1, pm_slot = None,
     pm_wg = 0, pm_cancel = None, pm_activePDN = False\<rparr>"

definition sample_queued :: probe_sys where
  "sample_queued = set_prober 0 Queued ((init_probe_sys sample_probe_mgr)\<lparr>ps_mgr := sample_probe_mgr\<lparr>pm_slot := Some 1\<rparr>\<rparr>)"

definition sample_deciding :: probe_sys where
  "sample_deciding = set_prober 0 Deciding (sample_queued\<lparr>ps_mgr := sample_probe_mgr\<lparr>pm_slot := Some 0\<rparr>\<rparr>)"

definition sample_probing :: probe_sys where
  "sample_probing = set_prober 0 (Probing 1)
     (sample_deciding\<lparr>ps_mgr := sample_probe_mgr\<lparr>pm_slot := Some 0, pm_wg := 1, pm_cancel := Some 0\<rparr>\<rparr>)"

definition sample_blocking :: probe_sys where
  "sample_blocking = sample_probing\<lparr>ps_mgr := (ps_mgr sample_probing)\<lparr>pm_blocked := True\<rparr>,
     ps_blockers := (ps_blockers sample_probing)(7 := BlockGot (Some 0))\<rparr>"

lemma sample_blocking_reachable: "probe_any\<^sup>*\<^sup>* (init_probe_sys sample_probe_mgr) sample_blocking"
proof -
  have "probe_step (init_probe_sys sample_probe_mgr) sample_queued"
    using queue_yes[of "init_probe_sys sample_probe_mgr" 0 "sample_probe_mgr\<lparr>pm_slot := Some 1\<rparr>"]
    by (simp add: sample_queued_def init_probe_sys_def begin_queue_def sample_probe_mgr_def)
  moreover have "probe_step sample_queued sample_deciding"
    using take_slot[of sample_queued 0 "sample_probe_mgr\<lparr>pm_slot := Some 0\<rparr>"]
    by (simp add: sample_deciding_def sample_queued_def take_token_def sample_probe_mgr_def)
  moreover have "probe_step sample_deciding sample_probing"
    using decide_yes[of sample_deciding 0 1 "sample_probe_mgr\<lparr>pm_slot := Some 0, pm_wg := 1, pm_cancel := Some 0\<rparr>"]
    by (simp add: sample_probing_def sample_deciding_def begin_decide_def Let_def sample_probe_mgr_def)
  moreover have "probe_step sample_probing sample_blocking"
    using block_mark[of sample_probing 7]
    by (simp add: sample_blocking_def sample_probing_def sample_deciding_def sample_queued_def init_probe_sys_def)
  ultimately show ?thesis
    by (meson probe_any_def converse_rtranclp_into_rtranclp rtranclp.rtrancl_refl)
qed

theorem one_probe_at_a_time_witness:
  "pm_wg (ps_mgr sample_blocking) = 1 \<and> put_token (ps_mgr sample_blocking) \<noteq> None \<and>
    (\<exists>b. ps_blockers sample_blocking b = BlockGot (Some 0))"
  using one_probe_at_a_time[OF sample_blocking_reachable, of 0 0]
  by (simp add: sample_blocking_def sample_probing_def sample_deciding_def sample_queued_def init_probe_sys_def)

definition sample_blocked :: probe_sys where
  "sample_blocked = (init_probe_sys sample_probe_mgr)\<lparr>ps_mgr := sample_probe_mgr\<lparr>pm_blocked := True\<rparr>,
     ps_blockers := (\<lambda>_. BlockBefore)(7 := BlockGot None)\<rparr>"

theorem blocked_probes_stay_out_witness:
  "\<exists>t. probe_step sample_blocked t \<and> ps_probers t 0 = Returned (Some (ErrServiceNotReady ''qmi-core'')) \<and> \<not> probing (ps_probers t 0)"
proof -
  let ?t = "set_prober 0 (Returned (Some (ErrServiceNotReady ''qmi-core''))) sample_blocked"
  have "probe_step (init_probe_sys sample_probe_mgr) sample_blocked"
    using block_mark[of "init_probe_sys sample_probe_mgr" 7]
    by (simp add: sample_blocked_def init_probe_sys_def sample_probe_mgr_def)
  then have r: "probe_any\<^sup>*\<^sup>* (init_probe_sys sample_probe_mgr) sample_blocked"
    by (simp add: probe_any_def r_into_rtranclp)
  have "probe_step sample_blocked ?t"
    by (rule queue_no) (simp_all add: sample_blocked_def init_probe_sys_def begin_queue_def)
  then show ?thesis
    using blocked_probes_stay_out[OF r _ _ r_into_rtranclp, of ?t 0]
    by (intro exI[of _ ?t]) (simp add: sample_blocked_def sample_probe_mgr_def)
qed

section \<open>One probe\<close>

text \<open>What a probe does to the world, in order. The answers depend on what was asked before.\<close>

datatype probe_call =
    LeaseWDS
  | DiscoverProfile string
  | BeginQuietWindow
  | StartInterface byte byte
  | ReadSettings byte
  | StopInterface u32
  | EndQuietWindow
  | ReleaseWDS

type_synonym probe_trace = "probe_call list"

record 'r probe_env =
  pb_lease :: "probe_trace \<Rightarrow> go_error + bool"
  pb_discover :: "probe_trace \<Rightarrow> go_error + (byte \<times> bool)"
  pb_window :: "probe_trace \<Rightarrow> go_error option"
  pb_start :: "probe_trace \<Rightarrow> go_error + u32"
  pb_settings :: "probe_trace \<Rightarrow> go_error + 'r option"
  pb_stop :: "probe_trace \<Rightarrow> go_error option"
  pb_release :: "probe_trace \<Rightarrow> go_error option"

text \<open>\<^verbatim>\<open>errors.Join\<close> drops the absent errors.\<close>

definition errors_Join :: "go_error option list \<Rightarrow> go_error option" where
  "errors_Join es = (case List.map_filter id es of [] \<Rightarrow> None | es' \<Rightarrow> Some (ErrJoin es'))"

abbreviation wrapped :: "string \<Rightarrow> go_error \<Rightarrow> go_error" where
  "wrapped pre e \<equiv> ErrWrap pre e []"

text \<open>The deferred clean-up: the call is stopped if it was started, the quiet window ended if it was begun, the service
  released in any case.\<close>

definition probe_cleanup ::
  "'r probe_env \<Rightarrow> u32 option \<Rightarrow> bool \<Rightarrow> 'r option \<times> go_error option \<Rightarrow> probe_trace \<Rightarrow> ('r option \<times> go_error option) \<times> probe_trace" where
  "probe_cleanup e started window r h =
     (let (stopErr, h1) = (case started of Some handle \<Rightarrow> (pb_stop e h, h @ [StopInterface handle]) | None \<Rightarrow> (None, h));
          h2 = (if window then h1 @ [EndQuietWindow] else h1)
      in ((fst r, errors_Join [snd r, stopErr, pb_release e h2]), h2 @ [ReleaseWDS]))"

definition probe_settings ::
  "'r probe_env \<Rightarrow> byte \<Rightarrow> u32 \<Rightarrow> probe_trace \<Rightarrow> ('r option \<times> go_error option) \<times> probe_trace" where
  "probe_settings e family handle h =
     probe_cleanup e (Some handle) True
       (case pb_settings e h of
          Inl err \<Rightarrow> (None, Some (wrapped ''read IMS PDN settings: '' err))
        | Inr None \<Rightarrow> (None, Some (ErrText ''read IMS PDN settings: empty result''))
        | Inr (Some r) \<Rightarrow> (Some r, None)) (h @ [ReadSettings family])"

definition probe_start ::
  "'r probe_env \<Rightarrow> byte \<Rightarrow> byte \<Rightarrow> probe_trace \<Rightarrow> ('r option \<times> go_error option) \<times> probe_trace" where
  "probe_start e profile family h =
     (let h' = h @ [StartInterface profile family] in
      case pb_start e h of
        Inl err \<Rightarrow> probe_cleanup e None True (None, Some (wrapped (''start IMS PDN (profile '' @ decimal (unat profile) @ ''): '') err)) h'
      | Inr handle \<Rightarrow> probe_settings e family handle h')"

definition probe_window ::
  "'r probe_env \<Rightarrow> byte \<Rightarrow> byte \<Rightarrow> probe_trace \<Rightarrow> ('r option \<times> go_error option) \<times> probe_trace" where
  "probe_window e profile family h =
     (let h' = h @ [BeginQuietWindow] in
      case pb_window e h of
        Some err \<Rightarrow> probe_cleanup e None False (None, Some (wrapped ''acquire IMS probe card quiet window: '' err)) h'
      | None \<Rightarrow> probe_start e profile family h')"

definition probe_discover ::
  "'r probe_env \<Rightarrow> string \<Rightarrow> byte \<Rightarrow> probe_trace \<Rightarrow> ('r option \<times> go_error option) \<times> probe_trace" where
  "probe_discover e apnHint family h =
     (let h' = h @ [DiscoverProfile apnHint] in
      case pb_discover e h of
        Inl err \<Rightarrow> probe_cleanup e None False (None, Some (wrapped ''discover IMS profile: '' err)) h'
      | Inr (profile, found) \<Rightarrow>
          if \<not> found then probe_cleanup e None False (None, Some (ErrText ''qmi manager: no IMS profile on modem'')) h'
          else probe_window e profile family h')"

text \<open>\<^verbatim>\<open>ProbeIMSPDNSettings\<close> between \<^verbatim>\<open>beginIMSProbe\<close>, whose outcome is \<open>scope\<close>, and its release. A lease may also come back
  without a service and without an error.\<close>

definition ProbeIMSPDNSettings ::
  "'r probe_env \<Rightarrow> go_error option \<Rightarrow> string \<Rightarrow> byte \<Rightarrow> probe_trace \<Rightarrow> ('r option \<times> go_error option) \<times> probe_trace" where
  "ProbeIMSPDNSettings e scope apnHint family h =
     (if family \<noteq> 4 \<and> family \<noteq> 6
      then ((None, Some (ErrText (''qmi manager: unsupported IMS probe IP family '' @ decimal (unat family)))), h)
      else case scope of Some err \<Rightarrow> ((None, Some err), h)
      | None \<Rightarrow>
          (let h' = h @ [LeaseWDS] in
           case pb_lease e h of
             Inl err \<Rightarrow> ((None, Some (wrapped ''allocate WDS for IMS probe: '' err)), h')
           | Inr False \<Rightarrow> ((None, Some (ErrText ''allocate WDS for IMS probe: nil WDS service'')), h')
           | Inr True \<Rightarrow> probe_discover e apnHint family h'))"

lemmas probe_defs = ProbeIMSPDNSettings_def probe_discover_def probe_window_def probe_start_def probe_settings_def

text \<open>C25: The trace of a probe is one of six: every service leased is released, last; a quiet window begun is ended before
  that; and a call that was started is stopped, with the handle the start returned, before the window ends. Settings
  are returned only by a probe that ran to the end, and without an error only if the call was stopped and the
  service released.\<close>

theorem probe_undoes_what_it_did:
  "\<exists>seg. snd (ProbeIMSPDNSettings e scope hint family h) = h @ seg \<and>
    (let (settings, err) = fst (ProbeIMSPDNSettings e scope hint family h) in
     (seg \<in> {[], [LeaseWDS], [LeaseWDS, DiscoverProfile hint, ReleaseWDS],
             [LeaseWDS, DiscoverProfile hint, BeginQuietWindow, ReleaseWDS]} \<and> settings = None \<and> err \<noteq> None) \<or>
     (\<exists>p. seg = [LeaseWDS, DiscoverProfile hint, BeginQuietWindow, StartInterface p family, EndQuietWindow, ReleaseWDS] \<and>
        settings = None \<and> err \<noteq> None) \<or>
     (\<exists>p handle. seg = [LeaseWDS, DiscoverProfile hint, BeginQuietWindow, StartInterface p family, ReadSettings family,
          StopInterface handle, EndQuietWindow, ReleaseWDS] \<and>
        pb_discover e (h @ [LeaseWDS]) = Inr (p, True) \<and>
        pb_start e (h @ [LeaseWDS, DiscoverProfile hint, BeginQuietWindow]) = Inr handle \<and>
        (err = None \<longleftrightarrow> settings \<noteq> None \<and> pb_stop e (h @ take 5 seg) = None \<and> pb_release e (h @ take 7 seg) = None)))"
  (is "\<exists>seg. snd ?run = _ \<and> _")
proof (cases "(family = 4 \<or> family = 6) \<and> scope = None \<and> pb_lease e h = Inr True")
  case False
  then show ?thesis by (auto simp: ProbeIMSPDNSettings_def Let_def split: sum.splits option.splits)
next
  case True
  note run = probe_defs probe_cleanup_def errors_Join_def Let_def
  let ?h1 = "h @ [LeaseWDS]" and ?h2 = "h @ [LeaseWDS, DiscoverProfile hint]"
    and ?h3 = "h @ [LeaseWDS, DiscoverProfile hint, BeginQuietWindow]"
  show ?thesis
  proof (cases "\<exists>p. pb_discover e ?h1 = Inr (p, True)")
    case discover: False
    then show ?thesis using True by (cases "pb_discover e ?h1") (auto simp: run map_filter_simps split: option.splits)
  next
    case discover: True
    then obtain p where p: "pb_discover e ?h1 = Inr (p, True)" by blast
    show ?thesis
    proof (cases "pb_window e ?h2")
      case (Some err)
      then show ?thesis using True p by (auto simp: run map_filter_simps split: option.splits)
    next
      case window: None
      show ?thesis
      proof (cases "pb_start e ?h3")
        case (Inl err)
        then show ?thesis using True p window by (auto simp: run map_filter_simps split: option.splits)
      next
        case (Inr handle)
        then show ?thesis using True p window
          by (cases "pb_settings e (?h3 @ [StartInterface p family])")
            (auto simp: run map_filter_simps split: option.splits)
      qed
    qed
  qed
qed

section \<open>The profile of the probe\<close>

text \<open>\<^verbatim>\<open>DiscoverIMSProfileIndex\<close> reads the list of profiles and then their settings one after the other, until one is marked.\<close>

fun pick_reading :: "'m sender \<Rightarrow> ProfileInfo list \<Rightarrow> string \<Rightarrow> u8 option \<Rightarrow> 'm \<Rightarrow> u8 option option \<times> 'm" where
  "pick_reading send [] apnHint apnMatch m = (Some apnMatch, m)"
| "pick_reading send (p # ps) apnHint apnMatch m =
     (case GetProfileSettings send (pi_Type p) (pi_Index p) m of
        (None, m1) \<Rightarrow> (None, m1)
      | (Some (Inl _), m1) \<Rightarrow> pick_reading send ps apnHint apnMatch m1
      | (Some (Inr s), m1) \<Rightarrow>
          if pset_IMCNFlag s = Some True then (Some (Some (pi_Index p)), m1)
          else pick_reading send ps apnHint
            (if apnMatch = None \<and> apnHint \<noteq> [] \<and> EqualFold (TrimSpace (pset_APN s)) apnHint
             then Some (pi_Index p) else apnMatch) m1)"

definition DiscoverIMSProfileIndex :: "'m sender \<Rightarrow> u8 \<Rightarrow> string \<Rightarrow> 'm \<Rightarrow> u8 option parsed \<times> 'm" where
  "DiscoverIMSProfileIndex send profileType apnHint m =
     (case GetProfileList send profileType m of
        (None, m1) \<Rightarrow> (None, m1)
      | (Some (Inl err), m1) \<Rightarrow> (Some (Inl err), m1)
      | (Some (Inr profiles), m1) \<Rightarrow>
          (case pick_reading send profiles (TrimSpace apnHint) None m1 of
             (r, m2) \<Rightarrow> (map_option Inr r, m2)))"

text \<open>When the answers do not depend on what was asked before, the choice is the one of \<^const>\<open>pickIMSProfileIndex\<close>.\<close>

lemma pick_reading_pure:
  assumes "\<And>p m. GetProfileSettings send (pi_Type p) (pi_Index p) m = (Some (settingsFor p), m)"
  shows "pick_reading send ps apnHint apnMatch m = (Some (pick_profile ps settingsFor apnHint apnMatch), m)"
  using assms by (induction ps arbitrary: apnMatch) (auto split: sum.splits)

end
