(* ===== verification/Lifecycle.thy ===== *)
theory Lifecycle
  imports DataCall Uim
begin

text \<open>
  The life of a manager, \<^verbatim>\<open>src/pkg/manager/manager.go\<close>: starting the core (opening the client, allocating the services, checking
  the card), stopping it, the clean-up, the recovery after a reset of the modem and its retries, and the defaults of the
  configuration. An operation is an action on the record \<open>core\<close>; clients are numbered in the order in which they are opened, and
  each service pointer remembers the client it was allocated on. What the modem, the host and the other parts of the manager
  are asked is a \<open>core_call\<close>, kept in a trace on which the answers of the environment depend.
\<close>

section \<open>Services, calls, state\<close>

datatype service =
    SvcWDS | SvcWDSv6 | SvcWDA | SvcNAS | SvcDMS | SvcUIM | SvcWMS | SvcVOICE | SvcIMS | SvcIMSA | SvcIMSP

datatype DataPlanePolicy = DataPlanePolicyEager | DataPlanePolicyLazy | DataPlanePolicyDisabled

record core_cfg =
  kc_NetInterface :: string
  kc_EnableIPv4 :: bool
  kc_EnableIPv6 :: bool
  kc_DataPlanePolicy :: DataPlanePolicy
  kc_DataPlaneMode :: string
  kc_PINCode :: string
  kc_NoDial :: bool
  kc_AutoReconnect :: bool
  kc_DisableWMSInd :: bool
  kc_DisableVOICEInd :: bool
  kc_DisableIMSAInd :: bool
  kc_MaxRecoverAttempts :: int
  kc_MaxRecoverElapsed :: int

text \<open>What the manager asks of the modem, the host, and its own other parts.\<close>

datatype core_call =
    OpenClient | CloseClient nat | Allocate service | CloseService service nat | RegisterIndications service | RecoverWMSState
  | KernelRawIP string | ReconcileResidual string | EnableRawIPMode | OpenBackoff nat
  | AcquireCard | UIMCardStatus | DMSCardStatus | VerifySIMPIN string
  | BlockProbes | StopTimers | CloseSessions | CleanupQMAP string string | StopCallV4 nat u32 | StopCallV6 nat u32 | CleanupNetcfg string
  | StartLoops | CancelLoops | AwaitLoops | SendStop | SendStart | CloseEvents | PreWarm bool
  | DisconnectData | ResetSnapshot | RecoverDataPlane | ResetQuietWindow | IdentityGate
  | ScheduleStart nat | ScheduleRetry int | EmitExhausted string

type_synonym core_trace = "core_call list"

text \<open>The environment: what a call answers, whether the context of the caller has ended, which services the client has, in which
  order tasks that run side by side get their turn, the clock, the random numbers, and whether the device node is gone.\<close>

record core_env =
  ke_call :: "core_trace \<Rightarrow> core_call \<Rightarrow> go_error option"
  ke_ctx :: "core_trace \<Rightarrow> go_error option"
  ke_supports :: "service \<Rightarrow> bool"
  ke_order :: "core_trace \<Rightarrow> nat list"
  ke_now :: "core_trace \<Rightarrow> int"
  ke_random :: "core_trace \<Rightarrow> nat"
  ke_status :: "core_trace \<Rightarrow> core_call \<Rightarrow> go_error + SIMStatus"
  ke_deviceGone :: "core_trace \<Rightarrow> bool"
  ke_resetPending :: "core_trace \<Rightarrow> bool"

text \<open>A client is a number, the order in which it was opened; \<open>co_svc\<close> gives for each service pointer the client that it was
  allocated on; \<open>co_open\<close> are the clients not closed yet, and \<open>co_loops\<close> counts the event loops started and not waited for.\<close>

record core =
  co_state :: State
  co_coreReady :: bool
  co_controlReady :: bool
  co_coreStage :: string
  co_controlStage :: string
  co_lastErr :: string
  co_desired :: bool
  co_probeBlocked :: bool
  co_client :: "nat option"
  co_svc :: "service \<Rightarrow> nat option"
  co_handleV4 :: u32
  co_handleV6 :: u32
  co_muxIface :: string
  co_masterIface :: string
  co_next :: nat
  co_open :: "nat list"
  co_loops :: nat
  co_eventsClosed :: bool
  co_recoverCount :: int
  co_firstFail :: "int option"
  co_trace :: core_trace

type_synonym core_act = "core \<Rightarrow> go_error option \<times> core"

definition told :: "core_call \<Rightarrow> core \<Rightarrow> core" where
  "told k s = s\<lparr>co_trace := co_trace s @ [k]\<rparr>"

definition ask_core :: "core_env \<Rightarrow> core_call \<Rightarrow> core_act" where
  "ask_core e k s = (ke_call e (co_trace s) k, told k s)"

definition core_seq :: "core_act \<Rightarrow> core_act \<Rightarrow> core_act" where
  "core_seq f g s = (case f s of (Some err, s1) \<Rightarrow> (Some err, s1) | (None, s1) \<Rightarrow> g s1)"

definition core_skip :: core_act where "core_skip s = (None, s)"

definition wrapping :: "string \<Rightarrow> core_act \<Rightarrow> core_act" where
  "wrapping pre f s = (case f s of (err, s1) \<Rightarrow> (map_option (\<lambda>x. ErrWrap pre x []) err, s1))"

definition ctx_check :: "core_env \<Rightarrow> core_act" where
  "ctx_check e s = (ke_ctx e (co_trace s), s)"

section \<open>Readiness marks\<close>

definition markControlReadyLocked :: "string \<Rightarrow> core \<Rightarrow> core" where
  "markControlReadyLocked stage s =
     s\<lparr>co_controlReady := True, co_controlStage := (if stage = [] then ''control_ready'' else stage)\<rparr>"

definition markControlNotReadyLocked :: "string \<Rightarrow> core \<Rightarrow> core" where
  "markControlNotReadyLocked stage s =
     s\<lparr>co_controlReady := False,
       co_controlStage := (if stage \<noteq> [] then stage else if co_controlStage s = [] then ''control_not_ready'' else co_controlStage s)\<rparr>"

definition markCoreReadyLocked :: "string \<Rightarrow> core \<Rightarrow> core" where
  "markCoreReadyLocked stage s =
     (markControlReadyLocked stage s)\<lparr>co_coreReady := True, co_coreStage := (if stage = [] then ''ready'' else stage), co_lastErr := []\<rparr>"

definition markCoreNotReadyLocked :: "string \<Rightarrow> go_error option \<Rightarrow> core \<Rightarrow> core" where
  "markCoreNotReadyLocked stage err s =
     s\<lparr>co_coreReady := False,
       co_coreStage := (if stage \<noteq> [] then stage else if co_coreStage s = [] then ''not_ready'' else co_coreStage s),
       co_lastErr := (case err of Some x \<Rightarrow> err_text x | None \<Rightarrow> co_lastErr s)\<rparr>"

definition set_state :: "State \<Rightarrow> core \<Rightarrow> core" where
  "set_state st s = s\<lparr>co_state := st\<rparr>"

section \<open>Allocating the services\<close>

definition create_service :: "core_env \<Rightarrow> service \<Rightarrow> core_act" where
  "create_service e k s =
     (case ask_core e (Allocate k) s of
        (Some err, s1) \<Rightarrow> (Some err, s1)
      | (None, s1) \<Rightarrow> (None, s1\<lparr>co_svc := (co_svc s1)(k := co_client s1)\<rparr>))"

definition plane_service :: "core_env \<Rightarrow> service \<Rightarrow> string \<Rightarrow> core_act" where
  "plane_service e k name s =
     (if co_svc s k \<noteq> None then core_skip s
      else core_seq (ctx_check e) (wrapping (''failed to allocate '' @ name @ '' client: '') (create_service e k)) s)"

definition shouldAllocateWDA_core :: "core_cfg \<Rightarrow> bool" where
  "shouldAllocateWDA_core c \<longleftrightarrow> TrimSpace (kc_NetInterface c) \<noteq> [] \<and> (kc_EnableIPv4 c \<or> kc_EnableIPv6 c)"

text \<open>\<^verbatim>\<open>ensureDataPlaneServicesLocked\<close>, here with the client that each service belongs to; a failure to remove residual muxes or to
  enable raw IP is only logged, unless the context has ended.\<close>

definition plane_services :: "core_cfg \<Rightarrow> core_env \<Rightarrow> core_act" where
  "plane_services c e =
     (if kc_DataPlanePolicy c = DataPlanePolicyDisabled then (\<lambda>s. (Some (ErrServiceNotReady ''data-plane''), s))
      else
        core_seq (if kc_EnableIPv4 c then plane_service e SvcWDS ''WDS'' else core_skip)
        (core_seq (if kc_EnableIPv6 c then plane_service e SvcWDSv6 ''IPv6 WDS'' else core_skip)
        (\<lambda>s. if shouldAllocateWDA_core c \<and> co_svc s SvcWDA = None then
               core_seq (plane_service e SvcWDA ''WDA'') (\<lambda>s1.
                 case ask_core e EnableRawIPMode (told (ReconcileResidual (kc_NetInterface c)) s1) of
                   (None, s2) \<Rightarrow> (None, s2)
                 | (Some _, s2) \<Rightarrow> wrapping ''failed to enable RawIP mode: '' (ctx_check e) s2) s
             else core_skip s)))"

text \<open>Tasks that run side by side: each looks at the context when it starts, the first error is kept. The order in which they get
  their turn is the environment's; a task started late may find the context cancelled by the error of another.\<close>

fun run_tasks :: "core_env \<Rightarrow> core_act list \<Rightarrow> go_error option \<Rightarrow> core_act" where
  "run_tasks e [] first s = (first, s)"
| "run_tasks e (t # ts) first s =
     (case core_seq (ctx_check e) t s of (err, s1) \<Rightarrow> run_tasks e ts (if first = None then err else first) s1)"

definition arranged :: "nat list \<Rightarrow> 'a list \<Rightarrow> 'a list" where
  "arranged order ts =
     (if distinct order \<and> set order = {..<length ts} then map ((!) ts) order else ts)"

definition runStartupServiceTasks :: "core_env \<Rightarrow> bool \<Rightarrow> core_act list \<Rightarrow> core_act" where
  "runStartupServiceTasks e fatal tasks s =
     (case run_tasks e (arranged (ke_order e (co_trace s)) tasks) None s of (err, s1) \<Rightarrow> (if fatal then err else None, s1))"

definition core_task :: "core_env \<Rightarrow> service \<Rightarrow> string \<Rightarrow> core_act \<Rightarrow> core_act" where
  "core_task e k name after = core_seq (wrapping (''failed to allocate '' @ name @ '' client: '') (create_service e k)) after"

definition registering :: "core_env \<Rightarrow> service \<Rightarrow> string \<Rightarrow> core_act" where
  "registering e k name = wrapping (''failed to register '' @ name @ '' indications: '') (ask_core e (RegisterIndications k))"

definition core_tasks :: "core_env \<Rightarrow> core_act list" where
  "core_tasks e = [core_task e SvcNAS ''NAS'' (registering e SvcNAS ''NAS''), core_task e SvcDMS ''DMS'' core_skip,
     core_task e SvcUIM ''UIM'' (registering e SvcUIM ''UIM'')]"

definition aux_task :: "core_env \<Rightarrow> bool \<Rightarrow> service \<Rightarrow> core_act \<Rightarrow> core_act" where
  "aux_task e wanted k after = (if wanted \<and> ke_supports e k then core_seq (create_service e k) after else core_skip)"

definition ignoring_core :: "core_act \<Rightarrow> core_act" where
  "ignoring_core f s = (None, snd (f s))"

definition aux_tasks :: "core_cfg \<Rightarrow> core_env \<Rightarrow> core_act list" where
  "aux_tasks c e =
     [aux_task e (\<not> kc_DisableWMSInd c) SvcWMS (ignoring_core (ask_core e RecoverWMSState)),
      aux_task e True SvcVOICE (if kc_DisableVOICEInd c then core_skip else ask_core e (RegisterIndications SvcVOICE)),
      ignoring_core (aux_task e True SvcIMS core_skip),
      ignoring_core (aux_task e True SvcIMSA (if kc_DisableIMSAInd c then core_skip else ask_core e (RegisterIndications SvcIMSA)))]"

definition drop_services :: "service list \<Rightarrow> core \<Rightarrow> core" where
  "drop_services ks s = s\<lparr>co_svc := (\<lambda>k. if k \<in> set ks then None else co_svc s k)\<rparr>"

definition allocateServices :: "core_cfg \<Rightarrow> core_env \<Rightarrow> core_act" where
  "allocateServices c e =
     core_seq (if kc_DataPlanePolicy c = DataPlanePolicyEager then plane_services c e else core_skip)
     (core_seq (runStartupServiceTasks e True (core_tasks e))
     (\<lambda>s. case runStartupServiceTasks e False (aux_tasks c e) (drop_services [SvcIMS, SvcIMSA, SvcIMSP] s) of
            (_, s1) \<Rightarrow> (None, drop_services [SvcIMSP] s1)))"

section \<open>Opening the client\<close>

definition retryable :: "go_error \<Rightarrow> bool" where
  "retryable err \<longleftrightarrow> as_timeout err \<noteq> None \<or> errors_Is err ErrDeadlineExceeded"

definition close_client :: "nat \<Rightarrow> core \<Rightarrow> core" where
  "close_client n s = (told (CloseClient n) s)\<lparr>co_open := removeAll n (co_open s)\<rparr>"

text \<open>One turn of the loop: \<^verbatim>\<open>NewClientWithOptions\<close>, the services, and the way back when they fail.\<close>

definition open_once :: "core_cfg \<Rightarrow> core_env \<Rightarrow> core_act" where
  "open_once c e s =
     (case wrapping ''failed to open QMI device: '' (ask_core e OpenClient) s of
        (Some err, s1) \<Rightarrow> (Some err, s1)
      | (None, s1) \<Rightarrow>
          (let n = co_next s1; s2 = s1\<lparr>co_client := Some n, co_next := Suc n, co_open := co_open s1 @ [n]\<rparr> in
           case allocateServices c e s2 of
             (None, s3) \<Rightarrow> (None, s3)
           | (Some err, s3) \<Rightarrow>
               (let s4 = close_client n s3 in
                (Some err, s4\<lparr>co_client := (if co_client s4 = Some n then None else co_client s4)\<rparr>))))"

fun open_attempts :: "core_cfg \<Rightarrow> core_env \<Rightarrow> nat \<Rightarrow> nat \<Rightarrow> core_act" where
  "open_attempts c e 0 attempt s = core_skip s"
| "open_attempts c e (Suc k) attempt s =
     core_seq (ctx_check e) (\<lambda>s.
       case open_once c e s of
         (None, s1) \<Rightarrow> (None, s1)
       | (Some lastErr, s1) \<Rightarrow>
           if \<not> retryable lastErr \<or> k = 0 then (Some lastErr, s1)
           else core_seq (ask_core e (OpenBackoff (2 * attempt))) (open_attempts c e k (Suc attempt)) s1) s"

text \<open>The kernel's own raw IP flag is set first, where there is one; a failure is only logged.\<close>

definition openClientAndAllocateServices :: "core_cfg \<Rightarrow> core_env \<Rightarrow> core_act" where
  "openClientAndAllocateServices c e s = open_attempts c e 4 1 (told (KernelRawIP (kc_NetInterface c)) s)"

section \<open>The card at start\<close>

definition ask_status :: "core_env \<Rightarrow> core_call \<Rightarrow> core \<Rightarrow> (go_error + SIMStatus) \<times> core" where
  "ask_status e k s = (ke_status e (co_trace s) k, told k s)"

text \<open>The status and the error after the UIM service was asked, and after the fallback to DMS, which only adds an error.\<close>

definition uim_status :: "core_env \<Rightarrow> core \<Rightarrow> (SIMStatus \<times> go_error option) \<times> core" where
  "uim_status e s =
     (if co_svc s SvcUIM = None then ((SIMAbsent, None), s)
      else case ask_status e UIMCardStatus s of
        (Inr st, s1) \<Rightarrow> ((st, None), s1)
      | (Inl err, s1) \<Rightarrow> ((SIMAbsent, Some err), s1))"

definition dms_status :: "core_env \<Rightarrow> SIMStatus \<Rightarrow> go_error option \<Rightarrow> core \<Rightarrow> (SIMStatus \<times> go_error option) \<times> core" where
  "dms_status e status err s =
     (if err = None \<and> status = SIMReady then ((status, err), s)
      else case ask_status e DMSCardStatus s of
        (Inr st, s1) \<Rightarrow> ((st, err), s1)
      | (Inl dmsErr, s1) \<Rightarrow> ((status, (case err of None \<Rightarrow> Some dmsErr | Some _ \<Rightarrow> err)), s1))"

definition check_card :: "core_cfg \<Rightarrow> core_env \<Rightarrow> core_act" where
  "check_card c e s =
     (case uim_status e s of ((status0, err0), s1) \<Rightarrow>
      (case dms_status e status0 err0 s1 of
        ((status, Some err), s2) \<Rightarrow> (Some err, s2)
      | ((status, None), s2) \<Rightarrow>
          if status = SIMPINRequired \<and> kc_PINCode c \<noteq> []
          then wrapping ''PIN verification failed: '' (ask_core e (VerifySIMPIN (kc_PINCode c))) s2
          else (None, s2)))"

text \<open>The card gate is entered first, which fails when the time allowed for the check ends.\<close>

definition checkSIM :: "core_cfg \<Rightarrow> core_env \<Rightarrow> core_act" where
  "checkSIM c e = core_seq (ask_core e AcquireCard) (check_card c e)"

section \<open>Clean-up\<close>

definition cleanup_order :: "service list" where
  "cleanup_order = [SvcWDS, SvcWDSv6, SvcNAS, SvcDMS, SvcUIM, SvcWDA, SvcWMS, SvcIMS, SvcIMSA, SvcIMSP, SvcVOICE]"

text \<open>The tasks run side by side and within a time limit; their order in the trace is the one of the list.\<close>

definition cleanup_tasks :: "core_cfg \<Rightarrow> core \<Rightarrow> core_call list" where
  "cleanup_tasks c s =
     (let master = (if co_masterIface s = [] then kc_NetInterface c else co_masterIface s) in
      (if co_muxIface s \<noteq> [] \<or> master \<noteq> [] then [CleanupQMAP (co_muxIface s) master] else []) @
      (case co_svc s SvcWDS of Some n \<Rightarrow> if co_handleV4 s \<noteq> 0 then [StopCallV4 n (co_handleV4 s)] else [] | None \<Rightarrow> []) @
      (case co_svc s SvcWDSv6 of Some n \<Rightarrow> if co_handleV6 s \<noteq> 0 then [StopCallV6 n (co_handleV6 s)] else [] | None \<Rightarrow> []) @
      (if kc_NetInterface c \<noteq> [] then [CleanupNetcfg (kc_NetInterface c)] else []))"

definition service_closes :: "core \<Rightarrow> core_call list" where
  "service_closes s = concat (map (\<lambda>k. case co_svc s k of Some n \<Rightarrow> [CloseService k n] | None \<Rightarrow> []) cleanup_order)"

definition forget_core :: "core \<Rightarrow> core" where
  "forget_core s = markCoreNotReadyLocked ''cleanup'' None (markControlNotReadyLocked ''cleanup''
     (s\<lparr>co_svc := (\<lambda>_. None), co_client := None, co_handleV4 := 0, co_handleV6 := 0, co_muxIface := [], co_masterIface := []\<rparr>))"

definition core_cleanup :: "core_cfg \<Rightarrow> core \<Rightarrow> core" where
  "core_cleanup c s0 =
     (let s = told CloseSessions (told StopTimers (told BlockProbes (s0\<lparr>co_probeBlocked := True\<rparr>)));
          s1 = forget_core s;
          s2 = s1\<lparr>co_trace := co_trace s1 @ cleanup_tasks c s @ service_closes s\<rparr>
      in case co_client s of Some n \<Rightarrow> close_client n s2 | None \<Rightarrow> s2)"

section \<open>Start and stop\<close>

definition StartCoreContext :: "core_cfg \<Rightarrow> core_env \<Rightarrow> core_act" where
  "StartCoreContext c e s0 =
     (if co_coreReady s0 \<or> co_state s0 \<noteq> StateDisconnected then (Some (ErrText ''manager already started''), s0)
      else
        let s = s0\<lparr>co_probeBlocked := False, co_state := StateConnecting, co_desired := False\<rparr> in
        case openClientAndAllocateServices c e s of
          (Some err, s1) \<Rightarrow> (Some err, set_state StateDisconnected (core_cleanup c s1))
        | (None, s1) \<Rightarrow>
            (let s2 = snd (checkSIM c e (markControlReadyLocked ''start_control_ready'' s1));
                 s3 = told StartLoops (told StopTimers s2);
                 s4 = markCoreReadyLocked ''start_core_ready'' (s3\<lparr>co_loops := Suc (co_loops s3)\<rparr>)
             in (None, told (PreWarm True) (set_state StateDisconnected s4))))"

definition Start :: "core_cfg \<Rightarrow> core_env \<Rightarrow> core_act" where
  "Start c e = core_seq (StartCoreContext c e) (\<lambda>s.
     if kc_NoDial c then core_skip s else core_skip (told SendStart (s\<lparr>co_desired := True\<rparr>)))"

text \<open>\<^verbatim>\<open>doDisconnect\<close> as the operations here see it; its own theory is DataCall.\<close>

definition disconnect_data :: "core \<Rightarrow> core" where
  "disconnect_data s = told DisconnectData (s\<lparr>co_handleV4 := 0, co_handleV6 := 0, co_state := StateDisconnected\<rparr>)"

text \<open>The event loop may or may not take the stop event before it sees that its context has ended; \<open>served\<close> tells. Waiting
  for the loops ends all of them, as each looks at the context that the manager has now.\<close>

definition Stop :: "core_cfg \<Rightarrow> bool \<Rightarrow> core \<Rightarrow> core" where
  "Stop c served s0 =
     (let wasStopping = (co_state s0 = StateStopping);
          wasInactive = (\<not> co_coreReady s0 \<and> co_state s0 = StateDisconnected);
          s = s0\<lparr>co_desired := False, co_state := StateStopping\<rparr>;
          s1 = told StopTimers s;
          s2 = (if co_loops s1 = 0 then s1 else told CancelLoops s1);
          s3 = told BlockProbes (s2\<lparr>co_probeBlocked := True\<rparr>);
          s4 = (if wasStopping \<or> wasInactive then s3
                else if served \<and> co_loops s3 > 0 then disconnect_data (told SendStop s3) else told SendStop s3);
          s5 = core_cleanup c (told AwaitLoops (s4\<lparr>co_loops := 0\<rparr>))
      in set_state StateDisconnected (told CloseEvents (s5\<lparr>co_eventsClosed := True\<rparr>)))"

section \<open>Recovery of the core\<close>

definition recoverBackoffBase :: int where "recoverBackoffBase = 500 * 10 ^ 6"
definition recoverBackoffMax :: int where "recoverBackoffMax = 15 * 10 ^ 9"

fun backoff_loop :: "nat \<Rightarrow> int \<Rightarrow> int" where
  "backoff_loop 0 delay = delay"
| "backoff_loop (Suc k) delay =
     (if delay \<ge> recoverBackoffMax then recoverBackoffMax
      else if 2 * delay > recoverBackoffMax then recoverBackoffMax
      else backoff_loop k (2 * delay))"

text \<open>The random number is reduced to the range that \<^verbatim>\<open>rand.Int63n\<close> draws from. A fifth of a whole number of nanoseconds
  below \<open>2 ^ 53\<close>, computed in floating point and truncated, is the integer quotient.\<close>

definition with_jitter :: "int \<Rightarrow> nat \<Rightarrow> int" where
  "with_jitter delay random =
     (let range = delay div 5 in if range > 0 then delay + (int random mod (2 * range + 1) - range) else delay)"

definition getRecoverDelay :: "nat \<Rightarrow> int \<Rightarrow> int" where
  "getRecoverDelay random count =
     (let attempt = (if count \<le> 0 then 1 else count);
          delay = with_jitter (backoff_loop (nat (attempt - 1)) recoverBackoffBase) random
      in if delay < 100 * 10 ^ 6 then 100 * 10 ^ 6 else delay)"

definition jitteredFullCheckInterval :: "nat \<Rightarrow> int \<Rightarrow> int" where
  "jitteredFullCheckInterval random base0 =
     (let base = (if base0 \<le> 0 then 15 * 10 ^ 9 else base0); result = with_jitter base random
      in if result \<le> 0 then base else result)"

definition recoveryExhausted :: "core_cfg \<Rightarrow> int \<Rightarrow> core \<Rightarrow> bool" where
  "recoveryExhausted c now s \<longleftrightarrow>
     kc_MaxRecoverAttempts c > 0 \<and> co_recoverCount s > kc_MaxRecoverAttempts c \<or>
     kc_MaxRecoverElapsed c > 0 \<and> (case co_firstFail s of Some t \<Rightarrow> now - t \<ge> kc_MaxRecoverElapsed c | None \<Rightarrow> False)"

definition scheduleRecoverRetry :: "core_cfg \<Rightarrow> core_env \<Rightarrow> core \<Rightarrow> core" where
  "scheduleRecoverRetry c e s0 =
     (let now = ke_now e (co_trace s0);
          s = s0\<lparr>co_recoverCount := co_recoverCount s0 + 1, co_firstFail := (case co_firstFail s0 of None \<Rightarrow> Some now | t \<Rightarrow> t)\<rparr>
      in if recoveryExhausted c now s
         then told (EmitExhausted ''recovery_exhausted'') (s\<lparr>co_recoverCount := 0, co_firstFail := None\<rparr>)
         else told (ScheduleRetry (getRecoverDelay (ke_random e (co_trace s)) (co_recoverCount s))) s)"

definition recover_open_failed :: "core_cfg \<Rightarrow> core_env \<Rightarrow> go_error \<Rightarrow> core \<Rightarrow> core" where
  "recover_open_failed c e err s0 =
     (let s = set_state StateDisconnected (markCoreNotReadyLocked ''recover_reinit_services'' (Some err)
                (markControlNotReadyLocked ''recover_reinit_services'' s0))
      in if ke_deviceGone e (co_trace s)
         then told (EmitExhausted ''device_removed'') (s\<lparr>co_recoverCount := 0, co_firstFail := None\<rparr>)
         else scheduleRecoverRetry c e s)"

definition recover_converged :: "core_cfg \<Rightarrow> bool \<Rightarrow> core \<Rightarrow> core" where
  "recover_converged c desired s0 =
     (let s = set_state StateDisconnected ((markCoreReadyLocked ''recover_converged''
                (s0\<lparr>co_recoverCount := 0, co_firstFail := None\<rparr>))\<lparr>co_probeBlocked := False\<rparr>)
      in if desired \<and> kc_AutoReconnect c then told (ScheduleStart (2 * 10 ^ 9)) s else s)"

text \<open>The declared topology is restored: its services first, then what theory DataPlane models. An error is logged.\<close>

definition recover_plane :: "core_cfg \<Rightarrow> core_env \<Rightarrow> core_act" where
  "recover_plane c e =
     (if kc_DataPlanePolicy c = DataPlanePolicyDisabled \<or> kc_DataPlaneMode c = [] then core_skip
      else core_seq (plane_services c e) (ask_core e RecoverDataPlane))"

definition recover_opened :: "core_cfg \<Rightarrow> core_env \<Rightarrow> bool \<Rightarrow> core \<Rightarrow> bool \<times> core" where
  "recover_opened c e desired s0 =
     (let s1 = markControlReadyLocked ''recover_control_ready'' (snd (recover_plane c e s0));
          s2 = markCoreNotReadyLocked ''recover_wait_reset_quiet'' None (snd (checkSIM c e s1))
      in case ask_core e ResetQuietWindow s2 of
           (Some quietErr, s3) \<Rightarrow>
             (let s4 = markCoreNotReadyLocked ''recover_wait_reset_quiet'' (Some quietErr) s3
              in (False, if ke_resetPending e (co_trace s4) then s4 else scheduleRecoverRetry c e s4))
         | (None, s3) \<Rightarrow>
             (let s4 = snd (ask_core e IdentityGate (markCoreNotReadyLocked ''recover_wait_identity'' None s3))
              in (True, recover_converged c desired s4)))"

definition doRecoverFromModemReset :: "core_cfg \<Rightarrow> core_env \<Rightarrow> core \<Rightarrow> bool \<times> core" where
  "doRecoverFromModemReset c e s0 =
     (if co_state s0 = StateStopping then (False, s0)
      else
        let desired = co_desired s0;
            s1 = told BlockProbes (s0\<lparr>co_probeBlocked := True\<rparr>);
            s2 = told ResetSnapshot (core_cleanup c (disconnect_data s1));
            s3 = markCoreNotReadyLocked ''recover_reinit_services'' None (markControlNotReadyLocked ''recover_reinit_services'' s2)
        in case openClientAndAllocateServices c e s3 of
             (Some err, s4) \<Rightarrow> (False, recover_open_failed c e err s4)
           | (None, s4) \<Rightarrow> recover_opened c e desired s4)"

section \<open>What an action leaves alone\<close>

text \<open>Most actions change nothing but the trace and some of the service pointers, which they set to the client of now.\<close>

definition svc_only :: "service set \<Rightarrow> core \<Rightarrow> core \<Rightarrow> bool" where
  "svc_only K s t \<longleftrightarrow> (\<exists>f l. t = s\<lparr>co_svc := f, co_trace := co_trace s @ l\<rparr> \<and>
     (\<forall>k. f k = co_svc s k \<or> k \<in> K \<and> f k = co_client s))"

named_theorems core_quiet

lemma svc_only_refl [core_quiet]: "svc_only K s s"
  unfolding svc_only_def by (rule exI[of _ "co_svc s"], rule exI[of _ "[]"]) simp

lemma svc_only_trans:
  assumes "svc_only K s t" "svc_only K t u"
  shows "svc_only K s u"
proof -
  obtain f l where t: "t = s\<lparr>co_svc := f, co_trace := co_trace s @ l\<rparr>" "\<forall>k. f k = co_svc s k \<or> k \<in> K \<and> f k = co_client s"
    using assms(1) unfolding svc_only_def by blast
  obtain g m where u: "u = t\<lparr>co_svc := g, co_trace := co_trace t @ m\<rparr>" "\<forall>k. g k = co_svc t k \<or> k \<in> K \<and> g k = co_client t"
    using assms(2) unfolding svc_only_def by blast
  have "u = s\<lparr>co_svc := g, co_trace := co_trace s @ (l @ m)\<rparr>" by (simp add: t(1) u(1))
  moreover have "\<forall>k. g k = co_svc s k \<or> k \<in> K \<and> g k = co_client s"
  proof
    fix k
    have "g k = f k \<or> k \<in> K \<and> g k = co_client s" "f k = co_svc s k \<or> k \<in> K \<and> f k = co_client s"
      using u(2) t by simp_all
    then show "g k = co_svc s k \<or> k \<in> K \<and> g k = co_client s" by argo
  qed
  ultimately show ?thesis unfolding svc_only_def by blast
qed

lemma svc_only_mono: "svc_only K s t \<Longrightarrow> K \<subseteq> K' \<Longrightarrow> svc_only K' s t"
  unfolding svc_only_def by blast

lemma svc_only_told [core_quiet]: "svc_only K s (told k s)"
  unfolding svc_only_def told_def by (rule exI[of _ "co_svc s"], rule exI[of _ "[k]"]) simp

lemma svc_only_svc: "k \<in> K \<Longrightarrow> svc_only K s (s\<lparr>co_svc := (co_svc s)(k := co_client s)\<rparr>)"
  unfolding svc_only_def by (rule exI[of _ "(co_svc s)(k := co_client s)"], rule exI[of _ "[]"]) simp

definition quiet_act :: "service set \<Rightarrow> core_act \<Rightarrow> bool" where
  "quiet_act K f \<longleftrightarrow> (\<forall>s. svc_only K s (snd (f s)))"

lemma quiet_snd: "quiet_act K f \<Longrightarrow> svc_only K s (snd (f s))"
  by (simp add: quiet_act_def)

lemma quiet_actD: "f s = (r, t) \<Longrightarrow> quiet_act K f \<Longrightarrow> svc_only K s t"
  by (drule quiet_snd[of K f s]) simp

lemma quiet_skip [core_quiet]: "quiet_act K core_skip"
  by (simp add: quiet_act_def core_skip_def svc_only_refl)

lemma quiet_core_ask [core_quiet]: "quiet_act K (ask_core e k)"
  by (simp add: quiet_act_def ask_core_def svc_only_told)

lemma quiet_ctx [core_quiet]: "quiet_act K (ctx_check e)"
  by (simp add: quiet_act_def ctx_check_def svc_only_refl)

lemma quiet_seq [core_quiet]: "quiet_act K f \<Longrightarrow> quiet_act K g \<Longrightarrow> quiet_act K (core_seq f g)"
  unfolding quiet_act_def core_seq_def
  by (auto split: prod.splits option.splits) (metis snd_conv svc_only_trans)+

lemma quiet_wrapping [core_quiet]: "quiet_act K f \<Longrightarrow> quiet_act K (wrapping pre f)"
  unfolding quiet_act_def wrapping_def by (auto split: prod.splits) (metis snd_conv)

lemma quiet_ignoring [core_quiet]: "quiet_act K f \<Longrightarrow> quiet_act K (ignoring_core f)"
  unfolding quiet_act_def ignoring_core_def by simp

lemma quiet_create [core_quiet]: "k \<in> K \<Longrightarrow> quiet_act K (create_service e k)"
  unfolding quiet_act_def create_service_def ask_core_def
  by (auto split: option.splits simp: svc_only_told intro: svc_only_trans[OF svc_only_told svc_only_svc[of k K]])

lemma quiet_core_if [core_quiet]: "quiet_act K f \<Longrightarrow> quiet_act K g \<Longrightarrow> quiet_act K (if b then f else g)"
  by simp

lemma quiet_state_if: "quiet_act K f \<Longrightarrow> quiet_act K g \<Longrightarrow> quiet_act K (\<lambda>s. if b s then f s else g s)"
  by (simp add: quiet_act_def)

lemma quiet_fail [core_quiet]: "quiet_act K (\<lambda>s. (r, s))"
  by (simp add: quiet_act_def svc_only_refl)

lemma quiet_plane_service [core_quiet]: "k \<in> K \<Longrightarrow> quiet_act K (plane_service e k name)"
  unfolding plane_service_def[abs_def] by (intro quiet_state_if core_quiet)

lemma quiet_plane_services: "{SvcWDS, SvcWDSv6, SvcWDA} \<subseteq> K \<Longrightarrow> quiet_act K (plane_services c e)"
proof -
  have "quiet_act K (\<lambda>s1. case ask_core e EnableRawIPMode (told (ReconcileResidual (kc_NetInterface c)) s1) of
      (None, s2) \<Rightarrow> (None, s2) | (Some _, s2) \<Rightarrow> wrapping ''failed to enable RawIP mode: '' (ctx_check e) s2)"
    by (auto simp: quiet_act_def ask_core_def wrapping_def ctx_check_def split: option.splits
        intro: svc_only_trans[OF svc_only_told svc_only_told])
  moreover assume "{SvcWDS, SvcWDSv6, SvcWDA} \<subseteq> K"
  ultimately show ?thesis unfolding plane_services_def by (intro quiet_state_if core_quiet) auto
qed

lemma quiet_run_tasks: "\<forall>t \<in> set ts. quiet_act K t \<Longrightarrow> svc_only K s (snd (run_tasks e ts first s))"
proof (induction ts arbitrary: first s)
  case (Cons t ts)
  obtain err s1 where r: "core_seq (ctx_check e) t s = (err, s1)" by fastforce
  have "svc_only K s s1" using quiet_snd[OF quiet_seq[OF quiet_ctx], of K t s e] Cons.prems by (simp add: r)
  with Cons show ?case by (auto simp: r intro: svc_only_trans)
qed (simp add: svc_only_refl)

lemma set_arranged: "set (arranged order ts) = set ts"
  using nth_image[of "length ts" ts] by (simp add: arranged_def lessThan_atLeast0)

lemma quiet_tasks [core_quiet]: "\<forall>t \<in> set ts. quiet_act K t \<Longrightarrow> quiet_act K (runStartupServiceTasks e fatal ts)"
  unfolding quiet_act_def runStartupServiceTasks_def
  using quiet_run_tasks[of "arranged order ts" for order]
  by (auto simp: set_arranged quiet_act_def split: prod.splits) (metis snd_conv)

lemma quiet_core_tasks: "{SvcNAS, SvcDMS, SvcUIM} \<subseteq> K \<Longrightarrow> \<forall>t \<in> set (core_tasks e). quiet_act K t"
  by (auto simp: core_tasks_def core_task_def registering_def intro!: core_quiet)

lemma quiet_aux_tasks: "{SvcWMS, SvcVOICE, SvcIMS, SvcIMSA} \<subseteq> K \<Longrightarrow> \<forall>t \<in> set (aux_tasks c e). quiet_act K t"
  by (auto simp: aux_tasks_def aux_task_def intro!: core_quiet)

lemma quiet_check_card [core_quiet]: "quiet_act K (check_card c e)"
proof -
  have 1: "svc_only K s (snd (uim_status e s))" for s
    by (auto simp: uim_status_def ask_status_def svc_only_refl svc_only_told split: sum.splits)
  have 2: "svc_only K s (snd (dms_status e st err s))" for s st err
    by (auto simp: dms_status_def ask_status_def svc_only_refl svc_only_told split: sum.splits)
  have 3: "svc_only K s (snd (wrapping p (ask_core e k) s))" for p k s
    using quiet_wrapping[OF quiet_core_ask] by (simp add: quiet_act_def)
  show ?thesis unfolding quiet_act_def check_card_def
  proof
    fix s
    obtain st0 err0 s1 where u: "uim_status e s = ((st0, err0), s1)" by (metis prod.collapse)
    obtain st err s2 where d: "dms_status e st0 err0 s1 = ((st, err), s2)" by (metis prod.collapse)
    have "svc_only K s s2" using 1[of s] 2[of s1 st0 err0] by (auto simp: u d intro: svc_only_trans)
    with 3 show "svc_only K s (snd (case uim_status e s of ((status0, err0), s1) \<Rightarrow>
        (case dms_status e status0 err0 s1 of ((status, Some err), s2) \<Rightarrow> (Some err, s2)
        | ((status, None), s2) \<Rightarrow> if status = SIMPINRequired \<and> kc_PINCode c \<noteq> []
            then wrapping ''PIN verification failed: '' (ask_core e (VerifySIMPIN (kc_PINCode c))) s2 else (None, s2))))"
      by (auto simp: u d split: option.splits intro: svc_only_trans)
  qed
qed

lemma quiet_checkSIM [core_quiet]: "quiet_act K (checkSIM c e)"
  unfolding checkSIM_def by (intro core_quiet)

section \<open>What a successful opening gives\<close>

lemma create_success:
  assumes "create_service e k s = (None, t)"
  shows "co_svc t k = co_client s"
  using assms by (auto simp: create_service_def ask_core_def told_def split: option.splits)

text \<open>Once a pointer has the client, no action takes it away.\<close>

lemma svc_only_keeps: "svc_only K s t \<Longrightarrow> co_svc s k = co_client s \<Longrightarrow> co_svc t k = co_client t"
  unfolding svc_only_def by (elim exE conjE, drule spec[of _ k]) auto

lemma svc_only_fields:
  assumes "svc_only K s t"
  shows "co_client t = co_client s" "co_open t = co_open s" "co_next t = co_next s" "co_state t = co_state s"
    "co_coreReady t = co_coreReady s" "co_controlReady t = co_controlReady s" "co_loops t = co_loops s"
    "co_desired t = co_desired s" "co_probeBlocked t = co_probeBlocked s" "co_handleV4 t = co_handleV4 s"
    "co_handleV6 t = co_handleV6 s" "co_eventsClosed t = co_eventsClosed s" "co_recoverCount t = co_recoverCount s"
    "co_firstFail t = co_firstFail s" "k \<notin> K \<Longrightarrow> co_svc t k = co_svc s k"
    "co_svc t k = co_svc s k \<or> co_svc t k = co_client s"
proof -
  obtain f l where t: "t = s\<lparr>co_svc := f, co_trace := co_trace s @ l\<rparr>" and f: "f k = co_svc s k \<or> k \<in> K \<and> f k = co_client s"
    using assms unfolding svc_only_def by blast
  show "k \<notin> K \<Longrightarrow> co_svc t k = co_svc s k" "co_svc t k = co_svc s k \<or> co_svc t k = co_client s"
    using f by (auto simp: t)
qed (use assms in \<open>auto simp: svc_only_def\<close>)

lemma core_task_success:
  assumes "core_task e k name after s = (None, t)" "quiet_act K after"
  shows "co_svc t k = co_client t"
proof -
  obtain s1 where c: "create_service e k s = (None, s1)" and a: "after s1 = (None, t)"
    using assms(1) by (auto simp: core_task_def core_seq_def wrapping_def split: prod.splits option.splits)
  have "co_client s1 = co_client s" using svc_only_fields(1)[OF quiet_actD[OF c quiet_create[of k UNIV]]] by simp
  then have "co_svc s1 k = co_client s1" using create_success[OF c] by simp
  then show ?thesis by (rule svc_only_keeps[OF quiet_actD[OF a assms(2)]])
qed

lemma run_tasks_first: "run_tasks e ts (Some x) s = (r, t) \<Longrightarrow> r = Some x"
  by (induction ts arbitrary: s) (auto split: prod.splits)

text \<open>When a fatal group of tasks succeeds, each of them has run and succeeded, and what it set up is still there.\<close>

lemma run_tasks_success:
  assumes "run_tasks e ts None s = (None, t)" "\<forall>u \<in> set ts. quiet_act K u" "u \<in> set ts"
    and upshot: "\<And>s t. u s = (None, t) \<Longrightarrow> co_svc t k = co_client t"
  shows "co_svc t k = co_client t"
  using assms(1-3)
proof (induction ts arbitrary: s)
  case (Cons v ts)
  obtain err s1 where v: "core_seq (ctx_check e) v s = (err, s1)" by fastforce
  have err: "err = None" using Cons.prems(1) run_tasks_first by (cases err) (fastforce simp: v)+
  have rest: "run_tasks e ts None s1 = (None, t)" using Cons.prems(1) by (simp add: v err)
  show ?case
  proof (cases "u \<in> set ts")
    case True
    then show ?thesis using Cons.IH[OF rest] Cons.prems(2) by simp
  next
    case False
    then have "v = u" using Cons.prems(3) by simp
    then have "u s = (None, s1)" using v err by (auto simp: core_seq_def ctx_check_def split: option.splits)
    then have "co_svc s1 k = co_client s1" by (rule upshot)
    moreover have "svc_only K s1 t" using quiet_run_tasks[of ts K s1 e None] Cons.prems(2) rest by simp
    ultimately show ?thesis by (rule svc_only_keeps[rotated])
  qed
qed simp

lemma core_tasks_success:
  assumes "runStartupServiceTasks e True (core_tasks e) s = (None, t)" "k \<in> {SvcNAS, SvcDMS, SvcUIM}"
  shows "co_svc t k = co_client t"
proof -
  let ?ts = "arranged (ke_order e (co_trace s)) (core_tasks e)"
  have run: "run_tasks e ?ts None s = (None, t)"
    using assms(1) by (simp add: runStartupServiceTasks_def split: prod.splits)
  have q: "\<forall>u \<in> set ?ts. quiet_act UNIV u" using quiet_core_tasks[of UNIV e] by (simp add: set_arranged)
  obtain u where u: "u \<in> set ?ts" "\<And>s t. u s = (None, t) \<Longrightarrow> co_svc t k = co_client t"
  proof -
    obtain name after where "core_task e k name after \<in> set (core_tasks e)" "quiet_act UNIV after"
      using assms(2) quiet_skip[of UNIV] quiet_wrapping[OF quiet_core_ask, of UNIV]
      by (fastforce simp: core_tasks_def registering_def)
    then show thesis using that core_task_success by (metis set_arranged)
  qed
  show ?thesis by (rule run_tasks_success[OF run q u])
qed

definition plane_svcs :: "service set" where "plane_svcs = {SvcWDS, SvcWDSv6, SvcWDA}"

text \<open>\<open>alloc_frame c s t\<close>: from \<open>s\<close> to \<open>t\<close> services were allocated on the client of \<open>s\<close> or dropped, those of the data plane only
  when the policy says so, and never dropped.\<close>

definition alloc_frame :: "core_cfg \<Rightarrow> core \<Rightarrow> core \<Rightarrow> bool" where
  "alloc_frame c s t \<longleftrightarrow> (\<exists>f l. t = s\<lparr>co_svc := f, co_trace := co_trace s @ l\<rparr> \<and>
     (\<forall>k. f k \<in> {None, co_svc s k, co_client s}) \<and>
     (kc_DataPlanePolicy c \<noteq> DataPlanePolicyEager \<longrightarrow> (\<forall>k \<in> plane_svcs. f k = co_svc s k)))"

lemma svc_only_alloc:
  assumes "svc_only K s t" "kc_DataPlanePolicy c = DataPlanePolicyEager \<or> K \<inter> plane_svcs = {}"
  shows "alloc_frame c s t"
proof -
  obtain f l where f: "t = s\<lparr>co_svc := f, co_trace := co_trace s @ l\<rparr>" "\<forall>k. f k = co_svc s k \<or> k \<in> K \<and> f k = co_client s"
    using assms(1) unfolding svc_only_def by blast
  have "\<forall>k. f k \<in> {None, co_svc s k, co_client s}" using f(2) by blast
  moreover have "kc_DataPlanePolicy c \<noteq> DataPlanePolicyEager \<longrightarrow> (\<forall>k \<in> plane_svcs. f k = co_svc s k)"
    using f(2) assms(2) by blast
  ultimately show ?thesis unfolding alloc_frame_def using f(1) by blast
qed

lemma alloc_frame_trans:
  assumes "alloc_frame c s t" "alloc_frame c t u"
  shows "alloc_frame c s u"
proof -
  obtain f l where t: "t = s\<lparr>co_svc := f, co_trace := co_trace s @ l\<rparr>" "\<forall>k. f k \<in> {None, co_svc s k, co_client s}"
      "kc_DataPlanePolicy c \<noteq> DataPlanePolicyEager \<longrightarrow> (\<forall>k \<in> plane_svcs. f k = co_svc s k)"
    using assms(1) unfolding alloc_frame_def by blast
  obtain g m where u: "u = t\<lparr>co_svc := g, co_trace := co_trace t @ m\<rparr>" "\<forall>k. g k \<in> {None, co_svc t k, co_client t}"
      "kc_DataPlanePolicy c \<noteq> DataPlanePolicyEager \<longrightarrow> (\<forall>k \<in> plane_svcs. g k = co_svc t k)"
    using assms(2) unfolding alloc_frame_def by blast
  have "u = s\<lparr>co_svc := g, co_trace := co_trace s @ (l @ m)\<rparr>" by (simp add: t(1) u(1))
  moreover have "\<forall>k. g k \<in> {None, co_svc s k, co_client s}"
  proof
    fix k
    have "g k \<in> {None, f k, co_client s}" "f k \<in> {None, co_svc s k, co_client s}"
      using u(2) t(2) by (simp_all add: t(1))
    then show "g k \<in> {None, co_svc s k, co_client s}" by auto
  qed
  moreover have "kc_DataPlanePolicy c \<noteq> DataPlanePolicyEager \<longrightarrow> (\<forall>k \<in> plane_svcs. g k = co_svc s k)"
    using u(3) t(3) by (simp add: t(1))
  ultimately show ?thesis unfolding alloc_frame_def by blast
qed

lemma drop_alloc: "set ks \<inter> plane_svcs = {} \<Longrightarrow> alloc_frame c s (drop_services ks s)"
  unfolding alloc_frame_def drop_services_def
  by (rule exI[of _ "\<lambda>k. if k \<in> set ks then None else co_svc s k"], rule exI[of _ "[]"]) auto

lemma seq_cases:
  assumes "core_seq f g s = (r, t)"
  obtains err where "f s = (Some err, t)" "r = Some err" | s1 where "f s = (None, s1)" "g s1 = (r, t)"
  using assms by (auto simp: core_seq_def split: prod.splits option.splits)

lemma startup_plane:
  assumes "(if kc_DataPlanePolicy c = DataPlanePolicyEager then plane_services c e else core_skip) s = (r, t)"
  shows "alloc_frame c s t" "k \<notin> plane_svcs \<Longrightarrow> co_svc t k = co_svc s k"
proof -
  let ?eager = "kc_DataPlanePolicy c = DataPlanePolicyEager"
  have q: "svc_only (if ?eager then plane_svcs else {}) s t"
    using assms quiet_snd[OF quiet_plane_services, of plane_svcs s c e] quiet_snd[OF quiet_skip, of "{}" s]
    by (auto simp: plane_svcs_def split: if_splits)
  show "alloc_frame c s t" by (rule svc_only_alloc[OF q]) simp
  show "k \<notin> plane_svcs \<Longrightarrow> co_svc t k = co_svc s k" using svc_only_fields(15)[OF q] by auto
qed

definition core_svcs :: "service set" where "core_svcs = {SvcNAS, SvcDMS, SvcUIM}"

lemma startup_core:
  assumes "runStartupServiceTasks e True (core_tasks e) s = (r, t)"
  shows "svc_only core_svcs s t"
  using quiet_snd[OF quiet_tasks[OF quiet_core_tasks], of core_svcs s e True e] assms by (simp add: core_svcs_def)

lemma startup_aux:
  "svc_only {SvcWMS, SvcVOICE, SvcIMS, SvcIMSA} s (snd (runStartupServiceTasks e False (aux_tasks c e) s))"
  by (rule quiet_snd) (intro quiet_tasks quiet_aux_tasks, simp)

lemma allocate_cases:
  assumes "allocateServices c e s = (r, t)"
  shows "alloc_frame c s t"
    and "r \<noteq> None \<Longrightarrow> k \<notin> plane_svcs \<union> core_svcs \<Longrightarrow> co_svc t k = co_svc s k"
    and "r = None \<Longrightarrow> k \<in> core_svcs \<Longrightarrow> co_svc t k = co_client t"
proof -
  let ?start = "if kc_DataPlanePolicy c = DataPlanePolicyEager then plane_services c e else core_skip"
  let ?core = "runStartupServiceTasks e True (core_tasks e)"
  have "alloc_frame c s t \<and> (r \<noteq> None \<longrightarrow> (\<forall>k. k \<notin> plane_svcs \<union> core_svcs \<longrightarrow> co_svc t k = co_svc s k)) \<and>
      (r = None \<longrightarrow> (\<forall>k \<in> core_svcs. co_svc t k = co_client t))"
    using assms[unfolded allocateServices_def]
  proof (rule seq_cases)
    fix err assume "?start s = (Some err, t)" "r = Some err"
    then show ?thesis using startup_plane[of c e s "Some err" t] by auto
  next
    fix s1 assume start: "?start s = (None, s1)"
      and rest: "core_seq ?core (\<lambda>s. case runStartupServiceTasks e False (aux_tasks c e) (drop_services [SvcIMS, SvcIMSA, SvcIMSP] s) of
            (_, s1) \<Rightarrow> (None, drop_services [SvcIMSP] s1)) s1 = (r, t)"
    note plane = startup_plane[OF start]
    from rest show ?thesis
    proof (rule seq_cases)
      fix err assume core: "?core s1 = (Some err, t)" and r: "r = Some err"
      have q: "svc_only core_svcs s1 t" by (rule startup_core[OF core])
      have "alloc_frame c s1 t" by (rule svc_only_alloc[OF q]) (simp add: core_svcs_def plane_svcs_def)
      then have "alloc_frame c s t" by (rule alloc_frame_trans[OF plane(1)])
      then show ?thesis using plane(2) svc_only_fields(15)[OF q] r by auto
    next
      fix s2 assume core: "?core s1 = (None, s2)"
        and aux: "(case runStartupServiceTasks e False (aux_tasks c e) (drop_services [SvcIMS, SvcIMSA, SvcIMSP] s2) of
            (_, s1) \<Rightarrow> (None, drop_services [SvcIMSP] s1)) = (r, t)"
      let ?s3 = "drop_services [SvcIMS, SvcIMSA, SvcIMSP] s2"
      let ?s4 = "snd (runStartupServiceTasks e False (aux_tasks c e) ?s3)"
      have t: "r = None" "t = drop_services [SvcIMSP] ?s4" using aux by (auto split: prod.splits)
      have q: "svc_only core_svcs s1 s2" by (rule startup_core[OF core])
      have "alloc_frame c s1 s2" by (rule svc_only_alloc[OF q]) (simp add: core_svcs_def plane_svcs_def)
      moreover have "alloc_frame c s2 ?s3" by (rule drop_alloc) (simp add: plane_svcs_def)
      moreover have "alloc_frame c ?s3 ?s4" by (rule svc_only_alloc[OF startup_aux]) (simp add: plane_svcs_def)
      moreover have "alloc_frame c ?s4 t" unfolding t(2) by (rule drop_alloc) (simp add: plane_svcs_def)
      ultimately have "alloc_frame c s t" using plane(1) alloc_frame_trans by blast
      moreover have "co_svc t k = co_client t" if k: "k \<in> core_svcs" for k
      proof -
        have "co_svc s2 k = co_client s2" using core_tasks_success[OF core] k by (auto simp: core_svcs_def)
        then have "co_svc ?s3 k = co_client ?s3" using k by (auto simp: drop_services_def core_svcs_def)
        then have "co_svc ?s4 k = co_client ?s4" by (rule svc_only_keeps[OF startup_aux])
        then show ?thesis using k by (auto simp: t(2) drop_services_def core_svcs_def)
      qed
      ultimately show ?thesis using t(1) by blast
    qed
  qed
  then show "alloc_frame c s t" "r \<noteq> None \<Longrightarrow> k \<notin> plane_svcs \<union> core_svcs \<Longrightarrow> co_svc t k = co_svc s k"
    "r = None \<Longrightarrow> k \<in> core_svcs \<Longrightarrow> co_svc t k = co_client t" by blast+
qed

text \<open>The part of the state that opening does not touch.\<close>

definition core_rest :: "core \<Rightarrow> State \<times> bool \<times> bool \<times> nat \<times> bool \<times> bool" where
  "core_rest s = (co_state s, co_coreReady s, co_controlReady s, co_loops s, co_desired s, co_eventsClosed s)"

lemma alloc_fields:
  assumes "alloc_frame c s t"
  shows "core_rest t = core_rest s" "co_client t = co_client s" "co_open t = co_open s" "co_next t = co_next s"
    "co_svc t k \<in> {None, co_svc s k, co_client s}"
    "kc_DataPlanePolicy c \<noteq> DataPlanePolicyEager \<Longrightarrow> k \<in> plane_svcs \<Longrightarrow> co_svc t k = co_svc s k"
proof -
  obtain f l where t: "t = s\<lparr>co_svc := f, co_trace := co_trace s @ l\<rparr>" and f: "f k \<in> {None, co_svc s k, co_client s}"
      "kc_DataPlanePolicy c \<noteq> DataPlanePolicyEager \<Longrightarrow> \<forall>k \<in> plane_svcs. f k = co_svc s k"
    using assms unfolding alloc_frame_def by blast
  show "co_svc t k \<in> {None, co_svc s k, co_client s}"
    "kc_DataPlanePolicy c \<noteq> DataPlanePolicyEager \<Longrightarrow> k \<in> plane_svcs \<Longrightarrow> co_svc t k = co_svc s k"
    using f by (simp_all add: t)
qed (use assms in \<open>auto simp: alloc_frame_def core_rest_def\<close>)

text \<open>The result of opening: on success the new client is the manager's and is open, and the core services are on it; on failure
  the client that was opened is closed again.\<close>

definition opened_ok :: "core_cfg \<Rightarrow> core \<Rightarrow> core \<Rightarrow> bool" where
  "opened_ok c s t \<longleftrightarrow> (\<exists>n. co_next s \<le> n \<and> n < co_next t \<and> co_client t = Some n \<and> co_open t = co_open s @ [n]) \<and>
     (\<forall>k \<in> core_svcs. co_svc t k = co_client t) \<and>
     (\<forall>k. k \<notin> plane_svcs \<longrightarrow> co_svc t k \<in> {None, co_svc s k, co_client t}) \<and>
     (kc_DataPlanePolicy c \<noteq> DataPlanePolicyEager \<longrightarrow> (\<forall>k \<in> plane_svcs. co_svc t k = co_svc s k))"

definition opened_not :: "core_cfg \<Rightarrow> core \<Rightarrow> core \<Rightarrow> bool" where
  "opened_not c s t \<longleftrightarrow> co_client t = None \<and> co_open t = co_open s \<and> co_next s \<le> co_next t \<and>
     (\<forall>k. k \<notin> plane_svcs \<union> core_svcs \<longrightarrow> co_svc t k = co_svc s k) \<and>
     (kc_DataPlanePolicy c \<noteq> DataPlanePolicyEager \<longrightarrow> (\<forall>k \<in> plane_svcs. co_svc t k = co_svc s k))"

lemma open_once_result:
  assumes run: "open_once c e s = (r, t)" and fresh: "\<forall>n \<in> set (co_open s). n < co_next s" and idle: "co_client s = None"
  shows "core_rest t = core_rest s \<and> (if r = None then opened_ok c s t else opened_not c s t)"
proof -
  obtain err s1 where o: "wrapping ''failed to open QMI device: '' (ask_core e OpenClient) s = (err, s1)" by fastforce
  have q: "svc_only {} s s1" using quiet_snd[OF quiet_wrapping[OF quiet_core_ask], of "{}" s] o by (metis snd_conv)
  note f = svc_only_fields[OF q]
  show ?thesis
  proof (cases err)
    case (Some x)
    then have "r = Some x" "t = s1" using run o by (simp_all add: open_once_def)
    then show ?thesis using f idle by (simp add: opened_not_def core_rest_def)
  next
    case None
    let ?n = "co_next s1"
    let ?s2 = "s1\<lparr>co_client := Some ?n, co_next := Suc ?n, co_open := co_open s1 @ [?n]\<rparr>"
    obtain x s3 where a: "allocateServices c e ?s2 = (x, s3)" by fastforce
    note fa = alloc_fields[OF allocate_cases(1)[OF a]] and fail = allocate_cases(2)[OF a] and success = allocate_cases(3)[OF a]
    show ?thesis
    proof (cases x)
      case None
      then have "r = None" "t = s3" using run o \<open>err = None\<close> a by (simp_all add: open_once_def Let_def)
      moreover have "opened_ok c s s3"
        unfolding opened_ok_def using fa success[OF None] f by (auto simp: plane_svcs_def)
      ultimately show ?thesis using fa(1) f by (simp add: core_rest_def)
    next
      case (Some y)
      have t: "r = Some y" "t = (close_client ?n s3)\<lparr>co_client := None\<rparr>"
        using run o \<open>err = None\<close> a Some fa(2) by (auto simp: open_once_def Let_def close_client_def told_def)
      have "?n \<notin> set (co_open s)" using fresh f(3) by auto
      then have "opened_not c s t"
        unfolding opened_not_def using fa fail Some f by (auto simp: t close_client_def told_def)
      then show ?thesis using fa(1) f by (simp add: t core_rest_def close_client_def told_def)
    qed
  qed
qed

lemma opened_not_trans: "opened_not c s t \<Longrightarrow> opened_not c t u \<Longrightarrow> opened_not c s u"
  by (auto simp: opened_not_def)

lemma opened_not_ok: "opened_not c s t \<Longrightarrow> opened_ok c t u \<Longrightarrow> opened_ok c s u"
proof -
  assume a: "opened_not c s t" and b: "opened_ok c t u"
  obtain n where n: "co_next t \<le> n" "n < co_next u" "co_client u = Some n" "co_open u = co_open t @ [n]"
    using b unfolding opened_ok_def by blast
  have core: "\<And>k. k \<in> core_svcs \<Longrightarrow> co_svc u k = co_client u"
    and others: "\<And>k. k \<notin> plane_svcs \<Longrightarrow> co_svc u k \<in> {None, co_svc t k, co_client u}"
    and lazy: "kc_DataPlanePolicy c \<noteq> DataPlanePolicyEager \<longrightarrow> (\<forall>k \<in> plane_svcs. co_svc u k = co_svc t k)"
    using b unfolding opened_ok_def by blast+
  have next_s: "co_next s \<le> co_next t" and "co_open t = co_open s"
    and kept: "\<And>k. k \<notin> plane_svcs \<union> core_svcs \<Longrightarrow> co_svc t k = co_svc s k"
    and lazy_t: "kc_DataPlanePolicy c \<noteq> DataPlanePolicyEager \<longrightarrow> (\<forall>k \<in> plane_svcs. co_svc t k = co_svc s k)"
    using a unfolding opened_not_def by blast+
  have "co_svc u k \<in> {None, co_svc s k, co_client u}" if "k \<notin> plane_svcs" for k
    using that core[of k] others[of k] kept[of k] by (cases "k \<in> core_svcs") simp_all
  moreover have "\<exists>n. co_next s \<le> n \<and> n < co_next u \<and> co_client u = Some n \<and> co_open u = co_open s @ [n]"
    using n next_s \<open>co_open t = co_open s\<close> by (intro exI[of _ n]) simp
  moreover have "kc_DataPlanePolicy c \<noteq> DataPlanePolicyEager \<longrightarrow> (\<forall>k \<in> plane_svcs. co_svc u k = co_svc s k)"
    using lazy lazy_t by auto
  ultimately show ?thesis unfolding opened_ok_def using core by blast
qed

lemma ask_fields: "ask_core e k s = (r, t) \<Longrightarrow> t = told k s"
  by (simp add: ask_core_def)

lemma told_fields [simp]:
  "core_rest (told k s) = core_rest s" "co_client (told k s) = co_client s" "co_open (told k s) = co_open s"
  "co_next (told k s) = co_next s" "co_svc (told k s) = co_svc s" "co_state (told k s) = co_state s"
  "co_coreReady (told k s) = co_coreReady s" "co_controlReady (told k s) = co_controlReady s" "co_loops (told k s) = co_loops s"
  "co_desired (told k s) = co_desired s"
  by (simp_all add: told_def core_rest_def)

lemma opened_not_told: "opened_not c s t \<Longrightarrow> opened_not c s (told k t)"
  by (simp add: opened_not_def)

lemma open_attempts_result:
  assumes "open_attempts c e (Suc k) attempt s = (r, t)" "\<forall>n \<in> set (co_open s). n < co_next s" "co_client s = None"
  shows "core_rest t = core_rest s \<and> (if r = None then opened_ok c s t else opened_not c s t)"
  using assms
proof (induction k arbitrary: attempt s r t)
  case (0 attempt s r t)
  then show ?case using open_once_result[of c e s]
    by (auto simp: core_seq_def ctx_check_def opened_not_def split: prod.splits option.splits if_splits)
next
  case (Suc k attempt s r t)
  show ?case
  proof (cases "ke_ctx e (co_trace s)")
    case (Some x)
    then show ?thesis using Suc.prems by (auto simp: core_seq_def ctx_check_def opened_not_def)
  next
    case None
    obtain x s1 where o: "open_once c e s = (x, s1)" by fastforce
    have once: "core_rest s1 = core_rest s \<and> (if x = None then opened_ok c s s1 else opened_not c s s1)"
      by (rule open_once_result[OF o Suc.prems(2,3)])
    note run = Suc.prems(1)[unfolded open_attempts.simps(2)[of c e "Suc k"], simplified core_seq_def ctx_check_def None o]
    show ?thesis
    proof (cases x)
      case None
      then show ?thesis using run once o by simp
    next
      case (Some lastErr)
      have not: "core_rest s1 = core_rest s" "opened_not c s s1" using once Some by simp_all
      show ?thesis
      proof (cases "retryable lastErr \<and> fst (ask_core e (OpenBackoff (2 * attempt)) s1) = None")
        case False
        then show ?thesis using run Some not o opened_not_told
          by (auto simp: ask_core_def split: option.splits if_splits)
      next
        case True
        let ?s2 = "told (OpenBackoff (2 * attempt)) s1"
        have again: "open_attempts c e (Suc k) (Suc attempt) ?s2 = (r, t)"
          using run Some True o by (simp add: ask_core_def)
        have n2: "opened_not c s ?s2" by (rule opened_not_told[OF not(2)])
        have "\<forall>n \<in> set (co_open ?s2). n < co_next ?s2" "co_client ?s2 = None"
          using n2 Suc.prems(2) by (auto simp: opened_not_def)
        from Suc.IH[OF again this] show ?thesis using not(1) opened_not_trans[OF n2] opened_not_ok[OF n2]
          by (auto split: if_splits)
      qed
    qed
  qed
qed

lemma open_result:
  assumes "openClientAndAllocateServices c e s = (r, t)" "\<forall>n \<in> set (co_open s). n < co_next s" "co_client s = None"
  shows "core_rest t = core_rest s" "r = None \<Longrightarrow> opened_ok c s t" "r \<noteq> None \<Longrightarrow> opened_not c s t"
proof -
  let ?s = "told (KernelRawIP (kc_NetInterface c)) s"
  have same: "co_open ?s = co_open s" "co_next ?s = co_next s" "co_client ?s = co_client s" "core_rest ?s = core_rest s"
    "opened_ok c ?s t = opened_ok c s t" "opened_not c ?s t = opened_not c s t"
    by (simp_all add: told_def core_rest_def opened_ok_def opened_not_def)
  have "open_attempts c e (Suc 3) 1 ?s = (r, t)" using assms(1) by (simp add: openClientAndAllocateServices_def)
  from open_attempts_result[OF this, unfolded same, OF assms(2,3)]
  show "core_rest t = core_rest s" "r = None \<Longrightarrow> opened_ok c s t" "r \<noteq> None \<Longrightarrow> opened_not c s t"
    by (simp_all split: if_splits)
qed

lemma cleanup_fields [simp]:
  "co_client (core_cleanup c s) = None" "co_svc (core_cleanup c s) = (\<lambda>_. None)"
  "co_coreReady (core_cleanup c s) = False" "co_controlReady (core_cleanup c s) = False"
  "co_state (core_cleanup c s) = co_state s" "co_loops (core_cleanup c s) = co_loops s"
  "co_next (core_cleanup c s) = co_next s" "co_desired (core_cleanup c s) = co_desired s"
  "co_open (core_cleanup c s) = (case co_client s of Some n \<Rightarrow> removeAll n (co_open s) | None \<Rightarrow> co_open s)"
  by (simp_all add: core_cleanup_def Let_def forget_core_def markCoreNotReadyLocked_def markControlNotReadyLocked_def
      close_client_def told_def split: option.splits)

lemma checkSIM_only: "svc_only {} s (snd (checkSIM c e s))"
  by (rule quiet_snd[OF quiet_checkSIM])

end
