(* ===== verification/LifecycleProofs.thy ===== *)
theory LifecycleProofs
  imports Lifecycle
begin

text \<open>
  What theory Lifecycle guarantees: over every sequence of starts, stops and recoveries a manager holds at most one client,
  the one that is open; the pause before a retry is bounded; a recovery that keeps failing gives up; and the places where the
  code does not keep what it means to.
\<close>

section \<open>The life of a manager\<close>

definition New_core :: core where
  "New_core = \<lparr>co_state = StateDisconnected, co_coreReady = False, co_controlReady = False, co_coreStage = [], co_controlStage = [],
     co_lastErr = [], co_desired = False, co_probeBlocked = False, co_client = None, co_svc = (\<lambda>_. None), co_handleV4 = 0,
     co_handleV6 = 0, co_muxIface = [], co_masterIface = [], co_next = 0, co_open = [], co_loops = 0, co_eventsClosed = False,
     co_recoverCount = 0, co_firstFail = None, co_trace = []\<rparr>"

text \<open>A manager may be stopped at any time, recovers in its event loop, and while it is ready its data operations change the
  connection. It may be started at any time but one, and is refused when it is started already; left out is a start after a
  recovery that did not reach the end, when the event loop still runs but the manager is neither ready nor in another
  state than disconnected. The last section shows what such a start does.\<close>

inductive core_life :: "core_cfg \<Rightarrow> core \<Rightarrow> core \<Rightarrow> bool" for c where
  life_start: "\<lbrakk>co_loops s = 0 \<or> co_coreReady s \<or> co_state s \<noteq> StateDisconnected; Start c e s = (r, t)\<rbrakk> \<Longrightarrow> core_life c s t"
| life_stop: "core_life c s (Stop c served s)"
| life_recover: "\<lbrakk>co_loops s > 0; doRecoverFromModemReset c e s = (r, t)\<rbrakk> \<Longrightarrow> core_life c s t"
| life_data: "\<lbrakk>co_coreReady s; st \<noteq> StateStopping\<rbrakk> \<Longrightarrow>
    core_life c s (s\<lparr>co_state := st, co_handleV4 := a, co_handleV6 := b, co_muxIface := i, co_masterIface := j, co_desired := d\<rparr>)"

text \<open>Every open client is the manager's; a ready manager has one, its core services are on it, and so are all others, but for
  those of the data plane under the eager policy; a manager without an event loop has nothing.\<close>

definition on_client :: "core_cfg \<Rightarrow> core \<Rightarrow> bool" where
  "on_client c s \<longleftrightarrow> co_client s \<noteq> None \<and> (\<forall>k \<in> core_svcs. co_svc s k = co_client s) \<and>
     (\<forall>k. k \<notin> plane_svcs \<or> kc_DataPlanePolicy c \<noteq> DataPlanePolicyEager \<longrightarrow> co_svc s k \<in> {None, co_client s})"

definition core_ok :: "core_cfg \<Rightarrow> core \<Rightarrow> bool" where
  "core_ok c s \<longleftrightarrow>
     co_open s = (case co_client s of None \<Rightarrow> [] | Some n \<Rightarrow> [n]) \<and> (\<forall>n \<in> set (co_open s). n < co_next s) \<and>
     (co_coreReady s \<longrightarrow> co_controlReady s \<and> on_client c s) \<and> co_loops s \<le> 1 \<and> co_state s \<noteq> StateStopping \<and>
     (co_loops s = 0 \<longrightarrow> co_client s = None \<and> co_svc s = (\<lambda>_. None) \<and> \<not> co_coreReady s \<and> co_state s = StateDisconnected)"

lemma opened_on_client:
  assumes o: "opened_ok c s t" and none: "co_svc s = (\<lambda>_. None)"
  shows "on_client c t"
proof -
  have "co_client t \<noteq> None" using o unfolding opened_ok_def by auto
  moreover have "\<forall>k \<in> core_svcs. co_svc t k = co_client t" using o unfolding opened_ok_def by blast
  moreover have "co_svc t k \<in> {None, co_client t}" if "k \<notin> plane_svcs \<or> kc_DataPlanePolicy c \<noteq> DataPlanePolicyEager" for k
  proof (cases "k \<in> plane_svcs")
    case True
    then have "co_svc t k = co_svc s k" using o that unfolding opened_ok_def by blast
    then show ?thesis by (simp add: none)
  next
    case False
    then have "co_svc t k \<in> {None, co_svc s k, co_client t}" using o unfolding opened_ok_def by blast
    then show ?thesis by (simp add: none)
  qed
  ultimately show ?thesis unfolding on_client_def by blast
qed

lemma on_client_svc_only:
  assumes q: "svc_only K s t" and on: "on_client c s"
  shows "on_client c t"
proof -
  have "co_svc t k = co_client t" if "k \<in> core_svcs" for k
    by (rule svc_only_keeps[OF q]) (use on that in \<open>simp add: on_client_def\<close>)
  moreover have "co_svc t k \<in> {None, co_client t}" if "co_svc s k \<in> {None, co_client s}" for k
    using svc_only_fields(16)[OF q, of k] svc_only_fields(1)[OF q] that by auto
  ultimately show ?thesis using on svc_only_fields(1)[OF q] by (simp add: on_client_def)
qed

lemma opened_open: "opened_ok c s t \<Longrightarrow> co_open s = [] \<Longrightarrow>
    co_open t = (case co_client t of None \<Rightarrow> [] | Some n \<Rightarrow> [n]) \<and> (\<forall>n \<in> set (co_open t). n < co_next t)"
  unfolding opened_ok_def by auto

text \<open>What the steps after a successful opening keep.\<close>

definition core_up :: "core_cfg \<Rightarrow> core \<Rightarrow> bool" where
  "core_up c s \<longleftrightarrow> on_client c s \<and> co_open s = (case co_client s of None \<Rightarrow> [] | Some n \<Rightarrow> [n]) \<and>
     (\<forall>n \<in> set (co_open s). n < co_next s)"

lemma core_up_svc_only: "svc_only K s t \<Longrightarrow> core_up c s \<Longrightarrow> core_up c t"
  unfolding core_up_def by (auto simp: on_client_svc_only svc_only_fields(1,2,3))

lemma core_up_update:
  "core_up c s \<Longrightarrow> co_client t = co_client s \<Longrightarrow> co_svc t = co_svc s \<Longrightarrow> co_open t = co_open s \<Longrightarrow> co_next t = co_next s \<Longrightarrow> core_up c t"
  by (simp add: core_up_def on_client_def)

lemmas mark_defs = markCoreReadyLocked_def markCoreNotReadyLocked_def markControlReadyLocked_def markControlNotReadyLocked_def set_state_def

lemma StartCore_ok:
  assumes run: "StartCoreContext c e s = (r, t)" and ok: "core_ok c s" and idle: "co_loops s = 0"
  shows "core_ok c t \<and> (r = None \<longrightarrow> co_coreReady t) \<and> (r \<noteq> None \<longrightarrow> co_loops t = 0)"
proof (cases "co_coreReady s \<or> co_state s \<noteq> StateDisconnected")
  case True
  then show ?thesis using run ok idle by (auto simp: StartCoreContext_def)
next
  case False
  let ?s = "s\<lparr>co_probeBlocked := False, co_state := StateConnecting, co_desired := False\<rparr>"
  have clean: "co_client ?s = None" "co_svc ?s = (\<lambda>_. None)" "co_open ?s = []" "co_loops ?s = 0"
    using ok idle by (auto simp: core_ok_def)
  obtain err s1 where o: "openClientAndAllocateServices c e ?s = (err, s1)" by fastforce
  have fresh: "\<forall>n \<in> set (co_open ?s). n < co_next ?s" using clean by simp
  note result = open_result[OF o fresh clean(1)]
  show ?thesis
  proof (cases err)
    case (Some x)
    then have not: "opened_not c ?s s1" using result by simp
    have "r = Some x" "t = set_state StateDisconnected (core_cleanup c s1)"
      using run False o Some by (auto simp: StartCoreContext_def)
    moreover have "co_loops s1 = 0" "co_open s1 = []" "co_client s1 = None"
      using not result(1) clean by (auto simp: opened_not_def core_rest_def)
    ultimately show ?thesis by (simp add: core_ok_def set_state_def)
  next
    case None
    then have opened: "opened_ok c ?s s1" and rest: "core_rest s1 = core_rest ?s" using result by simp_all
    have up1: "core_up c s1"
      using opened_on_client[OF opened clean(2)] opened_open[OF opened clean(3)] by (simp add: core_up_def)
    let ?m = "markControlReadyLocked ''start_control_ready'' s1"
    let ?s2 = "snd (checkSIM c e ?m)"
    have "core_up c ?m" by (rule core_up_update[OF up1]) (simp_all add: mark_defs)
    then have up2: "core_up c ?s2" by (rule core_up_svc_only[OF checkSIM_only])
    have loops: "co_loops ?s2 = 0"
      using svc_only_fields(7)[OF checkSIM_only] rest clean by (simp add: mark_defs core_rest_def)
    have rt: "r = None" "t = told (PreWarm True) (set_state StateDisconnected (markCoreReadyLocked ''start_core_ready''
        ((told StartLoops (told StopTimers ?s2))\<lparr>co_loops := Suc (co_loops (told StartLoops (told StopTimers ?s2)))\<rparr>)))"
      using run False o None by (auto simp: StartCoreContext_def Let_def)
    have "core_up c t" unfolding rt(2) by (rule core_up_update[OF up2]) (simp_all add: mark_defs)
    then show ?thesis using rt loops by (auto simp: core_ok_def core_up_def mark_defs)
  qed
qed

lemma Stop_shape:
  obtains u where "Stop c served s = set_state StateDisconnected (told CloseEvents ((core_cleanup c u)\<lparr>co_eventsClosed := True\<rparr>))"
    "co_client u = co_client s" "co_open u = co_open s" "co_next u = co_next s" "co_loops u = 0"
  by (rule that, unfold Stop_def Let_def, rule refl, simp_all add: disconnect_data_def)

lemma Stop_ok:
  assumes "core_ok c s" shows "core_ok c (Stop c served s)"
proof -
  obtain u where u: "Stop c served s = set_state StateDisconnected (told CloseEvents ((core_cleanup c u)\<lparr>co_eventsClosed := True\<rparr>))"
    "co_client u = co_client s" "co_open u = co_open s" "co_next u = co_next s" "co_loops u = 0"
    by (rule Stop_shape)
  have "co_open (core_cleanup c u) = []"
    using assms by (auto simp: core_ok_def u split: option.splits)
  then show ?thesis unfolding u(1) core_ok_def using u(5) by (simp add: set_state_def del: cleanup_fields(9))
qed

lemma schedule_fields [simp]:
  "co_client (scheduleRecoverRetry c e s) = co_client s" "co_svc (scheduleRecoverRetry c e s) = co_svc s"
  "co_open (scheduleRecoverRetry c e s) = co_open s" "co_next (scheduleRecoverRetry c e s) = co_next s"
  "co_coreReady (scheduleRecoverRetry c e s) = co_coreReady s" "co_controlReady (scheduleRecoverRetry c e s) = co_controlReady s"
  "co_loops (scheduleRecoverRetry c e s) = co_loops s" "co_state (scheduleRecoverRetry c e s) = co_state s"
  by (simp_all add: scheduleRecoverRetry_def Let_def split: option.splits)

lemma recover_plane_only: "svc_only UNIV s (snd (recover_plane c e s))"
  unfolding recover_plane_def by (rule quiet_snd) (intro core_quiet quiet_plane_services, simp)

definition core_running :: "core_cfg \<Rightarrow> core \<Rightarrow> bool" where
  "core_running c s \<longleftrightarrow> core_up c s \<and> co_loops s = 1 \<and> co_state s \<noteq> StateStopping"

lemma core_running_ok: "core_running c s \<Longrightarrow> co_coreReady s \<longrightarrow> co_controlReady s \<Longrightarrow> core_ok c s"
  by (auto simp: core_running_def core_up_def core_ok_def)

lemma core_running_svc_only: "svc_only K s t \<Longrightarrow> core_running c s \<Longrightarrow> core_running c t"
  by (auto simp: core_running_def core_up_svc_only svc_only_fields(4,7))

lemma core_running_update:
  "core_running c s \<Longrightarrow> co_client t = co_client s \<Longrightarrow> co_svc t = co_svc s \<Longrightarrow> co_open t = co_open s \<Longrightarrow> co_next t = co_next s \<Longrightarrow>
   co_loops t = co_loops s \<Longrightarrow> co_state t \<noteq> StateStopping \<Longrightarrow> core_running c t"
  using core_up_update[of c s t] by (simp add: core_running_def)

lemma core_running_marks:
  assumes "core_running c s"
  shows "core_running c (markControlReadyLocked stage s)" "core_running c (markCoreNotReadyLocked stage err s)"
    "core_running c (told k s)"
  by (rule core_running_update[OF assms]; use assms in \<open>simp add: mark_defs core_running_def\<close>)+

lemma recover_opened_ok:
  assumes "core_running c s" "recover_opened c e desired s = (r, t)"
  shows "core_ok c t \<and> (r \<longrightarrow> co_coreReady t)"
proof -
  let ?s1 = "markControlReadyLocked ''recover_control_ready'' (snd (recover_plane c e s))"
  let ?s2 = "markCoreNotReadyLocked ''recover_wait_reset_quiet'' None (snd (checkSIM c e ?s1))"
  have "core_running c ?s1" by (rule core_running_marks(1)[OF core_running_svc_only[OF recover_plane_only assms(1)]])
  then have 2: "core_running c ?s2" by (rule core_running_marks(2)[OF core_running_svc_only[OF checkSIM_only]])
  show ?thesis
  proof (cases "ke_call e (co_trace ?s2) ResetQuietWindow")
    case (Some err)
    let ?s4 = "markCoreNotReadyLocked ''recover_wait_reset_quiet'' (Some err) (told ResetQuietWindow ?s2)"
    have 4: "core_running c ?s4" by (rule core_running_marks(2)[OF core_running_marks(3)[OF 2]])
    have rt: "\<not> r" "t = (if ke_resetPending e (co_trace ?s4) then ?s4 else scheduleRecoverRetry c e ?s4)"
      using assms(2) Some by (auto simp: recover_opened_def Let_def ask_core_def)
    have "core_running c t" unfolding rt(2)
      using 4 core_running_update[OF 4, of "scheduleRecoverRetry c e ?s4"] by (simp add: core_running_def)
    moreover have "\<not> co_coreReady t" unfolding rt(2) by (simp add: mark_defs)
    ultimately show ?thesis using rt(1) core_running_ok by blast
  next
    case None
    let ?s4 = "told IdentityGate (markCoreNotReadyLocked ''recover_wait_identity'' None (told ResetQuietWindow ?s2))"
    have 4: "core_running c ?s4" by (rule core_running_marks(3)[OF core_running_marks(2)[OF core_running_marks(3)[OF 2]]])
    have rt: "r" "t = recover_converged c desired ?s4"
      using assms(2) None by (auto simp: recover_opened_def Let_def ask_core_def)
    have "core_running c t" unfolding rt(2)
      by (rule core_running_update[OF 4]) (simp_all add: recover_converged_def Let_def mark_defs)
    moreover have "co_coreReady t \<and> co_controlReady t" unfolding rt(2) by (simp add: recover_converged_def Let_def mark_defs)
    ultimately show ?thesis using core_running_ok by blast
  qed
qed

lemma recover_ok:
  assumes ok: "core_ok c s" and live: "co_loops s > 0" and run: "doRecoverFromModemReset c e s = (r, t)"
  shows "core_ok c t \<and> (r \<longrightarrow> co_coreReady t)"
proof -
  let ?s2 = "told ResetSnapshot (core_cleanup c (disconnect_data (told BlockProbes (s\<lparr>co_probeBlocked := True\<rparr>))))"
  let ?s3 = "markCoreNotReadyLocked ''recover_reinit_services'' None (markControlNotReadyLocked ''recover_reinit_services'' ?s2)"
  have "(case co_client s of Some n \<Rightarrow> removeAll n (co_open s) | None \<Rightarrow> co_open s) = []"
    using ok by (auto simp: core_ok_def split: option.splits)
  then have clean: "co_client ?s3 = None" "co_svc ?s3 = (\<lambda>_. None)" "co_open ?s3 = []" "co_loops ?s3 = 1"
      "co_state ?s3 = StateDisconnected"
    using ok live by (simp_all add: mark_defs disconnect_data_def core_ok_def cong: option.case_cong)
  obtain err s4 where o: "openClientAndAllocateServices c e ?s3 = (err, s4)" by fastforce
  have fresh: "\<forall>n \<in> set (co_open ?s3). n < co_next ?s3" using clean by simp
  note result = open_result[OF o fresh clean(1)]
  have run': "(case err of Some x \<Rightarrow> (False, recover_open_failed c e x s4) | None \<Rightarrow> recover_opened c e (co_desired s) s4) = (r, t)"
    using run ok o by (simp add: doRecoverFromModemReset_def Let_def core_ok_def split: option.splits)
  show ?thesis
  proof (cases err)
    case (Some x)
    then have not: "opened_not c ?s3 s4" using result by simp
    have "co_client s4 = None" "co_open s4 = []" "co_loops s4 = 1"
      using not result(1) clean by (auto simp: opened_not_def core_rest_def)
    then show ?thesis using run' Some
      by (cases "ke_deviceGone e (co_trace (set_state StateDisconnected (markCoreNotReadyLocked ''recover_reinit_services'' (Some x)
            (markControlNotReadyLocked ''recover_reinit_services'' s4))))")
        (auto simp: recover_open_failed_def Let_def core_ok_def mark_defs)
  next
    case None
    then have "opened_ok c ?s3 s4" using result by simp
    then have "core_up c s4"
      using opened_on_client[OF _ clean(2)] opened_open[OF _ clean(3)] by (simp add: core_up_def)
    then have "core_running c s4" using result(1) clean(4,5) by (simp add: core_running_def core_rest_def)
    then show ?thesis using recover_opened_ok run' None by simp
  qed
qed

lemma core_life_ok: "core_life c s t \<Longrightarrow> core_ok c s \<Longrightarrow> core_ok c t"
proof (induction rule: core_life.induct)
  case (life_start s e r t)
  obtain r1 s1 where core: "StartCoreContext c e s = (r1, s1)" by fastforce
  have "core_ok c s1"
  proof (cases "co_coreReady s \<or> co_state s \<noteq> StateDisconnected")
    case True
    then show ?thesis using core life_start(3) by (auto simp: StartCoreContext_def)
  next
    case False
    with life_start(1) have "co_loops s = 0" by blast
    then show ?thesis using StartCore_ok[OF core life_start(3)] by blast
  qed
  moreover have "t = s1 \<or> t = told SendStart (s1\<lparr>co_desired := True\<rparr>)"
    using life_start(2) core by (auto simp: Start_def core_seq_def core_skip_def split: option.splits if_splits)
  ultimately show ?case by (auto simp: core_ok_def on_client_def)
next
  case (life_stop s served)
  then show ?case by (rule Stop_ok)
next
  case (life_recover s e r t)
  then show ?case using recover_ok by blast
next
  case (life_data s st a b i j d)
  then show ?case by (auto simp: core_ok_def on_client_def)
qed

text \<open>C14: However a manager is started, stopped and recovered, one whole call after the other, whatever the modem answers and in
  whichever order its services get their turn, but for starts after a recovery that did not reach the end (those leak a client,
  \<open>start_during_recovery_leaks\<close>): the clients that are open are exactly the one the manager holds; it is ready only with a
  client, and then its network, device and card services belong to that client, as does every other service it holds, except for
  the services of the data plane under the eager policy; and a manager whose event loop does not run holds nothing.\<close>

theorem core_holds_one_client:
  assumes "(core_life c)\<^sup>*\<^sup>* New_core s"
  shows "co_open s = (case co_client s of None \<Rightarrow> [] | Some n \<Rightarrow> [n]) \<and>
    (co_coreReady s \<longrightarrow> co_controlReady s \<and> co_client s \<noteq> None \<and> (\<forall>k \<in> core_svcs. co_svc s k = co_client s) \<and>
      (\<forall>k. k \<notin> plane_svcs \<or> kc_DataPlanePolicy c \<noteq> DataPlanePolicyEager \<longrightarrow> co_svc s k \<in> {None, co_client s})) \<and>
    co_loops s \<le> 1 \<and> (co_loops s = 0 \<longrightarrow> co_client s = None \<and> co_svc s = (\<lambda>_. None))"
proof -
  have "core_ok c New_core" by (simp add: core_ok_def New_core_def)
  with assms have "core_ok c s" by (induction rule: rtranclp_induct) (simp_all add: core_life_ok)
  then show ?thesis by (simp add: core_ok_def on_client_def)
qed

section \<open>Where the life of a manager goes wrong\<close>

definition easy_env :: core_env where
  "easy_env = \<lparr>ke_call = (\<lambda>_ _. None), ke_ctx = (\<lambda>_. None), ke_supports = (\<lambda>_. False), ke_order = (\<lambda>_. []), ke_now = (\<lambda>_. 0),
     ke_random = (\<lambda>_. 0), ke_status = (\<lambda>_ _. Inr SIMReady), ke_deviceGone = (\<lambda>_. False), ke_resetPending = (\<lambda>_. True)\<rparr>"

definition easy_cfg :: "DataPlanePolicy \<Rightarrow> core_cfg" where
  "easy_cfg p = \<lparr>kc_NetInterface = [], kc_EnableIPv4 = True, kc_EnableIPv6 = False, kc_DataPlanePolicy = p, kc_DataPlaneMode = [],
     kc_PINCode = ''1234'', kc_NoDial = True, kc_AutoReconnect = False, kc_DisableWMSInd = False, kc_DisableVOICEInd = False,
     kc_DisableIMSAInd = False, kc_MaxRecoverAttempts = 0, kc_MaxRecoverElapsed = 0\<rparr>"

lemmas run_defs = Start_def StartCoreContext_def openClientAndAllocateServices_def open_once_def allocateServices_def
  plane_services_def plane_service_def runStartupServiceTasks_def core_tasks_def core_task_def registering_def aux_tasks_def aux_task_def
  arranged_def core_seq_def ctx_check_def core_skip_def wrapping_def ignoring_core_def create_service_def ask_core_def told_def
  drop_services_def checkSIM_def check_card_def uim_status_def dms_status_def ask_status_def mark_defs close_client_def Let_def easy_env_def easy_cfg_def
  New_core_def shouldAllocateWDA_core_def TrimSpace_def

lemma three_tasks: "{..<Suc (Suc (Suc 0))} \<noteq> {}" "{} \<noteq> {..<Suc (Suc (Suc 0))}" "{..<Suc (Suc (Suc (Suc 0)))} \<noteq> {}"
  "{} \<noteq> {..<Suc (Suc (Suc (Suc 0)))}"
  by (auto simp: lessThan_Suc)

lemma easy_start:
  "\<exists>t. Start (easy_cfg DataPlanePolicyLazy) easy_env New_core = (None, t) \<and> co_client t = Some 0 \<and> co_coreReady t \<and> co_loops t = 1 \<and>
     co_svc t SvcUIM = Some 0"
  by (simp add: run_defs numeral_eq_Suc three_tasks)

theorem core_holds_one_client_witness:
  "\<exists>t. Start (easy_cfg DataPlanePolicyLazy) easy_env New_core = (None, t) \<and> co_open t = [0] \<and> co_svc t SvcDMS = Some 0"
proof -
  obtain t where t: "Start (easy_cfg DataPlanePolicyLazy) easy_env New_core = (None, t)" "co_client t = Some 0" "co_coreReady t"
    using easy_start by blast
  have "core_life (easy_cfg DataPlanePolicyLazy) New_core t"
    by (rule life_start[OF _ t(1)]) (simp add: New_core_def)
  then show ?thesis using core_holds_one_client[OF r_into_rtranclp, of "easy_cfg DataPlanePolicyLazy" t] t
    by (auto simp: core_svcs_def)
qed

text \<open>Under the eager policy the first attempt allocates the WDS service and then times out on NAS: the client is closed, but the
  pointer stays, and the second attempt sees it and allocates no other. The manager is ready with a WDS service on a
  closed client.\<close>

definition slow_nas_env :: core_env where
  "slow_nas_env = easy_env\<lparr>ke_call := (\<lambda>h k. if k = Allocate SvcNAS \<and> k \<notin> set h then Some (ErrTimeout ''NAS'') else None)\<rparr>"

lemma retried_start_keeps_closed_wds:
  "\<exists>t. Start (easy_cfg DataPlanePolicyEager) slow_nas_env New_core = (None, t) \<and> co_coreReady t \<and>
     co_client t = Some 1 \<and> co_open t = [1] \<and> co_svc t SvcWDS = Some 0"
  by (simp add: run_defs slow_nas_env_def numeral_eq_Suc three_tasks retryable_def as_timeout_def)

text \<open>Between a recovery that did not reach the end and its retry the manager is neither ready nor in another state than
  disconnected, so that it can be started again: the client of before is never closed, and there are two event loops.\<close>

lemma unquiet_recovery_keeps_client:
  assumes "\<And>h. ke_call e h ResetQuietWindow \<noteq> None" "recover_opened c e desired s = (r, t)" "co_state s = StateDisconnected"
  shows "\<not> r \<and> co_client t = co_client s \<and> co_open t = co_open s \<and> \<not> co_coreReady t \<and> co_state t = StateDisconnected \<and> co_loops t = co_loops s"
proof -
  let ?s1 = "markControlReadyLocked ''recover_control_ready'' (snd (recover_plane c e s))"
  let ?s2 = "snd (checkSIM c e ?s1)"
  note p = svc_only_fields[OF recover_plane_only[of s c e]] and q = svc_only_fields[OF checkSIM_only[of ?s1 c e]]
  have "co_client ?s2 = co_client s" "co_open ?s2 = co_open s" "co_state ?s2 = StateDisconnected" "co_loops ?s2 = co_loops s"
    using p q assms(3) by (simp_all add: mark_defs)
  moreover obtain err where "ke_call e (co_trace (markCoreNotReadyLocked ''recover_wait_reset_quiet'' None ?s2)) ResetQuietWindow = Some err"
    using assms(1) by fastforce
  ultimately show ?thesis using assms(2)
    by (cases "ke_resetPending e (co_trace (markCoreNotReadyLocked ''recover_wait_reset_quiet'' (Some err)
        (told ResetQuietWindow (markCoreNotReadyLocked ''recover_wait_reset_quiet'' None ?s2))))")
      (auto simp: recover_opened_def Let_def ask_core_def mark_defs)
qed

lemma start_during_recovery_leaks:
  assumes "\<not> co_coreReady u" "co_state u = StateDisconnected" "co_client u = Some n" "co_open u = [n]"
  shows "\<exists>t. Start (easy_cfg DataPlanePolicyLazy) easy_env u = (None, t) \<and> co_client t = Some (co_next u) \<and>
    co_open t = [n, co_next u] \<and> co_loops t = Suc (co_loops u)"
  using assms by (simp add: run_defs numeral_eq_Suc three_tasks)

text \<open>When the UIM service fails and DMS knows that the card wants its PIN, the error of UIM is still returned and the PIN
  not presented.\<close>

lemma dms_fallback_unused:
  assumes "ke_call e (co_trace s) AcquireCard = None" "co_svc s SvcUIM \<noteq> None"
    and "ke_status e (co_trace s @ [AcquireCard]) UIMCardStatus = Inl err"
    and "ke_status e (co_trace s @ [AcquireCard, UIMCardStatus]) DMSCardStatus = Inr SIMPINRequired"
  shows "checkSIM c e s = (Some err, told DMSCardStatus (told UIMCardStatus (told AcquireCard s)))"
  using assms by (auto simp: core_seq_def ask_core_def checkSIM_def check_card_def uim_status_def dms_status_def ask_status_def told_def)

section \<open>Retries of the recovery\<close>

lemma backoff_loop_min: "0 < d \<Longrightarrow> d \<le> recoverBackoffMax \<Longrightarrow> backoff_loop k d = min (d * 2 ^ k) recoverBackoffMax"
proof (induction k arbitrary: d)
  case (Suc k)
  have "d * 1 \<le> d * 2 ^ k" using Suc.prems(1) by (intro mult_left_mono) simp_all
  then have up: "2 * d \<le> d * 2 ^ Suc k" by simp
  show ?case
  proof (cases "d \<ge> recoverBackoffMax \<or> 2 * d > recoverBackoffMax")
    case True
    then have "recoverBackoffMax \<le> d * 2 ^ Suc k" using up Suc.prems by linarith
    then show ?thesis using True by (auto simp: min_def)
  next
    case False
    then show ?thesis using Suc.IH[of "2 * d"] Suc.prems by (simp add: mult.assoc mult.left_commute)
  qed
qed simp

lemma with_jitter_bounds:
  assumes "0 \<le> d" shows "5 * \<bar>with_jitter d r - d\<bar> \<le> d"
proof (cases "d div 5 > 0")
  case True
  have "0 \<le> int r mod (2 * (d div 5) + 1)" "int r mod (2 * (d div 5) + 1) < 2 * (d div 5) + 1"
    by (rule pos_mod_sign, use True in linarith) (rule pos_mod_bound, use True in linarith)
  then have "\<bar>int r mod (2 * (d div 5) + 1) - d div 5\<bar> \<le> d div 5" by linarith
  then have "5 * \<bar>int r mod (2 * (d div 5) + 1) - d div 5\<bar> \<le> 5 * (d div 5)" by simp
  also have "\<dots> \<le> d" by simp
  finally have "5 * \<bar>int r mod (2 * (d div 5) + 1) - d div 5\<bar> \<le> d" .
  then show ?thesis using True by (simp add: with_jitter_def Let_def)
qed (use assms in \<open>simp add: with_jitter_def\<close>)

text \<open>C38: Whatever the number of failures and the random number: the pause before a retry of the recovery is within a fifth of half a
  second doubled with each failure, up to fifteen seconds; so it is never below 0.4 and never above 18 seconds.\<close>

theorem recover_delay_bounds:
  "let base = min (recoverBackoffBase * 2 ^ nat (n - 1)) recoverBackoffMax; delay = getRecoverDelay r n
   in 5 * \<bar>delay - base\<bar> \<le> base \<and> 400 * 10 ^ 6 \<le> delay \<and> delay \<le> 18 * 10 ^ 9"
proof -
  let ?base = "min (recoverBackoffBase * 2 ^ nat (n - 1)) recoverBackoffMax"
  have "nat ((if n \<le> 0 then 1 else n) - 1) = nat (n - 1)" by simp
  then have delay: "backoff_loop (nat ((if n \<le> 0 then 1 else n) - 1)) recoverBackoffBase = ?base"
    using backoff_loop_min[of recoverBackoffBase] by (simp only:) (simp add: recoverBackoffBase_def recoverBackoffMax_def)
  have "(1::int) \<le> 2 ^ nat (n - 1)" by simp
  then have base: "500 * 10 ^ 6 \<le> ?base" "?base \<le> 15 * 10 ^ 9"
    by (simp_all add: recoverBackoffBase_def recoverBackoffMax_def)
  have bounds: "400 * 10 ^ 6 \<le> x \<and> x \<le> 18 * 10 ^ 9"
    if "5 * \<bar>x - b\<bar> \<le> b" "500 * 10 ^ 6 \<le> b" "b \<le> 15 * 10 ^ 9" for x b :: int
    using that by simp arith
  have j: "5 * \<bar>with_jitter ?base r - ?base\<bar> \<le> ?base" by (rule with_jitter_bounds) (use base(1) in \<open>rule order_trans[rotated]\<close>, simp)
  then have "400 * 10 ^ 6 \<le> with_jitter ?base r \<and> with_jitter ?base r \<le> 18 * 10 ^ 9" by (rule bounds) (rule base)+
  then show ?thesis using j unfolding getRecoverDelay_def Let_def delay by simp
qed

section \<open>Giving up\<close>

fun retries :: "core_cfg \<Rightarrow> core_env \<Rightarrow> nat \<Rightarrow> core \<Rightarrow> core" where
  "retries c e 0 s = s"
| "retries c e (Suc n) s = scheduleRecoverRetry c e (retries c e n s)"

lemma retry_scheduled:
  assumes "kc_MaxRecoverElapsed c \<le> 0" "co_recoverCount s < kc_MaxRecoverAttempts c"
  shows "co_recoverCount (scheduleRecoverRetry c e s) = co_recoverCount s + 1 \<and>
    (\<exists>d. co_trace (scheduleRecoverRetry c e s) = co_trace s @ [ScheduleRetry d])"
  using assms by (simp add: scheduleRecoverRetry_def recoveryExhausted_def Let_def told_def)

lemma retry_exhausted:
  assumes "0 < kc_MaxRecoverAttempts c" "co_recoverCount s = kc_MaxRecoverAttempts c"
  shows "co_recoverCount (scheduleRecoverRetry c e s) = 0 \<and> co_firstFail (scheduleRecoverRetry c e s) = None \<and>
    co_trace (scheduleRecoverRetry c e s) = co_trace s @ [EmitExhausted ''recovery_exhausted'']"
  using assms by (simp add: scheduleRecoverRetry_def recoveryExhausted_def Let_def told_def)

text \<open>A recovery that keeps failing is retried exactly as often as the policy allows, and then one terminal event is emitted, no
  retry scheduled and the count started again.\<close>

theorem recovery_gives_up:
  assumes "0 < kc_MaxRecoverAttempts c" "kc_MaxRecoverElapsed c \<le> 0" "co_recoverCount s = 0"
    and "n = nat (kc_MaxRecoverAttempts c)"
  shows "(\<exists>ds. length ds = n \<and> co_trace (retries c e (Suc n) s) = co_trace s @ map ScheduleRetry ds @ [EmitExhausted ''recovery_exhausted'']) \<and>
    co_recoverCount (retries c e (Suc n) s) = 0"
proof -
  have "k \<le> n \<Longrightarrow> co_recoverCount (retries c e k s) = int k \<and>
      (\<exists>ds. length ds = k \<and> co_trace (retries c e k s) = co_trace s @ map ScheduleRetry ds)" for k
  proof (induction k)
    case (Suc k)
    then obtain ds where ds: "length ds = k" "co_trace (retries c e k s) = co_trace s @ map ScheduleRetry ds"
      and count: "co_recoverCount (retries c e k s) = int k" by auto
    have "co_recoverCount (retries c e k s) < kc_MaxRecoverAttempts c" using count Suc.prems assms(4) by simp
    from retry_scheduled[OF assms(2) this, of e] obtain d where
      "co_recoverCount (retries c e (Suc k) s) = int k + 1"
      "co_trace (retries c e (Suc k) s) = co_trace s @ map ScheduleRetry (ds @ [d])" using count ds by auto
    then show ?case using ds(1) by (intro conjI exI[of _ "ds @ [d]"]) simp_all
  qed (simp add: assms(3))
  from this[of n] obtain ds where ds: "length ds = n" "co_trace (retries c e n s) = co_trace s @ map ScheduleRetry ds"
    and count: "co_recoverCount (retries c e n s) = kc_MaxRecoverAttempts c" using assms(1,4) by auto
  from retry_exhausted[OF assms(1) count, of e] ds show ?thesis by auto
qed

theorem recovery_gives_up_witness:
  "\<exists>d d'. co_trace (retries ((easy_cfg DataPlanePolicyLazy)\<lparr>kc_MaxRecoverAttempts := 2\<rparr>) easy_env 3 New_core) =
     [ScheduleRetry d, ScheduleRetry d', EmitExhausted ''recovery_exhausted'']"
proof -
  obtain ds where "length ds = nat 2" "co_trace (retries ((easy_cfg DataPlanePolicyLazy)\<lparr>kc_MaxRecoverAttempts := 2\<rparr>) easy_env
      (Suc (nat 2)) New_core) = co_trace New_core @ map ScheduleRetry ds @ [EmitExhausted ''recovery_exhausted'']"
    using recovery_gives_up[where c = "(easy_cfg DataPlanePolicyLazy)\<lparr>kc_MaxRecoverAttempts := 2\<rparr>" and e = easy_env and s = New_core and n = "nat 2"]
    by (auto simp: easy_cfg_def New_core_def)
  then show ?thesis by (auto simp: numeral_eq_Suc length_Suc_conv New_core_def)
qed

section \<open>The configuration\<close>

text \<open>The fields of \<^verbatim>\<open>Config\<close> that \<^verbatim>\<open>normalizeConfig\<close> looks at; durations are nanoseconds.\<close>

record policy_cfg =
  po_Init :: int
  po_Dial :: int
  po_SIMCheck :: int
  po_StatusCheck :: int
  po_Stop :: int
  po_IndicationRegister :: int
  po_ReconnectDelays :: "int list"
  po_ReinitDelays :: "int list"
  po_RadioResetAfter :: int
  po_FullCheckInterval :: int
  po_IndicationDebounce :: int
  po_IPConsistencyInterval :: int
  po_CallbackQueueSize :: int
  po_ServiceTimeoutThreshold :: int
  po_ServiceTimeoutWindow :: int
  po_ServiceRecoverCooldown :: int
  po_SyncOnOpen :: bool
  po_ReadDeadline :: int
  po_DefaultRequestTimeout :: int
  po_TxQueueSize :: int
  po_IndicationQueueSize :: int
  po_ProxyPath :: string
  po_ProxyExecutable :: string
  po_ProxyOpenTimeout :: int

definition seconds :: "int \<Rightarrow> int" where "seconds n = n * 10 ^ 9"

definition positive_or :: "int \<Rightarrow> int \<Rightarrow> int" where
  "positive_or d v = (if v \<le> 0 then d else v)"

definition given_or :: "'a list \<Rightarrow> 'a list \<Rightarrow> 'a list" where
  "given_or d v = (if v = [] then d else v)"

text \<open>The paths of the proxy and its time limit are those of the client's defaults, which are parameters here.\<close>

definition normalize_fields :: "string \<Rightarrow> string \<Rightarrow> int \<Rightarrow> policy_cfg \<Rightarrow> policy_cfg" where
  "normalize_fields proxyPath proxyExecutable proxyOpenTimeout c =
     c\<lparr>
          po_Init := positive_or (seconds 10) (po_Init c),
          po_Dial := positive_or (seconds 30) (po_Dial c),
          po_SIMCheck := positive_or (seconds 10) (po_SIMCheck c),
          po_StatusCheck := positive_or (seconds 5) (po_StatusCheck c),
          po_Stop := positive_or (seconds 3) (po_Stop c),
          po_IndicationRegister := positive_or (seconds 5) (po_IndicationRegister c),
          po_ReconnectDelays := given_or (map seconds [5, 10, 20, 40, 60]) (po_ReconnectDelays c),
          po_ReinitDelays := given_or (map seconds [2, 4, 8, 16, 32]) (po_ReinitDelays c),
          po_RadioResetAfter := positive_or 3 (po_RadioResetAfter c),
          po_FullCheckInterval := positive_or (seconds 15) (po_FullCheckInterval c),
          po_IndicationDebounce := positive_or (500 * 10 ^ 6) (po_IndicationDebounce c),
          po_IPConsistencyInterval := positive_or (seconds 60) (po_IPConsistencyInterval c),
          po_CallbackQueueSize := positive_or 128 (po_CallbackQueueSize c),
          po_ServiceTimeoutThreshold := positive_or 5 (po_ServiceTimeoutThreshold c),
          po_ServiceTimeoutWindow := positive_or (seconds 600) (po_ServiceTimeoutWindow c),
          po_ServiceRecoverCooldown := positive_or (seconds 30) (po_ServiceRecoverCooldown c),
          po_ReadDeadline := positive_or (100 * 10 ^ 6) (po_ReadDeadline c),
          po_DefaultRequestTimeout := positive_or (seconds 30) (po_DefaultRequestTimeout c),
          po_TxQueueSize := positive_or 128 (po_TxQueueSize c),
          po_IndicationQueueSize := positive_or 256 (po_IndicationQueueSize c),
          po_ProxyPath := given_or proxyPath (po_ProxyPath c),
          po_ProxyExecutable := given_or proxyExecutable (po_ProxyExecutable c),
          po_ProxyOpenTimeout := positive_or proxyOpenTimeout (po_ProxyOpenTimeout c)\<rparr>"

definition client_defaults :: "policy_cfg \<Rightarrow> bool" where
  "client_defaults c \<longleftrightarrow> po_ReadDeadline c = 100 * 10 ^ 6 \<and> po_DefaultRequestTimeout c = seconds 30 \<and>
     po_TxQueueSize c = 128 \<and> po_IndicationQueueSize c = 256"

definition normalizeConfig :: "string \<Rightarrow> string \<Rightarrow> int \<Rightarrow> policy_cfg \<Rightarrow> policy_cfg" where
  "normalizeConfig proxyPath proxyExecutable proxyOpenTimeout c =
     (let c1 = normalize_fields proxyPath proxyExecutable proxyOpenTimeout c
      in if \<not> po_SyncOnOpen c1 \<and> client_defaults c1 then c1\<lparr>po_SyncOnOpen := True\<rparr> else c1)"

lemma positive_or_idem [simp]: "0 < d \<Longrightarrow> positive_or d (positive_or d v) = positive_or d v"
  by (simp add: positive_or_def)

lemma given_or_idem [simp]: "given_or d (given_or d v) = given_or d v"
  by (simp add: given_or_def)

lemma seconds_pos [simp]: "0 < seconds n \<longleftrightarrow> 0 < n"
  by (simp add: seconds_def)

lemma normalize_fields_idem: "0 < t \<Longrightarrow> normalize_fields p x t (normalize_fields p x t c) = normalize_fields p x t c"
  by (cases c) (simp add: normalize_fields_def)

lemma normalize_fields_sync: "normalize_fields p x t (c\<lparr>po_SyncOnOpen := b\<rparr>) = (normalize_fields p x t c)\<lparr>po_SyncOnOpen := b\<rparr>"
  by (cases c) (simp add: normalize_fields_def)

lemma normalizeConfig_idempotent:
  assumes "0 < t" shows "normalizeConfig p x t (normalizeConfig p x t c) = normalizeConfig p x t c"
proof (cases "\<not> po_SyncOnOpen (normalize_fields p x t c) \<and> client_defaults (normalize_fields p x t c)")
  case True
  then have "normalizeConfig p x t c = (normalize_fields p x t c)\<lparr>po_SyncOnOpen := True\<rparr>"
    by (simp add: normalizeConfig_def Let_def)
  then show ?thesis using assms
    by (simp only:) (simp add: normalizeConfig_def Let_def normalize_fields_sync normalize_fields_idem)
next
  case False
  then have "normalizeConfig p x t c = normalize_fields p x t c" by (simp add: normalizeConfig_def Let_def)
  then show ?thesis using assms False by (simp only:) (simp add: normalizeConfig_def Let_def normalize_fields_idem)
qed

text \<open>A configuration that only asks not to synchronise on opening is taken for one that says nothing, and synchronises.\<close>

lemma SyncOnOpen_cannot_be_disabled_alone:
  assumes "po_ReadDeadline c = 0" "po_DefaultRequestTimeout c = 0" "po_TxQueueSize c = 0" "po_IndicationQueueSize c = 0"
  shows "po_SyncOnOpen (normalizeConfig p x t c)"
  using assms by (simp add: normalizeConfig_def Let_def client_defaults_def normalize_fields_def positive_or_def)

end
