(* ===== verification/Dispatch.thy ===== *)
theory Dispatch
  imports DataCall Snapshot Voice WdaIms Wms Wds UimProofs Indication NasProofs
begin

text \<open>
  What the manager does with an indication, \<^verbatim>\<open>handleIndication\<close> of \<^verbatim>\<open>src/pkg/manager/manager.go\<close>: the event it emits, the
  cache it updates and the work it starts, for each kind of indication and for packets that do not parse. The parsers are those
  of the service theories, the cache is that of theory Snapshot. The client always hands over a packet.
\<close>

section \<open>Events of the manager\<close>

text \<open>What an indication carries to the callbacks. The source has one optional field per kind; an event of an indication
  fills at most one of them, besides the metadata of the TLVs.\<close>

datatype event_payload =
    NoPayload
  | PacketServiceStatus ConnectionStatus
  | ServingSystemPayload ServingSystem
  | NASOperatorName NASOperatorNameInfo
  | NASNetworkTime NetworkTimeInfo
  | NASSignalInfo SignalInfo
  | NASCellLocationInfo CellLocationInfo
  | NASNetworkReject NASNetworkRejectInfo
  | NASIncrementalNetwork NASIncrementalNetworkScanInfo
  | SMSStored u8 u32
  | SMSRaw "byte list" bool u32 u8
  | IMSRegistration IMSARegistrationStatus
  | IMSServices IMSAServicesStatus
  | IMSSettings IMSServicesEnabledSettings
  | VoiceCalls VoiceAllCallInfo
  | VoiceSupplementary VoiceSupplementaryServiceIndication
  | VoiceSupplementaryRequest VoiceSupplementaryServiceRequestIndication
  | VoiceUSSD VoiceUSSDIndication
  | VoiceUSSDNoWait VoiceUSSDNoWaitIndication
  | UIMRefreshPayload UIMRefreshIndication
  | UIMSlotStatusPayload "UIMSlotStatusSlot list"
  | WMSTransportRegistration u8

datatype manager_event_type =
    PacketServiceStatusChanged | ServingSystemChanged | NASOperatorNameChanged | NASNetworkTimeChanged | NASSignalInfoChanged
  | NASCellLocationInfoChanged | NASNetworkRejected | NASIncrementalNetworkScanned | NASEventReported | ModemResetSeen | NewSMS | NewSMSRaw
  | IMSRegistrationStatusChanged | IMSServicesStatusChanged | IMSSettingsChanged | VoiceCallStatusChanged | VoiceSupplementaryService
  | VoiceSupplementaryServiceRequested | VoiceUSSDReceived | VoiceUSSDReleased | VoiceUSSDNoWaitResult | SimStatusChanged
  | UIMSessionClosed | UIMRefreshed | UIMSlotStatusChanged | WMSTransportNetworkRegistrationStatusChanged | UnknownIndication

record manager_event =
  me_Type :: manager_event_type
  me_State :: State
  me_RawQMIType :: Indication.EventType
  me_ServiceID :: u8
  me_MessageID :: u16
  me_TLVMeta :: "(u8 \<times> nat) list"
  me_Payload :: event_payload

text \<open>What the handler does, in order: emit an event, put an event into the manager's own queue, tell the registration
  waiter (if there is one and it has room), and start the work of other parts.\<close>

datatype queue_event = eventPacketStatusChanged | eventServingSystemChanged

datatype ind_action =
    Emitted manager_event
  | Queue queue_event
  | NotifyRegistered
  | RefreshWMSReadiness string
  | PostRegRefresh "ServingSystem option" ServingSystem
  | EnqueueModemReset string
  | PreWarmIdentities bool
  | MarkWMSReadinessStale
  | SetWMSTransportState u8

definition packetTLVMeta :: "Packet \<Rightarrow> (u8 \<times> nat) list" where
  "packetTLVMeta packet = map (\<lambda>t. (tlv_Type t, length (tlv_Value t))) (pkt_TLVs packet)"

definition qmiIndicationEvent :: "State \<Rightarrow> manager_event_type \<Rightarrow> Event \<Rightarrow> manager_event" where
  "qmiIndicationEvent st t evt =
     \<lparr>me_Type = t, me_State = st, me_RawQMIType = ev_Type evt, me_ServiceID = ucast (ev_ServiceID evt), me_MessageID = ev_MessageID evt,
      me_TLVMeta = [], me_Payload = NoPayload\<rparr>"

definition with_meta :: "Event \<Rightarrow> manager_event \<Rightarrow> manager_event" where
  "with_meta evt e = e\<lparr>me_TLVMeta := packetTLVMeta (ev_Packet evt)\<rparr>"

definition isEmptyNASEventReport :: "Event \<Rightarrow> bool" where
  "isEmptyNASEventReport evt \<longleftrightarrow> ev_Type evt = EventNASEventReport \<and> packetTLVMeta (ev_Packet evt) = []"

section \<open>The serving system\<close>

definition registered_or_roaming :: "ServingSystem \<Rightarrow> bool" where
  "registered_or_roaming s \<longleftrightarrow> sv_RegistrationState s = RegStateRegistered \<or> sv_RegistrationState s = RegStateRoaming"

text \<open>The change test and the completion of the parsed value from the cached one: \<open>serving\<close> and \<open>plmn\<close> tell which part the
  indication has.\<close>

definition serving_changed :: "bool \<Rightarrow> bool \<Rightarrow> ServingSystem \<Rightarrow> ServingSystem option \<Rightarrow> bool" where
  "serving_changed serving plmn info current =
     (case current of None \<Rightarrow> True
      | Some cur \<Rightarrow>
          serving \<and>
            (sv_RegistrationState info \<noteq> sv_RegistrationState cur \<and> \<not> (registered_or_roaming info \<and> registered_or_roaming cur) \<or>
             sv_PSAttached info \<noteq> sv_PSAttached cur \<or> sv_RadioInterface info \<noteq> sv_RadioInterface cur) \<or>
          plmn \<and> (sv_MCC info \<noteq> 0 \<or> sv_MNC info \<noteq> 0) \<and> (sv_MCC info \<noteq> sv_MCC cur \<or> sv_MNC info \<noteq> sv_MNC cur))"

definition complete_serving :: "bool \<Rightarrow> bool \<Rightarrow> ServingSystem \<Rightarrow> ServingSystem option \<Rightarrow> ServingSystem" where
  "complete_serving serving plmn info current =
     (case current of
        None \<Rightarrow> if serving then info else info\<lparr>sv_RegistrationState := RegStateUnknown\<rparr>
      | Some cur \<Rightarrow>
          let info1 = (if serving \<and> \<not> plmn then info\<lparr>sv_MCC := sv_MCC cur, sv_MNC := sv_MNC cur\<rparr> else info)
          in if plmn \<and> \<not> serving
             then info1\<lparr>sv_RegistrationState := sv_RegistrationState cur, sv_PSAttached := sv_PSAttached cur,
                    sv_RadioInterface := sv_RadioInterface cur\<rparr>
             else info1)"

definition apply_serving :: "int \<Rightarrow> bool \<Rightarrow> bool \<Rightarrow> ServingSystem \<Rightarrow> DeviceSnapshot \<Rightarrow> DeviceSnapshot" where
  "apply_serving now serving plmn info s =
     (let s1 = (if serving then updateServingRegistration now (Some info) s else s)
      in if plmn then updateServingPLMN now (sv_MCC info) (sv_MNC info) s1 else s1)"

definition serving_actions :: "ServingSystem option \<Rightarrow> ServingSystem \<Rightarrow> ind_action list" where
  "serving_actions previous s =
     (if sv_RegistrationState s = RegStateRegistered then [NotifyRegistered] else []) @
     (if registered_or_roaming s \<and> sv_PSAttached s then [RefreshWMSReadiness ''serving-system-recovered''] else []) @
     [PostRegRefresh previous s]"

definition update_sys_info :: "int \<Rightarrow> Event \<Rightarrow> DeviceSnapshot \<Rightarrow> DeviceSnapshot option" where
  "update_sys_info now evt s =
     (if ev_MessageID evt \<noteq> 0x004E then Some s
      else case ParseSysInfoIndication (ev_Packet evt) of
        None \<Rightarrow> None
      | Some (Inl _) \<Rightarrow> Some s
      | Some (Inr info) \<Rightarrow> Some (updateSysInfo now (Some info) s))"

text \<open>The branch of \<^verbatim>\<open>handleIndication\<close> for the serving system. \<^term>\<open>None\<close> is a panic.\<close>

definition handle_serving :: "State \<Rightarrow> int \<Rightarrow> Event \<Rightarrow> DeviceSnapshot \<Rightarrow> (DeviceSnapshot \<times> ind_action list) option" where
  "handle_serving st now evt s0 =
     (case update_sys_info now evt s0 of None \<Rightarrow> None | Some s \<Rightarrow>
      (let event = qmiIndicationEvent st ServingSystemChanged evt;
          plain = (s, [Emitted event, Queue eventServingSystemChanged]);
          ts = pkt_TLVs (ev_Packet evt);
          hasServing = FindTLV ts 0x01 \<noteq> None;
          hasPLMN0 = FindTLV ts 0x12 \<noteq> None
      in if \<not> hasServing \<and> \<not> hasPLMN0 then Some plain
         else (case ParseServingSystemIndication (ev_Packet evt) of
           None \<Rightarrow> None
         | Some (Inl _) \<Rightarrow> Some plain
         | Some (Inr info0) \<Rightarrow>
             (let hasPLMN = (hasPLMN0 \<and> \<not> (sv_MCC info0 = 0 \<and> sv_MNC info0 = 0));
                 current = tm_value (sn_serving s);
                 info = complete_serving hasServing hasPLMN info0 current
             in if \<not> serving_changed hasServing hasPLMN info0 current then Some (s, [])
                else Some (apply_serving now hasServing hasPLMN info s,
                       serving_actions current info @
                       [Emitted (event\<lparr>me_Payload := ServingSystemPayload info\<rparr>), Queue eventServingSystemChanged])))))"

section \<open>New messages\<close>

definition raw_sms :: "byte list \<Rightarrow> event_payload" where
  "raw_sms v =
     (let pdu = (if length v \<ge> 8 \<and> unat (Uint16 (go_slice 6 8 v)) \<le> length v - 8
                 then go_slice 8 (8 + unat (Uint16 (go_slice 6 8 v))) v else drop 6 v)
      in SMSRaw pdu (v ! 0 = 0) (Uint32 (go_slice 1 5 v)) (v ! 5))"

text \<open>A message without a usable TLV is announced without its index; the storage is then the zero of the source.\<close>

definition new_message :: "State \<Rightarrow> Event \<Rightarrow> manager_event" where
  "new_message st evt =
     (let ts = pkt_TLVs (ev_Packet evt);
          raw = (case FindTLV ts 0x11 of
                   Some tlv \<Rightarrow>
                     if length (tlv_Value tlv) \<ge> 6 then (qmiIndicationEvent st NewSMSRaw evt)\<lparr>me_Payload := raw_sms (tlv_Value tlv)\<rparr>
                     else (qmiIndicationEvent st NewSMS evt)\<lparr>me_Payload := SMSStored 0 0xFFFFFFFF\<rparr>
                 | None \<Rightarrow> (qmiIndicationEvent st NewSMS evt)\<lparr>me_Payload := SMSStored 0 0xFFFFFFFF\<rparr>)
      in case FindTLV ts 0x10 of
           Some tlv \<Rightarrow>
             if length (tlv_Value tlv) \<ge> 5
             then (qmiIndicationEvent st NewSMS evt)\<lparr>me_Payload := SMSStored (tlv_Value tlv ! 0) (Uint32 (go_slice 1 5 (tlv_Value tlv)))\<rparr>
             else raw
         | None \<Rightarrow> raw)"

section \<open>The dispatch\<close>

text \<open>A payload that does not parse: the event goes out without it, or not at all.\<close>

definition parsed_event ::
  "State \<Rightarrow> Event \<Rightarrow> manager_event_type \<Rightarrow> bool \<Rightarrow> 'a parsed \<Rightarrow> ('a \<Rightarrow> event_payload) \<Rightarrow> ('a \<Rightarrow> DeviceSnapshot \<Rightarrow> DeviceSnapshot)
   \<Rightarrow> DeviceSnapshot \<Rightarrow> (DeviceSnapshot \<times> ind_action list) option" where
  "parsed_event st evt t meta p payload upd s =
     (let event = (if meta then with_meta evt (qmiIndicationEvent st t evt) else qmiIndicationEvent st t evt) in
      case p of
        None \<Rightarrow> None
      | Some (Inl _) \<Rightarrow> Some (s, [Emitted event])
      | Some (Inr x) \<Rightarrow> Some (upd x s, [Emitted (event\<lparr>me_Payload := payload x\<rparr>)]))"

definition parsed_only ::
  "State \<Rightarrow> Event \<Rightarrow> manager_event_type \<Rightarrow> 'a parsed \<Rightarrow> ('a \<Rightarrow> event_payload) \<Rightarrow> DeviceSnapshot \<Rightarrow> (DeviceSnapshot \<times> ind_action list) option" where
  "parsed_only st evt t p payload s =
     (case p of
        None \<Rightarrow> None
      | Some (Inl _) \<Rightarrow> Some (s, [])
      | Some (Inr x) \<Rightarrow> Some (s, [Emitted ((qmiIndicationEvent st t evt)\<lparr>me_Payload := payload x\<rparr>)]))"

definition doing :: "ind_action list \<Rightarrow> (DeviceSnapshot \<times> ind_action list) option \<Rightarrow> (DeviceSnapshot \<times> ind_action list) option" where
  "doing before r = map_option (\<lambda>(s, acts). (s, before @ acts)) r"

definition no_update :: "'a \<Rightarrow> DeviceSnapshot \<Rightarrow> DeviceSnapshot" where
  "no_update x s = s"

definition handle_wms_transport :: "State \<Rightarrow> Event \<Rightarrow> DeviceSnapshot \<Rightarrow> (DeviceSnapshot \<times> ind_action list) option" where
  "handle_wms_transport st evt s =
     (let p = ParseWMSTransportNetworkRegistrationStatusIndication (ev_Packet evt) in
      doing (case p of Some (Inr status) \<Rightarrow> [SetWMSTransportState status] | _ \<Rightarrow> [])
        (parsed_event st evt WMSTransportNetworkRegistrationStatusChanged False p WMSTransportRegistration no_update s))"

definition handleIndication :: "State \<Rightarrow> int \<Rightarrow> Event \<Rightarrow> DeviceSnapshot \<Rightarrow> (DeviceSnapshot \<times> ind_action list) option" where
  "handleIndication st now evt s =
     (let packet = ev_Packet evt in
      case ev_Type evt of
        EventPacketServiceStatusChanged \<Rightarrow>
          map_option (\<lambda>(s, acts). (s, acts @ [Queue eventPacketStatusChanged]))
            (parsed_event st evt PacketServiceStatusChanged False (ParsePacketServiceStatusIndication packet) PacketServiceStatus no_update s)
      | EventServingSystemChanged \<Rightarrow> handle_serving st now evt s
      | EventNASOperatorNameChanged \<Rightarrow>
          parsed_event st evt NASOperatorNameChanged True (ParseOperatorNameIndication packet) NASOperatorName
            (\<lambda>x. updateNASOperatorName now (Some x)) s
      | EventNASNetworkTimeChanged \<Rightarrow>
          parsed_event st evt NASNetworkTimeChanged True (ParseNetworkTimeIndication (Some packet)) NASNetworkTime
            (\<lambda>x. updateNASNetworkTime now (Some x)) s
      | EventNASSignalInfoChanged \<Rightarrow>
          parsed_event st evt NASSignalInfoChanged True (ParseSignalInfoIndication packet) NASSignalInfo
            (\<lambda>x. updateNASSignalInfo now (Some x)) s
      | EventNASCellLocationInfoChanged \<Rightarrow>
          parsed_event st evt NASCellLocationInfoChanged True (ParseCellLocationInfoIndication (Some packet)) NASCellLocationInfo
            (\<lambda>x. updateNASCellLocationInfo now (Some x)) s
      | EventNASNetworkReject \<Rightarrow>
          parsed_event st evt NASNetworkRejected True (ParseNetworkRejectIndication (Some packet)) NASNetworkReject
            (\<lambda>x. updateNASNetworkReject now (Some x)) s
      | EventNASIncrementalNetworkScan \<Rightarrow>
          parsed_event st evt NASIncrementalNetworkScanned True (ParseIncrementalNetworkScanIndication (Some packet)) NASIncrementalNetwork
            (\<lambda>x. updateNASIncrementalScan now (Some x)) s
      | EventNASEventReport \<Rightarrow>
          if isEmptyNASEventReport evt then Some (s, [])
          else Some (s, [Emitted (with_meta evt (qmiIndicationEvent st NASEventReported evt))])
      | EventModemReset \<Rightarrow> Some (s, [Emitted (qmiIndicationEvent st ModemResetSeen evt), EnqueueModemReset ''qmi_indication''])
      | EventNewMessage \<Rightarrow> Some (s, [Emitted (new_message st evt)])
      | EventIMSRegistrationStatus \<Rightarrow>
          parsed_only st evt IMSRegistrationStatusChanged (ParseIMSARegistrationStatusChanged packet) IMSRegistration s
      | EventIMSServicesStatus \<Rightarrow> parsed_only st evt IMSServicesStatusChanged (ParseIMSAServicesStatusChanged packet) IMSServices s
      | EventIMSSettingsChanged \<Rightarrow> parsed_only st evt IMSSettingsChanged (ParseIMSServicesEnabledSetting packet) IMSSettings s
      | EventVoiceCallStatus \<Rightarrow> parsed_only st evt VoiceCallStatusChanged (ParseVoiceAllCallStatus packet) VoiceCalls s
      | EventVoiceSupplementaryService \<Rightarrow>
          parsed_only st evt VoiceSupplementaryService (ParseVoiceSupplementaryServiceIndication packet) VoiceSupplementary s
      | EventVoiceSupplementaryServiceRequest \<Rightarrow>
          parsed_only st evt VoiceSupplementaryServiceRequested (ParseVoiceSupplementaryServiceRequestIndication packet) VoiceSupplementaryRequest s
      | EventUSSD \<Rightarrow> parsed_only st evt VoiceUSSDReceived (ParseVoiceUSSDIndication packet) VoiceUSSD s
      | EventVoiceUSSDReleased \<Rightarrow> Some (s, [Emitted (qmiIndicationEvent st VoiceUSSDReleased evt)])
      | EventVoiceUSSDNoWaitResult \<Rightarrow> parsed_only st evt VoiceUSSDNoWaitResult (ParseVoiceUSSDNoWaitIndication packet) VoiceUSSDNoWait s
      | EventSimStatusChanged \<Rightarrow>
          Some (ResetIdentities False s, [PreWarmIdentities False, Emitted (qmiIndicationEvent st SimStatusChanged evt)])
      | EventUIMSessionClosed \<Rightarrow>
          Some (s, [MarkWMSReadinessStale, Emitted (with_meta evt (qmiIndicationEvent st UIMSessionClosed evt))])
      | EventUIMRefresh \<Rightarrow>
          doing [PreWarmIdentities False]
            (parsed_event st evt UIMRefreshed True (ParseUIMRefreshIndication (Some packet)) UIMRefreshPayload
              (\<lambda>x. updateUIMRefresh now (Some x)) (ResetIdentities False s))
      | EventUIMSlotStatus \<Rightarrow>
          parsed_event st evt UIMSlotStatusChanged True (ParseUIMSlotStatusIndication (Some packet)) UIMSlotStatusPayload
            (\<lambda>x. updateUIMSlotStatus now (Some x)) s
      | EventWMSTransportNetworkRegistrationStatus \<Rightarrow> handle_wms_transport st evt s
      | EventUnknown \<Rightarrow> Some (s, [Emitted (with_meta evt (qmiIndicationEvent st UnknownIndication evt))]))"

section \<open>No indication stops the handler\<close>

lemma parsed_event_safe: "p \<noteq> None \<Longrightarrow> parsed_event st evt t meta p payload upd s \<noteq> None"
  by (auto simp: parsed_event_def Let_def split: option.splits sum.splits)

lemma parsed_only_safe: "p \<noteq> None \<Longrightarrow> parsed_only st evt t p payload s \<noteq> None"
  by (auto simp: parsed_only_def split: option.splits sum.splits)

lemma doing_safe: "r \<noteq> None \<Longrightarrow> doing before r \<noteq> None"
  by (simp add: doing_def)

end
