(* ===== verification/DispatchProofs.thy ===== *)
theory DispatchProofs
  imports Dispatch
begin

text \<open>
  No indication stops the handler; what subscribers learn of the serving system agrees with the cache over every run of
  indications; a cached network code is never lost.
\<close>

lemma nas_indications_safe:
  "ParseServingSystemIndication p \<noteq> None" "ParseSysInfoIndication p \<noteq> None" "ParseOperatorNameIndication p \<noteq> None"
  "ParseSignalInfoIndication p \<noteq> None" "ParseNetworkTimeIndication q \<noteq> None"
  "ParseNetworkRejectIndication q \<noteq> None" "ParseIncrementalNetworkScanIndication q \<noteq> None"
  using nas_never_panics[of p _ q]
  by (simp_all only: ParseServingSystemIndication_def ParseOperatorNameIndication_def ParseSignalInfoIndication_def simp_thms)

lemma cell_indication_safe: "ParseCellLocationInfoIndication q \<noteq> None"
  using nas_never_panics by (cases q) (simp_all only: ParseCellLocationInfoIndication_def option.case simp_thms, simp)

lemma wds_indication_safe: "ParsePacketServiceStatusIndication p \<noteq> None"
  unfolding ParsePacketServiceStatusIndication_def by (rule wds_never_panics[THEN conjunct1])

lemma ims_indications_safe: "ParseIMSARegistrationStatusChanged p \<noteq> None" "ParseIMSAServicesStatusChanged p \<noteq> None"
  "ParseIMSServicesEnabledSetting p \<noteq> None"
  using wda_ims_never_panic[of p] by (simp_all only: ParseIMSARegistrationStatusChanged_def simp_thms)

lemma voice_indications_safe: "ParseVoiceAllCallStatus p \<noteq> None" "ParseVoiceSupplementaryServiceIndication p \<noteq> None"
  "ParseVoiceSupplementaryServiceRequestIndication p \<noteq> None" "ParseVoiceUSSDIndication p \<noteq> None"
  "ParseVoiceUSSDNoWaitIndication p \<noteq> None"
  using voice_never_panics[of p] by (simp_all only: simp_thms)

lemma wms_indication_safe: "ParseWMSTransportNetworkRegistrationStatusIndication p \<noteq> None"
  using wms_never_panics[of p] by (simp only: simp_thms)

lemmas indications_safe = nas_indications_safe cell_indication_safe wds_indication_safe ims_indications_safe
  voice_indications_safe wms_indication_safe uim_responses_safe(3,4)

lemma handle_serving_safe: "handle_serving st now evt s \<noteq> None"
proof -
  obtain r i where "ParseServingSystemIndication (ev_Packet evt) = Some r" "ParseSysInfoIndication (ev_Packet evt) = Some i"
    using nas_indications_safe(1,2) by blast
  then show ?thesis by (cases r; cases i) (simp_all add: handle_serving_def update_sys_info_def Let_def)
qed

lemma handleIndication_total: "\<exists>s' acts. handleIndication st now evt s = Some (s', acts)"
proof -
  have "handleIndication st now evt s \<noteq> None"
    by (cases "ev_Type evt")
      (simp_all add: handleIndication_def handle_wms_transport_def Let_def handle_serving_safe
        parsed_event_safe parsed_only_safe doing_safe indications_safe del: not_None_eq)
  then show ?thesis by auto
qed

section \<open>What subscribers learn of the serving system\<close>

fun last_served :: "ind_action list \<Rightarrow> ServingSystem option" where
  "last_served [] = None"
| "last_served (a # acts) =
     (case last_served acts of
        Some info \<Rightarrow> Some info
      | None \<Rightarrow> (case a of Emitted e \<Rightarrow> (case me_Payload e of ServingSystemPayload info \<Rightarrow> Some info | _ \<Rightarrow> None) | _ \<Rightarrow> None))"

lemma last_served_append [simp]:
  "last_served (xs @ ys) = (case last_served ys of Some info \<Rightarrow> Some info | None \<Rightarrow> last_served xs)"
  by (induction xs) (auto split: option.splits)

lemma indication_payload [simp]: "me_Payload (qmiIndicationEvent st t evt) = NoPayload"
  "me_Payload (with_meta evt e) = me_Payload e"
  by (simp_all add: qmiIndicationEvent_def with_meta_def)

lemma serving_actions_silent [simp]: "last_served (serving_actions previous info) = None"
  by (simp add: serving_actions_def)

lemma parsed_serving_zero:
  assumes "ParseServingSystemIndication p = Some (Inr info)"
  shows "FindTLV (pkt_TLVs p) 0x01 = None \<Longrightarrow> \<not> sv_PSAttached info \<and> sv_RadioInterface info = 0"
    and "FindTLV (pkt_TLVs p) 0x12 = None \<Longrightarrow> sv_MCC info = 0 \<and> sv_MNC info = 0"
  using assms
  by (auto simp: ParseServingSystemIndication_def parseServingSystemPacket_def with_tlv_def ok_def parse_serving_system_tlv_def
      Let_def split: option.splits if_splits bind_splits)

text \<open>Whether an operation kept the cached serving system and announced none, or announced the one that is cached afterwards;
  with nothing cached, an announcement may also leave the cache empty.\<close>

definition serving_agrees :: "DeviceSnapshot \<Rightarrow> DeviceSnapshot \<times> ind_action list \<Rightarrow> bool" where
  "serving_agrees s r \<longleftrightarrow>
     (case last_served (snd r) of
        None \<Rightarrow> sn_serving (fst r) = sn_serving s
      | Some info \<Rightarrow> tm_value (sn_serving (fst r)) = Some info \<or>
          tm_value (sn_serving s) = None \<and> sn_serving (fst r) = sn_serving s)"

lemma apply_serving_agrees:
  assumes "ParseServingSystemIndication p = Some (Inr info0)" "hs = (FindTLV (pkt_TLVs p) 0x01 \<noteq> None)"
    and "hp = (FindTLV (pkt_TLVs p) 0x12 \<noteq> None \<and> \<not> (sv_MCC info0 = 0 \<and> sv_MNC info0 = 0))"
    and "info = complete_serving hs hp info0 (tm_value (sn_serving s))"
  shows "hs \<or> hp \<Longrightarrow> tm_value (sn_serving (apply_serving now hs hp info s)) = Some info"
    and "\<not> hs \<and> \<not> hp \<Longrightarrow> sn_serving (apply_serving now hs hp info s) = sn_serving s"
  using assms(2-) parsed_serving_zero[OF assms(1)]
  by (cases info0; auto simp: apply_serving_def complete_serving_def updateServingRegistration_def updateServingPLMN_def
      when_given_def store_timed_def current_serving_def zero_serving_def Let_def split: option.splits)+

lemma changed_needs_news: "\<not> serving_changed hs hp info current \<or> hs \<or> hp \<or> current = None"
  by (cases current; cases hs; cases hp) (simp_all add: serving_changed_def)

lemma update_sys_info_serving: "update_sys_info now evt s = Some s' \<Longrightarrow> sn_serving s' = sn_serving s"
  by (auto simp: update_sys_info_def updateSysInfo_def when_given_def split: if_splits option.splits sum.splits)

lemma handle_serving_agrees:
  assumes "handle_serving st now evt s = Some r" shows "serving_agrees s r"
proof -
  obtain s1 where s1: "update_sys_info now evt s = Some s1" "sn_serving s1 = sn_serving s"
    using assms update_sys_info_serving by (auto simp: handle_serving_def split: option.splits)
  obtain x where x: "ParseServingSystemIndication (ev_Packet evt) = Some x" using nas_indications_safe(1) by blast
  let ?hs = "FindTLV (pkt_TLVs (ev_Packet evt)) 0x01 \<noteq> None"
  show ?thesis
  proof (cases x)
    case (Inl err)
    then show ?thesis using assms s1 x
      by (auto simp: handle_serving_def Let_def serving_agrees_def split: if_splits)
  next
    case (Inr info0)
    let ?hp = "FindTLV (pkt_TLVs (ev_Packet evt)) 0x12 \<noteq> None \<and> \<not> (sv_MCC info0 = 0 \<and> sv_MNC info0 = 0)"
    let ?info = "complete_serving ?hs ?hp info0 (tm_value (sn_serving s1))"
    note agree = apply_serving_agrees[OF x[unfolded Inr] refl refl refl, of now s1]
    consider "\<not> serving_changed ?hs ?hp info0 (tm_value (sn_serving s1))"
      | "serving_changed ?hs ?hp info0 (tm_value (sn_serving s1))" "?hs \<or> ?hp"
      | "tm_value (sn_serving s1) = None" "\<not> ?hs \<and> \<not> ?hp"
      using changed_needs_news[of ?hs ?hp info0 "tm_value (sn_serving s1)"] by argo
    then show ?thesis
    proof cases
      case 1
      then show ?thesis using assms s1 x Inr by (auto simp: handle_serving_def Let_def serving_agrees_def split: if_splits)
    next
      case 2
      then have "(?hs \<or> FindTLV (pkt_TLVs (ev_Packet evt)) 0x12 \<noteq> None)" by blast
      with 2 have "r = (apply_serving now ?hs ?hp ?info s1, serving_actions (tm_value (sn_serving s1)) ?info @
          [Emitted ((qmiIndicationEvent st ServingSystemChanged evt)\<lparr>me_Payload := ServingSystemPayload ?info\<rparr>), Queue eventServingSystemChanged])"
        using assms s1 x Inr by (auto simp: handle_serving_def Let_def split: if_splits)
      then show ?thesis using agree(1) 2(2) by (simp add: serving_agrees_def)
    next
      case 3
      then show ?thesis using assms s1 x Inr agree(2)
        by (auto simp: handle_serving_def Let_def serving_agrees_def split: if_splits)
    qed
  qed
qed

definition serving_kept :: "DeviceSnapshot \<Rightarrow> DeviceSnapshot \<times> ind_action list \<Rightarrow> bool" where
  "serving_kept s r \<longleftrightarrow> sn_serving (fst r) = sn_serving s \<and> last_served (snd r) = None"

lemma parsed_event_kept:
  assumes "parsed_event st evt t meta p payload upd s = Some r" "\<And>x. sn_serving (upd x s) = sn_serving s"
    and "\<And>x info. payload x \<noteq> ServingSystemPayload info"
  shows "serving_kept s r"
  using assms
  by (auto simp: parsed_event_def serving_kept_def Let_def split: option.splits sum.splits event_payload.splits if_splits)

lemma parsed_only_kept:
  assumes "parsed_only st evt t p payload s = Some r" "\<And>x info. payload x \<noteq> ServingSystemPayload info"
  shows "serving_kept s r"
  using assms by (auto simp: parsed_only_def serving_kept_def split: option.splits sum.splits event_payload.splits)

lemma doing_kept:
  assumes "doing before r0 = Some r" "\<And>r1. r0 = Some r1 \<Longrightarrow> serving_kept s r1" "last_served before = None"
  shows "serving_kept s r"
  using assms by (auto simp: doing_def serving_kept_def)

lemma updates_keep_serving:
  "sn_serving (updateNASOperatorName now x s) = sn_serving s" "sn_serving (updateNASNetworkTime now x1 s) = sn_serving s"
  "sn_serving (updateNASSignalInfo now x2 s) = sn_serving s" "sn_serving (updateNASCellLocationInfo now x3 s) = sn_serving s"
  "sn_serving (updateNASNetworkReject now x4 s) = sn_serving s" "sn_serving (updateNASIncrementalScan now x5 s) = sn_serving s"
  "sn_serving (updateUIMRefresh now x6 s) = sn_serving s" "sn_serving (updateUIMSlotStatus now x7 s) = sn_serving s"
  "sn_serving (ResetIdentities b s) = sn_serving s" "sn_serving (no_update y s) = sn_serving s"
  by (simp_all add: Snapshot.update_defs ResetIdentities_def no_update_def Let_def split: option.split)

lemma new_message_silent: "me_Payload (new_message st evt) \<noteq> ServingSystemPayload info"
  by (auto simp: new_message_def raw_sms_def Let_def split: option.split)

lemma serving_kept_plain: "serving_kept s (s', []) = (sn_serving s' = sn_serving s)"
  "(\<And>info. me_Payload e \<noteq> ServingSystemPayload info) \<Longrightarrow> serving_kept s (s', [Emitted e]) = (sn_serving s' = sn_serving s)"
  "serving_kept s (s', acts @ [Queue q]) = serving_kept s (s', acts)"
  "serving_kept s (s', [PreWarmIdentities b, Emitted e]) = serving_kept s (s', [Emitted e])"
  "serving_kept s (s', [MarkWMSReadinessStale, Emitted e]) = serving_kept s (s', [Emitted e])"
  "serving_kept s (s', [Emitted e, EnqueueModemReset reason]) = serving_kept s (s', [Emitted e])"
  "serving_kept (ResetIdentities c s) r = serving_kept s r"
  by (auto simp: serving_kept_def updates_keep_serving split: event_payload.split option.split)

lemma wms_transport_kept:
  assumes "handle_wms_transport st evt s = Some r" shows "serving_kept s r"
  using assms unfolding handle_wms_transport_def Let_def
  by (rule doing_kept) (auto elim!: parsed_event_kept simp: updates_keep_serving split: option.split sum.split)

lemma handleIndication_kept:
  assumes "handleIndication st now evt s = Some r" "ev_Type evt \<noteq> EventServingSystemChanged"
  shows "serving_kept s r"
proof -
  have refreshed: "parsed_event st evt t meta p UIMRefreshPayload (\<lambda>x. updateUIMRefresh now (Some x)) (ResetIdentities False s) = Some r1
      \<Longrightarrow> serving_kept s r1" for t meta p r1
    using parsed_event_kept[of st evt t meta p UIMRefreshPayload _ "ResetIdentities False s" r1]
    by (simp add: updates_keep_serving serving_kept_plain)
  show ?thesis using assms
    by (cases "ev_Type evt")
      (auto simp: handleIndication_def Let_def serving_kept_plain new_message_silent updates_keep_serving
          simp del: option.map_sel map_option_eq_Some intro: refreshed wms_transport_kept elim!: parsed_event_kept parsed_only_kept doing_kept split: if_splits)
qed

lemma handleIndication_agrees: "handleIndication st now evt s = Some r \<Longrightarrow> serving_agrees s r"
  using handle_serving_agrees[of st now evt s r] handleIndication_kept[of st now evt s r]
  by (cases "ev_Type evt = EventServingSystemChanged") (simp_all add: handleIndication_def serving_agrees_def serving_kept_def)

section \<open>Runs\<close>

text \<open>The handler's loop over the indications that arrive, each with the time at which it is handled.\<close>

fun handle_all :: "State \<Rightarrow> (int \<times> Event) list \<Rightarrow> DeviceSnapshot \<Rightarrow> (DeviceSnapshot \<times> ind_action list) option" where
  "handle_all st [] s = Some (s, [])"
| "handle_all st ((now, evt) # evts) s =
     (case handleIndication st now evt s of
        None \<Rightarrow> None
      | Some (s1, acts) \<Rightarrow> doing acts (handle_all st evts s1))"

definition known_plmn :: "DeviceSnapshot \<Rightarrow> bool" where
  "known_plmn s = (case tm_value (sn_serving s) of None \<Rightarrow> False | Some v \<Rightarrow> sv_MCC v \<noteq> 0 \<or> sv_MNC v \<noteq> 0)"

lemma apply_serving_plmn: "known_plmn s \<Longrightarrow> known_plmn (apply_serving now hs hp info s)"
  by (auto simp: known_plmn_def apply_serving_def updateServingRegistration_def updateServingPLMN_def when_given_def
      store_timed_def current_serving_def Let_def split: option.splits)

lemma handleIndication_plmn:
  assumes "handleIndication st now evt s = Some (s', acts)" "known_plmn s" shows "known_plmn s'"
proof (cases "ev_Type evt = EventServingSystemChanged")
  case True
  then have "handle_serving st now evt s = Some (s', acts)" using assms(1) by (simp add: handleIndication_def)
  then obtain s1 where s1: "sn_serving s1 = sn_serving s" "s' = s1 \<or> (\<exists>hs hp info. s' = apply_serving now hs hp info s1)"
    by (auto simp: handle_serving_def Let_def dest: update_sys_info_serving split: option.splits sum.splits if_splits)
  then have "known_plmn s1" using assms(2) by (simp add: known_plmn_def)
  then show ?thesis using s1(2) apply_serving_plmn by blast
next
  case False
  then show ?thesis using handleIndication_kept[OF assms(1)] assms(2) by (simp add: serving_kept_def known_plmn_def)
qed

lemma handle_all_run:
  "\<exists>s' acts. handle_all st evts s = Some (s', acts) \<and> (known_plmn s \<longrightarrow> known_plmn s') \<and>
     (case last_served acts of
        None \<Rightarrow> sn_serving s' = sn_serving s
      | Some info \<Rightarrow> tm_value (sn_serving s') = Some info \<or> tm_value (sn_serving s) = None \<and> sn_serving s' = sn_serving s)"
proof (induction evts arbitrary: s)
  case (Cons x evts)
  obtain now evt where x: "x = (now, evt)" by (cases x)
  obtain s1 a where 1: "handleIndication st now evt s = Some (s1, a)" using handleIndication_total by blast
  from Cons.IH[of s1] obtain s2 b where 2: "handle_all st evts s1 = Some (s2, b)" "known_plmn s1 \<longrightarrow> known_plmn s2"
    "case last_served b of None \<Rightarrow> sn_serving s2 = sn_serving s1
     | Some info \<Rightarrow> tm_value (sn_serving s2) = Some info \<or> tm_value (sn_serving s1) = None \<and> sn_serving s2 = sn_serving s1" by blast
  have "serving_agrees s (s1, a)" by (rule handleIndication_agrees[OF 1])
  then show ?case using 1 2 handleIndication_plmn[OF 1]
    by (auto simp: x doing_def serving_agrees_def split: option.splits)
qed simp

text \<open>C15: Whatever indications arrive, no packet stops the handler, and what subscribers were last told of the serving system is
  what the manager has cached; only while nothing is cached may they have been told of a network that is not kept.\<close>

theorem subscribers_see_serving_system:
  assumes "tm_value (sn_serving s) = None"
  shows "\<exists>s' acts. handle_all st evts s = Some (s', acts) \<and> tm_value (sn_serving s') \<in> {None, last_served acts}"
  using handle_all_run[of st evts s] assms by (fastforce split: option.splits)

text \<open>A cached network code is never lost to indications: none of them, malformed or null, puts back the null code.\<close>

theorem known_plmn_kept:
  assumes "known_plmn s"
  shows "\<exists>s' acts. handle_all st evts s = Some (s', acts) \<and> known_plmn s'"
  using handle_all_run[of st evts s] assms by blast

definition plmn_indication :: "u16 \<Rightarrow> Event" where
  "plmn_indication mcc = \<lparr>ev_Type = EventServingSystemChanged, ev_ServiceID = 3, ev_MessageID = 0x24,
     ev_Packet = \<lparr>pkt_ServiceType = 3, pkt_ClientID = 1, pkt_TransactionID = 0, pkt_MessageID = 0x24, pkt_IsIndication = True,
       pkt_TLVs = [\<lparr>tlv_Type = 1, tlv_Value = [1, 1, 1]\<rparr>, \<lparr>tlv_Type = 0x12, tlv_Value = PutUint16 mcc @ [1, 0]\<rparr>]\<rparr>\<rparr>"

theorem subscribers_see_serving_system_witness:
  "\<exists>s' acts. handle_all StateConnected [(0, plmn_indication 460), (1, plmn_indication 0)] empty_snapshot = Some (s', acts) \<and>
     tm_value (sn_serving s') \<in> {None, last_served acts}"
  by (rule subscribers_see_serving_system) (simp add: empty_snapshot_def no_timed_def)

theorem known_plmn_kept_witness:
  "\<exists>s' acts. handle_all StateConnected [(1, plmn_indication 0)] (updateServingPLMN 0 460 1 empty_snapshot) = Some (s', acts) \<and> known_plmn s'"
  by (rule known_plmn_kept) (simp add: known_plmn_def updateServingPLMN_def store_timed_def empty_snapshot_def no_timed_def)

section \<open>Messages that arrive directly\<close>

text \<open>A message whose length field is right is delivered as its bytes; one whose length field announces more than there is comes
  with the two bytes of that field in front.\<close>

lemma raw_sms_delivery:
  fixes t :: u32
  shows "raw_sms ([ack] @ PutUint32 t @ [fmt] @ PutUint16 n @ data) =
    SMSRaw (if unat n \<le> length data then take (unat n) data else PutUint16 n @ data) (ack = 0) t fmt"
proof -
  obtain a b where n: "PutUint16 n = [a, b]" by (auto simp: PutUint16_def)
  obtain c d e f where t: "PutUint32 t = [c, d, e, f]" by (auto simp: PutUint32_def)
  have "Uint16 [a, b] = n" "Uint32 [c, d, e, f] = t" using Uint16_PutUint16_exact[of n] Uint32_PutUint32[of t "[]"] by (simp_all add: n t)
  then show ?thesis by (simp add: raw_sms_def n t go_slice_def numeral_eq_Suc)
qed

end
