(* ===== verification/Spec2Isabelle.thy ===== *)
theory Spec2Isabelle
  imports CardGate ClientSteps IndicationLoop QrtrTransport RecoveryProofs Wds NasProofs Dms Wms Voice
    WdaIms Smsc SmsPdu DataCallProofs Readiness ImsProbe LifecycleProofs DispatchProofs
begin

text \<open>
  A verification of qmi-go, a Go library that drives Qualcomm modems over the QMI protocol.

  \<^bold>\<open>The program.\<close> \<^verbatim>\<open>src/pkg/qmi\<close> speaks the protocol: \<^verbatim>\<open>frame.go\<close> encodes and decodes packets, \<^verbatim>\<open>client.go\<close> runs
  a reader goroutine that cuts frames out of the byte stream of a transport, hands responses to the
  requests that wait for them and indications to an indication loop; \<^verbatim>\<open>ctl.go\<close> asks for service versions;
  \<^verbatim>\<open>qrtr_transport_linux.go\<close> emulates the control service on top of QRTR sockets, so that the client
  above it sees an ordinary QMUX device. \<^verbatim>\<open>src/pkg/manager\<close> keeps a modem usable: it opens the client,
  allocates a client identifier per service, rebinds services that fail, and runs a core recovery
  when the modem resets; operations on the SIM card pass through an access gate.

  \<^bold>\<open>The theories.\<close>
  \<^item> \<open>Prelude\<close>, \<open>GoStrings\<close>: machine words, byte slices and their encodings, association lists, the string
    functions of Go. Strings are the bytes of their UTF-8 text; case mapping is modelled for
    ASCII letters.
  \<^item> \<open>Frame\<close> (\<^verbatim>\<open>frame.go\<close>): the two header formats, TLVs, packets and result TLVs, byte for byte. Encoding
    then decoding is the identity on well-formed packets, truncated input is refused, and the
    TLV parser accepts exactly the encodings.
  \<^item> \<open>Errors\<close> (\<^verbatim>\<open>errors.go\<close>): error values as trees, the traversal of \<^verbatim>\<open>errors.Is\<close> and \<^verbatim>\<open>errors.As\<close>, and texts.
  \<^item> \<open>RxStream\<close> (\<^verbatim>\<open>client.go\<close>, \<^verbatim>\<open>readLoop\<close>): the loop that cuts frames and skips garbage. The locale
    \<open>stream_framer\<close> states when a framer does not depend on read boundaries; the loop of the
    source refines such a framer, so that a stream of packets is reassembled however it is split.
  \<^item> \<open>Ctl\<close> (\<^verbatim>\<open>ctl.go\<close>): the version list.
  \<^item> \<open>Indication\<close>, \<open>IndicationLoop\<close> (\<^verbatim>\<open>client.go\<close>): coalescing keys, the store of coalesced events (a
    locale gives its contract, interpreted on the store), the queue, and the interleaving of the reader
    with the indication loop: no wake-up is lost, and the newest event per key survives.
  \<^item> \<open>ClientCore\<close>, \<open>ClientSteps\<close> (\<^verbatim>\<open>client.go\<close>): transaction identifiers, the table of pending requests, recent
    transactions, client identifiers, received packets; then every interleaving of requests, reader, read
    failure and \<^verbatim>\<open>Close\<close>. Responses reach the request they answer, no channel is closed
    twice or written after its close, and a failure wakes every waiter.
  \<^item> \<open>QrtrWire\<close>, \<open>QrtrTransport\<close> (\<^verbatim>\<open>qrtr_wire.go\<close>, \<^verbatim>\<open>qrtr_transport_linux.go\<close>): control packets, the service
    table, the emulated control service, the data path and \<^verbatim>\<open>Close\<close>. Requests written as
    packets are answered by packets end to end, and no socket is leaked.
  \<^item> \<open>CardGate\<close> (\<^verbatim>\<open>card_access_gate.go\<close>): the gate as a transition system over its critical sections:
    exclusion, progress, and quiet windows in the order of their tickets.
  \<^item> \<open>ModemReset\<close> (\<^verbatim>\<open>uim_recovery.go\<close>, \<^verbatim>\<open>manager.go\<close>): how modem resets are queued, debounced, deferred and
    coalesced, interleaved section by section with each other and with the stops of the timers: a pending reset is carried
    by something, unless its timer was stopped, which loses it.
  \<^item> \<open>ServiceRecovery\<close>, \<open>RecoveryProofs\<close> (\<^verbatim>\<open>service_recovery.go\<close>, \<^verbatim>\<open>uim_recovery.go\<close>): error classification, timeout
    windows, the storm detector, core-recovery signals, lazy allocation, rebind and retry for
    seven services. The locale \<open>recovery_keeps\<close> lifts what each piece keeps to the whole wrapper: an identifier that is
    neither held nor released is one whose release failed, and the function is called at most twice.
  \<^item> \<open>GoParse\<close>: checked slice accesses, little-endian readers, TLV fields, service methods as functions that send
    requests and parse the responses; the rules \<open>safe\<close> show that a parser does not panic.
  \<^item> \<open>Wds\<close> (\<^verbatim>\<open>wds.go\<close>, \<^verbatim>\<open>wds_active_apn.go\<close>): data calls, profiles, runtime settings; the choice of the IMS profile.
  \<^item> \<open>NasBands\<close>, \<open>NasData\<close>, \<open>Nas\<close>, \<open>NasProofs\<close> (\<^verbatim>\<open>nas.go\<close>, \<^verbatim>\<open>plmn.go\<close>): band tables, registration, signal, cells,
    scans; networks come out with the digits that were put in.
  \<^item> \<open>SimText\<close>, \<open>Uim\<close>, \<open>UimProofs\<close> (\<^verbatim>\<open>uim.go\<close>): the text and number formats of SIM files, card status, slots,
    records, logical channels, PINs and refresh; septets are unpacked as the number the bytes make, and the
    home network is the one of the IMSI.
  \<^item> \<open>Wms\<close> (\<^verbatim>\<open>wms.go\<close>), \<open>Dms\<close> (\<^verbatim>\<open>dms.go\<close>), \<open>Voice\<close> (\<^verbatim>\<open>voice.go\<close>), \<open>WdaIms\<close> (\<^verbatim>\<open>wda.go\<close>, \<^verbatim>\<open>ims.go\<close>, \<^verbatim>\<open>imsa.go\<close>,
    \<^verbatim>\<open>imsp.go\<close>): messages and routes; the device, its locks and its card; calls and USSD; data formats and IMS settings.
  For each of these services no packet whatever makes a parser panic, with one exception that is
  characterised exactly (a length that wraps in the transparent read of \<^verbatim>\<open>uim.go\<close>).
  \<^item> \<open>Snapshot\<close> (\<^verbatim>\<open>snapshot.go\<close>): the cached state of the modem; its readiness flags follow from its contents, identities
    read before a reset are refused, scans merge by network.
  \<^item> \<open>Smsc\<close> (\<^verbatim>\<open>smsc.go\<close>), \<open>SmsPdu\<close> (\<^verbatim>\<open>sms_trim.go\<close> and the sending functions of \<^verbatim>\<open>manager.go\<close>): the SMS centre read from
    the card's files over every path; stored messages trimmed to their declared length.
  \<^item> \<open>DataPlane\<close>, \<open>Pdn\<close> (\<^verbatim>\<open>data_plane.go\<close>, \<^verbatim>\<open>pdn_session.go\<close>): convergence of the multiplexing topology, leases, sessions of
    further networks; what is held is exactly what the live sessions need, whichever step fails, and nothing is given back twice.
  \<^item> \<open>DataCall\<close>, \<open>DataCallProofs\<close> (\<^verbatim>\<open>manager.go\<close>, \<^verbatim>\<open>default_data_bearer.go\<close>, \<^verbatim>\<open>data_config.go\<close>, \<^verbatim>\<open>dual_stack_dial.go\<close>,
    \<^verbatim>\<open>selected_data_apn.go\<close>): dialling, network configuration, status checks, retries, rotation, bearers and
    reconfiguration; a failed change puts back what was there. Two locales, over what is wished and over what
    the radio holds, carry the proofs from the single steps to the operations.
  \<^item> \<open>Readiness\<close> (\<^verbatim>\<open>uim_readiness.go\<close>, \<^verbatim>\<open>uim_provisioning.go\<close>): the classification of the card and the bounded attempts
    to make it usable.
  \<^item> \<open>Lifecycle\<close>, \<open>LifecycleProofs\<close> (\<^verbatim>\<open>manager.go\<close>): start, stop, clean-up and recovery of the core over numbered
    clients: the manager holds the one client that is open, its services are on it, and retries are bounded; with
    the runs in which the code does not keep this.
  \<^item> \<open>Dispatch\<close>, \<open>DispatchProofs\<close> (\<^verbatim>\<open>manager.go\<close>, \<^verbatim>\<open>handleIndication\<close>): every indication parsed, cached, passed on and
    acted on; what subscribers hear of the serving system is what is cached, over every run of indications.
  \<^item> \<open>ImsProbe\<close> (\<^verbatim>\<open>ims_probe.go\<close>): the admission and blocking of probes of the IMS network, and the calls of one probe.

  \<^bold>\<open>Conventions.\<close> A struct is a record, a goroutine the steps of an inductive relation with one step per
  stretch of code under a lock or per channel operation, a Go map an association list where its
  size or order matters and a partial function elsewhere. Error returns are the left of a sum or an
  option; a panic is a flag of the state that is proved never to be set; blocking forever is
  \<^term>\<open>None\<close>. Times are integers in nanoseconds; machine integers keep their width where the code lets
  them wrap (transaction identifiers, client identifiers, lengths, counters). Loops are structural or
  carry a termination proof; no definition uses fuel. What is outside the process enters as a
  parameter: the answers of sockets (\<open>qrtr_env\<close>), the modem's answer to an allocation (\<open>world\<close>), the
  operation that runs under a recovery.

  \<^bold>\<open>Not modelled.\<close> Operating-system calls, logging, contexts other than as the choice to give up,
  and test hooks. Of the manager: the wrappers of \<^verbatim>\<open>device_query.go\<close> that only pass a call on, and the pool of modems. Device discovery, network configuration and the command-line programs are input
  and output around these and stay out.
\<close>

end
